(* ===== verification/Prelude.thy ===== *)
theory Prelude
  imports Main "HOL-Library.Char_ord" "HOL-Library.List_Lexorder"
begin

text \<open>
  Shared vocabulary of the development: errors as values, the state-and-error actions the
  components are written in, tables as lists of rows, and the proof rules for them.

  An action takes the project state and returns either an error or a value with the new state. The
  error carries no state: a raise inside \<open>with lease.transaction(...)\<close> rolls the SQLite
  transaction back (src/.../storage.py, src/.../lane_transactions.py), so the caller sees the
  state from before. Operations of several transactions are processes: they keep the state that
  was committed before the error.
\<close>

section \<open>Errors and actions\<close>

text \<open>
  \<open>LaneError c\<close> is the exception of errors.py with its code; \<open>Raised k\<close> is any other exception,
  by its class name (ValueError from a contract's validator, IntegrityError from SQLite).
\<close>

datatype error = LaneError string | Raised string

type_synonym 'a result = "error + 'a"
type_synonym ('s, 'a) action = "'s \<Rightarrow> error + 'a \<times> 's"
type_synonym ('s, 'a) process = "'s \<Rightarrow> (error + 'a) \<times> 's"

definition ret :: "'a \<Rightarrow> ('s, 'a) action" where
  "ret a = (\<lambda>s. Inr (a, s))"

definition bnd :: "('s, 'a) action \<Rightarrow> ('a \<Rightarrow> ('s, 'b) action) \<Rightarrow> ('s, 'b) action" where
  "bnd m f = (\<lambda>s. case m s of Inl e \<Rightarrow> Inl e | Inr (a, s') \<Rightarrow> f a s')"

definition abort :: "error \<Rightarrow> ('s, 'a) action" where
  "abort e = (\<lambda>s. Inl e)"

definition raise :: "string \<Rightarrow> ('s, 'a) action" where
  "raise code = abort (LaneError code)"

text \<open>\<open>require ok code\<close> is \<open>if not ok: raise LaneError(code)\<close>.\<close>

definition require :: "bool \<Rightarrow> string \<Rightarrow> ('s, unit) action" where
  "require ok code = (if ok then ret () else raise code)"

definition demand :: "'a option \<Rightarrow> string \<Rightarrow> ('s, 'a) action" where
  "demand x code = (case x of None \<Rightarrow> raise code | Some a \<Rightarrow> ret a)"

definition gets :: "('s \<Rightarrow> 'a) \<Rightarrow> ('s, 'a) action" where
  "gets f = (\<lambda>s. Inr (f s, s))"

definition modify :: "('s \<Rightarrow> 's) \<Rightarrow> ('s, unit) action" where
  "modify f = (\<lambda>s. Inr ((), f s))"

definition lift_result :: "'a result \<Rightarrow> ('s, 'a) action" where
  "lift_result r = (case r of Inl e \<Rightarrow> abort e | Inr a \<Rightarrow> ret a)"

primrec each :: "('a \<Rightarrow> ('s, unit) action) \<Rightarrow> 'a list \<Rightarrow> ('s, unit) action" where
  "each f [] = ret ()"
| "each f (x # xs) = bnd (f x) (\<lambda>_. each f xs)"

primrec collect :: "('a \<Rightarrow> ('s, 'b) action) \<Rightarrow> 'a list \<Rightarrow> ('s, 'b list) action" where
  "collect f [] = ret []"
| "collect f (x # xs) = bnd (f x) (\<lambda>y. bnd (collect f xs) (\<lambda>ys. ret (y # ys)))"

definition rbind :: "'a result \<Rightarrow> ('a \<Rightarrow> 'b result) \<Rightarrow> 'b result" where
  "rbind r f = (case r of Inl e \<Rightarrow> Inl e | Inr a \<Rightarrow> f a)"

primrec rcollect :: "('a \<Rightarrow> 'b result) \<Rightarrow> 'a list \<Rightarrow> 'b list result" where
  "rcollect f [] = Inr []"
| "rcollect f (x # xs) = rbind (f x) (\<lambda>y. rbind (rcollect f xs) (\<lambda>ys. Inr (y # ys)))"

text \<open>A committed transaction of a process, and the sequencing of processes.\<close>

definition commit :: "('s, 'a) action \<Rightarrow> ('s, 'a) process" where
  "commit m = (\<lambda>s. case m s of Inl e \<Rightarrow> (Inl e, s) | Inr (a, s') \<Rightarrow> (Inr a, s'))"

definition pbind :: "('s, 'a) process \<Rightarrow> ('a \<Rightarrow> ('s, 'b) process) \<Rightarrow> ('s, 'b) process" where
  "pbind p f = (\<lambda>s. case p s of (Inl e, s') \<Rightarrow> (Inl e, s') | (Inr a, s') \<Rightarrow> f a s')"

section \<open>What a successful action did\<close>

text \<open>
  \<open>run_simps\<close> turns \<open>m s = Inr (a, s')\<close> into the conjunction of the guards that passed and the
  updates that were made, without case splits.
\<close>

named_theorems run_simps \<open>inversion of successful actions\<close>
named_theorems op_defs \<open>definitions of the modelled operations\<close>
named_theorems run_eval \<open>evaluation of concrete runs\<close>

lemma ret_Inr [run_simps]: "ret a s = Inr r \<longleftrightarrow> r = (a, s)"
  by (auto simp: ret_def)

lemma bnd_Inr [run_simps]: "bnd m f s = Inr r \<longleftrightarrow> (\<exists>a s'. m s = Inr (a, s') \<and> f a s' = Inr r)"
  by (auto simp: bnd_def split: sum.splits)

lemma abort_Inr [run_simps]: "abort e s = Inr r \<longleftrightarrow> False"
  by (simp add: abort_def)

lemma raise_Inr [run_simps]: "raise c s = Inr r \<longleftrightarrow> False"
  by (simp add: raise_def run_simps)

lemma require_Inr [run_simps]: "require ok c s = Inr r \<longleftrightarrow> ok \<and> r = ((), s)"
  by (simp add: require_def run_simps)

lemma demand_Inr [run_simps]: "demand x c s = Inr r \<longleftrightarrow> (\<exists>a. x = Some a \<and> r = (a, s))"
  by (cases x) (simp_all add: demand_def run_simps)

lemma gets_Inr [run_simps]: "gets f s = Inr r \<longleftrightarrow> r = (f s, s)"
  by (auto simp: gets_def)

lemma modify_Inr [run_simps]: "modify f s = Inr r \<longleftrightarrow> r = ((), f s)"
  by (auto simp: modify_def)

lemma lift_result_Inr [run_simps]: "lift_result x s = Inr r \<longleftrightarrow> (\<exists>a. x = Inr a \<and> r = (a, s))"
  by (cases x) (simp_all add: lift_result_def run_simps)

lemma rbind_Inr [run_simps]: "rbind x f = Inr r \<longleftrightarrow> (\<exists>a. x = Inr a \<and> f a = Inr r)"
  by (simp add: rbind_def split: sum.split)

lemma if_Inr [run_simps]:
  "(if c then m else n) s = Inr r \<longleftrightarrow> c \<and> m s = Inr r \<or> \<not> c \<and> n s = Inr r"
  by simp

lemma case_option_Inr [run_simps]:
  "(case x of None \<Rightarrow> m | Some a \<Rightarrow> f a) s = Inr r \<longleftrightarrow>
     x = None \<and> m s = Inr r \<or> (\<exists>a. x = Some a \<and> f a s = Inr r)"
  by (cases x) simp_all

text \<open>Evaluation in both directions, for error branches and concrete runs.\<close>

named_theorems eval_simps \<open>evaluation of actions\<close>

lemma ret_eval [eval_simps]: "ret a s = Inr (a, s)"
  by (simp add: ret_def)

lemma bnd_eval [eval_simps]:
  "bnd m f s = (case m s of Inl e \<Rightarrow> Inl e | Inr r \<Rightarrow> f (fst r) (snd r))"
  by (simp add: bnd_def split: sum.split prod.split)

lemma raise_eval [eval_simps]: "raise c s = Inl (LaneError c)"
  by (simp add: raise_def abort_def)

lemma abort_eval [eval_simps]: "abort e s = Inl e"
  by (simp add: abort_def)

lemma require_eval [eval_simps]:
  "require ok c s = (if ok then Inr ((), s) else Inl (LaneError c))"
  by (simp add: require_def eval_simps)

lemma demand_eval [eval_simps]:
  "demand x c s = (case x of None \<Rightarrow> Inl (LaneError c) | Some a \<Rightarrow> Inr (a, s))"
  by (simp add: demand_def eval_simps split: option.split)

lemma gets_eval [eval_simps]: "gets f s = Inr (f s, s)"
  by (simp add: gets_def)

lemma modify_eval [eval_simps]: "modify f s = Inr ((), f s)"
  by (simp add: modify_def)

lemma lift_result_eval [eval_simps]:
  "lift_result x s = (case x of Inl e \<Rightarrow> Inl e | Inr a \<Rightarrow> Inr (a, s))"
  by (simp add: lift_result_def eval_simps split: sum.split)

section \<open>Hoare triples for successful runs\<close>

definition valid :: "('s \<Rightarrow> bool) \<Rightarrow> ('s, 'a) action \<Rightarrow> ('a \<Rightarrow> 's \<Rightarrow> bool) \<Rightarrow> bool" where
  "valid P m Q \<longleftrightarrow> (\<forall>s a s'. P s \<longrightarrow> m s = Inr (a, s') \<longrightarrow> Q a s')"

abbreviation keeps :: "('s \<Rightarrow> bool) \<Rightarrow> ('s, 'a) action \<Rightarrow> bool" where
  "keeps I m \<equiv> valid I m (\<lambda>_. I)"

named_theorems keeps_rules \<open>composition rules for preserved invariants\<close>

lemma validI: "(\<And>s a s'. P s \<Longrightarrow> m s = Inr (a, s') \<Longrightarrow> Q a s') \<Longrightarrow> valid P m Q"
  by (simp add: valid_def)

lemma validD: "valid P m Q \<Longrightarrow> P s \<Longrightarrow> m s = Inr (a, s') \<Longrightarrow> Q a s'"
  by (simp add: valid_def)

lemma valid_bnd: "valid P m R \<Longrightarrow> (\<And>a. valid (R a) (f a) Q) \<Longrightarrow> valid P (bnd m f) Q"
  unfolding valid_def by (auto simp: run_simps)

lemma keeps_bnd [keeps_rules]: "keeps I m \<Longrightarrow> (\<And>a. keeps I (f a)) \<Longrightarrow> keeps I (bnd m f)"
  by (rule valid_bnd)

lemma keeps_ret [keeps_rules]: "keeps I (ret a)"
  by (simp add: valid_def run_simps)

lemma keeps_raise [keeps_rules]: "keeps I (raise c)"
  by (simp add: valid_def run_simps)

lemma keeps_require [keeps_rules]: "keeps I (require ok c)"
  by (simp add: valid_def run_simps)

lemma keeps_demand [keeps_rules]: "keeps I (demand x c)"
  by (simp add: valid_def run_simps)

lemma keeps_gets [keeps_rules]: "keeps I (gets f)"
  by (simp add: valid_def run_simps)

lemma keeps_lift_result [keeps_rules]: "keeps I (lift_result x)"
  by (simp add: valid_def run_simps)

lemma keeps_modify: "(\<And>s. I s \<Longrightarrow> I (f s)) \<Longrightarrow> keeps I (modify f)"
  by (simp add: valid_def run_simps)

lemma keeps_if [keeps_rules]: "keeps I m \<Longrightarrow> keeps I n \<Longrightarrow> keeps I (if b then m else n)"
  by simp

lemma keeps_case_option [keeps_rules]:
  "keeps I m \<Longrightarrow> (\<And>x. keeps I (f x)) \<Longrightarrow> keeps I (case y of None \<Rightarrow> m | Some x \<Rightarrow> f x)"
  by (cases y) simp_all

lemma keeps_each [keeps_rules]: "(\<And>x. keeps I (f x)) \<Longrightarrow> keeps I (each f xs)"
  by (induction xs) (auto intro: keeps_rules)

lemma keeps_collect [keeps_rules]: "(\<And>x. keeps I (f x)) \<Longrightarrow> keeps I (collect f xs)"
  by (induction xs) (auto intro!: keeps_rules)

lemma keeps_process: "keeps I m \<Longrightarrow> I s \<Longrightarrow> I (snd (commit m s))"
  by (auto simp: valid_def commit_def split: sum.split)

lemma keeps_abort: "keeps I (abort e)"
  by (simp add: valid_def run_simps)

lemma keeps_case_prod: "(\<And>a b. p = (a, b) \<Longrightarrow> keeps I (f a b)) \<Longrightarrow> keeps I (case p of (a, b) \<Rightarrow> f a b)"
  by (cases p) simp

text \<open>Rules that carry what an action read or checked into the precondition of the rest.\<close>

lemma valid_pre: "valid P' m Q \<Longrightarrow> (\<And>s. P s \<Longrightarrow> P' s) \<Longrightarrow> valid P m Q"
  unfolding valid_def by blast

lemma valid_post: "valid P m Q' \<Longrightarrow> (\<And>a s. Q' a s \<Longrightarrow> Q a s) \<Longrightarrow> valid P m Q"
  unfolding valid_def by blast

lemma valid_gets: "(\<And>a. valid (\<lambda>s. P s \<and> f s = a) (g a) Q) \<Longrightarrow> valid P (bnd (gets f) g) Q"
  by (fastforce simp: valid_def run_simps)

lemma valid_read: "(\<And>a. valid (\<lambda>s. P s \<and> f s = Inr a) (g a) Q) \<Longrightarrow> valid P (bnd (bnd (gets f) lift_result) g) Q"
  by (fastforce simp: valid_def run_simps)

lemma valid_lift: "(\<And>a. x = Inr a \<Longrightarrow> valid P (g a) Q) \<Longrightarrow> valid P (bnd (lift_result x) g) Q"
  by (fastforce simp: valid_def run_simps)

lemma valid_require: "(c \<Longrightarrow> valid P (g ()) Q) \<Longrightarrow> valid P (bnd (require c code) g) Q"
  by (fastforce simp: valid_def run_simps)

lemma valid_check: "(c \<Longrightarrow> valid P (g ()) Q) \<Longrightarrow> valid P (bnd (if c then ret () else abort e) g) Q"
  by (fastforce simp: valid_def run_simps)

lemma valid_let: "valid P (g a) Q \<Longrightarrow> valid P (bnd (ret a) g) Q"
  by (fastforce simp: valid_def run_simps)

lemma valid_return: "(\<And>s. P s \<Longrightarrow> Q a s) \<Longrightarrow> valid P (ret a) Q"
  by (simp add: valid_def run_simps)

lemma valid_assume: "(\<And>s. P s \<Longrightarrow> A) \<Longrightarrow> (A \<Longrightarrow> valid P m Q) \<Longrightarrow> valid P m Q"
  unfolding valid_def by blast

lemma keeps_conj: "keeps I m \<Longrightarrow> keeps J m \<Longrightarrow> keeps (\<lambda>s. I s \<and> J s) m"
  unfolding valid_def by blast

section \<open>Tables\<close>

text \<open>
  A table is the list of its rows in insertion order. \<open>SELECT ... fetchone()\<close> is \<open>find\<close>,
  \<open>UPDATE ... WHERE\<close> is \<open>update_where\<close>.
\<close>

definition update_where :: "('r \<Rightarrow> bool) \<Rightarrow> ('r \<Rightarrow> 'r) \<Rightarrow> 'r list \<Rightarrow> 'r list" where
  "update_where P f rows = map (\<lambda>r. if P r then f r else r) rows"

lemma update_where_Nil [simp]: "update_where P f [] = []"
  by (simp add: update_where_def)

lemma update_where_Cons [simp]:
  "update_where P f (r # rs) = (if P r then f r else r) # update_where P f rs"
  by (simp add: update_where_def)

lemma length_update_where [simp]: "length (update_where P f rows) = length rows"
  by (simp add: update_where_def)

lemma set_update_where: "set (update_where P f rows) = (\<lambda>r. if P r then f r else r) ` set rows"
  by (simp add: update_where_def)

lemma map_update_where: "(\<And>r. g (f r) = g r) \<Longrightarrow> map g (update_where P f rows) = map g rows"
  by (simp add: update_where_def)

lemma update_where_append [simp]:
  "update_where P f (xs @ ys) = update_where P f xs @ update_where P f ys"
  by (simp add: update_where_def)

lemma update_where_none: "(\<And>r. r \<in> set rows \<Longrightarrow> \<not> P r) \<Longrightarrow> update_where P f rows = rows"
  by (induction rows) auto

lemma find_SomeD: "find P xs = Some x \<Longrightarrow> x \<in> set xs \<and> P x"
  by (induction xs) (auto split: if_splits)

lemma find_NoneD: "find P xs = None \<Longrightarrow> x \<in> set xs \<Longrightarrow> \<not> P x"
  by (induction xs) (auto split: if_splits)

lemma find_update_where_key:
  assumes "\<And>r. key (f r) = key r"
  shows "find (\<lambda>r. key r = k) (update_where P f rows) =
    map_option (\<lambda>r. if P r then f r else r) (find (\<lambda>r. key r = k) rows)"
  by (induction rows) (auto simp: assms)

lemma find_key_unique:
  assumes "distinct (map key rows)" "r \<in> set rows" "key r = k"
  shows "find (\<lambda>r. key r = k) rows = Some r"
  using assms by (induction rows) (auto simp: image_iff)

lemma key_unique:
  assumes "distinct (map key rows)" "r \<in> set rows" "r' \<in> set rows" "key r = key r'"
  shows "r = r'"
  using assms find_key_unique [of key rows] by (metis option.inject)

text \<open>
  \<open>INSERT INTO\<close> a table with a unique column \<open>key\<close>: SQLite refuses a second row with the same key.
  \<open>upd\<close> is the record's update function for the table.
\<close>

definition insert_into ::
  "('s \<Rightarrow> 'r list) \<Rightarrow> (('r list \<Rightarrow> 'r list) \<Rightarrow> 's \<Rightarrow> 's) \<Rightarrow> ('r \<Rightarrow> 'k) \<Rightarrow> 'r \<Rightarrow> ('s, unit) action" where
  "insert_into get upd key r = (\<lambda>s.
     if key r \<in> set (map key (get s)) then Inl (Raised ''IntegrityError'')
     else Inr ((), upd (\<lambda>_. get s @ [r]) s))"

lemma insert_into_Inr [run_simps]:
  "insert_into get upd key r s = Inr x \<longleftrightarrow> key r \<notin> key ` set (get s) \<and> x = ((), upd (\<lambda>_. get s @ [r]) s)"
  by (auto simp: insert_into_def)

lemma insert_into_eval [eval_simps]:
  "insert_into get upd key r s = (if key r \<in> key ` set (get s) then Inl (Raised ''IntegrityError'')
     else Inr ((), upd (\<lambda>_. get s @ [r]) s))"
  by (simp add: insert_into_def)

text \<open>
  \<open>INSERT INTO\<close> a table with several unique columns: \<open>clash\<close> holds of two rows that agree in one of
  them. \<open>latest key\<close> is \<open>ORDER BY key DESC LIMIT 1\<close> for a numbered table.
\<close>

definition insert_row ::
  "('s \<Rightarrow> 'r list) \<Rightarrow> (('r list \<Rightarrow> 'r list) \<Rightarrow> 's \<Rightarrow> 's) \<Rightarrow> ('r \<Rightarrow> 'r \<Rightarrow> bool) \<Rightarrow> 'r \<Rightarrow> ('s, unit) action" where
  "insert_row get upd clash r = (\<lambda>s.
     if list_ex (clash r) (get s) then Inl (Raised ''IntegrityError'')
     else Inr ((), upd (\<lambda>_. get s @ [r]) s))"

lemma insert_row_Inr [run_simps]:
  "insert_row get upd clash r s = Inr x \<longleftrightarrow>
     (\<forall>q \<in> set (get s). \<not> clash r q) \<and> x = ((), upd (\<lambda>_. get s @ [r]) s)"
  by (auto simp: insert_row_def list_ex_iff)

lemma insert_row_eval [eval_simps]:
  "insert_row get upd clash r s = (if list_ex (clash r) (get s) then Inl (Raised ''IntegrityError'')
     else Inr ((), upd (\<lambda>_. get s @ [r]) s))"
  by (simp add: insert_row_def)

lemma keeps_insert_row:
  "(\<And>s. I s \<Longrightarrow> I (upd (\<lambda>_. get s @ [r]) s)) \<Longrightarrow> keeps I (insert_row get upd clash r)"
  by (simp add: valid_def run_simps)

lemma keeps_insert_into:
  "(\<And>s. I s \<Longrightarrow> I (upd (\<lambda>_. get s @ [r]) s)) \<Longrightarrow> keeps I (insert_into get upd key r)"
  by (simp add: valid_def run_simps)

definition latest :: "('r \<Rightarrow> 'k :: linorder) \<Rightarrow> 'r list \<Rightarrow> 'r option" where
  "latest key rows = (if rows = [] then None else Some (last (sort_key key rows)))"

lemma latest_Nil [simp]: "latest key [] = None"
  by (simp add: latest_def)

lemma latest_numbered:
  assumes "map key rows = [Suc 0 ..< Suc (length rows)]"
  shows "latest key rows = (if rows = [] then None else Some (last rows))"
proof -
  have "sorted (map key rows)" unfolding assms by (rule sorted_upt)
  then have "sort_key key rows = rows" by (rule sort_key_id_if_sorted)
  then show ?thesis by (simp add: latest_def)
qed

section \<open>Tables that only grow\<close>

text \<open>
  \<open>grows R xs ys\<close>: no row was removed or moved, and every row of \<open>xs\<close> became one that \<open>R\<close>
  allows. An append-only table is \<open>grows (=)\<close>.
\<close>

definition grows :: "('r \<Rightarrow> 'r \<Rightarrow> bool) \<Rightarrow> 'r list \<Rightarrow> 'r list \<Rightarrow> bool" where
  "grows R xs ys \<longleftrightarrow> length xs \<le> length ys \<and> (\<forall>i < length xs. R (xs ! i) (ys ! i))"

lemma grows_refl: "(\<And>x. R x x) \<Longrightarrow> grows R xs xs"
  by (simp add: grows_def)

lemma grows_trans:
  "grows R xs ys \<Longrightarrow> grows R ys zs \<Longrightarrow> (\<And>x y z. R x y \<Longrightarrow> R y z \<Longrightarrow> R x z) \<Longrightarrow> grows R xs zs"
  unfolding grows_def by (meson dual_order.trans order_less_le_trans)

lemma grows_append: "(\<And>x. R x x) \<Longrightarrow> grows R xs (xs @ ys)"
  by (simp add: grows_def nth_append)

lemma grows_update_where:
  "(\<And>x. R x x) \<Longrightarrow> (\<And>x. x \<in> set xs \<Longrightarrow> P x \<Longrightarrow> R x (f x)) \<Longrightarrow> grows R xs (update_where P f xs)"
  by (simp add: grows_def update_where_def)

lemma grows_nth: "grows R xs ys \<Longrightarrow> i < length xs \<Longrightarrow> i < length ys \<and> R (xs ! i) (ys ! i)"
  by (simp add: grows_def)

lemma grows_member: "grows R xs ys \<Longrightarrow> x \<in> set xs \<Longrightarrow> \<exists>y \<in> set ys. R x y"
  unfolding grows_def by (metis in_set_conv_nth order_less_le_trans)

lemma grows_eq_simps [simp]: "grows (=) xs xs" "grows (=) xs (xs @ ys)"
  by (simp_all add: grows_refl grows_append)

lemma grows_eq_trans: "grows (=) xs ys \<Longrightarrow> grows (=) ys zs \<Longrightarrow> grows (=) xs zs"
  by (erule (1) grows_trans) simp

lemma grows_eq_append: "grows (=) xs ys \<longleftrightarrow> (\<exists>zs. ys = xs @ zs)"
proof
  assume g: "grows (=) xs ys"
  then have "take (length xs) ys = xs"
    by (intro nth_equalityI) (simp_all add: grows_def)
  then show "\<exists>zs. ys = xs @ zs" by (metis append_take_drop_id)
qed (auto simp: grows_def nth_append)

section \<open>Runs of operations\<close>

text \<open>
  A client calls operations one after another; a call that raises leaves the state as it was.
\<close>

definition discard :: "('s, 'a) action \<Rightarrow> ('s, unit) action" where
  "discard m = bnd m (\<lambda>_. ret ())"

lemma discard_Inr [run_simps]: "discard m s = Inr r \<longleftrightarrow> (\<exists>a. m s = Inr (a, snd r))"
  by (cases r) (auto simp: discard_def run_simps)

primrec run_ops :: "('op \<Rightarrow> ('s, 'r) action) \<Rightarrow> 'op list \<Rightarrow> 's \<Rightarrow> 's" where
  "run_ops exec [] s = s"
| "run_ops exec (x # xs) s = run_ops exec xs (snd (commit (exec x) s))"

locale invariant_machine =
  fixes exec :: "'op \<Rightarrow> ('s, 'r) action"
    and inv :: "'s \<Rightarrow> bool"
  assumes exec_keeps: "keeps inv (exec x)"
begin

lemma run_keeps: "inv s \<Longrightarrow> inv (run_ops exec xs s)"
  by (induction xs arbitrary: s) (auto intro: keeps_process exec_keeps)

lemma step_keeps: "inv s \<Longrightarrow> exec x s = Inr (a, s') \<Longrightarrow> inv s'"
  using exec_keeps by (rule validD)

end

text \<open>
  A machine whose operations also relate the state before to the state after (nothing is lost,
  a counter never goes down): a reflexive, transitive relation kept by every operation.
\<close>

locale monotone_machine = invariant_machine exec inv
  for exec :: "'op \<Rightarrow> ('s, 'r) action" and inv :: "'s \<Rightarrow> bool" +
  fixes later :: "'s \<Rightarrow> 's \<Rightarrow> bool"
  assumes later_refl: "later s s"
    and later_trans: "later s t \<Longrightarrow> later t u \<Longrightarrow> later s u"
    and exec_later: "inv s \<Longrightarrow> exec x s = Inr (a, s') \<Longrightarrow> later s s'"
begin

lemma run_later: "inv s \<Longrightarrow> later s (run_ops exec xs s)"
proof (induction xs arbitrary: s)
  case Nil
  show ?case by (simp add: later_refl)
next
  case (Cons x xs)
  have "later s (snd (commit (exec x) s))"
    using Cons.prems by (auto simp: commit_def later_refl dest: exec_later split: sum.split)
  moreover have "inv (snd (commit (exec x) s))"
    using Cons.prems by (rule keeps_process [OF exec_keeps])
  ultimately show ?case using Cons.IH by (auto intro: later_trans)
qed

end

end
