(* ===== verification/Json_Text.thy ===== *)
theory Json_Text
  imports Prelude
begin

text \<open>
  JSON values and their canonical text (storage.py: \<open>json_text\<close>, hashing.py:
  \<open>canonical_json_bytes\<close>), and the content digest taken over it (plan_runtime.py:
  \<open>content_digest\<close>). The main result is that the text determines the value: two values with the
  same canonical text are equal up to the order of object keys, so equal digests mean equal values
  or a hash collision. Numbers are integers; text is a sequence of characters U+0000 to U+00FF.
\<close>

datatype json =
    JNull
  | JBool bool
  | JInt int
  | JStr string
  | JArr "json list"
  | JObj "(string \<times> json) list"

section \<open>The canonical text\<close>

fun nat_digits :: "nat \<Rightarrow> string" where
  "nat_digits n = (if n < 10 then [char_of (48 + n)] else nat_digits (n div 10) @ [char_of (48 + n mod 10)])"

declare nat_digits.simps [simp del]

definition int_text :: "int \<Rightarrow> string" where
  "int_text i = (if i < 0 then CHR ''-'' # nat_digits (nat (- i)) else nat_digits (nat i))"

definition hex_digit :: "nat \<Rightarrow> char" where
  "hex_digit n = (if n < 10 then char_of (48 + n) else char_of (87 + n))"

text \<open>
  The escapes of Python's json encoder with \<open>ensure_ascii=False\<close>: the quote, the backslash, the
  five short control escapes and \<open>\u00XX\<close> for the other control characters.
\<close>

definition escape_char :: "char \<Rightarrow> string" where
  "escape_char c =
     (if c = CHR 0x22 then [CHR 0x5C, CHR 0x22]
      else if c = CHR 0x5C then [CHR 0x5C, CHR 0x5C]
      else if c = CHR 0x0A then [CHR 0x5C, CHR ''n'']
      else if c = CHR 0x0D then [CHR 0x5C, CHR ''r'']
      else if c = CHR 0x09 then [CHR 0x5C, CHR ''t'']
      else if c = CHR 0x0C then [CHR 0x5C, CHR ''f'']
      else if c = CHR 0x08 then [CHR 0x5C, CHR ''b'']
      else if of_char c < (32 :: nat)
        then [CHR 0x5C, CHR ''u'', CHR ''0'', CHR ''0'', hex_digit (of_char c div 16), hex_digit (of_char c mod 16)]
      else [c])"

definition quoted :: "string \<Rightarrow> string" where
  "quoted s = CHR 0x22 # concat (map escape_char s) @ [CHR 0x22]"

primrec join_comma :: "string list \<Rightarrow> string" where
  "join_comma [] = []"
| "join_comma (x # xs) = (case xs of [] \<Rightarrow> x | _ # _ \<Rightarrow> x @ CHR '','' # join_comma xs)"

definition render_object :: "(string \<times> string) list \<Rightarrow> string" where
  "render_object kvs =
     CHR ''{'' # join_comma (map (\<lambda>(k, t). quoted k @ CHR '':'' # t) (sort_key fst kvs)) @ [CHR ''}'']"

text \<open>\<open>json.dumps(value, ensure_ascii=False, sort_keys=True, separators=(',', ':'))\<close>.\<close>

primrec json_text :: "json \<Rightarrow> string" where
  "json_text JNull = ''null''"
| "json_text (JBool b) = (if b then ''true'' else ''false'')"
| "json_text (JInt i) = int_text i"
| "json_text (JStr s) = quoted s"
| "json_text (JArr vs) = CHR ''['' # join_comma (map json_text vs) @ [CHR '']'']"
| "json_text (JObj kvs) = render_object (map (map_prod id json_text) kvs)"

text \<open>\<open>model_dump_json()\<close> of a contract: the same compact text with the fields in declaration order.\<close>

primrec json_dump :: "json \<Rightarrow> string" where
  "json_dump JNull = ''null''"
| "json_dump (JBool b) = (if b then ''true'' else ''false'')"
| "json_dump (JInt i) = int_text i"
| "json_dump (JStr s) = quoted s"
| "json_dump (JArr vs) = CHR ''['' # join_comma (map json_dump vs) @ [CHR '']'']"
| "json_dump (JObj kvs) =
     CHR ''{'' # join_comma (map (\<lambda>kt. quoted (fst kt) @ CHR '':'' # snd kt) (map (map_prod id json_dump) kvs)) @ [CHR ''}'']"

text \<open>Bytes of the UTF-8 encoding: one for ASCII, two for U+0080 to U+00FF.\<close>

definition utf8_size :: "string \<Rightarrow> nat" where
  "utf8_size s = sum_list (map (\<lambda>c. if of_char c < (128 :: nat) then 1 else 2) s)"

definition json_bytes :: "json \<Rightarrow> nat" where
  "json_bytes v = utf8_size (json_text v)"

text \<open>
  \<open>content_digest(value) = sha256(json_text(value).encode()).hexdigest()\<close>. The hash is the
  parameter \<open>H\<close>: nothing is assumed of it here.
\<close>

definition content_digest :: "(string \<Rightarrow> string) \<Rightarrow> json \<Rightarrow> string" where
  "content_digest H v = H (json_text v)"

definition collision :: "(string \<Rightarrow> string) \<Rightarrow> bool" where
  "collision H \<longleftrightarrow> (\<exists>x y. x \<noteq> y \<and> H x = H y)"

text \<open>Access to object fields: \<open>body.get(key)\<close>.\<close>

fun jget :: "json \<Rightarrow> string \<Rightarrow> json option" where
  "jget (JObj kvs) k = map_of kvs k"
| "jget _ k = None"

definition jopt :: "string option \<Rightarrow> json" where
  "jopt x = (case x of None \<Rightarrow> JNull | Some s \<Rightarrow> JStr s)"

definition jstrs :: "string list \<Rightarrow> json" where
  "jstrs xs = JArr (map JStr xs)"

section \<open>The text determines the value\<close>

text \<open>Two JSON objects are the same value when they agree up to the order of their keys.\<close>

primrec jnorm :: "json \<Rightarrow> json" where
  "jnorm JNull = JNull"
| "jnorm (JBool b) = JBool b"
| "jnorm (JInt i) = JInt i"
| "jnorm (JStr s) = JStr s"
| "jnorm (JArr vs) = JArr (map jnorm vs)"
| "jnorm (JObj kvs) = JObj (sort_key fst (map (map_prod id jnorm) kvs))"

subsection \<open>Decimal digits\<close>

definition is_digit :: "char \<Rightarrow> bool" where
  "is_digit c \<longleftrightarrow> (48 :: nat) \<le> of_char c \<and> of_char c < (58 :: nat)"

definition digits_value :: "string \<Rightarrow> nat" where
  "digits_value s = foldl (\<lambda>a c. 10 * a + (of_char c - 48)) 0 s"

lemma nat_digits_digit: "c \<in> set (nat_digits n) \<Longrightarrow> is_digit c"
proof (induction n rule: nat_digits.induct)
  case (1 n)
  then show ?case
    by (subst (asm) nat_digits.simps) (auto simp: is_digit_def split: if_splits)
qed

lemma nat_digits_nonempty [simp]: "nat_digits n \<noteq> []"
  by (subst nat_digits.simps) simp

lemma digits_value_nat_digits: "digits_value (nat_digits n) = n"
proof (induction n rule: nat_digits.induct)
  case (1 n)
  show ?case
  proof (cases "n < 10")
    case True
    then show ?thesis by (subst nat_digits.simps) (simp add: digits_value_def)
  next
    case False
    with "1.IH" have "digits_value (nat_digits (n div 10)) = n div 10" by simp
    with False show ?thesis
      by (subst nat_digits.simps) (simp add: digits_value_def)
  qed
qed

definition delim :: "string \<Rightarrow> bool" where
  "delim r \<longleftrightarrow> (case r of [] \<Rightarrow> True | c # _ \<Rightarrow> c = CHR '','' \<or> c = CHR '']'' \<or> c = CHR ''}'')"

lemma delim_not_digit: "delim (c # r) \<Longrightarrow> \<not> is_digit c"
  by (auto simp: delim_def is_digit_def)

lemma takeWhile_digits: "delim r \<Longrightarrow> takeWhile is_digit (nat_digits n @ r) = nat_digits n"
  by (cases r) (auto simp: takeWhile_append2 nat_digits_digit dest: delim_not_digit)

lemma nat_digits_unique:
  assumes "nat_digits n @ r = nat_digits m @ s" "delim r" "delim s"
  shows "n = m \<and> r = s"
proof -
  have "nat_digits n = nat_digits m"
    using assms takeWhile_digits by metis
  then have "n = m" using digits_value_nat_digits by metis
  with assms(1) show ?thesis by simp
qed

lemma hd_nat_digits: "is_digit (hd (nat_digits n))"
  by (rule nat_digits_digit [of _ n]) simp

lemma not_digit_minus: "\<not> is_digit CHR ''-''"
  by (simp add: is_digit_def)

lemma int_text_unique:
  assumes "int_text i @ r = int_text j @ s" "delim r" "delim s"
  shows "i = j \<and> r = s"
proof -
  have h: "nat_digits k @ x \<noteq> CHR ''-'' # y" "CHR ''-'' # y \<noteq> nat_digits k @ x" for k x y
    using hd_nat_digits [of k] not_digit_minus by (cases "nat_digits k"; auto)+
  show ?thesis
  proof (cases "i < 0"; cases "j < 0")
    assume "i < 0" "j < 0"
    with assms have "nat (- i) = nat (- j) \<and> r = s"
      by (intro nat_digits_unique) (simp_all add: int_text_def)
    with \<open>i < 0\<close> \<open>j < 0\<close> show ?thesis by auto
  next
    assume "\<not> i < 0" "\<not> j < 0"
    with assms have "nat i = nat j \<and> r = s"
      by (intro nat_digits_unique) (simp_all add: int_text_def)
    with \<open>\<not> i < 0\<close> \<open>\<not> j < 0\<close> show ?thesis by auto
  qed (use assms h in \<open>simp_all add: int_text_def\<close>)
qed

subsection \<open>Quoted strings\<close>

lemma hex_digit_inj: "n < 16 \<Longrightarrow> m < 16 \<Longrightarrow> hex_digit n = hex_digit m \<Longrightarrow> n = m"
  by (drule arg_cong [of _ _ "of_char :: char \<Rightarrow> nat"]) (auto simp: hex_digit_def split: if_splits)

lemma control_char_split:
  assumes "hex_digit (of_char c div 16) = hex_digit (of_char d div 16)"
    and "hex_digit (of_char c mod 16) = hex_digit (of_char d mod 16)"
    and "of_char c < (32 :: nat)" "of_char d < (32 :: nat)"
  shows "c = d"
proof -
  have "of_char c div 16 = (of_char d div 16 :: nat)" "of_char c mod 16 = (of_char d mod 16 :: nat)"
    using assms by (auto intro: hex_digit_inj)
  then have "of_char c = (of_char d :: nat)" by (metis div_mult_mod_eq)
  then show ?thesis by simp
qed

lemma escape_char_unique: "escape_char c @ x = escape_char d @ y \<Longrightarrow> c = d \<and> x = y"
  by (auto simp: escape_char_def split: if_splits dest: control_char_split)

lemma escape_char_not_quote: "escape_char c @ x \<noteq> CHR 0x22 # y"
  by (simp add: escape_char_def)

lemma quoted_body_unique:
  "concat (map escape_char s) @ CHR 0x22 # x = concat (map escape_char t) @ CHR 0x22 # y
   \<Longrightarrow> s = t \<and> x = y"
proof (induction s arbitrary: t)
  case Nil
  then show ?case using escape_char_not_quote [symmetric] by (cases t) auto
next
  case (Cons c s)
  show ?case
  proof (cases t)
    case Nil
    with Cons.prems escape_char_not_quote show ?thesis by auto
  next
    case (Cons d t')
    with Cons.prems have "c = d \<and> concat (map escape_char s) @ CHR 0x22 # x
        = concat (map escape_char t') @ CHR 0x22 # y"
      by (intro escape_char_unique) simp
    with Cons.IH Cons show ?thesis by auto
  qed
qed

lemma quoted_unique: "quoted s @ x = quoted t @ y \<Longrightarrow> s = t \<and> x = y"
  by (auto simp: quoted_def dest!: quoted_body_unique)

subsection \<open>Separated lists\<close>

definition opens :: "string \<Rightarrow> bool" where
  "opens t \<longleftrightarrow> t \<noteq> [] \<and> \<not> delim t"

lemma opens_append [simp]: "opens t \<Longrightarrow> opens (t @ r)"
  by (cases t) (auto simp: opens_def delim_def)

lemma not_opens_delim: "delim r \<Longrightarrow> \<not> opens r"
  by (simp add: opens_def)

lemma join_comma_Cons:
  "join_comma (x # xs) @ c # r = x @ (if xs = [] then c # r else CHR '','' # join_comma xs @ c # r)"
  by (cases xs) simp_all

lemma join_comma_unique:
  assumes elem: "\<And>x y r s. x \<in> set xs \<Longrightarrow> y \<in> set ys \<Longrightarrow> f x @ r = g y @ s \<Longrightarrow> delim r \<Longrightarrow> delim s
      \<Longrightarrow> R x y \<and> r = s"
    and opens_f: "\<And>x. x \<in> set xs \<Longrightarrow> opens (f x)"
    and opens_g: "\<And>y. y \<in> set ys \<Longrightarrow> opens (g y)"
    and c: "c = CHR '']'' \<or> c = CHR ''}''"
    and eq: "join_comma (map f xs) @ c # r = join_comma (map g ys) @ c # s"
  shows "list_all2 R xs ys \<and> r = s"
  using elem opens_f opens_g eq
proof (induction xs arbitrary: ys)
  case Nil
  have "ys = []"
  proof (rule ccontr)
    assume "ys \<noteq> []"
    then obtain y ys' where ys: "ys = y # ys'" by (cases ys) auto
    with Nil have "opens (g y @ (if map g ys' = [] then c # s else CHR '','' # join_comma (map g ys') @ c # s))"
      by simp
    moreover have "delim (c # r)" using c by (auto simp: delim_def)
    ultimately show False using Nil(4) ys join_comma.simps(1)
      by (simp del: join_comma.simps add: join_comma_Cons opens_def)
  qed
  with Nil(4) show ?case by simp
next
  case (Cons x xs)
  define tl_f where "tl_f = (if map f xs = [] then c # r else CHR '','' # join_comma (map f xs) @ c # r)"
  have fx: "join_comma (map f (x # xs)) @ c # r = f x @ tl_f"
    by (simp del: join_comma.simps add: join_comma_Cons tl_f_def)
  have dc: "delim (c # z)" "delim (CHR '','' # z)" for z using c by (auto simp: delim_def)
  show ?case
  proof (cases ys)
    case Nil
    have "opens (f x @ tl_f)" using Cons.prems(2) by simp
    with Nil fx Cons.prems(4) dc(1) show ?thesis by (simp add: opens_def)
  next
    case ys: (Cons y ys')
    define tl_g where "tl_g = (if map g ys' = [] then c # s else CHR '','' # join_comma (map g ys') @ c # s)"
    have gy: "join_comma (map g ys) @ c # s = g y @ tl_g"
      by (simp del: join_comma.simps add: ys join_comma_Cons tl_g_def)
    have "delim tl_f" "delim tl_g" by (auto simp: tl_f_def tl_g_def dc)
    moreover have "f x @ tl_f = g y @ tl_g" using Cons.prems(4) fx gy by simp
    ultimately have step: "R x y \<and> tl_f = tl_g"
      using Cons.prems(1) [of x y] ys by auto
    have cne: "c \<noteq> CHR '',''" using c by auto
    show ?thesis
    proof (cases "xs = []")
      case True
      with step cne have "ys' = [] \<and> r = s" by (auto simp: tl_f_def tl_g_def split: if_splits)
      with step True ys show ?thesis by simp
    next
      case False
      with step cne have "join_comma (map f xs) @ c # r = join_comma (map g ys') @ c # s"
        by (auto simp: tl_f_def tl_g_def split: if_splits)
      then have "list_all2 R xs ys' \<and> r = s"
        using Cons.prems(1-3) ys by (intro Cons.IH) auto
      with step ys show ?thesis by simp
    qed
  qed
qed

lemma insort_key_map_fst:
  "(\<And>x. fst (h x) = fst x) \<Longrightarrow> insort_key fst (h x) (map h xs) = map h (insort_key fst x xs)"
  by (induction xs) auto

lemma sort_key_map_fst:
  "(\<And>x. fst (h x) = fst x) \<Longrightarrow> sort_key fst (map h xs) = map h (sort_key fst xs)"
  by (induction xs) (simp_all add: insort_key_map_fst)

subsection \<open>Values\<close>

lemma opens_json_text: "opens (json_text v)"
proof (cases v)
  case (JInt i)
  have "\<not> delim (c # r)" if "is_digit c" for c r
    using that delim_not_digit by blast
  with hd_nat_digits nat_digits_nonempty show ?thesis
    by (auto simp: JInt int_text_def opens_def delim_def list.case_eq_if is_digit_def)
qed (auto simp: opens_def delim_def quoted_def render_object_def)

text \<open>The first character tells the constructors apart.\<close>

fun kind_of :: "json \<Rightarrow> nat" where
  "kind_of JNull = 0"
| "kind_of (JBool _) = 1"
| "kind_of (JInt _) = 2"
| "kind_of (JStr _) = 3"
| "kind_of (JArr _) = 4"
| "kind_of (JObj _) = 5"

definition kind_of_char :: "char \<Rightarrow> nat" where
  "kind_of_char c = (if c = CHR ''n'' then 0 else if c = CHR ''t'' \<or> c = CHR ''f'' then 1
     else if c = CHR 0x22 then 3 else if c = CHR ''['' then 4 else if c = CHR ''{'' then 5 else 2)"

lemma kind_of_char_int: "c = CHR ''-'' \<or> is_digit c \<Longrightarrow> kind_of_char c = 2"
  by (auto simp: kind_of_char_def is_digit_def)

lemma int_text_hd: "int_text i \<noteq> [] \<and> kind_of_char (hd (int_text i)) = 2"
  using hd_nat_digits by (simp add: int_text_def kind_of_char_int)

lemma kind_of_hd: "kind_of_char (hd (json_text v @ r)) = kind_of v"
proof (cases v)
  case (JInt i)
  then show ?thesis using int_text_hd [of i] by simp
qed (simp_all add: kind_of_char_def quoted_def render_object_def)

lemma same_kind: "json_text v @ r = json_text w @ s \<Longrightarrow> kind_of v = kind_of w"
  using kind_of_hd [of v r] kind_of_hd [of w s] by simp

lemma list_all2_map_eq: "list_all2 (\<lambda>x y. f x = g y) xs ys \<longleftrightarrow> map f xs = map g ys"
  by (induction xs ys rule: list_induct2') auto

lemma render_object_unique:
  assumes IH: "\<And>k v w r s. (k, v) \<in> set kvs \<Longrightarrow> json_text v @ r = json_text w @ s \<Longrightarrow> delim r \<Longrightarrow> delim s
      \<Longrightarrow> jnorm v = jnorm w \<and> r = s"
    and eq: "json_text (JObj kvs) @ r = json_text (JObj kws) @ s"
  shows "jnorm (JObj kvs) = jnorm (JObj kws) \<and> r = s"
proof -
  define f where "f = (\<lambda>kv. quoted (fst kv) @ CHR '':'' # json_text (snd kv))"
  have render: "json_text (JObj xs) @ z = CHR ''{'' # join_comma (map f (sort_key fst xs)) @ CHR ''}'' # z"
    for xs z
    by (simp add: render_object_def sort_key_map_fst f_def comp_def case_prod_beta)
  have "list_all2 (\<lambda>x y. map_prod id jnorm x = map_prod id jnorm y) (sort_key fst kvs) (sort_key fst kws) \<and> r = s"
  proof (rule join_comma_unique [where f = f and g = f and c = "CHR ''}''"])
    fix x y r s
    assume x: "x \<in> set (sort_key fst kvs)" and eq: "f x @ r = f y @ s" and d: "delim r" "delim s"
    obtain k v k' v' where xy: "x = (k, v)" "y = (k', v')" by (cases x; cases y)
    from eq have "quoted k @ CHR '':'' # json_text v @ r = quoted k' @ CHR '':'' # json_text v' @ s"
      by (simp add: f_def xy)
    then have "k = k' \<and> json_text v @ r = json_text v' @ s" by (auto dest: quoted_unique)
    moreover from x xy have "(k, v) \<in> set kvs" by simp
    ultimately show "map_prod id jnorm x = map_prod id jnorm y \<and> r = s"
      using IH [of k v r v' s] d xy by simp
  next
    show "join_comma (map f (sort_key fst kvs)) @ CHR ''}'' # r = join_comma (map f (sort_key fst kws)) @ CHR ''}'' # s"
      using eq render by simp
  qed (auto simp: f_def opens_def delim_def quoted_def)
  then show ?thesis by (simp add: list_all2_map_eq sort_key_map_fst)
qed

theorem json_text_unique:
  "json_text v @ r = json_text w @ s \<Longrightarrow> delim r \<Longrightarrow> delim s \<Longrightarrow> jnorm v = jnorm w \<and> r = s"
proof (induction v arbitrary: w r s)
  case JNull
  then show ?case using same_kind [OF JNull(1)] by (cases w) auto
next
  case (JBool b)
  then show ?case using same_kind [OF JBool(1)] by (cases w) (auto split: if_splits)
next
  case (JInt i)
  then show ?case using same_kind [OF JInt(1)] by (cases w) (auto dest: int_text_unique)
next
  case (JStr t)
  then show ?case using same_kind [OF JStr(1)] by (cases w) (auto dest: quoted_unique)
next
  case (JArr vs)
  obtain ws where w: "w = JArr ws" using same_kind [OF JArr.prems(1)] by (cases w) auto
  have "list_all2 (\<lambda>x y. jnorm x = jnorm y) vs ws \<and> r = s"
  proof (rule join_comma_unique [where f = json_text and g = json_text and c = "CHR '']''"])
    show "join_comma (map json_text vs) @ CHR '']'' # r = join_comma (map json_text ws) @ CHR '']'' # s"
      using JArr.prems(1) w by simp
  next
    fix x y r s
    assume "x \<in> set vs" "json_text x @ r = json_text y @ s" "delim r" "delim s"
    then show "jnorm x = jnorm y \<and> r = s" by (rule JArr.IH)
  qed (simp_all add: opens_json_text)
  then show ?case by (simp add: w list_all2_map_eq)
next
  case (JObj kvs)
  obtain kws where w: "w = JObj kws" using same_kind [OF JObj.prems(1)] by (cases w) auto
  show ?case
    unfolding w
  proof (rule render_object_unique)
    show "json_text (JObj kvs) @ r = json_text (JObj kws) @ s"
      using JObj.prems(1) w by simp
  next
    fix k v w' r s
    assume "(k, v) \<in> set kvs" "json_text v @ r = json_text w' @ s" "delim r" "delim s"
    then show "jnorm v = jnorm w' \<and> r = s"
      by (intro JObj.IH [of "(k, v)"]) (auto simp: snds.simps)
  qed
qed

corollary json_text_inj: "json_text v = json_text w \<Longrightarrow> jnorm v = jnorm w"
  using json_text_unique [of v "[]" w "[]"] by (simp add: delim_def)

lemma sort_key_map_prod: "sort_key fst (map (map_prod id f) kvs) = map (map_prod id f) (sort_key fst kvs)"
  by (rule sort_key_map_fst) simp

lemma sort_key_idem: "sort_key f (sort_key f xs) = sort_key f xs"
  by (simp add: sort_key_id_if_sorted)

lemma json_text_jnorm: "json_text (jnorm v) = json_text v"
proof (induction v)
  case (JObj kvs)
  then have "json_text (jnorm (snd kv)) = json_text (snd kv)" if "kv \<in> set kvs" for kv
    using that by (cases kv) (auto simp: snds.simps)
  then have "map (map_prod id json_text \<circ> map_prod id jnorm) kvs = map (map_prod id json_text) kvs"
    by (auto simp: map_prod_def split: prod.splits)
  then show ?case
    by (simp only: jnorm.simps json_text.simps render_object_def sort_key_idem map_map flip: sort_key_map_prod)
next
  case (JArr vs)
  then show ?case by (simp cong: map_cong)
qed simp_all

text \<open>Equal objects have equal fields, so a digest over an object binds each field.\<close>

lemma jnorm_field:
  assumes "jnorm (JObj kvs) = jnorm (JObj kws)" "distinct (map fst kvs)" "distinct (map fst kws)"
  shows "map_option jnorm (map_of kvs k) = map_option jnorm (map_of kws k)"
proof -
  have sorted: "map_of (sort_key fst (map (map_prod id jnorm) xs)) k = map_option jnorm (map_of xs k)"
    if "distinct (map fst xs)" for xs :: "(string \<times> json) list"
  proof -
    let ?ys = "map (map_prod id jnorm) xs"
    have d: "distinct (map fst ?ys)" using that by (simp add: comp_def)
    then have "distinct (map fst (sort_key fst ?ys))"
      by (metis card_set distinct_card distinct_map distinct_sort length_sort set_sort)
    then have "map_of (sort_key fst ?ys) = map_of ?ys"
      using d by (simp add: map_of_inject_set)
    moreover have "map_of ?ys k = map_option jnorm (map_of xs k)"
      by (induction xs) auto
    ultimately show ?thesis by simp
  qed
  from assms(1) have "sort_key fst (map (map_prod id jnorm) kvs) = sort_key fst (map (map_prod id jnorm) kws)"
    by simp
  then show ?thesis using sorted [OF assms(2)] sorted [OF assms(3)] by simp
qed

lemma jopt_inject [simp]: "jnorm (jopt x) = jnorm (jopt y) \<longleftrightarrow> x = y"
  by (cases x; cases y) (simp_all add: jopt_def)

section \<open>Sizes\<close>

text \<open>
  The byte size of a value, computed without building its text. The canonical text and the dump of
  the same value have the same size: only the order of the keys differs.
\<close>

definition char_size :: "char \<Rightarrow> nat" where
  "char_size c = utf8_size (escape_char c)"

primrec json_size :: "json \<Rightarrow> nat" where
  "json_size JNull = 4"
| "json_size (JBool b) = (if b then 4 else 5)"
| "json_size (JInt i) = length (int_text i)"
| "json_size (JStr s) = 2 + sum_list (map char_size s)"
| "json_size (JArr vs) = 2 + sum_list (map json_size vs) + (length vs - 1)"
| "json_size (JObj kvs) = 2 + sum_list (map (\<lambda>kt. 3 + sum_list (map char_size (fst kt)) + snd kt)
     (map (map_prod id json_size) kvs)) + (length kvs - 1)"

lemma utf8_size_simps [simp]:
  "utf8_size [] = 0" "utf8_size (c # s) = (if of_char c < (128 :: nat) then 1 else 2) + utf8_size s"
  "utf8_size (s @ t) = utf8_size s + utf8_size t"
  by (simp_all add: utf8_size_def)

lemma utf8_size_concat: "utf8_size (concat ss) = sum_list (map utf8_size ss)"
  by (induction ss) simp_all

lemma utf8_size_quoted: "utf8_size (quoted s) = 2 + sum_list (map char_size s)"
  by (simp add: quoted_def utf8_size_concat char_size_def [abs_def] comp_def)

lemma utf8_size_join: "utf8_size (join_comma ts) = sum_list (map utf8_size ts) + (length ts - 1)"
proof (induction ts)
  case (Cons t ts)
  then show ?case by (cases ts) simp_all
qed simp

lemma utf8_size_digits: "\<forall>c \<in> set s. is_digit c \<or> c = CHR ''-'' \<Longrightarrow> utf8_size s = length s"
  by (induction s) (auto simp: is_digit_def)

lemma utf8_size_int: "utf8_size (int_text i) = length (int_text i)"
  by (rule utf8_size_digits) (auto simp: int_text_def dest: nat_digits_digit)

lemma sum_list_insort_key: "sum_list (map f (insort_key g x xs)) = f x + sum_list (map f xs)"
  for f :: "'a \<Rightarrow> nat"
  by (induction xs) simp_all

lemma sum_list_sort_key: "sum_list (map f (sort_key g xs)) = sum_list (map f xs)" for f :: "'a \<Rightarrow> nat"
  by (induction xs) (simp_all add: sum_list_insort_key)

lemmas size_simps = utf8_size_quoted utf8_size_join utf8_size_int sum_list_sort_key comp_def case_prod_beta

lemma utf8_size_json_dump: "utf8_size (json_dump v) = json_size v"
proof (induction v)
  case (JObj kvs)
  then have "utf8_size (json_dump (snd kv)) = json_size (snd kv)" if "kv \<in> set kvs" for kv
    using that by (cases kv) (auto simp: snds.simps)
  then show ?case by (simp add: size_simps numeral_3_eq_3 cong: map_cong)
next
  case (JArr vs)
  then show ?case by (simp add: size_simps numeral_3_eq_3 cong: map_cong)
qed (simp_all add: size_simps)

lemma json_bytes_size: "json_bytes v = json_size v"
  unfolding json_bytes_def
proof (induction v)
  case (JObj kvs)
  then have "utf8_size (json_text (snd kv)) = json_size (snd kv)" if "kv \<in> set kvs" for kv
    using that by (cases kv) (auto simp: snds.simps)
  then show ?case by (simp add: size_simps render_object_def numeral_3_eq_3 cong: map_cong)
next
  case (JArr vs)
  then show ?case by (simp add: size_simps numeral_3_eq_3 cong: map_cong)
qed (simp_all add: size_simps)

section \<open>Properties\<close>

text \<open>
  C40. The canonical text is a faithful encoding: two JSON values have the same text exactly when they
  are the same value up to the order of object keys.
\<close>

theorem canonical_text_iff: "json_text v = json_text w \<longleftrightarrow> jnorm v = jnorm w"
proof
  show "jnorm v = jnorm w" if "json_text v = json_text w" using that by (rule json_text_inj)
  assume "jnorm v = jnorm w"
  then have "json_text (jnorm v) = json_text (jnorm w)" by simp
  then show "json_text v = json_text w" by (simp only: json_text_jnorm)
qed

text \<open>
  A content digest identifies its value: with a hash that has no collision, two values with the
  same digest agree up to the order of object keys.
\<close>

theorem content_digest_identifies:
  assumes "\<not> collision H" "content_digest H v = content_digest H w"
  shows "jnorm v = jnorm w"
proof (rule json_text_inj, rule ccontr)
  assume "json_text v \<noteq> json_text w"
  with assms show False unfolding collision_def content_digest_def by blast
qed

lemma content_digest_identifies_witness:
  "jnorm (JObj [(''b'', JNull), (''a'', JInt 1)]) = jnorm (JObj [(''a'', JInt 1), (''b'', JNull)])"
  by (rule content_digest_identifies [of "\<lambda>t. t"])
    (simp_all add: collision_def content_digest_def render_object_def)

end
