(* ===== verification/Hash_Chain.thy ===== *)
theory Hash_Chain
  imports Json_Text
begin

text \<open>
  The append-only, hash-chained histories of the program share one contract: rows are numbered from
  1, each row names the digest of the row before it, and each row stores the digest of its own
  body. plan_runtime.py (\<open>verify_history\<close>), session_authority.py (\<open>verify_history\<close>) and
  lineage.py (\<open>verify\<close>) each run this check over their own table; the locale states what the
  loop promises, once.
\<close>

locale hash_chain =
  fixes seqno :: "'row \<Rightarrow> nat"
    and previous :: "'row \<Rightarrow> string option"
    and stored :: "'row \<Rightarrow> string"
    and body :: "'row \<Rightarrow> json"
    and sound :: "(string \<Rightarrow> string) \<Rightarrow> 'row \<Rightarrow> bool"
    and verify :: "(string \<Rightarrow> string) \<Rightarrow> nat \<Rightarrow> string option \<Rightarrow> 'row list \<Rightarrow> string option option"
  assumes verify_Nil: "verify H n p [] = Some p"
    and verify_Cons: "verify H n p (r # rs) =
      (if seqno r = n \<and> previous r = p \<and> stored r = content_digest H (body r) \<and> sound H r
       then verify H (Suc n) (Some (stored r)) rs else None)"
    and body_binds: "jnorm (body r) = jnorm (body r') \<Longrightarrow> seqno r = seqno r' \<and> previous r = previous r'"
begin

lemma verify_append:
  "verify H n p (xs @ ys) = (case verify H n p xs of None \<Rightarrow> None | Some q \<Rightarrow> verify H (n + length xs) q ys)"
  by (induction xs arbitrary: n p) (auto simp: verify_Nil verify_Cons split: option.splits)

lemma verify_snoc:
  "verify H n p (xs @ [r]) = Some h \<longleftrightarrow>
    (\<exists>q. verify H n p xs = Some q \<and> seqno r = n + length xs \<and> previous r = q
      \<and> stored r = content_digest H (body r) \<and> sound H r \<and> h = Some (stored r))"
  by (auto simp: verify_append verify_Nil verify_Cons split: option.splits)

lemma verify_extend:
  assumes "verify H 1 None rows = Some h" and "seqno r = Suc (length rows)" and "previous r = h"
    and "stored r = content_digest H (body r)" and "sound H r"
  shows "verify H 1 None (rows @ [r]) = Some (Some (stored r))"
  using assms by (simp add: verify_snoc)

lemma verify_numbers: "verify H n p rows = Some h \<Longrightarrow> map seqno rows = [n ..< n + length rows]"
proof (induction rows arbitrary: n p)
  case Nil
  show ?case by simp
next
  case (Cons r rs)
  then have "seqno r = n" and "verify H (Suc n) (Some (stored r)) rs = Some h"
    by (auto simp: verify_Cons split: if_splits)
  with Cons.IH [of "Suc n"] show ?case by (simp add: upt_conv_Cons del: upt_Suc)
qed

lemma verify_head: "verify H n p rows = Some h \<Longrightarrow> rows \<noteq> [] \<Longrightarrow> h = Some (stored (last rows))"
  by (induction rows arbitrary: n p) (auto simp: verify_Nil verify_Cons split: if_splits)

lemma stored_binds:
  assumes "\<not> collision H" "stored r = content_digest H (body r)" "stored r' = content_digest H (body r')"
    and "stored r = stored r'"
  shows "jnorm (body r) = jnorm (body r')"
proof -
  have "H (json_text (body r)) = H (json_text (body r'))"
    using assms(2-4) by (simp add: content_digest_def)
  with assms(1) have "json_text (body r) = json_text (body r')" by (auto simp: collision_def)
  then show ?thesis by (rule json_text_inj)
qed

text \<open>Two verified histories with the same head are the same history.\<close>

lemma verify_determines:
  assumes "\<not> collision H" "verify H 1 None xs = Some h" "verify H 1 None ys = Some h"
  shows "map (\<lambda>r. jnorm (body r)) xs = map (\<lambda>r. jnorm (body r)) ys"
  using assms(2,3)
proof (induction xs arbitrary: ys h rule: rev_induct)
  case Nil
  then show ?case by (cases ys rule: rev_cases) (auto simp: verify_Nil verify_snoc)
next
  case (snoc x xs)
  then have hx: "h = Some (stored x)" by (auto simp: verify_snoc)
  show ?case
  proof (cases ys rule: rev_cases)
    case Nil
    with snoc.prems hx show ?thesis by (simp add: verify_Nil)
  next
    case ys: (snoc ys' y)
    have x: "verify H 1 None xs = Some (previous x)" "stored x = content_digest H (body x)"
      using snoc.prems(1) unfolding verify_snoc by blast+
    have y: "verify H 1 None ys' = Some (previous y)" "stored y = content_digest H (body y)"
        "h = Some (stored y)"
      using snoc.prems(2) unfolding ys verify_snoc by blast+
    have xy: "stored x = stored y" using y(3) hx by simp
    have eq: "jnorm (body x) = jnorm (body y)"
      by (rule stored_binds [OF assms(1) x(2) y(2) xy])
    have "previous x = previous y" using body_binds [OF eq] by (rule conjunct2)
    then have "map (\<lambda>r. jnorm (body r)) xs = map (\<lambda>r. jnorm (body r)) ys'"
      using y(1) by (intro snoc.IH [OF x(1)]) (simp only:)
    with eq ys show ?thesis by (simp only: map_append list.map)
  qed
qed

end

end
