(* ===== verification/Contracts.thy ===== *)
theory Contracts
  imports Json_Text
begin

text \<open>
  The Plan's contracts (plan_runtime.py): \<open>TaskBudget\<close>, \<open>TaskModeBinding\<close>, \<open>TaskOperation\<close>,
  \<open>TaskDefinition\<close>, \<open>PlanCreate\<close> and \<open>PlanReplace\<close> with their field bounds, patterns and
  validators, their JSON dumps and the normalisation of dependencies. A value whose validation
  fails raises pydantic's ValidationError.
\<close>

section \<open>Patterns\<close>

definition is_upper :: "char \<Rightarrow> bool" where
  "is_upper c \<longleftrightarrow> (65 :: nat) \<le> of_char c \<and> of_char c \<le> (90 :: nat)"

definition is_lower :: "char \<Rightarrow> bool" where
  "is_lower c \<longleftrightarrow> (97 :: nat) \<le> of_char c \<and> of_char c \<le> (122 :: nat)"

definition is_hex :: "char \<Rightarrow> bool" where
  "is_hex c \<longleftrightarrow> is_digit c \<or> (97 :: nat) \<le> of_char c \<and> of_char c \<le> (102 :: nat)"

text \<open>Characters that \<open>str.strip()\<close> removes.\<close>

definition is_space :: "char \<Rightarrow> bool" where
  "is_space c \<longleftrightarrow> (let n = (of_char c :: nat) in 9 \<le> n \<and> n \<le> 13 \<or> 28 \<le> n \<and> n \<le> 32 \<or> n = 133 \<or> n = 160)"

definition blank :: "string \<Rightarrow> bool" where
  "blank s \<longleftrightarrow> list_all is_space s"

text \<open>\<open>TASK_ID_PATTERN\<close>: \<open>^[A-Za-z0-9][A-Za-z0-9._-]{0,127}$\<close>.\<close>

definition task_id_pattern :: "string \<Rightarrow> bool" where
  "task_id_pattern s \<longleftrightarrow> (case s of [] \<Rightarrow> False | c # cs \<Rightarrow>
     (is_upper c \<or> is_lower c \<or> is_digit c) \<and> length cs \<le> 127
     \<and> list_all (\<lambda>d. is_upper d \<or> is_lower d \<or> is_digit d \<or> d = CHR ''.'' \<or> d = CHR ''_'' \<or> d = CHR ''-'') cs)"

text \<open>\<open>^[a-z][a-z0-9_]{0,63}$\<close>.\<close>

definition name_pattern :: "string \<Rightarrow> bool" where
  "name_pattern s \<longleftrightarrow> (case s of [] \<Rightarrow> False | c # cs \<Rightarrow>
     is_lower c \<and> length cs \<le> 63 \<and> list_all (\<lambda>d. is_lower d \<or> is_digit d \<or> d = CHR ''_'') cs)"

text \<open>\<open>^[0-9a-f]{64}$\<close>.\<close>

definition digest_pattern :: "string \<Rightarrow> bool" where
  "digest_pattern s \<longleftrightarrow> length s = 64 \<and> list_all is_hex s"

text \<open>\<open>UUID_PATTERN\<close> of sdk.py: five hexadecimal groups of 8, 4, 4, 4 and 12.\<close>

definition uuid_pattern :: "string \<Rightarrow> bool" where
  "uuid_pattern s \<longleftrightarrow> length s = 36 \<and>
     list_all (\<lambda>(i, c). if i \<in> {8, 13, 18, 23} then c = CHR ''-'' else is_hex c) (enumerate 0 s)"

definition bounded :: "nat \<Rightarrow> nat \<Rightarrow> string \<Rightarrow> bool" where
  "bounded lo hi s \<longleftrightarrow> lo \<le> length s \<and> length s \<le> hi"

section \<open>Task contracts\<close>

record task_budget =
  max_seconds :: int
  max_tool_calls :: int
  max_input_bytes :: int
  max_output_bytes :: int

definition default_budget :: task_budget where
  "default_budget = \<lparr>max_seconds = 300, max_tool_calls = 64, max_input_bytes = 1048576, max_output_bytes = 4194304\<rparr>"

definition valid_budget :: "task_budget \<Rightarrow> bool" where
  "valid_budget b \<longleftrightarrow> 1 \<le> max_seconds b \<and> max_seconds b \<le> 3600 \<and> 1 \<le> max_tool_calls b \<and> max_tool_calls b \<le> 1024
     \<and> 1 \<le> max_input_bytes b \<and> max_input_bytes b \<le> 67108864
     \<and> 1 \<le> max_output_bytes b \<and> max_output_bytes b \<le> 67108864"

record mode_binding =
  classification_id :: string
  classification_digest :: string
  mode_source_event :: string
  mode_source_cursor :: string
  selection_sha256 :: string
  manifest_digest :: string

definition valid_mode_binding :: "mode_binding \<Rightarrow> bool" where
  "valid_mode_binding m \<longleftrightarrow> uuid_pattern (classification_id m) \<and> digest_pattern (classification_digest m)
     \<and> uuid_pattern (mode_source_event m) \<and> digest_pattern (mode_source_cursor m)
     \<and> digest_pattern (selection_sha256 m) \<and> digest_pattern (manifest_digest m)"

text \<open>
  The arguments are a JSON object; the optional source route (source_routing.py) and the validation
  policy (acceptance.py) are contracts of other components, carried as JSON.
\<close>

record task_operation =
  op_action :: string
  op_arguments :: json
  op_source_route :: "json option"

definition valid_operation :: "task_operation \<Rightarrow> bool" where
  "valid_operation v \<longleftrightarrow> name_pattern (op_action v) \<and> (case op_arguments v of JObj _ \<Rightarrow> True | _ \<Rightarrow> False)"

record task_definition =
  td_task_id :: string
  td_title :: string
  requested_outcome :: string
  profile :: string
  permitted_paths :: "string list"
  permitted_tools :: "string list"
  allowed_actions :: "string list"
  acceptance_checks :: "string list"
  stop_condition :: string
  td_dependencies :: "string list option"
  plan_group :: "string option"
  commit_batch_id :: "string option"
  budget :: task_budget
  mode_of :: "mode_binding option"
  operation :: "task_operation option"
  validation_policy :: "json option"

text \<open>\<open>bounded_unique_items\<close>: distinct, nonblank, at most 1000 characters, without NUL.\<close>

definition bounded_unique_items :: "string list \<Rightarrow> bool" where
  "bounded_unique_items xs \<longleftrightarrow> distinct xs \<and>
     list_all (\<lambda>x. \<not> blank x \<and> length x \<le> 1000 \<and> CHR 0x00 \<notin> set x) xs"

text \<open>\<open>operation_scope\<close>: the bound operation is allowed and fits the task's input budget.\<close>

definition operation_scope :: "task_definition \<Rightarrow> bool" where
  "operation_scope t \<longleftrightarrow> (case operation t of None \<Rightarrow> True | Some v \<Rightarrow>
     op_action v \<in> set (allowed_actions t) \<and> int (json_bytes (op_arguments v)) \<le> max_input_bytes (budget t))"

definition valid_task :: "task_definition \<Rightarrow> bool" where
  "valid_task t \<longleftrightarrow>
     task_id_pattern (td_task_id t) \<and> bounded 1 500 (td_title t) \<and> bounded 1 4000 (requested_outcome t)
     \<and> name_pattern (profile t)
     \<and> length (permitted_paths t) \<le> 128 \<and> length (permitted_tools t) \<le> 128
     \<and> length (allowed_actions t) \<le> 128 \<and> length (acceptance_checks t) \<le> 64
     \<and> length (stop_condition t) \<le> 1000
     \<and> (case td_dependencies t of None \<Rightarrow> True | Some ds \<Rightarrow> length ds \<le> 64 \<and> bounded_unique_items ds)
     \<and> pred_option task_id_pattern (plan_group t) \<and> pred_option task_id_pattern (commit_batch_id t)
     \<and> valid_budget (budget t) \<and> pred_option valid_mode_binding (mode_of t)
     \<and> pred_option valid_operation (operation t)
     \<and> bounded_unique_items (permitted_paths t) \<and> bounded_unique_items (permitted_tools t)
     \<and> bounded_unique_items (allowed_actions t) \<and> bounded_unique_items (acceptance_checks t)
     \<and> operation_scope t"

section \<open>JSON dumps\<close>

definition budget_json :: "task_budget \<Rightarrow> json" where
  "budget_json b = JObj [(''max_seconds'', JInt (max_seconds b)), (''max_tool_calls'', JInt (max_tool_calls b)),
     (''max_input_bytes'', JInt (max_input_bytes b)), (''max_output_bytes'', JInt (max_output_bytes b))]"

definition mode_json :: "mode_binding \<Rightarrow> json" where
  "mode_json m = JObj [(''classification_id'', JStr (classification_id m)),
     (''classification_digest'', JStr (classification_digest m)), (''source_event_id'', JStr (mode_source_event m)),
     (''source_cursor'', JStr (mode_source_cursor m)), (''selection_sha256'', JStr (selection_sha256 m)),
     (''manifest_digest'', JStr (manifest_digest m))]"

definition operation_json :: "task_operation \<Rightarrow> json" where
  "operation_json v = JObj [(''action'', JStr (op_action v)), (''arguments'', op_arguments v),
     (''source_route'', case op_source_route v of None \<Rightarrow> JNull | Some r \<Rightarrow> r)]"

text \<open>
  \<open>serialize_contract\<close> leaves out the three optional references added later when they are
  absent, so that contracts written before them keep their digests.
\<close>

definition optional_field :: "string \<Rightarrow> json option \<Rightarrow> (string \<times> json) list" where
  "optional_field k v = (case v of None \<Rightarrow> [] | Some j \<Rightarrow> [(k, j)])"

definition task_json :: "task_definition \<Rightarrow> json" where
  "task_json t = JObj ([(''task_id'', JStr (td_task_id t)), (''title'', JStr (td_title t)),
     (''requested_outcome'', JStr (requested_outcome t)), (''profile'', JStr (profile t)),
     (''permitted_paths'', jstrs (permitted_paths t)), (''permitted_tools'', jstrs (permitted_tools t)),
     (''allowed_actions'', jstrs (allowed_actions t)), (''acceptance_checks'', jstrs (acceptance_checks t)),
     (''stop_condition'', JStr (stop_condition t)),
     (''dependencies'', case td_dependencies t of None \<Rightarrow> JNull | Some ds \<Rightarrow> jstrs ds),
     (''plan_group'', jopt (plan_group t)), (''commit_batch_id'', jopt (commit_batch_id t)),
     (''budget'', budget_json (budget t))]
     @ optional_field ''mode_binding'' (map_option mode_json (mode_of t))
     @ optional_field ''operation'' (map_option operation_json (operation t))
     @ optional_field ''validation_policy'' (validation_policy t))"

section \<open>Plan requests\<close>

record plan_create =
  pc_plan_id :: string
  pc_request_id :: string
  pc_title :: string
  source_restore_digest :: "string option"
  database_recovery_digest :: "string option"
  pc_tasks :: "task_definition list"

record plan_replace = plan_create +
  expected_revision :: int
  expected_document_digest :: string
  steer_request_id :: string
  resume_after_change :: bool

text \<open>
  \<open>PlanCreate.normalized\<close>: a task without explicit dependencies depends on the row before it.
  \<open>PlanCreate.valid_tasks\<close>: identities occur once and dependencies name earlier rows.
\<close>

fun normalize_from :: "string option \<Rightarrow> task_definition list \<Rightarrow> task_definition list" where
  "normalize_from prev [] = []"
| "normalize_from prev (t # ts) =
     t\<lparr>td_dependencies := Some (case td_dependencies t of Some ds \<Rightarrow> ds
        | None \<Rightarrow> (case prev of None \<Rightarrow> [] | Some p \<Rightarrow> [p]))\<rparr>
     # normalize_from (Some (td_task_id t)) ts"

definition normalized :: "'a plan_create_scheme \<Rightarrow> task_definition list" where
  "normalized r = normalize_from None (pc_tasks r)"

fun earlier_only :: "string list \<Rightarrow> task_definition list \<Rightarrow> bool" where
  "earlier_only seen [] = True"
| "earlier_only seen (t # ts) =
     (td_task_id t \<notin> set seen
      \<and> (case td_dependencies t of None \<Rightarrow> True | Some ds \<Rightarrow> set ds \<subseteq> set seen)
      \<and> earlier_only (td_task_id t # seen) ts)"

definition MAX_PLAN_BYTES :: nat where
  "MAX_PLAN_BYTES = 524288"

text \<open>
  The dump of the request as it was sent (\<open>create_json\<close>, \<open>replace_json\<close>), and the stored document:
  the same object with the normalised tasks and without the absent recovery references.
\<close>

definition request_fields :: "'a plan_create_scheme \<Rightarrow> task_definition list \<Rightarrow> (string \<times> json) list" where
  "request_fields r ts = [(''plan_id'', JStr (pc_plan_id r)), (''request_id'', JStr (pc_request_id r)),
     (''title'', JStr (pc_title r)), (''tasks'', JArr (map task_json ts))]"

definition recovery_fields :: "'a plan_create_scheme \<Rightarrow> (string \<times> json) list" where
  "recovery_fields r = optional_field ''source_restore_digest'' (map_option JStr (source_restore_digest r))
     @ optional_field ''database_recovery_digest'' (map_option JStr (database_recovery_digest r))"

definition replace_fields :: "plan_replace \<Rightarrow> (string \<times> json) list" where
  "replace_fields r = [(''expected_revision'', JInt (expected_revision r)),
     (''expected_document_digest'', JStr (expected_document_digest r)),
     (''steer_request_id'', JStr (steer_request_id r)), (''resume_after_change'', JBool (resume_after_change r))]"

definition dumped_recovery :: "'a plan_create_scheme \<Rightarrow> (string \<times> json) list" where
  "dumped_recovery r = [(''source_restore_digest'', jopt (source_restore_digest r)),
     (''database_recovery_digest'', jopt (database_recovery_digest r))]"

definition create_json :: "plan_create \<Rightarrow> json" where
  "create_json r = JObj (request_fields r (pc_tasks r) @ dumped_recovery r)"

definition replace_json :: "plan_replace \<Rightarrow> json" where
  "replace_json r = JObj (request_fields r (pc_tasks r) @ dumped_recovery r @ replace_fields r)"

definition create_document :: "plan_create \<Rightarrow> json" where
  "create_document r = JObj (request_fields r (normalized r) @ recovery_fields r)"

definition replace_document :: "plan_replace \<Rightarrow> json" where
  "replace_document r = JObj (request_fields r (normalized r) @ recovery_fields r @ replace_fields r)"

text \<open>The validation of the request's fields and \<open>valid_tasks\<close> over the dump \<open>dump\<close>.\<close>

definition valid_plan_fields :: "'a plan_create_scheme \<Rightarrow> json \<Rightarrow> bool" where
  "valid_plan_fields r dump \<longleftrightarrow>
     task_id_pattern (pc_plan_id r) \<and> uuid_pattern (pc_request_id r) \<and> bounded 1 500 (pc_title r)
     \<and> pred_option digest_pattern (source_restore_digest r)
     \<and> pred_option digest_pattern (database_recovery_digest r)
     \<and> 1 \<le> length (pc_tasks r) \<and> length (pc_tasks r) \<le> 2000
     \<and> list_all valid_task (pc_tasks r)
     \<and> earlier_only [] (pc_tasks r) \<and> json_bytes dump \<le> MAX_PLAN_BYTES"

definition valid_plan_create :: "plan_create \<Rightarrow> bool" where
  "valid_plan_create r \<longleftrightarrow> valid_plan_fields r (create_json r)"

definition valid_plan_replace :: "plan_replace \<Rightarrow> bool" where
  "valid_plan_replace r \<longleftrightarrow> valid_plan_fields r (replace_json r) \<and> 1 \<le> expected_revision r
     \<and> digest_pattern (expected_document_digest r) \<and> uuid_pattern (steer_request_id r)"

section \<open>Normalisation\<close>

lemma map_id_normalize_from [simp]: "map td_task_id (normalize_from p ts) = map td_task_id ts"
  by (induction p ts rule: normalize_from.induct) auto

lemma length_normalize_from [simp]: "length (normalize_from p ts) = length ts"
  by (induction p ts rule: normalize_from.induct) auto

lemma map_id_normalized [simp]: "map td_task_id (normalized r) = map td_task_id (pc_tasks r)"
  by (simp add: normalized_def)

lemma length_normalized [simp]: "length (normalized r) = length (pc_tasks r)"
  by (simp add: normalized_def)

lemma normalize_from_dependencies:
  "t \<in> set (normalize_from p ts) \<Longrightarrow> td_dependencies t \<noteq> None"
  by (induction p ts rule: normalize_from.induct) auto

text \<open>The ready list: every dependency of a row is an earlier row.\<close>

definition deps_of :: "task_definition \<Rightarrow> string list" where
  "deps_of t = (case td_dependencies t of None \<Rightarrow> [] | Some ds \<Rightarrow> ds)"

lemma earlier_only_normalize:
  "earlier_only seen ts \<Longrightarrow> (\<And>q. p = Some q \<Longrightarrow> q \<in> set seen) \<Longrightarrow> earlier_only seen (normalize_from p ts)"
  by (induction p ts arbitrary: seen rule: normalize_from.induct) (auto split: option.splits)

lemma earlier_only_distinct: "earlier_only seen ts \<Longrightarrow> distinct (map td_task_id ts) \<and> set seen \<inter> td_task_id ` set ts = {}"
  by (induction seen ts rule: earlier_only.induct) auto

lemma earlier_only_nth:
  assumes "earlier_only seen ts" "i < length ts" "d \<in> set (deps_of (ts ! i))"
  shows "d \<in> set seen \<or> (\<exists>j<i. td_task_id (ts ! j) = d)"
  using assms
proof (induction ts arbitrary: seen i)
  case Nil
  then show ?case by simp
next
  case (Cons t ts)
  show ?case
  proof (cases i)
    case 0
    with Cons.prems show ?thesis by (auto simp: deps_of_def split: option.splits)
  next
    case (Suc k)
    with Cons.prems Cons.IH [of "td_task_id t # seen" k]
    have "d \<in> set (td_task_id t # seen) \<or> (\<exists>j<k. td_task_id (ts ! j) = d)" by simp
    then show ?thesis
    proof
      assume "\<exists>j<k. td_task_id (ts ! j) = d"
      then obtain j where "j < k" "td_task_id (ts ! j) = d" by blast
      then have "Suc j < i \<and> td_task_id ((t # ts) ! Suc j) = d" using Suc by simp
      then show ?thesis by blast
    qed (use Suc in \<open>auto intro: exI [of _ 0]\<close>)
  qed
qed

end
