(* ===== verification/Schema.thy ===== *)
theory Schema
  imports Contracts
begin

text \<open>
  The project's tables, one record per row type with the columns of its CREATE TABLE statement, and
  the project state that holds them. A JSON column holds the value whose text it is; a table that
  no migration has created yet holds no rows. Sources: plan_runtime.py (PLAN_MIGRATIONS), jobs.py
  (JOB_MIGRATIONS), steering.py (STEER_MIGRATIONS), writers.py, session_authority.py, lineage.py, capture_routing.py,
  adaptive_delta_entry.py (DELTA_MIGRATIONS), storage.py, store.py, database_recovery.py,
  projects.py (ACCESS_MIGRATIONS).
\<close>

section \<open>State names\<close>

datatype task_state = Queued | Active | Completed | Blocked | Failed | Cancelled | Superseded

datatype job_state = JQueued | JRunning | JCheckpointed | JCancelled | JSucceeded | JFailed | JUncertain | JSuperseded

datatype effect_state = Prepared | Confirmed | Absent

datatype steer_state = SPending | SCheckpointing | SReady | SApplied | SRejected | SSuperseded

datatype steer_intent = Informational | Semantic | Stop

datatype session_state = SessActive | SessClosed

datatype run_state = RQueued | RRunning | RAwaiting | RBlocked | RVerified

datatype projection_state = Unbound | Pending | Publishing | PConfirmed | PSuperseded

fun task_state_name :: "task_state \<Rightarrow> string" where
  "task_state_name Queued = ''queued''"
| "task_state_name Active = ''active''"
| "task_state_name Completed = ''completed''"
| "task_state_name Blocked = ''blocked''"
| "task_state_name Failed = ''failed''"
| "task_state_name Cancelled = ''cancelled''"
| "task_state_name Superseded = ''superseded''"

fun job_state_name :: "job_state \<Rightarrow> string" where
  "job_state_name JQueued = ''queued''"
| "job_state_name JRunning = ''running''"
| "job_state_name JCheckpointed = ''checkpointed''"
| "job_state_name JCancelled = ''cancelled''"
| "job_state_name JSucceeded = ''succeeded''"
| "job_state_name JFailed = ''failed''"
| "job_state_name JUncertain = ''uncertain''"
| "job_state_name JSuperseded = ''superseded''"

fun effect_state_name :: "effect_state \<Rightarrow> string" where
  "effect_state_name Prepared = ''prepared''"
| "effect_state_name Confirmed = ''confirmed''"
| "effect_state_name Absent = ''absent''"

fun intent_name :: "steer_intent \<Rightarrow> string" where
  "intent_name Informational = ''informational''"
| "intent_name Semantic = ''semantic''"
| "intent_name Stop = ''stop''"

fun session_state_name :: "session_state \<Rightarrow> string" where
  "session_state_name SessActive = ''active''"
| "session_state_name SessClosed = ''closed''"

section \<open>Plan lane\<close>

record plan_revision =
  rv_revision :: int
  rv_plan_id :: string
  rv_title :: string
  rv_request_id :: string
  rv_document :: json
  rv_document_digest :: string
  rv_parent :: "int option"
  rv_actor :: string
  rv_reason :: string
  rv_created :: string

record plan_current =
  cur_revision :: int
  cur_event_head :: "string option"

record plan_task =
  pt_revision :: int
  pt_task_id :: string
  pt_position :: nat
  pt_definition :: task_definition
  pt_contract_digest :: string
  pt_state :: task_state
  pt_last_event :: "string option"

record plan_dependency =
  dep_revision :: int
  dep_task_id :: string
  dep_dependency :: string

record plan_event =
  ev_sequence :: nat
  ev_id :: string
  ev_revision :: int
  ev_task_id :: "string option"
  ev_kind :: string
  ev_actor :: string
  ev_payload :: json
  ev_previous :: "string option"
  ev_digest :: string
  ev_created :: string

record host_binding =
  hb_binding_id :: string
  hb_request_id :: string
  hb_host_task_id :: string
  hb_host_plan_id :: string
  hb_plan_path :: "string list"
  hb_current_sha256 :: string
  hb_bound_by :: string
  hb_digest :: string
  hb_active :: bool
  hb_created :: string
  hb_updated :: string

record host_projection =
  hp_sequence :: nat
  hp_projection_id :: string
  hp_binding_id :: "string option"
  hp_revision :: int
  hp_event_head :: string
  hp_document_digest :: string
  hp_rows :: json
  hp_rows_digest :: string
  hp_markdown :: string
  hp_markdown_sha256 :: string
  hp_state :: projection_state
  hp_previous :: "string option"
  hp_prepared_by :: string
  hp_prepared_at :: string
  hp_attempts :: nat
  hp_last_error :: "string option"
  hp_file_before :: "string option"
  hp_file_after :: "string option"
  hp_confirmed_at :: "string option"

section \<open>Jobs, steers and Delta runs (Plan lane)\<close>

record action_request =
  rq_request_id :: string
  rq_action :: string
  rq_project_id :: "string option"
  rq_expected_revision :: "int option"
  rq_arguments :: json

record job =
  jb_job_id :: string
  jb_request_id :: string
  jb_client_id :: string
  jb_request_digest :: string
  jb_request :: action_request
  jb_action :: string
  jb_plan_revision :: "int option"
  jb_state :: job_state
  jb_owner_fence :: "int option"
  jb_execution_id :: "string option"
  jb_phase :: string
  jb_checkpoint :: "string option"
  jb_resumable :: bool
  jb_cancellation :: "string option"
  jb_result :: "json option"
  jb_error_code :: "string option"
  jb_created :: string
  jb_updated :: string

record effect =
  ef_effect_id :: string
  ef_job_id :: string
  ef_key :: string
  ef_state :: effect_state
  ef_description :: string
  ef_evidence :: "string option"
  ef_created :: string
  ef_updated :: string

record steer =
  st_request_id :: string
  st_source_event :: string
  st_source_cursor :: string
  st_actor :: string
  st_expected_revision :: int
  st_intent :: steer_intent
  st_affected :: "string list"
  st_rationale :: string
  st_identity_digest :: string
  st_state :: steer_state
  st_checkpoint :: "string option"
  st_applied_revision :: "int option"
  st_created :: string
  st_updated :: string

record steer_control =
  sc_paused :: bool
  sc_source_event :: string
  sc_source_cursor :: string
  sc_actor :: string
  sc_updated :: string

record steer_interrupt =
  si_event_id :: string
  si_source_cursor :: string
  si_actor :: string
  si_receipt :: string
  si_created :: string

record delta_run =
  dr_job_id :: string
  dr_request_id :: string
  dr_actor :: string
  dr_task_id :: string
  dr_revision :: int
  dr_contract_digest :: string
  dr_binding_digest :: string
  dr_entry_object :: string
  dr_state :: run_state
  dr_result_object :: "string option"
  dr_error_code :: "string option"
  dr_created :: string
  dr_updated :: string

record delta_exit =
  dx_job_id :: string
  dx_verification_object :: string
  dx_receipt_id :: string
  dx_next_task :: "string option"
  dx_created :: string

section \<open>Other lanes\<close>

record receipt =
  rc_receipt_id :: string
  rc_kind :: string
  rc_body :: json
  rc_created :: string

record stored_object =
  ob_lane :: string
  ob_digest :: string
  ob_size :: nat
  ob_created :: string

record writer_row =
  wr_fence :: int
  wr_owner :: "string option"
  wr_engine :: "string option"
  wr_expires :: "int option"

record session_record =
  sr_session_id :: string
  sr_state :: session_state
  sr_generation :: int
  sr_owner_client :: string
  sr_owner_engine :: string
  sr_reported :: string
  sr_flash_digest :: string
  sr_package_digest :: string
  sr_event_digest :: string
  sr_created :: string
  sr_updated :: string

record session_event =
  se_sequence :: nat
  se_request_id :: string
  se_session_id :: string
  se_generation :: int
  se_action :: string
  se_client :: string
  se_input_digest :: string
  se_body :: json
  se_previous :: "string option"
  se_digest :: string
  se_created :: string

record lineage_event =
  le_sequence :: nat
  le_event_id :: string
  le_kind :: string
  le_client :: string
  le_provenance :: string
  le_session :: "string option"
  le_turn :: "string option"
  le_tool_use :: "string option"
  le_parent :: "string option"
  le_payload_digest :: string
  le_identity_digest :: string
  le_previous :: "string option"
  le_cursor :: string
  le_received :: string

record lineage_chunk =
  lc_chunk_id :: string
  lc_event_id :: string
  lc_ordinal :: nat
  lc_text_digest :: string
  lc_text :: string

record capture_decision =
  cd_sequence :: nat
  cd_event_id :: string
  cd_previous :: "string option"
  cd_digest :: string
  cd_body :: json

record restoration_control =
  rs_generation :: int
  rs_restore_digest :: string
  rs_required_after :: int
  rs_cleared_by :: "int option"

record restoration_reindex =
  ri_generation :: int
  ri_body :: json
  ri_digest :: string

record graph_snapshot =
  gs_graph_id :: string
  gs_batch_id :: string
  gs_graph_root :: string
  gs_coverage :: string
  gs_status :: string

text \<open>A recorded restoration attempt, and the chains of published restorations and recoveries.\<close>

datatype restore_state = RestorePending | RestorePublished | RestoreAbandoned

record restore_request =
  rq_restore_id :: string
  rq_restore_actor :: string
  rq_restore_input :: string
  rq_restore_body :: json
  rq_restore_state :: restore_state
  rq_restore_result :: "json option"

record restore_entry =
  rh_generation :: int
  rh_digest :: string
  rh_body :: json

record recovery_entry =
  rw_sequence :: int
  rw_digest :: string
  rw_body :: json

record recovery_control =
  rd_recovery_digest :: string
  rd_required_after :: int
  rd_cleared_by :: "int option"

text \<open>Expiry in microseconds of the engine's clock; roots by path components.\<close>

record access_grant =
  ag_grant_id :: string
  ag_principal :: string
  ag_permissions :: "string list"
  ag_roots :: "string list list"
  ag_expires :: "int option"
  ag_revoked :: "string option"
  ag_created :: string
  ag_parent :: "string option"

section \<open>The project\<close>

text \<open>
  \<open>capture_route\<close> and \<open>registration_digest\<close> are the fixed fields of the project's registration,
  \<open>blobs\<close> are the content files of the lanes (lane and address), \<open>objects\<close> their registry rows,
  \<open>kernel_lock\<close> the owner that holds the OS lock on writer.lock, \<open>host_files\<close> the files of the
  Codex plans directory by path components; \<open>project_root\<close> is the directory of the databases,
  \<open>source_root\<close> the workspace whose sources the project records.
\<close>

record project =
  project_id :: string
  project_root :: string
  capture_route :: string
  registration_digest :: string
  kernel_lock :: "string option"
  writer_lease :: "writer_row option"
  receipts :: "receipt list"
  blobs :: "((string \<times> string) \<times> json) list"
  objects :: "stored_object list"
  revisions :: "plan_revision list"
  plan_head :: "plan_current option"
  tasks :: "plan_task list"
  dependencies :: "plan_dependency list"
  events :: "plan_event list"
  bindings :: "host_binding list"
  projections :: "host_projection list"
  jobs :: "job list"
  effects :: "effect list"
  steers :: "steer list"
  control :: "steer_control option"
  interrupts :: "steer_interrupt list"
  delta_runs :: "delta_run list"
  delta_exits :: "delta_exit list"
  sessions :: "session_record list"
  session_current :: "string option"
  session_events :: "session_event list"
  lineage :: "lineage_event list"
  chunks :: "lineage_chunk list"
  decisions :: "capture_decision list"
  restoration :: "restoration_control option"
  reindexes :: "restoration_reindex list"
  graphs :: "graph_snapshot list"
  recovery :: "recovery_control option"
  grants :: "access_grant list"
  retired_clients :: "string list"
  host_files :: "(string list \<times> string) list"
  source_root :: string
  restore_requests :: "restore_request list"
  restore_history :: "restore_entry list"
  recovery_history :: "recovery_entry list"

text \<open>
  What one call of the engine draws from outside the project: the text of \<open>now()\<close>, the clock of
  the writer lease in microseconds, the values of successive \<open>uuid4()\<close> calls, and SHA-256.
  \<open>branch k w\<close> is the world of the k-th nested call, with identifiers of its own.
\<close>

record world =
  now :: string
  instant :: int
  uuid :: "nat list \<Rightarrow> string"
  sha256 :: "string \<Rightarrow> string"

definition draw :: "nat \<Rightarrow> world \<Rightarrow> string" where
  "draw k w = uuid w [k]"

definition branch :: "nat \<Rightarrow> world \<Rightarrow> world" where
  "branch k w = w\<lparr>uuid := (\<lambda>ks. uuid w (k # ks))\<rparr>"

lemma branch_simps [simp]:
  "now (branch k w) = now w" "instant (branch k w) = instant w" "sha256 (branch k w) = sha256 w"
  "uuid (branch k w) ks = uuid w (k # ks)"
  by (simp_all add: branch_def)

text \<open>The same world with the hash \<open>H\<close>: runs of many calls share one hash function.\<close>

definition hashed :: "(string \<Rightarrow> string) \<Rightarrow> world \<Rightarrow> world" where
  "hashed H w = w\<lparr>sha256 := H\<rparr>"

lemma hashed_simps [simp]:
  "now (hashed H w) = now w" "instant (hashed H w) = instant w" "sha256 (hashed H w) = H"
  "uuid (hashed H w) = uuid w" "hashed H (branch k w) = branch k (hashed H w)"
  by (simp_all add: hashed_def branch_def)

definition empty_project :: "string \<Rightarrow> string \<Rightarrow> project" where
  "empty_project pid rt = \<lparr>project_id = pid, project_root = rt,
     capture_route = ''GOVERNED_PROJECT_FULL'', registration_digest = [], kernel_lock = None, writer_lease = None,
     receipts = [], blobs = [], objects = [], revisions = [], plan_head = None, tasks = [], dependencies = [],
     events = [], bindings = [], projections = [], jobs = [], effects = [], steers = [], control = None,
     interrupts = [], delta_runs = [], delta_exits = [], sessions = [], session_current = None,
     session_events = [], lineage = [], chunks = [], decisions = [], restoration = None, reindexes = [], graphs = [], recovery = None, grants = [],
     retired_clients = [], host_files = [], source_root = [], restore_requests = [], restore_history = [],
     recovery_history = []\<rparr>"

end
