(* ===== verification/Storage.thy ===== *)
theory Storage
  imports Schema
begin

text \<open>
  Content objects and receipts (storage.py). Content is addressed by its SHA-256 in the file tree of
  its lane and becomes readable once its registry row is written; receipts of every lane go to the
  Receipts lane with the name of their owner.
\<close>

section \<open>Content objects\<close>

definition MAX_OBJECT_BYTES :: nat where
  "MAX_OBJECT_BYTES = 64 * 1024 * 1024"

definition find_blob :: "string \<Rightarrow> string \<Rightarrow> project \<Rightarrow> json option" where
  "find_blob lane d s = map_of (blobs s) (lane, d)"

definition registered :: "string \<Rightarrow> string \<Rightarrow> project \<Rightarrow> stored_object option" where
  "registered lane d s = find (\<lambda>r. ob_lane r = lane \<and> ob_digest r = d) (objects s)"

text \<open>
  \<open>read_object\<close>: the address must be well formed, registered, present, hash to itself and have the
  registered size. \<open>read_blob\<close> is the read with \<open>require_registered=False\<close>.
\<close>

definition read_blob :: "(string \<Rightarrow> string) \<Rightarrow> string \<Rightarrow> string \<Rightarrow> project \<Rightarrow> json result" where
  "read_blob H lane d s =
     (if \<not> digest_pattern d then Inl (LaneError ''INVALID_DIGEST'')
      else case find_blob lane d s of
        None \<Rightarrow> Inl (LaneError ''OBJECT_MISSING'')
      | Some v \<Rightarrow>
          if MAX_OBJECT_BYTES < json_bytes v then Inl (LaneError ''OBJECT_TOO_LARGE'')
          else if content_digest H v \<noteq> d then Inl (LaneError ''OBJECT_INTEGRITY_FAILED'')
          else Inr v)"

definition read_object :: "(string \<Rightarrow> string) \<Rightarrow> string \<Rightarrow> string \<Rightarrow> project \<Rightarrow> json result" where
  "read_object H lane d s =
     (if \<not> digest_pattern d then Inl (LaneError ''INVALID_DIGEST'')
      else case registered lane d s of
        None \<Rightarrow> Inl (LaneError ''OBJECT_NOT_REGISTERED'')
      | Some row \<Rightarrow> rbind (read_blob H lane d s) (\<lambda>v.
          if ob_size row \<noteq> json_bytes v then Inl (LaneError ''OBJECT_INTEGRITY_FAILED'') else Inr v))"

text \<open>
  \<open>put_object\<close>: an existing file at the address must hold the same bytes; the registry row is
  inserted or left as it is.
\<close>

definition put_object :: "world \<Rightarrow> string \<Rightarrow> nat \<Rightarrow> json \<Rightarrow> (project, string) action" where
  "put_object w lane limit v = (\<lambda>s.
     let d = content_digest (sha256 w) v in
     if min limit MAX_OBJECT_BYTES < json_bytes v then Inl (LaneError ''OBJECT_TOO_LARGE'')
     else if \<not> digest_pattern d then Inl (LaneError ''INVALID_DIGEST'')
     else
       rbind (case find_blob lane d s of
           None \<Rightarrow> Inr (s\<lparr>blobs := ((lane, d), v) # blobs s\<rparr>)
         | Some _ \<Rightarrow> rbind (read_blob (sha256 w) lane d s) (\<lambda>v'.
             if json_text v' = json_text v then Inr s else Inl (LaneError ''OBJECT_INTEGRITY_FAILED'')))
       (\<lambda>s'. Inr (d,
         case registered lane d s' of
           Some _ \<Rightarrow> s'
         | None \<Rightarrow> s'\<lparr>objects := objects s' @
             [\<lparr>ob_lane = lane, ob_digest = d, ob_size = json_bytes v, ob_created = now w\<rparr>]\<rparr>)))"

declare find_blob_def [op_defs] registered_def [op_defs] read_blob_def [op_defs] read_object_def [op_defs]
  put_object_def [op_defs] MAX_OBJECT_BYTES_def [op_defs]

text \<open>The registry agrees with the files: every row's file is present, intact and of its size.\<close>

definition objects_sound :: "(string \<Rightarrow> string) \<Rightarrow> project \<Rightarrow> bool" where
  "objects_sound H s \<longleftrightarrow> (\<forall>r \<in> set (objects s). \<exists>v. find_blob (ob_lane r) (ob_digest r) s = Some v
     \<and> content_digest H v = ob_digest r \<and> json_bytes v = ob_size r \<and> digest_pattern (ob_digest r)
     \<and> json_bytes v \<le> MAX_OBJECT_BYTES)"

lemma registered_SomeD:
  "registered lane d s = Some r \<Longrightarrow> r \<in> set (objects s) \<and> ob_lane r = lane \<and> ob_digest r = d"
  unfolding registered_def by (auto dest: find_SomeD)

lemma read_object_sound:
  assumes "objects_sound H s" "registered lane d s = Some r"
  shows "\<exists>v. read_object H lane d s = Inr v \<and> find_blob lane d s = Some v"
proof -
  from registered_SomeD [OF assms(2)] assms(1) obtain v where
    "find_blob lane d s = Some v" "content_digest H v = d" "json_bytes v = ob_size r" "digest_pattern d"
    "json_bytes v \<le> MAX_OBJECT_BYTES"
    unfolding objects_sound_def by blast
  with assms(2) show ?thesis by (simp add: read_object_def read_blob_def rbind_def)
qed

lemma read_object_cong:
  assumes "blobs s' = blobs s" "objects s' = objects s"
  shows "read_object H lane d s' = read_object H lane d s"
proof -
  have "registered lane d s' = registered lane d s" "read_blob H lane d s' = read_blob H lane d s"
    using assms by (simp_all add: registered_def read_blob_def find_blob_def)
  then show ?thesis by (simp add: read_object_def split: option.split)
qed

lemma read_object_Inr:
  "read_object H lane d s = Inr v \<Longrightarrow> find_blob lane d s = Some v \<and> content_digest H v = d"
  by (auto simp: read_object_def read_blob_def run_simps split: if_splits option.splits)

text \<open>What a successful \<open>put_object\<close> leaves behind.\<close>

lemma put_object_Inr:
  assumes "put_object w lane limit v s = Inr (d, s')"
  obtains s1 v1 where "d = content_digest (sha256 w) v" "digest_pattern d" "json_bytes v \<le> min limit MAX_OBJECT_BYTES"
    "s1 = s \<and> find_blob lane d s = Some v1 \<and> json_text v1 = json_text v
     \<or> s1 = s\<lparr>blobs := ((lane, d), v) # blobs s\<rparr> \<and> find_blob lane d s = None \<and> v1 = v"
    "s' = (case registered lane d s of Some _ \<Rightarrow> s1 | None \<Rightarrow> s1\<lparr>objects := objects s @
             [\<lparr>ob_lane = lane, ob_digest = d, ob_size = json_bytes v, ob_created = now w\<rparr>]\<rparr>)"
proof -
  have reg: "registered lane d' (s\<lparr>blobs := b\<rparr>) = registered lane d' s" for d' b
    by (simp add: registered_def)
  have "d = content_digest (sha256 w) v" "digest_pattern d" "json_bytes v \<le> min limit MAX_OBJECT_BYTES"
    using assms by (auto simp: put_object_def Let_def run_simps split: if_splits)
  moreover obtain s1 v1 where "s1 = s \<and> find_blob lane d s = Some v1 \<and> json_text v1 = json_text v
     \<or> s1 = s\<lparr>blobs := ((lane, d), v) # blobs s\<rparr> \<and> find_blob lane d s = None \<and> v1 = v"
    "s' = (case registered lane d s of Some _ \<Rightarrow> s1 | None \<Rightarrow> s1\<lparr>objects := objects s @
             [\<lparr>ob_lane = lane, ob_digest = d, ob_size = json_bytes v, ob_created = now w\<rparr>]\<rparr>)"
  proof (cases "find_blob lane d s")
    case None
    with assms that [of "s\<lparr>blobs := ((lane, d), v) # blobs s\<rparr>" v] show ?thesis
      by (auto simp: put_object_def Let_def run_simps reg split: if_splits option.splits)
  next
    case (Some v0)
    with assms have "read_blob (sha256 w) lane d s = Inr v0" "json_text v0 = json_text v"
      by (auto simp: put_object_def Let_def run_simps read_blob_def split: if_splits)
    with assms that [of s v0] Some show ?thesis
      by (auto simp: put_object_def Let_def run_simps split: if_splits option.splits)
  qed
  ultimately show ?thesis by (rule that)
qed

lemma put_object_frame:
  "put_object w lane limit v s = Inr (d, s') \<Longrightarrow> s' = s\<lparr>blobs := blobs s', objects := objects s'\<rparr>"
  by (elim put_object_Inr) (auto split: option.splits)

lemma put_object_writes:
  assumes "put_object w lane limit v s = Inr (d, s')"
  obtains bs os where "s' = s\<lparr>blobs := bs, objects := os\<rparr>"
  using put_object_frame [OF assms] by blast

lemma json_bytes_cong: "json_text v = json_text v' \<Longrightarrow> json_bytes v = json_bytes v'"
  by (simp add: json_bytes_def)

lemma content_digest_cong: "json_text v = json_text v' \<Longrightarrow> content_digest H v = content_digest H v'"
  by (simp add: content_digest_def)

lemma put_object_keeps_sound:
  assumes "objects_sound (sha256 w) s" "put_object w lane limit v s = Inr (d, s')"
  shows "objects_sound (sha256 w) s'"
proof -
  from assms(2) obtain s1 v1 where *: "d = content_digest (sha256 w) v" "digest_pattern d"
    "json_bytes v \<le> min limit MAX_OBJECT_BYTES"
    "s1 = s \<and> find_blob lane d s = Some v1 \<and> json_text v1 = json_text v
     \<or> s1 = s\<lparr>blobs := ((lane, d), v) # blobs s\<rparr> \<and> find_blob lane d s = None \<and> v1 = v"
    "s' = (case registered lane d s of Some _ \<Rightarrow> s1 | None \<Rightarrow> s1\<lparr>objects := objects s @
             [\<lparr>ob_lane = lane, ob_digest = d, ob_size = json_bytes v, ob_created = now w\<rparr>]\<rparr>)"
    by (rule put_object_Inr)
  have new: "find_blob lane d s1 = Some v1 \<and> json_text v1 = json_text v"
    using *(4) by (auto simp: find_blob_def)
  have old: "find_blob l e s = Some u \<Longrightarrow> find_blob l e s1 = Some u" for l e u
    using *(4) by (auto simp: find_blob_def)
  have "objects s1 = objects s" using *(4) by auto
  moreover have "objects_sound (sha256 w) s1"
    using assms(1) old unfolding objects_sound_def \<open>objects s1 = objects s\<close> by blast
  moreover have "find_blob l e (s1\<lparr>objects := os\<rparr>) = find_blob l e s1" for l e os
    by (simp add: find_blob_def)
  ultimately show ?thesis
    using * new json_bytes_cong [of v1 v] content_digest_cong [of v1 v]
    by (auto simp: objects_sound_def split: option.splits)
qed

lemma put_object_registers:
  assumes "put_object w lane limit v s = Inr (d, s')"
  shows "registered lane d s' \<noteq> None"
proof (rule put_object_Inr [OF assms])
  fix s1 v1
  assume s1: "s1 = s \<and> find_blob lane d s = Some v1 \<and> json_text v1 = json_text v
     \<or> s1 = s\<lparr>blobs := ((lane, d), v) # blobs s\<rparr> \<and> find_blob lane d s = None \<and> v1 = v"
    and s': "s' = (case registered lane d s of Some _ \<Rightarrow> s1 | None \<Rightarrow> s1\<lparr>objects := objects s @
             [\<lparr>ob_lane = lane, ob_digest = d, ob_size = json_bytes v, ob_created = now w\<rparr>]\<rparr>)"
  have "registered lane d s1 = registered lane d s" using s1 by (auto simp: registered_def)
  with s' show ?thesis
  proof (cases "registered lane d s")
    case None
    with s' have "objects s' = objects s @ [\<lparr>ob_lane = lane, ob_digest = d, ob_size = json_bytes v, ob_created = now w\<rparr>]"
      (is "_ = _ @ [?r]") by simp
    then have "?r \<in> set (objects s')" "ob_lane ?r = lane" "ob_digest ?r = d" by simp_all
    then show ?thesis unfolding registered_def find_None_iff by blast
  qed simp
qed

lemma put_object_keeps_registered:
  assumes "put_object w lane limit v s = Inr (d, s')" "registered l e s = Some r"
  shows "registered l e s' = Some r"
  using assms(1)
proof (rule put_object_Inr)
  fix s1 v1
  assume s1: "s1 = s \<and> find_blob lane d s = Some v1 \<and> json_text v1 = json_text v
     \<or> s1 = s\<lparr>blobs := ((lane, d), v) # blobs s\<rparr> \<and> find_blob lane d s = None \<and> v1 = v"
    and s': "s' = (case registered lane d s of Some _ \<Rightarrow> s1 | None \<Rightarrow> s1\<lparr>objects := objects s @
             [\<lparr>ob_lane = lane, ob_digest = d, ob_size = json_bytes v, ob_created = now w\<rparr>]\<rparr>)"
  have find_app: "find P xs = Some y \<Longrightarrow> find P (xs @ ys) = Some y" for P xs ys and y :: stored_object
    by (induction xs) (auto split: if_splits)
  from s1 s' assms(2) show ?thesis
    by (auto simp: registered_def find_app split: option.splits)
qed

section \<open>The contract of a content store\<close>

text \<open>
  What the lanes rely on: content that was put can be read back byte for byte under the returned
  address, and later puts change no address that could be read before.
\<close>

locale content_store =
  fixes put :: "json \<Rightarrow> ('s, string) action"
    and get :: "string \<Rightarrow> 's \<Rightarrow> json result"
    and sound :: "'s \<Rightarrow> bool"
  assumes put_keeps: "sound s \<Longrightarrow> put v s = Inr (d, s') \<Longrightarrow> sound s'"
    and get_put: "sound s \<Longrightarrow> put v s = Inr (d, s') \<Longrightarrow> \<exists>v'. get d s' = Inr v' \<and> json_text v' = json_text v"
    and get_other: "sound s \<Longrightarrow> put v s = Inr (d, s') \<Longrightarrow> get e s = Inr u \<Longrightarrow> get e s' = Inr u"
begin

text \<open>A sequence of puts: everything that was stored stays readable.\<close>

lemma puts_readable:
  "sound s \<Longrightarrow> collect put vs s = Inr (ds, s') \<Longrightarrow>
     sound s' \<and> list_all2 (\<lambda>d v. \<exists>v'. get d s' = Inr v' \<and> json_text v' = json_text v) ds vs
     \<and> (\<forall>e u. get e s = Inr u \<longrightarrow> get e s' = Inr u)"
proof (induction vs arbitrary: s ds)
  case Nil
  then show ?case by (simp add: run_simps)
next
  case (Cons v vs)
  then obtain d s1 ds1 where v: "put v s = Inr (d, s1)" and vs: "collect put vs s1 = Inr (ds1, s')"
    and ds: "ds = d # ds1" by (auto simp: run_simps)
  from get_put [OF Cons.prems(1) v] obtain v' where "get d s1 = Inr v'" "json_text v' = json_text v" by blast
  moreover note Cons.IH [OF put_keeps [OF Cons.prems(1) v] vs]
  moreover note get_other [OF Cons.prems(1) v]
  ultimately show ?case by (auto simp: ds)
qed

end

interpretation lane_objects: content_store "put_object w lane limit" "read_object (sha256 w) lane"
  "objects_sound (sha256 w)" for w lane limit
proof unfold_locales
  fix s s' :: project and v :: json and d :: string
  assume s: "objects_sound (sha256 w) s" and put: "put_object w lane limit v s = Inr (d, s')"
  from s put show sound': "objects_sound (sha256 w) s'" by (rule put_object_keeps_sound)
  from put_object_registers [OF put] obtain r where "registered lane d s' = Some r" by auto
  from read_object_sound [OF sound' this] obtain v' where
    v': "read_object (sha256 w) lane d s' = Inr v'" "find_blob lane d s' = Some v'" by blast
  moreover have "json_text v' = json_text v"
    using put by (rule put_object_Inr) (use v' in \<open>auto simp: find_blob_def split: option.splits\<close>)
  ultimately show "\<exists>v'. read_object (sha256 w) lane d s' = Inr v' \<and> json_text v' = json_text v" by blast
  fix e u
  assume e: "read_object (sha256 w) lane e s = Inr u"
  then obtain r where r: "registered lane e s = Some r"
    by (auto simp: read_object_def split: if_splits option.splits)
  from read_object_sound [OF sound' put_object_keeps_registered [OF put r]]
  obtain u' where u': "read_object (sha256 w) lane e s' = Inr u'" "find_blob lane e s' = Some u'" by blast
  have "find_blob lane e s = Some u" using read_object_Inr [OF e] by simp
  moreover have "u' = u"
    using put by (rule put_object_Inr)
      (use u' calculation in \<open>auto simp: find_blob_def split: option.splits if_splits\<close>)
  ultimately show "read_object (sha256 w) lane e s' = Inr u" using u' by simp
qed

section \<open>Receipts\<close>

text \<open>
  \<open>append_receipt\<close> of a lane store adds the owning lane to the body; the Receipts lane and the
  project store (\<open>None\<close>) write it as it is.
\<close>

definition receipt_body :: "string option \<Rightarrow> (string \<times> json) list \<Rightarrow> json" where
  "receipt_body lane body = JObj (case lane of
       None \<Rightarrow> body
     | Some l \<Rightarrow> if l = ''receipts'' then body else body @ [(''owner_lane'', JStr l)])"

definition append_receipt ::
  "world \<Rightarrow> string option \<Rightarrow> string \<Rightarrow> (string \<times> json) list \<Rightarrow> (project, string) action" where
  "append_receipt w lane kind body =
     bnd (require (kind \<noteq> [] \<and> json_bytes (receipt_body lane body) \<le> 1000000) ''INVALID_RECEIPT'') (\<lambda>_.
     bnd (insert_into receipts receipts_update rc_receipt_id
       \<lparr>rc_receipt_id = draw 0 w, rc_kind = kind, rc_body = receipt_body lane body, rc_created = now w\<rparr>) (\<lambda>_.
     ret (draw 0 w)))"

declare receipt_body_def [op_defs] append_receipt_def [op_defs]

lemma append_receipt_Inr [run_simps]:
  "append_receipt w lane kind body s = Inr (r, s') \<longleftrightarrow>
     kind \<noteq> [] \<and> json_bytes (receipt_body lane body) \<le> 1000000
     \<and> draw 0 w \<notin> rc_receipt_id ` set (receipts s) \<and> r = draw 0 w
     \<and> s' = s\<lparr>receipts := receipts s @ [\<lparr>rc_receipt_id = draw 0 w, rc_kind = kind,
              rc_body = receipt_body lane body, rc_created = now w\<rparr>]\<rparr>"
  by (auto simp: append_receipt_def run_simps)

definition find_receipt :: "string \<Rightarrow> project \<Rightarrow> receipt option" where
  "find_receipt rid s = find (\<lambda>r. rc_receipt_id r = rid) (receipts s)"

definition receipts_unique :: "project \<Rightarrow> bool" where
  "receipts_unique s \<longleftrightarrow> distinct (map rc_receipt_id (receipts s))"

lemma append_receipt_unique [keeps_rules]: "keeps receipts_unique (append_receipt w lane kind body)"
  by (rule validI) (auto simp: run_simps receipts_unique_def)

section \<open>Properties\<close>

text \<open>
  C39. Content that was stored can be read back: after any sequence of puts into a lane, every returned
  address reads a value with exactly the stored canonical text, and every address that could be read
  before still reads the same value.
\<close>

theorem stored_objects_stay_readable:
  assumes "objects_sound (sha256 w) s" "collect (put_object w lane limit) vs s = Inr (ds, s')"
  shows "list_all2 (\<lambda>d v. map_sum id json_text (read_object (sha256 w) lane d s') = Inr (json_text v)) ds vs
    \<and> filter (\<lambda>e. \<not> isl (read_object (sha256 w) lane e s)
         \<and> read_object (sha256 w) lane e s' \<noteq> read_object (sha256 w) lane e s) es = []"
proof -
  have *: "\<exists>v'. read_object (sha256 w) lane d s' = Inr v' \<and> json_text v' = json_text v \<Longrightarrow>
      map_sum id json_text (read_object (sha256 w) lane d s') = Inr (json_text v)" for d v
    by auto
  show ?thesis
    using lane_objects.puts_readable [OF assms]
    by (auto simp: filter_empty_conv isl_def elim!: list_all2_mono intro!: *) (metis obj_sumE)
qed

end
