(* ===== verification/Writers.thy ===== *)
theory Writers
  imports Storage
begin

text \<open>
  The project writer (writers.py) over the OS lock of locking.py: one live writer per project, a
  fence that every acquisition advances, a lease that expires, and the check that every transaction
  makes before and after its work.
\<close>

section \<open>The lease\<close>

text \<open>\<open>WriterLease\<close>: \<open>ls_held\<close> is \<open>lock.stream is not None\<close>.\<close>

record lease =
  ls_project_id :: string
  ls_root :: string
  ls_engine :: string
  ls_owner :: string
  ls_seconds :: int
  ls_held :: bool
  ls_fence :: "int option"

definition new_lease :: "world \<Rightarrow> bool \<Rightarrow> string \<Rightarrow> int \<Rightarrow> project \<Rightarrow> lease result" where
  "new_lease w read_only engine seconds s =
     (if read_only then Inl (LaneError ''READ_ONLY_PROJECT'')
      else if engine = [] \<or> \<not> (1 \<le> seconds \<and> seconds \<le> 3600) then Inl (LaneError ''INVALID_LEASE'')
      else Inr \<lparr>ls_project_id = project_id s, ls_root = project_root s, ls_engine = engine,
             ls_owner = draw 0 w, ls_seconds = seconds, ls_held = False, ls_fence = None\<rparr>)"

text \<open>\<open>RuntimeLock.acquire\<close> on writer.lock.\<close>

definition lock_acquire :: "lease \<Rightarrow> (project, unit) action" where
  "lock_acquire l =
     bnd (require (\<not> ls_held l) ''LOCK_ALREADY_HELD'') (\<lambda>_.
     bnd (gets kernel_lock) (\<lambda>holder.
     bnd (require (holder = None) ''RUNTIME_IN_USE'') (\<lambda>_.
     modify (\<lambda>s. s\<lparr>kernel_lock := Some (ls_owner l)\<rparr>))))"

definition lock_release :: "lease \<Rightarrow> project \<Rightarrow> project" where
  "lock_release l s = (if kernel_lock s = Some (ls_owner l) then s\<lparr>kernel_lock := None\<rparr> else s)"

definition expiry :: "world \<Rightarrow> lease \<Rightarrow> int" where
  "expiry w l = instant w + ls_seconds l * 1000000"

definition fence_no :: "project \<Rightarrow> int" where
  "fence_no s = (case writer_lease s of None \<Rightarrow> 0 | Some r \<Rightarrow> wr_fence r)"

text \<open>
  \<open>WriterLease.acquire\<close>: the OS lock first, then in one root transaction the next fence, the lease
  row and the receipt. A failure releases the lock and forgets the fence.
\<close>

definition acquire :: "world \<Rightarrow> lease \<Rightarrow> (project, lease) action" where
  "acquire w l = (\<lambda>s.
     case lock_acquire l s of
       Inl e \<Rightarrow> Inl (if e = LaneError ''RUNTIME_IN_USE'' then LaneError ''PROJECT_WRITER_BUSY'' else e)
     | Inr (_, s1) \<Rightarrow>
         (let fence = (case writer_lease s1 of Some r \<Rightarrow> wr_fence r + 1 | None \<Rightarrow> 1);
              row = \<lparr>wr_fence = fence, wr_owner = Some (ls_owner l), wr_engine = Some (ls_engine l),
                     wr_expires = Some (expiry w l)\<rparr>
          in bnd (modify (\<lambda>t. t\<lparr>writer_lease := Some row\<rparr>)) (\<lambda>_.
             bnd (append_receipt (branch 0 w) None ''writer_acquired''
               [(''owner_id'', JStr (ls_owner l)), (''engine_id'', JStr (ls_engine l)), (''fence'', JInt fence),
                (''recovered_owner'', jopt (case writer_lease s1 of Some r \<Rightarrow> wr_owner r | None \<Rightarrow> None)),
                (''recovery_basis'', JStr ''exclusive_kernel_lock'')]) (\<lambda>_.
             ret (l\<lparr>ls_held := True, ls_fence := Some fence\<rparr>))) s1))"

definition check_lease :: "world \<Rightarrow> lease \<Rightarrow> (project, unit) action" where
  "check_lease w l =
     bnd (require (ls_held l \<and> ls_fence l \<noteq> None) ''WRITER_NOT_HELD'') (\<lambda>_.
     bnd (gets writer_lease) (\<lambda>row.
     case row of
       None \<Rightarrow> raise ''STALE_WRITER''
     | Some r \<Rightarrow>
         bnd (require (wr_owner r = Some (ls_owner l) \<and> Some (wr_fence r) = ls_fence l) ''STALE_WRITER'') (\<lambda>_.
         require (case wr_expires r of None \<Rightarrow> False | Some t \<Rightarrow> instant w < t) ''WRITER_LEASE_EXPIRED'')))"

text \<open>
  \<open>with lease.transaction(lane)\<close>: the lease is checked when the transaction opens and before it is
  published; an error in between leaves the project as it was.
\<close>

definition in_transaction :: "world \<Rightarrow> lease \<Rightarrow> (project, 'a) action \<Rightarrow> (project, 'a) action" where
  "in_transaction w l m =
     bnd (check_lease w l) (\<lambda>_. bnd m (\<lambda>a. bnd (check_lease w l) (\<lambda>_. ret a)))"

definition heartbeat :: "world \<Rightarrow> lease \<Rightarrow> (project, unit) action" where
  "heartbeat w l = in_transaction w l
     (modify (\<lambda>s. s\<lparr>writer_lease := map_option (\<lambda>r. r\<lparr>wr_expires := Some (expiry w l)\<rparr>) (writer_lease s)\<rparr>))"

definition release :: "lease \<Rightarrow> (project, lease) action" where
  "release l = (\<lambda>s.
     if \<not> ls_held l then Inr (l, s)
     else Inr (l\<lparr>ls_held := False\<rparr>, lock_release l
       (s\<lparr>writer_lease := map_option (\<lambda>r.
            if wr_owner r = Some (ls_owner l) \<and> Some (wr_fence r) = ls_fence l
            then r\<lparr>wr_owner := None, wr_engine := None, wr_expires := None\<rparr> else r) (writer_lease s)\<rparr>)))"

text \<open>The components' guard \<open>_lease\<close>: the lease belongs to this project and is current.\<close>

definition own_lease :: "world \<Rightarrow> lease \<Rightarrow> (project, unit) action" where
  "own_lease w l =
     bnd (gets (\<lambda>s. ls_project_id l = project_id s \<and> ls_root l = project_root s)) (\<lambda>same.
     bnd (require same ''WRITER_PROJECT_MISMATCH'') (\<lambda>_. check_lease w l))"

declare lock_acquire_def [op_defs] lock_release_def [op_defs] expiry_def [op_defs] acquire_def [op_defs]
  check_lease_def [op_defs] heartbeat_def [op_defs] release_def [op_defs] own_lease_def [op_defs]

section \<open>The check reads, and only reads\<close>

lemma check_lease_Inr [run_simps]:
  "check_lease w l s = Inr (u, s') \<longleftrightarrow> s' = s \<and> (\<exists>r t. ls_held l \<and> writer_lease s = Some r
     \<and> wr_owner r = Some (ls_owner l) \<and> ls_fence l = Some (wr_fence r) \<and> wr_expires r = Some t \<and> instant w < t)"
  by (cases "writer_lease s") (auto simp: check_lease_def run_simps split: option.splits)

lemma own_lease_Inr [run_simps]:
  "own_lease w l s = Inr (u, s') \<longleftrightarrow> ls_project_id l = project_id s \<and> ls_root l = project_root s
     \<and> check_lease w l s = Inr ((), s) \<and> s' = s"
  by (auto simp: own_lease_def run_simps)

lemma in_transaction_Inr:
  "in_transaction w l m s = Inr (a, s') \<longleftrightarrow>
     check_lease w l s = Inr ((), s) \<and> m s = Inr (a, s') \<and> check_lease w l s' = Inr ((), s')"
  by (auto simp: in_transaction_def run_simps)

lemma in_transaction_body: "in_transaction w l m s = Inr (a, s') \<Longrightarrow> m s = Inr (a, s')"
  by (simp add: in_transaction_Inr)

lemma in_transaction_lease: "in_transaction w l m s = Inr (a, s') \<Longrightarrow> check_lease w l s = Inr ((), s)"
  by (simp add: in_transaction_Inr)

lemma keeps_check_lease [keeps_rules]: "keeps I (check_lease w l)"
  by (rule validI) (simp add: run_simps)

lemma keeps_own_lease [keeps_rules]: "keeps I (own_lease w l)"
  by (rule validI) (simp add: run_simps)

lemma keeps_in_transaction [keeps_rules]: "keeps I m \<Longrightarrow> keeps I (in_transaction w l m)"
  unfolding in_transaction_def by (intro keeps_rules)

lemma acquire_Inr:
  assumes "acquire w l s = Inr (l', s')"
  shows "kernel_lock s = None" "\<not> ls_held l" "kernel_lock s' = Some (ls_owner l)"
    "l' = l\<lparr>ls_held := True, ls_fence := Some (fence_no s + 1)\<rparr>"
    "writer_lease s' = Some \<lparr>wr_fence = fence_no s + 1, wr_owner = Some (ls_owner l),
       wr_engine = Some (ls_engine l), wr_expires = Some (expiry w l)\<rparr>"
  using assms
  by (auto simp: acquire_def lock_acquire_def fence_no_def Let_def run_simps
      split: sum.splits if_splits option.splits)

section \<open>Fences only grow\<close>

text \<open>
  What can happen to the project's writer: acquisitions, heartbeats and releases by any lease, the
  death of the process that holds the OS lock (the kernel releases it), and any transaction of a
  component, which does not touch the lease row.
\<close>

datatype writer_op =
    Acquire world lease
  | Heartbeat world lease
  | Release lease
  | Crash

primrec writer_exec :: "writer_op \<Rightarrow> (project, lease option) action" where
  "writer_exec (Acquire w l) = bnd (acquire w l) (\<lambda>l'. ret (Some l'))"
| "writer_exec (Heartbeat w l) = bnd (heartbeat w l) (\<lambda>_. ret None)"
| "writer_exec (Release l) = bnd (release l) (\<lambda>l'. ret (Some l'))"
| "writer_exec Crash = bnd (modify (\<lambda>s. s\<lparr>kernel_lock := None\<rparr>)) (\<lambda>_. ret None)"

definition fence_inv :: "project \<Rightarrow> bool" where
  "fence_inv s \<longleftrightarrow> (\<forall>r. writer_lease s = Some r \<longrightarrow> 1 \<le> wr_fence r)"

definition fence_later :: "project \<Rightarrow> project \<Rightarrow> bool" where
  "fence_later s t \<longleftrightarrow> fence_no s \<le> fence_no t"

lemma release_fence: "release l s = Inr (l', s') \<Longrightarrow> fence_no s' = fence_no s \<and> (fence_inv s \<longrightarrow> fence_inv s')"
  by (auto simp: release_def fence_no_def fence_inv_def lock_release_def split: if_splits option.splits)

lemma heartbeat_fence: "heartbeat w l s = Inr (u, s') \<Longrightarrow> fence_no s' = fence_no s \<and> (fence_inv s \<longrightarrow> fence_inv s')"
  by (auto simp: heartbeat_def in_transaction_Inr fence_no_def fence_inv_def run_simps split: option.splits)

lemma acquire_fence: "acquire w l s = Inr (l', s') \<Longrightarrow> fence_inv s \<Longrightarrow> fence_no s' = fence_no s + 1 \<and> fence_inv s'"
  by (frule acquire_Inr(5)) (auto simp: fence_no_def fence_inv_def split: option.splits)

interpretation fences: monotone_machine writer_exec fence_inv fence_later
proof unfold_locales
  fix x
  show "keeps fence_inv (writer_exec x)"
    by (rule validI, cases x)
      (auto simp: run_simps fence_inv_def dest!: release_fence heartbeat_fence acquire_fence)
next
  fix s s' x a
  assume "fence_inv s" "writer_exec x s = Inr (a, s')"
  then show "fence_later s s'"
    by (cases x) (auto simp: run_simps fence_later_def fence_no_def [of "_\<lparr>kernel_lock := _\<rparr>"]
        simp flip: fence_no_def dest: release_fence heartbeat_fence acquire_fence)
qed (auto simp: fence_later_def)

text \<open>The writer's own operations touch the lock, the lease row and the receipts, nothing else.\<close>

definition writer_frame :: "project \<Rightarrow> project \<Rightarrow> bool" where
  "writer_frame s t \<longleftrightarrow> grows (=) (receipts s) (receipts t)
     \<and> t\<lparr>kernel_lock := None, writer_lease := None, receipts := []\<rparr>
       = s\<lparr>kernel_lock := None, writer_lease := None, receipts := []\<rparr>"

lemma acquire_frame: "acquire w l s = Inr (l', s') \<Longrightarrow> writer_frame s s'"
  by (auto simp: acquire_def lock_acquire_def writer_frame_def run_simps Let_def split: sum.splits)

lemma release_frame: "release l s = Inr (l', s') \<Longrightarrow> writer_frame s s'"
  by (auto simp: release_def lock_release_def writer_frame_def split: if_splits)

lemma heartbeat_frame: "heartbeat w l s = Inr (u, s') \<Longrightarrow> writer_frame s s'"
  by (auto simp: heartbeat_def in_transaction_Inr writer_frame_def run_simps)

lemma writer_exec_frame: "writer_exec x s = Inr (r, s') \<Longrightarrow> writer_frame s s'"
  by (cases x) (auto simp: run_simps dest: acquire_frame release_frame heartbeat_frame, simp add: writer_frame_def)

lemma writer_frame_receipts: "writer_frame s t \<Longrightarrow> grows (=) (receipts s) (receipts t)"
  by (simp add: writer_frame_def)

lemma writer_frame_field:
  assumes "writer_frame s t" "\<And>u. f (u\<lparr>kernel_lock := None, writer_lease := None, receipts := []\<rparr>) = f u"
  shows "f t = f s"
  using assms unfolding writer_frame_def by metis

section \<open>Properties\<close>

lemma check_lease_current:
  "check_lease w l s = Inr (u, s') \<Longrightarrow> ls_fence l = Some (fence_no s)"
  by (auto simp: run_simps fence_no_def)

text \<open>
  C28. A writer that lost the project never writes again: once another acquisition succeeded, the
  earlier lease fails its check in every later state, whatever acquisitions, heartbeats, releases and
  crashes follow.
\<close>

theorem superseded_lease_stays_refused:
  assumes "fence_inv s" "check_lease w l s = Inr ((), s)" "acquire w' l' s1 = Inr (l'', s2)"
    and "fence_inv s1" "fence_later s s1"
  shows "isl (check_lease w'' l (run_ops writer_exec xs s2))"
proof -
  have "fence_no s2 = fence_no s1 + 1" "fence_inv s2" using acquire_fence [OF assms(3,4)] by simp_all
  moreover have "fence_no s2 \<le> fence_no (run_ops writer_exec xs s2)"
    using fences.run_later [OF \<open>fence_inv s2\<close>] by (simp add: fence_later_def)
  ultimately have "ls_fence l \<noteq> Some (fence_no (run_ops writer_exec xs s2))"
    using check_lease_current [OF assms(2)] assms(5) by (simp add: fence_later_def)
  then show ?thesis
    using check_lease_current [of w'' l] by (cases "check_lease w'' l (run_ops writer_exec xs s2)") auto
qed

text \<open>
  At most one writer: two leases that pass the check in the same state, at whatever times, have
  the same owner and the same fence.
\<close>

theorem one_writer:
  assumes "check_lease w l s = Inr r" "check_lease w' l' s = Inr r'"
  shows "ls_owner l = ls_owner l' \<and> ls_fence l = ls_fence l'"
  using assms by (cases r; cases r') (auto simp: run_simps)

text \<open>
  A fresh acquisition works exactly until it expires: the new lease passes its check at every
  instant before the expiry and is refused as expired from then on.
\<close>

theorem acquired_lease_until_expiry:
  assumes "acquire w l s = Inr (l', s')"
  shows "check_lease w' l' s' = (if instant w' < expiry w l then Inr ((), s') else Inl (LaneError ''WRITER_LEASE_EXPIRED''))"
  using acquire_Inr(4,5) [OF assms] by (simp add: check_lease_def eval_simps)

text \<open>
  While the OS lock on the project is held, nobody else acquires the project: the attempt is
  refused as busy, and an owner that already holds it is refused as well.
\<close>

theorem busy_project_is_refused:
  "kernel_lock s = None \<or> acquire w l s =
     Inl (LaneError (if ls_held l then ''LOCK_ALREADY_HELD'' else ''PROJECT_WRITER_BUSY''))"
  by (simp add: acquire_def lock_acquire_def eval_simps)

end
