(* ===== verification/Samples.thy ===== *)
theory Samples
  imports Writers
begin

text \<open>
  A concrete world, lease and project for the witnesses: the hash is constant, identifiers are short
  texts, and the project's writer is held until one minute after time zero.
\<close>

definition sample_hash :: "string \<Rightarrow> string" where
  "sample_hash t = replicate 64 CHR ''0''"

definition sample_world :: "nat \<Rightarrow> world" where
  "sample_world n = \<lparr>now = ''2026-01-01T00:00:00Z'', instant = 0,
     uuid = (\<lambda>ks. map (\<lambda>k. ''0123456789'' ! k) (n # ks)), sha256 = sample_hash\<rparr>"

definition sample_lease :: lease where
  "sample_lease = \<lparr>ls_project_id = ''p'', ls_root = ''r'', ls_engine = ''e'', ls_owner = ''o'',
     ls_seconds = 60, ls_held = True, ls_fence = Some 1\<rparr>"

definition sample_project :: project where
  "sample_project = (empty_project ''p'' ''r'')\<lparr>kernel_lock := Some ''o'',
     writer_lease := Some \<lparr>wr_fence = 1, wr_owner = Some ''o'', wr_engine = Some ''e'', wr_expires = Some 60000000\<rparr>\<rparr>"

text \<open>A request identifier, an address, and a hash without collisions that has a well-formed address.\<close>

definition sample_uuid :: string where
  "sample_uuid = ''00000000-0000-4000-8000-000000000000''"

lemma sample_uuid_ok: "uuid_pattern sample_uuid"
  by (simp add: uuid_pattern_def sample_uuid_def is_hex_def is_digit_def)

lemma sample_hash_ok: "digest_pattern (replicate 64 CHR ''0'')"
  by (simp add: digest_pattern_def is_hex_def is_digit_def list_all_iff)

lemma sample_uuid_size: "sum_list (map char_size sample_uuid) = 36"
  by (simp add: sample_uuid_def char_size_def escape_char_def)

definition sample_injective :: "string \<Rightarrow> string" where
  "sample_injective t = (if t = ''null'' then replicate 64 CHR ''0'' else CHR ''x'' # t)"

lemma sample_injective_ok: "\<not> collision sample_injective"
proof -
  have "replicate 64 CHR ''0'' \<noteq> CHR ''x'' # t" for t by (simp add: numeral_eq_Suc)
  then show ?thesis by (auto simp: collision_def sample_injective_def dest: sym split: if_splits)
qed

text \<open>A run that does not raise, and the state it leaves.\<close>

definition state_after :: "('s, 'a) action \<Rightarrow> 's \<Rightarrow> 's" where
  "state_after m s = snd (projr (m s))"

definition returned :: "('s, 'a) action \<Rightarrow> 's \<Rightarrow> 'a" where
  "returned m s = fst (projr (m s))"

lemma ran: "\<not> isl (m s) \<Longrightarrow> m s = Inr (returned m s, state_after m s)"
  by (cases "m s") (auto simp: state_after_def returned_def)

text \<open>Evaluation of concrete runs by the simplifier, sizes of JSON texts included.\<close>

lemmas [run_eval] = draw_def jopt_def

lemmas size_eval [run_eval] = json_bytes_size utf8_size_json_dump utf8_size_quoted char_size_def escape_char_def int_text_def
  nat_digits.simps json_size.simps

lemmas sample_eval [run_eval] = sample_project_def sample_lease_def sample_world_def sample_hash_def empty_project_def
  Let_def in_transaction_def state_after_def returned_def

section \<open>Witnesses of the writer and the object store\<close>

lemma superseded_lease_stays_refused_witness:
  "isl (check_lease (sample_world 1) sample_lease (run_ops writer_exec [Crash] (state_after
     (acquire (sample_world 1) (sample_lease\<lparr>ls_held := False, ls_owner := ''o2''\<rparr>))
     (sample_project\<lparr>kernel_lock := None\<rparr>))))"
proof -
  let ?a = "acquire (sample_world 1) (sample_lease\<lparr>ls_held := False, ls_owner := ''o2''\<rparr>)"
  have "\<not> isl (?a (sample_project\<lparr>kernel_lock := None\<rparr>))" by (simp add: run_eval eval_simps op_defs)
  note new = ran [of ?a, OF this]
  have "check_lease (sample_world 0) sample_lease sample_project = Inr ((), sample_project)"
    by (simp add: run_eval eval_simps op_defs)
  moreover have "fence_inv sample_project" "fence_inv (sample_project\<lparr>kernel_lock := None\<rparr>)"
    "fence_later sample_project (sample_project\<lparr>kernel_lock := None\<rparr>)"
    by (simp_all add: fence_inv_def fence_later_def fence_no_def sample_project_def)
  ultimately show ?thesis using new by (intro superseded_lease_stays_refused)
qed

lemma one_writer_witness: "ls_owner sample_lease = ls_owner (sample_lease\<lparr>ls_seconds := 5\<rparr>)"
proof -
  have "check_lease (sample_world 1) sample_lease sample_project = Inr ((), sample_project)"
    "check_lease (sample_world 2) (sample_lease\<lparr>ls_seconds := 5\<rparr>) sample_project = Inr ((), sample_project)"
    by (simp_all add: run_eval eval_simps op_defs)
  from one_writer [OF this] show ?thesis by simp
qed

lemma acquired_lease_until_expiry_witness:
  "check_lease (sample_world 3) (returned (acquire (sample_world 1) (sample_lease\<lparr>ls_held := False\<rparr>)) (empty_project ''p'' ''r''))
     (state_after (acquire (sample_world 1) (sample_lease\<lparr>ls_held := False\<rparr>)) (empty_project ''p'' ''r''))
   = Inr ((), state_after (acquire (sample_world 1) (sample_lease\<lparr>ls_held := False\<rparr>)) (empty_project ''p'' ''r''))"
proof -
  let ?a = "acquire (sample_world 1) (sample_lease\<lparr>ls_held := False\<rparr>)"
  have "\<not> isl (?a (empty_project ''p'' ''r''))" by (simp add: run_eval eval_simps op_defs)
  from acquired_lease_until_expiry [OF ran [of ?a, OF this], of "sample_world 3"] show ?thesis
    by (simp add: expiry_def sample_world_def sample_lease_def)
qed

lemma stored_objects_stay_readable_witness:
  "list_all2 (\<lambda>d v. map_sum id json_text (read_object sample_hash ''plan'' d
       (state_after (collect (put_object (sample_world 1) ''plan'' 100) [JNull]) sample_project)) = Inr (json_text v))
     (returned (collect (put_object (sample_world 1) ''plan'' 100) [JNull]) sample_project) [JNull]"
proof -
  let ?m = "collect (put_object (sample_world 1) ''plan'' 100) [JNull]"
  have "digest_pattern (replicate 64 CHR ''0'')"
    by (simp add: digest_pattern_def is_hex_def is_digit_def list_all_iff)
  then have "\<not> isl (?m sample_project)"
    by (simp add: run_eval eval_simps op_defs content_digest_def rbind_def)
  from stored_objects_stay_readable [OF _ ran [of ?m, OF this]] show ?thesis
    by (simp add: objects_sound_def sample_project_def empty_project_def) (simp add: sample_world_def)
qed

end
