(* ===== verification/Jobs.thy ===== *)
theory Jobs
  imports Samples
begin

text \<open>
  The durable job queue (jobs.py): admission, claims, cancellation, checkpoints, the journal of
  external effects, completion, failure and the reconciliation of interrupted work. The last part
  states what the queue promises: jobs follow a fixed life cycle, an effect that was started keeps
  its job out of success until its outcome is known, and no effect is prepared twice.
\<close>

section \<open>Rows\<close>

definition find_job :: "string \<Rightarrow> project \<Rightarrow> job option" where
  "find_job jid s = find (\<lambda>j. jb_job_id j = jid) (jobs s)"

definition find_effect :: "string \<Rightarrow> string \<Rightarrow> project \<Rightarrow> effect option" where
  "find_effect jid eid s = find (\<lambda>e. ef_effect_id e = eid \<and> ef_job_id e = jid) (effects s)"

text \<open>\<open>_row\<close>, \<open>_running\<close> and \<open>_pending_effect\<close>.\<close>

definition job_row :: "string \<Rightarrow> (project, job) action" where
  "job_row jid = bnd (gets (find_job jid)) (\<lambda>r. demand r ''JOB_NOT_FOUND'')"

definition running_row :: "string \<Rightarrow> lease \<Rightarrow> string \<Rightarrow> (project, job) action" where
  "running_row jid l execution =
     bnd (job_row jid) (\<lambda>row.
     bnd (require (jb_state row = JRunning \<and> jb_owner_fence row = ls_fence l \<and> jb_execution_id row = Some execution)
       ''JOB_OWNER_CHANGED'') (\<lambda>_. ret row))"

definition pending_effect :: "string \<Rightarrow> project \<Rightarrow> bool" where
  "pending_effect jid s \<longleftrightarrow> list_ex (\<lambda>e. ef_job_id e = jid \<and> ef_state e = Prepared) (effects s)"

definition update_job :: "string \<Rightarrow> (job \<Rightarrow> job) \<Rightarrow> (project, unit) action" where
  "update_job jid f = modify (\<lambda>s. s\<lparr>jobs := update_where (\<lambda>j. jb_job_id j = jid) f (jobs s)\<rparr>)"

section \<open>Admission\<close>

definition request_json :: "action_request \<Rightarrow> json" where
  "request_json r = JObj [(''protocol_version'', JInt 4), (''request_id'', JStr (rq_request_id r)),
     (''action'', JStr (rq_action r)), (''project_id'', jopt (rq_project_id r)),
     (''expected_revision'', case rq_expected_revision r of None \<Rightarrow> JNull | Some n \<Rightarrow> JInt n),
     (''arguments'', rq_arguments r)]"

definition jint_opt :: "int option \<Rightarrow> json" where
  "jint_opt x = (case x of None \<Rightarrow> JNull | Some n \<Rightarrow> JInt n)"

text \<open>
  \<open>enqueue\<close>. A repeated request identifier returns the job it already has, and is refused when it
  comes with other work or from another client.
\<close>

definition new_job :: "world \<Rightarrow> action_request \<Rightarrow> string \<Rightarrow> string \<Rightarrow> job" where
  "new_job w rq client digest =
     \<lparr>jb_job_id = draw 0 w, jb_request_id = rq_request_id rq, jb_client_id = client, jb_request_digest = digest,
      jb_request = rq, jb_action = rq_action rq, jb_plan_revision = rq_expected_revision rq, jb_state = JQueued,
      jb_owner_fence = None, jb_execution_id = None, jb_phase = ''admitted'', jb_checkpoint = None,
      jb_resumable = False, jb_cancellation = None, jb_result = None, jb_error_code = None,
      jb_created = now w, jb_updated = now w\<rparr>"

definition admit_new :: "world \<Rightarrow> action_request \<Rightarrow> string \<Rightarrow> string \<Rightarrow> (project, string) action" where
  "admit_new w rq client digest =
     bnd (insert_into jobs jobs_update jb_job_id (new_job w rq client digest)) (\<lambda>_.
     bnd (append_receipt (branch 1 w) (Some ''plan'') ''job_admitted''
       [(''job_id'', JStr (draw 0 w)), (''request_id'', JStr (rq_request_id rq)), (''action'', JStr (rq_action rq)),
        (''client_id'', JStr client), (''plan_revision'', jint_opt (rq_expected_revision rq))]) (\<lambda>_.
     ret (draw 0 w)))"

definition enqueue ::
  "world \<Rightarrow> lease \<Rightarrow> action_request \<Rightarrow> string \<Rightarrow> int \<Rightarrow> (project, string) action" where
  "enqueue w l rq client max_request_bytes =
     bnd (own_lease w l) (\<lambda>_.
     bnd (gets project_id) (\<lambda>pid.
     bnd (require (rq_project_id rq = Some pid \<and> client \<noteq> [] \<and> length client \<le> 128) ''JOB_BINDING_MISMATCH'') (\<lambda>_.
     bnd (require (1 \<le> max_request_bytes \<and> max_request_bytes \<le> 67174400) ''INVALID_JOB_BUDGET'') (\<lambda>_.
     bnd (require (int (utf8_size (json_dump (request_json rq))) \<le> max_request_bytes) ''JOB_TOO_LARGE'') (\<lambda>_.
     in_transaction w l
       (let digest = sha256 w (json_dump (request_json rq)) in
        bnd (gets (\<lambda>s. find (\<lambda>j. jb_request_id j = rq_request_id rq) (jobs s))) (\<lambda>existing.
        case existing of
          Some j \<Rightarrow>
            bnd (require (jb_request_digest j = digest \<and> jb_client_id j = client) ''REQUEST_ID_CONFLICT'') (\<lambda>_.
            ret (jb_job_id j))
        | None \<Rightarrow> admit_new w rq client digest)))))))"

section \<open>Execution\<close>

record job_claim =
  cl_job_id :: string
  cl_execution_id :: string
  cl_owner_fence :: "int option"
  cl_request :: action_request

text \<open>A cancellation reason counts when it is a nonempty text (\<open>if row["cancellation_reason"]\<close>).\<close>

definition cancelled :: "job \<Rightarrow> bool" where
  "cancelled j \<longleftrightarrow> (case jb_cancellation j of None \<Rightarrow> False | Some r \<Rightarrow> r \<noteq> [])"

definition claim :: "world \<Rightarrow> lease \<Rightarrow> string \<Rightarrow> (project, job_claim) action" where
  "claim w l jid =
     bnd (own_lease w l) (\<lambda>_.
     in_transaction w l
       (bnd (job_row jid) (\<lambda>row.
        bnd (gets (pending_effect jid)) (\<lambda>pending.
        bnd (require (jb_state row \<in> {JQueued, JCheckpointed} \<and> (jb_state row = JCheckpointed \<longrightarrow> jb_resumable row)
          \<and> \<not> pending) ''JOB_NOT_RUNNABLE'') (\<lambda>_.
        bnd (require (\<not> cancelled row) ''JOB_CANCELLED'') (\<lambda>_.
        bnd (update_job jid (\<lambda>j. j\<lparr>jb_state := JRunning, jb_owner_fence := ls_fence l,
               jb_execution_id := Some (draw 0 w), jb_updated := now w\<rparr>)) (\<lambda>_.
        ret \<lparr>cl_job_id = jid, cl_execution_id = draw 0 w, cl_owner_fence = ls_fence l, cl_request = jb_request row\<rparr>)))))))"

definition request_cancel :: "world \<Rightarrow> lease \<Rightarrow> string \<Rightarrow> string \<Rightarrow> (project, unit) action" where
  "request_cancel w l jid reason =
     bnd (own_lease w l) (\<lambda>_.
     bnd (require (\<not> blank reason \<and> length reason \<le> 1000) ''INVALID_CANCELLATION'') (\<lambda>_.
     in_transaction w l
       (bnd (job_row jid) (\<lambda>row.
        if jb_state row \<notin> {JQueued, JRunning, JCheckpointed} then ret ()
        else
          bnd (update_job jid (\<lambda>j. j\<lparr>jb_cancellation := Some reason,
                 jb_state := (if jb_state row \<noteq> JRunning then JCancelled else JRunning), jb_updated := now w\<rparr>)) (\<lambda>_.
          bnd (append_receipt w (Some ''plan'') ''job_cancel_requested''
                 [(''job_id'', JStr jid), (''reason'', JStr reason)]) (\<lambda>_. ret ()))))))"

text \<open>\<open>checkpoint\<close>: the state after it, decided from pending effects, cancellation and the pause.\<close>

definition checkpoint_state :: "bool \<Rightarrow> bool \<Rightarrow> job \<Rightarrow> bool \<Rightarrow> job_state \<times> bool" where
  "checkpoint_state pending pause row resumable =
     (if pending \<and> (pause \<or> cancelled row) then (JUncertain, False)
      else if cancelled row then (JCancelled, resumable)
      else (if pause then JCheckpointed else JRunning, resumable))"

definition checkpoint ::
  "world \<Rightarrow> lease \<Rightarrow> string \<Rightarrow> string \<Rightarrow> string \<Rightarrow> bool \<Rightarrow> string \<Rightarrow> bool \<Rightarrow> (project, job_state) action" where
  "checkpoint w l jid phase object_digest resumable execution pause =
     bnd (own_lease w l) (\<lambda>_.
     bnd (require (phase \<noteq> [] \<and> length phase \<le> 200) ''INVALID_CHECKPOINT'') (\<lambda>_.
     bnd (bnd (gets (read_object (sha256 w) ''plan'' object_digest)) lift_result) (\<lambda>_.
     in_transaction w l
       (bnd (running_row jid l execution) (\<lambda>row.
        bnd (gets (pending_effect jid)) (\<lambda>pending.
        let (state, keep) = checkpoint_state pending pause row resumable in
        bnd (update_job jid (\<lambda>j. j\<lparr>jb_phase := phase, jb_checkpoint := Some object_digest, jb_resumable := keep,
               jb_state := state, jb_updated := now w\<rparr>)) (\<lambda>_.
        ret state)))))))"

section \<open>External effects\<close>

definition prepare_effect ::
  "world \<Rightarrow> lease \<Rightarrow> string \<Rightarrow> string \<Rightarrow> string \<Rightarrow> string \<Rightarrow> (project, string) action" where
  "prepare_effect w l jid key description execution =
     bnd (own_lease w l) (\<lambda>_.
     bnd (require (key \<noteq> [] \<and> length key \<le> 200 \<and> description \<noteq> [] \<and> length description \<le> 1000) ''INVALID_EFFECT'') (\<lambda>_.
     in_transaction w l
       (bnd (running_row jid l execution) (\<lambda>row.
        bnd (require (\<not> cancelled row) ''JOB_CANCELLED'') (\<lambda>_.
        bnd (gets (\<lambda>s. list_ex (\<lambda>e. ef_job_id e = jid \<and> ef_key e = key) (effects s))) (\<lambda>existing.
        bnd (require (\<not> existing) ''EFFECT_ALREADY_RECORDED'') (\<lambda>_.
        bnd (insert_into effects effects_update ef_effect_id
          \<lparr>ef_effect_id = draw 0 w, ef_job_id = jid, ef_key = key, ef_state = Prepared, ef_description = description,
           ef_evidence = None, ef_created = now w, ef_updated = now w\<rparr>) (\<lambda>_.
        ret (draw 0 w)))))))))"

definition update_effect :: "(effect \<Rightarrow> bool) \<Rightarrow> (effect \<Rightarrow> effect) \<Rightarrow> string \<Rightarrow> (project, unit) action" where
  "update_effect P f code =
     bnd (gets (\<lambda>s. length (filter P (effects s)))) (\<lambda>rowcount.
     bnd (require (rowcount = 1) code) (\<lambda>_.
     modify (\<lambda>s. s\<lparr>effects := update_where P f (effects s)\<rparr>)))"

definition confirm_effect ::
  "world \<Rightarrow> lease \<Rightarrow> string \<Rightarrow> string \<Rightarrow> string \<Rightarrow> string \<Rightarrow> (project, unit) action" where
  "confirm_effect w l jid eid evidence execution =
     bnd (own_lease w l) (\<lambda>_.
     bnd (bnd (gets (read_object (sha256 w) ''plan'' evidence)) lift_result) (\<lambda>_.
     in_transaction w l
       (bnd (running_row jid l execution) (\<lambda>_.
        update_effect (\<lambda>e. ef_effect_id e = eid \<and> ef_job_id e = jid \<and> ef_state e = Prepared)
          (\<lambda>e. e\<lparr>ef_state := Confirmed, ef_evidence := Some evidence, ef_updated := now w\<rparr>)
          ''EFFECT_STATE_CHANGED''))))"

section \<open>Ends of an execution\<close>

definition complete :: "world \<Rightarrow> lease \<Rightarrow> string \<Rightarrow> json \<Rightarrow> string \<Rightarrow> (project, unit) action" where
  "complete w l jid result execution =
     bnd (own_lease w l) (\<lambda>_.
     bnd (require (json_bytes result \<le> 1000000) ''RESULT_TOO_LARGE'') (\<lambda>_.
     in_transaction w l
       (bnd (running_row jid l execution) (\<lambda>row.
        bnd (gets (pending_effect jid)) (\<lambda>pending.
        bnd (require (\<not> pending) ''EFFECT_OUTCOME_UNCERTAIN'') (\<lambda>_.
        bnd (require (\<not> cancelled row) ''JOB_CANCELLED'') (\<lambda>_.
        bnd (update_job jid (\<lambda>j. j\<lparr>jb_state := JSucceeded, jb_result := Some result, jb_updated := now w\<rparr>)) (\<lambda>_.
        bnd (append_receipt w (Some ''plan'') ''job_completed'' [(''job_id'', JStr jid)]) (\<lambda>_. ret ())))))))))"

definition fail_job :: "world \<Rightarrow> lease \<Rightarrow> string \<Rightarrow> string \<Rightarrow> string \<Rightarrow> (project, unit) action" where
  "fail_job w l jid code execution =
     bnd (own_lease w l) (\<lambda>_.
     bnd (require (code \<noteq> [] \<and> length code \<le> 100) ''INVALID_FAILURE'') (\<lambda>_.
     in_transaction w l
       (bnd (running_row jid l execution) (\<lambda>_.
        bnd (gets (pending_effect jid)) (\<lambda>pending.
        update_job jid (\<lambda>j. j\<lparr>jb_state := (if pending then JUncertain else JFailed),
          jb_error_code := Some code, jb_updated := now w\<rparr>))))))"

section \<open>Reconciliation\<close>

text \<open>
  \<open>reconcile_interrupted\<close>: running jobs of an earlier fence. Any effect not known to be absent
  makes the job uncertain; nothing is replayed.
\<close>

definition interrupted_state :: "bool \<Rightarrow> job \<Rightarrow> job_state" where
  "interrupted_state any_effect row =
     (if any_effect then JUncertain
      else if cancelled row then JCancelled
      else if (case jb_checkpoint row of None \<Rightarrow> False | Some c \<Rightarrow> c \<noteq> []) \<and> jb_resumable row then JCheckpointed
      else JFailed)"

record job_outcome =
  jo_job_id :: string
  jo_state :: job_state
  jo_automatic_replay :: bool

definition reconcile_row :: "world \<Rightarrow> nat \<times> job \<Rightarrow> (project, job_outcome) action" where
  "reconcile_row w = (\<lambda>(i, row).
     bnd (gets (\<lambda>s. list_ex (\<lambda>e. ef_job_id e = jb_job_id row \<and> ef_state e \<noteq> Absent) (effects s))) (\<lambda>any_effect.
     let state = interrupted_state any_effect row in
     bnd (update_job (jb_job_id row) (\<lambda>j. j\<lparr>jb_state := state, jb_error_code := Some ''EXECUTION_INTERRUPTED'',
            jb_updated := now w\<rparr>)) (\<lambda>_.
     bnd (append_receipt (branch i w) (Some ''plan'') ''job_reconciled''
       [(''job_id'', JStr (jb_job_id row)), (''state'', JStr (job_state_name state)),
        (''automatic_replay'', JBool False)]) (\<lambda>_.
     ret \<lparr>jo_job_id = jb_job_id row, jo_state = state, jo_automatic_replay = False\<rparr>))))"

text \<open>\<open>owner_fence!=?\<close> is SQL's comparison: a row without a fence is not selected.\<close>

definition fence_differs :: "int option \<Rightarrow> int option \<Rightarrow> bool" where
  "fence_differs a b \<longleftrightarrow> a \<noteq> None \<and> b \<noteq> None \<and> a \<noteq> b"

definition reconcile_interrupted :: "world \<Rightarrow> lease \<Rightarrow> (project, job_outcome list) action" where
  "reconcile_interrupted w l =
     bnd (own_lease w l) (\<lambda>_.
     in_transaction w l
       (bnd (gets (\<lambda>s. filter (\<lambda>j. jb_state j = JRunning \<and> fence_differs (jb_owner_fence j) (ls_fence l)) (jobs s))) (\<lambda>rows.
        collect (reconcile_row w) (enumerate 0 rows))))"

definition reconcile_effect ::
  "world \<Rightarrow> lease \<Rightarrow> string \<Rightarrow> string \<Rightarrow> effect_state \<Rightarrow> string \<Rightarrow> (project, unit) action" where
  "reconcile_effect w l jid eid outcome evidence =
     bnd (own_lease w l) (\<lambda>_.
     bnd (require (outcome \<in> {Confirmed, Absent}) ''INVALID_RECONCILIATION'') (\<lambda>_.
     bnd (bnd (gets (read_object (sha256 w) ''plan'' evidence)) lift_result) (\<lambda>_.
     in_transaction w l
       (bnd (job_row jid) (\<lambda>row.
        bnd (require (jb_state row = JUncertain) ''JOB_STATE_CHANGED'') (\<lambda>_.
        bnd (update_effect (\<lambda>e. ef_effect_id e = eid \<and> ef_job_id e = jid)
          (\<lambda>e. e\<lparr>ef_state := outcome, ef_evidence := Some evidence, ef_updated := now w\<rparr>) ''EFFECT_NOT_FOUND'') (\<lambda>_.
        bnd (append_receipt w (Some ''plan'') ''effect_reconciled''
          [(''job_id'', JStr jid), (''effect_id'', JStr eid), (''outcome'', JStr (effect_state_name outcome)),
           (''evidence_object'', JStr evidence)]) (\<lambda>_.
        bnd (gets (pending_effect jid)) (\<lambda>pending.
        if pending then ret ()
        else update_job jid (\<lambda>j. j\<lparr>jb_state := JFailed, jb_error_code := Some ''RECONCILED_REPLAN_REQUIRED'',
               jb_updated := now w\<rparr>))))))))))"

declare find_job_def [op_defs] find_effect_def [op_defs] job_row_def [op_defs] running_row_def [op_defs]
  pending_effect_def [op_defs] update_job_def [op_defs] request_json_def [op_defs] jint_opt_def [op_defs]
  new_job_def [op_defs] admit_new_def [op_defs] enqueue_def [op_defs] claim_def [op_defs] cancelled_def
  [op_defs] request_cancel_def [op_defs] checkpoint_state_def [op_defs] checkpoint_def [op_defs]
  prepare_effect_def [op_defs] update_effect_def [op_defs] confirm_effect_def [op_defs] complete_def [op_defs]
  fail_job_def [op_defs] interrupted_state_def [op_defs] reconcile_row_def [op_defs] fence_differs_def [op_defs]
  reconcile_interrupted_def [op_defs] reconcile_effect_def [op_defs]

section \<open>Reads\<close>

definition get_job :: "string \<Rightarrow> (project, job \<times> effect list) action" where
  "get_job jid = bnd (job_row jid) (\<lambda>row.
     bnd (gets (\<lambda>s. sort_key ef_created (filter (\<lambda>e. ef_job_id e = jid) (effects s)))) (\<lambda>es. ret (row, es)))"

text \<open>\<open>ORDER BY created_at DESC,job_id LIMIT\<close>.\<close>

definition list_jobs :: "int \<Rightarrow> project \<Rightarrow> job list result" where
  "list_jobs limit s =
     (if \<not> (1 \<le> limit \<and> limit \<le> 500) then Inl (LaneError ''INVALID_LIMIT'')
      else Inr (take (nat limit) (rev (sort_key jb_created (rev (sort_key jb_job_id (jobs s)))))))"

section \<open>The life cycle\<close>

inductive job_step :: "job_state \<Rightarrow> job_state \<Rightarrow> bool" where
  claim_queued: "job_step JQueued JRunning"
| claim_checkpointed: "job_step JCheckpointed JRunning"
| cancel_queued: "job_step JQueued JCancelled"
| cancel_checkpointed: "job_step JCheckpointed JCancelled"
| fail_queued: "job_step JQueued JFailed"
| supersede: "a \<in> {JQueued, JCheckpointed} \<Longrightarrow> job_step a JSuperseded"
| leave_running: "b \<in> {JCheckpointed, JCancelled, JSucceeded, JFailed, JUncertain} \<Longrightarrow> job_step JRunning b"
| reconciled: "job_step JUncertain JFailed"

inductive_simps job_step_simps [simp]:
  "job_step JQueued b" "job_step JRunning b" "job_step JCheckpointed b" "job_step JCancelled b"
  "job_step JSucceeded b" "job_step JFailed b" "job_step JUncertain b" "job_step JSuperseded b"

definition job_final :: "job_state \<Rightarrow> bool" where
  "job_final st \<longleftrightarrow> st \<in> {JCancelled, JSucceeded, JFailed, JSuperseded}"

lemma job_final_no_step: "job_final a \<Longrightarrow> \<not> job_step a b"
  by (auto simp: job_final_def)

lemma job_steps_final: "job_step\<^sup>*\<^sup>* a b \<Longrightarrow> job_final a \<Longrightarrow> b = a"
  by (induction rule: converse_rtranclp_induct) (auto dest: job_final_no_step)

text \<open>An uncertain job can only fail: no path leads from it to success or to a new execution.\<close>

lemma job_steps_uncertain: "job_step\<^sup>*\<^sup>* JUncertain b \<Longrightarrow> b \<in> {JUncertain, JFailed}"
  by (induction rule: rtranclp_induct) auto

section \<open>The invariant of the queue\<close>

text \<open>
  Keys are unique; a running job has its fence and execution; an effect whose outcome is open
  belongs to a job that is running or waiting for reconciliation.
\<close>

definition job_keys :: "project \<Rightarrow> bool" where
  "job_keys s \<longleftrightarrow> distinct (map jb_job_id (jobs s)) \<and> distinct (map jb_request_id (jobs s))
     \<and> distinct (map ef_effect_id (effects s)) \<and> distinct (map (\<lambda>e. (ef_job_id e, ef_key e)) (effects s))"

definition owned :: "job \<Rightarrow> bool" where
  "owned j \<longleftrightarrow> (jb_state j = JRunning \<longrightarrow> jb_owner_fence j \<noteq> None \<and> jb_execution_id j \<noteq> None)"

definition open_ok :: "job list \<Rightarrow> effect \<Rightarrow> bool" where
  "open_ok js e \<longleftrightarrow> (ef_state e = Prepared \<longrightarrow>
     (\<exists>j \<in> set js. jb_job_id j = ef_job_id e \<and> jb_state j \<in> {JRunning, JUncertain}))"

definition job_inv :: "project \<Rightarrow> bool" where
  "job_inv s \<longleftrightarrow> job_keys s \<and> (\<forall>j \<in> set (jobs s). owned j) \<and> (\<forall>e \<in> set (effects s). open_ok (jobs s) e)"

text \<open>What may happen to a job row and to an effect row.\<close>

definition job_evolves :: "job \<Rightarrow> job \<Rightarrow> bool" where
  "job_evolves j j' \<longleftrightarrow> jb_job_id j' = jb_job_id j \<and> jb_request_id j' = jb_request_id j \<and> jb_client_id j' = jb_client_id j
     \<and> jb_request_digest j' = jb_request_digest j \<and> jb_request j' = jb_request j
     \<and> job_step\<^sup>*\<^sup>* (jb_state j) (jb_state j')"

definition effect_evolves :: "effect \<Rightarrow> effect \<Rightarrow> bool" where
  "effect_evolves e e' \<longleftrightarrow> ef_effect_id e' = ef_effect_id e \<and> ef_job_id e' = ef_job_id e \<and> ef_key e' = ef_key e
     \<and> ef_description e' = ef_description e \<and> (ef_state e' = Prepared \<longrightarrow> ef_state e = Prepared)"

definition jobs_later :: "project \<Rightarrow> project \<Rightarrow> bool" where
  "jobs_later s t \<longleftrightarrow> grows job_evolves (jobs s) (jobs t) \<and> grows effect_evolves (effects s) (effects t)
     \<and> grows (=) (receipts s) (receipts t)"

lemma job_evolves_refl [simp]: "job_evolves j j"
  by (simp add: job_evolves_def)

lemma job_evolves_trans: "job_evolves a b \<Longrightarrow> job_evolves b c \<Longrightarrow> job_evolves a c"
  by (auto simp: job_evolves_def)

lemma effect_evolves_refl [simp]: "effect_evolves e e"
  by (simp add: effect_evolves_def)

lemma effect_evolves_trans: "effect_evolves a b \<Longrightarrow> effect_evolves b c \<Longrightarrow> effect_evolves a c"
  by (auto simp: effect_evolves_def)

lemma jobs_later_refl [simp]: "jobs_later s s"
  by (simp add: jobs_later_def grows_refl)

lemma jobs_later_trans: "jobs_later s t \<Longrightarrow> jobs_later t u \<Longrightarrow> jobs_later s u"
  unfolding jobs_later_def
  by (intro conjI; elim conjE; erule (1) grows_trans)
    (auto dest: job_evolves_trans effect_evolves_trans)

text \<open>The invariant and the order look at three tables only.\<close>

lemma job_inv_cong: "jobs s' = jobs s \<Longrightarrow> effects s' = effects s \<Longrightarrow> job_inv s' \<longleftrightarrow> job_inv s"
  by (simp add: job_inv_def job_keys_def)

lemma jobs_later_receipt:
  "jobs s' = jobs s \<Longrightarrow> effects s' = effects s \<Longrightarrow> grows (=) (receipts s) (receipts s') \<Longrightarrow> jobs_later s s'"
  by (simp add: jobs_later_def grows_refl)

subsection \<open>How each kind of write keeps it\<close>

definition job_good :: "project \<Rightarrow> project \<Rightarrow> bool" where
  "job_good s t \<longleftrightarrow> (job_inv s \<longrightarrow> job_inv t \<and> jobs_later s t)"

lemma job_good_refl [simp]: "job_good s s"
  by (simp add: job_good_def)

lemma job_good_trans: "job_good s t \<Longrightarrow> job_good t u \<Longrightarrow> job_good s u"
  unfolding job_good_def using jobs_later_trans by blast

lemma job_good_receipt:
  "jobs s' = jobs s \<Longrightarrow> effects s' = effects s \<Longrightarrow> grows (=) (receipts s) (receipts s') \<Longrightarrow> job_good s s'"
  by (simp add: job_good_def jobs_later_receipt job_inv_cong [of s' s])

lemma append_receipt_good: "append_receipt w lane k b s = Inr (r, s') \<Longrightarrow> job_good s s'"
  by (rule job_good_receipt) (auto simp: run_simps)

lemma job_row_Inr:
  "job_row jid s = Inr (row, s') \<longleftrightarrow> s' = s \<and> find_job jid s = Some row"
  by (auto simp: job_row_def run_simps)

lemma find_jobD: "find_job jid s = Some row \<Longrightarrow> row \<in> set (jobs s) \<and> jb_job_id row = jid"
  unfolding find_job_def by (auto dest: find_SomeD)

lemma the_job: "job_inv s \<Longrightarrow> find_job jid s = Some row \<Longrightarrow> j \<in> set (jobs s) \<Longrightarrow> jb_job_id j = jid \<Longrightarrow> j = row"
  using key_unique [of jb_job_id "jobs s" j row] find_jobD [of jid s row]
  by (simp add: job_inv_def job_keys_def)

lemma running_row_Inr:
  "running_row jid l x s = Inr (row, s') \<longleftrightarrow> s' = s \<and> find_job jid s = Some row \<and> jb_state row = JRunning
     \<and> jb_owner_fence row = ls_fence l \<and> jb_execution_id row = Some x"
  by (auto simp: running_row_def job_row_Inr run_simps)

lemma update_job_Inr [run_simps]:
  "update_job jid f s = Inr (u, s') \<longleftrightarrow> s' = s\<lparr>jobs := update_where (\<lambda>j. jb_job_id j = jid) f (jobs s)\<rparr>"
  by (simp add: update_job_def run_simps)

text \<open>Rewriting job rows: a job with an open effect stays in one of its two states.\<close>

lemma update_jobs_good:
  assumes id: "\<And>j. jb_job_id (f j) = jb_job_id j" "\<And>j. jb_request_id (f j) = jb_request_id j"
    and step: "\<And>j. j \<in> set (jobs s) \<Longrightarrow> P j \<Longrightarrow> job_evolves j (f j) \<and> owned (f j)
      \<and> (pending_effect (jb_job_id j) s \<longrightarrow> jb_state (f j) \<in> {JRunning, JUncertain})"
  shows "job_good s (s\<lparr>jobs := update_where P f (jobs s)\<rparr>)" (is "job_good s ?t")
proof -
  have "job_inv ?t" if inv: "job_inv s"
  proof -
    have "job_keys ?t" using inv id by (simp add: job_inv_def job_keys_def map_update_where)
    moreover have "\<forall>j \<in> set (jobs ?t). owned j"
      using inv step by (auto simp: job_inv_def set_update_where)
    moreover have "open_ok (jobs ?t) e" if e: "e \<in> set (effects s)" for e
    proof (cases "ef_state e = Prepared")
      case True
      then obtain j where j: "j \<in> set (jobs s)" "jb_job_id j = ef_job_id e" "jb_state j \<in> {JRunning, JUncertain}"
        using inv e by (auto simp: job_inv_def open_ok_def)
      have "pending_effect (jb_job_id j) s"
        using True e j(2) by (auto simp: pending_effect_def list_ex_iff)
      define j' where "j' = (if P j then f j else j)"
      have "j' \<in> set (jobs ?t)" using j(1) by (auto simp: set_update_where j'_def)
      moreover have "jb_job_id j' = ef_job_id e" using j(2) id(1) by (simp add: j'_def)
      moreover have "jb_state j' \<in> {JRunning, JUncertain}"
        using step [OF j(1)] j \<open>pending_effect (jb_job_id j) s\<close> by (auto simp: j'_def)
      ultimately show ?thesis unfolding open_ok_def by blast
    qed (simp add: open_ok_def)
    ultimately show ?thesis by (simp add: job_inv_def)
  qed
  moreover have "jobs_later s ?t"
    using step by (simp add: jobs_later_def grows_refl grows_update_where)
  ultimately show ?thesis by (simp add: job_good_def)
qed

lemma pending_state:
  assumes "job_inv s" "find_job jid s = Some row" "pending_effect jid s"
  shows "jb_state row \<in> {JRunning, JUncertain}"
proof -
  from assms(3) obtain e where e: "e \<in> set (effects s)" "ef_job_id e = jid" "ef_state e = Prepared"
    by (auto simp: pending_effect_def list_ex_iff)
  with assms(1) obtain j where "j \<in> set (jobs s)" "jb_job_id j = jid" "jb_state j \<in> {JRunning, JUncertain}"
    unfolding job_inv_def open_ok_def by blast
  with the_job [OF assms(1,2)] show ?thesis by simp
qed

lemma update_job_good:
  assumes row: "find_job jid s = Some row"
    and id: "\<And>j. jb_job_id (f j) = jb_job_id j" "\<And>j. jb_request_id (f j) = jb_request_id j"
    and step: "job_evolves row (f row)" "owned row \<Longrightarrow> owned (f row)"
      "pending_effect jid s \<Longrightarrow> jb_state row \<in> {JRunning, JUncertain} \<Longrightarrow> jb_state (f row) \<in> {JRunning, JUncertain}"
  shows "job_good s (s\<lparr>jobs := update_where (\<lambda>j. jb_job_id j = jid) f (jobs s)\<rparr>)"
proof (cases "job_inv s")
  case True
  have "owned row" using True find_jobD [OF row] by (simp add: job_inv_def)
  show ?thesis
    by (rule update_jobs_good)
      (use id step \<open>owned row\<close> the_job [OF True row] pending_state [OF True row] in auto)
qed (simp add: job_good_def)

text \<open>Rewriting effect rows never reopens one.\<close>

lemma update_effects_good:
  assumes id: "\<And>e. ef_effect_id (f e) = ef_effect_id e" "\<And>e. ef_job_id (f e) = ef_job_id e"
      "\<And>e. ef_key (f e) = ef_key e" "\<And>e. ef_description (f e) = ef_description e"
    and closed: "\<And>e. ef_state (f e) \<noteq> Prepared"
  shows "job_good s (s\<lparr>effects := update_where P f (effects s)\<rparr>)" (is "job_good s ?t")
proof -
  have "job_keys ?t" if "job_keys s" using that id by (simp add: job_keys_def map_update_where)
  moreover have "open_ok (jobs s) e" if "\<forall>e \<in> set (effects s). open_ok (jobs s) e" "e \<in> set (effects ?t)" for e
    using that closed by (auto simp: set_update_where open_ok_def)
  moreover have "grows effect_evolves (effects s) (effects ?t)"
    using id closed by (simp add: grows_update_where effect_evolves_def)
  ultimately show ?thesis by (simp add: job_good_def job_inv_def jobs_later_def grows_refl)
qed

subsection \<open>Every operation keeps it\<close>

lemmas transaction_run = in_transaction_Inr job_row_Inr running_row_Inr

lemma good_with_receipt: "job_good s t \<Longrightarrow> job_good s (t\<lparr>receipts := receipts t @ rs\<rparr>)"
  by (erule job_good_trans) (rule job_good_receipt, simp_all)

lemma admit_new_Inr:
  "admit_new w rq client d s = Inr (r, s') \<Longrightarrow> r = draw 0 w \<and> draw 0 w \<notin> jb_job_id ` set (jobs s)
     \<and> (\<exists>rc. s' = s\<lparr>jobs := jobs s @ [new_job w rq client d], receipts := receipts s @ [rc]\<rparr>)"
  by (auto simp: admit_new_def run_simps new_job_def)

lemma admit_new_good:
  assumes run: "admit_new w rq client d s = Inr (r, s')"
    and fresh: "find (\<lambda>j. jb_request_id j = rq_request_id rq) (jobs s) = None"
  shows "job_good s s'"
proof -
  let ?t = "s\<lparr>jobs := jobs s @ [new_job w rq client d]\<rparr>"
  from admit_new_Inr [OF run] obtain rc where id: "draw 0 w \<notin> jb_job_id ` set (jobs s)"
    and s': "s' = ?t\<lparr>receipts := receipts ?t @ [rc]\<rparr>" by auto
  have "rq_request_id rq \<notin> jb_request_id ` set (jobs s)"
    using fresh by (auto simp: find_None_iff)
  then have "job_good s ?t"
    using id by (auto simp: job_good_def job_inv_def job_keys_def owned_def open_ok_def jobs_later_def
        grows_refl grows_append new_job_def)
  then show ?thesis unfolding s' by (rule good_with_receipt)
qed

lemma enqueue_good: "enqueue w l rq client n s = Inr (r, s') \<Longrightarrow> job_good s s'"
  by (auto simp: enqueue_def run_simps in_transaction_Inr Let_def split: option.splits dest: admit_new_good)

text \<open>
  The operations on one job: a write of its row, then receipts. \<open>after_update\<close> leaves the
  obligations about the row.
\<close>

lemma after_update:
  assumes "job_good (s\<lparr>jobs := update_where (\<lambda>j. jb_job_id j = jid) f (jobs s)\<rparr>) s'"
    and "find_job jid s = Some row"
    and "\<And>j. jb_job_id (f j) = jb_job_id j" "\<And>j. jb_request_id (f j) = jb_request_id j"
    and "job_evolves row (f row)" "owned row \<Longrightarrow> owned (f row)"
      "pending_effect jid s \<Longrightarrow> jb_state row \<in> {JRunning, JUncertain} \<Longrightarrow> jb_state (f row) \<in> {JRunning, JUncertain}"
  shows "job_good s s'"
  using job_good_trans [OF update_job_good [OF assms(2-7)] assms(1)] .

lemma update_job_run:
  "update_job jid f s = Inr (u, s') \<Longrightarrow>
    job_good (s\<lparr>jobs := update_where (\<lambda>j. jb_job_id j = jid) f (jobs s)\<rparr>) s'"
  by (simp add: run_simps)

lemmas op_simps = run_simps transaction_run
lemmas row_simps = job_evolves_def owned_def

lemma claim_good: "claim w l jid s = Inr (c, s') \<Longrightarrow> job_good s s'"
  by (auto simp: claim_def op_simps simp del: update_job_Inr dest!: update_job_run)
    (erule (1) after_update; auto simp: row_simps)+

lemma request_cancel_good: "request_cancel w l jid reason s = Inr (u, s') \<Longrightarrow> job_good s s'"
  by (auto simp: request_cancel_def op_simps simp del: append_receipt_Inr dest!: append_receipt_good)
    (erule (1) after_update; auto simp: row_simps)+

lemma checkpoint_good: "checkpoint w l jid ph d rs x p s = Inr (st, s') \<Longrightarrow> job_good s s'"
  by (auto simp: checkpoint_def op_simps case_prod_beta Let_def simp del: update_job_Inr dest!: update_job_run)
    (erule (1) after_update; auto simp: row_simps checkpoint_state_def split: if_splits)+

lemma complete_good: "complete w l jid v x s = Inr (u, s') \<Longrightarrow> job_good s s'"
  by (auto simp: complete_def op_simps simp del: append_receipt_Inr dest!: append_receipt_good)
    (erule (1) after_update; auto simp: row_simps)+

lemma fail_job_good: "fail_job w l jid c x s = Inr (u, s') \<Longrightarrow> job_good s s'"
  by (auto simp: fail_job_def op_simps simp del: update_job_Inr dest!: update_job_run)
    (erule (1) after_update; auto simp: row_simps)+

lemma update_effect_Inr:
  "update_effect P f code s = Inr (u, s') \<longleftrightarrow>
     length (filter P (effects s)) = 1 \<and> s' = s\<lparr>effects := update_where P f (effects s)\<rparr>"
  by (auto simp: update_effect_def run_simps)

lemma update_effect_good:
  assumes "update_effect P f code s = Inr (u, s')"
    and "\<And>e. ef_effect_id (f e) = ef_effect_id e" "\<And>e. ef_job_id (f e) = ef_job_id e"
      "\<And>e. ef_key (f e) = ef_key e" "\<And>e. ef_description (f e) = ef_description e"
      "\<And>e. ef_state (f e) \<noteq> Prepared"
  shows "job_good s s'"
  using assms(1) update_effects_good [OF assms(2-6)] by (simp add: update_effect_Inr)

lemma prepare_effect_good:
  assumes "prepare_effect w l jid key d x s = Inr (r, s')"
  shows "job_good s s'"
proof -
  from assms obtain row where row: "find_job jid s = Some row" "jb_state row = JRunning"
    and key: "\<not> list_ex (\<lambda>e. ef_job_id e = jid \<and> ef_key e = key) (effects s)"
    and id: "draw 0 w \<notin> ef_effect_id ` set (effects s)"
    and s': "s' = s\<lparr>effects := effects s @ [\<lparr>ef_effect_id = draw 0 w, ef_job_id = jid, ef_key = key, ef_state = Prepared,
       ef_description = d, ef_evidence = None, ef_created = now w, ef_updated = now w\<rparr>]\<rparr>"
    by (auto simp: prepare_effect_def op_simps)
  have "(jid, key) \<notin> (\<lambda>e. (ef_job_id e, ef_key e)) ` set (effects s)"
    using key by (auto simp: list_ex_iff)
  moreover have "\<exists>j \<in> set (jobs s). jb_job_id j = jid \<and> jb_state j = JRunning"
    using find_jobD [OF row(1)] row(2) by blast
  ultimately show ?thesis
    using id by (auto simp: s' job_good_def job_inv_def job_keys_def open_ok_def jobs_later_def grows_refl grows_append)
qed

lemma confirm_effect_good: "confirm_effect w l jid eid ev x s = Inr (u, s') \<Longrightarrow> job_good s s'"
  by (auto simp: confirm_effect_def op_simps elim!: update_effect_good)

lemma reconcile_effect_good:
  assumes "reconcile_effect w l jid eid outcome ev s = Inr (u, s')"
  shows "job_good s s'"
proof -
  from assms obtain row t1 t2 r where out: "outcome \<noteq> Prepared"
    and row: "find_job jid s = Some row" "jb_state row = JUncertain"
    and t1: "update_effect (\<lambda>e. ef_effect_id e = eid \<and> ef_job_id e = jid)
          (\<lambda>e. e\<lparr>ef_state := outcome, ef_evidence := Some ev, ef_updated := now w\<rparr>) ''EFFECT_NOT_FOUND'' s = Inr ((), t1)"
    and t2: "append_receipt w (Some ''plan'') ''effect_reconciled''
          [(''job_id'', JStr jid), (''effect_id'', JStr eid), (''outcome'', JStr (effect_state_name outcome)),
           (''evidence_object'', JStr ev)] t1 = Inr (r, t2)"
    and s': "s' = t2 \<or> \<not> pending_effect jid t2 \<and> update_job jid (\<lambda>j. j\<lparr>jb_state := JFailed,
          jb_error_code := Some ''RECONCILED_REPLAN_REQUIRED'', jb_updated := now w\<rparr>) t2 = Inr ((), s')"
    by (auto simp: reconcile_effect_def op_simps simp del: append_receipt_Inr update_job_Inr)
  have "job_good s t1" by (rule update_effect_good [OF t1]) (use out in simp_all)
  then have good: "job_good s t2" using append_receipt_good [OF t2] job_good_trans by blast
  have "jobs t2 = jobs s" using t1 t2 by (auto simp: update_effect_Inr run_simps)
  then have row2: "find_job jid t2 = Some row" using row by (simp add: find_job_def)
  from s' have "job_good t2 s'"
    by (elim disjE) (auto dest!: update_job_run elim!: after_update [OF _ row2] simp: row_simps row(2) intro!: r_into_rtranclp)
  with good show ?thesis by (rule job_good_trans)
qed

text \<open>The rows that were read are still current when the loop comes to them.\<close>

lemma reconcile_row_Inr:
  assumes "reconcile_row w (i, row) s = Inr (r, s')"
  obtains rc any where "any \<longleftrightarrow> list_ex (\<lambda>e. ef_job_id e = jb_job_id row \<and> ef_state e \<noteq> Absent) (effects s)"
    "r = \<lparr>jo_job_id = jb_job_id row, jo_state = interrupted_state any row, jo_automatic_replay = False\<rparr>"
    "s' = s\<lparr>jobs := update_where (\<lambda>j. jb_job_id j = jb_job_id row)
            (\<lambda>j. j\<lparr>jb_state := interrupted_state any row, jb_error_code := Some ''EXECUTION_INTERRUPTED'',
              jb_updated := now w\<rparr>) (jobs s), receipts := receipts s @ [rc]\<rparr>"
  using assms by (auto simp: reconcile_row_def op_simps Let_def)

lemma interrupted_step: "job_step JRunning (interrupted_state any row)"
  by (simp add: interrupted_state_def)

lemma interrupted_not_running [simp]: "interrupted_state any row \<noteq> JRunning"
  by (simp add: interrupted_state_def)

lemma reconcile_row_good:
  assumes run: "reconcile_row w (i, row) s = Inr (r, s')"
    and row: "find_job (jb_job_id row) s = Some row" "jb_state row = JRunning"
  shows "job_good s s'"
proof (rule reconcile_row_Inr [OF run])
  fix rc any
  let ?f = "\<lambda>j. j\<lparr>jb_state := interrupted_state any row, jb_error_code := Some ''EXECUTION_INTERRUPTED'',
              jb_updated := now w\<rparr>"
  let ?t = "s\<lparr>jobs := update_where (\<lambda>j. jb_job_id j = jb_job_id row) ?f (jobs s)\<rparr>"
  assume any: "any \<longleftrightarrow> list_ex (\<lambda>e. ef_job_id e = jb_job_id row \<and> ef_state e \<noteq> Absent) (effects s)"
    and s': "s' = ?t\<lparr>receipts := receipts s @ [rc]\<rparr>"
  have "pending_effect (jb_job_id row) s \<Longrightarrow> any"
    using any by (auto simp: pending_effect_def list_ex_iff)
  moreover have "job_step\<^sup>*\<^sup>* (jb_state row) (interrupted_state any row)"
    using row(2) interrupted_step by (simp add: r_into_rtranclp)
  ultimately have "job_good s ?t"
    by (intro update_job_good [OF row(1)]) (simp_all add: row_simps interrupted_state_def)
  then show ?thesis using good_with_receipt [of s ?t "[rc]"] by (simp add: s')
qed

definition pending_rows :: "(nat \<times> job) list \<Rightarrow> project \<Rightarrow> bool" where
  "pending_rows rows s \<longleftrightarrow> distinct (map (jb_job_id \<circ> snd) rows)
     \<and> (\<forall>row \<in> snd ` set rows. find_job (jb_job_id row) s = Some row \<and> jb_state row = JRunning)"

lemma pending_rows_step:
  assumes "pending_rows ((i, row) # rows) s" "reconcile_row w (i, row) s = Inr (r, s')"
  shows "pending_rows rows s'"
  using assms(2)
proof (rule reconcile_row_Inr)
  fix rc any
  assume s': "s' = s\<lparr>jobs := update_where (\<lambda>j. jb_job_id j = jb_job_id row)
            (\<lambda>j. j\<lparr>jb_state := interrupted_state any row, jb_error_code := Some ''EXECUTION_INTERRUPTED'',
              jb_updated := now w\<rparr>) (jobs s), receipts := receipts s @ [rc]\<rparr>"
  have "find_job (jb_job_id q) s' = Some q" if "q \<in> snd ` set rows" for q
  proof -
    have "jb_job_id row \<notin> jb_job_id ` snd ` set rows"
      using assms(1) by (simp add: pending_rows_def image_comp)
    then have "jb_job_id q \<noteq> jb_job_id row" using that by (metis imageI)
    moreover have "find_job (jb_job_id q) s = Some q" using assms(1) that
      unfolding pending_rows_def by (elim conjE ballE [where x = q]) (simp_all add: image_iff)
    ultimately show ?thesis
      unfolding find_job_def s' by (simp add: find_update_where_key [where key = jb_job_id])
  qed
  with assms(1) show ?thesis unfolding pending_rows_def by simp
qed

lemma reconcile_rows_good:
  "collect (reconcile_row w) rows s = Inr (rs, s') \<Longrightarrow> pending_rows rows s \<Longrightarrow> job_good s s'"
proof (induction rows arbitrary: s rs)
  case Nil
  then show ?case by (simp add: run_simps)
next
  case (Cons ir rows)
  obtain i row where ir: "ir = (i, row)" by (cases ir)
  from Cons.prems(1) obtain r t rs' where one: "reconcile_row w (i, row) s = Inr (r, t)"
    and rest: "collect (reconcile_row w) rows t = Inr (rs', s')" by (auto simp: run_simps ir)
  have "job_good s t" using Cons.prems(2) by (intro reconcile_row_good [OF one]) (auto simp: pending_rows_def ir)
  moreover have "job_good t s'"
    using Cons.IH [OF rest] pending_rows_step [OF _ one] Cons.prems(2) ir by simp
  ultimately show ?case by (rule job_good_trans)
qed

lemma pending_rows_start:
  assumes "job_inv s"
  shows "pending_rows (enumerate 0 (filter (\<lambda>j. jb_state j = JRunning \<and> P j) (jobs s))) s"
proof -
  have d: "distinct (map jb_job_id (jobs s))" using assms by (simp add: job_inv_def job_keys_def)
  then have "distinct (map jb_job_id (filter (\<lambda>j. jb_state j = JRunning \<and> P j) (jobs s)))"
    by (simp add: distinct_map_filter)
  moreover have "find_job (jb_job_id j) s = Some j" if "j \<in> set (jobs s)" for j
    unfolding find_job_def using d that by (rule find_key_unique) simp
  moreover have "snd ` set (enumerate 0 xs) = set xs" for xs :: "job list"
    by (metis list.set_map map_snd_enumerate)
  ultimately show ?thesis
    by (auto simp: pending_rows_def simp flip: map_map)
qed

lemma reconcile_interrupted_good: "reconcile_interrupted w l s = Inr (os, s') \<Longrightarrow> job_good s s'"
  by (cases "job_inv s")
    (auto simp: reconcile_interrupted_def op_simps job_good_def [of s s']
      dest!: reconcile_rows_good [OF _ pending_rows_start])

subsection \<open>Runs\<close>

text \<open>
  Everything a client, a worker or the project's writer can ask of the queue, in any order, with any
  world and any lease; evidence objects are put beside it.
\<close>

datatype job_op =
    Writer writer_op
  | Put world string nat json
  | Enqueue world lease action_request string int
  | Claim world lease string
  | RequestCancel world lease string string
  | Checkpoint world lease string string string bool string bool
  | PrepareEffect world lease string string string string
  | ConfirmEffect world lease string string string string
  | Complete world lease string json string
  | Fail world lease string string string
  | ReconcileInterrupted world lease
  | ReconcileEffect world lease string string effect_state string

primrec job_exec :: "job_op \<Rightarrow> (project, unit) action" where
  "job_exec (Writer x) = discard (writer_exec x)"
| "job_exec (Put w lane limit v) = discard (put_object w lane limit v)"
| "job_exec (Enqueue w l rq client n) = discard (enqueue w l rq client n)"
| "job_exec (Claim w l jid) = discard (claim w l jid)"
| "job_exec (RequestCancel w l jid reason) = request_cancel w l jid reason"
| "job_exec (Checkpoint w l jid ph d rs x p) = discard (checkpoint w l jid ph d rs x p)"
| "job_exec (PrepareEffect w l jid key d x) = discard (prepare_effect w l jid key d x)"
| "job_exec (ConfirmEffect w l jid eid ev x) = confirm_effect w l jid eid ev x"
| "job_exec (Complete w l jid v x) = complete w l jid v x"
| "job_exec (Fail w l jid c x) = fail_job w l jid c x"
| "job_exec (ReconcileInterrupted w l) = discard (reconcile_interrupted w l)"
| "job_exec (ReconcileEffect w l jid eid out ev) = reconcile_effect w l jid eid out ev"

lemma writer_exec_good: "writer_exec x s = Inr (r, s') \<Longrightarrow> job_good s s'"
  using writer_frame_field [where f = jobs] writer_frame_field [where f = effects] writer_frame_receipts
  by (auto intro!: job_good_receipt dest!: writer_exec_frame)

lemma put_object_good: "put_object w lane limit v s = Inr (d, s') \<Longrightarrow> job_good s s'"
  by (erule put_object_writes) (simp add: job_good_receipt)

lemmas job_op_good = writer_exec_good put_object_good enqueue_good claim_good request_cancel_good checkpoint_good
  prepare_effect_good confirm_effect_good complete_good fail_job_good reconcile_interrupted_good reconcile_effect_good

lemma job_exec_good: "job_exec x s = Inr (r, s') \<Longrightarrow> job_good s s'"
  by (cases x) (auto simp: run_simps intro: job_op_good)

interpretation queue: monotone_machine job_exec job_inv jobs_later
proof
  fix x
  show "keeps job_inv (job_exec x)"
    by (rule validI) (auto simp: job_good_def dest!: job_exec_good)
next
  fix s t u
  show "jobs_later s s" by simp
  show "jobs_later s t \<Longrightarrow> jobs_later t u \<Longrightarrow> jobs_later s u" by (rule jobs_later_trans)
next
  fix s x s' and a :: unit
  show "job_inv s \<Longrightarrow> job_exec x s = Inr (a, s') \<Longrightarrow> jobs_later s s'"
    by (auto simp: job_good_def dest!: job_exec_good)
qed

lemma job_inv_empty [simp]: "job_inv (empty_project pid rt)"
  by (simp add: job_inv_def job_keys_def empty_project_def)

lemma job_run_inv: "job_inv (run_ops job_exec xs (empty_project pid rt))"
  by (rule queue.run_keeps) simp

section \<open>What the queue promises\<close>

lemma checkpoint_state_iff:
  "fst (checkpoint_state pending pause row resumable) = JRunning \<longleftrightarrow> \<not> pause \<and> \<not> cancelled row"
  by (simp add: checkpoint_state_def)

lemma enqueue_recorded:
  assumes "enqueue w l rq client n s = Inr (r, s')"
  shows "\<exists>j. find (\<lambda>j. jb_request_id j = rq_request_id rq) (jobs s') = Some j \<and> jb_job_id j = r
     \<and> jb_client_id j = client \<and> jb_request_digest j = sha256 w (json_dump (request_json rq))
     \<and> 1 \<le> n \<and> n \<le> 67174400 \<and> int (utf8_size (json_dump (request_json rq))) \<le> n
     \<and> client \<noteq> [] \<and> length client \<le> 128 \<and> rq_project_id rq = Some (project_id s')"
proof -
  have app: "find P xs = None \<Longrightarrow> P y \<Longrightarrow> find P (xs @ [y]) = Some y" for P xs and y :: job
    by (induction xs) (auto split: if_splits)
  from assms show ?thesis
    by (auto simp: enqueue_def op_simps Let_def app new_job_def dest!: admit_new_Inr)
qed

lemma runnable_states: "claim w l jid s = Inr (c, s') \<Longrightarrow> \<exists>row. find_job jid s' = Some row \<and> jb_state row = JRunning"
  by (auto simp: claim_def op_simps find_job_def find_update_where_key [where key = jb_job_id] dest: find_SomeD)

lemma reconcile_rows_leave:
  "collect (reconcile_row w) rows s = Inr (rs, s') \<Longrightarrow>
     (\<forall>j \<in> set (jobs s'). jb_state j = JRunning \<longrightarrow>
       j \<in> set (jobs s) \<and> jb_job_id j \<notin> jb_job_id ` snd ` set rows)
     \<and> list_all (\<lambda>r. \<not> jo_automatic_replay r \<and> jo_state r \<noteq> JRunning \<and> jo_state r \<noteq> JSucceeded) rs"
proof (induction rows arbitrary: s rs)
  case Nil
  then show ?case by (simp add: run_simps)
next
  case (Cons ir rows)
  obtain i row where ir: "ir = (i, row)" by (cases ir)
  from Cons.prems obtain r t rs' where one: "reconcile_row w (i, row) s = Inr (r, t)"
    and rest: "collect (reconcile_row w) rows t = Inr (rs', s')" and rs: "rs = r # rs'"
    by (auto simp: run_simps ir)
  from one have "j \<in> set (jobs s) \<and> jb_job_id j \<noteq> jb_job_id row"
    if "j \<in> set (jobs t)" "jb_state j = JRunning" for j
    using that by (elim reconcile_row_Inr) (auto simp: set_update_where)
  moreover from one have "\<not> jo_automatic_replay r \<and> jo_state r \<noteq> JRunning \<and> jo_state r \<noteq> JSucceeded"
    by (elim reconcile_row_Inr) (simp add: interrupted_state_def)
  ultimately show ?case using Cons.IH [OF rest] by (simp add: ir rs)
qed

lemma run_fate:
  assumes "job_inv s" "i < length (jobs s)"
  shows "i < length (jobs (run_ops job_exec xs s))"
    and "job_evolves (jobs s ! i) (jobs (run_ops job_exec xs s) ! i)"
  using queue.run_later [OF assms(1), of xs] grows_nth [OF _ assms(2), of job_evolves]
  by (simp_all add: jobs_later_def)

lemma job_inv_no_open_final:
  assumes inv: "job_inv t"
  shows "filter (\<lambda>j. job_final (jb_state j) \<and> pending_effect (jb_job_id j) t) (jobs t) = []"
proof -
  from inv have keys: "distinct (map jb_job_id (jobs t))" by (simp add: job_inv_def job_keys_def)
  have "\<not> pending_effect (jb_job_id j) t" if "j \<in> set (jobs t)" "job_final (jb_state j)" for j
    using pending_state [OF inv, of "jb_job_id j" j] find_key_unique [OF keys that(1)] that(2)
    by (auto simp: find_job_def job_final_def)
  then show ?thesis by (auto simp: filter_empty_conv)
qed

section \<open>Properties\<close>

text \<open>A small queue for the witnesses.\<close>

definition sample_request :: action_request where
  "sample_request = \<lparr>rq_request_id = ''q'', rq_action = ''a'', rq_project_id = Some ''p'',
     rq_expected_revision = Some 1, rq_arguments = JObj []\<rparr>"

definition sample_job :: "job_state \<Rightarrow> int option \<Rightarrow> job" where
  "sample_job st f = (new_job (sample_world 0) sample_request ''c'' ''d'')\<lparr>jb_state := st, jb_owner_fence := f,
     jb_execution_id := Some ''x''\<rparr>"

definition sample_queue :: "job_state \<Rightarrow> int option \<Rightarrow> project" where
  "sample_queue st f = sample_project\<lparr>jobs := [sample_job st f]\<rparr>"

definition sample_claim :: "nat \<Rightarrow> (project, job_claim) action" where
  "sample_claim n = claim (sample_world n) sample_lease (jb_job_id (sample_job JQueued None))"

lemmas queue_eval [run_eval] = sample_request_def sample_job_def sample_queue_def sample_claim_def

lemma sample_queue_inv: "owned (sample_job st f) \<Longrightarrow> job_inv (sample_queue st f)"
  by (simp add: job_inv_def job_keys_def sample_queue_def sample_project_def empty_project_def)

lemma sample_queue_jobs [simp]: "jobs (sample_queue st f) = [sample_job st f]"
  by (simp add: sample_queue_def)

lemma sample_job_state [simp]: "jb_state (sample_job st f) = st" "jb_owner_fence (sample_job st f) = f"
  by (simp_all add: sample_job_def)


text \<open>
  C27. Every state that any sequence of queue, evidence and writer operations reaches from an empty
  project satisfies the queue's invariant: unique job, request and effect identities, at most one
  effect per job and key, a fence and an execution for every running job, and no open effect outside
  a running or uncertain job.
\<close>

theorem queue_invariant: "job_inv (run_ops job_exec xs (empty_project pid rt))"
  by (rule queue.run_keeps) simp

text \<open>
  No reachable job is finished (succeeded, failed, cancelled or superseded) while one of its
  external effects has an unknown outcome.
\<close>

lemma finished_jobs_have_no_open_effect:
  "filter (\<lambda>j. job_final (jb_state j) \<and> pending_effect (jb_job_id j) (run_ops job_exec xs (empty_project pid rt)))
     (jobs (run_ops job_exec xs (empty_project pid rt))) = []"
  by (rule job_inv_no_open_final [OF job_run_inv])

text \<open>
  C26. A job keeps its identity, request, client and digest for ever, moves only along its life cycle
  whatever operations follow, and a finished job never changes state again.
\<close>

theorem job_life_cycle:
  assumes "job_inv s" "i < length (jobs s)"
  shows "job_evolves (jobs s ! i) (jobs (run_ops job_exec xs s) ! i)
    \<and> (\<not> job_final (jb_state (jobs s ! i)) \<or> jb_state (jobs (run_ops job_exec xs s) ! i) = jb_state (jobs s ! i))"
  using run_fate [OF assms, of xs] by (auto simp: job_evolves_def dest: job_steps_final)

lemma job_life_cycle_witness:
  "job_evolves (jobs (sample_queue JCancelled None) ! 0)
     (jobs (run_ops job_exec [Claim (sample_world 1) sample_lease ''0''] (sample_queue JCancelled None)) ! 0)"
  using job_life_cycle [OF sample_queue_inv, of JCancelled None 0 "[Claim (sample_world 1) sample_lease ''0'']"]
  by (simp add: owned_def)

text \<open>
  C25. A job whose effects are uncertain is never executed again and never reported as successful:
  after any further operations it is still uncertain or it has failed.
\<close>

theorem uncertain_never_replayed:
  assumes "job_inv s" "i < length (jobs s)" "jb_state (jobs s ! i) = JUncertain"
  shows "jb_state (jobs (run_ops job_exec xs s) ! i) \<in> {JUncertain, JFailed}"
  using run_fate [OF assms(1,2), of xs] assms(3) by (auto simp: job_evolves_def dest: job_steps_uncertain)

lemma uncertain_never_replayed_witness:
  "jb_state (jobs (run_ops job_exec [Claim (sample_world 1) sample_lease ''0''] (sample_queue JUncertain None)) ! 0)
     \<in> {JUncertain, JFailed}"
  by (rule uncertain_never_replayed) (simp_all add: sample_queue_inv owned_def)

text \<open>
  Retrying an admission is harmless: the same request from the same client returns the recorded
  job and changes nothing.
\<close>

theorem enqueue_retry:
  assumes "enqueue w l rq client n s = Inr (r, s')"
    and "own_lease w' l' s' = Inr ((), s')" "sha256 w' = sha256 w"
  shows "enqueue w' l' rq client n s' = Inr (r, s')"
proof -
  from enqueue_recorded [OF assms(1)] obtain j where
    "find (\<lambda>j. jb_request_id j = rq_request_id rq) (jobs s') = Some j" "jb_job_id j = r"
    "jb_client_id j = client" "jb_request_digest j = sha256 w (json_dump (request_json rq))"
    "1 \<le> n" "n \<le> 67174400" "int (utf8_size (json_dump (request_json rq))) \<le> n"
    "client \<noteq> []" "length client \<le> 128" "rq_project_id rq = Some (project_id s')" by blast
  moreover have "check_lease w' l' s' = Inr ((), s')" using assms(2) by (simp add: run_simps)
  ultimately show ?thesis
    using assms(2,3) by (simp add: enqueue_def in_transaction_def eval_simps Let_def)
qed

lemma enqueue_retry_witness:
  "\<not> isl (enqueue (sample_world 2) sample_lease sample_request ''c'' 1000
     (state_after (enqueue (sample_world 1) sample_lease sample_request ''c'' 1000) sample_project))"
proof -
  let ?m = "enqueue (sample_world 1) sample_lease sample_request ''c'' 1000"
  have "\<not> isl (?m sample_project)" by (simp add: run_eval eval_simps op_defs)
  from enqueue_retry [OF ran [of ?m, OF this]]
  have "own_lease (sample_world 2) sample_lease (state_after ?m sample_project) = Inr ((), state_after ?m sample_project) \<longrightarrow> ?thesis"
    by (simp add: sample_world_def)
  moreover have "\<not> isl (own_lease (sample_world 2) sample_lease (state_after ?m sample_project))" by (simp add: run_eval eval_simps op_defs)
  then have "own_lease (sample_world 2) sample_lease (state_after ?m sample_project) = Inr ((), state_after ?m sample_project)"
    by (auto dest!: ran simp: own_lease_Inr check_lease_Inr)
  ultimately show ?thesis by blast
qed

text \<open>
  A claimed job cannot be claimed a second time: while its execution runs, every further claim,
  by any lease, is refused.
\<close>

theorem claim_is_exclusive:
  assumes "claim w l jid s = Inr (c, s')"
  shows "\<exists>e. claim w' l' jid s' = Inl e"
proof (cases "claim w' l' jid s'")
  case (Inr r)
  then obtain c' t where "claim w' l' jid s' = Inr (c', t)" by (cases r) simp
  with runnable_states [OF assms] show ?thesis by (auto simp: claim_def op_simps)
qed simp

lemma claim_is_exclusive_witness:
  "isl (sample_claim 2 (state_after (sample_claim 1) (sample_queue JQueued None)))"
proof -
  have "\<not> isl (sample_claim 1 (sample_queue JQueued None))" by (simp add: run_eval eval_simps op_defs)
  from claim_is_exclusive [OF ran [of "sample_claim 1", OF this, unfolded sample_claim_def]] show ?thesis
    unfolding sample_claim_def by (metis isl_def)
qed

text \<open>
  After the reconciliation of interrupted work no job of another writer fence is running, and
  every reconciled job is left for an explicit decision: none is replayed and none is called a success.
\<close>

theorem reconciliation_leaves_own_jobs:
  assumes inv: "job_inv s" and run: "reconcile_interrupted w l s = Inr (os, s')"
  shows "list_all (\<lambda>r. \<not> jo_automatic_replay r \<and> jo_state r \<noteq> JRunning \<and> jo_state r \<noteq> JSucceeded) os
    \<and> filter (\<lambda>j. jb_state j = JRunning \<and> jb_owner_fence j \<noteq> ls_fence l) (jobs s') = []"
proof -
  let ?rows = "filter (\<lambda>j. jb_state j = JRunning \<and> fence_differs (jb_owner_fence j) (ls_fence l)) (jobs s)"
  from run have run': "collect (reconcile_row w) (enumerate 0 ?rows) s = Inr (os, s')"
    and l: "ls_fence l \<noteq> None" by (auto simp: reconcile_interrupted_def op_simps)
  have rows: "snd ` set (enumerate 0 ?rows) = set ?rows" by (metis list.set_map map_snd_enumerate)
  have "jb_owner_fence j = ls_fence l" if "j \<in> set (jobs s')" "jb_state j = JRunning" for j
  proof -
    from reconcile_rows_leave [OF run'] that have "j \<in> set (jobs s)" "jb_job_id j \<notin> jb_job_id ` set ?rows"
      unfolding rows by blast+
    moreover from this(1) that(2) inv have "jb_owner_fence j \<noteq> None" by (auto simp: job_inv_def owned_def)
    ultimately show ?thesis using that(2) l by (auto simp: fence_differs_def)
  qed
  with reconcile_rows_leave [OF run'] show ?thesis by (auto simp: filter_empty_conv)
qed

lemma reconciliation_leaves_own_jobs_witness:
  "filter (\<lambda>j. jb_state j = JRunning \<and> jb_owner_fence j \<noteq> Some 1)
     (jobs (state_after (reconcile_interrupted (sample_world 1) sample_lease) (sample_queue JRunning (Some 0)))) = []"
proof -
  have "\<not> isl (reconcile_interrupted (sample_world 1) sample_lease (sample_queue JRunning (Some 0)))" by (simp add: run_eval eval_simps op_defs)
  from reconciliation_leaves_own_jobs [OF sample_queue_inv ran
      [of "reconcile_interrupted (sample_world 1) sample_lease", OF this]] show ?thesis
    by (simp add: owned_def sample_job_def sample_lease_def)
qed

end
