(* ===== verification/Python_Values.thy ===== *)
theory Python_Values
  imports Contracts
begin

text \<open>
  The operations of Python on decoded JSON values and text that the modelled code uses: truth value,
  \<open>str\<close> and \<open>repr\<close>, \<open>strip\<close>, \<open>lower\<close>, substring search, and the two ways to read a field.
\<close>

section \<open>Values\<close>

text \<open>The truth value of \<open>if value:\<close>.\<close>

fun truthy :: "json \<Rightarrow> bool" where
  "truthy JNull \<longleftrightarrow> False"
| "truthy (JBool b) \<longleftrightarrow> b"
| "truthy (JInt i) \<longleftrightarrow> i \<noteq> 0"
| "truthy (JStr s) \<longleftrightarrow> s \<noteq> []"
| "truthy (JArr vs) \<longleftrightarrow> vs \<noteq> []"
| "truthy (JObj kvs) \<longleftrightarrow> kvs \<noteq> []"

definition is_object :: "json \<Rightarrow> bool" where
  "is_object v \<longleftrightarrow> (case v of JObj _ \<Rightarrow> True | _ \<Rightarrow> False)"

definition as_text :: "json option \<Rightarrow> string option" where
  "as_text v = (case v of Some (JStr t) \<Rightarrow> Some t | _ \<Rightarrow> None)"

text \<open>\<open>value.get(key)\<close>, where a null field reads as the missing one.\<close>

definition jfield :: "json \<Rightarrow> string \<Rightarrow> json option" where
  "jfield v k = (case jget v k of Some JNull \<Rightarrow> None | x \<Rightarrow> x)"

text \<open>\<open>value[key]\<close> raises KeyError when the key is missing.\<close>

definition jitem :: "json \<Rightarrow> string \<Rightarrow> json result" where
  "jitem v k = (case jget v k of None \<Rightarrow> Inl (Raised ''KeyError'') | Some x \<Rightarrow> Inr x)"

text \<open>Equality of decoded values: objects are equal up to the order of their keys.\<close>

definition same_value :: "json \<Rightarrow> json \<Rightarrow> bool" where
  "same_value v x \<longleftrightarrow> jnorm v = jnorm x"

text \<open>\<open>body[k1] == v1 and body[k2] == v2 and ...\<close>, left to right.\<close>

fun items_are :: "json \<Rightarrow> (string \<times> json) list \<Rightarrow> bool result" where
  "items_are v [] = Inr True"
| "items_are v ((k, x) # xs) = rbind (jitem v k) (\<lambda>y. if same_value y x then items_are v xs else Inr False)"

text \<open>\<open>{**value, key: x}\<close>: a key that is there keeps its place.\<close>

definition put_field :: "(string \<times> json) list \<Rightarrow> string \<Rightarrow> json \<Rightarrow> (string \<times> json) list" where
  "put_field kvs k x = (if k \<in> fst ` set kvs then map (\<lambda>kv. if fst kv = k then (k, x) else kv) kvs else kvs @ [(k, x)])"

section \<open>Text\<close>

definition lower_char :: "char \<Rightarrow> char" where
  "lower_char c = (if is_upper c then char_of (of_char c + (32 :: nat)) else c)"

definition strip :: "string \<Rightarrow> string" where
  "strip s = rev (dropWhile is_space (rev (dropWhile is_space s)))"

definition starts :: "string \<Rightarrow> string \<Rightarrow> bool" where
  "starts p s \<longleftrightarrow> take (length p) s = p"

primrec contains :: "string \<Rightarrow> string \<Rightarrow> bool" where
  "contains p [] \<longleftrightarrow> p = []"
| "contains p (c # s) \<longleftrightarrow> starts p (c # s) \<or> contains p s"

text \<open>A key in lower case with \<open>-\<close> read as \<open>_\<close>.\<close>

definition key_name :: "string \<Rightarrow> string" where
  "key_name k = map (\<lambda>c. if c = CHR ''-'' then CHR ''_'' else lower_char c) k"

text \<open>\<open>repr\<close>: the quote that needs no escape when there is one, and the printable characters as they are.\<close>

definition repr_char :: "char \<Rightarrow> char \<Rightarrow> string" where
  "repr_char q c = (let n = (of_char c :: nat) in
     if c = q \<or> c = CHR 0x5C then [CHR 0x5C, c]
     else if c = CHR 0x0A then [CHR 0x5C, CHR ''n'']
     else if c = CHR 0x0D then [CHR 0x5C, CHR ''r'']
     else if c = CHR 0x09 then [CHR 0x5C, CHR ''t'']
     else if n < 32 \<or> 127 \<le> n \<and> n \<le> 160 \<or> n = 173 then [CHR 0x5C, CHR ''x'', hex_digit (n div 16), hex_digit (n mod 16)]
     else [c])"

definition repr_text :: "string \<Rightarrow> string" where
  "repr_text s = (let q = (if CHR 0x27 \<in> set s \<and> CHR 0x22 \<notin> set s then CHR 0x22 else CHR 0x27) in
     q # concat (map (repr_char q) s) @ [q])"

primrec join_sep :: "string \<Rightarrow> string list \<Rightarrow> string" where
  "join_sep d [] = []"
| "join_sep d (x # xs) = x @ (if xs = [] then [] else d @ join_sep d xs)"

primrec py_repr :: "json \<Rightarrow> string" where
  "py_repr JNull = ''None''"
| "py_repr (JBool b) = (if b then ''True'' else ''False'')"
| "py_repr (JInt i) = int_text i"
| "py_repr (JStr s) = repr_text s"
| "py_repr (JArr vs) = CHR ''['' # join_sep '', '' (map py_repr vs) @ [CHR '']'']"
| "py_repr (JObj kvs) =
     CHR ''{'' # join_sep '', '' (map (\<lambda>kt. repr_text (fst kt) @ '': '' @ snd kt) (map (map_prod id py_repr) kvs)) @ [CHR ''}'']"

definition py_str :: "json \<Rightarrow> string" where
  "py_str v = (case v of JStr s \<Rightarrow> s | _ \<Rightarrow> py_repr v)"

declare truthy.simps [op_defs] is_object_def [op_defs] as_text_def [op_defs] jfield_def [op_defs] jitem_def [op_defs]
  items_are.simps [op_defs] strip_def [op_defs] starts_def [op_defs] key_name_def [op_defs] py_str_def [op_defs]

lemma jitem_Inr [run_simps]: "jitem v k = Inr x \<longleftrightarrow> jget v k = Some x"
  by (simp add: jitem_def split: option.split)

lemma items_are_True: "items_are v xs = Inr True \<longleftrightarrow> (\<forall>(k, x) \<in> set xs. \<exists>y. jget v k = Some y \<and> same_value y x)"
  by (induction v xs rule: items_are.induct) (auto simp: run_simps)

lemma same_value_refl [simp]: "same_value v v"
  by (simp add: same_value_def)

lemma as_text_Some: "as_text x = Some t \<longleftrightarrow> x = Some (JStr t)"
  by (auto simp: as_text_def split: option.splits json.splits)

end
