(* ===== verification/Lineage.thy ===== *)
theory Lineage
  imports Hash_Chain Jobs Python_Values
begin

text \<open>
  The visible ChatLineage (lineage.py): the screening of payloads, the hash-chained event table with
  its text chunks, and the verification of the chain. Redaction (redaction.py) and the capture filter
  (capture_routing.py) are the parameter \<open>screen\<close>; the full-text index and the capture router's own
  record are not modelled.
\<close>

section \<open>Visible content\<close>

definition PRIVATE_KEYS :: "string list" where
  "PRIVATE_KEYS = [''chain_of_thought'', ''hidden_reasoning'', ''internal_reasoning'', ''private_reasoning'',
     ''reasoning_content'']"

text \<open>\<open>str(key).lower().replace("-", "_") in PRIVATE_KEYS\<close>.\<close>

definition private_key :: "string \<Rightarrow> bool" where
  "private_key k \<longleftrightarrow> map (\<lambda>c. if c = CHR ''-'' then CHR ''_'' else lower_char c) k \<in> set PRIVATE_KEYS"

text \<open>
  A \<open>type\<close> that is an object or an array cannot be looked up in the set of media types: Python raises
  TypeError for it.
\<close>

definition media_block :: "(string \<times> json) list \<Rightarrow> json option result" where
  "media_block kvs =
     (case map_of kvs ''type'' of
        Some (JArr _) \<Rightarrow> Inl (Raised ''TypeError'')
      | Some (JObj _) \<Rightarrow> Inl (Raised ''TypeError'')
      | Some ty \<Rightarrow> Inr (
          if ty \<in> {JStr ''image'', JStr ''audio''} \<and> (''data'' \<in> fst ` set kvs \<or> ''blob'' \<in> fst ` set kvs)
          then Some (JObj [(''type'', ty), (''binary_omitted'', JBool True),
            (''mimeType'', case map_of kvs ''mimeType'' of None \<Rightarrow> JNull | Some m \<Rightarrow> m)])
          else None)
      | None \<Rightarrow> Inr None)"

fun visible_payload :: "json \<Rightarrow> json result"
  and visible_fields :: "(string \<times> json) list \<Rightarrow> (string \<times> json) list result"
  and visible_items :: "json list \<Rightarrow> json list result" where
  "visible_payload (JObj kvs) =
     (if list_ex (\<lambda>kv. private_key (fst kv)) kvs then Inl (LaneError ''VISIBLE_CONTENT_ONLY'')
      else rbind (media_block kvs) (\<lambda>b. case b of
             Some v \<Rightarrow> Inr v
           | None \<Rightarrow> rbind (visible_fields kvs) (\<lambda>fs. Inr (JObj fs))))"
| "visible_payload (JArr vs) = rbind (visible_items vs) (\<lambda>ws. Inr (JArr ws))"
| "visible_payload v = Inr v"
| "visible_fields [] = Inr []"
| "visible_fields ((k, v) # kvs) = rbind (visible_payload v) (\<lambda>w. rbind (visible_fields kvs) (\<lambda>fs. Inr ((k, w) # fs)))"
| "visible_items [] = Inr []"
| "visible_items (v # vs) = rbind (visible_payload v) (\<lambda>w. rbind (visible_items vs) (\<lambda>ws. Inr (w # ws)))"

text \<open>No object of a value has a private key.\<close>

fun no_private :: "json \<Rightarrow> bool"
  and no_private_fields :: "(string \<times> json) list \<Rightarrow> bool"
  and no_private_items :: "json list \<Rightarrow> bool" where
  "no_private (JObj kvs) \<longleftrightarrow> no_private_fields kvs"
| "no_private (JArr vs) \<longleftrightarrow> no_private_items vs"
| "no_private v \<longleftrightarrow> True"
| "no_private_fields [] \<longleftrightarrow> True"
| "no_private_fields ((k, v) # kvs) \<longleftrightarrow> \<not> private_key k \<and> no_private v \<and> no_private_fields kvs"
| "no_private_items [] \<longleftrightarrow> True"
| "no_private_items (v # vs) \<longleftrightarrow> no_private v \<and> no_private_items vs"

text \<open>
  The MIME type of a media block is kept as it is, so the screening covers values whose MIME types are
  not containers.
\<close>

definition plain :: "json \<Rightarrow> bool" where
  "plain v \<longleftrightarrow> (case v of JObj _ \<Rightarrow> False | JArr _ \<Rightarrow> False | _ \<Rightarrow> True)"

fun plain_media :: "json \<Rightarrow> bool"
  and plain_media_fields :: "(string \<times> json) list \<Rightarrow> bool"
  and plain_media_items :: "json list \<Rightarrow> bool" where
  "plain_media (JObj kvs) \<longleftrightarrow> pred_option plain (map_of kvs ''mimeType'') \<and> plain_media_fields kvs"
| "plain_media (JArr vs) \<longleftrightarrow> plain_media_items vs"
| "plain_media v \<longleftrightarrow> True"
| "plain_media_fields [] \<longleftrightarrow> True"
| "plain_media_fields ((k, v) # kvs) \<longleftrightarrow> plain_media v \<and> plain_media_fields kvs"
| "plain_media_items [] \<longleftrightarrow> True"
| "plain_media_items (v # vs) \<longleftrightarrow> plain_media v \<and> plain_media_items vs"

section \<open>Events\<close>

definition EVENT_KINDS :: "string list" where
  "EVENT_KINDS = [''prompt'', ''steer'', ''assistant'', ''tool_call'', ''tool_result'', ''session'', ''interrupt'',
     ''receipt'', ''handoff'']"

definition PROVENANCES :: "string list" where
  "PROVENANCES = [''agent_report'', ''owner_hook_channel'', ''engine_observed'', ''authenticated_remote_hook_report'']"

definition MAX_VISIBLE_BYTES :: nat where
  "MAX_VISIBLE_BYTES = 65536"

definition LINEAGE_CHUNK_CHARS :: nat where
  "LINEAGE_CHUNK_CHARS = 1024"

record lineage_record =
  lr_event_id :: string
  lr_kind :: string
  lr_payload :: json
  lr_parent :: "string option"
  lr_session :: "string option"
  lr_turn :: "string option"
  lr_tool_use :: "string option"

definition record_json :: "lineage_record \<Rightarrow> json" where
  "record_json r = JObj [(''event_id'', JStr (lr_event_id r)), (''kind'', JStr (lr_kind r)), (''payload'', lr_payload r),
     (''parent_event_id'', jopt (lr_parent r)), (''reported_session_id'', jopt (lr_session r)),
     (''reported_turn_id'', jopt (lr_turn r)), (''tool_use_id'', jopt (lr_tool_use r))]"

text \<open>The contract's fields and \<open>bounded_visible_content\<close>.\<close>

definition check_record :: "lineage_record \<Rightarrow> unit result" where
  "check_record r =
     (if \<not> (uuid_pattern (lr_event_id r) \<and> lr_kind r \<in> set EVENT_KINDS
            \<and> (case lr_payload r of JObj _ \<Rightarrow> True | _ \<Rightarrow> False) \<and> pred_option uuid_pattern (lr_parent r)
            \<and> pred_option (bounded 1 128) (lr_session r) \<and> pred_option (bounded 1 128) (lr_turn r)
            \<and> pred_option (bounded 1 200) (lr_tool_use r)
            \<and> utf8_size (json_dump (record_json r)) \<le> 1048576)
      then Inl (Raised ''ValidationError'')
      else rbind (visible_payload (lr_payload r)) (\<lambda>_. Inr ()))"

definition identity_fields ::
  "string \<Rightarrow> string \<Rightarrow> string \<Rightarrow> string \<Rightarrow> string option \<Rightarrow> string option \<Rightarrow> string option \<Rightarrow> string option \<Rightarrow> string
   \<Rightarrow> (string \<times> json) list" where
  "identity_fields eid kind client prov sess turn tool parent payload =
     [(''event_id'', JStr eid), (''kind'', JStr kind), (''client_id'', JStr client), (''provenance'', JStr prov),
      (''reported_session_id'', jopt sess), (''reported_turn_id'', jopt turn), (''tool_use_id'', jopt tool),
      (''parent_event_id'', jopt parent), (''payload_digest'', JStr payload)]"

definition row_identity :: "lineage_event \<Rightarrow> (string \<times> json) list" where
  "row_identity e = identity_fields (le_event_id e) (le_kind e) (le_client e) (le_provenance e) (le_session e)
     (le_turn e) (le_tool_use e) (le_parent e) (le_payload_digest e)"

definition cursor_json :: "(string \<times> json) list \<Rightarrow> nat \<Rightarrow> string option \<Rightarrow> string \<Rightarrow> json" where
  "cursor_json identity n previous received =
     JObj (identity @ [(''sequence'', JInt (int n)), (''previous_cursor'', jopt previous), (''received_at'', JStr received)])"

definition row_cursor :: "lineage_event \<Rightarrow> json" where
  "row_cursor e = cursor_json (row_identity e) (le_sequence e) (le_previous e) (le_received e)"

text \<open>\<open>validate_row\<close>.\<close>

definition validate_row :: "(string \<Rightarrow> string) \<Rightarrow> lineage_event \<Rightarrow> unit result" where
  "validate_row H e =
     (if le_cursor e \<noteq> content_digest H (row_cursor e) \<or> le_identity_digest e \<noteq> content_digest H (JObj (row_identity e))
      then Inl (LaneError ''LINEAGE_INTEGRITY_FAILED'') else Inr ())"

definition find_event :: "string \<Rightarrow> project \<Rightarrow> lineage_event option" where
  "find_event eid s = find (\<lambda>e. le_event_id e = eid) (lineage s)"

section \<open>Text chunks\<close>

function split_text :: "nat \<Rightarrow> string \<Rightarrow> string list" where
  "split_text n t = (if t = [] \<or> n = 0 then [] else take n t # split_text n (drop n t))"
  by pat_completeness auto

termination by (relation "measure (\<lambda>(n, t). length t)") auto

declare split_text.simps [simp del]

definition chunk_row :: "world \<Rightarrow> string \<Rightarrow> nat \<times> string \<Rightarrow> lineage_chunk" where
  "chunk_row w eid = (\<lambda>(i, t).
     let td = content_digest (sha256 w) (JStr t) in
     \<lparr>lc_chunk_id = content_digest (sha256 w)
        (JObj [(''event_id'', JStr eid), (''ordinal'', JInt (int i)), (''text_digest'', JStr td)]),
      lc_event_id = eid, lc_ordinal = i, lc_text_digest = td, lc_text = t\<rparr>)"

definition chunk_rows :: "world \<Rightarrow> string \<Rightarrow> string \<Rightarrow> lineage_chunk list" where
  "chunk_rows w eid text = map (chunk_row w eid) (enumerate 1 (split_text LINEAGE_CHUNK_CHARS text))"

definition chunk_clash :: "lineage_chunk \<Rightarrow> lineage_chunk \<Rightarrow> bool" where
  "chunk_clash c d \<longleftrightarrow> lc_chunk_id c = lc_chunk_id d
     \<or> lc_event_id c = lc_event_id d \<and> lc_ordinal c = lc_ordinal d"

section \<open>Append\<close>

record append_result =
  ar_event_id :: string
  ar_sequence :: nat
  ar_cursor :: string
  ar_payload_digest :: string
  ar_duplicate :: bool
  ar_provenance :: string

definition event_clash :: "lineage_event \<Rightarrow> lineage_event \<Rightarrow> bool" where
  "event_clash a b \<longleftrightarrow> le_sequence a = le_sequence b \<or> le_event_id a = le_event_id b \<or> le_cursor a = le_cursor b"

definition new_event ::
  "world \<Rightarrow> lineage_record \<Rightarrow> string \<Rightarrow> string \<Rightarrow> string \<Rightarrow> lineage_event option \<Rightarrow> lineage_event" where
  "new_event w r client prov payload_digest previous =
     (let n = (case previous of None \<Rightarrow> 1 | Some p \<Rightarrow> le_sequence p + 1);
          prev = map_option le_cursor previous;
          identity = identity_fields (lr_event_id r) (lr_kind r) client prov (lr_session r) (lr_turn r) (lr_tool_use r)
            (lr_parent r) payload_digest
      in \<lparr>le_sequence = n, le_event_id = lr_event_id r, le_kind = lr_kind r, le_client = client, le_provenance = prov,
          le_session = lr_session r, le_turn = lr_turn r, le_tool_use = lr_tool_use r, le_parent = lr_parent r,
          le_payload_digest = payload_digest, le_identity_digest = content_digest (sha256 w) (JObj identity),
          le_previous = prev, le_cursor = content_digest (sha256 w) (cursor_json identity n prev (now w)),
          le_received = now w\<rparr>)"

definition insert_event ::
  "world \<Rightarrow> lineage_record \<Rightarrow> string \<Rightarrow> string \<Rightarrow> json \<Rightarrow> string \<Rightarrow> (project, append_result) action" where
  "insert_event w r client prov payload payload_digest =
     bnd (gets (\<lambda>s. new_event w r client prov payload_digest (latest le_sequence (lineage s)))) (\<lambda>e.
     bnd (insert_row lineage lineage_update event_clash e) (\<lambda>_.
     bnd (each (insert_row chunks chunks_update chunk_clash) (chunk_rows w (lr_event_id r) (json_text payload))) (\<lambda>_.
     bnd (append_receipt w (Some ''chat_lineage'') ''visible_lineage_append''
       [(''event_id'', JStr (lr_event_id r)), (''sequence'', JInt (int (le_sequence e))), (''cursor'', JStr (le_cursor e)),
        (''provenance'', JStr prov)]) (\<lambda>_.
     ret \<lparr>ar_event_id = lr_event_id r, ar_sequence = le_sequence e, ar_cursor = le_cursor e,
       ar_payload_digest = payload_digest, ar_duplicate = False, ar_provenance = prov\<rparr>))))"

definition append_event ::
  "world \<Rightarrow> (string \<Rightarrow> json \<Rightarrow> json result) \<Rightarrow> lease \<Rightarrow> lineage_record \<Rightarrow> string \<Rightarrow> string
   \<Rightarrow> (project, append_result) action" where
  "append_event w screen l r client prov =
     bnd (lift_result (check_record r)) (\<lambda>_.
     bnd (own_lease w l) (\<lambda>_.
     bnd (require (client \<noteq> [] \<and> length client \<le> 128 \<and> prov \<in> set PROVENANCES) ''CAPTURE_PROVENANCE_INVALID'') (\<lambda>_.
     bnd (lift_result (rbind (visible_payload (lr_payload r)) (screen (lr_kind r)))) (\<lambda>payload.
     let payload_digest = content_digest (sha256 w) payload;
         identity = content_digest (sha256 w) (JObj (identity_fields (lr_event_id r) (lr_kind r) client prov (lr_session r)
           (lr_turn r) (lr_tool_use r) (lr_parent r) payload_digest))
     in in_transaction w l
       (bnd (put_object w ''chat_lineage'' MAX_VISIBLE_BYTES payload) (\<lambda>_.
        bnd (gets (find_event (lr_event_id r))) (\<lambda>existing.
        case existing of
          Some e \<Rightarrow>
            bnd (lift_result (validate_row (sha256 w) e)) (\<lambda>_.
            bnd (require (le_identity_digest e = identity) ''LINEAGE_EVENT_CONFLICT'') (\<lambda>_.
            ret \<lparr>ar_event_id = lr_event_id r, ar_sequence = le_sequence e, ar_cursor = le_cursor e,
              ar_payload_digest = payload_digest, ar_duplicate = True, ar_provenance = prov\<rparr>))
        | None \<Rightarrow>
            bnd (gets (\<lambda>s. case lr_parent r of None \<Rightarrow> True | Some p \<Rightarrow> find_event p s \<noteq> None)) (\<lambda>parent.
            bnd (require parent ''LINEAGE_PARENT_NOT_FOUND'') (\<lambda>_.
            insert_event w r client prov payload payload_digest))))))))) "

section \<open>Verification\<close>

fun lineage_chain ::
  "(string \<Rightarrow> string) \<Rightarrow> nat \<Rightarrow> string option \<Rightarrow> lineage_event list \<Rightarrow> string option option" where
  "lineage_chain H n p [] = Some p"
| "lineage_chain H n p (e # es) =
     (if le_sequence e = n \<and> le_previous e = p \<and> le_cursor e = content_digest H (row_cursor e)
         \<and> le_identity_digest e = content_digest H (JObj (row_identity e))
      then lineage_chain H (Suc n) (Some (le_cursor e)) es else None)"

text \<open>The loop of \<open>verify\<close>: each row of the chain, and its payload's content.\<close>

fun lineage_walk ::
  "(string \<Rightarrow> string) \<Rightarrow> project \<Rightarrow> nat \<Rightarrow> string option \<Rightarrow> lineage_event list \<Rightarrow> string option result" where
  "lineage_walk H s n p [] = Inr p"
| "lineage_walk H s n p (e # es) =
     (let cursor = content_digest H (cursor_json (row_identity e) n p (le_received e)) in
      if le_sequence e \<noteq> n \<or> le_previous e \<noteq> p \<or> le_cursor e \<noteq> cursor
         \<or> le_identity_digest e \<noteq> content_digest H (JObj (row_identity e))
      then Inl (LaneError ''LINEAGE_INTEGRITY_FAILED'')
      else rbind (read_object H ''chat_lineage'' (le_payload_digest e) s) (\<lambda>_.
           lineage_walk H s (Suc n) (Some cursor) es))"

definition verify_lineage :: "(string \<Rightarrow> string) \<Rightarrow> int \<Rightarrow> project \<Rightarrow> (nat \<times> string option) result" where
  "verify_lineage H limit s =
     (if \<not> (1 \<le> limit \<and> limit \<le> 50000) then Inl (LaneError ''INVALID_HISTORY_BUDGET'')
      else if limit < int (length (lineage s)) then Inl (LaneError ''LINEAGE_HISTORY_BUDGET'')
      else rbind (lineage_walk H s 1 None (sort_key le_sequence (lineage s))) (\<lambda>p. Inr (length (lineage s), p)))"

declare PRIVATE_KEYS_def [op_defs] private_key_def [op_defs] media_block_def [op_defs] EVENT_KINDS_def [op_defs]
  PROVENANCES_def [op_defs] MAX_VISIBLE_BYTES_def [op_defs] LINEAGE_CHUNK_CHARS_def [op_defs] record_json_def [op_defs]
  check_record_def [op_defs] identity_fields_def [op_defs] row_identity_def [op_defs] cursor_json_def [op_defs]
  row_cursor_def [op_defs] validate_row_def [op_defs] find_event_def [op_defs] chunk_row_def [op_defs]
  chunk_rows_def [op_defs] new_event_def [op_defs] insert_event_def [op_defs] append_event_def [op_defs]
  verify_lineage_def [op_defs]

section \<open>Screened payloads\<close>

lemma plain_no_private: "plain v \<Longrightarrow> no_private v"
  by (cases v) (simp_all add: plain_def)

lemma media_block_no_private:
  assumes "media_block kvs = Inr (Some w)" "pred_option plain (map_of kvs ''mimeType'')"
  shows "no_private w"
proof -
  have keys: "\<not> private_key ''type''" "\<not> private_key ''binary_omitted''" "\<not> private_key ''mimeType''"
    by (simp_all add: private_key_def PRIVATE_KEYS_def lower_char_def is_upper_def)
  from assms show ?thesis
    by (auto simp: media_block_def keys plain_no_private split: if_splits option.splits json.splits)
qed

lemma visible_no_private:
  "plain_media v \<Longrightarrow> visible_payload v = Inr w \<Longrightarrow> no_private w"
  "plain_media_fields kvs \<Longrightarrow> visible_fields kvs = Inr fs \<Longrightarrow> list_all (\<lambda>kv. \<not> private_key (fst kv)) kvs
     \<Longrightarrow> no_private_fields fs"
  "plain_media_items vs \<Longrightarrow> visible_items vs = Inr ws \<Longrightarrow> no_private_items ws"
proof (induction v and kvs and vs arbitrary: w and fs and ws
    rule: visible_payload_visible_fields_visible_items.induct)
  case (1 kvs)
  from 1(2,3) obtain b where "media_block kvs = Inr b" "list_all (\<lambda>kv. \<not> private_key (fst kv)) kvs"
    by (auto simp: run_simps list_all_iff list_ex_iff split: if_splits)
  with 1 media_block_no_private [of kvs] show ?case
    by (auto simp: run_simps rbind_def split: if_splits option.splits sum.splits)
qed (auto simp: run_simps)

section \<open>The event chain\<close>

lemma row_cursor_binds:
  assumes "jnorm (row_cursor e) = jnorm (row_cursor e')"
  shows "le_sequence e = le_sequence e' \<and> le_previous e = le_previous e'"
proof -
  note field = jnorm_field [OF assms [unfolded row_cursor_def cursor_json_def]]
  show ?thesis
    using field [of "''sequence''"] field [of "''previous_cursor''"]
    by (simp add: row_identity_def identity_fields_def)
qed

interpretation visible_history: hash_chain le_sequence le_previous le_cursor row_cursor
  "\<lambda>H e. le_identity_digest e = content_digest H (JObj (row_identity e))" lineage_chain
  by unfold_locales (auto dest: row_cursor_binds)

lemma lineage_walk_iff:
  "lineage_walk H s n p es = Inr h \<longleftrightarrow> lineage_chain H n p es = Some h
     \<and> list_all (\<lambda>e. \<not> isl (read_object H ''chat_lineage'' (le_payload_digest e) s)) es"
  by (induction es arbitrary: n p)
    (auto simp: Let_def rbind_def row_cursor_def isl_def split: sum.splits)

lemma insert_chunks_Inr:
  "each (insert_row chunks chunks_update chunk_clash) rows s = Inr (u, s') \<Longrightarrow> s' = s\<lparr>chunks := chunks s @ rows\<rparr>"
proof (induction rows arbitrary: s)
  case (Cons r rows)
  then have "each (insert_row chunks chunks_update chunk_clash) rows (s\<lparr>chunks := chunks s @ [r]\<rparr>) = Inr (u, s')"
    by (auto simp: run_simps)
  from Cons.IH [OF this] show ?case by simp
qed (simp add: run_simps)

definition lineage_inv :: "(string \<Rightarrow> string) \<Rightarrow> project \<Rightarrow> bool" where
  "lineage_inv H s \<longleftrightarrow> objects_sound H s \<and> lineage_chain H 1 None (lineage s) \<noteq> None
     \<and> (\<forall>e \<in> set (lineage s). registered ''chat_lineage'' (le_payload_digest e) s \<noteq> None)"

lemma chain_numbers: "lineage_chain H 1 None es = Some h \<Longrightarrow> map le_sequence es = [Suc 0 ..< Suc (length es)]"
  using visible_history.verify_numbers [of H 1 None es h] by simp

lemma new_event_extends:
  assumes "lineage_chain H 1 None es = Some h" "sha256 w = H"
  shows "lineage_chain H 1 None (es @ [new_event w r client prov d (latest le_sequence es)]) \<noteq> None"
proof -
  have latest: "latest le_sequence es = (if es = [] then None else Some (last es))"
    using chain_numbers [OF assms(1)] by (rule latest_numbered)
  have seq: "le_sequence (last es) = length es" if "es \<noteq> []"
    using arg_cong [OF chain_numbers [OF assms(1)], of last] that by (simp add: last_map del: upt_Suc)
  have head: "h = map_option le_cursor (latest le_sequence es)"
    using assms(1) visible_history.verify_head [OF assms(1)] by (cases "es = []") (auto simp: latest)
  have "lineage_chain H 1 None (es @ [new_event w r client prov d (latest le_sequence es)])
      = Some (Some (le_cursor (new_event w r client prov d (latest le_sequence es))))"
    by (rule visible_history.verify_extend [OF assms(1)])
      (auto simp: new_event_def Let_def latest seq head row_cursor_def row_identity_def assms(2) [symmetric])
  then show ?thesis by simp
qed

lemma insert_event_Inr:
  assumes "insert_event w r client prov payload d s = Inr (a, s')"
  obtains e rc where "e = new_event w r client prov d (latest le_sequence (lineage s))"
    "\<forall>q \<in> set (lineage s). \<not> event_clash e q" "ar_cursor a = le_cursor e" "ar_sequence a = le_sequence e"
    "s' = s\<lparr>lineage := lineage s @ [e],
       chunks := chunks s @ chunk_rows w (lr_event_id r) (json_text payload), receipts := receipts s @ [rc]\<rparr>"
  using assms by (auto simp: insert_event_def run_simps dest!: insert_chunks_Inr)

lemma append_event_Inr:
  assumes "append_event w screen l r client prov s = Inr (a, s')"
  obtains payload d t where "put_object w ''chat_lineage'' MAX_VISIBLE_BYTES payload s = Inr (d, t)"
    "rbind (visible_payload (lr_payload r)) (screen (lr_kind r)) = Inr payload"
    "s' = t \<and> find_event (lr_event_id r) s \<noteq> None
     \<or> find_event (lr_event_id r) s = None \<and> insert_event w r client prov payload d t = Inr (a, s')"
proof -
  from assms obtain payload d t where
    put: "put_object w ''chat_lineage'' MAX_VISIBLE_BYTES payload s = Inr (d, t)"
    and screen: "rbind (visible_payload (lr_payload r)) (screen (lr_kind r)) = Inr payload"
    and rest: "s' = t \<and> find_event (lr_event_id r) t \<noteq> None
     \<or> find_event (lr_event_id r) t = None
       \<and> insert_event w r client prov payload (content_digest (sha256 w) payload) t = Inr (a, s')"
    by (auto simp: append_event_def op_simps Let_def)
  have "find_event (lr_event_id r) t = find_event (lr_event_id r) s"
    using put by (rule put_object_writes) (simp add: find_event_def)
  moreover have "d = content_digest (sha256 w) payload" using put by (rule put_object_Inr)
  ultimately show ?thesis using that [OF put screen] rest by simp
qed

lemma put_object_lineage_inv:
  assumes "lineage_inv (sha256 w) s" "put_object w lane limit v s = Inr (d, s')"
  shows "lineage_inv (sha256 w) s' \<and> lineage s' = lineage s"
proof -
  have "lineage s' = lineage s" using assms(2) by (rule put_object_writes) simp
  moreover have "registered ''chat_lineage'' (le_payload_digest e) s' \<noteq> None" if "e \<in> set (lineage s)" for e
    using that assms put_object_keeps_registered [OF assms(2)] by (fastforce simp: lineage_inv_def)
  ultimately show ?thesis
    using assms(1) put_object_keeps_sound [OF _ assms(2)] by (simp add: lineage_inv_def)
qed

lemma append_event_inv:
  assumes inv: "lineage_inv (sha256 w) s" and run: "append_event w screen l r client prov s = Inr (a, s')"
  shows "lineage_inv (sha256 w) s' \<and> grows (=) (lineage s) (lineage s')"
  using run
proof (rule append_event_Inr)
  fix payload d t
  assume put: "put_object w ''chat_lineage'' MAX_VISIBLE_BYTES payload s = Inr (d, t)"
    and rest: "s' = t \<and> find_event (lr_event_id r) s \<noteq> None
     \<or> find_event (lr_event_id r) s = None \<and> insert_event w r client prov payload d t = Inr (a, s')"
  note t = put_object_lineage_inv [OF inv put]
  from rest show ?thesis
  proof (elim disjE conjE)
    assume ins: "insert_event w r client prov payload d t = Inr (a, s')"
    from t obtain h where h: "lineage_chain (sha256 w) 1 None (lineage t) = Some h" by (auto simp: lineage_inv_def)
    show ?thesis
      using ins
    proof (rule insert_event_Inr)
      fix e rc
      assume e: "e = new_event w r client prov d (latest le_sequence (lineage t))"
        and s': "s' = t\<lparr>lineage := lineage t @ [e], chunks := chunks t @ chunk_rows w (lr_event_id r) (json_text payload),
          receipts := receipts t @ [rc]\<rparr>"
      have "lineage_chain (sha256 w) 1 None (lineage s') \<noteq> None"
        using new_event_extends [OF h refl] by (simp add: s' e)
      moreover have "objects_sound (sha256 w) s'" "\<And>x. registered ''chat_lineage'' x s' = registered ''chat_lineage'' x t"
        using t by (simp_all add: s' lineage_inv_def objects_sound_def find_blob_def registered_def)
      moreover have "le_payload_digest e = d" by (simp add: e new_event_def Let_def)
      ultimately show ?thesis
        using t put_object_registers [OF put] by (auto simp: lineage_inv_def s')
    qed
  qed (use t in simp)
qed

section \<open>Runs\<close>

datatype lineage_op =
    LWriter writer_op
  | LPut world string nat json
  | Append world "string \<Rightarrow> json \<Rightarrow> json result" lease lineage_record string string

primrec lineage_exec :: "(string \<Rightarrow> string) \<Rightarrow> lineage_op \<Rightarrow> (project, unit) action" where
  "lineage_exec H (LWriter x) = discard (writer_exec x)"
| "lineage_exec H (LPut w lane limit v) = discard (put_object (hashed H w) lane limit v)"
| "lineage_exec H (Append w screen l r client prov) = discard (append_event (hashed H w) screen l r client prov)"

definition lineage_later :: "project \<Rightarrow> project \<Rightarrow> bool" where
  "lineage_later s t \<longleftrightarrow> grows (=) (lineage s) (lineage t)"

lemma lineage_inv_cong:
  "lineage s' = lineage s \<Longrightarrow> blobs s' = blobs s \<Longrightarrow> objects s' = objects s \<Longrightarrow> lineage_inv H s' = lineage_inv H s"
  by (simp add: lineage_inv_def objects_sound_def find_blob_def registered_def)

lemma lineage_exec_step:
  assumes "lineage_inv H s" "lineage_exec H x s = Inr (u, s')"
  shows "lineage_inv H s' \<and> lineage_later s s'"
proof (cases x)
  case (LWriter y)
  with assms(2) obtain r where "writer_exec y s = Inr (r, s')" by (auto simp: run_simps)
  then have "writer_frame s s'" by (rule writer_exec_frame)
  then have "lineage s' = lineage s" "blobs s' = blobs s" "objects s' = objects s"
    by (auto elim: writer_frame_field)
  with assms(1) lineage_inv_cong [of s' s H] show ?thesis by (simp add: lineage_later_def)
next
  case (LPut w lane limit v)
  with assms put_object_lineage_inv [of "hashed H w" s] show ?thesis by (auto simp: run_simps lineage_later_def)
next
  case (Append w screen l r client prov)
  with assms append_event_inv [of "hashed H w" s] show ?thesis by (auto simp: run_simps lineage_later_def)
qed

interpretation capture: monotone_machine "lineage_exec H" "lineage_inv H" lineage_later for H
proof
  show "keeps (lineage_inv H) (lineage_exec H x)" for x
    by (rule validI) (auto dest: lineage_exec_step)
  show "lineage_later s s" for s by (simp add: lineage_later_def)
  show "lineage_later s t \<Longrightarrow> lineage_later t u \<Longrightarrow> lineage_later s u" for s t u
    unfolding lineage_later_def by (rule grows_eq_trans)
  show "lineage_inv H s \<Longrightarrow> lineage_exec H x s = Inr (a, s') \<Longrightarrow> lineage_later s s'" for s x a s'
    by (auto dest: lineage_exec_step)
qed

lemma lineage_inv_empty [simp]: "lineage_inv H (empty_project pid rt)"
  by (simp add: lineage_inv_def empty_project_def objects_sound_def)

section \<open>Properties\<close>

lemma row_determined:
  assumes "jnorm (row_cursor e) = jnorm (row_cursor e')"
    and "le_cursor e = content_digest H (row_cursor e)" "le_cursor e' = content_digest H (row_cursor e')"
    and "le_identity_digest e = content_digest H (JObj (row_identity e))"
      "le_identity_digest e' = content_digest H (JObj (row_identity e'))"
  shows "e = e'"
proof -
  note field = jnorm_field [OF assms(1) [unfolded row_cursor_def cursor_json_def]]
  note ids = row_identity_def identity_fields_def
  have "le_sequence e = le_sequence e'" using field [of "''sequence''"] by (simp add: ids)
  moreover have "le_event_id e = le_event_id e'" using field [of "''event_id''"] by (simp add: ids)
  moreover have "le_kind e = le_kind e'" using field [of "''kind''"] by (simp add: ids)
  moreover have "le_client e = le_client e'" using field [of "''client_id''"] by (simp add: ids)
  moreover have "le_provenance e = le_provenance e'" using field [of "''provenance''"] by (simp add: ids)
  moreover have "le_session e = le_session e'" using field [of "''reported_session_id''"] by (simp add: ids)
  moreover have "le_turn e = le_turn e'" using field [of "''reported_turn_id''"] by (simp add: ids)
  moreover have "le_tool_use e = le_tool_use e'" using field [of "''tool_use_id''"] by (simp add: ids)
  moreover have "le_parent e = le_parent e'" using field [of "''parent_event_id''"] by (simp add: ids)
  moreover have "le_payload_digest e = le_payload_digest e'" using field [of "''payload_digest''"] by (simp add: ids)
  moreover have "le_previous e = le_previous e'" using field [of "''previous_cursor''"] by (simp add: ids)
  moreover have "le_received e = le_received e'" using field [of "''received_at''"] by (simp add: ids)
  ultimately have same: "e\<lparr>le_cursor := [], le_identity_digest := []\<rparr> = e'\<lparr>le_cursor := [], le_identity_digest := []\<rparr>"
    by simp
  have "row_identity (f\<lparr>le_cursor := [], le_identity_digest := []\<rparr>) = row_identity f"
    "row_cursor (f\<lparr>le_cursor := [], le_identity_digest := []\<rparr>) = row_cursor f" for f :: lineage_event
    by (simp_all add: row_cursor_def row_identity_def)
  with same have "row_identity e = row_identity e'" "row_cursor e = row_cursor e'" by metis+
  with same assms(2-5) show ?thesis by (cases e; cases e') simp
qed

lemma chain_rows:
  "lineage_chain H n p es = Some h \<Longrightarrow> e \<in> set es \<Longrightarrow> le_cursor e = content_digest H (row_cursor e)
     \<and> le_identity_digest e = content_digest H (JObj (row_identity e))"
  by (induction es arbitrary: n p) (auto split: if_splits)

lemma same_head_same_rows:
  assumes "\<not> collision H" "lineage_chain H 1 None es = Some h" "lineage_chain H 1 None fs = Some h"
  shows "es = fs"
proof -
  have "map (\<lambda>r. jnorm (row_cursor r)) es = map (\<lambda>r. jnorm (row_cursor r)) fs"
    using assms by (rule visible_history.verify_determines)
  then have "length es = length fs" "\<And>i. i < length es \<Longrightarrow> jnorm (row_cursor (es ! i)) = jnorm (row_cursor (fs ! i))"
    by (metis length_map, metis length_map nth_map)
  then show ?thesis
    using chain_rows [OF assms(2)] chain_rows [OF assms(3)]
    by (intro nth_equalityI) (auto intro!: row_determined [of _ _ H])
qed

lemma lineage_inv_verifies:
  assumes inv: "lineage_inv H t"
  shows "verify_lineage H limit t =
    (if limit < 1 \<or> 50000 < limit then Inl (LaneError ''INVALID_HISTORY_BUDGET'')
     else if limit < int (length (lineage t)) then Inl (LaneError ''LINEAGE_HISTORY_BUDGET'')
     else Inr (length (lineage t), if lineage t = [] then None else Some (le_cursor (last (lineage t)))))"
proof -
  from inv obtain h where h: "lineage_chain H 1 None (lineage t) = Some h" by (auto simp: lineage_inv_def)
  have "h = (if lineage t = [] then None else Some (le_cursor (last (lineage t))))"
    using h visible_history.verify_head [OF h] by (cases "lineage t = []") auto
  moreover have "sort_key le_sequence (lineage t) = lineage t"
    using chain_numbers [OF h] by (intro sort_key_id_if_sorted) (simp del: upt_Suc)
  moreover have "\<not> isl (read_object H ''chat_lineage'' (le_payload_digest e) t)" if "e \<in> set (lineage t)" for e
    using that inv read_object_sound by (fastforce simp: lineage_inv_def)
  then have "lineage_walk H t 1 None (lineage t) = Inr h"
    unfolding lineage_walk_iff using h by (simp add: list_all_iff)
  ultimately show ?thesis by (simp add: verify_lineage_def rbind_def)
qed

text \<open>
  The recorded history always verifies: in every state that capture reaches from an empty project,
  under any hash, verification within its budget succeeds, counts every event and returns the cursor
  of the last one.
\<close>

lemma captured_history_verifies:
  "let t = run_ops (lineage_exec H) xs (empty_project pid rt) in
   verify_lineage H limit t =
    (if limit < 1 \<or> 50000 < limit then Inl (LaneError ''INVALID_HISTORY_BUDGET'')
     else if limit < int (length (lineage t)) then Inl (LaneError ''LINEAGE_HISTORY_BUDGET'')
     else Inr (length (lineage t), if lineage t = [] then None else Some (le_cursor (last (lineage t)))))"
  unfolding Let_def by (rule lineage_inv_verifies, rule capture.run_keeps) simp

text \<open>
  The history is append-only: whatever operations follow, the events recorded so far stay in
  place, unchanged, as the beginning of the table.
\<close>

theorem history_is_append_only:
  "take (length (lineage (run_ops (lineage_exec H) xs (empty_project pid rt))))
     (lineage (run_ops (lineage_exec H) ys (run_ops (lineage_exec H) xs (empty_project pid rt))))
   = lineage (run_ops (lineage_exec H) xs (empty_project pid rt))"
proof -
  let ?s = "run_ops (lineage_exec H) xs (empty_project pid rt)"
  have "lineage_inv H ?s" by (rule capture.run_keeps) simp
  from capture.run_later [OF this, of ys] show ?thesis
    by (auto simp: lineage_later_def grows_eq_append)
qed

text \<open>
  C30. The cursor commits to the whole history: with a hash without collisions, two projects whose
  verification returns the same cursor hold exactly the same events in the same order.
\<close>

theorem cursor_determines_history:
  assumes "\<not> collision H" "verify_lineage H m s = Inr (j, cursor)" "verify_lineage H n t = Inr (k, cursor)"
  shows "sort_key le_sequence (lineage s) = sort_key le_sequence (lineage t)"
proof -
  from assms(2,3) have "lineage_chain H 1 None (sort_key le_sequence (lineage s)) = Some cursor"
    "lineage_chain H 1 None (sort_key le_sequence (lineage t)) = Some cursor"
    by (auto simp: verify_lineage_def run_simps lineage_walk_iff split: if_splits)
  with assms(1) show ?thesis by (rule same_head_same_rows)
qed

text \<open>
  Screened payloads carry no private reasoning: after the screening, no object at any depth has a
  private key, for every input whose MIME types are plain values.
\<close>

theorem screening_removes_private_keys:
  assumes "plain_media v" "visible_payload v = Inr w"
  shows "no_private w"
  using assms by (rule visible_no_private)

lemma screening_removes_private_keys_witness:
  "no_private (JObj [(''text'', JStr ''a''), (''n'', JArr [JObj [(''k'', JNull)]])])"
  by (rule screening_removes_private_keys [of "JObj [(''text'', JStr ''a''), (''n'', JArr [JObj [(''k'', JNull)]])]"])
    (simp_all add: private_key_def PRIVATE_KEYS_def lower_char_def is_upper_def media_block_def rbind_def)

text \<open>The exception is real: the MIME type of an omitted media block is not screened.\<close>

lemma media_type_is_not_screened:
  "visible_payload (JObj [(''type'', JStr ''image''), (''data'', JNull),
      (''mimeType'', JObj [(''chain_of_thought'', JStr ''x'')])])
   = Inr (JObj [(''type'', JStr ''image''), (''binary_omitted'', JBool True),
      (''mimeType'', JObj [(''chain_of_thought'', JStr ''x'')])])"
  by (simp add: private_key_def PRIVATE_KEYS_def lower_char_def is_upper_def media_block_def rbind_def)

lemma concat_split_text: "0 < n \<Longrightarrow> concat (split_text n t) = t"
proof (induction n t rule: split_text.induct)
  case (1 n t)
  then show ?case by (subst split_text.simps) simp
qed

lemma chunk_rows_text: "concat (map lc_text (chunk_rows w eid text)) = text"
proof -
  have "map lc_text (chunk_rows w eid text) = map snd (enumerate 1 (split_text LINEAGE_CHUNK_CHARS text))"
    by (simp add: chunk_rows_def chunk_row_def Let_def comp_def case_prod_beta)
  then show ?thesis by (simp add: concat_split_text LINEAGE_CHUNK_CHARS_def)
qed

text \<open>
  A captured payload is stored whole: after an append that was not a repetition, its content is
  readable under the returned digest, and the chunks that were added for it join to exactly its text.
\<close>

theorem captured_payload_is_whole:
  assumes "lineage_inv (sha256 w) s" "append_event w screen l r client prov s = Inr (a, s')"
    and "find_event (lr_event_id r) s = None"
  shows "map_sum id json_text (read_object (sha256 w) ''chat_lineage'' (le_payload_digest (last (lineage s'))) s')
    = Inr (concat (map lc_text (drop (length (chunks s)) (chunks s'))))"
  using assms(2)
proof (rule append_event_Inr)
  fix payload d t
  assume put: "put_object w ''chat_lineage'' MAX_VISIBLE_BYTES payload s = Inr (d, t)"
    and rest: "s' = t \<and> find_event (lr_event_id r) s \<noteq> None
     \<or> find_event (lr_event_id r) s = None \<and> insert_event w r client prov payload d t = Inr (a, s')"
  have t: "chunks t = chunks s" using put by (rule put_object_writes) simp
  from lane_objects.get_put [OF _ put] assms(1) obtain v where
    v: "read_object (sha256 w) ''chat_lineage'' d t = Inr v" "json_text v = json_text payload"
    by (auto simp: lineage_inv_def)
  have ins: "insert_event w r client prov payload d t = Inr (a, s')" using rest assms(3) by simp
  show ?thesis
    using ins
  proof (rule insert_event_Inr)
    fix e rc
    assume e: "e = new_event w r client prov d (latest le_sequence (lineage t))"
      and s': "s' = t\<lparr>lineage := lineage t @ [e], chunks := chunks t @ chunk_rows w (lr_event_id r) (json_text payload),
        receipts := receipts t @ [rc]\<rparr>"
    have "read_object (sha256 w) ''chat_lineage'' d s' = read_object (sha256 w) ''chat_lineage'' d t"
      by (rule read_object_cong) (simp_all add: s')
    moreover have "le_payload_digest (last (lineage s')) = d" by (simp add: s' e new_event_def Let_def)
    moreover have "concat (map lc_text (drop (length (chunks s)) (chunks s'))) = json_text payload"
      by (simp add: s' t chunk_rows_text)
    ultimately show ?thesis using v by simp
  qed
qed

section \<open>Witnesses\<close>

definition sample_record :: lineage_record where
  "sample_record = \<lparr>lr_event_id = sample_uuid, lr_kind = ''prompt'', lr_payload = JObj [(''text'', JStr ''hi'')],
     lr_parent = None, lr_session = None, lr_turn = None, lr_tool_use = None\<rparr>"

definition sample_append :: "(project, append_result) action" where
  "sample_append = append_event (sample_world 1) (\<lambda>_. Inr) sample_lease sample_record ''c'' ''agent_report''"

lemma sample_text: "render_object [(''text'', quoted ''hi'')] =
    CHR ''{'' # quoted ''text'' @ CHR '':'' # quoted ''hi'' @ ''}''" "length (quoted ''hi'') = 4" "length (quoted ''text'') = 6"
  by (simp_all add: render_object_def quoted_def escape_char_def)

lemma sample_append_runs: "\<not> isl (sample_append sample_project)"
  by (simp add: sample_append_def sample_record_def run_eval eval_simps op_defs sample_uuid_ok sample_hash_ok
      rbind_def lower_char_def is_upper_def content_digest_def sample_uuid_size sum_list_replicate sample_text split_text.simps chunk_clash_def event_clash_def)

lemma captured_payload_is_whole_witness:
  "map_sum id json_text (read_object sample_hash ''chat_lineage''
      (le_payload_digest (last (lineage (state_after sample_append sample_project)))) (state_after sample_append sample_project))
   = Inr (concat (map lc_text (chunks (state_after sample_append sample_project))))"
proof -
  have "lineage_inv (sha256 (sample_world 1)) sample_project"
    by (simp add: lineage_inv_def objects_sound_def sample_project_def empty_project_def)
  from captured_payload_is_whole [OF this ran [of sample_append, OF sample_append_runs, unfolded sample_append_def]]
  show ?thesis unfolding sample_append_def
    by (simp add: find_event_def sample_project_def empty_project_def) (simp add: sample_world_def)
qed

definition sample_history :: "string \<Rightarrow> project" where
  "sample_history pid = (empty_project pid ''r'')\<lparr>
     blobs := [((''chat_lineage'', replicate 64 CHR ''0''), JNull)],
     objects := [\<lparr>ob_lane = ''chat_lineage'', ob_digest = replicate 64 CHR ''0'', ob_size = 4, ob_created = []\<rparr>],
     lineage := [new_event (hashed sample_injective (sample_world 0)) sample_record ''c'' ''agent_report''
       (replicate 64 CHR ''0'') None]\<rparr>"

lemma sample_history_verifies:
  "verify_lineage sample_injective 10 (sample_history pid) = Inr (1, Some (le_cursor (hd (lineage (sample_history pid)))))"
proof -
  have "content_digest sample_injective JNull = replicate 64 CHR ''0''" "json_bytes JNull = 4"
    by (simp_all add: content_digest_def sample_injective_def json_bytes_size)
  then show ?thesis
    by (simp add: verify_lineage_def sample_history_def new_event_def Let_def empty_project_def row_identity_def
        rbind_def read_object_def registered_def read_blob_def find_blob_def sample_hash_ok MAX_OBJECT_BYTES_def)
qed

lemma cursor_determines_history_witness:
  "sort_key le_sequence (lineage (sample_history ''p'')) = sort_key le_sequence (lineage (sample_history ''q''))"
proof -
  have "hd (lineage (sample_history ''q'')) = hd (lineage (sample_history ''p''))" by (simp add: sample_history_def)
  with cursor_determines_history [OF sample_injective_ok sample_history_verifies, of 10 "sample_history ''q''" 1 "''p''"]
    sample_history_verifies [of "''q''"] show ?thesis by simp
qed

end
