(* ===== verification/State_Law.thy ===== *)
theory State_Law
  imports Schema "HOL-Library.Product_Lexorder"
begin

text \<open>
  The executable transition law of state_law.py: one table for the Plan-task and project-session
  domains, the check that every write of those domains runs (\<open>transition\<close>), and the public catalog
  read from the same table.
\<close>

section \<open>The table\<close>

definition pairs :: "'a list \<Rightarrow> 'b list \<Rightarrow> ('a \<times> 'b) list" where
  "pairs sources targets = List.product sources targets"

definition TRANSITION_LAW :: "((string \<times> string) \<times> (string option \<times> string) list) list" where
  "TRANSITION_LAW = [
     ((''plan_task'', ''task_transition''),
        pairs [Some ''queued''] [''active'', ''cancelled'']
        @ pairs [Some ''active''] [''completed'', ''blocked'', ''failed'', ''cancelled'']
        @ pairs [Some ''blocked''] [''queued'', ''cancelled'']),
     ((''project_session'', ''session_boot''), pairs [None, Some ''closed''] [''active'']),
     ((''project_session'', ''session_resume''), pairs [Some ''active''] [''active'']),
     ((''project_session'', ''session_exit''), pairs [Some ''active''] [''closed'']),
     ((''project_session'', ''session_recovery_closed''), pairs [Some ''active''] [''closed''])]"

record domain_consumer =
  dc_owner :: string
  dc_storage_owner :: string
  dc_additional_checks :: "string list"

definition DOMAIN_CONSUMERS :: "(string \<times> domain_consumer) list" where
  "DOMAIN_CONSUMERS = [
     (''plan_task'', \<lparr>dc_owner = ''plan_runtime.PlanStore.transition'', dc_storage_owner = ''plan'',
        dc_additional_checks = [''current_plan_revision'', ''exact_task_contract'', ''one_active_task'',
          ''completed_dependencies'', ''restoration_and_recovery_ready'',
          ''verified_delta_receipt_before_completion'']\<rparr>),
     (''project_session'', \<lparr>dc_owner = ''session_authority.SessionAuthority.append'', dc_storage_owner = ''receipts'',
        dc_additional_checks = [''locked_flash'', ''current_session_head_and_generation'',
          ''authenticated_client_ownership'', ''safe_work_boundary'', ''exact_root_pv_on_entry'',
          ''current_runtime_package'']\<rparr>)]"

section \<open>The check and the catalog\<close>

definition transition :: "string option \<Rightarrow> string \<Rightarrow> string \<Rightarrow> string \<Rightarrow> string result" where
  "transition current event target domain =
     (case map_of TRANSITION_LAW (domain, event) of
        Some allowed \<Rightarrow>
          if (current, target) \<in> set allowed then Inr target
          else Inl (LaneError (if domain = ''plan_task'' then ''INVALID_TASK_TRANSITION'' else ''SESSION_TRANSITION_NOT_ALLOWED''))
      | None \<Rightarrow> Inl (LaneError (if domain = ''plan_task'' then ''INVALID_TASK_TRANSITION'' else ''SESSION_TRANSITION_NOT_ALLOWED'')))"

text \<open>Pairs are listed by source (absent first) and target, as \<open>sorted\<close> with its key does.\<close>

definition pair_key :: "string option \<times> string \<Rightarrow> string \<times> string" where
  "pair_key p = ((case fst p of None \<Rightarrow> [] | Some s \<Rightarrow> s), snd p)"

definition catalog_events :: "string \<Rightarrow> (string \<times> (string option \<times> string) list) list" where
  "catalog_events name =
     [(event, sort_key pair_key ps). ((owner, event), ps) \<leftarrow> TRANSITION_LAW, owner = name]"

definition transition_catalog ::
  "string option \<Rightarrow> (string \<times> domain_consumer \<times> (string \<times> (string option \<times> string) list) list) list result" where
  "transition_catalog domain =
     (case domain of
        None \<Rightarrow> Inr (map (\<lambda>(name, c). (name, c, catalog_events name)) DOMAIN_CONSUMERS)
      | Some name \<Rightarrow> (case map_of DOMAIN_CONSUMERS name of
          None \<Rightarrow> Inl (LaneError ''TRANSITION_DOMAIN_UNKNOWN'')
        | Some c \<Rightarrow> Inr [(name, c, catalog_events name)]))"

section \<open>What the law allows\<close>

text \<open>The step relations of the two domains, over the typed states.\<close>

inductive task_step :: "task_state \<Rightarrow> task_state \<Rightarrow> bool" where
  activate: "task_step Queued Active"
| cancel_queued: "task_step Queued Cancelled"
| complete: "task_step Active Completed"
| block: "task_step Active Blocked"
| fail: "task_step Active Failed"
| cancel_active: "task_step Active Cancelled"
| requeue: "task_step Blocked Queued"
| cancel_blocked: "task_step Blocked Cancelled"

inductive_simps task_step_simps [simp]:
  "task_step Queued b" "task_step Active b" "task_step Blocked b" "task_step Completed b"
  "task_step Failed b" "task_step Cancelled b" "task_step Superseded b"

code_pred (modes: i \<Rightarrow> i \<Rightarrow> bool, i \<Rightarrow> o \<Rightarrow> bool) task_step .

inductive session_step :: "session_state option \<Rightarrow> string \<Rightarrow> session_state \<Rightarrow> bool" where
  boot: "a = None \<or> a = Some SessClosed \<Longrightarrow> session_step a ''session_boot'' SessActive"
| resume: "session_step (Some SessActive) ''session_resume'' SessActive"
| exit: "session_step (Some SessActive) ''session_exit'' SessClosed"
| recovery_closed: "session_step (Some SessActive) ''session_recovery_closed'' SessClosed"

lemma task_transition_iff:
  "transition (Some (task_state_name a)) ''task_transition'' (task_state_name b) ''plan_task'' =
     (if task_step a b then Inr (task_state_name b) else Inl (LaneError ''INVALID_TASK_TRANSITION''))"
  by (cases a; cases b) (simp_all add: transition_def TRANSITION_LAW_def pairs_def)

lemma session_transition_iff:
  "(\<exists>t. transition (map_option session_state_name a) ev (session_state_name b) ''project_session'' = Inr t)
     \<longleftrightarrow> session_step a ev b"
proof -
  have names: "session_state_name x = ''active'' \<longleftrightarrow> x = SessActive"
    "session_state_name x = ''closed'' \<longleftrightarrow> x = SessClosed" for x
    by (cases x; simp)+
  show ?thesis
    by (cases a) (auto simp: transition_def TRANSITION_LAW_def pairs_def names session_step.simps
        split: option.splits if_splits)
qed

text \<open>A task that has reached a terminal state never leaves it.\<close>

definition terminal :: "task_state \<Rightarrow> bool" where
  "terminal s \<longleftrightarrow> s \<in> {Completed, Cancelled, Failed, Superseded}"

lemma terminal_no_step: "terminal a \<Longrightarrow> \<not> task_step a b"
  by (auto simp: terminal_def)

lemma task_steps_terminal: "task_step\<^sup>*\<^sup>* a b \<Longrightarrow> terminal a \<Longrightarrow> b = a"
  by (induction rule: converse_rtranclp_induct) (auto dest: terminal_no_step)

lemma task_step_not_superseded: "task_step a b \<Longrightarrow> b \<noteq> Superseded"
  by (cases a) auto

text \<open>Completion is reached only through activity: every path into \<open>Completed\<close> ends in Active.\<close>

lemma completed_only_from_active: "task_step a Completed \<Longrightarrow> a = Active"
  by (cases a) auto

lemma task_steps_completed:
  assumes "task_step\<^sup>*\<^sup>* a Completed" "a \<noteq> Completed"
  shows "task_step\<^sup>*\<^sup>* a Active"
  using assms by (metis completed_only_from_active rtranclp.cases)

text \<open>The catalog lists exactly what the check accepts.\<close>

lemma law_keys_distinct: "distinct (map fst TRANSITION_LAW)"
  by (simp add: TRANSITION_LAW_def)

lemma catalog_events_members:
  assumes "(ev, ps) \<in> set (catalog_events d)"
  shows "(c, t) \<in> set ps \<longleftrightarrow> transition c ev t d = Inr t"
proof -
  from assms obtain qs where "((d, ev), qs) \<in> set TRANSITION_LAW" "ps = sort_key pair_key qs"
    by (auto simp: catalog_events_def split: if_splits)
  moreover from this(1) have "map_of TRANSITION_LAW (d, ev) = Some qs"
    by (simp add: law_keys_distinct)
  ultimately show ?thesis by (simp add: transition_def)
qed

lemma transition_Inr: "transition c ev t d = Inr u \<Longrightarrow> u = t"
  by (simp add: transition_def split: option.splits if_splits)

section \<open>Properties\<close>

text \<open>
  The table is the task life cycle: the check accepts a change of a Plan task exactly when the
  step relation has it, and refuses every other pair of states with the same error.
\<close>

theorem task_law_is_life_cycle:
  "transition (Some (task_state_name a)) ''task_transition'' (task_state_name b) ''plan_task'' =
     (if task_step a b then Inr (task_state_name b) else Inl (LaneError ''INVALID_TASK_TRANSITION''))"
  by (rule task_transition_iff)

text \<open>
  The public catalog and the check are one law: an event of a domain lists a pair exactly when
  the check accepts it.
\<close>

theorem catalog_is_the_check:
  assumes "transition_catalog (Some d) = Inr [(n, c, evs)]" "(ev, ps) \<in> set evs"
  shows "(src, tgt) \<in> set ps \<longleftrightarrow> transition src ev tgt d = Inr tgt"
proof -
  have "evs = catalog_events d"
    using assms(1) by (auto simp: transition_catalog_def split: option.splits)
  with assms(2) show ?thesis by (auto dest: catalog_events_members)
qed

text \<open>
  Finished tasks are final: from completed, cancelled, failed or superseded no sequence of allowed
  changes leads anywhere else.
\<close>

lemma finished_tasks_are_final:
  assumes "task_step\<^sup>*\<^sup>* a b" "terminal a"
  shows "b = a"
  using assms by (rule task_steps_terminal)

lemma finished_tasks_are_final_witness: "Completed = (Completed :: task_state)"
  using finished_tasks_are_final [of Completed Completed] by (simp add: terminal_def)

lemma catalog_is_the_check_witness:
  "(Some ''active'', ''active'') \<in> set [(Some ''active'', ''active'')]
     \<longleftrightarrow> transition (Some ''active'') ''session_resume'' ''active'' ''project_session'' = Inr ''active''"
  by (rule catalog_is_the_check) (auto simp: transition_catalog_def DOMAIN_CONSUMERS_def catalog_events_def
      TRANSITION_LAW_def pairs_def)

end
