(* ===== verification/Plan_Rows.thy ===== *)
theory Plan_Rows
  imports Lineage State_Law
begin

text \<open>
  The rows of the Plan lane (plan_runtime.py): the current head, task rows and their contract checks,
  the hash-chained task events, the insertion of a revision's tasks, and the verification of the
  event history.
\<close>

section \<open>Reads\<close>

text \<open>\<open>_head\<close> and \<open>_task\<close>.\<close>

definition head_row :: "int option \<Rightarrow> (project, plan_current) action" where
  "head_row expected =
     bnd (gets plan_head) (\<lambda>h.
     bnd (demand h ''PLAN_NOT_CREATED'') (\<lambda>row.
     bnd (require (case expected of None \<Rightarrow> True | Some n \<Rightarrow> cur_revision row = n) ''STALE_PLAN_REVISION'') (\<lambda>_.
     ret row)))"

definition find_task :: "int \<Rightarrow> string \<Rightarrow> project \<Rightarrow> plan_task option" where
  "find_task rv tid s = find (\<lambda>t. pt_revision t = rv \<and> pt_task_id t = tid) (tasks s)"

definition task_row :: "int \<Rightarrow> string \<Rightarrow> (project, plan_task) action" where
  "task_row rv tid = bnd (gets (find_task rv tid)) (\<lambda>t. demand t ''PLAN_TASK_NOT_FOUND'')"

definition tasks_of :: "int \<Rightarrow> project \<Rightarrow> plan_task list" where
  "tasks_of rv s = sort_key pt_position (filter (\<lambda>t. pt_revision t = rv) (tasks s))"

definition deps_of_task :: "int \<Rightarrow> string \<Rightarrow> project \<Rightarrow> string list" where
  "deps_of_task rv tid s =
     map dep_dependency (filter (\<lambda>d. dep_revision d = rv \<and> dep_task_id d = tid) (dependencies s))"

definition contract_digest :: "(string \<Rightarrow> string) \<Rightarrow> task_definition \<Rightarrow> string" where
  "contract_digest H t = content_digest H (task_json t)"

definition listed_deps :: "task_definition \<Rightarrow> string list" where
  "listed_deps t = (case td_dependencies t of None \<Rightarrow> [] | Some ds \<Rightarrow> ds)"

text \<open>\<open>_view\<close>: the stored contract is valid, agrees with its row and with the dependency index.\<close>

definition view :: "(string \<Rightarrow> string) \<Rightarrow> project \<Rightarrow> plan_task \<Rightarrow> plan_task result" where
  "view H s row =
     (if \<not> valid_task (pt_definition row) then Inl (Raised ''ValidationError'')
      else if td_task_id (pt_definition row) \<noteq> pt_task_id row
        \<or> contract_digest H (pt_definition row) \<noteq> pt_contract_digest row
      then Inl (LaneError ''PLAN_CONTRACT_INTEGRITY'')
      else if set (deps_of_task (pt_revision row) (pt_task_id row) s) \<noteq> set (listed_deps (pt_definition row))
      then Inl (LaneError ''PLAN_DEPENDENCY_INTEGRITY'')
      else Inr row)"

definition find_revision :: "int \<Rightarrow> project \<Rightarrow> plan_revision option" where
  "find_revision rv s = find (\<lambda>r. rv_revision r = rv) (revisions s)"

text \<open>\<open>_validate_document\<close>; without a row Python fails on the subscript.\<close>

definition validate_document :: "(string \<Rightarrow> string) \<Rightarrow> plan_revision option \<Rightarrow> plan_revision result" where
  "validate_document H row =
     (case row of
        None \<Rightarrow> Inl (Raised ''TypeError'')
      | Some r \<Rightarrow>
          if json_bytes (rv_document r) \<le> MAX_PLAN_BYTES \<and> content_digest H (rv_document r) = rv_document_digest r
            \<and> jget (rv_document r) ''plan_id'' = Some (JStr (rv_plan_id r))
            \<and> jget (rv_document r) ''title'' = Some (JStr (rv_title r))
            \<and> jget (rv_document r) ''request_id'' = Some (JStr (rv_request_id r))
          then Inr r else Inl (LaneError ''PLAN_DOCUMENT_INTEGRITY''))"

section \<open>Events\<close>

definition event_body :: "plan_event \<Rightarrow> json" where
  "event_body e = JObj [(''sequence'', JInt (int (ev_sequence e))), (''event_id'', JStr (ev_id e)),
     (''revision'', JInt (ev_revision e)), (''task_id'', jopt (ev_task_id e)), (''kind'', JStr (ev_kind e)),
     (''actor_id'', JStr (ev_actor e)), (''payload'', ev_payload e), (''previous_digest'', jopt (ev_previous e)),
     (''created_at'', JStr (ev_created e))]"

definition make_event ::
  "world \<Rightarrow> nat \<Rightarrow> string option \<Rightarrow> int \<Rightarrow> string option \<Rightarrow> string \<Rightarrow> string \<Rightarrow> json \<Rightarrow> string option \<Rightarrow> plan_event" where
  "make_event w n previous rv tid kind actor payload eid =
     (let e = \<lparr>ev_sequence = n, ev_id = (case eid of Some x \<Rightarrow> if x = [] then draw 0 w else x | None \<Rightarrow> draw 0 w),
        ev_revision = rv, ev_task_id = tid, ev_kind = kind, ev_actor = actor, ev_payload = payload,
        ev_previous = previous, ev_digest = [], ev_created = now w\<rparr>
      in e\<lparr>ev_digest := content_digest (sha256 w) (event_body e)\<rparr>)"

definition next_sequence :: "project \<Rightarrow> nat" where
  "next_sequence s = (case latest ev_sequence (events s) of None \<Rightarrow> 1 | Some e \<Rightarrow> ev_sequence e + 1)"

definition plan_event_clash :: "plan_event \<Rightarrow> plan_event \<Rightarrow> bool" where
  "plan_event_clash a b \<longleftrightarrow> ev_sequence a = ev_sequence b \<or> ev_id a = ev_id b \<or> ev_digest a = ev_digest b"

definition is_task :: "int \<Rightarrow> string \<Rightarrow> plan_task \<Rightarrow> bool" where
  "is_task rv tid t \<longleftrightarrow> pt_revision t = rv \<and> pt_task_id t = tid"

definition update_task :: "int \<Rightarrow> string \<Rightarrow> (plan_task \<Rightarrow> plan_task) \<Rightarrow> (project, unit) action" where
  "update_task rv tid f = modify (\<lambda>s. s\<lparr>tasks := update_where (is_task rv tid) f (tasks s)\<rparr>)"

definition set_event_head :: "string \<Rightarrow> (project, unit) action" where
  "set_event_head d = modify (\<lambda>s. s\<lparr>plan_head := map_option (\<lambda>h. h\<lparr>cur_event_head := Some d\<rparr>) (plan_head s)\<rparr>)"

text \<open>\<open>_event\<close>.\<close>

definition add_event ::
  "world \<Rightarrow> int \<Rightarrow> string option \<Rightarrow> string \<Rightarrow> string \<Rightarrow> json \<Rightarrow> string option \<Rightarrow> (project, string) action" where
  "add_event w rv tid kind actor payload eid =
     bnd (require (actor \<noteq> [] \<and> length actor \<le> 128) ''PLAN_ACTOR_REQUIRED'') (\<lambda>_.
     bnd (head_row None) (\<lambda>head.
     bnd (gets (\<lambda>s. make_event w (next_sequence s) (cur_event_head head) rv tid kind actor payload eid)) (\<lambda>e.
     bnd (insert_row events events_update plan_event_clash e) (\<lambda>_.
     bnd (set_event_head (ev_digest e)) (\<lambda>_.
     bnd (case tid of None \<Rightarrow> ret () | Some t \<Rightarrow> update_task rv t (\<lambda>r. r\<lparr>pt_last_event := Some (ev_digest e)\<rparr>)) (\<lambda>_.
     ret (ev_digest e)))))))"

section \<open>Insertion of a revision's tasks\<close>

definition task_clash :: "plan_task \<Rightarrow> plan_task \<Rightarrow> bool" where
  "task_clash a b \<longleftrightarrow> pt_revision a = pt_revision b \<and> (pt_task_id a = pt_task_id b \<or> pt_position a = pt_position b)"

definition new_task :: "(string \<Rightarrow> string) \<Rightarrow> int \<Rightarrow> nat \<times> task_definition \<Rightarrow> plan_task" where
  "new_task H rv = (\<lambda>(i, t). \<lparr>pt_revision = rv, pt_task_id = td_task_id t, pt_position = i, pt_definition = t,
     pt_contract_digest = contract_digest H t, pt_state = Queued, pt_last_event = None\<rparr>)"

definition task_deps :: "int \<Rightarrow> task_definition \<Rightarrow> plan_dependency list" where
  "task_deps rv t = map (\<lambda>d. \<lparr>dep_revision = rv, dep_task_id = td_task_id t, dep_dependency = d\<rparr>) (listed_deps t)"

definition insert_task :: "(string \<Rightarrow> string) \<Rightarrow> int \<Rightarrow> nat \<times> task_definition \<Rightarrow> (project, unit) action" where
  "insert_task H rv it =
     bnd (insert_row tasks tasks_update task_clash (new_task H rv it)) (\<lambda>_.
     each (insert_row dependencies dependencies_update (=)) (task_deps rv (snd it)))"

text \<open>\<open>_insert_tasks\<close>.\<close>

definition insert_tasks :: "(string \<Rightarrow> string) \<Rightarrow> int \<Rightarrow> task_definition list \<Rightarrow> (project, unit) action" where
  "insert_tasks H rv ts = each (insert_task H rv) (enumerate 1 ts)"

section \<open>Verification of the history\<close>

fun event_chain ::
  "(string \<Rightarrow> string) \<Rightarrow> nat \<Rightarrow> string option \<Rightarrow> plan_event list \<Rightarrow> string option option" where
  "event_chain H n p [] = Some p"
| "event_chain H n p (e # es) =
     (if ev_sequence e = n \<and> ev_previous e = p \<and> ev_digest e = content_digest H (event_body e)
      then event_chain H (Suc n) (Some (ev_digest e)) es else None)"

record history_report =
  hr_revision :: int
  hr_events :: nat
  hr_head :: "string option"

definition verify_history :: "(string \<Rightarrow> string) \<Rightarrow> int \<Rightarrow> (project, history_report) action" where
  "verify_history H limit =
     bnd (require (1 \<le> limit \<and> limit \<le> 50000) ''INVALID_HISTORY_BUDGET'') (\<lambda>_.
     bnd (head_row None) (\<lambda>head.
     bnd (gets (\<lambda>s. take (nat (limit + 1)) (sort_key ev_sequence (events s)))) (\<lambda>rows.
     bnd (require (int (length rows) \<le> limit) ''PLAN_HISTORY_BUDGET'') (\<lambda>_.
     bnd (demand (event_chain H 1 None rows) ''PLAN_HISTORY_INTEGRITY'') (\<lambda>previous.
     bnd (require (previous = cur_event_head head) ''PLAN_HISTORY_INTEGRITY'') (\<lambda>_.
     ret \<lparr>hr_revision = cur_revision head, hr_events = length rows, hr_head = previous\<rparr>))))))"

declare head_row_def [op_defs] find_task_def [op_defs] task_row_def [op_defs] tasks_of_def [op_defs]
  deps_of_task_def [op_defs] contract_digest_def [op_defs] listed_deps_def [op_defs] view_def [op_defs]
  find_revision_def [op_defs] validate_document_def [op_defs] event_body_def [op_defs] make_event_def [op_defs]
  next_sequence_def [op_defs] plan_event_clash_def [op_defs] is_task_def [op_defs] update_task_def [op_defs]
  set_event_head_def [op_defs] add_event_def [op_defs] task_clash_def [op_defs] new_task_def [op_defs]
  task_deps_def [op_defs] insert_task_def [op_defs] insert_tasks_def [op_defs] verify_history_def [op_defs]

section \<open>What they did\<close>

lemma head_row_Inr [run_simps]:
  "head_row expected s = Inr (h, s') \<longleftrightarrow> s' = s \<and> plan_head s = Some h \<and> (\<forall>n. expected = Some n \<longrightarrow> cur_revision h = n)"
  by (auto simp: head_row_def run_simps split: option.splits)

lemma task_row_Inr [run_simps]:
  "task_row rv tid s = Inr (t, s') \<longleftrightarrow> s' = s \<and> find_task rv tid s = Some t"
  by (auto simp: task_row_def run_simps)

lemma find_taskD: "find_task rv tid s = Some t \<Longrightarrow> t \<in> set (tasks s) \<and> pt_revision t = rv \<and> pt_task_id t = tid"
  unfolding find_task_def by (auto dest: find_SomeD)

lemma update_task_Inr [run_simps]:
  "update_task rv tid f s = Inr (u, s') \<longleftrightarrow> s' = s\<lparr>tasks := update_where (is_task rv tid) f (tasks s)\<rparr>"
  by (simp add: update_task_def run_simps)

lemma view_Inr:
  "view H s row = Inr r \<longleftrightarrow> r = row \<and> valid_task (pt_definition row) \<and> td_task_id (pt_definition row) = pt_task_id row
     \<and> contract_digest H (pt_definition row) = pt_contract_digest row
     \<and> set (deps_of_task (pt_revision row) (pt_task_id row) s) = set (listed_deps (pt_definition row))"
  by (auto simp: view_def split: if_splits)

lemma event_body_binds:
  assumes "jnorm (event_body e) = jnorm (event_body e')"
  shows "ev_sequence e = ev_sequence e' \<and> ev_previous e = ev_previous e'"
proof -
  note field = jnorm_field [OF assms [unfolded event_body_def]]
  show ?thesis using field [of "''sequence''"] field [of "''previous_digest''"] by simp
qed

interpretation plan_history: hash_chain ev_sequence ev_previous ev_digest event_body "\<lambda>H e. True" event_chain
  by unfold_locales (auto dest: event_body_binds)

end
