(* ===== verification/Plan_Gates.thy ===== *)
theory Plan_Gates
  imports Plan_Rows
begin

text \<open>
  The two gates on a Plan after a restoration of sources (store.py: \<open>require_restoration_plan\<close> and
  its helpers) or an administrative database recovery (database_recovery.py): a pending restoration
  stops execution until a new Plan revision names its exact digest.
\<close>

section \<open>Source restoration\<close>

definition text_field :: "json \<Rightarrow> string \<Rightarrow> string option" where
  "text_field v k = (case jget v k of Some (JStr t) \<Rightarrow> Some t | _ \<Rightarrow> None)"

definition int_field :: "json \<Rightarrow> string \<Rightarrow> int option" where
  "int_field v k = (case jget v k of Some (JInt i) \<Rightarrow> Some i | _ \<Rightarrow> None)"

text \<open>\<open>require_restoration_reindex\<close>.\<close>

definition require_reindex :: "(string \<Rightarrow> string) \<Rightarrow> restoration_control \<Rightarrow> project \<Rightarrow> (json \<times> string) result" where
  "require_reindex H c s =
     (case find (\<lambda>r. ri_generation r = rs_generation c) (reindexes s) of
        None \<Rightarrow> Inl (LaneError ''SOURCE_RESTORE_REINDEX_REQUIRED'')
      | Some row \<Rightarrow>
          let body = ri_body row in
          if 65536 < json_bytes body then Inl (LaneError ''RESTORATION_REINDEX_INTEGRITY'')
          else if content_digest H body \<noteq> ri_digest row \<or> int_field body ''generation'' \<noteq> Some (rs_generation c)
            \<or> text_field body ''restore_digest'' \<noteq> Some (rs_restore_digest c)
          then Inl (LaneError ''RESTORATION_REINDEX_INTEGRITY'')
          else (case find (\<lambda>g. Some (gs_graph_id g) = text_field body ''graph_id''
                    \<and> Some (gs_batch_id g) = text_field body ''batch_id'') (graphs s) of
              None \<Rightarrow> Inl (LaneError ''RESTORATION_REINDEX_INTEGRITY'')
            | Some g \<Rightarrow>
                if Some (gs_graph_root g) \<noteq> text_field body ''graph_root_sha256''
                  \<or> Some (gs_coverage g) \<noteq> text_field body ''coverage_sha256'' \<or> gs_status g \<noteq> ''PASS''
                then Inl (LaneError ''RESTORATION_REINDEX_INTEGRITY'')
                else Inr (body, ri_digest row)))"

definition pending_restoration :: "project \<Rightarrow> restoration_control option" where
  "pending_restoration s = (case restoration s of None \<Rightarrow> None
     | Some c \<Rightarrow> if rs_cleared_by c = None then Some c else None)"

definition require_restoration_plan ::
  "(string \<Rightarrow> string) \<Rightarrow> string option \<Rightarrow> int \<Rightarrow> (project, unit) action" where
  "require_restoration_plan H supplied revision =
     bnd (gets pending_restoration) (\<lambda>p. case p of
       Some c \<Rightarrow>
         bnd (require (supplied = Some (rs_restore_digest c) \<and> rs_required_after c < revision)
           ''SOURCE_RESTORE_PLAN_REQUIRED'') (\<lambda>_.
         bnd (bnd (gets (require_reindex H c)) lift_result) (\<lambda>_.
         modify (\<lambda>s. s\<lparr>restoration := Some (c\<lparr>rs_cleared_by := Some revision\<rparr>)\<rparr>)))
     | None \<Rightarrow> require (supplied = None) ''SOURCE_RESTORE_PLAN_MISMATCH'')"

definition require_restoration_execution_ready :: "(string \<Rightarrow> string) \<Rightarrow> (project, unit) action" where
  "require_restoration_execution_ready H =
     bnd (gets restoration) (\<lambda>r. case r of
       None \<Rightarrow> ret ()
     | Some c \<Rightarrow>
         bnd (require (rs_cleared_by c \<noteq> None) ''SOURCE_RESTORE_PLAN_REQUIRED'') (\<lambda>_.
         bnd (bnd (gets (require_reindex H c)) lift_result) (\<lambda>_. ret ())))"

section \<open>Database recovery\<close>

definition pending_recovery :: "project \<Rightarrow> recovery_control option" where
  "pending_recovery s = (case recovery s of None \<Rightarrow> None
     | Some c \<Rightarrow> if rd_cleared_by c = None then Some c else None)"

definition require_recovery_plan :: "string option \<Rightarrow> int \<Rightarrow> (project, unit) action" where
  "require_recovery_plan supplied revision =
     bnd (gets pending_recovery) (\<lambda>p. case p of
       Some c \<Rightarrow>
         bnd (require (supplied = Some (rd_recovery_digest c) \<and> rd_required_after c < revision)
           ''DATABASE_RECOVERY_PLAN_REQUIRED'') (\<lambda>_.
         modify (\<lambda>s. s\<lparr>recovery := Some (c\<lparr>rd_cleared_by := Some revision\<rparr>)\<rparr>))
     | None \<Rightarrow> require (supplied = None) ''DATABASE_RECOVERY_PLAN_MISMATCH'')"

definition require_recovery_execution_ready :: "(project, unit) action" where
  "require_recovery_execution_ready =
     bnd (gets pending_recovery) (\<lambda>p. require (p = None) ''DATABASE_RECOVERY_PLAN_REQUIRED'')"

declare text_field_def [op_defs] int_field_def [op_defs] require_reindex_def [op_defs] pending_restoration_def [op_defs]
  require_restoration_plan_def [op_defs] require_restoration_execution_ready_def [op_defs] pending_recovery_def [op_defs]
  require_recovery_plan_def [op_defs] require_recovery_execution_ready_def [op_defs]

section \<open>What the gates change\<close>

lemma restoration_gate_Inr:
  assumes "require_restoration_plan H d r s = Inr (u, s')"
  obtains c where "s' = s\<lparr>restoration := c\<rparr>" "pending_restoration s' = None"
proof -
  have self: "s = s\<lparr>restoration := restoration s\<rparr>" by simp
  from assms consider "s' = s" "pending_restoration s' = None"
    | c where "s' = s\<lparr>restoration := Some (c\<lparr>rs_cleared_by := Some r\<rparr>)\<rparr>"
    by (auto simp: require_restoration_plan_def run_simps)
  then show ?thesis
  proof cases
    case 1
    with self that [of "restoration s"] show ?thesis by simp
  next
    case 2
    with that show ?thesis by (simp add: pending_restoration_def)
  qed
qed

lemma recovery_gate_Inr:
  assumes "require_recovery_plan d r s = Inr (u, s')"
  obtains c where "s' = s\<lparr>recovery := c\<rparr>" "pending_recovery s' = None"
proof -
  have self: "s = s\<lparr>recovery := recovery s\<rparr>" by simp
  from assms consider "s' = s" "pending_recovery s' = None"
    | c where "s' = s\<lparr>recovery := Some (c\<lparr>rd_cleared_by := Some r\<rparr>)\<rparr>"
    by (auto simp: require_recovery_plan_def run_simps)
  then show ?thesis
  proof cases
    case 1
    with self that [of "recovery s"] show ?thesis by simp
  next
    case 2
    with that show ?thesis by (simp add: pending_recovery_def)
  qed
qed

lemma execution_ready_Inr [run_simps]:
  "require_recovery_execution_ready s = Inr (u, s') \<longleftrightarrow> s' = s \<and> pending_recovery s = None"
  by (auto simp: require_recovery_execution_ready_def run_simps)

lemma restoration_ready_Inr:
  "require_restoration_execution_ready H s = Inr (u, s') \<Longrightarrow> s' = s \<and> pending_restoration s = None"
  by (auto simp: require_restoration_execution_ready_def run_simps pending_restoration_def split: option.splits)

end
