(* ===== verification/Plan_Projection.thy ===== *)
theory Plan_Projection
  imports Plan_Gates
begin

text \<open>
  The host projection of the Plan (plan_runtime.py): the full ordered rows, their Markdown, the
  projection records, the binding to one Codex PLAN.md and the publication of the file. The database
  commits before the file is replaced; the file system of the host is the table \<open>host_files\<close>, and
  the result of an atomic replacement is the argument \<open>io\<close>: the text found afterwards, or nothing
  when the replacement failed.
\<close>

section \<open>Rows\<close>

definition native_state :: "task_state \<Rightarrow> string" where
  "native_state st = (case st of Completed \<Rightarrow> ''completed'' | Active \<Rightarrow> ''in_progress'' | _ \<Rightarrow> ''pending'')"

definition row_json :: "plan_task \<Rightarrow> json" where
  "row_json t = JObj [(''position'', JInt (int (pt_position t))), (''task_id'', JStr (td_task_id (pt_definition t))),
     (''title'', JStr (td_title (pt_definition t))), (''requested_outcome'', JStr (requested_outcome (pt_definition t))),
     (''state'', JStr (task_state_name (pt_state t))), (''host_status'', JStr (native_state (pt_state t))),
     (''contract_digest'', JStr (pt_contract_digest t)), (''definition'', task_json (pt_definition t))]"

text \<open>\<open>_projection_rows\<close>.\<close>

definition projection_rows :: "(string \<Rightarrow> string) \<Rightarrow> int \<Rightarrow> project \<Rightarrow> plan_task list result" where
  "projection_rows H rv s =
     rbind (rcollect (view H s) (tasks_of rv s)) (\<lambda>rows.
     if rows = [] \<or> 2000 < length rows then Inl (LaneError ''PLAN_PROJECTION_ROWS'')
     else if 1 < length (filter (\<lambda>t. pt_state t = Active) rows) then Inl (LaneError ''PLAN_PROJECTION_ACTIVE'')
     else Inr rows)"

section \<open>Markdown\<close>

definition replace_char :: "char \<Rightarrow> string \<Rightarrow> string \<Rightarrow> string" where
  "replace_char c t s = concat (map (\<lambda>d. if d = c then t else [d]) s)"

definition html_escape :: "string \<Rightarrow> string" where
  "html_escape s = replace_char CHR ''>'' ''&gt;'' (replace_char CHR ''<'' ''&lt;'' (replace_char CHR ''&'' ''&amp;'' s))"

text \<open>\<open>_markdown_cell\<close>, replacement by replacement.\<close>

definition markdown_cell :: "string \<Rightarrow> string" where
  "markdown_cell s =
     replace_char CHR 0x0A ''<br>'' (replace_char CHR 0x0D '' ''
       (fold (\<lambda>c t. replace_char c [CHR 0x5C, c] t) ''|`*_[]'' (replace_char CHR 0x5C [CHR 0x5C, CHR 0x5C] (html_escape s))))"

definition code :: "string \<Rightarrow> string" where
  "code s = CHR ''`'' # s @ ''`''"

definition pad3 :: "nat \<Rightarrow> string" where
  "pad3 n = replicate (3 - length (nat_digits n)) CHR ''0'' @ nat_digits n"

primrec join_lines :: "string list \<Rightarrow> string" where
  "join_lines [] = []"
| "join_lines (x # xs) = (case xs of [] \<Rightarrow> x | _ # _ \<Rightarrow> x @ CHR 0x0A # join_lines xs)"

definition STATE_ORDER :: "task_state list" where
  "STATE_ORDER = [Completed, Active, Queued, Blocked, Failed, Cancelled, Superseded]"

definition count_lines :: "plan_task list \<Rightarrow> string list" where
  "count_lines rows = concat (map (\<lambda>st.
     let n = length (filter (\<lambda>t. pt_state t = st) rows) in
     if n = 0 then [] else [''- '' @ task_state_name st @ '': '' @ code (nat_digits n)]) STATE_ORDER)"

definition table_line :: "plan_task \<Rightarrow> string" where
  "table_line t =
     ''| '' @ pad3 (pt_position t) @ '' | '' @ code (markdown_cell (td_task_id (pt_definition t))) @ '' | **''
     @ task_state_name (pt_state t) @ ''** | '' @ code (native_state (pt_state t)) @ '' | ''
     @ markdown_cell (td_title (pt_definition t) @ '': '' @ requested_outcome (pt_definition t)) @ '' |''"

definition projection_lines ::
  "string \<Rightarrow> plan_revision \<Rightarrow> string \<Rightarrow> plan_task list \<Rightarrow> string \<Rightarrow> string list" where
  "projection_lines pid meta head rows rows_digest =
     [''# Evidence Lane project Plan'', '''',
      ''- Project ID: '' @ code pid, ''- Plan ID: '' @ code (rv_plan_id meta),
      ''- Plan revision: '' @ code (int_text (rv_revision meta)),
      ''- Plan document SHA-256: '' @ code (rv_document_digest meta), ''- Plan event head: '' @ code head,
      ''- Full ordered-row SHA-256: '' @ code rows_digest, ''- Full row count: '' @ code (nat_digits (length rows)),
      ''- Authority: the selected project Plan lane database. This file is its exact full host projection.'',
      ''- Completed contracts remain historical; one task may be active; affected active or queued contracts change only through a new Plan event or revision.'',
      ''- No partial 1 + 9 projection is used. Informational reads do not rewrite this file.'', '''',
      ''## Status counts'', ''''] @ count_lines rows @
     ['''', ''## Full Step Task List'', '''', ''| Row | Task ID | Project state | Host state | Current task contract |'',
      ''|---:|---|---|---|---|''] @ map table_line rows @
     ['''', ''## Projection contract'', '''',
      ''- This file is written only through an explicitly bound local Codex Plan path.'',
      ''- The project database commit precedes atomic file replacement.'',
      ''- File and database digests are reconciled before the projection is confirmed.'',
      ''- File parity does not independently attest that a particular Codex window rendered it.'', '''']"

text \<open>\<open>_projection_markdown\<close>.\<close>

definition projection_markdown ::
  "string \<Rightarrow> plan_revision \<Rightarrow> string \<Rightarrow> plan_task list \<Rightarrow> string \<Rightarrow> string result" where
  "projection_markdown pid meta head rows rows_digest =
     (let text = join_lines (projection_lines pid meta head rows rows_digest) in
      if MAX_PLAN_BYTES * 3 < utf8_size text then Inl (LaneError ''PLAN_PROJECTION_TOO_LARGE'') else Inr text)"

section \<open>Preparation\<close>

definition active_binding :: "project \<Rightarrow> host_binding option" where
  "active_binding s = find hb_active (bindings s)"

definition projection_clash :: "host_projection \<Rightarrow> host_projection \<Rightarrow> bool" where
  "projection_clash a b \<longleftrightarrow> hp_sequence a = hp_sequence b \<or> hp_projection_id a = hp_projection_id b"

definition supersede_open :: "project \<Rightarrow> project" where
  "supersede_open s = s\<lparr>projections := update_where (\<lambda>p. hp_state p \<in> {Unbound, Pending, Publishing})
     (\<lambda>p. p\<lparr>hp_state := PSuperseded\<rparr>) (projections s)\<rparr>"

text \<open>\<open>_prepare_host_projection\<close>.\<close>

definition same_projection ::
  "int \<Rightarrow> string \<Rightarrow> string \<Rightarrow> host_binding option \<Rightarrow> host_projection option \<Rightarrow> bool" where
  "same_projection rv head rows_digest binding previous \<longleftrightarrow> (case previous of None \<Rightarrow> False | Some p \<Rightarrow>
     hp_revision p = rv \<and> hp_event_head p = head \<and> hp_rows_digest p = rows_digest
     \<and> hp_binding_id p = map_option hb_binding_id binding \<and> hp_state p \<noteq> PSuperseded)"

definition prepare_projection :: "world \<Rightarrow> int \<Rightarrow> string \<Rightarrow> (project, string) action" where
  "prepare_projection w rv actor =
     bnd (head_row (Some rv)) (\<lambda>head.
     bnd (demand (case cur_event_head head of None \<Rightarrow> None | Some d \<Rightarrow> if d = [] then None else Some d)
       ''PLAN_PROJECTION_EVENT_HEAD'') (\<lambda>event_head.
     bnd (bnd (gets (\<lambda>s. validate_document (sha256 w) (find_revision rv s))) lift_result) (\<lambda>meta.
     bnd (bnd (gets (projection_rows (sha256 w) rv)) lift_result) (\<lambda>rows.
     let rows_value = JArr (map row_json rows); rows_digest = content_digest (sha256 w) rows_value in
     bnd (gets project_id) (\<lambda>pid.
     bnd (lift_result (projection_markdown pid meta event_head rows rows_digest)) (\<lambda>markdown.
     bnd (gets active_binding) (\<lambda>binding.
     bnd (gets (\<lambda>s. latest hp_sequence (projections s))) (\<lambda>previous.
     case (if same_projection rv event_head rows_digest binding previous then previous else None) of
       Some p \<Rightarrow> ret (hp_projection_id p)
     | None \<Rightarrow>
         bnd (modify supersede_open) (\<lambda>_.
         bnd (insert_row projections projections_update projection_clash
           \<lparr>hp_sequence = (case previous of None \<Rightarrow> 1 | Some p \<Rightarrow> hp_sequence p + 1), hp_projection_id = draw 0 w,
            hp_binding_id = map_option hb_binding_id binding, hp_revision = rv, hp_event_head = event_head,
            hp_document_digest = rv_document_digest meta, hp_rows = rows_value, hp_rows_digest = rows_digest,
            hp_markdown = markdown, hp_markdown_sha256 = sha256 w markdown,
            hp_state = (if binding = None then Unbound else Pending),
            hp_previous = map_option hp_projection_id previous, hp_prepared_by = actor, hp_prepared_at = now w,
            hp_attempts = 0, hp_last_error = None, hp_file_before = None, hp_file_after = None,
            hp_confirmed_at = None\<rparr>) (\<lambda>_. ret (draw 0 w)))))))))))"

section \<open>The bound file\<close>

text \<open>A POSIX path: whether it is absolute, and its components as \<open>Path\<close> reads them.\<close>

fun split_slash :: "string \<Rightarrow> string \<Rightarrow> string list" where
  "split_slash acc [] = [rev acc]"
| "split_slash acc (c # cs) = (if c = CHR ''/'' then rev acc # split_slash [] cs else split_slash (c # acc) cs)"

definition path_of :: "string \<Rightarrow> bool \<times> string list" where
  "path_of t = (t \<noteq> [] \<and> hd t = CHR ''/'', filter (\<lambda>c. c \<noteq> [] \<and> c \<noteq> ''.'') (split_slash [] t))"

definition path_text :: "bool \<times> string list \<Rightarrow> string" where
  "path_text p = (let body = concat (map (\<lambda>c. CHR ''/'' # c) (snd p)) in
     if fst p then (if snd p = [] then ''/'' else body) else if snd p = [] then ''.'' else tl body)"

text \<open>
  \<open>_validated_host_plan_path\<close>: \<open>root\<close> is the Codex plans directory, by components. Symbolic links do
  not exist in the table of host files.
\<close>

definition host_plan_path ::
  "string list \<Rightarrow> bool \<times> string list \<Rightarrow> string \<Rightarrow> string \<Rightarrow> project \<Rightarrow> string list result" where
  "host_plan_path root path task plan s =
     (if \<not> fst path \<or> snd path = [] \<or> last (snd path) \<noteq> ''PLAN.md'' then Inl (LaneError ''HOST_PLAN_PATH_INVALID'')
      else if take (length root) (snd path) \<noteq> root then Inl (LaneError ''HOST_PLAN_PATH_INVALID'')
      else if drop (length root) (snd path) \<noteq> [task, plan, ''PLAN.md''] then Inl (LaneError ''HOST_PLAN_BINDING_MISMATCH'')
      else if map_of (host_files s) (snd path) = None then Inl (LaneError ''HOST_PLAN_NOT_FOUND'')
      else Inr (snd path))"

text \<open>\<open>_file_sha256\<close>; a file that vanished raises FileNotFoundError.\<close>

definition file_sha256 :: "(string \<Rightarrow> string) \<Rightarrow> string list \<Rightarrow> project \<Rightarrow> string result" where
  "file_sha256 H path s = (case map_of (host_files s) path of
     None \<Rightarrow> Inl (Raised ''FileNotFoundError'') | Some t \<Rightarrow> Inr (H t))"

definition binding_path :: "string list \<Rightarrow> host_binding \<Rightarrow> project \<Rightarrow> string list result" where
  "binding_path root b s = host_plan_path root (True, hb_plan_path b) (hb_host_task_id b) (hb_host_plan_id b) s"

section \<open>Reading a projection\<close>

definition find_projection :: "string \<Rightarrow> project \<Rightarrow> host_projection option" where
  "find_projection pid s = find (\<lambda>p. hp_projection_id p = pid) (projections s)"

text \<open>\<open>_projection_result\<close>: the stored rows and Markdown against their digests and the revision.\<close>

definition projection_result :: "(string \<Rightarrow> string) \<Rightarrow> project \<Rightarrow> host_projection \<Rightarrow> host_projection result" where
  "projection_result H s p =
     (if content_digest H (hp_rows p) \<noteq> hp_rows_digest p \<or> H (hp_markdown p) \<noteq> hp_markdown_sha256 p
      then Inl (LaneError ''PLAN_PROJECTION_INTEGRITY'')
      else rbind (validate_document H (find_revision (hp_revision p) s)) (\<lambda>_. Inr p))"

definition read_host_projection :: "(string \<Rightarrow> string) \<Rightarrow> string option \<Rightarrow> (project, host_projection) action" where
  "read_host_projection H pid =
     bnd (gets (\<lambda>s. case pid of Some i \<Rightarrow> find_projection i s | None \<Rightarrow> latest hp_sequence (projections s))) (\<lambda>row.
     bnd (demand row ''PLAN_PROJECTION_NOT_FOUND'') (\<lambda>p.
     bnd (gets (\<lambda>s. projection_result H s p)) lift_result))"

section \<open>Synchronisation\<close>

datatype sync_step =
    Current host_projection
  | Drifted
  | Publish "string list" string host_projection

definition set_projection :: "string \<Rightarrow> (host_projection \<Rightarrow> host_projection) \<Rightarrow> (project, unit) action" where
  "set_projection pid f =
     modify (\<lambda>s. s\<lparr>projections := update_where (\<lambda>p. hp_projection_id p = pid) f (projections s)\<rparr>)"

text \<open>The first transaction of \<open>sync_host_plan\<close>.\<close>

definition sync_begin ::
  "world \<Rightarrow> string list \<Rightarrow> lease \<Rightarrow> string option \<Rightarrow> string option \<Rightarrow> (project, sync_step) action" where
  "sync_begin w root l pid expected =
     in_transaction w l
       (bnd (gets (\<lambda>s. case pid of Some i \<Rightarrow> find_projection i s
          | None \<Rightarrow> latest hp_sequence (filter (\<lambda>p. hp_state p \<in> {Pending, Publishing}) (projections s)))) (\<lambda>row.
        bnd (demand row ''PLAN_PROJECTION_NOT_FOUND'') (\<lambda>p.
        bnd (bnd (gets (\<lambda>s. projection_result (sha256 w) s p)) lift_result) (\<lambda>_.
        bnd (require (case expected of None \<Rightarrow> True | Some d \<Rightarrow> d = hp_rows_digest p) ''PLAN_PROJECTION_CHANGED'') (\<lambda>_.
        bnd (head_row (Some (hp_revision p))) (\<lambda>head.
        bnd (require (cur_event_head head = Some (hp_event_head p)) ''PLAN_PROJECTION_SUPERSEDED'') (\<lambda>_.
        bnd (gets (\<lambda>s. find (\<lambda>b. Some (hb_binding_id b) = hp_binding_id p \<and> hb_active b) (bindings s))) (\<lambda>binding.
        bnd (demand binding ''HOST_PLAN_NOT_BOUND'') (\<lambda>b.
        bnd (bnd (gets (binding_path root b)) lift_result) (\<lambda>path.
        bnd (bnd (gets (file_sha256 (sha256 w) path)) lift_result) (\<lambda>actual.
        if hp_state p = PConfirmed then
          bnd (require (actual = hp_markdown_sha256 p \<and> hb_current_sha256 b = actual) ''HOST_PLAN_CHANGED'') (\<lambda>_.
          ret (Current p))
        else if actual \<notin> {hb_current_sha256 b, hp_markdown_sha256 p} then
          bnd (set_projection (hp_projection_id p) (\<lambda>q. q\<lparr>hp_state := Pending, hp_attempts := hp_attempts q + 1,
                 hp_last_error := Some ''HOST_PLAN_CHANGED''\<rparr>)) (\<lambda>_. ret Drifted)
        else
          bnd (set_projection (hp_projection_id p) (\<lambda>q. q\<lparr>hp_state := Publishing, hp_attempts := hp_attempts q + 1,
                 hp_last_error := None, hp_file_before := Some actual\<rparr>)) (\<lambda>_. ret (Publish path actual p)))))))))))))"

text \<open>The replacement of the file and its read-back; the file system is not rolled back.\<close>

definition write_host_file ::
  "(string \<Rightarrow> string) \<Rightarrow> (string \<Rightarrow> string option) \<Rightarrow> string list \<Rightarrow> string \<Rightarrow> string \<Rightarrow> (project, string) process" where
  "write_host_file H io path actual text = (\<lambda>s.
     if actual = H text then (file_sha256 H path s, s)
     else case io text of
       None \<Rightarrow> (Inl (LaneError ''HOST_PLAN_WRITE_FAILED''), s)
     | Some found \<Rightarrow>
         (if H found = H text then Inr (H found) else Inl (LaneError ''HOST_PLAN_WRITE_MISMATCH''),
          s\<lparr>host_files := (path, found) # host_files s\<rparr>))"

definition sync_failed :: "world \<Rightarrow> lease \<Rightarrow> string \<Rightarrow> error \<Rightarrow> (project, unit) action" where
  "sync_failed w l pid e = in_transaction w l
     (set_projection pid (\<lambda>q. q\<lparr>hp_state := Pending,
        hp_last_error := Some (case e of LaneError c \<Rightarrow> c | Raised _ \<Rightarrow> ''HOST_PLAN_WRITE_FAILED'')\<rparr>))"

definition sync_confirm :: "world \<Rightarrow> lease \<Rightarrow> host_projection \<Rightarrow> string \<Rightarrow> string \<Rightarrow> (project, host_projection) action" where
  "sync_confirm w l p after actor = in_transaction w l
     (bnd (set_projection (hp_projection_id p) (\<lambda>q. q\<lparr>hp_state := PConfirmed, hp_file_after := Some after,
        hp_confirmed_at := Some (now w), hp_last_error := None\<rparr>)) (\<lambda>_.
      bnd (modify (\<lambda>s. s\<lparr>bindings := update_where (\<lambda>b. Some (hb_binding_id b) = hp_binding_id p)
        (\<lambda>b. b\<lparr>hb_current_sha256 := after, hb_updated := now w\<rparr>) (bindings s)\<rparr>)) (\<lambda>_.
      bnd (append_receipt w (Some ''plan'') ''host_plan_projection_confirmed''
        [(''projection_id'', JStr (hp_projection_id p)), (''rows_digest'', JStr (hp_rows_digest p)),
         (''file_sha256'', JStr after), (''full_list'', JBool True), (''partial_window'', JBool False),
         (''host_ui_rendering_attested'', JBool False), (''project_plan_database_authority'', JBool True),
         (''projected_by'', JStr actor)]) (\<lambda>_.
      bnd (gets (find_projection (hp_projection_id p))) (\<lambda>q.
      bnd (demand q ''PLAN_PROJECTION_NOT_FOUND'') (\<lambda>q.
      bnd (gets (\<lambda>s. projection_result (sha256 w) s q)) lift_result))))))"

definition preturn :: "'a \<Rightarrow> ('s, 'a) process" where
  "preturn a = (\<lambda>s. (Inr a, s))"

definition pfail :: "error \<Rightarrow> ('s, 'a) process" where
  "pfail e = (\<lambda>s. (Inl e, s))"

definition write_error :: "error \<Rightarrow> error" where
  "write_error e = (case e of LaneError c \<Rightarrow> e | Raised _ \<Rightarrow> LaneError ''HOST_PLAN_WRITE_FAILED'')"

text \<open>
  \<open>sync_host_plan\<close>. A failed write is recorded in its own transaction before it is raised; when that
  transaction fails too, its error is what the caller sees.
\<close>

definition sync_host_plan ::
  "world \<Rightarrow> string list \<Rightarrow> (string \<Rightarrow> string option) \<Rightarrow> lease \<Rightarrow> string option \<Rightarrow> string option \<Rightarrow> string
   \<Rightarrow> (project, host_projection) process" where
  "sync_host_plan w root io l pid expected actor =
     pbind (commit (own_lease w l)) (\<lambda>_.
     pbind (commit (sync_begin w root l pid expected)) (\<lambda>step.
     case step of
       Current p \<Rightarrow> preturn p
     | Drifted \<Rightarrow> pfail (LaneError ''HOST_PLAN_CHANGED'')
     | Publish path actual p \<Rightarrow> (\<lambda>s.
         case write_host_file (sha256 w) io path actual (hp_markdown p) s of
           (Inr after, s') \<Rightarrow> commit (sync_confirm w l p after actor) s'
         | (Inl e, s') \<Rightarrow> pbind (commit (sync_failed w l (hp_projection_id p) e)) (\<lambda>_. pfail (write_error e)) s')))"

text \<open>\<open>_publish_if_bound\<close>.\<close>

definition publish_if_bound ::
  "world \<Rightarrow> string list \<Rightarrow> (string \<Rightarrow> string option) \<Rightarrow> lease \<Rightarrow> string \<Rightarrow> string \<Rightarrow> (project, host_projection) process" where
  "publish_if_bound w root io l pid actor =
     pbind (commit (read_host_projection (sha256 w) (Some pid))) (\<lambda>p.
     if hp_state p \<in> {Pending, Publishing} then sync_host_plan w root io l (Some pid) (Some (hp_rows_digest p)) actor
     else preturn p)"

section \<open>Binding\<close>

record host_bind =
  hq_request_id :: string
  hq_host_task_id :: string
  hq_host_plan_id :: string
  hq_plan_path :: string
  hq_expected_sha256 :: string

definition binding_digest_of :: "(string \<Rightarrow> string) \<Rightarrow> string \<Rightarrow> host_bind \<Rightarrow> string \<Rightarrow> string" where
  "binding_digest_of H pid r actor = content_digest H (JObj [(''host_task_id'', JStr (hq_host_task_id r)),
     (''host_plan_id'', JStr (hq_host_plan_id r)), (''plan_path'', JStr (path_text (path_of (hq_plan_path r)))),
     (''request_id'', JStr (hq_request_id r)), (''project_id'', JStr pid), (''bound_by'', JStr actor)])"

definition find_bind_request :: "string \<Rightarrow> project \<Rightarrow> host_binding option" where
  "find_bind_request rid s = find (\<lambda>b. hb_request_id b = rid) (bindings s)"

text \<open>The checks on the file before the binding transaction.\<close>

definition bind_precheck :: "world \<Rightarrow> string list \<Rightarrow> host_bind \<Rightarrow> string \<Rightarrow> project \<Rightarrow> unit result" where
  "bind_precheck w root r digest s =
     (case find_bind_request (hq_request_id r) s of
        Some b \<Rightarrow>
          if hb_digest b \<noteq> digest then Inl (LaneError ''HOST_PLAN_BINDING_CONFLICT'')
          else rbind (binding_path root b s) (\<lambda>path. rbind (file_sha256 (sha256 w) path s) (\<lambda>d.
               if d \<noteq> hb_current_sha256 b then Inl (LaneError ''HOST_PLAN_CHANGED'') else Inr ()))
      | None \<Rightarrow>
          rbind (host_plan_path root (path_of (hq_plan_path r)) (hq_host_task_id r) (hq_host_plan_id r) s) (\<lambda>path.
          rbind (file_sha256 (sha256 w) path s) (\<lambda>d.
          if d \<noteq> hq_expected_sha256 r then Inl (LaneError ''HOST_PLAN_CHANGED'') else Inr ())))"

definition binding_clash :: "host_binding \<Rightarrow> host_binding \<Rightarrow> bool" where
  "binding_clash a b \<longleftrightarrow> hb_binding_id a = hb_binding_id b \<or> hb_request_id a = hb_request_id b \<or> hb_digest a = hb_digest b"

definition deactivate :: "world \<Rightarrow> (host_binding \<Rightarrow> bool) \<Rightarrow> (project, unit) action" where
  "deactivate w P = modify (\<lambda>s. s\<lparr>bindings := update_where P (\<lambda>b. b\<lparr>hb_active := False, hb_updated := now w\<rparr>) (bindings s)\<rparr>)"

definition bind_rows :: "world \<Rightarrow> host_bind \<Rightarrow> string \<Rightarrow> string \<Rightarrow> (project, string) action" where
  "bind_rows w r digest actor =
     bnd (gets (find_bind_request (hq_request_id r))) (\<lambda>existing.
     case existing of
       Some b \<Rightarrow>
         bnd (require (hb_digest b = digest) ''HOST_PLAN_BINDING_CONFLICT'') (\<lambda>_.
         bnd (deactivate w (\<lambda>c. hb_binding_id c \<noteq> hb_binding_id b)) (\<lambda>_.
         bnd (modify (\<lambda>s. s\<lparr>bindings := update_where (\<lambda>c. hb_binding_id c = hb_binding_id b)
           (\<lambda>c. c\<lparr>hb_active := True, hb_updated := now w\<rparr>) (bindings s)\<rparr>)) (\<lambda>_. ret (hb_binding_id b))))
     | None \<Rightarrow>
         bnd (deactivate w hb_active) (\<lambda>_.
         bnd (insert_row bindings bindings_update binding_clash
           \<lparr>hb_binding_id = draw 0 w, hb_request_id = hq_request_id r, hb_host_task_id = hq_host_task_id r,
            hb_host_plan_id = hq_host_plan_id r, hb_plan_path = snd (path_of (hq_plan_path r)),
            hb_current_sha256 = hq_expected_sha256 r, hb_bound_by = actor, hb_digest = digest, hb_active = True,
            hb_created = now w, hb_updated = now w\<rparr>) (\<lambda>_. ret (draw 0 w))))"

definition bind_host_plan ::
  "world \<Rightarrow> string list \<Rightarrow> (string \<Rightarrow> string option) \<Rightarrow> lease \<Rightarrow> host_bind \<Rightarrow> string
   \<Rightarrow> (project, string \<times> host_projection) process" where
  "bind_host_plan w root io l r actor =
     pbind (commit (bnd (own_lease w l) (\<lambda>_. bnd (gets project_id) (\<lambda>pid.
       let digest = binding_digest_of (sha256 w) pid r actor in
       bnd (bnd (gets (bind_precheck w root r digest)) lift_result) (\<lambda>_.
       in_transaction w l
         (bnd (bind_rows w r digest actor) (\<lambda>bid.
          bnd (head_row None) (\<lambda>head.
          bnd (prepare_projection (branch 1 w) (cur_revision head) actor) (\<lambda>pid. ret (bid, pid)))))))))) (\<lambda>(bid, pid).
     pbind (sync_host_plan (branch 2 w) root io l (Some pid) None actor) (\<lambda>p. preturn (bid, p)))"

declare native_state_def [op_defs] row_json_def [op_defs] projection_rows_def [op_defs] replace_char_def [op_defs]
  html_escape_def [op_defs] markdown_cell_def [op_defs] code_def [op_defs] pad3_def [op_defs] STATE_ORDER_def [op_defs]
  count_lines_def [op_defs] table_line_def [op_defs] projection_markdown_def [op_defs] active_binding_def [op_defs]
  projection_clash_def [op_defs] supersede_open_def [op_defs] same_projection_def [op_defs] prepare_projection_def [op_defs]

end
