(* ===== verification/Plan_Store.thy ===== *)
theory Plan_Store
  imports Plan_Projection
begin

text \<open>
  The Plan store's changes (plan_runtime.py): creation, replacement by a semantic steer and task
  transitions, each with every check and write of its transaction, and the snapshot. The checks of
  mode bindings (mode_governance.py) and validation policies (acceptance.py) read other lanes and are
  the parameter \<open>vd\<close>.
\<close>

type_synonym validator = "task_definition \<Rightarrow> project \<Rightarrow> unit result"

section \<open>Shared checks\<close>

text \<open>\<open>_validate_modes\<close>; the argument is a pair of the mode check and the policy check.\<close>

definition validate_modes :: "validator \<times> validator \<Rightarrow> task_definition list \<Rightarrow> project \<Rightarrow> unit result" where
  "validate_modes vd ts s =
     rbind (rcollect (\<lambda>t.
       rbind (if mode_of t = None then Inr () else fst vd t s) (\<lambda>_.
       if validation_policy t = None then Inr () else snd vd t s)) ts) (\<lambda>_. Inr ())"

definition terminal_state :: "task_state \<Rightarrow> bool" where
  "terminal_state st \<longleftrightarrow> st \<in> {Completed, Cancelled, Failed, Superseded}"

section \<open>Creation\<close>

definition revision_clash :: "plan_revision \<Rightarrow> plan_revision \<Rightarrow> bool" where
  "revision_clash a b \<longleftrightarrow> rv_revision a = rv_revision b \<or> rv_request_id a = rv_request_id b"

definition find_plan_request :: "string \<Rightarrow> project \<Rightarrow> plan_revision option" where
  "find_plan_request rid s = find (\<lambda>r. rv_request_id r = rid) (revisions s)"

definition first_revision :: "world \<Rightarrow> plan_create \<Rightarrow> string \<Rightarrow> plan_revision" where
  "first_revision w r actor = \<lparr>rv_revision = 1, rv_plan_id = pc_plan_id r, rv_title = pc_title r,
     rv_request_id = pc_request_id r, rv_document = create_document r,
     rv_document_digest = content_digest (sha256 w) (create_document r), rv_parent = None, rv_actor = actor,
     rv_reason = ''initial_plan'', rv_created = now w\<rparr>"

definition create_rows :: "world \<Rightarrow> plan_create \<Rightarrow> string \<Rightarrow> (project, unit) action" where
  "create_rows w r actor =
     bnd (gets plan_head) (\<lambda>h.
     bnd (require (h = None) ''PLAN_ALREADY_CREATED'') (\<lambda>_.
     bnd (require_restoration_plan (sha256 w) (source_restore_digest r) 1) (\<lambda>_.
     bnd (require_recovery_plan (database_recovery_digest r) 1) (\<lambda>_.
     bnd (insert_row revisions revisions_update revision_clash (first_revision w r actor)) (\<lambda>_.
     bnd (modify (\<lambda>s. s\<lparr>plan_head := Some \<lparr>cur_revision = 1, cur_event_head = None\<rparr>\<rparr>)) (\<lambda>_.
     bnd (insert_tasks (sha256 w) 1 (normalized r)) (\<lambda>_.
     bnd (add_event (branch 1 w) 1 None ''plan_created'' actor
       (JObj [(''document_digest'', JStr (content_digest (sha256 w) (create_document r))),
              (''task_count'', JInt (int (length (pc_tasks r))))]) None) (\<lambda>_.
     bnd (append_receipt (branch 2 w) (Some ''plan'') ''plan_created''
       [(''plan_id'', JStr (pc_plan_id r)), (''revision'', JInt 1),
        (''document_digest'', JStr (content_digest (sha256 w) (create_document r)))]) (\<lambda>_. ret ())))))))))"

text \<open>
  The transaction of \<open>create\<close>: it returns the revision and the prepared projection.
\<close>

definition create_plan ::
  "world \<Rightarrow> validator \<times> validator \<Rightarrow> lease \<Rightarrow> plan_create \<Rightarrow> string \<Rightarrow> (project, int \<times> string) action" where
  "create_plan w vd l r actor =
     bnd (if valid_plan_create r then ret () else abort (Raised ''ValidationError'')) (\<lambda>_.
     bnd (own_lease w l) (\<lambda>_.
     bnd (bnd (gets (validate_modes vd (pc_tasks r))) lift_result) (\<lambda>_.
     bnd (require (json_bytes (create_document r) \<le> MAX_PLAN_BYTES) ''PLAN_TOO_LARGE'') (\<lambda>_.
     in_transaction w l
       (bnd (gets (find_plan_request (pc_request_id r))) (\<lambda>existing.
        bnd (case existing of
            Some e \<Rightarrow>
              bnd (require (rv_document_digest e = content_digest (sha256 w) (create_document r) \<and> rv_actor e = actor)
                ''PLAN_REQUEST_CONFLICT'') (\<lambda>_. ret (rv_revision e))
          | None \<Rightarrow> bnd (create_rows w r actor) (\<lambda>_. ret 1)) (\<lambda>rv.
        bnd (prepare_projection (branch 3 w) rv actor) (\<lambda>pid. ret (rv, pid)))))))))"

section \<open>Transitions\<close>

definition transition_payload :: "task_state \<Rightarrow> string \<Rightarrow> string option \<Rightarrow> (string \<times> json) list" where
  "transition_payload st digest evidence =
     [(''to_state'', JStr (task_state_name st)), (''contract_digest'', JStr digest), (''evidence_receipt'', jopt evidence)]"

text \<open>The receipt that completion requires.\<close>

definition verified_exit :: "string \<Rightarrow> string \<Rightarrow> int \<Rightarrow> string \<Rightarrow> receipt \<Rightarrow> bool" where
  "verified_exit pid tid rv digest rc \<longleftrightarrow> rc_kind rc = ''delta_exit_verified''
     \<and> text_field (rc_body rc) ''status'' = Some ''passed'' \<and> text_field (rc_body rc) ''project_id'' = Some pid
     \<and> text_field (rc_body rc) ''task_id'' = Some tid \<and> int_field (rc_body rc) ''plan_revision'' = Some rv
     \<and> text_field (rc_body rc) ''contract_digest'' = Some digest"

definition activation_ready :: "world \<Rightarrow> int \<Rightarrow> string \<Rightarrow> (project, unit) action" where
  "activation_ready w rv tid =
     bnd (require_restoration_execution_ready (sha256 w)) (\<lambda>_.
     bnd require_recovery_execution_ready (\<lambda>_.
     bnd (gets (\<lambda>s. list_ex (\<lambda>t. pt_revision t = rv \<and> pt_state t = Active) (tasks s))) (\<lambda>active.
     bnd (require (\<not> active) ''PLAN_TASK_ALREADY_ACTIVE'') (\<lambda>_.
     bnd (gets (\<lambda>s. list_ex (\<lambda>d. dep_revision d = rv \<and> dep_task_id d = tid
        \<and> list_ex (\<lambda>t. pt_revision t = rv \<and> pt_task_id t = dep_dependency d \<and> pt_state t \<noteq> Completed) (tasks s))
        (dependencies s))) (\<lambda>pending.
     require (\<not> pending) ''PLAN_DEPENDENCY_INCOMPLETE'')))))"

definition completion_ready :: "int \<Rightarrow> plan_task \<Rightarrow> string option \<Rightarrow> (project, unit) action" where
  "completion_ready rv row evidence =
     bnd (gets (\<lambda>s. case evidence of None \<Rightarrow> False | Some e \<Rightarrow> (case find_receipt e s of None \<Rightarrow> False
        | Some rc \<Rightarrow> verified_exit (project_id s) (pt_task_id row) rv (pt_contract_digest row) rc))) (\<lambda>ok.
     require ok ''DELTA_VERIFICATION_REQUIRED'')"

definition saved_field :: "plan_event \<Rightarrow> string \<times> json \<Rightarrow> bool" where
  "saved_field e kv \<longleftrightarrow> (case jget (ev_payload e) (fst kv) of None \<Rightarrow> snd kv = JNull | Some v \<Rightarrow> v = snd kv)"

text \<open>
  \<open>transition\<close> inside its transaction. A repeated event identifier returns the recorded digest when it
  names the same change.
\<close>

definition change_state ::
  "world \<Rightarrow> int \<Rightarrow> plan_task \<Rightarrow> task_state \<Rightarrow> string \<Rightarrow> string option \<Rightarrow> string option
   \<Rightarrow> (project, string \<times> string option) action" where
  "change_state w rv row st actor eid evidence =
     bnd (lift_result (transition (Some (task_state_name (pt_state row))) ''task_transition'' (task_state_name st) ''plan_task'')) (\<lambda>_.
     bnd (if st = Active then activation_ready w rv (pt_task_id row) else ret ()) (\<lambda>_.
     bnd (if st = Completed then completion_ready rv row evidence else ret ()) (\<lambda>_.
     bnd (update_task rv (pt_task_id row) (\<lambda>t. t\<lparr>pt_state := st\<rparr>)) (\<lambda>_.
     bnd (add_event (branch 1 w) rv (Some (pt_task_id row)) ''task_transition'' actor
       (JObj (transition_payload st (pt_contract_digest row) evidence
              @ [(''from_state'', JStr (task_state_name (pt_state row)))])) eid) (\<lambda>digest.
     bnd (prepare_projection (branch 2 w) rv actor) (\<lambda>pid. ret (digest, Some pid)))))))"

definition transition_rows ::
  "world \<Rightarrow> lease \<Rightarrow> string \<Rightarrow> task_state \<Rightarrow> int \<Rightarrow> string \<Rightarrow> string option \<Rightarrow> string option
   \<Rightarrow> (project, string \<times> string option) action" where
  "transition_rows w l tid st rv actor eid evidence =
     bnd (check_lease w l) (\<lambda>_.
     bnd (head_row (Some rv)) (\<lambda>_.
     bnd (task_row rv tid) (\<lambda>row.
     bnd (bnd (gets (\<lambda>s. view (sha256 w) s row)) lift_result) (\<lambda>_.
     bnd (gets (\<lambda>s. case eid of None \<Rightarrow> None | Some e \<Rightarrow> if e = [] then None else find (\<lambda>v. ev_id v = e) (events s))) (\<lambda>existing.
     case existing of
       Some e \<Rightarrow>
         bnd (require (ev_task_id e = Some tid \<and> ev_revision e = rv \<and> ev_actor e = actor
           \<and> list_all (saved_field e) (transition_payload st (pt_contract_digest row) evidence)) ''PLAN_EVENT_CONFLICT'') (\<lambda>_.
         ret (ev_digest e, None))
     | None \<Rightarrow> change_state w rv row st actor eid evidence)))))"

definition transition_task ::
  "world \<Rightarrow> lease \<Rightarrow> string \<Rightarrow> task_state \<Rightarrow> int \<Rightarrow> string \<Rightarrow> string option \<Rightarrow> string option
   \<Rightarrow> (project, string \<times> string option) action" where
  "transition_task w l tid st rv actor eid evidence =
     bnd (own_lease w l) (\<lambda>_. in_transaction w l (transition_rows w l tid st rv actor eid evidence))"

section \<open>Replacement\<close>

definition open_steer :: "steer \<Rightarrow> bool" where
  "open_steer q \<longleftrightarrow> st_state q \<in> {SPending, SCheckpointing, SReady}"

definition find_steer :: "string \<Rightarrow> project \<Rightarrow> steer option" where
  "find_steer rid s = find (\<lambda>q. st_request_id q = rid) (steers s)"

text \<open>The source of the steer, and the conditions on later and stopped input.\<close>

definition steer_source :: "world \<Rightarrow> plan_replace \<Rightarrow> string \<Rightarrow> (project, steer \<times> lineage_event) action" where
  "steer_source w r actor =
     bnd (gets (find_steer (steer_request_id r))) (\<lambda>q.
     bnd (demand (case q of None \<Rightarrow> None | Some x \<Rightarrow>
        if st_intent x = Semantic \<and> st_expected_revision x = expected_revision r \<and> st_actor x = actor \<and> open_steer x
        then Some x else None) ''SEMANTIC_STEER_REQUIRED'') (\<lambda>steer.
     bnd (gets (find_event (st_source_event steer))) (\<lambda>e.
     bnd (demand (case e of None \<Rightarrow> None | Some x \<Rightarrow>
        if le_cursor x = st_source_cursor steer \<and> le_client x = actor then Some x else None) ''STEER_SOURCE_MISMATCH'') (\<lambda>source.
     bnd (lift_result (validate_row (sha256 w) source)) (\<lambda>_.
     bnd (bnd (gets (read_object (sha256 w) ''chat_lineage'' (le_payload_digest source))) lift_result) (\<lambda>_.
     ret (steer, source)))))))"

definition pending_sources :: "int \<Rightarrow> project \<Rightarrow> string list" where
  "pending_sources rv s =
     take 1001 (map st_source_event (filter (\<lambda>q. st_expected_revision q = rv \<and> open_steer q) (steers s)))"

definition newest_source :: "plan_replace \<Rightarrow> lineage_event \<Rightarrow> (project, steer_control option) action" where
  "newest_source r source =
     bnd (gets (pending_sources (expected_revision r))) (\<lambda>pending.
     bnd (require (length pending \<le> 1000) ''STEER_BACKLOG_BUDGET'') (\<lambda>_.
     bnd (gets (\<lambda>s. list_ex (\<lambda>e. le_event_id e \<in> set pending \<and> le_sequence source < le_sequence e) (lineage s))) (\<lambda>newer.
     bnd (require (\<not> newer) ''NEWER_STEER_PENDING'') (\<lambda>_.
     bnd (gets control) (\<lambda>ctl.
     bnd (gets (\<lambda>s. case ctl of None \<Rightarrow> True | Some c \<Rightarrow> \<not> sc_paused c
        \<or> (case find_event (sc_source_event c) s of None \<Rightarrow> False | Some e \<Rightarrow> le_sequence e < le_sequence source))) (\<lambda>ok.
     bnd (require ok ''PROJECT_PAUSED'') (\<lambda>_. ret ctl)))))))"

text \<open>The safe checkpoint of the steer, when it has one.\<close>

definition checkpoint_matches :: "world \<Rightarrow> plan_replace \<Rightarrow> steer \<Rightarrow> (project, unit) action" where
  "checkpoint_matches w r q =
     (case st_checkpoint q of
        None \<Rightarrow> ret ()
      | Some d \<Rightarrow>
          if d = [] then ret ()
          else bnd (bnd (gets (read_object (sha256 w) ''plan'' d)) lift_result) (\<lambda>v.
            case v of
              JObj _ \<Rightarrow> require (int_field v ''plan_revision'' = Some (expected_revision r)) ''STEER_CHECKPOINT_MISMATCH''
            | _ \<Rightarrow> abort (Raised ''AttributeError'')))"

text \<open>One row of the old revision: its view, and whether the replacement changes it.\<close>

definition replacement_for :: "task_definition list \<Rightarrow> string \<Rightarrow> task_definition option" where
  "replacement_for ts tid = find (\<lambda>t. td_task_id t = tid) ts"

definition kept :: "(string \<Rightarrow> string) \<Rightarrow> task_definition list \<Rightarrow> plan_task \<Rightarrow> bool" where
  "kept H ts row \<longleftrightarrow> (case replacement_for ts (pt_task_id row) of None \<Rightarrow> False
     | Some t \<Rightarrow> contract_digest H t = pt_contract_digest row)"

definition compare_row :: "(string \<Rightarrow> string) \<Rightarrow> task_definition list \<Rightarrow> project \<Rightarrow> plan_task \<Rightarrow> string list result" where
  "compare_row H ts s row =
     rbind (view H s row) (\<lambda>_.
     if terminal_state (pt_state row) \<and> \<not> kept H ts row then Inl (LaneError ''PLAN_HISTORY_IMMUTABLE'')
     else Inr (if \<not> terminal_state (pt_state row) \<and> \<not> kept H ts row then [pt_task_id row] else []))"

definition compare_rows :: "(string \<Rightarrow> string) \<Rightarrow> task_definition list \<Rightarrow> plan_task list \<Rightarrow> project \<Rightarrow> string list result" where
  "compare_rows H ts old s = rbind (rcollect (compare_row H ts s) old) (\<lambda>cs. Inr (concat cs))"

definition fresh_or_open :: "plan_task list \<Rightarrow> task_definition \<Rightarrow> bool" where
  "fresh_or_open old t \<longleftrightarrow> (case find (\<lambda>row. pt_task_id row = td_task_id t) old of None \<Rightarrow> True
     | Some row \<Rightarrow> \<not> terminal_state (pt_state row))"

text \<open>Every check of \<open>replace\<close> before its writes: what it returns is what the writes need.\<close>

definition replace_checks ::
  "world \<Rightarrow> validator \<times> validator \<Rightarrow> plan_replace \<Rightarrow> string
   \<Rightarrow> (project, lineage_event \<times> steer_control option \<times> plan_task list \<times> string list) action" where
  "replace_checks w vd r actor =
     bnd (head_row (Some (expected_revision r))) (\<lambda>_.
     bnd (bnd (gets (\<lambda>s. validate_document (sha256 w) (find_revision (expected_revision r) s))) lift_result) (\<lambda>previous.
     bnd (require (rv_plan_id previous = pc_plan_id r \<and> rv_document_digest previous = expected_document_digest r)
       ''PLAN_SOURCE_CHANGED'') (\<lambda>_.
     bnd (steer_source w r actor) (\<lambda>(steer, source).
     bnd (newest_source r source) (\<lambda>ctl.
     bnd (gets (tasks_of (expected_revision r))) (\<lambda>old.
     bnd (require (\<not> list_ex (\<lambda>t. pt_state t = Active) old) ''PLAN_CHECKPOINT_REQUIRED'') (\<lambda>_.
     bnd (gets (\<lambda>s. list_ex (\<lambda>j. jb_state j \<in> {JRunning, JUncertain}) (jobs s))) (\<lambda>busy.
     bnd (require (\<not> busy) ''JOBS_NOT_QUIESCENT'') (\<lambda>_.
     bnd (checkpoint_matches w r steer) (\<lambda>_.
     bnd (bnd (gets (compare_rows (sha256 w) (normalized r) old)) lift_result) (\<lambda>changed.
     bnd (require (set changed \<subseteq> set (st_affected steer)) ''STEER_SCOPE_MISMATCH'') (\<lambda>_.
     bnd (bnd (gets (validate_modes vd (filter (fresh_or_open old) (normalized r)))) lift_result) (\<lambda>_.
     bnd (gets (\<lambda>s. list_ex (\<lambda>t. td_task_id t \<notin> pt_task_id ` set old \<and> td_task_id t \<in> pt_task_id ` set (tasks s))
        (normalized r))) (\<lambda>reused.
     bnd (require (\<not> reused) ''PLAN_TASK_ID_REUSED'') (\<lambda>_.
     ret (source, ctl, old, changed))))))))))))))))"

definition next_revision :: "world \<Rightarrow> plan_replace \<Rightarrow> string \<Rightarrow> plan_revision" where
  "next_revision w r actor = \<lparr>rv_revision = expected_revision r + 1, rv_plan_id = pc_plan_id r, rv_title = pc_title r,
     rv_request_id = pc_request_id r, rv_document = replace_document r,
     rv_document_digest = content_digest (sha256 w) (replace_document r), rv_parent = Some (expected_revision r),
     rv_actor = actor, rv_reason = ''semantic_steer:'' @ steer_request_id r, rv_created = now w\<rparr>"

text \<open>Old rows: terminal states are copied into the new revision, other rows are superseded.\<close>

definition carry_row :: "world \<Rightarrow> plan_replace \<Rightarrow> string \<Rightarrow> nat \<times> plan_task \<Rightarrow> (project, unit) action" where
  "carry_row w r actor = (\<lambda>(i, row).
     if terminal_state (pt_state row) then
       update_task (expected_revision r + 1) (pt_task_id row)
         (\<lambda>t. t\<lparr>pt_state := pt_state row, pt_last_event := pt_last_event row\<rparr>)
     else
       bnd (update_task (expected_revision r) (pt_task_id row) (\<lambda>t. t\<lparr>pt_state := Superseded\<rparr>)) (\<lambda>_.
       bnd (add_event (branch i (branch 1 w)) (expected_revision r) (Some (pt_task_id row)) ''task_contract_superseded'' actor
         (JObj [(''prior_state'', JStr (task_state_name (pt_state row))), (''new_revision'', JInt (expected_revision r + 1)),
            (''old_contract_digest'', JStr (pt_contract_digest row)),
            (''retained_task_id'', JBool (replacement_for (normalized r) (pt_task_id row) \<noteq> None))]) None) (\<lambda>_. ret ())))"

definition supersede_jobs :: "world \<Rightarrow> int \<Rightarrow> (project, unit) action" where
  "supersede_jobs w rv = modify (\<lambda>s. s\<lparr>jobs := update_where
     (\<lambda>j. jb_plan_revision j = Some rv \<and> jb_state j \<in> {JQueued, JCheckpointed})
     (\<lambda>j. j\<lparr>jb_state := JSuperseded, jb_resumable := False, jb_updated := now w\<rparr>) (jobs s)\<rparr>)"

definition settle_steers :: "world \<Rightarrow> plan_replace \<Rightarrow> (project, unit) action" where
  "settle_steers w r = modify (\<lambda>s. s\<lparr>steers := update_where (\<lambda>q. st_request_id q = steer_request_id r)
     (\<lambda>q. q\<lparr>st_state := SApplied, st_applied_revision := Some (expected_revision r + 1), st_updated := now w\<rparr>)
     (update_where (\<lambda>q. st_expected_revision q = expected_revision r \<and> open_steer q)
       (\<lambda>q. q\<lparr>st_state := SSuperseded, st_updated := now w\<rparr>) (steers s))\<rparr>)"

definition resume_control :: "world \<Rightarrow> plan_replace \<Rightarrow> string \<Rightarrow> lineage_event \<Rightarrow> steer_control option \<Rightarrow> (project, unit) action" where
  "resume_control w r actor source ctl =
     (if resume_after_change r \<and> (case ctl of None \<Rightarrow> False | Some c \<Rightarrow> sc_paused c)
      then modify (\<lambda>s. s\<lparr>control := map_option (\<lambda>c. c\<lparr>sc_paused := False, sc_source_event := le_event_id source,
        sc_source_cursor := le_cursor source, sc_actor := actor, sc_updated := now w\<rparr>) (control s)\<rparr>)
      else ret ())"

definition replace_rows ::
  "world \<Rightarrow> plan_replace \<Rightarrow> string \<Rightarrow> lineage_event \<times> steer_control option \<times> plan_task list \<times> string list
   \<Rightarrow> (project, unit) action" where
  "replace_rows w r actor = (\<lambda>(source, ctl, old, changed).
     let rv = expected_revision r + 1 in
     bnd (require_restoration_plan (sha256 w) (source_restore_digest r) rv) (\<lambda>_.
     bnd (require_recovery_plan (database_recovery_digest r) rv) (\<lambda>_.
     bnd (insert_row revisions revisions_update revision_clash (next_revision w r actor)) (\<lambda>_.
     bnd (insert_tasks (sha256 w) rv (normalized r)) (\<lambda>_.
     bnd (each (carry_row w r actor) (enumerate 0 old)) (\<lambda>_.
     bnd (supersede_jobs w (expected_revision r)) (\<lambda>_.
     bnd (modify (\<lambda>s. s\<lparr>plan_head := map_option (\<lambda>h. h\<lparr>cur_revision := rv\<rparr>) (plan_head s)\<rparr>)) (\<lambda>_.
     bnd (settle_steers w r) (\<lambda>_.
     bnd (resume_control w r actor source ctl) (\<lambda>_.
     bnd (add_event (branch 2 w) rv None ''plan_replaced'' actor
       (JObj [(''previous_revision'', JInt (expected_revision r)),
          (''document_digest'', JStr (content_digest (sha256 w) (replace_document r))),
          (''steer_request_id'', JStr (steer_request_id r)), (''source_cursor'', JStr (le_cursor source)),
          (''changed_task_ids'', jstrs (sort changed)), (''explicit_resume'', JBool (resume_after_change r))]) None) (\<lambda>_.
     bnd (append_receipt (branch 3 w) (Some ''plan'') ''plan_revision_replaced''
       [(''revision'', JInt rv), (''previous_revision'', JInt (expected_revision r)),
        (''document_digest'', JStr (content_digest (sha256 w) (replace_document r))),
        (''steer_request_id'', JStr (steer_request_id r)), (''engine_owned_jobs_quiescent'', JBool True),
        (''native_host_tools_attested'', JBool False)]) (\<lambda>_. ret ()))))))))))))"

definition replace_plan ::
  "world \<Rightarrow> validator \<times> validator \<Rightarrow> lease \<Rightarrow> plan_replace \<Rightarrow> string \<Rightarrow> (project, int \<times> string) action" where
  "replace_plan w vd l r actor =
     bnd (if valid_plan_replace r then ret () else abort (Raised ''ValidationError'')) (\<lambda>_.
     bnd (own_lease w l) (\<lambda>_.
     bnd (require (json_bytes (replace_document r) \<le> MAX_PLAN_BYTES) ''PLAN_TOO_LARGE'') (\<lambda>_.
     in_transaction w l
       (bnd (gets (find_plan_request (pc_request_id r))) (\<lambda>prior.
        bnd (case prior of
            Some p \<Rightarrow>
              bnd (require (rv_document_digest p = content_digest (sha256 w) (replace_document r) \<and> rv_actor p = actor)
                ''PLAN_REQUEST_CONFLICT'') (\<lambda>_. ret (rv_revision p))
          | None \<Rightarrow> bnd (replace_checks w vd r actor) (\<lambda>found. bnd (replace_rows w r actor found) (\<lambda>_.
              ret (expected_revision r + 1)))) (\<lambda>rv.
        bnd (prepare_projection (branch 4 w) rv actor) (\<lambda>pid. ret (rv, pid))))))))"

section \<open>Reads and publication\<close>

record plan_snapshot =
  sn_project :: string
  sn_plan_id :: string
  sn_title :: string
  sn_revision :: int
  sn_current_revision :: int
  sn_document_digest :: string
  sn_total :: nat
  sn_offset :: nat
  sn_truncated :: bool
  sn_counts :: "(task_state \<times> nat) list"
  sn_tasks :: "plan_task list"
  sn_event_head :: "string option"

text \<open>\<open>SELECT state, count(*) \<dots> GROUP BY state\<close>: a group for every state that occurs.\<close>

definition state_counts :: "plan_task list \<Rightarrow> (task_state \<times> nat) list" where
  "state_counts rows = map (\<lambda>st. (st, length (filter (\<lambda>t. pt_state t = st) rows))) (remdups (map pt_state rows))"

text \<open>\<open>snapshot\<close>: \<open>None\<close> is the state \<open>no_plan\<close>.\<close>

definition snapshot :: "(string \<Rightarrow> string) \<Rightarrow> int option \<Rightarrow> nat \<Rightarrow> nat \<Rightarrow> project \<Rightarrow> plan_snapshot option result" where
  "snapshot H revision offset limit s =
     (case plan_head s of
        None \<Rightarrow> Inr None
      | Some h \<Rightarrow>
          let rv = (case revision of None \<Rightarrow> cur_revision h | Some n \<Rightarrow> n) in
          (case find_revision rv s of
             None \<Rightarrow> Inl (LaneError ''PLAN_REVISION_NOT_FOUND'')
           | Some meta \<Rightarrow>
               rbind (validate_document H (Some meta)) (\<lambda>_.
               let all_rows = tasks_of rv s; rows = take limit (drop offset all_rows) in
               rbind (rcollect (view H s) rows) (\<lambda>views.
               Inr (Some \<lparr>sn_project = project_id s, sn_plan_id = rv_plan_id meta, sn_title = rv_title meta,
                 sn_revision = rv, sn_current_revision = cur_revision h,
                 sn_document_digest = rv_document_digest meta, sn_total = length all_rows,
                 sn_offset = offset, sn_truncated = (offset + length views < length all_rows),
                 sn_counts = state_counts all_rows, sn_tasks = views,
                 sn_event_head = cur_event_head h\<rparr>)))))"

definition read_task :: "(string \<Rightarrow> string) \<Rightarrow> string \<Rightarrow> int \<Rightarrow> (project, plan_task) action" where
  "read_task H tid rv = bnd (head_row (Some rv)) (\<lambda>_. bnd (task_row rv tid) (\<lambda>row. bnd (gets (\<lambda>s. view H s row)) lift_result))"

text \<open>A Plan change and the publication after its commit.\<close>

definition published ::
  "world \<Rightarrow> string list \<Rightarrow> (string \<Rightarrow> string option) \<Rightarrow> lease \<Rightarrow> string \<Rightarrow> (project, int \<times> string) action
   \<Rightarrow> (project, plan_snapshot option) process" where
  "published w root io l actor change =
     pbind (commit change) (\<lambda>(rv, pid).
     pbind (publish_if_bound (branch 5 w) root io l pid actor) (\<lambda>_. \<lambda>s. (snapshot (sha256 w) (Some rv) 0 100 s, s)))"

definition create ::
  "world \<Rightarrow> validator \<times> validator \<Rightarrow> string list \<Rightarrow> (string \<Rightarrow> string option) \<Rightarrow> lease \<Rightarrow> plan_create \<Rightarrow> string
   \<Rightarrow> (project, plan_snapshot option) process" where
  "create w vd root io l r actor = published w root io l actor (bnd (create_plan w vd l r actor) (\<lambda>p. ret (1, snd p)))"

definition replace_revision ::
  "world \<Rightarrow> validator \<times> validator \<Rightarrow> string list \<Rightarrow> (string \<Rightarrow> string option) \<Rightarrow> lease \<Rightarrow> plan_replace \<Rightarrow> string
   \<Rightarrow> (project, plan_snapshot option) process" where
  "replace_revision w vd root io l r actor = published w root io l actor (replace_plan w vd l r actor)"

text \<open>\<open>transition\<close> called on its own: it opens its transaction and publishes afterwards.\<close>

definition transition_published ::
  "world \<Rightarrow> string list \<Rightarrow> (string \<Rightarrow> string option) \<Rightarrow> lease \<Rightarrow> string \<Rightarrow> task_state \<Rightarrow> int \<Rightarrow> string \<Rightarrow> string option
   \<Rightarrow> string option \<Rightarrow> (project, string) process" where
  "transition_published w root io l tid st rv actor eid evidence =
     pbind (commit (transition_task w l tid st rv actor eid evidence)) (\<lambda>(digest, pid).
     case pid of None \<Rightarrow> preturn digest
     | Some p \<Rightarrow> pbind (publish_if_bound (branch 5 w) root io l p actor) (\<lambda>_. preturn digest))"

end
