(* ===== verification/Plan_Laws.thy ===== *)
theory Plan_Laws
  imports Plan_Store
begin

text \<open>
  What the Plan store promises: the event history verifies, at most one task is active, it belongs to
  the current revision and its dependencies are complete, and every completed task has a receipt of a
  verified exit for its own contract.
\<close>

section \<open>The invariant\<close>

definition history_ok :: "(string \<Rightarrow> string) \<Rightarrow> project \<Rightarrow> bool" where
  "history_ok H s \<longleftrightarrow> (case plan_head s of None \<Rightarrow> events s = []
     | Some h \<Rightarrow> event_chain H 1 None (events s) = Some (cur_event_head h))"

definition exit_recorded :: "project \<Rightarrow> string \<Rightarrow> string \<Rightarrow> bool" where
  "exit_recorded s tid digest \<longleftrightarrow> (\<exists>rc \<in> set (receipts s). rc_kind rc = ''delta_exit_verified''
     \<and> text_field (rc_body rc) ''status'' = Some ''passed'' \<and> text_field (rc_body rc) ''project_id'' = Some (project_id s)
     \<and> text_field (rc_body rc) ''task_id'' = Some tid \<and> text_field (rc_body rc) ''contract_digest'' = Some digest)"

text \<open>The query of \<open>transition\<close> for incomplete dependencies.\<close>

definition waits_for :: "int \<Rightarrow> string \<Rightarrow> project \<Rightarrow> bool" where
  "waits_for rv tid s \<longleftrightarrow> list_ex (\<lambda>d. dep_revision d = rv \<and> dep_task_id d = tid
     \<and> list_ex (\<lambda>t. pt_revision t = rv \<and> pt_task_id t = dep_dependency d \<and> pt_state t \<noteq> Completed) (tasks s)) (dependencies s)"

definition row_ok :: "project \<Rightarrow> plan_task \<Rightarrow> bool" where
  "row_ok s t \<longleftrightarrow> (\<exists>h. plan_head s = Some h \<and> pt_revision t \<le> cur_revision h
       \<and> (pt_state t = Active \<longrightarrow> pt_revision t = cur_revision h \<and> \<not> waits_for (pt_revision t) (pt_task_id t) s))
     \<and> (pt_state t = Completed \<longrightarrow> exit_recorded s (pt_task_id t) (pt_contract_digest t))"

definition task_key :: "plan_task \<Rightarrow> int \<times> string" where
  "task_key t = (pt_revision t, pt_task_id t)"

definition rows_ok :: "project \<Rightarrow> bool" where
  "rows_ok s \<longleftrightarrow> distinct (map task_key (tasks s)) \<and> (\<forall>t \<in> set (tasks s). row_ok s t)
     \<and> (\<forall>t \<in> set (tasks s). \<forall>u \<in> set (tasks s). pt_state t = Active \<longrightarrow> pt_state u = Active \<longrightarrow> task_key t = task_key u)"

text \<open>A task stands after the tasks it depends on, in every revision up to \<open>n\<close>.\<close>

definition ordered_upto :: "int \<Rightarrow> project \<Rightarrow> bool" where
  "ordered_upto n s \<longleftrightarrow> (\<forall>d \<in> set (dependencies s). dep_revision d \<le> n
     \<and> (\<forall>t \<in> set (tasks s). \<forall>u \<in> set (tasks s). task_key t = (dep_revision d, dep_task_id d)
          \<longrightarrow> task_key u = (dep_revision d, dep_dependency d) \<longrightarrow> pt_position u < pt_position t))"

definition order_ok :: "project \<Rightarrow> bool" where
  "order_ok s \<longleftrightarrow> (case plan_head s of None \<Rightarrow> dependencies s = [] | Some h \<Rightarrow> ordered_upto (cur_revision h) s)"

text \<open>Every stored contract passes the checks of \<open>_view\<close>.\<close>

definition sealed :: "(string \<Rightarrow> string) \<Rightarrow> project \<Rightarrow> bool" where
  "sealed H s \<longleftrightarrow> (\<forall>t \<in> set (tasks s). view H s t = Inr t)"

definition plan_inv :: "(string \<Rightarrow> string) \<Rightarrow> project \<Rightarrow> bool" where
  "plan_inv H s \<longleftrightarrow> history_ok H s \<and> rows_ok s \<and> order_ok s \<and> sealed H s"

lemma plan_inv_empty [simp]: "plan_inv H (empty_project pid rt)"
  by (simp add: plan_inv_def history_ok_def rows_ok_def order_ok_def sealed_def empty_project_def)

section \<open>Frames\<close>

text \<open>What the invariant reads of a row.\<close>

definition face :: "plan_task \<Rightarrow> int \<times> string \<times> string \<times> task_state" where
  "face t = (pt_revision t, pt_task_id t, pt_contract_digest t, pt_state t)"

definition plan_frame :: "project \<Rightarrow> project \<Rightarrow> bool" where
  "plan_frame s s' \<longleftrightarrow> map face (tasks s') = map face (tasks s) \<and> map pt_position (tasks s') = map pt_position (tasks s)
     \<and> map pt_definition (tasks s') = map pt_definition (tasks s) \<and> dependencies s' = dependencies s
     \<and> map_option cur_revision (plan_head s') = map_option cur_revision (plan_head s)
     \<and> project_id s' = project_id s \<and> set (receipts s) \<subseteq> set (receipts s')"

lemma face_facts:
  "face t = face u \<Longrightarrow> task_key t = task_key u \<and> pt_state t = pt_state u \<and> pt_contract_digest t = pt_contract_digest u
     \<and> pt_revision t = pt_revision u \<and> pt_task_id t = pt_task_id u"
  by (simp add: face_def task_key_def)

lemma face_member: "map face xs = map face ys \<Longrightarrow> x \<in> set xs \<Longrightarrow> \<exists>y \<in> set ys. face y = face x"
proof -
  assume "map face xs = map face ys" "x \<in> set xs"
  then have "face x \<in> set (map face ys)" by (metis image_eqI list.set_map)
  then show ?thesis by auto
qed

lemma exit_recorded_mono:
  "project_id s' = project_id s \<Longrightarrow> set (receipts s) \<subseteq> set (receipts s') \<Longrightarrow> exit_recorded s tid d \<Longrightarrow> exit_recorded s' tid d"
  by (auto simp: exit_recorded_def)

lemma waits_for_frame:
  assumes "map face (tasks s') = map face (tasks s)" "dependencies s' = dependencies s"
  shows "waits_for rv tid s' = waits_for rv tid s"
proof -
  have "list_ex (\<lambda>t. pt_revision t = rv \<and> pt_task_id t = x \<and> pt_state t \<noteq> Completed) xs
     = list_ex (\<lambda>f. fst f = rv \<and> fst (snd f) = x \<and> snd (snd (snd f)) \<noteq> Completed) (map face xs)" for x xs
    by (induction xs) (simp_all add: face_def)
  then show ?thesis using assms by (simp add: waits_for_def)
qed

lemma rows_ok_frame:
  assumes "plan_frame s s'" "rows_ok s"
  shows "rows_ok s'"
proof -
  note f = assms(1) [unfolded plan_frame_def]
  have keys: "map task_key (tasks s') = map task_key (tasks s)"
  proof -
    have "map task_key xs = map (\<lambda>f. (fst f, fst (snd f))) (map face xs)" for xs
      by (simp add: task_key_def face_def)
    then show ?thesis using f by (simp only:)
  qed
  have origin: "\<exists>u \<in> set (tasks s). face u = face t" if "t \<in> set (tasks s')" for t
    by (rule face_member [OF conjunct1 [OF f] that])
  have "row_ok s' t" if t: "t \<in> set (tasks s')" for t
  proof -
    from origin [OF t] obtain u where u: "u \<in> set (tasks s)" "face u = face t" by blast
    then have "row_ok s u" using assms(2) unfolding rows_ok_def by blast
    then show ?thesis
      using face_facts [OF u(2)] f waits_for_frame [of s' s] exit_recorded_mono [of s' s]
      by (cases "plan_head s'") (auto simp: row_ok_def)
  qed
  moreover have "task_key t = task_key u"
    if tu: "t \<in> set (tasks s')" "u \<in> set (tasks s')" "pt_state t = Active" "pt_state u = Active" for t u
  proof -
    obtain t0 where t0: "t0 \<in> set (tasks s)" "face t0 = face t" using origin [OF tu(1)] by blast
    obtain u0 where u0: "u0 \<in> set (tasks s)" "face u0 = face u" using origin [OF tu(2)] by blast
    have "pt_state t0 = Active" "pt_state u0 = Active"
      using face_facts [OF t0(2)] face_facts [OF u0(2)] tu(3,4) by simp_all
    with t0(1) u0(1) assms(2) have "task_key t0 = task_key u0" unfolding rows_ok_def by blast
    then show ?thesis using face_facts [OF t0(2)] face_facts [OF u0(2)] by simp
  qed
  moreover have "distinct (map task_key (tasks s'))"
    unfolding keys using assms(2) unfolding rows_ok_def by (rule conjunct1)
  ultimately show ?thesis unfolding rows_ok_def by blast
qed

lemma ordered_cong:
  assumes "dependencies s' = dependencies s" "map task_key (tasks s') = map task_key (tasks s)"
    "map pt_position (tasks s') = map pt_position (tasks s)"
  shows "ordered_upto n s' = ordered_upto n s"
proof -
  have len: "length (tasks s') = length (tasks s)" using assms(2) by (metis length_map)
  have "task_key (tasks s' ! i) = task_key (tasks s ! i)" "pt_position (tasks s' ! i) = pt_position (tasks s ! i)"
    if "i < length (tasks s)" for i
    using that len assms(2,3) by (metis nth_map)+
  then show ?thesis
    using assms(1) len unfolding ordered_upto_def all_set_conv_all_nth by simp
qed

lemma keys_of_faces:
  assumes "map face xs = map face ys"
  shows "map task_key xs = map task_key ys"
proof -
  have "map task_key zs = map (\<lambda>f. (fst f, fst (snd f))) (map face zs)" for zs
    by (simp add: task_key_def face_def)
  then show ?thesis using assms by (simp only:)
qed

lemma ordered_frame: "plan_frame s s' \<Longrightarrow> ordered_upto n s' = ordered_upto n s"
  unfolding plan_frame_def by (intro ordered_cong) (auto intro: keys_of_faces)

lemma order_ok_frame: "plan_frame s s' \<Longrightarrow> order_ok s' = order_ok s"
  using ordered_frame [of s s'] unfolding order_ok_def plan_frame_def
  by (cases "plan_head s"; cases "plan_head s'") simp_all

definition row_seal :: "plan_task \<Rightarrow> int \<times> string \<times> task_definition \<times> string" where
  "row_seal t = (pt_revision t, pt_task_id t, pt_definition t, pt_contract_digest t)"

lemma sealed_cong:
  assumes "dependencies s' = dependencies s" "map row_seal (tasks s') = map row_seal (tasks s)"
  shows "sealed H s' = sealed H s"
proof -
  define ok where "ok = (\<lambda>(v, i, d, q). valid_task d \<and> td_task_id d = i \<and> contract_digest H d = q
     \<and> set (deps_of_task v i s) = set (listed_deps d))"
  have deps: "deps_of_task v i s' = deps_of_task v i s" for v i using assms(1) by (simp add: deps_of_task_def)
  have "sealed H s' = (\<forall>x \<in> set (map row_seal (tasks s')). ok x)" "sealed H s = (\<forall>x \<in> set (map row_seal (tasks s)). ok x)"
    by (simp_all add: sealed_def ok_def view_Inr deps row_seal_def)
  then show ?thesis by (simp only: assms(2))
qed

lemma sealed_frame: "plan_frame s s' \<Longrightarrow> sealed H s' = sealed H s"
proof (rule sealed_cong)
  assume f: "plan_frame s s'"
  show "dependencies s' = dependencies s" using f by (simp add: plan_frame_def)
  have len: "length (tasks s') = length (tasks s)" using f unfolding plan_frame_def by (metis length_map)
  show "map row_seal (tasks s') = map row_seal (tasks s)"
  proof (rule nth_equalityI)
    fix i
    assume i: "i < length (map row_seal (tasks s'))"
    then have "face (tasks s' ! i) = face (tasks s ! i)" "pt_definition (tasks s' ! i) = pt_definition (tasks s ! i)"
      using f len unfolding plan_frame_def by (metis length_map nth_map)+
    then show "map row_seal (tasks s') ! i = map row_seal (tasks s) ! i"
      using i len by (simp add: face_def row_seal_def)
  qed (simp add: len)
qed

lemma plan_inv_frame:
  assumes "plan_frame s s'" "events s' = events s"
    "map_option cur_event_head (plan_head s') = map_option cur_event_head (plan_head s)" "plan_inv H s"
  shows "plan_inv H s'"
  using assms rows_ok_frame [OF assms(1)] order_ok_frame [OF assms(1)] sealed_frame [OF assms(1)]
  by (cases "plan_head s"; cases "plan_head s'") (simp_all add: plan_inv_def history_ok_def)

lemma plan_inv_receipts:
  "set (receipts s) \<subseteq> set rs \<Longrightarrow> plan_inv H s \<Longrightarrow> plan_inv H (s\<lparr>receipts := rs\<rparr>)"
  by (rule plan_inv_frame [of s]) (simp_all add: plan_frame_def)

lemma plan_inv_fields [simp]:
  "plan_inv H (s\<lparr>kernel_lock := a1\<rparr>) = plan_inv H s" "plan_inv H (s\<lparr>writer_lease := a2\<rparr>) = plan_inv H s"
  "plan_inv H (s\<lparr>blobs := a3\<rparr>) = plan_inv H s" "plan_inv H (s\<lparr>objects := a4\<rparr>) = plan_inv H s"
  "plan_inv H (s\<lparr>revisions := a5\<rparr>) = plan_inv H s" "plan_inv H (s\<lparr>bindings := a6\<rparr>) = plan_inv H s"
  "plan_inv H (s\<lparr>projections := a7\<rparr>) = plan_inv H s" "plan_inv H (s\<lparr>jobs := a8\<rparr>) = plan_inv H s"
  "plan_inv H (s\<lparr>effects := a9\<rparr>) = plan_inv H s" "plan_inv H (s\<lparr>steers := b1\<rparr>) = plan_inv H s"
  "plan_inv H (s\<lparr>control := b2\<rparr>) = plan_inv H s" "plan_inv H (s\<lparr>interrupts := b3\<rparr>) = plan_inv H s"
  "plan_inv H (s\<lparr>delta_runs := b4\<rparr>) = plan_inv H s" "plan_inv H (s\<lparr>delta_exits := b5\<rparr>) = plan_inv H s"
  "plan_inv H (s\<lparr>sessions := b6\<rparr>) = plan_inv H s" "plan_inv H (s\<lparr>session_current := b7\<rparr>) = plan_inv H s"
  "plan_inv H (s\<lparr>session_events := b8\<rparr>) = plan_inv H s" "plan_inv H (s\<lparr>lineage := b9\<rparr>) = plan_inv H s"
  "plan_inv H (s\<lparr>chunks := c1\<rparr>) = plan_inv H s" "plan_inv H (s\<lparr>decisions := c2\<rparr>) = plan_inv H s"
  "plan_inv H (s\<lparr>restoration := c3\<rparr>) = plan_inv H s" "plan_inv H (s\<lparr>recovery := c6\<rparr>) = plan_inv H s"
  "plan_inv H (s\<lparr>grants := c7\<rparr>) = plan_inv H s" "plan_inv H (s\<lparr>host_files := c9\<rparr>) = plan_inv H s"
  by (simp_all add: plan_inv_def history_ok_def rows_ok_def row_ok_def waits_for_def exit_recorded_def order_ok_def
      ordered_upto_def sealed_def view_Inr deps_of_task_def split: option.split)

section \<open>Writes that keep it\<close>

declare keeps_case_prod [keeps_rules] keeps_abort [keeps_rules]

lemma keeps_each_in: "(\<And>x. x \<in> set xs \<Longrightarrow> keeps I (f x)) \<Longrightarrow> keeps I (each f xs)"
  by (induction xs) (auto intro!: keeps_rules)

lemmas write_rules = keeps_rules keeps_modify keeps_insert_row keeps_insert_into

lemma plan_put_object [keeps_rules]: "keeps (plan_inv H) (put_object w lane limit v)"
  by (rule validI, erule put_object_Inr) (auto split: option.splits)

lemma plan_append_receipt [keeps_rules]: "keeps (plan_inv H) (append_receipt w lane k b)"
  by (rule validI) (auto simp: run_simps intro!: plan_inv_receipts)

lemma add_event_Inr:
  assumes "add_event w rv tid kind actor payload eid s = Inr (d, s')"
  obtains h e where "plan_head s = Some h" "e = make_event w (next_sequence s) (cur_event_head h) rv tid kind actor payload eid"
    "d = ev_digest e"
    "s' = s\<lparr>events := events s @ [e], plan_head := Some (h\<lparr>cur_event_head := Some (ev_digest e)\<rparr>),
       tasks := (case tid of None \<Rightarrow> tasks s | Some t \<Rightarrow>
         update_where (is_task rv t) (\<lambda>r. r\<lparr>pt_last_event := Some (ev_digest e)\<rparr>) (tasks s))\<rparr>"
  using assms by (cases tid) (auto simp: add_event_def set_event_head_def run_simps)

lemma make_event_fields [simp]:
  "ev_sequence (make_event w n p rv tid k a v eid) = n" "ev_previous (make_event w n p rv tid k a v eid) = p"
  "ev_digest (make_event w n p rv tid k a v eid) = content_digest (sha256 w) (event_body (make_event w n p rv tid k a v eid))"
  by (simp_all add: make_event_def Let_def event_body_def)

lemma history_next:
  assumes "history_ok H s" "plan_head s = Some h"
  shows "next_sequence s = Suc (length (events s))" "event_chain H 1 None (events s) = Some (cur_event_head h)"
proof -
  show chain: "event_chain H 1 None (events s) = Some (cur_event_head h)"
    using assms by (simp add: history_ok_def)
  have numbers: "map ev_sequence (events s) = [Suc 0 ..< Suc (length (events s))]"
    using plan_history.verify_numbers [OF chain] by simp
  show "next_sequence s = Suc (length (events s))"
  proof (cases "events s" rule: rev_cases)
    case (snoc es e)
    have "ev_sequence (last (events s)) = last (map ev_sequence (events s))"
      using snoc by (simp add: last_map)
    also have "\<dots> = length (events s)" unfolding numbers using snoc by simp
    finally show ?thesis using latest_numbered [OF numbers] snoc by (simp add: next_sequence_def)
  qed (simp add: next_sequence_def)
qed

lemma face_last_event [simp]:
  "map face (update_where P (\<lambda>r. r\<lparr>pt_last_event := x\<rparr>) rows) = map face rows"
  "map pt_position (update_where P (\<lambda>r. r\<lparr>pt_last_event := x\<rparr>) rows) = map pt_position rows"
  "map pt_definition (update_where P (\<lambda>r. r\<lparr>pt_last_event := x\<rparr>) rows) = map pt_definition rows"
  by (simp_all add: map_update_where face_def)

lemma ordered_update:
  assumes "\<And>t. task_key (f t) = task_key t \<and> pt_position (f t) = pt_position t"
  shows "ordered_upto n (s\<lparr>tasks := update_where P f (tasks s)\<rparr>) = ordered_upto n s"
  using assms by (intro ordered_cong) (simp_all add: map_update_where)

lemma sealed_update:
  assumes "\<And>t. row_seal (f t) = row_seal t"
  shows "sealed H (s\<lparr>tasks := update_where P f (tasks s)\<rparr>) = sealed H s"
  using assms by (intro sealed_cong) (simp_all add: map_update_where)

lemma add_event_rows:
  assumes "add_event w rv tid kind actor payload eid s = Inr (d, s')"
  shows "plan_frame s s'"
  using assms by (rule add_event_Inr) (auto simp: plan_frame_def split: option.split)

lemma add_event_history:
  assumes "add_event w rv tid kind actor payload eid s = Inr (d, s')" "history_ok (sha256 w) s"
  shows "history_ok (sha256 w) s'"
  using assms(1)
proof (rule add_event_Inr)
  fix h e
  assume h: "plan_head s = Some h"
    and e: "e = make_event w (next_sequence s) (cur_event_head h) rv tid kind actor payload eid"
    and s': "s' = s\<lparr>events := events s @ [e], plan_head := Some (h\<lparr>cur_event_head := Some (ev_digest e)\<rparr>),
       tasks := (case tid of None \<Rightarrow> tasks s | Some t \<Rightarrow>
         update_where (is_task rv t) (\<lambda>r. r\<lparr>pt_last_event := Some (ev_digest e)\<rparr>) (tasks s))\<rparr>"
  have "event_chain (sha256 w) 1 None (events s @ [e]) = Some (Some (ev_digest e))"
    by (rule plan_history.verify_extend [OF history_next(2) [OF assms(2) h]])
      (simp_all add: e history_next(1) [OF assms(2) h])
  then show ?thesis by (simp add: s' history_ok_def)
qed

lemma plan_add_event:
  assumes "sha256 w = H"
  shows "keeps (plan_inv H) (add_event w rv tid kind actor payload eid)"
proof (rule validI)
  fix s a s'
  assume "plan_inv H s" and run: "add_event w rv tid kind actor payload eid s = Inr (a, s')"
  then show "plan_inv H s'"
    using add_event_history [OF run] rows_ok_frame [OF add_event_rows [OF run]] order_ok_frame [OF add_event_rows [OF run]]
      sealed_frame [OF add_event_rows [OF run]] assms
    by (simp add: plan_inv_def)
qed

lemma plan_supersede_open [simp]: "plan_inv H (supersede_open s) = plan_inv H s"
  by (simp add: supersede_open_def)

lemma plan_prepare_projection [keeps_rules]: "keeps (plan_inv H) (prepare_projection w rv actor)"
proof -
  have "keeps (plan_inv H) (head_row e)" for e by (rule validI) (simp add: run_simps)
  then show ?thesis
    unfolding prepare_projection_def Let_def by (intro write_rules) simp_all
qed

section \<open>Transitions\<close>

definition set_state :: "int \<Rightarrow> string \<Rightarrow> task_state \<Rightarrow> project \<Rightarrow> project" where
  "set_state rv tid st s = s\<lparr>tasks := update_where (is_task rv tid) (\<lambda>t. t\<lparr>pt_state := st\<rparr>) (tasks s)\<rparr>"

lemma set_state_frame [simp]:
  "exit_recorded (set_state rv tid st s) x d = exit_recorded s x d" "plan_head (set_state rv tid st s) = plan_head s"
  "events (set_state rv tid st s) = events s" "dependencies (set_state rv tid st s) = dependencies s"
  by (simp_all add: exit_recorded_def set_state_def)

lemma order_ok_set_state [simp]: "order_ok (set_state rv tid st s) = order_ok s"
proof -
  have "ordered_upto n (set_state rv tid st s) = ordered_upto n s" for n
    unfolding set_state_def by (rule ordered_update) (simp add: task_key_def)
  then show ?thesis by (simp add: order_ok_def split: option.split)
qed

lemma sealed_set_state [simp]: "sealed H (set_state rv tid st s) = sealed H s"
  unfolding set_state_def by (rule sealed_update) (simp add: row_seal_def)

lemma the_task:
  assumes "distinct (map task_key (tasks s))" "find_task rv tid s = Some row" "t \<in> set (tasks s)" "is_task rv tid t"
  shows "t = row"
  using key_unique [OF assms(1,3), of row] find_taskD [OF assms(2)] assms(4) by (simp add: is_task_def task_key_def)

lemma set_state_member:
  assumes "t' \<in> set (tasks (set_state rv tid st s))"
  obtains t where "t \<in> set (tasks s)" "t' = (if is_task rv tid t then t\<lparr>pt_state := st\<rparr> else t)"
  using assms by (auto simp: set_state_def set_update_where)

lemma waits_for_set_state:
  assumes "distinct (map task_key (tasks s))" "find_task rv tid s = Some row" "pt_state row \<noteq> Completed"
    and "waits_for r x (set_state rv tid st s)"
  shows "waits_for r x s"
proof -
  from assms(4) obtain d t' where d: "d \<in> set (dependencies s)" "dep_revision d = r" "dep_task_id d = x"
    and t': "t' \<in> set (tasks (set_state rv tid st s))" "pt_revision t' = r" "pt_task_id t' = dep_dependency d" "pt_state t' \<noteq> Completed"
    by (auto simp: waits_for_def list_ex_iff set_state_def)
  from t'(1) obtain t where t: "t \<in> set (tasks s)" "t' = (if is_task rv tid t then t\<lparr>pt_state := st\<rparr> else t)"
    by (rule set_state_member)
  have "pt_state t \<noteq> Completed"
  proof (cases "is_task rv tid t")
    case True
    from the_task [OF assms(1,2) t(1) True] assms(3) show ?thesis by simp
  qed (use t t' in simp)
  moreover have "pt_revision t = r" "pt_task_id t = dep_dependency d" using t t' by (auto split: if_splits)
  ultimately show ?thesis using d t(1) unfolding waits_for_def list_ex_iff by blast
qed

lemma rows_ok_set_state:
  assumes ok: "rows_ok s" and h: "plan_head s = Some h" and row: "find_task (cur_revision h) tid s = Some row"
    and step: "task_step (pt_state row) st"
    and active: "st = Active \<Longrightarrow> \<not> waits_for (cur_revision h) tid s \<and>
      \<not> list_ex (\<lambda>t. pt_revision t = cur_revision h \<and> pt_state t = Active) (tasks s)"
    and completed: "st = Completed \<Longrightarrow> exit_recorded s tid (pt_contract_digest row)"
  shows "rows_ok (set_state (cur_revision h) tid st s)" (is "rows_ok ?s")
proof -
  have keys: "distinct (map task_key (tasks s))" using ok unfolding rows_ok_def by blast
  note row_facts = find_taskD [OF row]
  have "pt_state row \<noteq> Completed" using step by auto
  note waits = waits_for_set_state [OF keys row this]
  have one: "task_key t = (cur_revision h, tid)"
    if t: "t \<in> set (tasks s)" "pt_state t = Active" "st = Active" for t
  proof -
    have "pt_revision t = cur_revision h" using ok t h unfolding rows_ok_def row_ok_def by fastforce
    with active [OF t(3)] t show ?thesis by (auto simp: list_ex_iff)
  qed
  have key: "task_key (t\<lparr>pt_state := x\<rparr>) = task_key t" for t x by (simp add: task_key_def)
  have "distinct (map task_key (tasks ?s))"
    using keys by (simp add: set_state_def map_update_where key)
  moreover have "row_ok ?s t'" if "t' \<in> set (tasks ?s)" for t'
  proof (rule set_state_member [OF that])
    fix t
    assume t: "t \<in> set (tasks s)" "t' = (if is_task (cur_revision h) tid t then t\<lparr>pt_state := st\<rparr> else t)"
    have old: "row_ok s t" using ok t(1) unfolding rows_ok_def by blast
    show ?thesis
    proof (cases "is_task (cur_revision h) tid t")
      case True
      with the_task [OF keys row t(1)] t(2) row_facts show ?thesis
        using active completed waits [of "cur_revision h" tid st] by (auto simp: row_ok_def h)
    next
      case False
      with t(2) old h show ?thesis using waits [of _ _ st] by (auto simp: row_ok_def h)
    qed
  qed
  moreover have "task_key t' = task_key u'"
    if "t' \<in> set (tasks ?s)" "u' \<in> set (tasks ?s)" "pt_state t' = Active" "pt_state u' = Active" for t' u'
  proof -
    from that(1) obtain t where t: "t \<in> set (tasks s)" "t' = (if is_task (cur_revision h) tid t then t\<lparr>pt_state := st\<rparr> else t)"
      by (rule set_state_member)
    from that(2) obtain u where u: "u \<in> set (tasks s)" "u' = (if is_task (cur_revision h) tid u then u\<lparr>pt_state := st\<rparr> else u)"
      by (rule set_state_member)
    have pair: "task_key a = task_key b" if "a \<in> set (tasks s)" "b \<in> set (tasks s)" "pt_state a = Active" "pt_state b = Active" for a b
      using ok that unfolding rows_ok_def by blast
    have same: "is_task (cur_revision h) tid a \<Longrightarrow> task_key a = (cur_revision h, tid)" for a
      by (simp add: is_task_def task_key_def)
    show ?thesis
      using t u that(3,4) one [of t] one [of u] pair [of t u] same [of t] same [of u]
      by (cases "is_task (cur_revision h) tid t"; cases "is_task (cur_revision h) tid u") (simp_all add: key)
  qed
  ultimately show ?thesis unfolding rows_ok_def by blast
qed

lemma find_receiptD: "find_receipt rid s = Some rc \<Longrightarrow> rc \<in> set (receipts s)"
  unfolding find_receipt_def by (auto dest: find_SomeD)

lemma activation_ready_Inr:
  assumes "activation_ready w rv tid s = Inr (u, s')"
  shows "s' = s" "\<not> waits_for rv tid s" "\<not> list_ex (\<lambda>t. pt_revision t = rv \<and> pt_state t = Active) (tasks s)"
    "pending_restoration s = None" "pending_recovery s = None"
  using assms by (auto simp: activation_ready_def run_simps waits_for_def dest!: restoration_ready_Inr)

lemma completion_ready_Inr:
  "completion_ready rv row ev s = Inr (u, s') \<Longrightarrow> s' = s \<and> exit_recorded s (pt_task_id row) (pt_contract_digest row)"
  by (auto simp: completion_ready_def run_simps exit_recorded_def verified_exit_def
      split: option.splits dest!: find_receiptD)

lemma change_state_Inr:
  assumes "change_state w rv row st actor eid ev s = Inr (r, s')"
  obtains s1 where "task_step (pt_state row) st"
    "st = Active \<Longrightarrow> \<not> waits_for rv (pt_task_id row) s \<and> \<not> list_ex (\<lambda>t. pt_revision t = rv \<and> pt_state t = Active) (tasks s)
       \<and> pending_restoration s = None \<and> pending_recovery s = None"
    "st = Completed \<Longrightarrow> exit_recorded s (pt_task_id row) (pt_contract_digest row)"
    "add_event (branch 1 w) rv (Some (pt_task_id row)) ''task_transition'' actor
       (JObj (transition_payload st (pt_contract_digest row) ev
              @ [(''from_state'', JStr (task_state_name (pt_state row)))])) eid
       (set_state rv (pt_task_id row) st s) = Inr (fst r, s1)"
    "\<exists>pid. prepare_projection (branch 2 w) rv actor s1 = Inr (pid, s') \<and> snd r = Some pid"
proof -
  from assms obtain u1 t1 u2 t2 d s1 pid where
    step: "task_step (pt_state row) st"
    and a: "(if st = Active then activation_ready w rv (pt_task_id row) else ret ()) s = Inr (u1, t1)"
    and b: "(if st = Completed then completion_ready rv row ev else ret ()) t1 = Inr (u2, t2)"
    and c: "add_event (branch 1 w) rv (Some (pt_task_id row)) ''task_transition'' actor
       (JObj (transition_payload st (pt_contract_digest row) ev
              @ [(''from_state'', JStr (task_state_name (pt_state row)))])) eid
       (set_state rv (pt_task_id row) st t2) = Inr (d, s1)"
    and p: "prepare_projection (branch 2 w) rv actor s1 = Inr (pid, s')" "r = (d, Some pid)"
    unfolding change_state_def
    by (auto simp: bnd_Inr ret_Inr lift_result_Inr update_task_Inr set_state_def task_transition_iff simp del: if_Inr split: if_split_asm)
  have ta: "t1 = s" using a by (auto simp: ret_Inr dest: activation_ready_Inr(1) split: if_split_asm)
  have tb: "t2 = s" using b by (auto simp: ret_Inr ta dest: completion_ready_Inr split: if_split_asm)
  show ?thesis
  proof (rule that [OF step])
    show "add_event (branch 1 w) rv (Some (pt_task_id row)) ''task_transition'' actor
       (JObj (transition_payload st (pt_contract_digest row) ev
              @ [(''from_state'', JStr (task_state_name (pt_state row)))])) eid
       (set_state rv (pt_task_id row) st s) = Inr (fst r, s1)"
      using c p(2) by (simp only: tb fst_conv)
    show "\<exists>pid. prepare_projection (branch 2 w) rv actor s1 = Inr (pid, s') \<and> snd r = Some pid"
      using p by simp
  next
    assume "st = Active"
    with a have "activation_ready w rv (pt_task_id row) s = Inr (u1, t1)" by simp
    from activation_ready_Inr [OF this]
    show "\<not> waits_for rv (pt_task_id row) s \<and> \<not> list_ex (\<lambda>t. pt_revision t = rv \<and> pt_state t = Active) (tasks s)
       \<and> pending_restoration s = None \<and> pending_recovery s = None" by blast
  next
    assume "st = Completed"
    with b have "completion_ready rv row ev s = Inr (u2, t2)" by (simp add: ta)
    from completion_ready_Inr [OF this] show "exit_recorded s (pt_task_id row) (pt_contract_digest row)" by blast
  qed
qed

lemma transition_rows_cases:
  assumes "transition_rows w l tid st rv actor eid ev s = Inr (r, s')"
  obtains (recorded) "s' = s" "snd r = None"
  | (changed) h row where "plan_head s = Some h" "cur_revision h = rv" "find_task rv tid s = Some row"
      "view (sha256 w) s row = Inr row" "change_state w rv row st actor eid ev s = Inr (r, s')"
proof -
  from assms obtain h row where "plan_head s = Some h" "cur_revision h = rv" "find_task rv tid s = Some row"
    "view (sha256 w) s row = Inr row"
    "change_state w rv row st actor eid ev s = Inr (r, s') \<or> s' = s \<and> snd r = None"
    unfolding transition_rows_def
    by (auto simp: bnd_Inr check_lease_Inr head_row_Inr task_row_Inr gets_Inr lift_result_Inr case_option_Inr require_Inr ret_Inr
        view_Inr)
  then show ?thesis using changed recorded by blast
qed

lemma change_state_inv:
  assumes run: "change_state w (cur_revision h) row st actor eid ev s = Inr (r, s')"
    and inv: "plan_inv (sha256 w) s" and h: "plan_head s = Some h" "find_task (cur_revision h) tid s = Some row"
  shows "plan_inv (sha256 w) s'"
  using run
proof (rule change_state_Inr)
  fix s1
  have tid: "pt_task_id row = tid" using find_taskD [OF h(2)] by simp
  assume "task_step (pt_state row) st"
    and "st = Active \<Longrightarrow> \<not> waits_for (cur_revision h) (pt_task_id row) s
       \<and> \<not> list_ex (\<lambda>t. pt_revision t = cur_revision h \<and> pt_state t = Active) (tasks s)
       \<and> pending_restoration s = None \<and> pending_recovery s = None"
    and "st = Completed \<Longrightarrow> exit_recorded s (pt_task_id row) (pt_contract_digest row)"
    and event: "add_event (branch 1 w) (cur_revision h) (Some (pt_task_id row)) ''task_transition'' actor
       (JObj (transition_payload st (pt_contract_digest row) ev
              @ [(''from_state'', JStr (task_state_name (pt_state row)))])) eid
       (set_state (cur_revision h) (pt_task_id row) st s) = Inr (fst r, s1)"
    and proj: "\<exists>pid. prepare_projection (branch 2 w) (cur_revision h) actor s1 = Inr (pid, s') \<and> snd r = Some pid"
  then have "rows_ok (set_state (cur_revision h) tid st s)"
    using inv h by (intro rows_ok_set_state) (auto simp: plan_inv_def tid)
  then have mid: "plan_inv (sha256 w) (set_state (cur_revision h) tid st s)"
    using inv by (simp add: plan_inv_def history_ok_def h)
  have "plan_inv (sha256 w) s1"
    by (rule validD [OF plan_add_event mid event [unfolded tid]]) simp
  with proj show ?thesis using plan_prepare_projection by (blast dest: validD)
qed

lemma plan_transition_rows [keeps_rules]:
  assumes "sha256 w = H"
  shows "keeps (plan_inv H) (transition_rows w l tid st rv actor eid ev)"
proof (rule validI)
  fix s r s'
  assume inv: "plan_inv H s" and "transition_rows w l tid st rv actor eid ev s = Inr (r, s')"
  from this(2) show "plan_inv H s'"
  proof (cases rule: transition_rows_cases)
    case (changed h row)
    with inv assms change_state_inv [of w h row st actor eid ev s r s' tid] show ?thesis by simp
  qed (simp add: inv)
qed

section \<open>Creation\<close>

lemma insert_deps_Inr:
  "each (insert_row dependencies dependencies_update (=)) ds s = Inr (u, s') \<Longrightarrow>
     s' = s\<lparr>dependencies := dependencies s @ ds\<rparr>"
proof (induction ds arbitrary: s)
  case (Cons d ds)
  then have "each (insert_row dependencies dependencies_update (=)) ds (s\<lparr>dependencies := dependencies s @ [d]\<rparr>) = Inr (u, s')"
    by (auto simp: run_simps)
  from Cons.IH [OF this] show ?case by simp
qed (simp add: run_simps)

lemma insert_tasks_Inr:
  assumes "each (insert_task H rv) xs s = Inr (u, s')"
  shows "s' = s\<lparr>tasks := tasks s @ map (new_task H rv) xs,
      dependencies := dependencies s @ concat (map (\<lambda>x. task_deps rv (snd x)) xs)\<rparr>
    \<and> (distinct (map task_key (tasks s)) \<longrightarrow> distinct (map task_key (tasks s')))"
  using assms
proof (induction xs arbitrary: s)
  case (Cons x xs)
  then obtain v t where x: "insert_task H rv x s = Inr (v, t)" and rest: "each (insert_task H rv) xs t = Inr (u, s')"
    by (auto simp: run_simps)
  from x have fresh: "\<forall>q \<in> set (tasks s). \<not> task_clash (new_task H rv x) q"
    and t: "each (insert_row dependencies dependencies_update (=)) (task_deps rv (snd x)) (s\<lparr>tasks := tasks s @ [new_task H rv x]\<rparr>) = Inr (v, t)"
    by (auto simp: insert_task_def run_simps)
  have "task_key (new_task H rv x) \<notin> task_key ` set (tasks s)"
    using fresh by (auto simp: task_clash_def task_key_def)
  with insert_deps_Inr [OF t] have "distinct (map task_key (tasks s)) \<longrightarrow> distinct (map task_key (tasks t))" by simp
  moreover note conjunct2 [OF Cons.IH [OF rest]]
  moreover have "s' = s\<lparr>tasks := tasks s @ map (new_task H rv) (x # xs),
      dependencies := dependencies s @ concat (map (\<lambda>x. task_deps rv (snd x)) (x # xs))\<rparr>"
    using conjunct1 [OF Cons.IH [OF rest]] insert_deps_Inr [OF t] by simp
  ultimately show ?case by blast
qed (simp add: run_simps)

lemma rows_ok_idle:
  assumes "distinct (map task_key (tasks s))" "plan_head s = Some h"
    and "\<And>t. t \<in> set (tasks s) \<Longrightarrow> pt_revision t \<le> cur_revision h \<and> pt_state t \<noteq> Active
      \<and> (pt_state t = Completed \<longrightarrow> exit_recorded s (pt_task_id t) (pt_contract_digest t))"
  shows "rows_ok s"
  using assms unfolding rows_ok_def row_ok_def by blast

lemma no_head_no_rows: "rows_ok s \<Longrightarrow> plan_head s = None \<Longrightarrow> tasks s = []"
  unfolding rows_ok_def row_ok_def by (cases "tasks s") auto

lemma concat_task_deps: "concat (map (\<lambda>x. task_deps rv (snd x)) (enumerate n ts)) = concat (map (task_deps rv) ts)"
  by (induction ts arbitrary: n) simp_all

lemma ordered_insert:
  assumes s: "ordered_upto n s" "\<And>t. t \<in> set (tasks s) \<Longrightarrow> pt_revision t \<le> n" and rv: "n < rv" and ts: "earlier_only [] ts"
    and s': "tasks s' = tasks s @ map (new_task H rv) (enumerate 1 ts)"
      "dependencies s' = dependencies s @ concat (map (task_deps rv) ts)"
  shows "ordered_upto rv s'"
proof -
  have "distinct (map td_task_id ts)" using earlier_only_distinct [OF ts] by simp
  then have ids: "i = j" if "td_task_id (ts ! i) = td_task_id (ts ! j)" "i < length ts" "j < length ts" for i j
    using that by (simp add: distinct_conv_nth) metis
  have new: "t \<in> set (tasks s) \<or> (\<exists>i < length ts. t = new_task H rv (Suc i, ts ! i))" if "t \<in> set (tasks s')" for t
  proof -
    have "map (new_task H rv) (enumerate 1 ts) = map (\<lambda>i. new_task H rv (Suc i, ts ! i)) [0..<length ts]"
      by (rule nth_equalityI) (simp_all add: nth_enumerate_eq)
    with that have "t \<in> set (tasks s @ map (\<lambda>i. new_task H rv (Suc i, ts ! i)) [0..<length ts])" by (simp only: s')
    then show ?thesis by auto
  qed
  have old: "t \<in> set (tasks s)" if "t \<in> set (tasks s')" "pt_revision t \<noteq> rv" for t
    using new [OF that(1)] that(2) by (auto simp: new_task_def)
  have latest: "\<exists>i < length ts. t = new_task H rv (Suc i, ts ! i)" if "t \<in> set (tasks s')" "pt_revision t = rv" for t
    using new [OF that(1)] s(2) that(2) rv by fastforce
  have "dep_revision d \<le> rv \<and> (\<forall>t \<in> set (tasks s'). \<forall>u \<in> set (tasks s'). task_key t = (dep_revision d, dep_task_id d) \<longrightarrow>
      task_key u = (dep_revision d, dep_dependency d) \<longrightarrow> pt_position u < pt_position t)"
    if d: "d \<in> set (dependencies s')" for d
  proof (cases "d \<in> set (dependencies s)")
    case True
    with s(1) have "dep_revision d \<le> n" by (simp add: ordered_upto_def)
    with True s(1) old rv show ?thesis unfolding ordered_upto_def by (fastforce simp: task_key_def)
  next
    case False
    with d obtain i where i: "i < length ts" "d \<in> set (task_deps rv (ts ! i))"
      by (auto simp: s'(2) in_set_conv_nth [of _ ts])
    then have d: "dep_revision d = rv" "dep_task_id d = td_task_id (ts ! i)" "dep_dependency d \<in> set (deps_of (ts ! i))"
      by (auto simp: task_deps_def listed_deps_def deps_of_def)
    from earlier_only_nth [OF ts i(1) d(3)] obtain j where j: "j < i" "td_task_id (ts ! j) = dep_dependency d" by auto
    show ?thesis
    proof (intro conjI ballI impI)
      fix t u
      assume tu: "t \<in> set (tasks s')" "u \<in> set (tasks s')"
        and t: "task_key t = (dep_revision d, dep_task_id d)" and u: "task_key u = (dep_revision d, dep_dependency d)"
      from t d(1) latest [OF tu(1)] obtain k where k: "k < length ts" "t = new_task H rv (Suc k, ts ! k)"
        by (auto simp: task_key_def)
      from u d(1) latest [OF tu(2)] obtain m where m: "m < length ts" "u = new_task H rv (Suc m, ts ! m)"
        by (auto simp: task_key_def)
      have "k = i" using ids [OF _ k(1) i(1)] t k(2) d(2) by (simp add: task_key_def new_task_def)
      moreover have "m = j" using ids [OF _ m(1)] j i(1) u m(2) by (simp add: task_key_def new_task_def)
      ultimately show "pt_position u < pt_position t" using j(1) k(2) m(2) by (simp add: new_task_def)
    qed (use d in simp)
  qed
  then show ?thesis unfolding ordered_upto_def by blast
qed

lemma valid_normalize:
  assumes "list_all valid_task ts" "\<And>q. p = Some q \<Longrightarrow> task_id_pattern q" "t \<in> set (normalize_from p ts)"
  shows "valid_task t"
  using assms
proof (induction p ts rule: normalize_from.induct)
  case (2 p x ts)
  have one: "bounded_unique_items [q]" if "task_id_pattern q" for q
  proof -
    have "\<not> is_space c \<and> c \<noteq> CHR 0x00" if "is_upper c \<or> is_lower c \<or> is_digit c" for c
      using that by (auto simp: is_space_def is_upper_def is_lower_def is_digit_def)
    with that show ?thesis
      by (cases q) (auto simp: bounded_unique_items_def task_id_pattern_def blank_def list_all_iff)
  qed
  have "valid_task (x\<lparr>td_dependencies := Some (case td_dependencies x of Some ds \<Rightarrow> ds
        | None \<Rightarrow> (case p of None \<Rightarrow> [] | Some q \<Rightarrow> [q]))\<rparr>)"
    using 2(2,3) one by (cases p) (auto simp: valid_task_def operation_scope_def bounded_unique_items_def [of "[]"] split: option.splits)
  with 2 show ?case by (auto simp: valid_task_def)
qed simp

lemma sealed_insert:
  assumes s: "sealed H s" "ordered_upto n s" "\<And>t. t \<in> set (tasks s) \<Longrightarrow> pt_revision t \<le> n" and rv: "n < rv"
    and ts: "earlier_only [] ts" "\<And>t. t \<in> set ts \<Longrightarrow> valid_task t"
    and s': "tasks s' = tasks s @ map (new_task H rv) (enumerate 1 ts)"
      "dependencies s' = dependencies s @ concat (map (task_deps rv) ts)"
  shows "sealed H s'"
proof -
  have old: "deps_of_task v i s' = deps_of_task v i s" if "v \<le> n" for v i
    using that rv by (auto simp: deps_of_task_def s' filter_empty_conv task_deps_def)
  have new: "set (deps_of_task rv (td_task_id t) s') = set (listed_deps t)" if t: "t \<in> set ts" for t
  proof -
    have d: "dep_revision d \<noteq> rv" if "d \<in> set (dependencies s)" for d
      using s(2) that rv by (auto simp: ordered_upto_def)
    have "distinct (map td_task_id ts)" using earlier_only_distinct [OF ts(1)] by simp
    then have "q = t" if "q \<in> set ts" "td_task_id q = td_task_id t" for q
      using key_unique [of td_task_id ts q t] that t by simp
    then have "d \<in> set (deps_of_task rv (td_task_id t) s') \<longleftrightarrow>
        (\<exists>q \<in> set ts. td_task_id q = td_task_id t \<and> d \<in> set (listed_deps q))" for d
      using \<open>\<And>d. d \<in> set (dependencies s) \<Longrightarrow> dep_revision d \<noteq> rv\<close> unfolding deps_of_task_def s' task_deps_def by force
    with t \<open>\<And>q. q \<in> set ts \<Longrightarrow> td_task_id q = td_task_id t \<Longrightarrow> q = t\<close> show ?thesis by blast
  qed
  have "view H s' t = Inr t" if "t \<in> set (tasks s')" for t
  proof (cases "t \<in> set (tasks s)")
    case True
    then have "view H s t = Inr t" "pt_revision t \<le> n" using s(1,3) by (simp_all add: sealed_def)
    then show ?thesis by (simp add: view_Inr old)
  next
    case False
    with that obtain i q where "q \<in> set ts" "t = new_task H rv (i, q)"
      unfolding s' by (auto simp: enumerate_eq_zip dest: set_zip_rightD)
    then show ?thesis using ts(2) new by (simp add: view_Inr new_task_def)
  qed
  then show ?thesis by (simp add: sealed_def)
qed

lemma insert_tasks_fields:
  assumes "insert_tasks H rv ts s = Inr (u, s')"
  shows "tasks s' = tasks s @ map (new_task H rv) (enumerate 1 ts)" "events s' = events s" "plan_head s' = plan_head s"
    "receipts s' = receipts s" "project_id s' = project_id s"
    "distinct (map task_key (tasks s)) \<Longrightarrow> distinct (map task_key (tasks s'))"
    "dependencies s' = dependencies s @ concat (map (task_deps rv) ts)"
  using conjunct1 [OF insert_tasks_Inr [OF assms [unfolded insert_tasks_def]]]
    conjunct2 [OF insert_tasks_Inr [OF assms [unfolded insert_tasks_def]]] by (simp_all only: project.simps project.select_convs concat_task_deps) simp_all

lemma normalized_plan:
  assumes "valid_plan_fields r dump"
  shows "earlier_only [] (normalized r)" "t \<in> set (normalized r) \<Longrightarrow> valid_task t"
  using assms unfolding normalized_def valid_plan_fields_def
  by (auto intro: earlier_only_normalize valid_normalize [of "pc_tasks r" None])

lemma create_rows_inv:
  assumes run: "create_rows w r actor s = Inr (u, s')" and inv: "plan_inv (sha256 w) s"
  and valid: "valid_plan_create r"
  shows "plan_inv (sha256 w) s'"
proof -
  from run obtain g1 t1 g2 t2 t3 t4 d t5 rc where head: "plan_head s = None"
    and g1: "require_restoration_plan (sha256 w) (source_restore_digest r) 1 s = Inr (g1, t1)"
    and g2: "require_recovery_plan (database_recovery_digest r) 1 t1 = Inr (g2, t2)"
    and t3: "t3 = t2\<lparr>revisions := revisions t2 @ [first_revision w r actor]\<rparr>"
    and ins: "insert_tasks (sha256 w) 1 (normalized r) (t3\<lparr>plan_head := Some \<lparr>cur_revision = 1, cur_event_head = None\<rparr>\<rparr>) = Inr ((), t4)"
    and ev: "add_event (branch 1 w) 1 None ''plan_created'' actor
       (JObj [(''document_digest'', JStr (content_digest (sha256 w) (create_document r))),
              (''task_count'', JInt (int (length (pc_tasks r))))]) None t4 = Inr (d, t5)"
    and rc: "append_receipt (branch 2 w) (Some ''plan'') ''plan_created''
       [(''plan_id'', JStr (pc_plan_id r)), (''revision'', JInt 1),
        (''document_digest'', JStr (content_digest (sha256 w) (create_document r)))] t5 = Inr (rc, s')"
    unfolding create_rows_def by (auto simp: run_simps simp del: append_receipt_Inr)
  from restoration_gate_Inr [OF g1] obtain c1 where "t1 = s\<lparr>restoration := c1\<rparr>" .
  moreover from recovery_gate_Inr [OF g2] obtain c2 where "t2 = t1\<lparr>recovery := c2\<rparr>" .
  ultimately have t3': "t3 = s\<lparr>restoration := c1, recovery := c2, revisions := revisions s @ [first_revision w r actor]\<rparr>"
    by (simp add: t3)
  have none: "tasks s = []" "events s = []" "dependencies s = []"
    using inv head by (auto simp: plan_inv_def history_ok_def order_ok_def dest: no_head_no_rows)
  note t4 = insert_tasks_fields [OF ins]
  have "rows_ok t4"
    by (rule rows_ok_idle [of _ "\<lparr>cur_revision = 1, cur_event_head = None\<rparr>"])
      (use t4 in \<open>auto simp: t3' none new_task_def\<close>)
  moreover have "history_ok (sha256 w) t4" using t4 none by (simp add: t3' history_ok_def)
  moreover have "order_ok t4" "sealed (sha256 w) t4"
  proof -
    have ts: "earlier_only [] (normalized r)" "\<And>t. t \<in> set (normalized r) \<Longrightarrow> valid_task t"
      using valid normalized_plan [of r] by (simp_all add: valid_plan_create_def)
    have upto: "ordered_upto 0 s" "sealed (sha256 w) s" "t \<in> set (tasks s) \<Longrightarrow> pt_revision t \<le> 0" for t
      by (simp_all add: ordered_upto_def sealed_def none)
    have rows: "tasks t4 = tasks s @ map (new_task (sha256 w) 1) (enumerate 1 (normalized r))"
      "dependencies t4 = dependencies s @ concat (map (task_deps 1) (normalized r))"
      unfolding t4(1,7) by (simp_all add: t3')
    from ordered_insert [OF upto(1,3) _ ts(1) rows] t4 show "order_ok t4" by (simp add: order_ok_def)
    from sealed_insert [OF upto(2,1,3) _ ts rows] show "sealed (sha256 w) t4" by simp
  qed
  ultimately have "plan_inv (sha256 w) t4" by (simp add: plan_inv_def)
  from validD [OF plan_add_event this ev] have "plan_inv (sha256 w) t5" by simp
  then show ?thesis using rc plan_append_receipt by (blast dest: validD)
qed

lemma keeps_create_rows: "sha256 w = H \<Longrightarrow> valid_plan_create r \<Longrightarrow> keeps (plan_inv H) (create_rows w r actor)"
  by (rule validI) (auto dest: create_rows_inv)

lemma plan_create_plan [keeps_rules]: "sha256 w = H \<Longrightarrow> keeps (plan_inv H) (create_plan w vd l r actor)"
proof (cases "valid_plan_create r")
  case True
  then show "sha256 w = H \<Longrightarrow> ?thesis"
    unfolding create_plan_def by (intro keeps_rules keeps_create_rows) simp_all
qed (simp add: create_plan_def valid_def run_simps)

section \<open>Replacement\<close>

lemma rcollect_member: "rcollect f xs = Inr ys \<Longrightarrow> x \<in> set xs \<Longrightarrow> \<exists>y. f x = Inr y"
  by (induction xs arbitrary: ys) (auto simp: run_simps)

lemma steer_source_reads: "steer_source w r actor s = Inr (x, s') \<Longrightarrow> s' = s"
  by (auto simp: steer_source_def run_simps)

lemma newest_source_reads: "newest_source r e s = Inr (x, s') \<Longrightarrow> s' = s"
  by (auto simp: newest_source_def run_simps)

lemma case_object_reads:
  "(case v of JObj _ \<Rightarrow> require c k | _ \<Rightarrow> abort e) s = Inr (x, s') \<Longrightarrow> s' = s"
  by (cases v) (simp_all add: run_simps)

lemma checkpoint_matches_reads: "checkpoint_matches w r q s = Inr (x, s') \<Longrightarrow> s' = s"
  by (auto simp: checkpoint_matches_def run_simps dest: case_object_reads)

text \<open>The parts of the checks that the writes rest on.\<close>

lemma replace_checks_Inr:
  assumes "replace_checks w vd r actor s = Inr ((source, ctl, old, changed), s')"
  obtains h where "s' = s" "plan_head s = Some h" "cur_revision h = expected_revision r"
    "old = tasks_of (expected_revision r) s" "\<not> list_ex (\<lambda>t. pt_state t = Active) old"
    "compare_rows (sha256 w) (normalized r) old s = Inr changed"
    "\<not> list_ex (\<lambda>j. jb_state j \<in> {JRunning, JUncertain}) (jobs s)"
  using assms unfolding replace_checks_def
  by (auto simp: run_simps dest!: steer_source_reads newest_source_reads checkpoint_matches_reads)

lemma compare_rows_kept:
  assumes "compare_rows H ts old s = Inr changed" "row \<in> set old" "terminal_state (pt_state row)"
  obtains t where "replacement_for ts (pt_task_id row) = Some t" "contract_digest H t = pt_contract_digest row"
proof -
  from assms(1) obtain cs where "rcollect (compare_row H ts s) old = Inr cs" by (auto simp: compare_rows_def run_simps)
  from rcollect_member [OF this assms(2)] assms(3) have "kept H ts row"
    by (auto simp: compare_row_def run_simps split: if_splits)
  with that show ?thesis by (auto simp: kept_def split: option.splits)
qed

text \<open>
  While the rows of the old revision are carried over: no row is active, the rows of the new revision
  \<open>rv\<close> have the digests of the terminal rows they replace.
\<close>

definition carried :: "int \<Rightarrow> plan_task list \<Rightarrow> project \<Rightarrow> bool" where
  "carried rv old s \<longleftrightarrow> distinct (map task_key (tasks s))
     \<and> map_option cur_revision (plan_head s) = Some (rv - 1)
     \<and> (\<forall>v i d q. (v, i, d, q) \<in> set (map face (tasks s)) \<longrightarrow>
          v \<le> rv \<and> q \<noteq> Active \<and> (q = Completed \<longrightarrow> exit_recorded s i d))
     \<and> (\<forall>row \<in> set old. pt_state row = Completed \<longrightarrow> exit_recorded s (pt_task_id row) (pt_contract_digest row))
     \<and> (\<forall>row \<in> set old. terminal_state (pt_state row) \<longrightarrow> (\<forall>d q. (rv, pt_task_id row, d, q) \<in> set (map face (tasks s))
          \<longrightarrow> d = pt_contract_digest row))"

lemma carried_frame:
  assumes "plan_frame s s'" "carried rv old s"
  shows "carried rv old s'"
proof -
  have f: "map face (tasks s') = map face (tasks s)" and h: "map_option cur_revision (plan_head s') = map_option cur_revision (plan_head s)"
    using assms(1) by (simp_all add: plan_frame_def)
  have keep: "exit_recorded s x d \<Longrightarrow> exit_recorded s' x d" for x d
    using exit_recorded_mono [of s' s] assms(1) by (simp add: plan_frame_def)
  from assms(2) show ?thesis
    unfolding carried_def f h keys_of_faces [OF f] by (elim conjE; intro conjI) (assumption | use keep in fast)+
qed

lemma face_update:
  assumes "\<And>t. face (f t) = (pt_revision t, pt_task_id t, pt_contract_digest t, st)"
  shows "(v, i, d, q) \<in> set (map face (update_where (is_task rx tid) f rows)) \<longleftrightarrow>
    (\<exists>p. (v, i, d, p) \<in> set (map face rows) \<and> q = (if v = rx \<and> i = tid then st else p))"
proof -
  have one: "face (if is_task rx tid t then f t else t) =
      (pt_revision t, pt_task_id t, pt_contract_digest t, if pt_revision t = rx \<and> pt_task_id t = tid then st else pt_state t)" for t
    by (simp add: assms is_task_def) (simp add: face_def)
  have "map face (update_where (is_task rx tid) f rows) = map (\<lambda>t. (pt_revision t, pt_task_id t, pt_contract_digest t,
      if pt_revision t = rx \<and> pt_task_id t = tid then st else pt_state t)) rows"
    by (simp add: update_where_def one cong: if_cong)
  then show ?thesis by (simp add: image_iff face_def) fast
qed

lemma carried_update:
  assumes old: "carried rv old s" and st: "st \<noteq> Active"
    and f: "\<And>t. face (f t) = (pt_revision t, pt_task_id t, pt_contract_digest t, st)"
    and fin: "st = Completed \<Longrightarrow> \<exists>row \<in> set old. tid = pt_task_id row \<and> pt_state row = Completed \<and> rx = rv"
  shows "carried rv old (s\<lparr>tasks := update_where (is_task rx tid) f (tasks s)\<rparr>)" (is "carried rv old ?s")
proof -
  have exits: "exit_recorded ?s x d = exit_recorded s x d" for x d by (simp add: exit_recorded_def)
  have heads: "plan_head ?s = plan_head s" by simp
  have "task_key (f t) = task_key t" for t using f [of t] by (simp add: face_def task_key_def)
  then have keys: "map task_key (tasks ?s) = map task_key (tasks s)" by (simp add: map_update_where)
  note faces = face_update [where f = f and rx = rx and tid = tid and rows = "tasks s", OF f]
  have tasks: "tasks ?s = update_where (is_task rx tid) f (tasks s)" by simp
  have exit: "exit_recorded s tid d" if "(rx, tid, d, p) \<in> set (map face (tasks s))" "st = Completed" for d p
  proof -
    from fin [OF that(2)] obtain row where row: "row \<in> set old" "tid = pt_task_id row" "pt_state row = Completed" "rx = rv"
      by blast
    from row(3) have "terminal_state (pt_state row)" by (simp add: terminal_state_def)
    with old row(1) that(1) [unfolded row(2,4)] have "d = pt_contract_digest row" unfolding carried_def by blast
    with row old show ?thesis unfolding carried_def by blast
  qed
  have "v \<le> rv \<and> q \<noteq> Active \<and> (q = Completed \<longrightarrow> exit_recorded s i d)"
    if "\<exists>p. (v, i, d, p) \<in> set (map face (tasks s)) \<and> q = (if v = rx \<and> i = tid then st else p)" for v i d q
  proof -
    from that obtain p where m: "(v, i, d, p) \<in> set (map face (tasks s))" and q: "q = (if v = rx \<and> i = tid then st else p)"
      by blast
    with old have "v \<le> rv" "p \<noteq> Active" "p = Completed \<longrightarrow> exit_recorded s i d" unfolding carried_def by blast+
    with q st exit [of d p] m show ?thesis by (auto split: if_splits)
  qed
  with old show ?thesis
    unfolding carried_def keys heads exits unfolding tasks faces by blast
qed

lemma keeps_carry_row:
  assumes row: "snd x \<in> set old" and H: "sha256 w = H" and rv: "rv = expected_revision r + 1"
    and idle: "\<not> list_ex (\<lambda>t. pt_state t = Active) old"
  shows "keeps (\<lambda>s. history_ok H s \<and> carried rv old s) (carry_row w r actor x)"
proof (rule validI)
  fix s u s'
  assume inv: "history_ok H s \<and> carried rv old s" and run: "carry_row w r actor x s = Inr (u, s')"
  obtain i t where x: "x = (i, t)" by (cases x)
  have idle: "pt_state t \<noteq> Active" using row idle by (auto simp: x list_ex_iff)
  have hist: "history_ok H (s\<lparr>tasks := ts\<rparr>)" for ts
    using inv by (simp add: history_ok_def split: option.splits)
  show "history_ok H s' \<and> carried rv old s'"
  proof (cases "terminal_state (pt_state t)")
    case True
    let ?f = "\<lambda>q. q\<lparr>pt_state := pt_state t, pt_last_event := pt_last_event t\<rparr>"
    from run True have s': "s' = s\<lparr>tasks := update_where (is_task rv (pt_task_id t)) ?f (tasks s)\<rparr>"
      by (simp add: carry_row_def x run_simps rv)
    have "carried rv old s'" unfolding s'
      by (rule carried_update [where st = "pt_state t"]) (use inv idle row x in \<open>auto simp: face_def\<close>)
    with hist show ?thesis by (simp add: s')
  next
    case False
    let ?t = "s\<lparr>tasks := update_where (is_task (expected_revision r) (pt_task_id t)) (\<lambda>q. q\<lparr>pt_state := Superseded\<rparr>) (tasks s)\<rparr>"
    from run False obtain d where ev: "add_event (branch i (branch 1 w)) (expected_revision r) (Some (pt_task_id t))
         ''task_contract_superseded'' actor
         (JObj [(''prior_state'', JStr (task_state_name (pt_state t))), (''new_revision'', JInt (expected_revision r + 1)),
            (''old_contract_digest'', JStr (pt_contract_digest t)),
            (''retained_task_id'', JBool (replacement_for (normalized r) (pt_task_id t) \<noteq> None))]) None ?t = Inr (d, s')"
      by (auto simp: carry_row_def x run_simps)
    have "carried rv old ?t"
      by (rule carried_update [where st = Superseded]) (use inv in \<open>auto simp: face_def\<close>)
    with add_event_rows [OF ev] have "carried rv old s'" by (rule carried_frame)
    moreover have "history_ok H s'" using add_event_history [OF ev] hist by (simp add: H)
    ultimately show ?thesis by simp
  qed
qed

lemma index_carry_row: "keeps (\<lambda>s. ordered_upto n s \<and> sealed H s) (carry_row w r actor (i, t))" (is "keeps ?I _")
proof -
  have update: "keeps ?I (update_task rv tid f)"
    if "\<And>t. task_key (f t) = task_key t \<and> pt_position (f t) = pt_position t \<and> row_seal (f t) = row_seal t" for rv tid f
    using ordered_update [where f = f] sealed_update [where f = f] that by (auto simp: valid_def update_task_Inr)
  have "keeps ?I (add_event w' rv tid k a v e)" for w' rv tid k a v e
    by (rule validI) (auto dest!: add_event_rows simp: ordered_frame sealed_frame)
  then show ?thesis
    unfolding carry_row_def prod.case by (intro keeps_rules update) (simp_all add: task_key_def row_seal_def)
qed

lemma index_carry: "x \<in> set xs \<Longrightarrow> keeps (\<lambda>s. ordered_upto n s \<and> sealed H s) (carry_row w r actor x)"
  by (cases x) (simp add: index_carry_row)

lemma normalized_unique:
  assumes "valid_plan_replace r" "t \<in> set (normalized r)" "replacement_for (normalized r) (td_task_id t) = Some q"
  shows "q = t"
proof -
  have "distinct (map td_task_id (normalized r))"
    using assms(1) earlier_only_distinct [of "[]"] by (simp add: valid_plan_replace_def valid_plan_fields_def)
  from key_unique [OF this assms(2), of q] assms(3) show ?thesis
    by (auto simp: replacement_for_def dest!: find_SomeD)
qed

text \<open>The state in which the rows of the old revision are carried over.\<close>

lemma carried_start:
  assumes ok: "rows_ok s" and h: "plan_head s = Some h" and valid: "valid_plan_replace r"
    and rv: "cur_revision h = expected_revision r"
    and idle: "\<not> list_ex (\<lambda>t. pt_state t = Active) (tasks_of (expected_revision r) s)"
    and cmp: "compare_rows H (normalized r) (tasks_of (expected_revision r) s) s = Inr changed"
    and tasks: "tasks s' = tasks s @ map (new_task H (expected_revision r + 1)) (enumerate 1 (normalized r))"
    and keys: "distinct (map task_key (tasks s'))"
    and same: "map_option cur_revision (plan_head s') = Some (expected_revision r)" "project_id s' = project_id s"
      "set (receipts s) \<subseteq> set (receipts s')"
  shows "carried (expected_revision r + 1) (tasks_of (expected_revision r) s) s'"
proof -
  note exits = exit_recorded_mono [OF same(2,3)]
  have rows: "pt_revision t \<le> expected_revision r" "pt_state t \<noteq> Active"
      "pt_state t = Completed \<Longrightarrow> exit_recorded s' (pt_task_id t) (pt_contract_digest t)" if "t \<in> set (tasks s)" for t
  proof -
    have "row_ok s t" using ok that unfolding rows_ok_def by blast
    with h rv idle that exits show "pt_revision t \<le> expected_revision r" "pt_state t \<noteq> Active"
      "pt_state t = Completed \<Longrightarrow> exit_recorded s' (pt_task_id t) (pt_contract_digest t)"
      by (auto simp: row_ok_def tasks_of_def list_ex_iff)
  qed
  have old: "t \<in> set (tasks_of (expected_revision r) s) \<Longrightarrow> t \<in> set (tasks s)" for t
    by (simp add: tasks_of_def)
  have news: "f \<in> face ` set (tasks s) \<or> (\<exists>t \<in> set (normalized r).
      f = (expected_revision r + 1, td_task_id t, contract_digest H t, Queued))" if "f \<in> set (map face (tasks s'))" for f
    using that unfolding tasks by (auto simp: face_def new_task_def enumerate_eq_zip dest: set_zip_rightD)
  have digest: "d = pt_contract_digest row"
    if row: "row \<in> set (tasks_of (expected_revision r) s)" "terminal_state (pt_state row)"
      and f: "(expected_revision r + 1, pt_task_id row, d, q) \<in> set (map face (tasks s'))" for row d q
  proof -
    from compare_rows_kept [OF cmp row] obtain t where
      t: "replacement_for (normalized r) (pt_task_id row) = Some t" "contract_digest H t = pt_contract_digest row" .
    from news [OF f] obtain t' where "t' \<in> set (normalized r)" "td_task_id t' = pt_task_id row" "d = contract_digest H t'"
      using rows(1) by (fastforce simp: face_def)
    with normalized_unique [OF valid this(1), of t] t show ?thesis by simp
  qed
  have "v \<le> expected_revision r + 1 \<and> q \<noteq> Active \<and> (q = Completed \<longrightarrow> exit_recorded s' i d)"
    if "(v, i, d, q) \<in> set (map face (tasks s'))" for v i d q
    using news [OF that] rows by (fastforce simp: face_def)
  with digest rows old keys same(1) show ?thesis unfolding carried_def by auto
qed

lemma carried_end:
  assumes "carried rv old s" "history_ok H s" "ordered_upto rv s" "sealed H s"
  shows "plan_inv H (s\<lparr>plan_head := map_option (\<lambda>h. h\<lparr>cur_revision := rv\<rparr>) (plan_head s)\<rparr>)" (is "plan_inv H ?s")
proof -
  from assms(1) obtain h where h: "plan_head s = Some h" "cur_revision h = rv - 1"
    by (auto simp: carried_def)
  have "rows_ok ?s"
  proof (rule rows_ok_idle [of _ "h\<lparr>cur_revision := rv\<rparr>"])
    fix t
    assume "t \<in> set (tasks ?s)"
    then have "face t \<in> set (map face (tasks s))" by simp
    with assms(1) show "pt_revision t \<le> cur_revision (h\<lparr>cur_revision := rv\<rparr>) \<and> pt_state t \<noteq> Active
        \<and> (pt_state t = Completed \<longrightarrow> exit_recorded ?s (pt_task_id t) (pt_contract_digest t))"
      unfolding carried_def by (auto simp: face_def exit_recorded_def)
  qed (use assms(1) h in \<open>auto simp: carried_def\<close>)
  moreover have "history_ok H ?s" using assms(2) h by (simp add: history_ok_def)
  moreover have "order_ok ?s" using assms(3) h by (simp add: order_ok_def ordered_upto_def)
  moreover have "sealed H ?s" using assms(4) by (simp add: sealed_def view_Inr deps_of_task_def)
  ultimately show ?thesis by (simp add: plan_inv_def)
qed

lemma keeps_resume_control: "keeps (plan_inv H) (resume_control w r actor e c)"
  unfolding resume_control_def by (intro write_rules) simp_all

lemma keeps_settle_steers: "keeps (plan_inv H) (settle_steers w r)"
  unfolding settle_steers_def by (intro write_rules) simp_all

lemma replace_rows_inv:
  assumes run: "replace_rows w r actor (source, ctl, old, changed) s = Inr (u, s')"
    and inv: "plan_inv (sha256 w) s" and valid: "valid_plan_replace r"
    and h: "plan_head s = Some h" "cur_revision h = expected_revision r"
    and old: "old = tasks_of (expected_revision r) s" and idle: "\<not> list_ex (\<lambda>t. pt_state t = Active) old"
    and cmp: "compare_rows (sha256 w) (normalized r) old s = Inr changed"
  shows "plan_inv (sha256 w) s'"
proof -
  let ?H = "sha256 w" and ?rv = "expected_revision r + 1"
  from run obtain g1 t1 g2 t2 t3 t4 t5 t6 x7 t7 x8 t8 x9 t9 rc where
    g1: "require_restoration_plan ?H (source_restore_digest r) ?rv s = Inr (g1, t1)"
    and g2: "require_recovery_plan (database_recovery_digest r) ?rv t1 = Inr (g2, t2)"
    and ins: "insert_tasks ?H ?rv (normalized r) (t2\<lparr>revisions := revisions t2 @ [next_revision w r actor]\<rparr>) = Inr ((), t3)"
    and carry: "each (carry_row w r actor) (enumerate 0 old) t3 = Inr ((), t4)"
    and sup: "supersede_jobs w (expected_revision r) t4 = Inr ((), t5)"
    and t6: "t6 = t5\<lparr>plan_head := map_option (\<lambda>h. h\<lparr>cur_revision := ?rv\<rparr>) (plan_head t5)\<rparr>"
    and settle: "settle_steers w r t6 = Inr (x7, t7)"
    and resume: "resume_control w r actor source ctl t7 = Inr (x8, t8)"
    and ev: "add_event (branch 2 w) ?rv None ''plan_replaced'' actor
       (JObj [(''previous_revision'', JInt (expected_revision r)),
          (''document_digest'', JStr (content_digest (sha256 w) (replace_document r))),
          (''steer_request_id'', JStr (steer_request_id r)), (''source_cursor'', JStr (le_cursor source)),
          (''changed_task_ids'', jstrs (sort changed)), (''explicit_resume'', JBool (resume_after_change r))]) None t8 = Inr (x9, t9)"
    and rc: "append_receipt (branch 3 w) (Some ''plan'') ''plan_revision_replaced''
       [(''revision'', JInt ?rv), (''previous_revision'', JInt (expected_revision r)),
        (''document_digest'', JStr (content_digest (sha256 w) (replace_document r))),
        (''steer_request_id'', JStr (steer_request_id r)), (''engine_owned_jobs_quiescent'', JBool True),
        (''native_host_tools_attested'', JBool False)] t9 = Inr (rc, s')"
    unfolding replace_rows_def by (auto simp: run_simps Let_def simp del: append_receipt_Inr)
  from restoration_gate_Inr [OF g1] obtain c1 where t1: "t1 = s\<lparr>restoration := c1\<rparr>" .
  from recovery_gate_Inr [OF g2] obtain c2 where t2: "t2 = t1\<lparr>recovery := c2\<rparr>" .
  note t3 = insert_tasks_fields [OF ins]
  have ok: "rows_ok s" "distinct (map task_key (tasks s))" using inv unfolding plan_inv_def rows_ok_def by blast+
  have start: "carried ?rv old t3"
    unfolding old
    by (rule carried_start [OF ok(1) h(1) valid h(2) idle [unfolded old] cmp [unfolded old]])
      (use t3 ok h in \<open>simp_all add: t1 t2\<close>)
  have "history_ok ?H t3" using inv t3 by (simp add: plan_inv_def history_ok_def t1 t2 h)
  have "keeps (\<lambda>s. history_ok ?H s \<and> carried ?rv old s) (each (carry_row w r actor) (enumerate 0 old))"
    by (rule keeps_each_in, rule keeps_carry_row) (use idle in \<open>auto simp: enumerate_eq_zip dest: set_zip_rightD\<close>)
  from validD [OF this _ carry] start \<open>history_ok ?H t3\<close> have t4: "history_ok ?H t4" "carried ?rv old t4" by simp_all
  have upto: "ordered_upto (expected_revision r) s" using inv h by (simp add: plan_inv_def order_ok_def)
  have bound: "pt_revision t \<le> expected_revision r" if "t \<in> set (tasks s)" for t
    using ok(1) that h by (auto simp: rows_ok_def row_ok_def)
  have ts: "earlier_only [] (normalized r)" "\<And>t. t \<in> set (normalized r) \<Longrightarrow> valid_task t"
    using valid normalized_plan [of r "replace_json r"] by (simp_all add: valid_plan_replace_def)
  have sealed: "sealed ?H s" using inv by (simp add: plan_inv_def)
  have rows: "tasks t3 = tasks s @ map (new_task ?H ?rv) (enumerate 1 (normalized r))"
    "dependencies t3 = dependencies s @ concat (map (task_deps ?rv) (normalized r))"
    unfolding t3(1,7) by (simp_all add: t1 t2)
  have "ordered_upto ?rv t3 \<and> sealed ?H t3"
    using ordered_insert [OF upto bound _ ts(1) rows] sealed_insert [OF sealed upto bound _ ts rows] by simp
  from validD [OF keeps_each_in [OF index_carry] this carry] have order: "ordered_upto ?rv t4 \<and> sealed ?H t4" .
  have "plan_frame t4 t5" "history_ok ?H t5"
    using sup t4(1) by (auto simp: supersede_jobs_def run_simps plan_frame_def history_ok_def split: option.splits)
  with order ordered_frame sealed_frame have "ordered_upto ?rv t5" "sealed ?H t5" by simp_all
  with carried_end [OF carried_frame [OF \<open>plan_frame t4 t5\<close> t4(2)] \<open>history_ok ?H t5\<close>] have "plan_inv ?H t6" by (simp add: t6)
  from validD [OF keeps_resume_control validD [OF keeps_settle_steers this settle] resume] have t8: "plan_inv ?H t8" .
  have "plan_inv ?H t9" by (rule validD [OF plan_add_event t8 ev]) simp
  from validD [OF plan_append_receipt this rc] show ?thesis .
qed

lemma replace_plan_cases:
  assumes run: "replace_plan w vd l r actor s = Inr (a, s')"
  obtains (recorded) t rv pid where "valid_plan_replace r" "t = s" "prepare_projection (branch 4 w) rv actor t = Inr (pid, s')"
  | (changed) t rv pid source ctl old changed t0 where "valid_plan_replace r"
      "replace_checks w vd r actor s = Inr ((source, ctl, old, changed), t0)"
      "replace_rows w r actor (source, ctl, old, changed) t0 = Inr ((), t)"
      "prepare_projection (branch 4 w) rv actor t = Inr (pid, s')"
proof -
  from run obtain t rv pid where valid: "valid_plan_replace r"
    and step: "(case find_plan_request (pc_request_id r) s of
            Some p \<Rightarrow>
              bnd (require (rv_document_digest p = content_digest (sha256 w) (replace_document r) \<and> rv_actor p = actor)
                ''PLAN_REQUEST_CONFLICT'') (\<lambda>_. ret (rv_revision p))
          | None \<Rightarrow> bnd (replace_checks w vd r actor) (\<lambda>found. bnd (replace_rows w r actor found) (\<lambda>_.
              ret (expected_revision r + 1)))) s = Inr (rv, t)"
    and proj: "prepare_projection (branch 4 w) rv actor t = Inr (pid, s')"
    unfolding replace_plan_def by (auto simp: run_simps in_transaction_Inr simp del: case_option_Inr)
  from step consider "t = s" | source ctl old changed t0 where
      "replace_checks w vd r actor s = Inr ((source, ctl, old, changed), t0)"
      "replace_rows w r actor (source, ctl, old, changed) t0 = Inr ((), t)"
    by (auto simp: run_simps)
  then show ?thesis
  proof cases
    case 1
    show ?thesis by (rule recorded [OF valid 1 proj])
  next
    case 2
    show ?thesis by (rule changed [OF valid 2 proj])
  qed
qed

lemma plan_replace_plan [keeps_rules]:
  assumes "sha256 w = H"
  shows "keeps (plan_inv H) (replace_plan w vd l r actor)"
proof (rule validI)
  fix s a s'
  assume inv: "plan_inv H s" and run: "replace_plan w vd l r actor s = Inr (a, s')"
  from run show "plan_inv H s'"
  proof (cases rule: replace_plan_cases)
    case (recorded t rv pid)
    with validD [OF plan_prepare_projection inv] show ?thesis by simp
  next
    case (changed t rv pid source ctl old changed t0)
    from changed(2) have "plan_inv H t"
      by (rule replace_checks_Inr) (use changed(1,3) inv assms in \<open>auto intro: replace_rows_inv\<close>)
    from validD [OF plan_prepare_projection this changed(4)] show ?thesis .
  qed
qed

section \<open>What the invariant says\<close>

lemma distinct_filter_le_one:
  assumes "distinct (map f xs)" "\<forall>x \<in> set xs. \<forall>y \<in> set xs. P x \<longrightarrow> P y \<longrightarrow> f x = f y"
  shows "length (filter P xs) \<le> 1"
  using assms
proof (induction xs)
  case (Cons x xs)
  show ?case
  proof (cases "P x")
    case True
    have "\<not> P y" if "y \<in> set xs" for y
    proof
      assume "P y"
      with Cons.prems(2) True that have "f x = f y" by (meson list.set_intros)
      with Cons.prems(1) that show False by auto
    qed
    then show ?thesis by simp
  qed (use Cons in simp)
qed simp

lemma rows_ok_one_active: "rows_ok s \<Longrightarrow> length (filter (\<lambda>t. pt_state t = Active) (tasks s)) \<le> 1"
  unfolding rows_ok_def by (rule distinct_filter_le_one [of task_key]) blast+

lemma history_ok_verifies:
  assumes "history_ok H s"
  shows "verify_history H limit s =
    (if limit < 1 \<or> 50000 < limit then Inl (LaneError ''INVALID_HISTORY_BUDGET'')
     else case plan_head s of
         None \<Rightarrow> Inl (LaneError ''PLAN_NOT_CREATED'')
       | Some h \<Rightarrow> if limit < int (length (events s)) then Inl (LaneError ''PLAN_HISTORY_BUDGET'')
           else Inr (\<lparr>hr_revision = cur_revision h, hr_events = length (events s), hr_head = cur_event_head h\<rparr>, s))"
proof (cases "plan_head s")
  case (Some h)
  have chain: "event_chain H 1 None (events s) = Some (cur_event_head h)"
    using assms Some by (simp add: history_ok_def)
  have "map ev_sequence (events s) = [Suc 0 ..< Suc (length (events s))]"
    using plan_history.verify_numbers [OF chain] by simp
  then have sorted: "sort_key ev_sequence (events s) = events s"
    by (intro sort_key_id_if_sorted) (simp del: upt_Suc)
  show ?thesis
  proof (cases "limit < int (length (events s))")
    case True
    then have "limit < int (min (length (events s)) (nat (limit + 1)))" if "1 \<le> limit" using that by linarith
    with True Some sorted show ?thesis by (simp add: verify_history_def head_row_def eval_simps)
  next
    case False
    then have "take (nat (limit + 1)) (events s) = events s" by simp
    with False Some sorted chain show ?thesis by (auto simp: verify_history_def head_row_def eval_simps)
  qed
qed (simp add: verify_history_def head_row_def eval_simps)

end
