(* ===== verification/Plan_Growth.thy ===== *)
theory Plan_Growth
  imports Plan_Laws
begin

text \<open>
  What the Plan store never loses: task rows keep their contracts and move along the life cycle,
  revisions, events and receipts are append-only.
\<close>

section \<open>The order\<close>

text \<open>The life cycle of a row: the transition law, and supersession by a new revision.\<close>

inductive plan_step :: "task_state \<Rightarrow> task_state \<Rightarrow> bool" where
  law: "task_step a b \<Longrightarrow> plan_step a b"
| supersede: "\<not> terminal a \<Longrightarrow> plan_step a Superseded"

inductive_cases plan_stepE: "plan_step a b"

lemma terminal_no_plan_step: "plan_step a b \<Longrightarrow> \<not> terminal a"
  by (auto elim: plan_stepE dest: terminal_no_step)

lemma plan_steps_terminal: "plan_step\<^sup>*\<^sup>* a b \<Longrightarrow> terminal a \<Longrightarrow> b = a"
  by (induction rule: converse_rtranclp_induct) (auto dest: terminal_no_plan_step)

lemma terminal_state_terminal: "terminal_state = terminal"
  by (auto simp: terminal_state_def terminal_def)

definition same_contract :: "plan_task \<Rightarrow> plan_task \<Rightarrow> bool" where
  "same_contract t u \<longleftrightarrow> task_key u = task_key t \<and> pt_position u = pt_position t \<and> pt_definition u = pt_definition t
     \<and> pt_contract_digest u = pt_contract_digest t"

definition task_evolves :: "plan_task \<Rightarrow> plan_task \<Rightarrow> bool" where
  "task_evolves t u \<longleftrightarrow> same_contract t u \<and> plan_step\<^sup>*\<^sup>* (pt_state t) (pt_state u)"

lemma same_contract_simps [simp]:
  "same_contract t t" "same_contract t (u\<lparr>pt_state := x\<rparr>) = same_contract t u"
  "same_contract t (u\<lparr>pt_last_event := y\<rparr>) = same_contract t u"
  by (simp_all add: same_contract_def task_key_def)

lemma task_evolves_simps [simp]:
  "task_evolves t t" "task_evolves t (u\<lparr>pt_last_event := y\<rparr>) = task_evolves t u"
  by (simp_all add: task_evolves_def)

lemma task_evolves_trans: "task_evolves a b \<Longrightarrow> task_evolves b c \<Longrightarrow> task_evolves a c"
  by (auto simp: task_evolves_def same_contract_def)

lemma grows_update:
  assumes "grows R xs ys" "\<And>x y. x \<in> set xs \<Longrightarrow> R x y \<Longrightarrow> P y \<Longrightarrow> R x (f y)"
  shows "grows R xs (update_where P f ys)"
  using assms by (auto simp: grows_def update_where_def)

definition plan_since :: "project \<Rightarrow> project \<Rightarrow> bool" where
  "plan_since s0 s \<longleftrightarrow> grows task_evolves (tasks s0) (tasks s) \<and> grows (=) (events s0) (events s)
     \<and> grows (=) (revisions s0) (revisions s) \<and> grows (=) (receipts s0) (receipts s)"

lemma plan_since_refl [simp]: "plan_since s s"
  by (simp add: plan_since_def grows_refl)

lemma plan_since_trans: "plan_since s t \<Longrightarrow> plan_since t u \<Longrightarrow> plan_since s u"
  unfolding plan_since_def
  by (elim conjE, intro conjI) (rule grows_trans [of task_evolves], assumption+, erule (1) task_evolves_trans,
    (erule (1) grows_eq_trans)+)

definition plan_good :: "(string \<Rightarrow> string) \<Rightarrow> project \<Rightarrow> project \<Rightarrow> bool" where
  "plan_good H s0 s \<longleftrightarrow> plan_inv H s \<and> plan_since s0 s"

lemma plan_good_fields [simp]:
  "plan_good H s0 (s\<lparr>kernel_lock := a1\<rparr>) = plan_good H s0 s" "plan_good H s0 (s\<lparr>writer_lease := a2\<rparr>) = plan_good H s0 s"
  "plan_good H s0 (s\<lparr>blobs := a3\<rparr>) = plan_good H s0 s" "plan_good H s0 (s\<lparr>objects := a4\<rparr>) = plan_good H s0 s"
  "plan_good H s0 (s\<lparr>bindings := a6\<rparr>) = plan_good H s0 s"
  "plan_good H s0 (s\<lparr>projections := a7\<rparr>) = plan_good H s0 s" "plan_good H s0 (s\<lparr>jobs := a8\<rparr>) = plan_good H s0 s"
  "plan_good H s0 (s\<lparr>effects := a9\<rparr>) = plan_good H s0 s" "plan_good H s0 (s\<lparr>steers := b1\<rparr>) = plan_good H s0 s"
  "plan_good H s0 (s\<lparr>control := b2\<rparr>) = plan_good H s0 s" "plan_good H s0 (s\<lparr>interrupts := b3\<rparr>) = plan_good H s0 s"
  "plan_good H s0 (s\<lparr>delta_runs := b4\<rparr>) = plan_good H s0 s" "plan_good H s0 (s\<lparr>delta_exits := b5\<rparr>) = plan_good H s0 s"
  "plan_good H s0 (s\<lparr>sessions := b6\<rparr>) = plan_good H s0 s" "plan_good H s0 (s\<lparr>session_current := b7\<rparr>) = plan_good H s0 s"
  "plan_good H s0 (s\<lparr>session_events := b8\<rparr>) = plan_good H s0 s" "plan_good H s0 (s\<lparr>lineage := b9\<rparr>) = plan_good H s0 s"
  "plan_good H s0 (s\<lparr>chunks := c1\<rparr>) = plan_good H s0 s" "plan_good H s0 (s\<lparr>decisions := c2\<rparr>) = plan_good H s0 s"
  "plan_good H s0 (s\<lparr>restoration := c3\<rparr>) = plan_good H s0 s" "plan_good H s0 (s\<lparr>recovery := c6\<rparr>) = plan_good H s0 s"
  "plan_good H s0 (s\<lparr>grants := c7\<rparr>) = plan_good H s0 s" "plan_good H s0 (s\<lparr>host_files := c9\<rparr>) = plan_good H s0 s"
  by (simp_all add: plan_good_def plan_since_def)

text \<open>An operation that keeps the invariant and lets the tables grow, for every earlier state.\<close>

lemma keeps_plan_good:
  assumes "keeps (plan_inv H) m" "\<And>s a s'. plan_inv H s \<Longrightarrow> m s = Inr (a, s') \<Longrightarrow> plan_since s s'"
  shows "keeps (plan_good H s0) m"
  using assms by (auto simp: valid_def plan_good_def intro: plan_since_trans)

section \<open>Operations of the Plan store\<close>

lemma put_object_since: "put_object w lane limit v s = Inr (a, s') \<Longrightarrow> plan_since s s'"
  by (erule put_object_Inr) (auto simp: plan_since_def grows_refl split: option.splits)

lemma append_receipt_since: "append_receipt w lane k b s = Inr (a, s') \<Longrightarrow> plan_since s s'"
  by (auto simp: run_simps plan_since_def grows_refl)

lemma add_event_since: "add_event w rv tid kind actor payload eid s = Inr (d, s') \<Longrightarrow> plan_since s s'"
  by (erule add_event_Inr) (auto simp: plan_since_def grows_refl intro!: grows_update_where split: option.split)

lemma prepare_projection_since: "prepare_projection w rv actor s = Inr (a, s') \<Longrightarrow> plan_since s s'"
  by (auto simp: prepare_projection_def Let_def run_simps supersede_open_def plan_since_def grows_refl)

lemma good_put_object [keeps_rules]: "keeps (plan_good H s0) (put_object w lane limit v)"
  by (rule keeps_plan_good) (auto intro: plan_put_object put_object_since)

lemma good_append_receipt [keeps_rules]: "keeps (plan_good H s0) (append_receipt w lane k b)"
  by (rule keeps_plan_good) (auto intro: plan_append_receipt append_receipt_since simp del: append_receipt_Inr)

lemma set_state_since:
  assumes "rows_ok s" "find_task rv tid s = Some row" "task_step (pt_state row) st"
  shows "plan_since s (set_state rv tid st s)"
proof -
  have keys: "distinct (map task_key (tasks s))" using assms(1) unfolding rows_ok_def by blast
  have "task_evolves t (t\<lparr>pt_state := st\<rparr>)" if "t \<in> set (tasks s)" "is_task rv tid t" for t
    using the_task [OF keys assms(2) that] assms(3) by (auto simp: task_evolves_def intro: plan_step.law)
  then show ?thesis by (simp add: plan_since_def set_state_def grows_update_where)
qed

lemma transition_rows_since:
  assumes inv: "plan_inv H s" and run: "transition_rows w l tid st rv actor eid ev s = Inr (r, s')"
  shows "plan_since s s'"
  using run
proof (cases rule: transition_rows_cases)
  case (changed h row)
  have tid: "pt_task_id row = tid" using find_taskD [OF changed(3)] by simp
  from changed(5) show ?thesis
  proof (rule change_state_Inr)
    fix s1
    assume "task_step (pt_state row) st"
      and ev: "add_event (branch 1 w) rv (Some (pt_task_id row)) ''task_transition'' actor
         (JObj (transition_payload st (pt_contract_digest row) ev
                @ [(''from_state'', JStr (task_state_name (pt_state row)))])) eid
         (set_state rv (pt_task_id row) st s) = Inr (fst r, s1)"
      and proj: "\<exists>pid. prepare_projection (branch 2 w) rv actor s1 = Inr (pid, s') \<and> snd r = Some pid"
    then have "plan_since s (set_state rv tid st s)"
      using inv changed(3) by (intro set_state_since) (auto simp: plan_inv_def)
    with add_event_since [OF ev] proj show ?thesis
      by (auto simp: tid dest!: prepare_projection_since intro: plan_since_trans)
  qed
qed simp

lemma good_transition_rows [keeps_rules]:
  "sha256 w = H \<Longrightarrow> keeps (plan_good H s0) (transition_rows w l tid st rv actor eid ev)"
  by (rule keeps_plan_good) (auto intro: plan_transition_rows transition_rows_since)

lemma insert_tasks_since: "insert_tasks H rv ts s = Inr (u, s') \<Longrightarrow> plan_since s s'"
  using insert_tasks_Inr [of H rv "enumerate 1 ts" s u s']
  by (auto simp: insert_tasks_def plan_since_def grows_append)

lemma restoration_gate_since: "require_restoration_plan H d rv s = Inr (u, s') \<Longrightarrow> plan_since s s'"
  by (erule restoration_gate_Inr) (simp add: plan_since_def grows_refl)

lemma recovery_gate_since: "require_recovery_plan d rv s = Inr (u, s') \<Longrightarrow> plan_since s s'"
  by (erule recovery_gate_Inr) (simp add: plan_since_def grows_refl)

lemma keeps_since:
  "(\<And>s a s'. m s = Inr (a, s') \<Longrightarrow> plan_since s s') \<Longrightarrow> keeps (plan_since s0) m"
  by (auto simp: valid_def intro: plan_since_trans)

lemma modify_since:
  "(\<And>s. plan_since s (f s)) \<Longrightarrow> keeps (plan_since s0) (modify f)"
  by (rule keeps_since) (simp add: run_simps)

lemma insert_row_since:
  "(\<And>s. plan_since s (upd (\<lambda>_. get s @ [r]) s)) \<Longrightarrow> keeps (plan_since s0) (insert_row get upd clash r)"
  by (rule keeps_since) (simp add: run_simps)

lemma keeps_since_ops:
  "keeps (plan_since s0) (require_restoration_plan H d rv)" "keeps (plan_since s0) (require_recovery_plan e rv)"
  "keeps (plan_since s0) (insert_tasks H rv ts)" "keeps (plan_since s0) (add_event w rv tid kind actor payload eid)"
  "keeps (plan_since s0) (append_receipt w lane k b)" "keeps (plan_since s0) (prepare_projection w rv actor)"
  by (rule keeps_since, erule restoration_gate_since recovery_gate_since insert_tasks_since add_event_since
      append_receipt_since prepare_projection_since)+

lemmas since_rules = keeps_rules modify_since insert_row_since keeps_since_ops

lemma create_rows_since: "create_rows w r actor s = Inr (u, s') \<Longrightarrow> plan_since s s'"
proof -
  have "keeps (plan_since s) (create_rows w r actor)"
    unfolding create_rows_def by (intro since_rules) (simp_all add: plan_since_def grows_refl)
  then show "create_rows w r actor s = Inr (u, s') \<Longrightarrow> plan_since s s'" by (rule validD) simp_all
qed

text \<open>While old rows are carried over, the rows from before are unchanged or superseded.\<close>

definition maybe_superseded :: "plan_task \<Rightarrow> plan_task \<Rightarrow> bool" where
  "maybe_superseded t u \<longleftrightarrow> same_contract t u \<and> (pt_state u = pt_state t \<or> pt_state u = Superseded \<and> \<not> terminal (pt_state t))"

definition carrying :: "project \<Rightarrow> project \<Rightarrow> bool" where
  "carrying s u \<longleftrightarrow> grows maybe_superseded (tasks s) (tasks u) \<and> grows (=) (events s) (events u)
     \<and> grows (=) (revisions s) (revisions u) \<and> grows (=) (receipts s) (receipts u)"

lemma maybe_superseded_evolves: "maybe_superseded t u \<Longrightarrow> task_evolves t u"
  by (auto simp: maybe_superseded_def task_evolves_def dest: plan_step.supersede)

lemma carrying_since: "carrying s u \<Longrightarrow> plan_since s u"
  by (auto simp: carrying_def plan_since_def grows_def maybe_superseded_evolves)

lemma carry_row_carrying:
  assumes keys: "distinct (map task_key (tasks s))" and bound: "\<forall>t \<in> set (tasks s). pt_revision t \<le> expected_revision r"
    and row: "snd x \<in> set (tasks s)" "pt_revision (snd x) = expected_revision r"
  shows "keeps (carrying s) (carry_row w r actor x)"
proof (rule validI)
  fix u a u'
  assume c: "carrying s u" and run: "carry_row w r actor x u = Inr (a, u')"
  obtain i t where x: "x = (i, t)" by (cases x)
  show "carrying s u'"
  proof (cases "terminal_state (pt_state t)")
    case True
    have "maybe_superseded y (z\<lparr>pt_state := p, pt_last_event := q\<rparr>)"
      if "y \<in> set (tasks s)" "maybe_superseded y z" "is_task (expected_revision r + 1) (pt_task_id t) z" for y z p q
      using that bound by (fastforce simp: maybe_superseded_def same_contract_def is_task_def task_key_def)
    with c run True show ?thesis
      by (auto simp: carry_row_def x run_simps carrying_def intro!: grows_update)
  next
    case False
    let ?t = "u\<lparr>tasks := update_where (is_task (expected_revision r) (pt_task_id t)) (\<lambda>q. q\<lparr>pt_state := Superseded\<rparr>) (tasks u)\<rparr>"
    from run False obtain d where ev: "add_event (branch i (branch 1 w)) (expected_revision r) (Some (pt_task_id t))
         ''task_contract_superseded'' actor
         (JObj [(''prior_state'', JStr (task_state_name (pt_state t))), (''new_revision'', JInt (expected_revision r + 1)),
            (''old_contract_digest'', JStr (pt_contract_digest t)),
            (''retained_task_id'', JBool (replacement_for (normalized r) (pt_task_id t) \<noteq> None))]) None ?t = Inr (d, u')"
      by (auto simp: carry_row_def x run_simps)
    have "maybe_superseded y (z\<lparr>pt_state := Superseded\<rparr>)"
      if y: "y \<in> set (tasks s)" and yz: "maybe_superseded y z" and z: "is_task (expected_revision r) (pt_task_id t) z" for y z
    proof -
      have "task_key y = task_key t" using yz z row(2) by (simp add: maybe_superseded_def same_contract_def is_task_def task_key_def x)
      then have "y = t" using key_unique [OF keys y] row(1) by (simp add: x)
      with yz False show ?thesis by (simp add: maybe_superseded_def terminal_state_terminal)
    qed
    with c have "carrying s ?t" by (auto simp: carrying_def intro!: grows_update)
    moreover have "maybe_superseded y (z\<lparr>pt_last_event := q\<rparr>) = maybe_superseded y z" for y z q
      by (simp add: maybe_superseded_def)
    ultimately show ?thesis
      using ev by (elim add_event_Inr)
        (auto simp: carrying_def intro!: grows_update intro: grows_eq_trans [OF _ grows_eq_simps(2)])
  qed
qed

lemma replace_rows_since:
  assumes run: "replace_rows w r actor (source, ctl, tasks_of (expected_revision r) s, changed) s = Inr (u, s')"
    and ok: "rows_ok s" and h: "plan_head s = Some h" "cur_revision h = expected_revision r"
  shows "plan_since s s'"
proof -
  let ?old = "tasks_of (expected_revision r) s" and ?rv = "expected_revision r + 1"
  let ?before = "bnd (require_restoration_plan (sha256 w) (source_restore_digest r) ?rv) (\<lambda>_.
     bnd (require_recovery_plan (database_recovery_digest r) ?rv) (\<lambda>_.
     bnd (insert_row revisions revisions_update revision_clash (next_revision w r actor)) (\<lambda>_.
     insert_tasks (sha256 w) ?rv (normalized r))))"
  let ?after = "bnd (supersede_jobs w (expected_revision r)) (\<lambda>_.
     bnd (modify (\<lambda>s. s\<lparr>plan_head := map_option (\<lambda>h. h\<lparr>cur_revision := ?rv\<rparr>) (plan_head s)\<rparr>)) (\<lambda>_.
     bnd (settle_steers w r) (\<lambda>_.
     bnd (resume_control w r actor source ctl) (\<lambda>_.
     bnd (add_event (branch 2 w) ?rv None ''plan_replaced'' actor
       (JObj [(''previous_revision'', JInt (expected_revision r)),
          (''document_digest'', JStr (content_digest (sha256 w) (replace_document r))),
          (''steer_request_id'', JStr (steer_request_id r)), (''source_cursor'', JStr (le_cursor source)),
          (''changed_task_ids'', jstrs (sort changed)), (''explicit_resume'', JBool (resume_after_change r))]) None) (\<lambda>_.
     bnd (append_receipt (branch 3 w) (Some ''plan'') ''plan_revision_replaced''
       [(''revision'', JInt ?rv), (''previous_revision'', JInt (expected_revision r)),
        (''document_digest'', JStr (content_digest (sha256 w) (replace_document r))),
        (''steer_request_id'', JStr (steer_request_id r)), (''engine_owned_jobs_quiescent'', JBool True),
        (''native_host_tools_attested'', JBool False)]) (\<lambda>_. ret ()))))))"
  from run obtain b t c t' where before: "?before s = Inr (b, t)"
    and carry: "each (carry_row w r actor) (enumerate 0 ?old) t = Inr (c, t')" and after: "?after t' = Inr (u, s')"
    unfolding replace_rows_def Let_def prod.case
    by (force simp: bnd_Inr simp del: append_receipt_Inr insert_row_Inr modify_Inr ret_Inr)
  have keys: "distinct (map task_key (tasks s))" and bound: "\<forall>t \<in> set (tasks s). pt_revision t \<le> expected_revision r"
    using ok h unfolding rows_ok_def row_ok_def by fastforce+
  have "carrying s t"
    using before by (auto simp: run_simps carrying_def grows_append insert_tasks_def maybe_superseded_def
        dest!: insert_tasks_Inr elim!: restoration_gate_Inr recovery_gate_Inr)
  moreover have "keeps (carrying s) (each (carry_row w r actor) (enumerate 0 ?old))"
    by (rule keeps_each_in, rule carry_row_carrying [OF keys bound])
      (auto simp: enumerate_eq_zip tasks_of_def dest!: set_zip_rightD)
  ultimately have "plan_since s t'" using carry by (blast dest: validD intro: carrying_since)
  moreover have "keeps (plan_since s) ?after"
    unfolding supersede_jobs_def settle_steers_def resume_control_def
    by (intro since_rules) (simp_all add: plan_since_def grows_refl)
  ultimately show ?thesis using after by (blast dest: validD)
qed

lemma good_create_plan [keeps_rules]:
  assumes "sha256 w = H"
  shows "keeps (plan_good H s0) (create_plan w vd l r actor)"
proof (rule keeps_plan_good)
  fix s a s'
  have "keeps (plan_since s) (create_plan w vd l r actor)"
    unfolding create_plan_def by (intro since_rules keeps_since [of "create_rows w r actor"]) (erule create_rows_since)
  then show "create_plan w vd l r actor s = Inr (a, s') \<Longrightarrow> plan_since s s'" by (rule validD) simp_all
qed (rule plan_create_plan [OF assms])

lemma replace_plan_since:
  assumes inv: "plan_inv H s" and run: "replace_plan w vd l r actor s = Inr (a, s')"
  shows "plan_since s s'"
proof (rule replace_plan_cases [OF run])
  fix t rv pid
  assume "t = s" "prepare_projection (branch 4 w) rv actor t = Inr (pid, s')"
  then show ?thesis using prepare_projection_since by simp
next
  fix t rv pid source ctl old changed t0
  assume checks: "replace_checks w vd r actor s = Inr ((source, ctl, old, changed), t0)"
    and rows: "replace_rows w r actor (source, ctl, old, changed) t0 = Inr ((), t)"
    and proj: "prepare_projection (branch 4 w) rv actor t = Inr (pid, s')"
  from checks show ?thesis
  proof (rule replace_checks_Inr)
    fix h
    assume "t0 = s" "plan_head s = Some h" "cur_revision h = expected_revision r" "old = tasks_of (expected_revision r) s"
    with replace_rows_since [of w r actor source ctl s changed "()" t h] rows inv
    have "plan_since s t" by (simp add: plan_inv_def)
    with prepare_projection_since [OF proj] show ?thesis by (rule plan_since_trans [rotated])
  qed
qed

lemma good_replace_plan [keeps_rules]: "sha256 w = H \<Longrightarrow> keeps (plan_good H s0) (replace_plan w vd l r actor)"
  by (rule keeps_plan_good) (auto intro: plan_replace_plan replace_plan_since)

lemma good_transition_task [keeps_rules]:
  "sha256 w = H \<Longrightarrow> keeps (plan_good H s0) (transition_task w l tid st rv actor eid ev)"
  unfolding transition_task_def by (intro keeps_rules)

section \<open>What growth says\<close>

lemma grows_take_map:
  "grows R xs ys \<Longrightarrow> (\<And>x y. R x y \<Longrightarrow> f y = f x) \<Longrightarrow> map f (take (length xs) ys) = map f xs"
  by (rule nth_equalityI) (auto simp: grows_def)

lemma grows_zip: "grows R xs ys \<Longrightarrow> (a, b) \<in> set (zip xs ys) \<Longrightarrow> R a b"
  by (auto simp: grows_def set_zip)

lemma plan_since_tables:
  assumes "plan_since s t"
  shows "map (\<lambda>r. (task_key r, pt_position r, pt_definition r, pt_contract_digest r)) (take (length (tasks s)) (tasks t))
     = map (\<lambda>r. (task_key r, pt_position r, pt_definition r, pt_contract_digest r)) (tasks s)
   \<and> take (length (events s)) (events t) = events s
   \<and> take (length (revisions s)) (revisions t) = revisions s
   \<and> take (length (receipts s)) (receipts t) = receipts s"
  using assms unfolding plan_since_def
  by (auto simp: grows_eq_append task_evolves_def same_contract_def intro!: grows_take_map)

lemma plan_since_final:
  "plan_since s t \<Longrightarrow>
     filter (\<lambda>(a, b). terminal (pt_state a) \<and> pt_state b \<noteq> pt_state a) (zip (tasks s) (tasks t)) = []"
  unfolding plan_since_def
  by (auto simp: filter_empty_conv task_evolves_def dest!: grows_zip plan_steps_terminal)

end
