(* ===== verification/Capture.thy ===== *)
theory Capture
  imports Lineage
begin

text \<open>
  Capture routing (capture_routing.py) and the structural part of redaction (redaction.py): the route
  that keeps a payload or replaces it by its digests, the hash-chained decisions, the check of
  resupplied text, the normal form of a host hook and the table of bound host sessions.
  \<open>clean\<close> stands for \<open>redact_text\<close>, the substitutions of Python's regular expressions in one text.
\<close>

section \<open>Redaction of values\<close>

definition SECRET_KEYS :: "string list" where
  "SECRET_KEYS = [''authorization'', ''cookie'', ''set_cookie'', ''api_key'', ''apikey'', ''access_token'',
     ''refresh_token'', ''token'', ''password'', ''secret'', ''client_secret'', ''private_key'', ''credential'']"

definition secret_key :: "string \<Rightarrow> bool" where
  "secret_key k \<longleftrightarrow> key_name k \<in> set SECRET_KEYS"

primrec redact :: "(string \<Rightarrow> string) \<Rightarrow> json \<Rightarrow> json" where
  "redact clean JNull = JNull"
| "redact clean (JBool b) = JBool b"
| "redact clean (JInt i) = JInt i"
| "redact clean (JStr s) = JStr (clean s)"
| "redact clean (JArr vs) = JArr (map (redact clean) vs)"
| "redact clean (JObj kvs) = JObj (map (\<lambda>kv. (fst kv, if secret_key (fst kv) then JStr ''[REDACTED]'' else snd kv))
     (map (map_prod id (redact clean)) kvs))"

section \<open>The route of a payload\<close>

definition ENV_BUILDER_SPARSE :: string where "ENV_BUILDER_SPARSE = ''ENV_BUILDER_SPARSE''"
definition GOVERNED_PROJECT_FULL :: string where "GOVERNED_PROJECT_FULL = ''GOVERNED_PROJECT_FULL''"
definition CAPTURE_ENVELOPE :: string where "CAPTURE_ENVELOPE = ''__evidence_lane_capture__''"

definition HOOK_EVENT_ORDER :: "string list" where
  "HOOK_EVENT_ORDER = [''SessionStart'', ''SubagentStart'', ''UserPromptSubmit'', ''PreToolUse'', ''PermissionRequest'',
     ''PostToolUse'', ''PreCompact'', ''PostCompact'', ''Stop'', ''SubagentStop'', ''Interrupt'', ''SessionEnd'']"

text \<open>\<open>_project_ids\<close>: every project named anywhere in a value, except under \<open>source_project_id\<close>.\<close>

fun project_ids :: "json \<Rightarrow> string list"
  and project_ids_fields :: "(string \<times> json) list \<Rightarrow> string list"
  and project_ids_items :: "json list \<Rightarrow> string list" where
  "project_ids (JObj kvs) = project_ids_fields kvs"
| "project_ids (JArr vs) = project_ids_items vs"
| "project_ids v = []"
| "project_ids_fields [] = []"
| "project_ids_fields ((k, v) # kvs) =
     (let name = key_name (strip k) in
      (if name = ''project_id'' \<and> (case v of JStr t \<Rightarrow> \<not> blank t | _ \<Rightarrow> False)
       then [strip (case v of JStr t \<Rightarrow> t | _ \<Rightarrow> [])]
       else if name \<noteq> ''source_project_id'' then project_ids v else [])) @ project_ids_fields kvs"
| "project_ids_items [] = []"
| "project_ids_items (v # vs) = project_ids v @ project_ids_items vs"

definition capture_text_digest :: "(string \<Rightarrow> string) \<Rightarrow> json \<Rightarrow> json result" where
  "capture_text_digest H payload =
     (case jget payload CAPTURE_ENVELOPE of
        Some (JObj env) \<Rightarrow> jitem (JObj env) ''text_digest''
      | _ \<Rightarrow> Inr (JStr (H (strip (case jget payload ''text'' of None \<Rightarrow> [] | Some v \<Rightarrow> py_str v)))))"

definition raw_text_digest :: "(string \<Rightarrow> string) \<Rightarrow> json \<Rightarrow> json" where
  "raw_text_digest H payload = (case jget payload ''text'' of Some (JStr t) \<Rightarrow> JStr (H t) | _ \<Rightarrow> JNull)"

definition included :: "string \<Rightarrow> string \<Rightarrow> bool" where
  "included route kind \<longleftrightarrow> route = GOVERNED_PROJECT_FULL
     \<or> kind \<in> {''receipt'', ''session'', ''interrupt'', ''handoff''}"

definition decision_of :: "(string \<Rightarrow> string) \<Rightarrow> project \<Rightarrow> string \<Rightarrow> json \<Rightarrow> json \<Rightarrow> (string \<times> json) list" where
  "decision_of H s kind payload text_digest =
     [(''capture_route'', JStr (capture_route s)), (''registration_digest'', JStr (registration_digest s)),
      (''payload_included'', JBool (included (capture_route s) kind)), (''input_digest'', JStr (content_digest H payload)),
      (''text_digest'', text_digest), (''input_truncated'', JBool (jget payload ''truncated'' = Some (JBool True))),
      (''raw_text_digest'', raw_text_digest H payload),
      (''hook_event_name'', case jget payload ''hook_event_name'' of
         Some (JStr h) \<Rightarrow> if h \<in> set HOOK_EVENT_ORDER then JStr h else JNull | _ \<Rightarrow> JNull)]"

text \<open>\<open>filter\<close>: the payload to store and the decision.\<close>

definition filter_payload ::
  "(string \<Rightarrow> string) \<Rightarrow> project \<Rightarrow> string \<Rightarrow> json \<Rightarrow> (json \<times> (string \<times> json) list) result" where
  "filter_payload H s kind payload =
     (if jget payload CAPTURE_ENVELOPE \<noteq> None then Inl (LaneError ''CAPTURE_METADATA_RESERVED'')
      else if list_ex (\<lambda>p. p \<noteq> project_id s) (project_ids payload) then Inl (LaneError ''CAPTURE_PROJECT_MISMATCH'')
      else rbind (capture_text_digest H payload) (\<lambda>td.
        let d = decision_of H s kind payload td in
        Inr (if included (capture_route s) kind then payload else JObj [(CAPTURE_ENVELOPE, JObj d)], d)))"

text \<open>\<open>resolve_visible_source\<close>: text supplied again is accepted when it has the captured digest.\<close>

definition expected_digest :: "(string \<Rightarrow> string) \<Rightarrow> json \<Rightarrow> json result" where
  "expected_digest H stored =
     (case jfield stored CAPTURE_ENVELOPE of
        Some env \<Rightarrow> jitem env ''raw_text_digest''
      | None \<Rightarrow> Inr (raw_text_digest H stored))"

definition resolve_visible_source ::
  "(string \<Rightarrow> string) \<Rightarrow> (string \<Rightarrow> string) \<Rightarrow> json \<Rightarrow> string option \<Rightarrow> json result" where
  "resolve_visible_source H clean stored supplied =
     (case supplied of
        None \<Rightarrow> if jfield stored CAPTURE_ENVELOPE \<noteq> None then Inl (LaneError ''CAPTURE_SOURCE_RESUPPLY_REQUIRED'') else Inr stored
      | Some text \<Rightarrow>
          if MAX_VISIBLE_BYTES < utf8_size (clean text) then Inl (LaneError ''VISIBLE_CONTENT_TOO_LARGE'')
          else rbind (expected_digest H stored) (\<lambda>expected.
            if expected \<noteq> JStr (H (clean text)) then Inl (LaneError ''CAPTURE_SOURCE_MISMATCH'')
            else (case jfield stored CAPTURE_ENVELOPE of
                None \<Rightarrow> Inr stored
              | Some env \<Rightarrow> rbind (jitem env ''input_truncated'') (\<lambda>t.
                  Inr (JObj [(''text'', JStr (clean text)), (''truncated'', t)])))))"

section \<open>Decisions\<close>

text \<open>\<open>_validate\<close>.\<close>

definition decision_row_ok :: "(string \<Rightarrow> string) \<Rightarrow> capture_decision \<Rightarrow> bool" where
  "decision_row_ok H d \<longleftrightarrow> is_object (cd_body d) \<and> content_digest H (cd_body d) = cd_digest d
     \<and> items_are (cd_body d) [(''sequence'', JInt (int (cd_sequence d))), (''event_id'', JStr (cd_event_id d)),
         (''previous_digest'', jopt (cd_previous d))] = Inr True"

definition validate_decision :: "(string \<Rightarrow> string) \<Rightarrow> capture_decision \<Rightarrow> json result" where
  "validate_decision H d = (if decision_row_ok H d then Inr (cd_body d) else Inl (LaneError ''CAPTURE_DECISION_INTEGRITY''))"

definition decision_body ::
  "world \<Rightarrow> project \<Rightarrow> (string \<times> json) list \<Rightarrow> append_result \<Rightarrow> string \<Rightarrow> string \<Rightarrow> nat \<Rightarrow> string option \<Rightarrow> json" where
  "decision_body w s decision r client prov n previous =
     JObj (decision @ [(''schema'', JStr ''evidence-lane.capture-decision.v4''), (''sequence'', JInt (int n)),
       (''previous_digest'', jopt previous), (''project_id'', JStr (project_id s)), (''event_id'', JStr (ar_event_id r)),
       (''cursor'', JStr (ar_cursor r)), (''stored_payload_digest'', JStr (ar_payload_digest r)),
       (''client_id'', JStr client), (''provenance'', JStr prov), (''recorded_at'', JStr (now w)),
       (''event_content_authorizes_work'', JBool False), (''native_task_attestation'', JStr ''not_provided'')])"

definition new_decision ::
  "world \<Rightarrow> (string \<times> json) list \<Rightarrow> append_result \<Rightarrow> string \<Rightarrow> string \<Rightarrow> project \<Rightarrow> capture_decision" where
  "new_decision w decision r client prov s =
     (let p = latest cd_sequence (decisions s);
          n = (case p of None \<Rightarrow> 1 | Some d \<Rightarrow> cd_sequence d + 1);
          prev = map_option cd_digest p;
          body = decision_body w s decision r client prov n prev
      in \<lparr>cd_sequence = n, cd_event_id = ar_event_id r, cd_previous = prev, cd_digest = content_digest (sha256 w) body,
          cd_body = body\<rparr>)"

definition decision_clash :: "capture_decision \<Rightarrow> capture_decision \<Rightarrow> bool" where
  "decision_clash a b \<longleftrightarrow> cd_sequence a = cd_sequence b \<or> cd_event_id a = cd_event_id b \<or> cd_digest a = cd_digest b"

definition record_decision ::
  "world \<Rightarrow> lease \<Rightarrow> (string \<times> json) list \<Rightarrow> append_result \<Rightarrow> string \<Rightarrow> string \<Rightarrow> (project, unit) action" where
  "record_decision w l decision r client prov =
     in_transaction w l
       (bnd (gets (\<lambda>s. latest cd_sequence (decisions s))) (\<lambda>previous.
        bnd (case previous of None \<Rightarrow> ret () | Some p \<Rightarrow>
          bnd (lift_result (validate_decision (sha256 w) p)) (\<lambda>_. ret ())) (\<lambda>_.
        bnd (gets (new_decision w decision r client prov)) (\<lambda>d.
        bnd (insert_row decisions decisions_update decision_clash d) (\<lambda>_.
        bnd (append_receipt w (Some ''receipts'') ''capture_policy_decision''
          [(''event_id'', JStr (ar_event_id r)), (''decision_digest'', JStr (cd_digest d)),
           (''payload_included'', JBool (map_of decision ''payload_included'' = Some (JBool True)))]) (\<lambda>_. ret ()))))))"

text \<open>
  \<open>ChatLineage.append\<close> with its own screening: redaction, the size bound, the capture route, and the
  decision recorded with a new event.
\<close>

definition screened ::
  "(string \<Rightarrow> string) \<Rightarrow> (string \<Rightarrow> string) \<Rightarrow> project \<Rightarrow> string \<Rightarrow> json \<Rightarrow> (json \<times> (string \<times> json) list) result" where
  "screened H clean s kind visible =
     (if MAX_VISIBLE_BYTES < json_bytes (redact clean visible) then Inl (LaneError ''VISIBLE_CONTENT_TOO_LARGE'')
      else filter_payload H s kind (redact clean visible))"

definition screen_payload ::
  "(string \<Rightarrow> string) \<Rightarrow> (string \<Rightarrow> string) \<Rightarrow> project \<Rightarrow> string \<Rightarrow> json \<Rightarrow> json result" where
  "screen_payload H clean s kind visible = rbind (screened H clean s kind visible) (\<lambda>p. Inr (fst p))"

definition capture_event ::
  "world \<Rightarrow> (string \<Rightarrow> string) \<Rightarrow> lease \<Rightarrow> lineage_record \<Rightarrow> string \<Rightarrow> string \<Rightarrow> (project, append_result) action" where
  "capture_event w clean l r client prov = (\<lambda>s.
     bnd (append_event w (screen_payload (sha256 w) clean s) l r client prov) (\<lambda>res.
     if ar_duplicate res then ret res
     else bnd (lift_result (rbind (visible_payload (lr_payload r)) (screened (sha256 w) clean s (lr_kind r)))) (\<lambda>(_, decision).
          bnd (record_decision (branch 6 w) l decision res client prov) (\<lambda>_. ret res))) s)"

text \<open>\<open>_verify\<close>: the chain, the binding to this project, and the stored content of every decision.\<close>

definition ENVELOPE_KEYS :: "string list" where
  "ENVELOPE_KEYS = [''capture_route'', ''registration_digest'', ''payload_included'', ''input_digest'', ''text_digest'',
     ''input_truncated'', ''raw_text_digest'', ''hook_event_name'']"

definition integrity :: "bool result \<Rightarrow> unit result" where
  "integrity r = rbind r (\<lambda>ok. if ok then Inr () else Inl (LaneError ''CAPTURE_DECISION_INTEGRITY''))"

definition content_matches :: "(string \<Rightarrow> string) \<Rightarrow> json \<Rightarrow> json \<Rightarrow> bool result" where
  "content_matches H body payload =
     rbind (jitem body ''payload_included'') (\<lambda>inc.
     if truthy inc then
       rbind (jitem body ''input_digest'') (\<lambda>d.
       Inr (jget payload CAPTURE_ENVELOPE = None \<and> d = JStr (content_digest H payload)))
     else rbind (rcollect (\<lambda>k. rbind (jitem body k) (\<lambda>v. Inr (k, v))) ENVELOPE_KEYS) (\<lambda>kvs.
       Inr (same_value payload (JObj [(CAPTURE_ENVELOPE, JObj kvs)]))))"

definition verify_decision ::
  "(string \<Rightarrow> string) \<Rightarrow> project \<Rightarrow> nat \<Rightarrow> string option \<Rightarrow> capture_decision \<Rightarrow> unit result" where
  "verify_decision H s n previous d =
     rbind (validate_decision H d) (\<lambda>body.
     rbind (integrity (if cd_sequence d = n \<and> cd_previous d = previous
       then items_are body [(''project_id'', JStr (project_id s)), (''capture_route'', JStr (capture_route s)),
         (''registration_digest'', JStr (registration_digest s))] else Inr False)) (\<lambda>_.
     (case find_event (cd_event_id d) s of
        None \<Rightarrow> Inl (LaneError ''CAPTURE_DECISION_INTEGRITY'')
      | Some e \<Rightarrow>
          rbind (integrity (items_are body [(''cursor'', JStr (le_cursor e)), (''client_id'', JStr (le_client e)),
            (''provenance'', JStr (le_provenance e)), (''stored_payload_digest'', JStr (le_payload_digest e))])) (\<lambda>_.
          rbind (validate_row H e) (\<lambda>_.
          rbind (read_object H ''chat_lineage'' (le_payload_digest e) s) (\<lambda>payload.
          integrity (content_matches H body payload)))))))"

fun decision_walk ::
  "(string \<Rightarrow> string) \<Rightarrow> project \<Rightarrow> nat \<Rightarrow> string option \<Rightarrow> capture_decision list \<Rightarrow> string option result" where
  "decision_walk H s n previous [] = Inr previous"
| "decision_walk H s n previous (d # ds) =
     rbind (verify_decision H s n previous d) (\<lambda>_. decision_walk H s (Suc n) (Some (cd_digest d)) ds)"

definition verify_decisions :: "(string \<Rightarrow> string) \<Rightarrow> int \<Rightarrow> project \<Rightarrow> (nat \<times> string option) result" where
  "verify_decisions H limit s =
     (if \<not> (1 \<le> limit \<and> limit \<le> 50000) then Inl (LaneError ''CAPTURE_HISTORY_BUDGET'')
      else if limit < int (length (decisions s)) then Inl (LaneError ''CAPTURE_HISTORY_BUDGET'')
      else rbind (decision_walk H s 1 None (sort_key cd_sequence (decisions s))) (\<lambda>p. Inr (length (decisions s), p)))"

section \<open>Hooks\<close>

text \<open>\<open>_text\<close>: a bounded text field of a hook.\<close>

definition hook_text :: "json \<Rightarrow> string \<Rightarrow> bool \<Rightarrow> nat \<Rightarrow> string option result" where
  "hook_text event k required limit =
     (case jfield event k of
        None \<Rightarrow> if required then Inl (LaneError ''HOOK_INPUT_INVALID'') else Inr None
      | Some (JStr t) \<Rightarrow> if t = [] \<or> limit < length t \<or> CHR 0x00 \<in> set t then Inl (LaneError ''HOOK_INPUT_INVALID'') else Inr (Some t)
      | Some _ \<Rightarrow> Inl (LaneError ''HOOK_INPUT_INVALID''))"

definition needed_text :: "json \<Rightarrow> string \<Rightarrow> nat \<Rightarrow> string result" where
  "needed_text event k limit = rbind (hook_text event k True limit) (\<lambda>t. Inr (case t of None \<Rightarrow> [] | Some x \<Rightarrow> x))"

text \<open>\<open>seal_observer_identity\<close>: the child identity of a hook is replaced by its digest.\<close>

definition seal_observer_identity :: "(string \<Rightarrow> string) \<Rightarrow> (string \<times> json) list \<Rightarrow> json result" where
  "seal_observer_identity H kvs =
     rbind (needed_text (JObj kvs) ''agent_id'' 200) (\<lambda>agent.
     rbind (needed_text (JObj kvs) ''agent_type'' 200) (\<lambda>_.
     Inr (JObj (put_field (filter (\<lambda>kv. fst kv \<noteq> ''agent_id'') kvs) ''agent_id_sha256'' (JStr (H agent))))))"

text \<open>
  \<open>_bound_payload\<close>: at most 2000 nodes, 12 levels, 64 entries of a container and 12000 characters of a
  text. The state is the number of nodes left and whether anything was cut.
\<close>

definition omitted :: json where
  "omitted = JStr ''[OMITTED: capture structure limit]''"

definition bound_text :: "string \<Rightarrow> json \<times> bool" where
  "bound_text t = (if 12000 < length t then (JStr (take 12000 t @ ''[TRUNCATED]''), True) else (JStr t, False))"

fun bound_visit :: "nat \<Rightarrow> json \<Rightarrow> int \<times> bool \<Rightarrow> json \<times> int \<times> bool"
  and bound_fields :: "nat \<Rightarrow> nat \<Rightarrow> (string \<times> json) list \<Rightarrow> int \<times> bool \<Rightarrow> (string \<times> json) list \<times> int \<times> bool"
  and bound_items :: "nat \<Rightarrow> nat \<Rightarrow> json list \<Rightarrow> int \<times> bool \<Rightarrow> json list \<times> int \<times> bool" where
  "bound_visit d (JObj kvs) (r, tr) =
     (if r \<le> 0 \<or> 12 < d then (omitted, r - 1, True)
      else (let (fs, st) = bound_fields (Suc d) 64 kvs (r - 1, tr \<or> 64 < length kvs) in (JObj fs, st)))"
| "bound_visit d (JArr vs) (r, tr) =
     (if r \<le> 0 \<or> 12 < d then (omitted, r - 1, True)
      else (let (xs, st) = bound_items (Suc d) 64 vs (r - 1, tr \<or> 64 < length vs) in (JArr xs, st)))"
| "bound_visit d (JStr t) (r, tr) =
     (if r \<le> 0 \<or> 12 < d then (omitted, r - 1, True)
      else (let (v, cut) = bound_text t in (v, r - 1, tr \<or> cut)))"
| "bound_visit d v (r, tr) = (if r \<le> 0 \<or> 12 < d then (omitted, r - 1, True) else (v, r - 1, tr))"
| "bound_fields d 0 kvs st = ([], st)"
| "bound_fields d (Suc n) [] st = ([], st)"
| "bound_fields d (Suc n) ((k, v) # kvs) st =
     (let (x, st1) = bound_visit d v st; (fs, st2) = bound_fields d n kvs st1 in ((k, x) # fs, st2))"
| "bound_items d 0 vs st = ([], st)"
| "bound_items d (Suc n) [] st = ([], st)"
| "bound_items d (Suc n) (v # vs) st =
     (let (x, st1) = bound_visit d v st; (xs, st2) = bound_items d n vs st1 in (x # xs, st2))"

definition bound_payload :: "(string \<Rightarrow> string) \<Rightarrow> json \<Rightarrow> json result" where
  "bound_payload clean value =
     rbind (visible_payload value) (\<lambda>visible.
     let (bounded, _, truncated) = bound_visit 0 (redact clean visible) (2000, False) in
     if 60000 < json_bytes bounded
     then Inr (JObj [(''content_omitted'', JStr ''Visible payload exceeded the bounded capture size.''),
       (''truncated'', JBool True)])
     else (case bounded of
         JObj kvs \<Rightarrow> Inr (JObj (put_field kvs ''truncated'' (JBool truncated)))
       | _ \<Rightarrow> Inl (Raised ''TypeError'')))"

definition VISIBLE_TOOLS :: "string list" where
  "VISIBLE_TOOLS = [''Bash'', ''apply_patch'', ''update_plan'', ''create_goal'', ''get_goal'', ''update_goal'',
     ''request_user_input'', ''request_user_input_async'', ''view_image'', ''list_mcp_resources'',
     ''list_mcp_resource_templates'', ''read_mcp_resource'']"

text \<open>The allowlist \<open>_VISIBLE_TOOLS\<close> without the tools that read the capture itself.\<close>

definition visible_tool :: "string \<Rightarrow> bool" where
  "visible_tool t \<longleftrightarrow> (t \<in> set VISIBLE_TOOLS \<or> starts ''mcp__'' t \<and> 5 < length t \<and> CHR 0x0A \<notin> set (drop 5 t))
     \<and> \<not> contains ''__lineage_'' t \<and> \<not> contains ''__capture_'' t"

definition got :: "json \<Rightarrow> string \<Rightarrow> json" where
  "got v k = (case jget v k of None \<Rightarrow> JNull | Some x \<Rightarrow> x)"

text \<open>What each hook contributes: the event kind, the tool call identifier and the fields of the payload.\<close>

definition tool_fields :: "json \<Rightarrow> string \<Rightarrow> (string \<times> string option \<times> (string \<times> json) list) result" where
  "tool_fields event name =
     rbind (needed_text event ''tool_name'' 200) (\<lambda>tool.
     rbind (hook_text event ''tool_use_id'' (name \<noteq> ''PermissionRequest'') 200) (\<lambda>tool_id.
     Inr (if name = ''PostToolUse'' then ''tool_result'' else ''tool_call'', tool_id,
       (''tool_name'', JStr tool) #
       (if visible_tool tool
        then (''tool_input'', got event ''tool_input'')
             # (if name = ''PostToolUse'' then [(''tool_response'', got event ''tool_response'')] else [])
        else [(''content_omitted'', JStr ''Tool content is outside the visible capture allowlist.'')]))))"

definition child_fields :: "json \<Rightarrow> (string \<times> string option \<times> (string \<times> json) list) result" where
  "child_fields event =
     rbind (needed_text event ''agent_id_sha256'' 64) (\<lambda>digest.
     if jget event ''agent_id'' \<noteq> None \<or> \<not> digest_pattern digest then Inl (LaneError ''HOOK_INPUT_INVALID'')
     else rbind (needed_text event ''agent_type'' 200) (\<lambda>agent_type.
       Inr (''session'', None, [(''agent_id_sha256'', JStr digest), (''agent_type_reported'', JStr agent_type),
         (''identity_provenance'', JStr ''reported_unverified''), (''observation_scope'', JStr ''bound_parent_session''),
         (''subagent_control_emitted'', JBool False), (''execution_authorized'', JBool False)])))"

definition stop_fields :: "json \<Rightarrow> (string \<times> string option \<times> (string \<times> json) list) result" where
  "stop_fields event =
     (let message = got event ''last_assistant_message'' in
      if message \<noteq> JNull \<and> as_text (Some message) = None then Inl (LaneError ''HOOK_INPUT_INVALID'')
      else Inr (''assistant'', None, [(''text'', message), (''message_available'', JBool (message \<noteq> JNull)),
        (''continued_stop'', JBool (jget event ''stop_hook_active'' = Some (JBool True)))]))"

definition hook_fields :: "json \<Rightarrow> string \<Rightarrow> (string \<times> string option \<times> (string \<times> json) list) result" where
  "hook_fields event name =
     (if name = ''UserPromptSubmit'' then
        (case as_text (jget event ''prompt'') of
           None \<Rightarrow> Inl (LaneError ''HOOK_INPUT_INVALID'')
         | Some t \<Rightarrow> Inr (''prompt'', None, [(''text'', JStr t)]))
      else if name \<in> {''PreToolUse'', ''PostToolUse'', ''PermissionRequest''} then tool_fields event name
      else if name = ''Stop'' then stop_fields event
      else if name \<in> {''SubagentStart'', ''SubagentStop''} then child_fields event
      else if name = ''Interrupt'' then Inr (''interrupt'', None, [])
      else Inr (''session'', None, [(''source'', got event ''source''), (''reason'', got event ''reason''),
        (''trigger'', got event ''trigger'')]))"

definition normalize_hook :: "(string \<Rightarrow> string) \<Rightarrow> string \<Rightarrow> json \<Rightarrow> lineage_record result" where
  "normalize_hook clean eid event =
     rbind (needed_text event ''hook_event_name'' 200) (\<lambda>name.
     if name \<notin> set HOOK_EVENT_ORDER then Inl (LaneError ''HOOK_EVENT_UNSUPPORTED'')
     else rbind (needed_text event ''session_id'' 128) (\<lambda>session.
       rbind (hook_text event ''turn_id'' False 128) (\<lambda>turn.
       rbind (hook_text event ''model'' False 200) (\<lambda>model.
       rbind (hook_fields event name) (\<lambda>(kind, tool_id, fields).
       rbind (bound_payload clean (JObj ((''hook_event_name'', JStr name) # (''model_reported'', jopt model) # fields))) (\<lambda>payload.
       let r = \<lparr>lr_event_id = eid, lr_kind = kind, lr_payload = payload, lr_parent = None, lr_session = Some session,
                lr_turn = turn, lr_tool_use = tool_id\<rparr>
       in rbind (check_record r) (\<lambda>_. Inr r)))))))"

section \<open>Bound host sessions\<close>

text \<open>\<open>CaptureRouter._bindings\<close>: the reported sessions and the client and project they capture for.\<close>

record capture_binding =
  cb_client :: string
  cb_project :: string

type_synonym router = "(string \<times> capture_binding) list"

definition drop_session :: "string \<Rightarrow> router \<Rightarrow> router" where
  "drop_session k bs = filter (\<lambda>b. fst b \<noteq> k) bs"

definition put_session :: "string \<Rightarrow> capture_binding \<Rightarrow> router \<Rightarrow> router" where
  "put_session k b bs = (if k \<in> fst ` set bs then map (\<lambda>x. if fst x = k then (k, b) else x) bs else bs @ [(k, b)])"

text \<open>\<open>session_transition\<close>: the check before the session's commit, and the publication after it.\<close>

definition transition_allowed ::
  "capture_binding \<Rightarrow> string \<Rightarrow> string option \<Rightarrow> bool \<Rightarrow> router \<Rightarrow> unit result" where
  "transition_allowed selected reported previous_client close bs =
     (let existing = map_of bs reported;
          previous = (case previous_client of None \<Rightarrow> None
            | Some c \<Rightarrow> if c = [] then None else Some \<lparr>cb_client = c, cb_project = cb_project selected\<rparr>)
      in if existing \<noteq> None \<and> existing \<noteq> Some selected \<and> existing \<noteq> previous
         then Inl (LaneError ''CAPTURE_SESSION_ALREADY_BOUND'')
         else if \<not> close \<and> existing = None \<and> 256 \<le> length bs then Inl (LaneError ''CAPTURE_BINDING_LIMIT'')
         else Inr ())"

definition transition_publish ::
  "capture_binding \<Rightarrow> string \<Rightarrow> string option \<Rightarrow> string option \<Rightarrow> bool \<Rightarrow> router \<Rightarrow> router" where
  "transition_publish selected reported previous_client previous_session close bs =
     (let previous = (case previous_client of None \<Rightarrow> None
            | Some c \<Rightarrow> if c = [] then None else Some \<lparr>cb_client = c, cb_project = cb_project selected\<rparr>);
          bs1 = (case previous_session of None \<Rightarrow> bs
            | Some k \<Rightarrow> if k \<noteq> [] \<and> map_of bs k = previous then drop_session k bs else bs)
      in if close then (if map_of bs1 reported = Some selected then drop_session reported bs1 else bs1)
         else put_session reported selected bs1)"

definition session_bound :: "string \<Rightarrow> string \<Rightarrow> string \<Rightarrow> router \<Rightarrow> bool" where
  "session_bound client pid reported bs \<longleftrightarrow> map_of bs reported = Some \<lparr>cb_client = client, cb_project = pid\<rparr>"

definition detach_project :: "string \<Rightarrow> string \<Rightarrow> router \<Rightarrow> router" where
  "detach_project client pid bs = filter (\<lambda>b. snd b \<noteq> \<lparr>cb_client = client, cb_project = pid\<rparr>) bs"

text \<open>\<open>bind\<close>: \<open>authentic\<close> tells which local clients still authenticate with the engine.\<close>

definition bind_session :: "(string \<Rightarrow> bool) \<Rightarrow> string \<Rightarrow> string \<Rightarrow> string \<Rightarrow> router \<Rightarrow> unit result \<times> router" where
  "bind_session authentic client pid reported bs =
     (let live = filter (\<lambda>b. authentic (cb_client (snd b))) bs;
          selected = \<lparr>cb_client = client, cb_project = pid\<rparr>
      in case map_of live reported of
           Some b \<Rightarrow> if b \<noteq> selected then (Inl (LaneError ''CAPTURE_SESSION_ALREADY_BOUND''), live) else (Inr (), live)
         | None \<Rightarrow> if 256 \<le> length live then (Inl (LaneError ''CAPTURE_BINDING_LIMIT''), live)
             else (Inr (), put_session reported selected live))"

section \<open>What a capture keeps of the input\<close>

text \<open>The texts among the values of a JSON value.\<close>

primrec json_texts :: "json \<Rightarrow> string list" where
  "json_texts JNull = []"
| "json_texts (JBool b) = []"
| "json_texts (JInt i) = []"
| "json_texts (JStr s) = [s]"
| "json_texts (JArr vs) = concat (map json_texts vs)"
| "json_texts (JObj kvs) = concat (map snd (map (map_prod id json_texts) kvs))"

lemma filter_payload_Inr:
  "filter_payload H s kind payload = Inr (stored, d) \<longleftrightarrow>
     jget payload CAPTURE_ENVELOPE = None \<and> list_all (\<lambda>p. p = project_id s) (project_ids payload)
     \<and> d = decision_of H s kind payload (JStr (H (strip (case jget payload ''text'' of None \<Rightarrow> [] | Some v \<Rightarrow> py_str v))))
     \<and> stored = (if included (capture_route s) kind then payload else JObj [(CAPTURE_ENVELOPE, JObj d)])"
  by (auto simp: filter_payload_def capture_text_digest_def Let_def run_simps list_ex_iff list_all_iff split: if_splits)

lemma envelope_texts:
  assumes "filter_payload H s kind payload = Inr (stored, d)" "\<not> included (capture_route s) kind"
  shows "filter (\<lambda>t. t \<notin> {capture_route s, registration_digest s} \<and> t \<notin> set HOOK_EVENT_ORDER \<and> t \<notin> range H) (json_texts stored) = []"
  using assms
  by (auto simp: filter_payload_Inr decision_of_def raw_text_digest_def content_digest_def filter_empty_conv
      split: option.splits json.splits if_splits)

section \<open>Properties\<close>

text \<open>
  C37. A sparse capture keeps no text of its input: unless the route or the kind includes the payload,
  every text in what is stored is the capture route, the registration digest, a name of a known hook
  event or a digest.
\<close>

theorem sparse_capture_keeps_no_text:
  "case screened H clean s kind visible of
     Inl e \<Rightarrow> True
   | Inr (stored, decision) \<Rightarrow> included (capture_route s) kind
       \<or> filter (\<lambda>t. t \<notin> {capture_route s, registration_digest s} \<and> t \<notin> set HOOK_EVENT_ORDER \<and> t \<notin> range H)
           (json_texts stored) = []"
  using envelope_texts [of H s kind "redact clean visible"]
  by (auto simp: screened_def split: sum.split prod.split if_splits)

text \<open>
  Resupplied text is accepted exactly when its digest is the captured one: for every capture of a
  payload with a text, in full or as digests, text supplied again within the size limit resolves the
  source when its redacted form has the same digest as the captured text, and is refused otherwise.
\<close>

theorem resupplied_text_needs_its_digest:
  "case filter_payload H s kind payload of
     Inl e \<Rightarrow> True
   | Inr (stored, d) \<Rightarrow> (case jget payload ''text'' of
       Some (JStr t) \<Rightarrow>
         resolve_visible_source H clean stored (Some x) =
           (if MAX_VISIBLE_BYTES < utf8_size (clean x) then Inl (LaneError ''VISIBLE_CONTENT_TOO_LARGE'')
            else if H (clean x) \<noteq> H t then Inl (LaneError ''CAPTURE_SOURCE_MISMATCH'')
            else if included (capture_route s) kind then Inr payload
            else Inr (JObj [(''text'', JStr (clean x)), (''truncated'', JBool (jget payload ''truncated'' = Some (JBool True)))]))
     | _ \<Rightarrow> True)"
proof (cases "filter_payload H s kind payload")
  case (Inr r)
  obtain stored d where r: "r = (stored, d)" by (cases r)
  note f = Inr [unfolded r filter_payload_Inr]
  show ?thesis
  proof (cases "included (capture_route s) kind")
    case True
    with f show ?thesis unfolding Inr r
      by (auto simp: resolve_visible_source_def expected_digest_def jfield_def raw_text_digest_def rbind_def
          split: option.split json.split)
  next
    case False
    with f show ?thesis unfolding Inr r
      by (auto simp: resolve_visible_source_def expected_digest_def jfield_def raw_text_digest_def jitem_def decision_of_def
          rbind_def split: option.split json.split)
  qed
qed simp

end
