(* ===== verification/Steering.thy ===== *)
theory Steering
  imports Capture Plan_Store
begin

text \<open>
  Steering (steering.py): the interpretation of captured input, the queue of steers that wait for a
  safe checkpoint, the persistent stop, and the interruption of running work. A steer never changes a
  Plan row; \<open>clean\<close> is \<open>redact_text\<close>.
\<close>

section \<open>Requests\<close>

record steer_request =
  sq_request_id :: string
  sq_source_event :: string
  sq_source_cursor :: string
  sq_expected_revision :: int
  sq_intent :: steer_intent
  sq_rationale :: string
  sq_affected :: "string list"
  sq_source_text :: "string option"

definition valid_effect :: "steer_request \<Rightarrow> bool" where
  "valid_effect r \<longleftrightarrow> distinct (sq_affected r) \<and> \<not> (sq_intent r = Informational \<and> sq_affected r \<noteq> [])"

definition valid_steer :: "steer_request \<Rightarrow> bool" where
  "valid_steer r \<longleftrightarrow> uuid_pattern (sq_request_id r) \<and> uuid_pattern (sq_source_event r) \<and> digest_pattern (sq_source_cursor r)
     \<and> 1 \<le> sq_expected_revision r \<and> bounded 1 2000 (sq_rationale r) \<and> length (sq_affected r) \<le> 2000
     \<and> pred_option (bounded 0 65536) (sq_source_text r) \<and> valid_effect r"

record steer_assessment =
  as_request_id :: string
  as_intent :: steer_intent
  as_revision :: int
  as_source_event :: string
  as_source_cursor :: string
  as_provenance :: string
  as_affected :: "string list"
  as_active_task :: "string option"
  as_checkpoint_required :: bool
  as_basis :: string
  as_disposition :: string

definition disposition :: "steer_intent \<Rightarrow> string" where
  "disposition i = (case i of Informational \<Rightarrow> ''read_only'' | Semantic \<Rightarrow> ''requires_checkpoint_and_revision''
     | Stop \<Rightarrow> ''requires_safe_stop'')"

definition classification_basis :: "string \<Rightarrow> steer_intent \<Rightarrow> bool \<Rightarrow> string" where
  "classification_basis kind i sparse =
     (if kind = ''interrupt'' \<and> i = Stop then ''captured_stop_signal''
      else if sparse then ''agent_interpretation_of_hash_verified_visible_source''
      else ''agent_interpretation_of_visible_message'')"

section \<open>Assessment\<close>

text \<open>
  The captured input of a steer: this client's, with the exact cursor. Before the first capture the
  lineage table does not exist; a table without rows reads the same here.
\<close>

definition captured_input :: "steer_request \<Rightarrow> string \<Rightarrow> (project, lineage_event) action" where
  "captured_input r actor =
     bnd (gets (\<lambda>s. lineage s \<noteq> [])) (\<lambda>captured.
     bnd (require captured ''STEER_SOURCE_REQUIRED'') (\<lambda>_.
     bnd (gets (find_event (sq_source_event r))) (\<lambda>e.
     demand (case e of None \<Rightarrow> None | Some x \<Rightarrow>
       if le_cursor x = sq_source_cursor r \<and> le_kind x \<in> {''prompt'', ''steer'', ''interrupt''} \<and> le_client x = actor
       then Some x else None) ''STEER_SOURCE_MISMATCH'')))"

definition active_task :: "int \<Rightarrow> project \<Rightarrow> plan_task option" where
  "active_task rv s = find (\<lambda>t. pt_revision t = rv \<and> pt_state t = Active) (tasks s)"

definition affected_tasks :: "steer_request \<Rightarrow> string option \<Rightarrow> string list" where
  "affected_tasks r active =
     (case active of
        Some a \<Rightarrow> if sq_intent r = Stop \<and> a \<noteq> [] \<and> a \<notin> set (sq_affected r) then sq_affected r @ [a] else sq_affected r
      | None \<Rightarrow> sq_affected r)"

definition open_history :: "int \<Rightarrow> string \<Rightarrow> (project, unit) action" where
  "open_history rv tid =
     bnd (task_row rv tid) (\<lambda>t. require (pt_state t \<notin> {Completed, Cancelled, Superseded}) ''STEER_HISTORY_IMMUTABLE'')"

definition assess :: "world \<Rightarrow> (string \<Rightarrow> string) \<Rightarrow> steer_request \<Rightarrow> string \<Rightarrow> (project, steer_assessment) action" where
  "assess w clean r actor =
     bnd (head_row (Some (sq_expected_revision r))) (\<lambda>_.
     bnd (captured_input r actor) (\<lambda>source.
     bnd (bnd (gets (read_object (sha256 w) ''chat_lineage'' (le_payload_digest source))) lift_result) (\<lambda>stored.
     bnd (lift_result (validate_row (sha256 w) source)) (\<lambda>_.
     bnd (lift_result (resolve_visible_source (sha256 w) clean stored (sq_source_text r))) (\<lambda>payload.
     bnd (require (\<not> (truthy (got payload ''truncated'') \<and> le_kind source \<noteq> ''interrupt'')) ''STEER_SOURCE_TRUNCATED'') (\<lambda>_.
     bnd (gets (\<lambda>s. map_option pt_task_id (active_task (sq_expected_revision r) s))) (\<lambda>active.
     bnd (each (open_history (sq_expected_revision r)) (affected_tasks r active)) (\<lambda>_.
     ret \<lparr>as_request_id = sq_request_id r, as_intent = sq_intent r, as_revision = sq_expected_revision r,
       as_source_event = sq_source_event r, as_source_cursor = sq_source_cursor r, as_provenance = le_provenance source,
       as_affected = affected_tasks r active, as_active_task = active,
       as_checkpoint_required = (active \<noteq> None \<and> sq_intent r \<noteq> Informational),
       as_basis = classification_basis (le_kind source) (sq_intent r) (jget stored CAPTURE_ENVELOPE \<noteq> None),
       as_disposition = disposition (sq_intent r)\<rparr>))))))))"

definition preview :: "world \<Rightarrow> (string \<Rightarrow> string) \<Rightarrow> steer_request \<Rightarrow> string \<Rightarrow> (project, steer_assessment) action" where
  "preview w clean r actor =
     bnd (if valid_steer r then ret () else abort (Raised ''ValidationError'')) (\<lambda>_. assess w clean r actor)"

section \<open>The queue\<close>

definition steer_identity :: "(string \<Rightarrow> string) \<Rightarrow> steer_request \<Rightarrow> string \<Rightarrow> json" where
  "steer_identity clean r actor =
     JObj [(''request_id'', JStr (sq_request_id r)), (''source_event_id'', JStr (sq_source_event r)),
       (''source_cursor'', JStr (sq_source_cursor r)), (''expected_revision'', JInt (sq_expected_revision r)),
       (''intent'', JStr (intent_name (sq_intent r))), (''rationale'', JStr (clean (sq_rationale r))),
       (''affected_task_ids'', jstrs (sq_affected r)), (''actor_id'', JStr actor)]"

record steer_queued =
  qd_request_id :: string
  qd_state :: steer_state
  qd_expected_revision :: int
  qd_duplicate :: bool

definition new_steer :: "world \<Rightarrow> (string \<Rightarrow> string) \<Rightarrow> steer_request \<Rightarrow> string \<Rightarrow> string list \<Rightarrow> steer" where
  "new_steer w clean r actor affected =
     \<lparr>st_request_id = sq_request_id r, st_source_event = sq_source_event r, st_source_cursor = sq_source_cursor r,
      st_actor = actor, st_expected_revision = sq_expected_revision r, st_intent = sq_intent r, st_affected = affected,
      st_rationale = clean (sq_rationale r), st_identity_digest = content_digest (sha256 w) (steer_identity clean r actor),
      st_state = SPending, st_checkpoint = None, st_applied_revision = None, st_created = now w, st_updated = now w\<rparr>"

definition pause_project :: "world \<Rightarrow> string \<Rightarrow> string \<Rightarrow> string \<Rightarrow> (project, unit) action" where
  "pause_project w eid cursor actor =
     modify (\<lambda>s. s\<lparr>control := Some \<lparr>sc_paused = True, sc_source_event = eid, sc_source_cursor = cursor, sc_actor = actor,
       sc_updated = now w\<rparr>\<rparr>)"

definition queue_steer ::
  "world \<Rightarrow> (string \<Rightarrow> string) \<Rightarrow> steer_request \<Rightarrow> string \<Rightarrow> steer_assessment \<Rightarrow> (project, steer_queued) action" where
  "queue_steer w clean r actor a =
     bnd (insert_into steers steers_update st_request_id (new_steer w clean r actor (as_affected a))) (\<lambda>_.
     bnd (if sq_intent r = Stop then pause_project w (sq_source_event r) (sq_source_cursor r) actor else ret ()) (\<lambda>_.
     bnd (append_receipt w (Some ''plan'') ''steer_queued''
       [(''request_id'', JStr (sq_request_id r)), (''source_event_id'', JStr (sq_source_event r)),
        (''source_cursor'', JStr (sq_source_cursor r)), (''expected_revision'', JInt (sq_expected_revision r)),
        (''intent'', JStr (intent_name (sq_intent r))), (''plan_changed'', JBool False)]) (\<lambda>_.
     ret \<lparr>qd_request_id = sq_request_id r, qd_state = SPending, qd_expected_revision = sq_expected_revision r,
       qd_duplicate = False\<rparr>)))"

definition submit_steer ::
  "world \<Rightarrow> (string \<Rightarrow> string) \<Rightarrow> lease \<Rightarrow> steer_request \<Rightarrow> string \<Rightarrow> (project, steer_queued) action" where
  "submit_steer w clean l r actor =
     bnd (if valid_steer r then ret () else abort (Raised ''ValidationError'')) (\<lambda>_.
     bnd (require (sq_intent r \<noteq> Informational) ''INFORMATIONAL_QUERY_READ_ONLY'') (\<lambda>_.
     bnd (own_lease w l) (\<lambda>_.
     bnd (preview w clean r actor) (\<lambda>_.
     in_transaction w l
       (bnd (assess w clean r actor) (\<lambda>a.
        bnd (gets (find_steer (sq_request_id r))) (\<lambda>existing.
        case existing of
          Some q \<Rightarrow>
            bnd (require (st_identity_digest q = content_digest (sha256 w) (steer_identity clean r actor))
              ''STEER_REQUEST_CONFLICT'') (\<lambda>_.
            ret \<lparr>qd_request_id = sq_request_id r, qd_state = st_state q, qd_expected_revision = sq_expected_revision r,
              qd_duplicate = True\<rparr>)
        | None \<Rightarrow> queue_steer w clean r actor a))))))) "

section \<open>Interruption\<close>

definition interrupt_jobs :: "world \<Rightarrow> (project, unit) action" where
  "interrupt_jobs w = modify (\<lambda>s. s\<lparr>jobs := update_where (\<lambda>j. jb_state j \<in> {JRunning, JQueued, JCheckpointed})
     (\<lambda>j. j\<lparr>jb_cancellation := Some ''Captured host interrupt'',
       jb_state := (if jb_state j = JQueued then JCancelled else jb_state j), jb_updated := now w\<rparr>) (jobs s)\<rparr>)"

definition interrupt_clash :: "steer_interrupt \<Rightarrow> steer_interrupt \<Rightarrow> bool" where
  "interrupt_clash a b \<longleftrightarrow> si_event_id a = si_event_id b"

definition record_interrupt :: "world \<Rightarrow> lease \<Rightarrow> string \<Rightarrow> string \<Rightarrow> string \<Rightarrow> (project, unit) action" where
  "record_interrupt w l eid cursor actor =
     bnd (own_lease w l) (\<lambda>_.
     in_transaction w l
       (bnd (gets (find_event eid)) (\<lambda>e.
        bnd (demand (case e of None \<Rightarrow> None | Some x \<Rightarrow>
          if le_kind x = ''interrupt'' \<and> le_client x = actor \<and> le_cursor x = cursor then Some x else None)
          ''STEER_SOURCE_MISMATCH'') (\<lambda>source.
        bnd (lift_result (validate_row (sha256 w) source)) (\<lambda>_.
        bnd (gets (\<lambda>s. find (\<lambda>i. si_event_id i = eid) (interrupts s))) (\<lambda>previous.
        case previous of
          Some i \<Rightarrow> require (si_source_cursor i = cursor \<and> si_actor i = actor) ''STEER_SOURCE_MISMATCH''
        | None \<Rightarrow>
            bnd (pause_project w eid cursor actor) (\<lambda>_.
            bnd (interrupt_jobs w) (\<lambda>_.
            bnd (append_receipt w (Some ''plan'') ''project_interrupted''
              [(''source_event_id'', JStr eid), (''source_cursor'', JStr cursor), (''paused'', JBool True),
               (''automatic_resume'', JBool False)]) (\<lambda>receipt.
            insert_row interrupts interrupts_update interrupt_clash
              \<lparr>si_event_id = eid, si_source_cursor = cursor, si_actor = actor, si_receipt = receipt, si_created = now w\<rparr>)))))))))"

section \<open>Reads\<close>

definition read_control :: "project \<Rightarrow> bool \<times> string option" where
  "read_control s = (case control s of None \<Rightarrow> (False, None) | Some c \<Rightarrow> (sc_paused c, Some (sc_source_event c)))"

text \<open>\<open>ORDER BY created_at, request_id LIMIT\<close>.\<close>

definition pending_steers :: "int \<Rightarrow> project \<Rightarrow> steer list result" where
  "pending_steers limit s =
     (if \<not> (1 \<le> limit \<and> limit \<le> 100) then Inl (LaneError ''INVALID_STEER_LIMIT'')
      else Inr (take (nat limit) (sort_key st_created (sort_key st_request_id (filter open_steer (steers s))))))"

declare valid_effect_def [op_defs] valid_steer_def [op_defs] disposition_def [op_defs] captured_input_def [op_defs]
  active_task_def [op_defs] affected_tasks_def [op_defs] open_history_def [op_defs] assess_def [op_defs]
  preview_def [op_defs] steer_identity_def [op_defs] new_steer_def [op_defs] pause_project_def [op_defs]
  queue_steer_def [op_defs] submit_steer_def [op_defs] interrupt_jobs_def [op_defs] record_interrupt_def [op_defs]

section \<open>Assessment only reads\<close>

lemma each_reads: "(\<And>x u t t'. f x t = Inr (u, t') \<Longrightarrow> t' = t) \<Longrightarrow> each f xs s = Inr (u, s') \<Longrightarrow> s' = s"
  by (induction xs arbitrary: s) (auto simp: run_simps)

lemma open_history_reads: "open_history rv tid s = Inr (u, s') \<Longrightarrow> s' = s"
  by (auto simp: open_history_def run_simps)

lemma captured_input_Inr:
  "captured_input r actor s = Inr (e, s') \<longleftrightarrow> s' = s \<and> find_event (sq_source_event r) s = Some e
     \<and> le_cursor e = sq_source_cursor r \<and> le_kind e \<in> {''prompt'', ''steer'', ''interrupt''} \<and> le_client e = actor
     \<and> lineage s \<noteq> []"
  by (auto simp: captured_input_def run_simps split: option.splits if_splits)

lemma assess_Inr:
  assumes "assess w clean r actor s = Inr (a, s')"
  obtains e where "s' = s" "find_event (sq_source_event r) s = Some e" "le_client e = actor"
    "le_cursor e = sq_source_cursor r" "as_affected a = affected_tasks r (as_active_task a)"
    "as_active_task a = map_option pt_task_id (active_task (sq_expected_revision r) s)"
    "each (open_history (sq_expected_revision r)) (as_affected a) s = Inr ((), s)"
proof -
  obtain e where e: "find_event (sq_source_event r) s = Some e" "le_client e = actor" "le_cursor e = sq_source_cursor r"
      "as_affected a = affected_tasks r (as_active_task a)"
      "as_active_task a = map_option pt_task_id (active_task (sq_expected_revision r) s)"
    and each: "each (open_history (sq_expected_revision r)) (as_affected a) s = Inr ((), s')"
    using assms by (auto simp: assess_def run_simps captured_input_Inr)
  have "s' = s" using each by (rule each_reads [OF open_history_reads, rotated])
  with e each show thesis by (intro that) simp_all
qed

end
