(* ===== verification/Delta_Guard.thy ===== *)
theory Delta_Guard
  imports Plan_Projection Python_Values
begin

text \<open>
  \<open>ExecutionGuard\<close> (adaptive_delta_entry.py): the budgets of a running task, the source paths and
  worker operations it may use, and the evidence of its workers. The live authorization, the mode
  binding and the extension checks are results that the environment supplies.
\<close>

section \<open>Owned workers\<close>

datatype future = Running | Done json | Crashed

record owned =
  ow_id :: nat
  ow_future :: future

definition running :: "owned \<Rightarrow> bool" where
  "running f \<longleftrightarrow> ow_future f = Running"

text \<open>What \<open>future.result()\<close> contributes; a worker that raised counts as an error result.\<close>

definition worker_result :: "owned \<Rightarrow> json" where
  "worker_result f = (case ow_future f of Done v \<Rightarrow> v
     | _ \<Rightarrow> JObj [(''status'', JStr ''error''), (''code'', JStr ''WORKER_OPERATION_FAILED'')])"

definition succeeded :: "json \<Rightarrow> bool" where
  "succeeded v \<longleftrightarrow> jget v ''status'' = Some (JStr ''ok'')"

section \<open>The guard\<close>

record guard =
  gd_budget :: task_budget
  gd_permitted :: "string list"
  gd_workers :: "string list"
  gd_calls :: int
  gd_input :: int
  gd_output :: int
  gd_observed :: "nat list"
  gd_evidence :: "json list"
  gd_failure :: "string option"

text \<open>\<open>gv_live\<close>: authorization and mode binding; \<open>gv_elapsed\<close>: microseconds; \<open>gv_checks\<close>: later checks.\<close>

record guard_env =
  gv_live :: "unit result"
  gv_elapsed :: int
  gv_checks :: "unit result"

definition new_guard :: "task_definition \<Rightarrow> string list \<Rightarrow> guard" where
  "new_guard task workers =
     \<lparr>gd_budget = budget task, gd_permitted = permitted_paths task,
      gd_workers = workers @ (if validation_policy task = None then [] else [''validation_command'']),
      gd_calls = 0, gd_input = 0, gd_output = 0, gd_observed = [], gd_evidence = [], gd_failure = None\<rparr>"

definition guard_check :: "guard_env \<Rightarrow> guard \<Rightarrow> unit result" where
  "guard_check env g =
     (case gd_failure g of
        Some (c # cs) \<Rightarrow> Inl (LaneError (c # cs))
      | _ \<Rightarrow> rbind (gv_live env) (\<lambda>_.
          if max_seconds (gd_budget g) * 1000000 < gv_elapsed env then Inl (LaneError ''DELTA_TIME_BUDGET'')
          else gv_checks env))"

definition spend_call :: "guard_env \<Rightarrow> guard \<Rightarrow> guard result" where
  "spend_call env g = rbind (guard_check env g) (\<lambda>_.
     if max_tool_calls (gd_budget g) \<le> gd_calls g then Inl (LaneError ''DELTA_TOOL_BUDGET'')
     else Inr (g\<lparr>gd_calls := gd_calls g + 1\<rparr>))"

definition take_input :: "json \<Rightarrow> guard \<Rightarrow> guard result" where
  "take_input v g =
     (if max_input_bytes (gd_budget g) < gd_input g + int (json_bytes v) then Inl (LaneError ''DELTA_INPUT_BUDGET'')
      else Inr (g\<lparr>gd_input := gd_input g + int (json_bytes v)\<rparr>))"

definition take_output :: "json \<Rightarrow> guard \<Rightarrow> guard result" where
  "take_output v g =
     (if max_output_bytes (gd_budget g) < gd_output g + int (json_bytes v) then Inl (LaneError ''DELTA_OUTPUT_BUDGET'')
      else Inr (g\<lparr>gd_output := gd_output g + int (json_bytes v)\<rparr>))"

section \<open>Paths\<close>

text \<open>
  \<open>path\<close>: \<open>source\<close> is the source root by components, \<open>linked\<close> tells which paths cross a symbolic link
  below it.
\<close>

definition scoped_path :: "string list \<Rightarrow> (string list \<Rightarrow> bool) \<Rightarrow> string \<Rightarrow> string list result" where
  "scoped_path source linked value =
     (let (absolute, parts) = path_of value;
          candidate = (if absolute then parts else source @ parts)
      in if ''..'' \<in> set parts \<or> list_ex (\<lambda>p. CHR '':'' \<in> set p) parts then Inl (LaneError ''DELTA_PATH_SCOPE'')
         else if take (length source) candidate \<noteq> source then Inl (LaneError ''DELTA_PATH_SCOPE'')
         else if linked candidate then Inl (LaneError ''LINKED_STORAGE_PATH'')
         else Inr candidate)"

fun under_any :: "string list \<Rightarrow> (string list \<Rightarrow> bool) \<Rightarrow> string list \<Rightarrow> string list \<Rightarrow> bool result" where
  "under_any source linked candidate [] = Inr False"
| "under_any source linked candidate (root # roots) =
     rbind (scoped_path source linked root) (\<lambda>r.
     if take (length r) candidate = r then Inr True else under_any source linked candidate roots)"

definition guard_path :: "string list \<Rightarrow> (string list \<Rightarrow> bool) \<Rightarrow> guard \<Rightarrow> json \<Rightarrow> string list result" where
  "guard_path source linked g value =
     (case value of
        JStr t \<Rightarrow>
          if t = [] \<or> CHR 0x00 \<in> set t then Inl (LaneError ''DELTA_PATH_SCOPE'')
          else rbind (scoped_path source linked t) (\<lambda>candidate.
            rbind (under_any source linked candidate (gd_permitted g)) (\<lambda>ok.
            if ok then Inr candidate else Inl (LaneError ''DELTA_PATH_SCOPE'')))
      | _ \<Rightarrow> Inl (LaneError ''DELTA_PATH_SCOPE''))"

definition path_values :: "json \<Rightarrow> string \<Rightarrow> json list" where
  "path_values arguments field = (case jget arguments field of None \<Rightarrow> [JNull] | Some (JArr vs) \<Rightarrow> vs | Some v \<Rightarrow> [v])"

definition guard_field :: "string list \<Rightarrow> (string list \<Rightarrow> bool) \<Rightarrow> guard \<Rightarrow> json \<Rightarrow> string \<Rightarrow> unit result" where
  "guard_field source linked g arguments field =
     (let values = path_values arguments field in
      if values = [] \<or> 128 < length values then Inl (LaneError ''DELTA_PATH_SCOPE'')
      else rbind (rcollect (guard_path source linked g) values) (\<lambda>_. Inr ()))"

definition guard_paths :: "string list \<Rightarrow> (string list \<Rightarrow> bool) \<Rightarrow> guard \<Rightarrow> string list \<Rightarrow> json \<Rightarrow> unit result" where
  "guard_paths source linked g names arguments =
     rbind (rcollect (guard_field source linked g arguments) names) (\<lambda>_. Inr ())"

section \<open>Worker operations\<close>

definition normal_path :: "string list \<Rightarrow> (string list \<Rightarrow> bool) \<Rightarrow> guard \<Rightarrow> json \<Rightarrow> json result" where
  "normal_path source linked g v = rbind (guard_path source linked g v) (\<lambda>p. Inr (JStr (path_text (True, p))))"

fun normal_fields ::
  "string list \<Rightarrow> (string list \<Rightarrow> bool) \<Rightarrow> guard \<Rightarrow> string list \<Rightarrow> (string \<times> json) list \<Rightarrow> (string \<times> json) list result" where
  "normal_fields source linked g [] kvs = Inr kvs"
| "normal_fields source linked g (field # names) kvs =
     rbind (jitem (JObj kvs) field) (\<lambda>value.
     rbind (case value of
         JArr vs \<Rightarrow> rbind (rcollect (normal_path source linked g) vs) (\<lambda>ps. Inr (JArr ps))
       | v \<Rightarrow> normal_path source linked g v) (\<lambda>x.
     normal_fields source linked g names (put_field kvs field x)))"

text \<open>
  \<open>worker\<close>: a failure after the spent call keeps the spent call, as the guard is an object; \<open>names\<close>
  are the path fields of the operation.
\<close>

definition guard_worker ::
  "string list \<Rightarrow> (string list \<Rightarrow> bool) \<Rightarrow> guard_env \<Rightarrow> string list \<Rightarrow> string \<Rightarrow> (string \<times> json) list
   \<Rightarrow> guard \<Rightarrow> json result \<times> guard" where
  "guard_worker source linked env names op kvs g =
     (if op \<notin> set (gd_workers g) then (Inl (LaneError ''DELTA_WORKER_SCOPE''), g)
      else case guard_paths source linked g names (JObj kvs) of
        Inl e \<Rightarrow> (Inl e, g)
      | Inr _ \<Rightarrow> (case spend_call env g of
            Inl e \<Rightarrow> (Inl e, g)
          | Inr g1 \<Rightarrow> (case take_input (JObj kvs) g1 of
                Inl e \<Rightarrow> (Inl e, g1)
              | Inr g2 \<Rightarrow> (case normal_fields source linked g2 names kvs of
                    Inl e \<Rightarrow> (Inl e, g2) | Inr ns \<Rightarrow> (Inr (JObj ns), g2)))))"

definition evidence_of :: "(string \<Rightarrow> string) \<Rightarrow> json \<Rightarrow> json" where
  "evidence_of H v = JObj [(''digest'', JStr (content_digest H v)),
     (''status'', case jget v ''status'' of None \<Rightarrow> JNull | Some x \<Rightarrow> x),
     (''worker_pid'', case jget v ''worker_pid'' of None \<Rightarrow> JNull | Some x \<Rightarrow> x)]"

text \<open>\<open>observe\<close>: each finished worker once, its output against the budget, and its success.\<close>

fun observe :: "(string \<Rightarrow> string) \<Rightarrow> owned list \<Rightarrow> guard \<Rightarrow> unit result \<times> guard" where
  "observe H [] g = (Inr (), g)"
| "observe H (f # fs) g =
     (if ow_id f \<in> set (gd_observed g) then observe H fs g
      else if running f then (Inl (LaneError ''JOB_WORK_STILL_RUNNING''), g)
      else
        let v = worker_result f; g1 = g\<lparr>gd_observed := ow_id f # gd_observed g\<rparr> in
        (case take_output v g1 of
           Inl e \<Rightarrow> (Inl e, g1)
         | Inr g2 \<Rightarrow>
             let g3 = g2\<lparr>gd_evidence := gd_evidence g2 @ [evidence_of H v]\<rparr> in
             if succeeded v then observe H fs g3 else (Inl (LaneError ''WORKER_OPERATION_FAILED''), g3)))"

text \<open>\<open>usage\<close>; the elapsed time is written in microseconds, as JSON numbers are integers here.\<close>

definition usage :: "guard_env \<Rightarrow> guard \<Rightarrow> json" where
  "usage env g = JObj [(''tool_calls'', JInt (gd_calls g)), (''input_bytes'', JInt (gd_input g)),
     (''output_bytes'', JInt (gd_output g)), (''elapsed_seconds'', JInt (gv_elapsed env)),
     (''wall_time_enforcement'', JStr ''cooperative_boundaries_no_automatic_kill'')]"

section \<open>What a guard allows\<close>

definition within_budget :: "guard \<Rightarrow> bool" where
  "within_budget g \<longleftrightarrow> 0 \<le> gd_calls g \<and> gd_calls g \<le> max_tool_calls (gd_budget g)
     \<and> 0 \<le> gd_input g \<and> gd_input g \<le> max_input_bytes (gd_budget g)
     \<and> 0 \<le> gd_output g \<and> gd_output g \<le> max_output_bytes (gd_budget g)"

lemma spend_call_Inr: "spend_call env g = Inr g' \<longleftrightarrow>
    guard_check env g = Inr () \<and> gd_calls g < max_tool_calls (gd_budget g) \<and> g' = g\<lparr>gd_calls := gd_calls g + 1\<rparr>"
  by (auto simp: spend_call_def run_simps split: if_splits)

lemma take_input_Inr: "take_input v g = Inr g' \<longleftrightarrow> gd_input g + int (json_bytes v) \<le> max_input_bytes (gd_budget g)
    \<and> g' = g\<lparr>gd_input := gd_input g + int (json_bytes v)\<rparr>"
  by (auto simp: take_input_def)

lemma take_output_Inr: "take_output v g = Inr g' \<longleftrightarrow> gd_output g + int (json_bytes v) \<le> max_output_bytes (gd_budget g)
    \<and> g' = g\<lparr>gd_output := gd_output g + int (json_bytes v)\<rparr>"
  by (auto simp: take_output_def)

lemma budget_steps:
  "within_budget g \<Longrightarrow> spend_call env g = Inr g' \<Longrightarrow> within_budget g'"
  "within_budget g \<Longrightarrow> take_input v g = Inr g' \<Longrightarrow> within_budget g'"
  "within_budget g \<Longrightarrow> take_output v g = Inr g' \<Longrightarrow> within_budget g'"
  by (auto simp: within_budget_def spend_call_Inr take_input_Inr take_output_Inr)

lemma within_budget_update [simp]:
  "within_budget (g\<lparr>gd_observed := a\<rparr>) = within_budget g" "within_budget (g\<lparr>gd_evidence := b\<rparr>) = within_budget g"
  "within_budget (g\<lparr>gd_failure := c\<rparr>) = within_budget g"
  by (simp_all add: within_budget_def)

lemma worker_budget: "within_budget g \<Longrightarrow> within_budget (snd (guard_worker source linked env names op kvs g))"
  by (auto simp: guard_worker_def split: sum.split dest: budget_steps)

lemma output_budget: "within_budget g \<Longrightarrow> take_output v (g\<lparr>gd_observed := xs\<rparr>) = Inr g' \<Longrightarrow> within_budget g'"
  by (auto simp: within_budget_def take_output_Inr)

lemma observe_budget: "within_budget g \<Longrightarrow> within_budget (snd (observe H fs g))"
  by (induction fs arbitrary: g) (auto simp: Let_def dest: output_budget [rotated] split: sum.split)

section \<open>Every guard keeps its budget\<close>

text \<open>What is asked of a guard while its execution runs.\<close>

datatype guard_op =
    GWorker guard_env "string list" string "(string \<times> json) list"
  | GSpend guard_env
  | GObserve "owned list"
  | GInput json
  | GOutput json

fun guard_step ::
  "(string \<Rightarrow> string) \<Rightarrow> string list \<Rightarrow> (string list \<Rightarrow> bool) \<Rightarrow> guard_op \<Rightarrow> guard \<Rightarrow> guard" where
  "guard_step H source linked (GWorker env names op kvs) g = snd (guard_worker source linked env names op kvs g)"
| "guard_step H source linked (GSpend env) g = (case spend_call env g of Inl e \<Rightarrow> g | Inr g' \<Rightarrow> g')"
| "guard_step H source linked (GObserve fs) g = snd (observe H fs g)"
| "guard_step H source linked (GInput v) g = (case take_input v g of Inl e \<Rightarrow> g | Inr g' \<Rightarrow> g')"
| "guard_step H source linked (GOutput v) g = (case take_output v g of Inl e \<Rightarrow> g | Inr g' \<Rightarrow> g')"

definition used_within :: "task_budget \<Rightarrow> guard \<Rightarrow> bool" where
  "used_within b g \<longleftrightarrow> gd_budget g = b \<and> 0 \<le> gd_calls g \<and> gd_calls g \<le> max 0 (max_tool_calls b)
     \<and> 0 \<le> gd_input g \<and> gd_input g \<le> max 0 (max_input_bytes b)
     \<and> 0 \<le> gd_output g \<and> gd_output g \<le> max 0 (max_output_bytes b)"

lemma used_within_update [simp]:
  "used_within b (g\<lparr>gd_observed := x\<rparr>) = used_within b g" "used_within b (g\<lparr>gd_evidence := y\<rparr>) = used_within b g"
  by (simp_all add: used_within_def)

lemma used_steps:
  "used_within b g \<Longrightarrow> spend_call env g = Inr g' \<Longrightarrow> used_within b g'"
  "used_within b g \<Longrightarrow> take_input v g = Inr g' \<Longrightarrow> used_within b g'"
  "used_within b g \<Longrightarrow> take_output v g = Inr g' \<Longrightarrow> used_within b g'"
  by (auto simp: used_within_def spend_call_Inr take_input_Inr take_output_Inr)

lemma used_worker: "used_within b g \<Longrightarrow> used_within b (snd (guard_worker source linked env names op kvs g))"
  by (auto simp: guard_worker_def split: sum.split dest: used_steps)

lemma used_observe: "used_within b g \<Longrightarrow> used_within b (snd (observe H fs g))"
proof (induction fs arbitrary: g)
  case (Cons f fs)
  have "used_within b g'" if "take_output v (g\<lparr>gd_observed := xs\<rparr>) = Inr g'" for v xs g'
    using used_steps(3) [OF _ that] Cons.prems by simp
  with Cons show ?case by (auto simp: Let_def split: sum.split)
qed simp

lemma used_step: "used_within b g \<Longrightarrow> used_within b (guard_step H source linked x g)"
  by (cases x) (auto intro: used_worker used_observe split: sum.split dest: used_steps)

lemma used_run: "used_within b g \<Longrightarrow> used_within b (fold (guard_step H source linked) xs g)"
  by (induction xs arbitrary: g) (simp_all add: used_step)

section \<open>Where an admitted path lies\<close>

lemma scoped_path_Inr:
  "scoped_path source linked v = Inr p \<Longrightarrow> take (length source) p = source \<and> \<not> linked p
     \<and> p = (if fst (path_of v) then snd (path_of v) else source @ snd (path_of v)) \<and> ''..'' \<notin> set (snd (path_of v))"
  by (auto simp: scoped_path_def Let_def split: prod.splits if_splits)

lemma under_any_True:
  "under_any source linked p roots = Inr True \<Longrightarrow>
     \<exists>root \<in> set roots. \<exists>r. scoped_path source linked root = Inr r \<and> take (length r) p = r"
  by (induction source linked p roots rule: under_any.induct) (auto simp: run_simps split: if_splits)

section \<open>Properties\<close>

text \<open>
  C33. A task's budget is never exceeded: whatever worker calls, spent calls, observed results, inputs
  and outputs a guard is asked for, in any order and including refused ones, the tool calls, input bytes
  and output bytes it has counted stay within the budget of the task it was made for.
\<close>

theorem budget_is_never_exceeded:
  "let g = fold (guard_step H source linked) xs (new_guard task workers) in
   gd_budget g = budget task \<and> 0 \<le> gd_calls g \<and> gd_calls g \<le> max 0 (max_tool_calls (budget task))
   \<and> 0 \<le> gd_input g \<and> gd_input g \<le> max 0 (max_input_bytes (budget task))
   \<and> 0 \<le> gd_output g \<and> gd_output g \<le> max 0 (max_output_bytes (budget task))"
proof -
  have "used_within (budget task) (new_guard task workers)" by (simp add: used_within_def new_guard_def)
  from used_run [OF this] show ?thesis by (simp add: used_within_def Let_def)
qed

text \<open>
  C34. A path that the guard admits lies under the source root and under one of the task's permitted
  paths, crosses no symbolic link, and is the source root extended by components none of which is the
  parent directory (or an absolute path without one).
\<close>

theorem admitted_paths_stay_in_scope:
  "case guard_path source linked g v of
     Inl e \<Rightarrow> True
   | Inr p \<Rightarrow> take (length source) p = source \<and> \<not> linked p
       \<and> list_ex (\<lambda>root. case scoped_path source linked root of Inl e \<Rightarrow> False | Inr r \<Rightarrow> take (length r) p = r) (gd_permitted g)
       \<and> (case v of JStr t \<Rightarrow> ''..'' \<notin> set (snd (path_of t))
            \<and> p = (if fst (path_of t) then snd (path_of t) else source @ snd (path_of t)) | _ \<Rightarrow> False)"
proof (cases v)
  case (JStr t)
  show ?thesis
  proof (cases "guard_path source linked g v")
    case (Inr p)
    then have p: "scoped_path source linked t = Inr p" "under_any source linked p (gd_permitted g) = Inr True"
      by (auto simp: guard_path_def JStr run_simps split: if_splits)
    from under_any_True [OF p(2)]
    have "list_ex (\<lambda>root. case scoped_path source linked root of Inl e \<Rightarrow> False | Inr r \<Rightarrow> take (length r) p = r) (gd_permitted g)"
      unfolding list_ex_iff by (elim bexE exE conjE) (rule bexI, simp_all)
    with scoped_path_Inr [OF p(1)] show ?thesis unfolding Inr unfolding JStr sum.case json.case by blast
  qed simp
qed (simp_all add: guard_path_def)

end
