(* ===== verification/Coordination.thy ===== *)
theory Coordination
  imports Steering Delta_Guard
begin

text \<open>
  The project coordinator (coordination.py): one execution per project, its ownership checks, safe
  checkpoints, completion and end, and the checkpoint of a selected task that has no job. The state of
  an execution's methods is the project together with the execution object; a transaction changes the
  project as a whole or not at all, while changes of the object stay when a later step raises.
\<close>

section \<open>The execution object\<close>

record execution =
  ex_claim :: job_claim
  ex_lease :: lease
  ex_task :: "string option"
  ex_revision :: "int option"
  ex_futures :: "owned list"
  ex_heartbeat_error :: "string option"
  ex_closed :: bool
  ex_worker_failed :: bool
  ex_guard :: "guard option"

type_synonym 'a work = "(project \<times> execution, 'a) process"

definition on_project :: "(project, 'a) process \<Rightarrow> 'a work" where
  "on_project p = (\<lambda>(s, x). case p s of (r, s') \<Rightarrow> (r, (s', x)))"

definition with_execution :: "(execution \<Rightarrow> 'a work) \<Rightarrow> 'a work" where
  "with_execution f = (\<lambda>(s, x). f x (s, x))"

definition set_execution :: "(execution \<Rightarrow> execution) \<Rightarrow> unit work" where
  "set_execution f = (\<lambda>(s, x). (Inr (), (s, f x)))"

definition prequire :: "bool \<Rightarrow> string \<Rightarrow> ('s, unit) process" where
  "prequire ok c = (if ok then preturn () else pfail (LaneError c))"

definition execution_id :: "execution \<Rightarrow> string" where
  "execution_id x = cl_execution_id (ex_claim x)"

definition job_id :: "execution \<Rightarrow> string" where
  "job_id x = cl_job_id (ex_claim x)"

section \<open>Ownership\<close>

text \<open>
  \<open>_current\<close>: \<open>slot\<close> is the execution that holds the project's slot. A stored heartbeat error counts
  when it is a nonempty code.
\<close>

definition current_owner :: "world \<Rightarrow> string option \<Rightarrow> execution \<Rightarrow> (project, unit) action" where
  "current_owner w slot x =
     bnd (require (\<not> ex_closed x \<and> slot = Some (execution_id x)) ''JOB_OWNER_CHANGED'') (\<lambda>_.
     bnd (case ex_heartbeat_error x of Some (c # cs) \<Rightarrow> raise (c # cs) | _ \<Rightarrow> ret ()) (\<lambda>_.
     bnd (check_lease w (ex_lease x)) (\<lambda>_.
     bnd (running_row (job_id x) (ex_lease x) (execution_id x)) (\<lambda>_.
     case ex_revision x of None \<Rightarrow> ret () | Some rv \<Rightarrow> bnd (head_row (Some rv)) (\<lambda>_. ret ())))))"

definition waiting_steers :: "int option \<Rightarrow> project \<Rightarrow> steer list" where
  "waiting_steers rv s = sort_key st_created (sort_key st_request_id
     (filter (\<lambda>q. st_state q \<in> {SPending, SCheckpointing} \<and> Some (st_expected_revision q) = rv) (steers s)))"

definition owner_steers :: "int option \<Rightarrow> (project, steer list) action" where
  "owner_steers rv =
     bnd (gets (waiting_steers rv)) (\<lambda>rows. bnd (require (length rows \<le> 100) ''STEER_BACKLOG_BUDGET'') (\<lambda>_. ret rows))"

definition paused :: "project \<Rightarrow> bool" where
  "paused s \<longleftrightarrow> (case control s of None \<Rightarrow> False | Some c \<Rightarrow> sc_paused c)"

definition may_continue :: "world \<Rightarrow> string option \<Rightarrow> execution \<Rightarrow> (project, unit) action" where
  "may_continue w slot x =
     bnd (current_owner w slot x) (\<lambda>_.
     bnd (job_row (job_id x)) (\<lambda>row.
     bnd (require (\<not> cancelled row) ''JOB_CHECKPOINT_REQUIRED'') (\<lambda>_.
     bnd (owner_steers (ex_revision x)) (\<lambda>qs.
     bnd (gets paused) (\<lambda>stopped.
     require (qs = [] \<and> \<not> stopped) ''JOB_CHECKPOINT_REQUIRED'')))))"

definition before_more_work :: "world \<Rightarrow> string option \<Rightarrow> guard_env \<Rightarrow> unit work" where
  "before_more_work w slot env = with_execution (\<lambda>x.
     pbind (case ex_guard x of None \<Rightarrow> preturn ()
       | Some g \<Rightarrow> (case guard_check env g of Inl e \<Rightarrow> pfail e | Inr _ \<Rightarrow> preturn ())) (\<lambda>_.
     on_project (commit (may_continue w slot x))))"

section \<open>Work\<close>

text \<open>
  \<open>submit\<close>: the operation goes to the worker pool when there is one; the future it gets has the next
  number.
\<close>

definition submit_work ::
  "world \<Rightarrow> string option \<Rightarrow> guard_env \<Rightarrow> bool \<Rightarrow> string list \<Rightarrow> (string list \<Rightarrow> bool) \<Rightarrow> string list \<Rightarrow> string
   \<Rightarrow> (string \<times> json) list \<Rightarrow> (nat \<times> json) work" where
  "submit_work w slot env pool source linked names op arguments =
     pbind (before_more_work w slot env) (\<lambda>_.
     pbind (prequire pool ''WORKERS_UNAVAILABLE'') (\<lambda>_.
     pbind (with_execution (\<lambda>x. case ex_guard x of
         None \<Rightarrow> preturn (JObj arguments)
       | Some g \<Rightarrow> (case guard_worker source linked env names op arguments g of
           (r, g') \<Rightarrow> pbind (set_execution (\<lambda>y. y\<lparr>ex_guard := Some g'\<rparr>)) (\<lambda>_.
             case r of Inl e \<Rightarrow> pfail e | Inr v \<Rightarrow> preturn v)))) (\<lambda>v.
     with_execution (\<lambda>x. let n = Suc (foldr max (map ow_id (ex_futures x)) 0) in
       pbind (set_execution (\<lambda>y. y\<lparr>ex_futures := ex_futures y @ [\<lparr>ow_id = n, ow_future = Running\<rparr>]\<rparr>)) (\<lambda>_.
       preturn (n, v))))))"

definition spend :: "guard_env \<Rightarrow> unit work" where
  "spend env = with_execution (\<lambda>x. case ex_guard x of
       None \<Rightarrow> preturn ()
     | Some g \<Rightarrow> (case spend_call env g of Inl e \<Rightarrow> pfail e
         | Inr g' \<Rightarrow> set_execution (\<lambda>y. y\<lparr>ex_guard := Some g'\<rparr>)))"

definition execution_prepare_effect ::
  "world \<Rightarrow> string option \<Rightarrow> guard_env \<Rightarrow> string \<Rightarrow> string \<Rightarrow> string work" where
  "execution_prepare_effect w slot env key description =
     pbind (before_more_work w slot env) (\<lambda>_.
     pbind (spend env) (\<lambda>_.
     with_execution (\<lambda>x. on_project (commit
       (prepare_effect w (ex_lease x) (job_id x) key description (execution_id x))))))"

definition execution_confirm_effect :: "world \<Rightarrow> string option \<Rightarrow> string \<Rightarrow> string \<Rightarrow> unit work" where
  "execution_confirm_effect w slot eid evidence = with_execution (\<lambda>x. on_project (commit
     (bnd (current_owner w slot x) (\<lambda>_. confirm_effect w (ex_lease x) (job_id x) eid evidence (execution_id x)))))"

text \<open>\<open>worker_results\<close>: a failure is remembered across checkpoints; unfinished work is refused.\<close>

definition worker_results :: "json list work" where
  "worker_results = with_execution (\<lambda>x.
     let seen = takeWhile (\<lambda>f. \<not> running f) (ex_futures x) in
     pbind (set_execution (\<lambda>y. y\<lparr>ex_worker_failed := ex_worker_failed y
       \<or> list_ex (\<lambda>f. \<not> succeeded (worker_result f)) seen\<rparr>)) (\<lambda>_.
     pbind (prequire (length seen = length (ex_futures x)) ''JOB_WORK_STILL_RUNNING'') (\<lambda>_.
     preturn (map worker_result (ex_futures x)))))"

section \<open>Safe checkpoints\<close>

definition checkpoint_body :: "execution \<Rightarrow> string \<Rightarrow> json \<Rightarrow> int option \<Rightarrow> json" where
  "checkpoint_body x phase content generation =
     JObj [(''job_id'', JStr (job_id x)), (''execution_id'', JStr (execution_id x)),
       (''owner_fence'', jint_opt (cl_owner_fence (ex_claim x))), (''task_id'', jopt (ex_task x)),
       (''plan_revision'', jint_opt (ex_revision x)), (''phase'', JStr phase), (''content'', content),
       (''worker_generation'', jint_opt generation), (''quiescence_scope'', JStr ''this_engine_owned_job''),
       (''native_host_tools_attested'', JBool False)]"

definition steer_checkpointed :: "world \<Rightarrow> steer_state \<Rightarrow> string \<Rightarrow> steer \<Rightarrow> (project, unit) action" where
  "steer_checkpointed w st digest q = modify (\<lambda>s. s\<lparr>steers := update_where
     (\<lambda>p. st_request_id p = st_request_id q)
     (\<lambda>p. p\<lparr>st_state := st, st_checkpoint := Some digest, st_updated := now w\<rparr>) (steers s)\<rparr>)"

text \<open>The pause of the task of a checkpointed job.\<close>

definition block_task :: "world \<Rightarrow> execution \<Rightarrow> bool \<Rightarrow> (project, unit) action" where
  "block_task w x stopped =
     (case (ex_task x, ex_revision x) of
        (Some tid, Some rv) \<Rightarrow>
          if stopped then bnd (own_lease w (ex_lease x)) (\<lambda>_.
            bnd (transition_rows w (ex_lease x) tid Blocked rv (rq_request_id (cl_request (ex_claim x))) None None) (\<lambda>_. ret ()))
          else ret ()
      | _ \<Rightarrow> ret ())"

record checkpoint_report =
  cr_state :: job_state
  cr_object :: string
  cr_paused :: bool
  cr_steers_ready :: bool

definition checkpoint_rows ::
  "world \<Rightarrow> string option \<Rightarrow> execution \<Rightarrow> string \<Rightarrow> json \<Rightarrow> int option \<Rightarrow> bool \<Rightarrow> bool \<Rightarrow> (project, checkpoint_report) action" where
  "checkpoint_rows w slot x phase content generation resumable pause =
     in_transaction w (ex_lease x)
       (bnd (put_object w ''plan'' 1048576 (checkpoint_body x phase content generation)) (\<lambda>digest.
        bnd (current_owner w slot x) (\<lambda>_.
        bnd (owner_steers (ex_revision x)) (\<lambda>qs.
        bnd (if list_ex (\<lambda>q. st_intent q = Stop) qs
          then update_job (job_id x) (\<lambda>j. j\<lparr>jb_cancellation := Some ''Visible stop request''\<rparr>) else ret ()) (\<lambda>_.
        bnd (checkpoint (branch 1 w) (ex_lease x) (job_id x) phase digest (resumable \<and> qs = []) (execution_id x)
          (pause \<or> qs \<noteq> [])) (\<lambda>state.
        bnd (block_task (branch 2 w) x (state \<noteq> JRunning)) (\<lambda>_.
        bnd (each (steer_checkpointed w (if state = JUncertain then SCheckpointing else SReady) digest) qs) (\<lambda>_.
        bnd (append_receipt (branch 3 w) None ''job_safe_checkpoint''
          [(''job_id'', JStr (job_id x)), (''execution_id'', JStr (execution_id x)), (''checkpoint_object'', JStr digest),
           (''state'', JStr (job_state_name state)), (''steer_ids'', jstrs (map st_request_id qs)),
           (''scope'', JStr ''this_engine_owned_job''), (''automatic_kill'', JBool False)]) (\<lambda>_.
        ret \<lparr>cr_state = state, cr_object = digest, cr_paused = (state \<noteq> JRunning),
          cr_steers_ready = (state \<noteq> JUncertain \<and> qs \<noteq> [])\<rparr>)))))))))"

text \<open>\<open>guard.observe\<close> in a checkpoint: a LaneError becomes the guard's failure code and forces the pause.\<close>

definition observe_work :: "(string \<Rightarrow> string) \<Rightarrow> bool \<Rightarrow> bool work" where
  "observe_work H pause = with_execution (\<lambda>x. case ex_guard x of
       None \<Rightarrow> preturn pause
     | Some g \<Rightarrow> (case observe H (ex_futures x) g of
         (Inr _, g') \<Rightarrow> pbind (set_execution (\<lambda>y. y\<lparr>ex_guard := Some g'\<rparr>)) (\<lambda>_. preturn pause)
       | (Inl (LaneError c), g') \<Rightarrow>
           pbind (set_execution (\<lambda>y. y\<lparr>ex_guard := Some (g'\<lparr>gd_failure := Some c\<rparr>)\<rparr>)) (\<lambda>_. preturn True)
       | (Inl e, g') \<Rightarrow> pbind (set_execution (\<lambda>y. y\<lparr>ex_guard := Some g'\<rparr>)) (\<lambda>_. pfail e)))"

definition publish_latest ::
  "world \<Rightarrow> string list \<Rightarrow> (string \<Rightarrow> string option) \<Rightarrow> lease \<Rightarrow> string \<Rightarrow> (project, unit) process" where
  "publish_latest w root io l actor =
     pbind (commit (read_host_projection (sha256 w) None)) (\<lambda>p.
     pbind (publish_if_bound w root io l (hp_projection_id p) actor) (\<lambda>_. preturn ()))"

definition execution_checkpoint ::
  "world \<Rightarrow> string option \<Rightarrow> string list \<Rightarrow> (string \<Rightarrow> string option) \<Rightarrow> int option \<Rightarrow> string \<Rightarrow> json \<Rightarrow> bool \<Rightarrow> bool
   \<Rightarrow> checkpoint_report work" where
  "execution_checkpoint w slot root io generation phase content resumable pause =
     with_execution (\<lambda>x.
     pbind (on_project (commit (current_owner w slot x))) (\<lambda>_.
     pbind (prequire (\<not> list_ex running (ex_futures x)) ''JOB_WORK_STILL_RUNNING'') (\<lambda>_.
     pbind worker_results (\<lambda>_.
     pbind (observe_work (sha256 w) pause) (\<lambda>stop.
     pbind (on_project (commit (checkpoint_rows w slot x phase content generation resumable stop))) (\<lambda>r.
     pbind (if cr_paused r \<and> ex_task x \<noteq> None
       then on_project (publish_latest (branch 4 w) root io (ex_lease x) (rq_request_id (cl_request (ex_claim x))))
       else preturn ()) (\<lambda>_.
     pbind (set_execution (\<lambda>y. y\<lparr>ex_futures := []\<rparr>)) (\<lambda>_. preturn r))))))))"

section \<open>Ends\<close>

definition execution_complete :: "world \<Rightarrow> string option \<Rightarrow> guard_env \<Rightarrow> json \<Rightarrow> unit work" where
  "execution_complete w slot env result =
     pbind (before_more_work w slot env) (\<lambda>_.
     with_execution (\<lambda>x.
     pbind (prequire (\<not> list_ex running (ex_futures x)) ''JOB_WORK_STILL_RUNNING'') (\<lambda>_.
     pbind (prequire (\<not> ex_worker_failed x) ''WORKER_OPERATION_FAILED'') (\<lambda>_.
     pbind (prequire (list_all (\<lambda>f. succeeded (worker_result f)) (ex_futures x)) ''WORKER_OPERATION_FAILED'') (\<lambda>_.
     on_project (commit (complete w (ex_lease x) (job_id x) result (execution_id x))))))))"

text \<open>
  \<open>_finish\<close>, after the owned workers ended: an execution that left its job running records the failure;
  the lease is released and the slot is free in every case.
\<close>

definition record_end :: "world \<Rightarrow> execution \<Rightarrow> (project, unit) action" where
  "record_end w x =
     bnd (get_job (job_id x)) (\<lambda>(row, _).
     if jb_state row = JRunning \<and> jb_execution_id row = Some (execution_id x)
        \<and> (case ex_heartbeat_error x of None \<Rightarrow> True | Some c \<Rightarrow> c = [])
     then fail_job w (ex_lease x) (job_id x)
       (if ex_worker_failed x then ''WORKER_OPERATION_FAILED'' else ''EXECUTION_ENDED_WITHOUT_RESULT'') (execution_id x)
     else ret ())"

definition execution_finish :: "world \<Rightarrow> unit work" where
  "execution_finish w =
     pbind (set_execution (\<lambda>x. x\<lparr>ex_worker_failed := ex_worker_failed x
       \<or> list_ex (\<lambda>f. ow_future f = Crashed) (ex_futures x)\<rparr>)) (\<lambda>_. \<lambda>(s, x).
     case commit (record_end w x) s of (r, s1) \<Rightarrow>
     case commit (release (ex_lease x)) s1 of (_, s2) \<Rightarrow>
       (r, (s2, x\<lparr>ex_closed := True, ex_lease := (ex_lease x)\<lparr>ls_held := False\<rparr>\<rparr>)))"

text \<open>
  One tick of the heartbeat thread: it ends when the execution is closed or its error is recorded; a
  commit in progress only delays it. \<open>busy\<close> is \<open>PROJECT_COMMIT_BUSY\<close> raised by the lease.
\<close>

definition heartbeat_tick :: "world \<Rightarrow> bool \<Rightarrow> bool work" where
  "heartbeat_tick w busy = with_execution (\<lambda>x.
     if ex_closed x then preturn False
     else if busy then preturn True
     else (\<lambda>(s, y). case commit (heartbeat w (ex_lease x)) s of
         (Inr _, s') \<Rightarrow> (Inr True, (s', y))
       | (Inl (LaneError c), s') \<Rightarrow> (Inr False, (s', y\<lparr>ex_heartbeat_error := Some c\<rparr>))
       | (Inl e, s') \<Rightarrow> (Inl e, (s', y))))"

section \<open>The coordinator\<close>

text \<open>
  \<open>mutation\<close>: the lease a change runs under. While a job owns the project only captures and signals pass,
  under the job's lease.
\<close>

definition mutation_lease :: "world \<Rightarrow> execution option \<Rightarrow> string \<Rightarrow> int \<Rightarrow> string \<Rightarrow> (project, lease) action" where
  "mutation_lease w active engine seconds kind =
     (case active of
        Some x \<Rightarrow>
          bnd (require (kind \<in> {''capture'', ''signal''}) ''PROJECT_WRITER_BUSY'') (\<lambda>_.
          bnd (check_lease w (ex_lease x)) (\<lambda>_. ret (ex_lease x)))
      | None \<Rightarrow> bnd (bnd (gets (new_lease w False engine seconds)) lift_result) (acquire w))"

definition control_boundary :: "execution option \<Rightarrow> (project, unit) action" where
  "control_boundary active = require (active = None) ''PROJECT_WRITER_BUSY''"

definition execution_ready ::
  "world \<Rightarrow> lease \<Rightarrow> string \<Rightarrow> string option \<Rightarrow> int option \<Rightarrow> (project, execution) action" where
  "execution_ready w l jid task rv =
     bnd (require ((task = None) = (rv = None)) ''JOB_PLAN_BINDING_REQUIRED'') (\<lambda>_.
     bnd (case (task, rv) of
         (Some tid, Some n) \<Rightarrow> bnd (read_task (sha256 w) tid n) (\<lambda>t. require (pt_state t = Active) ''PLAN_TASK_NOT_ACTIVE'')
       | _ \<Rightarrow> ret ()) (\<lambda>_.
     bnd (gets paused) (\<lambda>stopped.
     bnd (require (\<not> stopped) ''PROJECT_PAUSED'') (\<lambda>_.
     bnd (get_job jid) (\<lambda>(row, _).
     bnd (require (jb_plan_revision row = rv) ''JOB_PLAN_BINDING_REQUIRED'') (\<lambda>_.
     bnd (claim w l jid) (\<lambda>c.
     ret \<lparr>ex_claim = c, ex_lease = l, ex_task = task, ex_revision = rv, ex_futures = [], ex_heartbeat_error = None,
       ex_closed = False, ex_worker_failed = False, ex_guard = None\<rparr>)))))))"

text \<open>\<open>execution\<close>: the lease of a start that fails is released again.\<close>

definition start_execution ::
  "world \<Rightarrow> execution option \<Rightarrow> string \<Rightarrow> string \<Rightarrow> string option \<Rightarrow> int option \<Rightarrow> (project, execution) process" where
  "start_execution w active engine jid task rv =
     pbind (prequire (active = None) ''PROJECT_WRITER_BUSY'') (\<lambda>_.
     pbind (commit (bnd (bnd (gets (new_lease w False engine 60)) lift_result) (acquire w))) (\<lambda>l. \<lambda>s.
     case commit (execution_ready (branch 1 w) l jid task rv) s of
       (Inr x, s') \<Rightarrow> (Inr x, s')
     | (Inl e, s') \<Rightarrow> (Inl e, snd (commit (release l) s'))))"

text \<open>\<open>checkpoint_idle_plan\<close>.\<close>

definition idle_body :: "lease \<Rightarrow> plan_task \<Rightarrow> int \<Rightarrow> steer list \<Rightarrow> string \<Rightarrow> (string \<times> json) list" where
  "idle_body l t rv qs actor =
     [(''task_id'', JStr (pt_task_id t)), (''plan_revision'', JInt rv), (''contract_digest'', JStr (pt_contract_digest t)),
      (''phase'', JStr ''selected_task_before_job_admission''), (''steer_ids'', jstrs (map st_request_id qs)),
      (''actor_id'', JStr actor), (''engine_instance'', JStr (ls_engine l)), (''owner_fence'', jint_opt (ls_fence l)),
      (''quiescence_scope'', JStr ''this_project_engine_jobs_and_unstarted_selected_task''),
      (''native_host_tools_attested'', JBool False), (''job_admitted'', JBool False), (''automatic_replay'', JBool False)]"

definition work_recorded :: "string \<Rightarrow> int \<Rightarrow> project \<Rightarrow> bool" where
  "work_recorded tid rv s \<longleftrightarrow>
     list_ex (\<lambda>j. jb_state j \<in> {JQueued, JRunning, JUncertain, JCheckpointed}) (jobs s)
     \<or> list_ex (\<lambda>e. ef_state e = Prepared) (effects s)
     \<or> list_ex (\<lambda>r. dr_task_id r = tid \<and> dr_revision r = rv) (delta_runs s)"

definition idle_checkpoint :: "world \<Rightarrow> lease \<Rightarrow> plan_task \<Rightarrow> int \<Rightarrow> string \<Rightarrow> (project, string) action" where
  "idle_checkpoint w l t rv actor =
     bnd (owner_steers (Some rv)) (\<lambda>qs.
     bnd (put_object w ''plan'' 65536 (JObj (idle_body l t rv qs actor))) (\<lambda>digest.
     bnd (transition_rows (branch 1 w) l (pt_task_id t) Blocked rv actor None None) (\<lambda>_.
     bnd (each (steer_checkpointed w SReady digest) qs) (\<lambda>_.
     bnd (append_receipt (branch 2 w) None ''plan_idle_checkpoint''
       (idle_body l t rv qs actor @ [(''checkpoint_object'', JStr digest), (''plan_revision_changed'', JBool False),
         (''automatic_kill'', JBool False)])) (\<lambda>_. ret digest)))))"

definition task_intact :: "(string \<Rightarrow> string) \<Rightarrow> plan_task \<Rightarrow> (project, unit) action" where
  "task_intact H t =
     bnd (if valid_task (pt_definition t) then ret () else abort (Raised ''ValidationError'')) (\<lambda>_.
     require (td_task_id (pt_definition t) = pt_task_id t \<and> contract_digest H (pt_definition t) = pt_contract_digest t)
       ''PLAN_CONTRACT_INTEGRITY'')"

definition checkpoint_idle_plan ::
  "world \<Rightarrow> execution option \<Rightarrow> lease \<Rightarrow> string \<Rightarrow> int \<Rightarrow> string \<Rightarrow> (project, string option) action" where
  "checkpoint_idle_plan w active l rid rv actor =
     bnd (own_lease w l) (\<lambda>_.
     if active \<noteq> None then ret None
     else in_transaction w l
       (bnd (head_row (Some rv)) (\<lambda>_.
        bnd (gets (find_steer rid)) (\<lambda>found.
        bnd (demand (case found of None \<Rightarrow> None | Some q \<Rightarrow>
          if st_actor q = actor \<and> st_expected_revision q = rv then Some q else None) ''STEER_SOURCE_MISMATCH'') (\<lambda>q.
        if st_state q \<notin> {SPending, SCheckpointing} then ret None
        else bnd (gets (active_task rv)) (\<lambda>selected. case selected of
            None \<Rightarrow> ret None
          | Some t \<Rightarrow>
              bnd (task_intact (sha256 w) t) (\<lambda>_.
              bnd (gets (work_recorded (pt_task_id t) rv)) (\<lambda>recorded.
              if recorded then ret None
              else bnd (idle_checkpoint w l t rv actor) (\<lambda>d. ret (Some d))))))))))"

definition status_of :: "execution \<Rightarrow> json" where
  "status_of x = JObj [(''job_id'', JStr (job_id x)), (''execution_id'', JStr (execution_id x)), (''task_id'', jopt (ex_task x)),
     (''plan_revision'', jint_opt (ex_revision x)),
     (''worker_operations_pending'', JInt (int (length (filter running (ex_futures x))))),
     (''heartbeat_error'', jopt (ex_heartbeat_error x)), (''worker_kind'', JStr ''os_process'')]"

section \<open>Interrupts\<close>

text \<open>
  C36. An interrupt stops the project: a captured interrupt that commits for the first time leaves the
  project paused, no job queued, and every running or checkpointed job with a cancellation; one that
  was recorded before changes nothing, and a failing one neither.
\<close>

theorem interrupt_stops_the_project:
  "case record_interrupt w l eid cursor actor s of
     Inl e \<Rightarrow> snd (commit (record_interrupt w l eid cursor actor) s) = s
   | Inr (u, s') \<Rightarrow>
       if list_ex (\<lambda>i. si_event_id i = eid) (interrupts s) then s' = s
       else paused s' \<and> list_ex (\<lambda>i. si_event_id i = eid) (interrupts s')
         \<and> filter (\<lambda>j. jb_state j = JQueued \<or> (jb_state j \<in> {JRunning, JCheckpointed} \<and> \<not> cancelled j)) (jobs s') = []"
proof (cases "record_interrupt w l eid cursor actor s")
  case (Inr r)
  then obtain s' where run: "record_interrupt w l eid cursor actor s = Inr ((), s')" by (cases r) simp
  have stopped: "filter (\<lambda>j. jb_state j = JQueued \<or> (jb_state j \<in> {JRunning, JCheckpointed} \<and> \<not> cancelled j))
      (update_where (\<lambda>j. jb_state j \<in> {JRunning, JQueued, JCheckpointed})
     (\<lambda>j. j\<lparr>jb_cancellation := Some ''Captured host interrupt'',
       jb_state := (if jb_state j = JQueued then JCancelled else jb_state j), jb_updated := now w\<rparr>) js) = []" for js
    by (induction js) (simp_all add: update_where_def cancelled_def)
  show ?thesis
  proof (cases "find (\<lambda>i. si_event_id i = eid) (interrupts s)")
    case None
    then have "\<not> list_ex (\<lambda>i. si_event_id i = eid) (interrupts s)" by (auto simp: find_None_iff list_ex_iff)
    moreover have "paused s' \<and> list_ex (\<lambda>i. si_event_id i = eid) (interrupts s')
        \<and> (\<exists>js. jobs s' = update_where (\<lambda>j. jb_state j \<in> {JRunning, JQueued, JCheckpointed})
     (\<lambda>j. j\<lparr>jb_cancellation := Some ''Captured host interrupt'',
       jb_state := (if jb_state j = JQueued then JCancelled else jb_state j), jb_updated := now w\<rparr>) js)"
      using run None unfolding record_interrupt_def
      by (auto simp: run_simps in_transaction_Inr pause_project_def interrupt_jobs_def paused_def)
    ultimately show ?thesis using stopped by (auto simp: run)
  next
    case (Some i)
    then have "list_ex (\<lambda>i. si_event_id i = eid) (interrupts s)" by (auto simp: list_ex_iff dest: find_SomeD)
    moreover have "s' = s" using run Some unfolding record_interrupt_def by (auto simp: run_simps in_transaction_Inr)
    ultimately show ?thesis by (simp add: run)
  qed
qed (simp add: commit_def)

end
