(* ===== verification/Delta.thy ===== *)
theory Delta
  imports Coordination
begin

text \<open>
  Delta execution: the entry of a Plan task (adaptive_delta_entry.py) and its verified exit
  (adaptive_delta_exit.py). Registered operations, their verifiers, tool routes and the mode binding
  are supplied by the environment; the learning and memory lanes are not part of the project state.
\<close>

section \<open>Requests and the environment\<close>

record delta_enter =
  de_task :: string
  de_revision :: int
  de_digest :: string
  de_action :: string
  de_arguments :: json
  de_source_route :: "json option"

definition enter_fields :: "delta_enter \<Rightarrow> (string \<times> json) list" where
  "enter_fields r = [(''task_id'', JStr (de_task r)), (''plan_revision'', JInt (de_revision r)),
     (''contract_digest'', JStr (de_digest r)), (''action'', JStr (de_action r)), (''arguments'', de_arguments r),
     (''source_route'', case de_source_route r of None \<Rightarrow> JNull | Some v \<Rightarrow> v)]"

definition valid_enter :: "delta_enter \<Rightarrow> bool" where
  "valid_enter r \<longleftrightarrow> task_id_pattern (de_task r) \<and> 1 \<le> de_revision r \<and> digest_pattern (de_digest r)
     \<and> name_pattern (de_action r) \<and> is_object (de_arguments r)"

record operation_spec =
  os_name :: string
  os_profile :: string
  os_requires_delta :: bool
  os_has_verifier :: bool
  os_required_tools :: "string list"
  os_checks :: "string list"
  os_path_fields :: "string list"
  os_workers :: "string list"

record caller =
  dc_client :: string
  dc_request_id :: "string option"
  dc_expected_revision :: "int option"

record delta_env =
  dv_spec :: "string \<Rightarrow> operation_spec result"
  dv_validate :: "string \<Rightarrow> json \<Rightarrow> json result"
  dv_guard :: guard_env
  dv_validation :: "task_definition \<Rightarrow> unit result"
  dv_source :: "string list"
  dv_linked :: "string list \<Rightarrow> bool"
  dv_route :: "delta_enter \<Rightarrow> json result"
  dv_tools :: "operation_spec \<Rightarrow> task_definition \<Rightarrow> json result"
  dv_mode :: "task_definition \<Rightarrow> json result"
  dv_lessons :: "operation_spec \<Rightarrow> json"

section \<open>Entry\<close>

definition bound_operation :: "delta_env \<Rightarrow> (string \<Rightarrow> string) \<Rightarrow> delta_enter \<Rightarrow> json \<Rightarrow> task_definition \<Rightarrow> unit result" where
  "bound_operation env H r arguments task =
     (case operation task of
        None \<Rightarrow> Inr ()
      | Some v \<Rightarrow>
          if op_action v \<noteq> de_action r \<or> op_source_route v \<noteq> de_source_route r then Inl (LaneError ''PLAN_OPERATION_CHANGED'')
          else rbind (dv_validate env (op_action v) (op_arguments v)) (\<lambda>bound.
            if content_digest H bound \<noteq> content_digest H arguments then Inl (LaneError ''PLAN_OPERATION_CHANGED'')
            else Inr ()))"

definition in_scope :: "operation_spec \<Rightarrow> task_definition \<Rightarrow> unit result" where
  "in_scope spec task =
     (if os_profile spec \<noteq> profile task \<or> os_name spec \<notin> set (allowed_actions task) then Inl (LaneError ''DELTA_ACTION_SCOPE'')
      else if \<not> set (os_required_tools spec) \<subseteq> set (permitted_tools task) then Inl (LaneError ''DELTA_TOOL_SCOPE'')
      else if \<not> os_has_verifier spec \<or> acceptance_checks task = []
        \<or> \<not> set (acceptance_checks task) \<subseteq> set (os_checks spec) then Inl (LaneError ''DELTA_VERIFIER_UNAVAILABLE'')
      else Inr ())"

definition guard_admits :: "delta_env \<Rightarrow> operation_spec \<Rightarrow> delta_enter \<Rightarrow> json \<Rightarrow> task_definition \<Rightarrow> json result" where
  "guard_admits env spec r arguments task =
     (let g = new_guard task (os_workers spec) in
      rbind (guard_check (dv_guard env) g) (\<lambda>_.
      rbind (if validation_policy task = None then Inr () else dv_validation env task) (\<lambda>_.
      rbind (guard_paths (dv_source env) (dv_linked env) g (os_path_fields spec) arguments) (\<lambda>_.
      rbind (dv_route env r) (\<lambda>route.
      rbind (take_input arguments g) (\<lambda>_. Inr route))))))"

text \<open>\<open>_preflight\<close>: the operation, the task's row, the tools and the source route it may use.\<close>

definition preflight ::
  "world \<Rightarrow> delta_env \<Rightarrow> caller \<Rightarrow> delta_enter \<Rightarrow> (project, operation_spec \<times> plan_task \<times> json \<times> json) action" where
  "preflight w env c r =
     bnd (require_restoration_execution_ready (sha256 w)) (\<lambda>_.
     bnd require_recovery_execution_ready (\<lambda>_.
     bnd (require (dc_request_id c \<noteq> None \<and> dc_expected_revision c = Some (de_revision r)) ''DELTA_REVISION_REQUIRED'') (\<lambda>_.
     bnd (lift_result (dv_spec env (de_action r))) (\<lambda>spec.
     bnd (require (os_requires_delta spec) ''NOT_A_DELTA_OPERATION'') (\<lambda>_.
     bnd (lift_result (dv_validate env (de_action r) (de_arguments r))) (\<lambda>arguments.
     bnd (read_task (sha256 w) (de_task r) (de_revision r)) (\<lambda>row.
     bnd (require (pt_contract_digest row = de_digest r) ''DELTA_CONTRACT_CHANGED'') (\<lambda>_.
     bnd (lift_result (bound_operation env (sha256 w) r arguments (pt_definition row))) (\<lambda>_.
     bnd (lift_result (in_scope spec (pt_definition row))) (\<lambda>_.
     bnd (lift_result (guard_admits env spec r arguments (pt_definition row))) (\<lambda>route.
     bnd (lift_result (dv_tools env spec (pt_definition row))) (\<lambda>tools.
     ret (spec, row, tools, route)))))))))))))"

definition admitted_request :: "string \<Rightarrow> string \<Rightarrow> delta_enter \<Rightarrow> action_request" where
  "admitted_request pid rid r = \<lparr>rq_request_id = rid, rq_action = de_action r, rq_project_id = Some pid,
     rq_expected_revision = Some (de_revision r), rq_arguments = de_arguments r\<rparr>"

definition binding_of :: "caller \<Rightarrow> delta_enter \<Rightarrow> (string \<times> json) list" where
  "binding_of c r = [(''actor_id'', JStr (dc_client c)), (''entry'', JObj (enter_fields r))]"

definition find_run :: "string \<Rightarrow> project \<Rightarrow> delta_run option" where
  "find_run jid s = find (\<lambda>d. dr_job_id d = jid) (delta_runs s)"

definition run_clash :: "delta_run \<Rightarrow> delta_run \<Rightarrow> bool" where
  "run_clash a b \<longleftrightarrow> dr_job_id a = dr_job_id b \<or> dr_request_id a = dr_request_id b
     \<or> dr_revision a = dr_revision b \<and> dr_task_id a = dr_task_id b"

definition entry_limit :: "task_definition \<Rightarrow> int" where
  "entry_limit t = min (max_input_bytes (budget t) + 65536) 67174400"

text \<open>The conditions of a new run inside its transaction.\<close>

definition nothing_pending :: "int \<Rightarrow> string \<Rightarrow> (project, unit) action" where
  "nothing_pending rv tid =
     bnd (gets paused) (\<lambda>stopped.
     bnd (require (\<not> stopped) ''PROJECT_PAUSED'') (\<lambda>_.
     bnd (gets (\<lambda>s. list_ex (\<lambda>q. st_expected_revision q = rv \<and> open_steer q) (steers s))) (\<lambda>waiting.
     bnd (require (\<not> waiting) ''PLAN_STEER_PENDING'') (\<lambda>_.
     bnd (gets (\<lambda>s. list_ex (\<lambda>d. dr_revision d = rv \<and> dr_task_id d = tid) (delta_runs s))) (\<lambda>tried.
     bnd (require (\<not> tried) ''DELTA_ATTEMPT_EXISTS'') (\<lambda>_.
     bnd (gets (\<lambda>s. list_ex (\<lambda>j. jb_state j \<in> {JRunning, JUncertain}) (jobs s))) (\<lambda>busy.
     require (\<not> busy) ''JOBS_NOT_QUIESCENT'')))))))"

definition admit_run ::
  "world \<Rightarrow> lease \<Rightarrow> caller \<Rightarrow> delta_enter \<Rightarrow> string \<Rightarrow> plan_task \<Rightarrow> json \<Rightarrow> (project, string) action" where
  "admit_run w l c r rid row entry =
     in_transaction w l
       (bnd (put_object w ''plan'' (nat (entry_limit (pt_definition row))) entry) (\<lambda>entry_object.
        bnd (nothing_pending (de_revision r) (de_task r)) (\<lambda>_.
        bnd (if pt_state row = Queued
          then bnd (own_lease w l) (\<lambda>_.
            bnd (transition_rows (branch 1 w) l (de_task r) Active (de_revision r) (dc_client c) None None) (\<lambda>_. ret ()))
          else ret ()) (\<lambda>_.
        bnd (gets project_id) (\<lambda>pid.
        bnd (enqueue (branch 2 w) l (admitted_request pid rid r) (dc_client c) (entry_limit (pt_definition row))) (\<lambda>jid.
        bnd (insert_row delta_runs delta_runs_update run_clash
          \<lparr>dr_job_id = jid, dr_request_id = rid, dr_actor = dc_client c, dr_task_id = de_task r, dr_revision = de_revision r,
           dr_contract_digest = de_digest r, dr_binding_digest = content_digest (sha256 w) (JObj (binding_of c r)),
           dr_entry_object = entry_object, dr_state = RQueued, dr_result_object = None, dr_error_code = None,
           dr_created = now w, dr_updated = now w\<rparr>) (\<lambda>_.
        bnd (append_receipt (branch 3 w) None ''delta_entered''
          [(''job_id'', JStr jid), (''task_id'', JStr (de_task r)), (''plan_revision'', JInt (de_revision r)),
           (''contract_digest'', JStr (de_digest r)), (''entry_object'', JStr entry_object),
           (''actor_id'', JStr (dc_client c))]) (\<lambda>_. ret jid))))))))"

record admission =
  ad_job_id :: string
  ad_task :: string
  ad_revision :: int
  ad_digest :: string
  ad_state :: run_state
  ad_plan_changed :: bool

definition recorded_admission :: "delta_run \<Rightarrow> admission" where
  "recorded_admission d = \<lparr>ad_job_id = dr_job_id d, ad_task = dr_task_id d, ad_revision = dr_revision d,
     ad_digest = dr_contract_digest d, ad_state = dr_state d, ad_plan_changed = False\<rparr>"

definition new_run ::
  "world \<Rightarrow> delta_env \<Rightarrow> lease \<Rightarrow> caller \<Rightarrow> delta_enter \<Rightarrow> string \<Rightarrow> (project, admission) action" where
  "new_run w env l c r rid =
     bnd (preflight w env c r) (\<lambda>(spec, row, tools, route).
     bnd (require (pt_state row \<in> {Queued, Active}) ''DELTA_TASK_NOT_RUNNABLE'') (\<lambda>_.
     bnd (own_lease w l) (\<lambda>_.
     bnd (lift_result (dv_mode env (pt_definition row))) (\<lambda>mode.
     bnd (admit_run w l c r rid row (JObj (binding_of c r @ [(''tool_admission'', tools), (''source_route'', route),
       (''learning_context'', dv_lessons env spec), (''task_mode'', mode)]))) (\<lambda>jid.
     ret \<lparr>ad_job_id = jid, ad_task = de_task r, ad_revision = de_revision r, ad_digest = de_digest r, ad_state = RQueued,
       ad_plan_changed = (pt_state row = Queued)\<rparr>)))))"

text \<open>\<open>enter\<close>: a repeated request returns its recorded run, and is refused with other work.\<close>

definition delta_enter_action ::
  "world \<Rightarrow> delta_env \<Rightarrow> lease \<Rightarrow> caller \<Rightarrow> delta_enter \<Rightarrow> (project, admission) action" where
  "delta_enter_action w env l c r =
     bnd (if valid_enter r then ret () else abort (Raised ''ValidationError'')) (\<lambda>_.
     bnd (preflight w env c r) (\<lambda>_.
     bnd (demand (dc_request_id c) ''DELTA_REVISION_REQUIRED'') (\<lambda>rid.
     bnd (gets (\<lambda>s. find (\<lambda>d. dr_request_id d = rid) (delta_runs s))) (\<lambda>existing.
     case existing of
       Some d \<Rightarrow>
         bnd (require (dr_binding_digest d = content_digest (sha256 w) (JObj (binding_of c r))) ''REQUEST_ID_CONFLICT'') (\<lambda>_.
         ret (recorded_admission d))
     | None \<Rightarrow> new_run w env l c r rid))))"

text \<open>\<open>enter_planned\<close>: the operation that the task's own contract binds.\<close>

definition planned_request :: "(string \<Rightarrow> string) \<Rightarrow> string \<Rightarrow> int \<Rightarrow> string \<Rightarrow> (project, delta_enter) action" where
  "planned_request H tid rv digest =
     bnd (read_task H tid rv) (\<lambda>row.
     bnd (require (pt_contract_digest row = digest) ''DELTA_CONTRACT_CHANGED'') (\<lambda>_.
     bnd (demand (operation (pt_definition row)) ''PLAN_OPERATION_REQUIRED'') (\<lambda>v.
     ret \<lparr>de_task = tid, de_revision = rv, de_digest = digest, de_action = op_action v, de_arguments = op_arguments v,
       de_source_route = op_source_route v\<rparr>)))"

section \<open>Runs\<close>

definition update_run :: "string \<Rightarrow> (delta_run \<Rightarrow> delta_run) \<Rightarrow> (project, unit) action" where
  "update_run jid f = modify (\<lambda>s. s\<lparr>delta_runs := update_where (\<lambda>d. dr_job_id d = jid) f (delta_runs s)\<rparr>)"

definition run_started :: "world \<Rightarrow> lease \<Rightarrow> string \<Rightarrow> (project, unit) action" where
  "run_started w l jid = in_transaction w l (update_run jid (\<lambda>d. d\<lparr>dr_state := RRunning, dr_updated := now w\<rparr>))"

definition run_blocked :: "world \<Rightarrow> lease \<Rightarrow> string \<Rightarrow> string \<Rightarrow> (project, unit) action" where
  "run_blocked w l jid cd = in_transaction w l
     (update_run jid (\<lambda>d. d\<lparr>dr_state := RBlocked, dr_error_code := Some cd, dr_updated := now w\<rparr>))"

section \<open>The recorded exit\<close>

definition exit_integrity :: error where
  "exit_integrity = LaneError ''DELTA_EXIT_INTEGRITY''"

definition need :: "bool \<Rightarrow> unit result" where
  "need ok = (if ok then Inr () else Inl exit_integrity)"

definition object_json :: "(string \<Rightarrow> string) \<Rightarrow> string \<Rightarrow> string \<Rightarrow> nat \<Rightarrow> project \<Rightarrow> json result" where
  "object_json H lane digest limit s =
     (case find_blob lane digest s of
        None \<Rightarrow> Inl (LaneError ''OBJECT_MISSING'')
      | Some v \<Rightarrow>
          if limit < json_bytes v then Inl (LaneError ''DELTA_EXIT_READ_BUDGET'')
          else rbind (read_object H lane digest s) (\<lambda>x. rbind (need (is_object x)) (\<lambda>_. Inr x)))"

definition all_fields :: "json \<Rightarrow> (string \<times> json) list \<Rightarrow> bool" where
  "all_fields v xs \<longleftrightarrow> list_all (\<lambda>(k, x). same_value (got v k) x) xs"

definition run_bindings :: "delta_run \<Rightarrow> job \<Rightarrow> (string \<times> json) list" where
  "run_bindings d j = [(''job_id'', JStr (dr_job_id d)), (''task_id'', JStr (dr_task_id d)),
     (''plan_revision'', JInt (dr_revision d)), (''contract_digest'', JStr (dr_contract_digest d)),
     (''result_object'', jopt (dr_result_object d)), (''execution_id'', jopt (jb_execution_id j))]"

definition exit_receipt :: "delta_run \<Rightarrow> delta_exit \<Rightarrow> project \<Rightarrow> json result" where
  "exit_receipt d x s =
     (case find (\<lambda>r. rc_receipt_id r = dx_receipt_id x \<and> rc_kind r = ''delta_exit_verified'') (receipts s) of
        None \<Rightarrow> Inl exit_integrity
      | Some r \<Rightarrow>
          if 262144 < json_bytes (rc_body r) then Inl (LaneError ''DELTA_EXIT_READ_BUDGET'')
          else
            let selected = filter (\<lambda>q. rc_kind q = ''delta_next_selected''
                  \<and> jget (rc_body q) ''after_job_id'' = Some (JStr (dr_job_id d))) (receipts s) in
            rbind (need (length selected = 1 \<and> json_bytes (rc_body (hd selected)) \<le> 65536)) (\<lambda>_.
            rbind (need (all_fields (rc_body (hd selected)) [(''plan_revision'', JInt (dr_revision d)),
              (''next_task_id'', jopt (dx_next_task x)), (''automatic_execution'', JBool False),
              (''native_goal_mutated'', JBool False)])) (\<lambda>_.
            rbind (need (is_object (rc_body r))) (\<lambda>_. Inr (rc_body r)))))"

definition checks_agree :: "task_definition \<Rightarrow> json \<Rightarrow> json \<Rightarrow> string list option" where
  "checks_agree task receipt verification =
     (case got verification ''checks'' of
        JArr vs \<Rightarrow>
          let names = map (\<lambda>v. case got v ''check_id'' of JStr n \<Rightarrow> n | _ \<Rightarrow> []) vs in
          if length vs = length (acceptance_checks task)
             \<and> list_all (\<lambda>v. is_object v \<and> as_text (jget v ''check_id'') \<noteq> None \<and> jget v ''passed'' = Some (JBool True)) vs
             \<and> set names = set (acceptance_checks task) \<and> got receipt ''checks'' = jstrs names
          then Some names else None
      | _ \<Rightarrow> None)"

record recorded_exit =
  re_receipt :: string
  re_verification :: string
  re_next :: "string option"
  re_checks :: "string list"

text \<open>
  \<open>read_recorded_exit\<close> on the Plan and Receipts lanes; \<open>validated\<close> and \<open>learned\<close> are the results of the
  checks on the validation summary and on the learning and memory lanes.
\<close>

definition read_recorded_exit ::
  "(string \<Rightarrow> string) \<Rightarrow> (json \<Rightarrow> unit result) \<Rightarrow> (json \<Rightarrow> unit result) \<Rightarrow> delta_run \<Rightarrow> job \<Rightarrow> project
   \<Rightarrow> recorded_exit option result" where
  "read_recorded_exit H validated learned d j s =
     (let exit = find (\<lambda>x. dx_job_id x = dr_job_id d) (delta_exits s) in
      if dr_state d \<noteq> RVerified then
        rbind (need (exit = None \<and> jb_state j \<noteq> JSucceeded)) (\<lambda>_. Inr None)
      else case exit of
        None \<Rightarrow> Inl exit_integrity
      | Some x \<Rightarrow>
          rbind (need (jb_state j = JSucceeded \<and> dr_error_code d = None)) (\<lambda>_.
          rbind (case find_task (dr_revision d) (dr_task_id d) s of None \<Rightarrow> Inl (LaneError ''PLAN_TASK_NOT_FOUND'')
            | Some t \<Rightarrow> view H s t) (\<lambda>t.
          rbind (need (pt_state t = Completed \<and> pt_contract_digest t = dr_contract_digest d
            \<and> jb_plan_revision j = Some (dr_revision d) \<and> jb_action j \<in> set (allowed_actions (pt_definition t)))) (\<lambda>_.
          rbind (exit_receipt d x s) (\<lambda>receipt.
          rbind (object_json H ''plan'' (dx_verification_object x) 262144 s) (\<lambda>verification.
          rbind (need (all_fields receipt (run_bindings d j) \<and> all_fields verification (run_bindings d j))) (\<lambda>_.
          rbind (need (all_fields receipt [(''project_id'', JStr (project_id s)), (''status'', JStr ''passed''),
              (''entry_object'', JStr (dr_entry_object d)), (''verification_object'', JStr (dx_verification_object x)),
              (''owner_fence'', jint_opt (jb_owner_fence j)), (''engine_instance'', got verification ''engine_instance''),
              (''task_mode'', got verification ''task_mode''), (''native_host_tools_attested'', JBool False),
              (''memory_refresh_policy'', got verification ''memory_refresh_policy'')]
            \<and> truthy (got receipt ''engine_instance'')
            \<and> all_fields verification [(''native_host_tools_attested'', JBool False),
              (''verification_basis'', JStr ''registered_profile_checks'')])) (\<lambda>_.
          (case checks_agree (pt_definition t) receipt verification of
             None \<Rightarrow> Inl exit_integrity
           | Some names \<Rightarrow>
               rbind (if validation_policy (pt_definition t) = None then Inr ()
                 else rbind (need (same_value (got receipt ''project_validation_summary_object'')
                        (got verification ''project_validation_summary_object''))) (\<lambda>_. validated verification)) (\<lambda>_.
               rbind (need (case jb_result j of None \<Rightarrow> False | Some v \<Rightarrow> same_value v
                   (JObj [(''result_object'', jopt (dr_result_object d)), (''verification_object'', JStr (dx_verification_object x)),
                     (''receipt_id'', JStr (dx_receipt_id x))]))) (\<lambda>_.
               rbind (learned verification) (\<lambda>_.
               Inr (Some \<lparr>re_receipt = dx_receipt_id x, re_verification = dx_verification_object x,
                 re_next = dx_next_task x, re_checks = names\<rparr>)))))))))))))"

section \<open>Recovery of a lost driver\<close>

definition published_completion ::
  "(string \<Rightarrow> string) \<Rightarrow> (json \<Rightarrow> unit result) \<Rightarrow> (json \<Rightarrow> unit result) \<Rightarrow> string \<Rightarrow> delta_enter \<Rightarrow> (project, bool) action" where
  "published_completion H validated learned jid r =
     bnd (gets (find_run jid)) (\<lambda>found.
     bnd (demand (case found of None \<Rightarrow> None | Some d \<Rightarrow>
       if dr_task_id d = de_task r \<and> dr_revision d = de_revision r \<and> dr_contract_digest d = de_digest r then Some d else None)
       ''DELTA_RECOVERY_BINDING_CHANGED'') (\<lambda>d.
     bnd (get_job jid) (\<lambda>(j, _).
     bnd (bnd (gets (read_recorded_exit H validated learned d j)) lift_result) (\<lambda>e. ret (e \<noteq> None)))))"

definition recover_rows :: "world \<Rightarrow> lease \<Rightarrow> string \<Rightarrow> delta_enter \<Rightarrow> string \<Rightarrow> (project, bool) action" where
  "recover_rows w l jid r cd =
     bnd (update_run jid (\<lambda>d. d\<lparr>dr_state := RBlocked, dr_error_code := Some cd, dr_updated := now w\<rparr>)) (\<lambda>_.
     bnd (modify (\<lambda>s. s\<lparr>jobs := update_where (\<lambda>j. jb_job_id j = jid \<and> jb_state j = JQueued)
       (\<lambda>j. j\<lparr>jb_state := JFailed, jb_error_code := Some cd, jb_resumable := False, jb_updated := now w\<rparr>) (jobs s)\<rparr>)) (\<lambda>_.
     bnd (head_row None) (\<lambda>head.
     bnd (if cur_revision head = de_revision r then
         bnd (task_row (de_revision r) (de_task r)) (\<lambda>t.
         if pt_state t = Active then
           bnd (own_lease w l) (\<lambda>_.
           bnd (transition_rows (branch 1 w) l (de_task r) Blocked (de_revision r) ''engine_recovery'' None None) (\<lambda>_. ret True))
         else ret False)
       else ret False) (\<lambda>changed.
     bnd (append_receipt (branch 2 w) None ''delta_driver_blocked''
       [(''job_id'', JStr jid), (''error_code'', JStr cd), (''automatic_replay'', JBool False)]) (\<lambda>_. ret changed)))))"

definition delta_recover ::
  "world \<Rightarrow> (json \<Rightarrow> unit result) \<Rightarrow> (json \<Rightarrow> unit result) \<Rightarrow> lease \<Rightarrow> string \<Rightarrow> delta_enter \<Rightarrow> string \<Rightarrow> (project, bool) action" where
  "delta_recover w validated learned l jid r cd =
     bnd (published_completion (sha256 w) validated learned jid r) (\<lambda>done.
     if done then ret False
     else in_transaction w l
       (bnd (published_completion (sha256 w) validated learned jid r) (\<lambda>again.
        if again then ret False else recover_rows w l jid r cd)))"

section \<open>Verified exit\<close>

record verification_check =
  vc_id :: string
  vc_passed :: bool
  vc_evidence :: json

definition check_json :: "verification_check \<Rightarrow> json" where
  "check_json v = JObj [(''check_id'', JStr (vc_id v)), (''passed'', JBool (vc_passed v)), (''evidence'', vc_evidence v)]"

definition exit_bindings :: "execution \<Rightarrow> delta_enter \<Rightarrow> json \<Rightarrow> (string \<times> json) list" where
  "exit_bindings x r mode = [(''job_id'', JStr (job_id x)), (''task_id'', JStr (de_task r)),
     (''plan_revision'', JInt (de_revision r)), (''contract_digest'', JStr (de_digest r)),
     (''execution_id'', JStr (execution_id x)), (''engine_instance'', JStr (ls_engine (ex_lease x))), (''task_mode'', mode)]"

text \<open>The checks on the result before its verifier runs.\<close>

definition exit_ready ::
  "world \<Rightarrow> string option \<Rightarrow> execution \<Rightarrow> delta_enter \<Rightarrow> json \<Rightarrow> string \<Rightarrow> (project, plan_task \<times> json) action" where
  "exit_ready w slot x r mode result_object =
     bnd (may_continue w slot x) (\<lambda>_.
     bnd (read_task (sha256 w) (de_task r) (de_revision r)) (\<lambda>t.
     bnd (require (pt_state t = Active \<and> pt_contract_digest t = de_digest r) ''DELTA_EXIT_BINDING_CHANGED'') (\<lambda>_.
     bnd (bnd (gets (read_object (sha256 w) ''plan'' result_object)) lift_result) (\<lambda>result.
     bnd (require (all_fields result (exit_bindings x r mode)) ''DELTA_RESULT_BINDING_MISMATCH'') (\<lambda>_.
     ret (t, result))))))"

text \<open>The verifier must return exactly the acceptance checks of the task.\<close>

definition check_set :: "task_definition \<Rightarrow> verification_check list \<Rightarrow> unit result" where
  "check_set task checks =
     (if length checks \<noteq> length (acceptance_checks task) \<or> set (map vc_id checks) \<noteq> set (acceptance_checks task)
      then Inl (LaneError ''DELTA_CHECK_SET_MISMATCH'')
      else if 65536 < json_bytes (JArr (map check_json checks)) then Inl (LaneError ''DELTA_VERIFICATION_BUDGET'')
      else Inr ())"

definition verification_body ::
  "(string \<times> json) list \<Rightarrow> string \<Rightarrow> verification_check list \<Rightarrow> json \<Rightarrow> json list \<Rightarrow> (string \<times> json) list \<Rightarrow> json" where
  "verification_body bnds result_object checks used evidence extra =
     JObj (bnds @ [(''result_object'', JStr result_object), (''checks'', JArr (map check_json checks)), (''usage'', used),
       (''worker_evidence'', JArr evidence), (''verification_basis'', JStr ''registered_profile_checks''),
       (''native_host_tools_attested'', JBool False), (''memory_refresh_policy'', JStr ''verified_exit_memory_v1'')] @ extra)"

text \<open>A failed acceptance is recorded before it is raised.\<close>

definition failed_exit :: "world \<Rightarrow> execution \<Rightarrow> (string \<times> json) list \<Rightarrow> string \<Rightarrow> json \<Rightarrow> (project, unit) action" where
  "failed_exit w x bnds result_object verification =
     in_transaction w (ex_lease x)
       (bnd (put_object w ''plan'' 262144 verification) (\<lambda>vo.
        bnd (append_receipt w None ''delta_verification_failed'' (bnds @ [(''verification_object'', JStr vo),
          (''result_object'', JStr result_object), (''status'', JStr ''failed'')])) (\<lambda>_.
        update_run (job_id x) (\<lambda>d. d\<lparr>dr_result_object := Some result_object\<rparr>))))"

text \<open>The next task: the first queued row whose dependencies are all completed.\<close>

definition dependencies_done :: "int \<Rightarrow> string \<Rightarrow> project \<Rightarrow> bool" where
  "dependencies_done rv tid s \<longleftrightarrow> \<not> list_ex (\<lambda>d. dep_revision d = rv \<and> dep_task_id d = tid
     \<and> list_ex (\<lambda>p. pt_revision p = rv \<and> pt_task_id p = dep_dependency d \<and> pt_state p \<noteq> Completed) (tasks s)) (dependencies s)"

definition next_ready :: "int \<Rightarrow> project \<Rightarrow> string option" where
  "next_ready rv s = map_option pt_task_id
     (find (\<lambda>t. pt_state t = Queued \<and> dependencies_done rv (pt_task_id t) s) (tasks_of rv s))"

definition exit_clash :: "delta_exit \<Rightarrow> delta_exit \<Rightarrow> bool" where
  "exit_clash a b \<longleftrightarrow> dx_job_id a = dx_job_id b \<or> dx_receipt_id a = dx_receipt_id b"

definition receipt_fields ::
  "execution \<Rightarrow> delta_run \<Rightarrow> (string \<times> json) list \<Rightarrow> string \<Rightarrow> string \<Rightarrow> string \<Rightarrow> int option \<Rightarrow> verification_check list
   \<Rightarrow> (string \<times> json) list \<Rightarrow> (string \<times> json) list" where
  "receipt_fields x d bnds pid vo result_object generation checks extra =
     bnds @ [(''project_id'', JStr pid), (''status'', JStr ''passed''), (''verification_object'', JStr vo),
       (''result_object'', JStr result_object), (''entry_object'', JStr (dr_entry_object d)),
       (''owner_fence'', jint_opt (cl_owner_fence (ex_claim x))), (''worker_generation'', jint_opt generation),
       (''checks'', jstrs (map vc_id checks)), (''native_host_tools_attested'', JBool False),
       (''memory_refresh_policy'', JStr ''verified_exit_memory_v1'')] @ extra"

definition select_next :: "world \<Rightarrow> lease \<Rightarrow> int \<Rightarrow> (project, string option) action" where
  "select_next w l rv =
     bnd (gets (next_ready rv)) (\<lambda>n.
     bnd (case n of None \<Rightarrow> ret () | Some tid \<Rightarrow> bnd (own_lease w l) (\<lambda>_.
       bnd (transition_rows w l tid Active rv ''engine_verified_exit'' None None) (\<lambda>_. ret ()))) (\<lambda>_. ret n))"

definition running_run :: "execution \<Rightarrow> delta_enter \<Rightarrow> (project, delta_run) action" where
  "running_run x r =
     bnd (gets (find_run (job_id x))) (\<lambda>found.
     bnd (demand (case found of None \<Rightarrow> None | Some d \<Rightarrow>
       if dr_state d = RRunning \<and> dr_contract_digest d = de_digest r then Some d else None) ''DELTA_EXIT_BINDING_CHANGED'') (\<lambda>d.
     bnd (gets (pending_effect (job_id x))) (\<lambda>pending.
     bnd (require (\<not> pending) ''EFFECT_OUTCOME_UNCERTAIN'') (\<lambda>_. ret d))))"

definition verified_exit_rows ::
  "world \<Rightarrow> string option \<Rightarrow> execution \<Rightarrow> delta_enter \<Rightarrow> string \<Rightarrow> (string \<times> json) list \<Rightarrow> string \<Rightarrow> verification_check list
   \<Rightarrow> json \<Rightarrow> int option \<Rightarrow> (string \<times> json) list \<Rightarrow> (project, string \<times> string \<times> string option) action" where
  "verified_exit_rows w slot x r actor bnds result_object checks verification generation extra =
     in_transaction w (ex_lease x)
       (bnd (put_object w ''plan'' 262144 verification) (\<lambda>vo.
        bnd (current_owner w slot x) (\<lambda>_.
        bnd (owner_steers (ex_revision x)) (\<lambda>qs.
        bnd (gets paused) (\<lambda>stopped.
        bnd (require (qs = [] \<and> \<not> stopped) ''JOB_CHECKPOINT_REQUIRED'') (\<lambda>_.
        bnd (running_run x r) (\<lambda>d.
        bnd (gets project_id) (\<lambda>pid.
        bnd (append_receipt (branch 1 w) None ''delta_exit_verified''
          (receipt_fields x d bnds pid vo result_object generation checks extra)) (\<lambda>receipt.
        bnd (complete (branch 2 w) (ex_lease x) (job_id x) (JObj [(''result_object'', JStr result_object),
          (''verification_object'', JStr vo), (''receipt_id'', JStr receipt)]) (execution_id x)) (\<lambda>_.
        bnd (own_lease w (ex_lease x)) (\<lambda>_.
        bnd (transition_rows (branch 3 w) (ex_lease x) (de_task r) Completed (de_revision r) actor None (Some receipt)) (\<lambda>_.
        bnd (select_next (branch 4 w) (ex_lease x) (de_revision r)) (\<lambda>n.
        bnd (update_run (job_id x) (\<lambda>d. d\<lparr>dr_state := RVerified, dr_result_object := Some result_object,
          dr_error_code := None, dr_updated := now w\<rparr>)) (\<lambda>_.
        bnd (insert_row delta_exits delta_exits_update exit_clash
          \<lparr>dx_job_id = job_id x, dx_verification_object = vo, dx_receipt_id = receipt, dx_next_task = n,
           dx_created = now w\<rparr>) (\<lambda>_.
        bnd (append_receipt (branch 5 w) None ''delta_next_selected'' [(''after_job_id'', JStr (job_id x)),
          (''plan_revision'', JInt (de_revision r)), (''next_task_id'', jopt n), (''automatic_execution'', JBool False),
          (''native_goal_mutated'', JBool False)]) (\<lambda>_. ret (receipt, vo, n)))))))))))))))))"

end
