(* ===== verification/Access.thy ===== *)
theory Access
  imports Writers Python_Values
begin

text \<open>
  The grants of a project (projects.py, \<open>ProjectAccess\<close>): issue, derivation from a parent grant,
  revocation and authorization. Paths are absolute and given by components; \<open>linked\<close> tells which paths
  cross a symbolic link, \<open>resolve\<close> follows them, \<open>directory\<close> tells which paths are directories.
\<close>

definition PERMISSIONS :: "string list" where
  "PERMISSIONS = [''read'', ''write'', ''tools'', ''network'', ''publish'', ''approve'', ''admin'']"

definition find_grant :: "string \<Rightarrow> project \<Rightarrow> access_grant option" where
  "find_grant gid s = find (\<lambda>g. ag_grant_id g = gid) (grants s)"

definition is_under :: "string list \<Rightarrow> string list \<Rightarrow> bool" where
  "is_under root path \<longleftrightarrow> take (length root) path = root"

text \<open>A text column counts as set when it is a nonempty text.\<close>

definition text_set :: "string option \<Rightarrow> bool" where
  "text_set x \<longleftrightarrow> (case x of None \<Rightarrow> False | Some t \<Rightarrow> t \<noteq> [])"

section \<open>Issue and revocation\<close>

record grant_request =
  gr_principal :: string
  gr_permissions :: "string list"
  gr_roots :: "string list list"
  gr_expires :: "int option"
  gr_parent :: "string option"

record filesystem =
  fs_linked :: "string list \<Rightarrow> bool"
  fs_directory :: "string list \<Rightarrow> bool"
  fs_resolve :: "string list \<Rightarrow> string list"

definition grant_root :: "filesystem \<Rightarrow> string list \<Rightarrow> string list result" where
  "grant_root fs p = (if fs_linked fs p then Inl (LaneError ''LINKED_STORAGE_PATH'')
     else if \<not> fs_directory fs p then Inl (LaneError ''INVALID_GRANT_ROOT'') else Inr (fs_resolve fs p))"

text \<open>A derived grant stays within one current parent that is not derived itself.\<close>

definition parent_covers :: "int \<Rightarrow> grant_request \<Rightarrow> string list list \<Rightarrow> access_grant \<Rightarrow> bool" where
  "parent_covers clock r roots p \<longleftrightarrow>
     \<not> text_set (ag_revoked p) \<and> ag_parent p = None
     \<and> (case (ag_expires p, gr_expires r) of (Some limit, Some e) \<Rightarrow> clock < e \<and> e \<le> limit | _ \<Rightarrow> False)
     \<and> set (gr_permissions r) \<subseteq> set (ag_permissions p) \<and> set roots \<subseteq> set (ag_roots p)"

definition valid_grant :: "int \<Rightarrow> grant_request \<Rightarrow> unit result" where
  "valid_grant clock r =
     (if gr_principal r = [] \<or> 128 < length (gr_principal r) \<or> gr_permissions r = []
        \<or> \<not> set (gr_permissions r) \<subseteq> set PERMISSIONS then Inl (LaneError ''INVALID_GRANT'')
      else if (case gr_expires r of None \<Rightarrow> False | Some e \<Rightarrow> e \<le> clock) then Inl (LaneError ''INVALID_GRANT_EXPIRY'')
      else Inr ())"

definition roots_json :: "string list list \<Rightarrow> json" where
  "roots_json roots = JArr (map (\<lambda>p. JStr (concat (map (\<lambda>c. CHR ''/'' # c) p))) roots)"

definition new_grant :: "world \<Rightarrow> grant_request \<Rightarrow> string list list \<Rightarrow> access_grant" where
  "new_grant w r roots =
     \<lparr>ag_grant_id = draw 0 w, ag_principal = gr_principal r, ag_permissions = sort (remdups (gr_permissions r)),
      ag_roots = sort (remdups roots), ag_expires = gr_expires r, ag_revoked = None, ag_created = now w,
      ag_parent = gr_parent r\<rparr>"

definition issue_grant :: "world \<Rightarrow> filesystem \<Rightarrow> lease \<Rightarrow> grant_request \<Rightarrow> (project, string) action" where
  "issue_grant w fs l r =
     bnd (lift_result (valid_grant (instant w) r)) (\<lambda>_.
     bnd (lift_result (rcollect (grant_root fs) (gr_roots r))) (\<lambda>roots.
     in_transaction w l
       (bnd (case gr_parent r of
           None \<Rightarrow> ret ()
         | Some pid \<Rightarrow> bnd (gets (find_grant pid)) (\<lambda>p.
             require (case p of None \<Rightarrow> False | Some x \<Rightarrow> parent_covers (instant w) r roots x) ''INVALID_PARENT_GRANT'')) (\<lambda>_.
        bnd (insert_into grants grants_update ag_grant_id (new_grant w r roots)) (\<lambda>_.
        bnd (append_receipt (branch 1 w) (Some ''receipts'') ''grant_issued''
          [(''grant_id'', JStr (draw 0 w)), (''principal_id'', JStr (gr_principal r)),
           (''permissions'', jstrs (sort (remdups (gr_permissions r)))), (''scope_roots'', roots_json (sort (remdups roots))),
           (''parent_grant_id'', jopt (gr_parent r))]) (\<lambda>_. ret (draw 0 w)))))))"

definition revoke_grant :: "world \<Rightarrow> lease \<Rightarrow> string \<Rightarrow> (project, unit) action" where
  "revoke_grant w l gid =
     in_transaction w l
       (bnd (gets (\<lambda>s. list_ex (\<lambda>g. ag_grant_id g = gid \<and> ag_revoked g = None) (grants s))) (\<lambda>open_grant.
        bnd (modify (\<lambda>s. s\<lparr>grants := update_where (\<lambda>g. ag_grant_id g = gid \<and> ag_revoked g = None)
          (\<lambda>g. g\<lparr>ag_revoked := Some (now w)\<rparr>) (grants s)\<rparr>)) (\<lambda>_.
        if open_grant then
          bnd (append_receipt w (Some ''receipts'') ''grant_revoked'' [(''grant_id'', JStr gid)]) (\<lambda>_. ret ())
        else ret ())))"

section \<open>Authorization\<close>

text \<open>What the loop of \<open>authorize\<close> asks of a grant before its paths.\<close>

definition parent_allows :: "int \<Rightarrow> string \<Rightarrow> project \<Rightarrow> access_grant \<Rightarrow> bool" where
  "parent_allows clock permission s g \<longleftrightarrow> (case ag_parent g of
     None \<Rightarrow> True
   | Some pid \<Rightarrow> (case find_grant pid s of
         None \<Rightarrow> False
       | Some p \<Rightarrow> \<not> text_set (ag_revoked p) \<and> (case ag_expires p of None \<Rightarrow> False | Some e \<Rightarrow> clock < e)
           \<and> permission \<in> set (ag_permissions p)))"

definition grant_allows :: "int \<Rightarrow> string \<Rightarrow> project \<Rightarrow> access_grant \<Rightarrow> bool" where
  "grant_allows clock permission s g \<longleftrightarrow> parent_allows clock permission s g \<and> permission \<in> set (ag_permissions g)
     \<and> (case ag_expires g of None \<Rightarrow> True | Some e \<Rightarrow> clock < e)"

fun covered_by :: "filesystem \<Rightarrow> string list \<Rightarrow> string list list \<Rightarrow> bool result" where
  "covered_by fs target [] = Inr False"
| "covered_by fs target (root # roots) =
     (if is_under root target then
        (if fs_linked fs target then Inl (LaneError ''LINKED_STORAGE_PATH'')
         else if is_under root (fs_resolve fs target) then Inr True else covered_by fs target roots)
      else covered_by fs target roots)"

fun authorize_loop ::
  "int \<Rightarrow> filesystem \<Rightarrow> string \<Rightarrow> string list option \<Rightarrow> project \<Rightarrow> access_grant list \<Rightarrow> unit result" where
  "authorize_loop clock fs permission target s [] = Inl (LaneError ''PERMISSION_DENIED'')"
| "authorize_loop clock fs permission target s (g # gs) =
     (if \<not> grant_allows clock permission s g then authorize_loop clock fs permission target s gs
      else case target of
        None \<Rightarrow> Inr ()
      | Some path \<Rightarrow> rbind (covered_by fs path (ag_roots g)) (\<lambda>ok.
          if ok then Inr () else authorize_loop clock fs permission target s gs))"

definition authorize ::
  "world \<Rightarrow> filesystem \<Rightarrow> string \<Rightarrow> string \<Rightarrow> string list option \<Rightarrow> project \<Rightarrow> unit result" where
  "authorize w fs who permission target s =
     (if permission \<notin> set PERMISSIONS then Inl (LaneError ''PERMISSION_DENIED'')
      else if permission \<noteq> ''read'' \<and> who \<in> set (retired_clients s) then Inl (LaneError ''SOURCE_CLIENT_CLOSEOUT_ONLY'')
      else authorize_loop (instant w) fs permission target s
        (filter (\<lambda>g. ag_principal g = who \<and> ag_revoked g = None) (grants s)))"

declare PERMISSIONS_def [op_defs] find_grant_def [op_defs] is_under_def [op_defs] text_set_def [op_defs]
  grant_root_def [op_defs] parent_covers_def [op_defs] valid_grant_def [op_defs] roots_json_def [op_defs]
  new_grant_def [op_defs] issue_grant_def [op_defs] revoke_grant_def [op_defs] parent_allows_def [op_defs]
  grant_allows_def [op_defs] authorize_def [op_defs]

section \<open>What an authorization rests on\<close>

lemma authorize_loop_Inr:
  "authorize_loop clock fs permission target s gs = Inr () \<Longrightarrow>
     \<exists>g \<in> set gs. grant_allows clock permission s g
       \<and> (case target of None \<Rightarrow> True | Some path \<Rightarrow> covered_by fs path (ag_roots g) = Inr True)"
  by (induction clock fs permission target s gs rule: authorize_loop.induct)
    (auto simp: run_simps split: if_splits option.splits)

lemma covered_by_True:
  "covered_by fs target roots = Inr True \<Longrightarrow>
     \<exists>root \<in> set roots. is_under root target \<and> is_under root (fs_resolve fs target) \<and> \<not> fs_linked fs target"
  by (induction fs target roots rule: covered_by.induct) (auto split: if_splits)

lemma authorize_Inr:
  assumes "authorize w fs who permission target s = Inr ()"
  obtains g where "g \<in> set (grants s)" "ag_principal g = who" "ag_revoked g = None"
    "grant_allows (instant w) permission s g"
    "case target of None \<Rightarrow> True | Some path \<Rightarrow> covered_by fs path (ag_roots g) = Inr True"
  using assms
  by (auto simp: authorize_def split: if_splits dest!: authorize_loop_Inr)

section \<open>Derived grants\<close>

text \<open>The operations on grants, the writer's included.\<close>

datatype access_op =
    AWriter writer_op
  | AIssue world filesystem lease grant_request
  | ARevoke world lease string

primrec access_exec :: "access_op \<Rightarrow> (project, unit) action" where
  "access_exec (AWriter x) = discard (writer_exec x)"
| "access_exec (AIssue w fs l r) = discard (issue_grant w fs l r)"
| "access_exec (ARevoke w l gid) = revoke_grant w l gid"

text \<open>A derived grant has a root grant as its parent, and permissions, roots and expiry within it.\<close>

definition within_parent :: "access_grant \<Rightarrow> access_grant \<Rightarrow> bool" where
  "within_parent p g \<longleftrightarrow> ag_parent g = Some (ag_grant_id p) \<and> ag_parent p = None
     \<and> set (ag_permissions g) \<subseteq> set (ag_permissions p) \<and> set (ag_roots g) \<subseteq> set (ag_roots p)
     \<and> (case (ag_expires p, ag_expires g) of (Some limit, Some e) \<Rightarrow> e \<le> limit | _ \<Rightarrow> False)"

definition grants_inv :: "project \<Rightarrow> bool" where
  "grants_inv s \<longleftrightarrow> distinct (map ag_grant_id (grants s))
     \<and> list_all (\<lambda>g. ag_parent g = None \<or> list_ex (\<lambda>p. within_parent p g) (grants s)) (grants s)"

lemma within_parent_revoked [simp]:
  "within_parent (p\<lparr>ag_revoked := x\<rparr>) g = within_parent p g" "within_parent p (g\<lparr>ag_revoked := x\<rparr>) = within_parent p g"
  by (simp_all add: within_parent_def)

lemma new_grant_within:
  assumes "parent_covers clock r roots p" "gr_parent r = Some (ag_grant_id p)"
  shows "within_parent p (new_grant w r roots)"
  using assms by (auto simp: parent_covers_def within_parent_def new_grant_def split: option.splits)

lemma grants_inv_cong: "grants s' = grants s \<Longrightarrow> grants_inv s' = grants_inv s"
  by (simp add: grants_inv_def)

lemma issue_grant_Inr:
  assumes "issue_grant w fs l r s = Inr (gid, s')"
  obtains roots where "grants s' = grants s @ [new_grant w r roots]" "draw 0 w \<notin> ag_grant_id ` set (grants s)"
    "case gr_parent r of None \<Rightarrow> True | Some pid \<Rightarrow> (case find_grant pid s of None \<Rightarrow> False
       | Some p \<Rightarrow> parent_covers (instant w) r roots p)"
proof -
  have id: "ag_grant_id (new_grant w r roots) = draw 0 w" for roots by (simp add: new_grant_def)
  from assms obtain roots t q t' where
    parent: "(case gr_parent r of None \<Rightarrow> ret () | Some pid \<Rightarrow> bnd (gets (find_grant pid)) (\<lambda>p.
       require (case p of None \<Rightarrow> False | Some x \<Rightarrow> parent_covers (instant w) r roots x) ''INVALID_PARENT_GRANT'')) s = Inr ((), t)"
    and insert: "insert_into grants grants_update ag_grant_id (new_grant w r roots) t = Inr ((), t')"
    and receipt: "\<exists>b. append_receipt (branch 1 w) (Some ''receipts'') ''grant_issued'' b t' = Inr (q, s')"
    unfolding issue_grant_def
    by (clarsimp simp: bnd_Inr in_transaction_Inr lift_result_Inr ret_Inr simp del: append_receipt_Inr case_option_Inr insert_into_Inr)
      blast
  have t: "t = s" using parent by (cases "gr_parent r") (auto simp: run_simps)
  show thesis
  proof (rule that)
    show "grants s' = grants s @ [new_grant w r roots]" "draw 0 w \<notin> ag_grant_id ` set (grants s)"
      using insert receipt by (auto simp: run_simps id t)
    show "case gr_parent r of None \<Rightarrow> True | Some pid \<Rightarrow> (case find_grant pid s of None \<Rightarrow> False
       | Some p \<Rightarrow> parent_covers (instant w) r roots p)"
      using parent by (cases "gr_parent r") (simp_all add: run_simps)
  qed
qed

lemma issue_grants_inv: "issue_grant w fs l r s = Inr (gid, s') \<Longrightarrow> grants_inv s \<Longrightarrow> grants_inv s'"
proof (erule issue_grant_Inr)
  fix roots
  assume inv: "grants_inv s" and s': "grants s' = grants s @ [new_grant w r roots]"
    and fresh: "draw 0 w \<notin> ag_grant_id ` set (grants s)"
    and parent: "case gr_parent r of None \<Rightarrow> True | Some pid \<Rightarrow> (case find_grant pid s of None \<Rightarrow> False
       | Some p \<Rightarrow> parent_covers (instant w) r roots p)"
  have "ag_parent (new_grant w r roots) = None \<or> list_ex (\<lambda>p. within_parent p (new_grant w r roots)) (grants s)"
  proof (cases "gr_parent r")
    case (Some pid)
    with parent obtain p where p: "find_grant pid s = Some p" "parent_covers (instant w) r roots p"
      by (auto split: option.splits)
    then have "p \<in> set (grants s)" "ag_grant_id p = pid" by (auto simp: find_grant_def dest: find_SomeD)
    with new_grant_within [OF p(2)] Some show ?thesis by (auto simp: list_ex_iff)
  qed (simp add: new_grant_def)
  with inv fresh show "grants_inv s'"
    unfolding grants_inv_def s' by (auto simp: list_all_iff list_ex_iff new_grant_def)
qed

lemma revoke_grants_inv: "revoke_grant w l gid s = Inr (u, s') \<Longrightarrow> grants_inv s \<Longrightarrow> grants_inv s'"
proof -
  assume run: "revoke_grant w l gid s = Inr (u, s')" and inv: "grants_inv s"
  let ?P = "\<lambda>g. ag_grant_id g = gid \<and> ag_revoked g = None" and ?f = "\<lambda>g. g\<lparr>ag_revoked := Some (now w)\<rparr>"
  from run have s': "grants s' = update_where ?P ?f (grants s)"
    unfolding revoke_grant_def by (auto simp: run_simps in_transaction_Inr split: if_splits)
  have "map ag_grant_id (grants s') = map ag_grant_id (grants s)"
    by (simp add: s' map_update_where)
  moreover have "list_ex (\<lambda>p. within_parent p g) (grants s') = list_ex (\<lambda>p. within_parent p g) (grants s)" for g
  proof -
    have "list_ex (\<lambda>p. within_parent p g) (update_where ?P ?f ps) = list_ex (\<lambda>p. within_parent p g) ps" for ps
      by (induction ps) (simp_all add: update_where_def)
    then show ?thesis by (simp add: s')
  qed
  ultimately show "grants_inv s'"
    using inv unfolding grants_inv_def
    by (auto simp: list_all_iff s' set_update_where)
qed

lemma access_exec_inv:
  assumes "access_exec x s = Inr (u, s')" "grants_inv s"
  shows "grants_inv s'"
proof (cases x)
  case (AWriter y)
  then obtain r where "writer_exec y s = Inr (r, s')" using assms(1) by (auto simp: run_simps)
  from writer_exec_frame [OF this] have "grants s' = grants s" by (rule writer_frame_field [where f = grants]) simp
  then show ?thesis using assms(2) grants_inv_cong by blast
next
  case (AIssue w fs l r)
  then obtain gid where "issue_grant w fs l r s = Inr (gid, s')" using assms(1) by (auto simp: run_simps)
  with assms(2) show ?thesis by (blast intro: issue_grants_inv)
next
  case (ARevoke w l gid)
  with assms(1) have "revoke_grant w l gid s = Inr (u, s')" by simp
  then show ?thesis using assms(2) by (rule revoke_grants_inv)
qed

interpretation grants_machine: invariant_machine access_exec grants_inv
  by unfold_locales (rule validI, rule access_exec_inv)

section \<open>Properties\<close>

text \<open>
  C31. A derived grant never exceeds its parent: in every state that issue, derivation, revocation and
  the writer's operations reach, each derived grant has a stored root grant as its parent, and its
  permissions, roots and expiry are within the parent's.
\<close>

theorem derived_grants_stay_within_parent:
  "filter (\<lambda>g. ag_parent g \<noteq> None
      \<and> \<not> list_ex (\<lambda>p. within_parent p g) (grants (run_ops access_exec xs (empty_project pid rt))))
     (grants (run_ops access_exec xs (empty_project pid rt))) = []"
proof -
  have "grants_inv (run_ops access_exec xs (empty_project pid rt))"
    by (rule grants_machine.run_keeps) (simp add: grants_inv_def empty_project_def)
  then show ?thesis by (auto simp: grants_inv_def filter_empty_conv list_all_iff)
qed

text \<open>
  C32. What an authorization rests on: \<open>authorize\<close> succeeds only with a known permission and a stored
  grant of the same principal that is not revoked, not expired and has the permission; whose parent, if
  any, is stored, not revoked, not expired and has the permission too; and, for a path, with a root of
  the grant that covers the path before and after links are followed.
\<close>

theorem authorization_rests_on_a_live_grant:
  "case authorize w fs who permission target s of
     Inl e \<Rightarrow> True
   | Inr _ \<Rightarrow> permission \<in> set PERMISSIONS \<and> list_ex (\<lambda>g. ag_principal g = who \<and> ag_revoked g = None
       \<and> permission \<in> set (ag_permissions g) \<and> (case ag_expires g of None \<Rightarrow> True | Some e \<Rightarrow> instant w < e)
       \<and> (case ag_parent g of None \<Rightarrow> True | Some pid \<Rightarrow> (case find_grant pid s of None \<Rightarrow> False
            | Some p \<Rightarrow> \<not> text_set (ag_revoked p) \<and> permission \<in> set (ag_permissions p)
                \<and> (case ag_expires p of None \<Rightarrow> False | Some e \<Rightarrow> instant w < e)))
       \<and> (case target of None \<Rightarrow> True | Some path \<Rightarrow> \<not> fs_linked fs path
            \<and> list_ex (\<lambda>root. is_under root path \<and> is_under root (fs_resolve fs path)) (ag_roots g))) (grants s)"
proof (cases "authorize w fs who permission target s")
  case (Inr u)
  then have run: "authorize w fs who permission target s = Inr ()" by simp
  from run have "permission \<in> set PERMISSIONS" by (simp add: authorize_def split: if_splits)
  moreover from run obtain g where "g \<in> set (grants s)" "ag_principal g = who" "ag_revoked g = None"
    "grant_allows (instant w) permission s g"
    "case target of None \<Rightarrow> True | Some path \<Rightarrow> covered_by fs path (ag_roots g) = Inr True"
    by (rule authorize_Inr)
  moreover from this(5) have "case target of None \<Rightarrow> True | Some path \<Rightarrow> \<not> fs_linked fs path
      \<and> list_ex (\<lambda>root. is_under root path \<and> is_under root (fs_resolve fs path)) (ag_roots g)"
    by (cases target) (auto simp: list_ex_iff dest!: covered_by_True)
  ultimately show ?thesis
    unfolding Inr sum.case list_ex_iff [of _ "grants s"] grant_allows_def parent_allows_def
    by (intro conjI bexI [of _ g]) (auto split: option.split_asm)
qed simp

end
