(* ===== verification/Job_Recovery.thy ===== *)
theory Job_Recovery
  imports Delta Access
begin

text \<open>
  Recovery of uncertain external effects (job_recovery.py): the observation of a prepared local file
  operation, and the reconciliation that turns it into evidence without replaying work.
\<close>

section \<open>Preparations\<close>

definition LOCAL_PREPARATIONS :: "(string \<times> string \<times> string) list" where
  "LOCAL_PREPARATIONS = [
     (''code_apply'', ''code_mutation_prepared'', ''path''),
     (''document_export'', ''document_export_prepared'', ''destination''),
     (''presentation_export'', ''presentation_export_prepared'', ''destination''),
     (''tableau_export'', ''tableau_export_prepared'', ''destination''),
     (''powerbi_export'', ''powerbi_export_prepared'', ''destination''),
     (''pdf_export'', ''pdf_export_prepared'', ''destination''),
     (''media_export'', ''media_export_prepared'', ''destination''),
     (''spreadsheet_export'', ''tabular_export_prepared'', ''destination''),
     (''data_export'', ''tabular_export_prepared'', ''destination'')]"

definition effect_json :: "effect \<Rightarrow> json" where
  "effect_json e = JObj [(''effect_id'', JStr (ef_effect_id e)), (''job_id'', JStr (ef_job_id e)),
     (''effect_key'', JStr (ef_key e)), (''state'', JStr (effect_state_name (ef_state e))),
     (''description'', JStr (ef_description e)), (''evidence_object'', jopt (ef_evidence e)),
     (''created_at'', JStr (ef_created e)), (''updated_at'', JStr (ef_updated e))]"

definition effect_digest :: "(string \<Rightarrow> string) \<Rightarrow> job \<Rightarrow> effect \<Rightarrow> string" where
  "effect_digest H j e = content_digest H (JObj [(''job_id'', JStr (jb_job_id j)),
     (''request_digest'', JStr (jb_request_digest j)), (''execution_id'', jopt (jb_execution_id j)),
     (''state'', JStr (job_state_name (jb_state j))), (''updated_at'', JStr (jb_updated j)), (''effect'', effect_json e)])"

definition evidenced :: "effect \<Rightarrow> bool" where
  "evidenced e \<longleftrightarrow> ef_state e = Confirmed \<and> text_set (ef_evidence e)"

definition observation_route :: "job \<Rightarrow> effect \<Rightarrow> string" where
  "observation_route j e =
     (if evidenced e then ''recorded_confirmation''
      else if map_of LOCAL_PREPARATIONS (jb_action j) \<noteq> None then ''local_preparation''
      else if jb_action j \<in> {''git_sync_selected'', ''enroll_project'', ''remote_git_execute_push''} then ''git_readback''
      else ''provider_observation_required'')"

text \<open>\<open>inspect\<close>: at most 128 effects, in the order of their identifiers.\<close>

definition inspect_job :: "(string \<Rightarrow> string) \<Rightarrow> string \<Rightarrow> (project, job \<times> (effect \<times> string \<times> string) list) action" where
  "inspect_job H jid =
     bnd (job_row jid) (\<lambda>j.
     bnd (gets (\<lambda>s. sort_key ef_effect_id (filter (\<lambda>e. ef_job_id e = jid) (effects s)))) (\<lambda>es.
     bnd (require (length es \<le> 128) ''JOB_EFFECT_BUDGET'') (\<lambda>_.
     ret (j, map (\<lambda>e. (e, effect_digest H j e, observation_route j e)) es))))"

section \<open>Observation\<close>

text \<open>\<open>os.path.abspath\<close> on components: \<open>..\<close> removes the component before it.\<close>

definition fold_parts :: "string list \<Rightarrow> string list" where
  "fold_parts parts = rev (fold (\<lambda>c acc. if c = ''..'' then tl acc else c # acc) parts [])"

record observer =
  ob_source_root :: "string list"
  ob_fs :: filesystem
  ob_file :: "string list \<Rightarrow> (string option \<times> json) result"
  ob_git :: "job \<Rightarrow> effect \<Rightarrow> json result"

definition digest_or_none :: "json \<Rightarrow> bool" where
  "digest_or_none v \<longleftrightarrow> v = JNull \<or> (case v of JStr t \<Rightarrow> digest_pattern t | _ \<Rightarrow> False)"

definition preparation_ok :: "job \<Rightarrow> json \<Rightarrow> string \<Rightarrow> bool" where
  "preparation_ok j body key \<longleftrightarrow>
     (case got body ''after_sha256'' of JStr t \<Rightarrow> digest_pattern t | _ \<Rightarrow> False)
     \<and> digest_or_none (got body ''before_sha256'') \<and> got body ''before_sha256'' \<noteq> got body ''after_sha256''
     \<and> (case got body key of JStr t \<Rightarrow> t \<noteq> [] \<and> length t \<le> 1000 | _ \<Rightarrow> False)
     \<and> (case jget body ''job_id'' of None \<Rightarrow> True | Some v \<Rightarrow> v = JStr (jb_job_id j))"

text \<open>A relative POSIX path, with backslashes read as slashes.\<close>

definition relative_parts :: "json \<Rightarrow> bool \<times> string list" where
  "relative_parts v = (case v of JStr t \<Rightarrow> path_of (map (\<lambda>c. if c = CHR 0x5C then CHR ''/'' else c) t) | _ \<Rightarrow> (False, []))"

definition admitted_path :: "string list \<Rightarrow> string \<Rightarrow> string list" where
  "admitted_path source filename = (let (absolute, parts) = path_of filename in
     fold_parts (if absolute then parts else source @ parts))"

definition observed_outcome :: "json \<Rightarrow> string option \<Rightarrow> effect_state result" where
  "observed_outcome body found =
     (if jopt found = got body ''after_sha256'' then Inr Confirmed
      else if jopt found = got body ''before_sha256'' then Inr Absent
      else Inl (LaneError ''JOB_EFFECT_SOURCE_CONFLICT''))"

definition preparation_receipt :: "string \<Rightarrow> string \<Rightarrow> project \<Rightarrow> receipt result" where
  "preparation_receipt kind eid s =
     (case filter (\<lambda>r. rc_kind r = kind \<and> jget (rc_body r) ''effect_id'' = Some (JStr eid)) (receipts s) of
        [r] \<Rightarrow> if json_bytes (rc_body r) \<le> 65536 then Inr r else Inl (LaneError ''JOB_EFFECT_PREPARATION_REQUIRED'')
      | _ \<Rightarrow> Inl (LaneError ''JOB_EFFECT_PREPARATION_REQUIRED''))"

definition observe_local ::
  "world \<Rightarrow> observer \<Rightarrow> string \<Rightarrow> job \<Rightarrow> effect \<Rightarrow> string \<times> string \<Rightarrow> project \<Rightarrow> (effect_state \<times> json) result" where
  "observe_local w ob client j e = (\<lambda>(kind, key) s.
     rbind (preparation_receipt kind (ef_effect_id e) s) (\<lambda>r.
     let body = rc_body r; (absolute, parts) = relative_parts (got body key); path = ob_source_root ob @ parts in
     if \<not> preparation_ok j body key then Inl (LaneError ''JOB_EFFECT_PREPARATION_INVALID'')
     else if absolute \<or> list_ex (\<lambda>p. p \<in> {''.'', ''..''} \<or> CHR '':'' \<in> set p) parts
     then Inl (LaneError ''JOB_EFFECT_PATH_INVALID'')
     else (case as_text (jget (rq_arguments (jb_request j)) ''filename'') of
         None \<Rightarrow> Inl (LaneError ''JOB_EFFECT_REQUEST_MISMATCH'')
       | Some filename \<Rightarrow>
           if filename = [] \<or> got (rq_arguments (jb_request j)) ''expected_sha256'' \<noteq> got body ''before_sha256''
             \<or> admitted_path (ob_source_root ob) filename \<noteq> path then Inl (LaneError ''JOB_EFFECT_REQUEST_MISMATCH'')
           else if fs_linked (ob_fs ob) path then Inl (LaneError ''LINKED_STORAGE_PATH'')
           else rbind (authorize w (ob_fs ob) client ''read'' (Some path) s) (\<lambda>_.
             rbind (ob_file ob path) (\<lambda>(found, identity).
             rbind (observed_outcome body found) (\<lambda>outcome.
             Inr (outcome, JObj [(''outcome'', JStr (effect_state_name outcome)), (''basis'', JStr ''observed_local_preparation''),
               (''preparation_receipt_id'', JStr (rc_receipt_id r)),
               (''preparation_digest'', JStr (content_digest (sha256 w) body)),
               (''relative_path'', JStr (path_text (False, parts))), (''before_sha256'', got body ''before_sha256''),
               (''after_sha256'', got body ''after_sha256''), (''observed_sha256'', jopt found), (''identity'', identity),
               (''source_currentness'', JStr ''observed_during_reconciliation'')])))))))"

definition recorded_confirmation :: "(string \<Rightarrow> string) \<Rightarrow> effect \<Rightarrow> project \<Rightarrow> (effect_state \<times> json) result" where
  "recorded_confirmation H e s =
     (let d = (case ef_evidence e of None \<Rightarrow> [] | Some x \<Rightarrow> x) in
      case registered ''plan'' d s of
        None \<Rightarrow> Inl (LaneError ''JOB_EFFECT_EVIDENCE_BUDGET'')
      | Some row \<Rightarrow>
          if 65536 < ob_size row then Inl (LaneError ''JOB_EFFECT_EVIDENCE_BUDGET'')
          else rbind (read_object H ''plan'' d s) (\<lambda>_.
            Inr (Confirmed, JObj [(''outcome'', JStr ''confirmed''), (''basis'', JStr ''recorded_execution_confirmation''),
              (''prior_evidence_object'', JStr d), (''source_currentness'', JStr ''not_rechecked'')])))"

text \<open>\<open>git\<close>: the caller selected the read-back of a Git effect.\<close>

definition observe_effect ::
  "world \<Rightarrow> observer \<Rightarrow> string \<Rightarrow> bool \<Rightarrow> job \<Rightarrow> effect \<Rightarrow> project \<Rightarrow> (effect_state \<times> json) result" where
  "observe_effect w ob client git j e s =
     (if evidenced e then recorded_confirmation (sha256 w) e s
      else if git then rbind (ob_git ob j e) (\<lambda>v.
        Inr (if jget v ''outcome'' = Some (JStr ''confirmed'') then Confirmed else Absent, v))
      else case map_of LOCAL_PREPARATIONS (jb_action j) of
        None \<Rightarrow> Inl (LaneError ''JOB_EFFECT_OBSERVATION_REQUIRED'')
      | Some p \<Rightarrow> observe_local w ob client j e p s)"

section \<open>Reconciliation\<close>

record reconcile_request =
  rj_job :: string
  rj_effect :: string
  rj_digest :: string
  rj_revision :: int
  rj_git :: bool

definition reconcilable :: "world \<Rightarrow> reconcile_request \<Rightarrow> (project, job \<times> effect) action" where
  "reconcilable w r =
     bnd (head_row (Some (rj_revision r))) (\<lambda>_.
     bnd (job_row (rj_job r)) (\<lambda>j.
     bnd (gets (find_effect (rj_job r) (rj_effect r))) (\<lambda>found.
     bnd (demand found ''EFFECT_NOT_FOUND'') (\<lambda>e.
     bnd (require (effect_digest (sha256 w) j e = rj_digest r) ''JOB_EFFECT_CHANGED'') (\<lambda>_.
     bnd (require (jb_state j = JUncertain) ''JOB_STATE_CHANGED'') (\<lambda>_. ret (j, e)))))))"

definition reconcile_evidence :: "world \<Rightarrow> string \<Rightarrow> reconcile_request \<Rightarrow> json \<Rightarrow> json" where
  "reconcile_evidence w client r observed =
     (case observed of
        JObj kvs \<Rightarrow> JObj (kvs @ [(''job_id'', JStr (rj_job r)), (''effect_id'', JStr (rj_effect r)),
          (''expected_effect_digest'', JStr (rj_digest r)), (''actor_id'', JStr client), (''plan_revision'', JInt (rj_revision r)),
          (''observed_at'', JStr (now w)), (''automatic_replay'', JBool False), (''job_success_inferred'', JBool False)])
      | v \<Rightarrow> v)"

text \<open>A job that failed by its last reconciliation blocks its run and task, and readies its steers.\<close>

definition block_run :: "world \<Rightarrow> lease \<Rightarrow> string \<Rightarrow> reconcile_request \<Rightarrow> (project, unit) action" where
  "block_run w l client r =
     bnd (gets (find_run (rj_job r))) (\<lambda>run.
     bnd (update_run (rj_job r) (\<lambda>d. d\<lparr>dr_state := RBlocked, dr_error_code := Some ''RECONCILED_REPLAN_REQUIRED'',
       dr_updated := now w\<rparr>)) (\<lambda>_.
     case run of
       None \<Rightarrow> ret ()
     | Some d \<Rightarrow>
         if dr_revision d \<noteq> rj_revision r then ret ()
         else bnd (task_row (rj_revision r) (dr_task_id d)) (\<lambda>t.
           if pt_state t = Active then bnd (own_lease w l) (\<lambda>_.
             bnd (transition_rows (branch 1 w) l (dr_task_id d) Blocked (rj_revision r) client None None) (\<lambda>_. ret ()))
           else ret ())))"

definition ready_steers :: "world \<Rightarrow> string option \<Rightarrow> (project, unit) action" where
  "ready_steers w digest = (if text_set digest then modify (\<lambda>s. s\<lparr>steers := update_where
     (\<lambda>q. st_state q = SCheckpointing \<and> st_checkpoint q = digest)
     (\<lambda>q. q\<lparr>st_state := SReady, st_updated := now w\<rparr>) (steers s)\<rparr>) else ret ())"

definition settle_job :: "world \<Rightarrow> lease \<Rightarrow> string \<Rightarrow> reconcile_request \<Rightarrow> (project, job_state) action" where
  "settle_job w l client r =
     in_transaction w l
       (bnd (job_row (rj_job r)) (\<lambda>j.
        if jb_state j = JFailed then
          bnd (block_run w l client r) (\<lambda>_. bnd (ready_steers w (jb_checkpoint j)) (\<lambda>_. ret (jb_state j)))
        else ret (jb_state j)))"

text \<open>The observation is made twice on the same state of the project; the environment may change between.\<close>

definition reconcile_job ::
  "world \<Rightarrow> observer \<Rightarrow> observer \<Rightarrow> lease \<Rightarrow> string \<Rightarrow> int option \<Rightarrow> reconcile_request
   \<Rightarrow> (project, effect_state \<times> string \<times> job_state) action" where
  "reconcile_job w first second l client revision r =
     bnd (require (revision = Some (rj_revision r)) ''JOB_RECOVERY_REVISION_REQUIRED'') (\<lambda>_.
     bnd (reconcilable w r) (\<lambda>(j, e).
     bnd (bnd (gets (observe_effect w first client (rj_git r) j e)) lift_result) (\<lambda>(outcome, observed).
     bnd (bnd (gets (observe_effect w second client (rj_git r) j e)) lift_result) (\<lambda>again.
     bnd (require (again = (outcome, observed)) ''JOB_EFFECT_SOURCE_CHANGED'') (\<lambda>_.
     bnd (put_object w ''plan'' MAX_OBJECT_BYTES (reconcile_evidence w client r observed)) (\<lambda>evidence.
     bnd (reconcile_effect (branch 2 w) l (rj_job r) (rj_effect r) outcome evidence) (\<lambda>_.
     bnd (settle_job (branch 3 w) l client r) (\<lambda>state. ret (outcome, evidence, state)))))))))"

end
