(* ===== verification/Sessions.thy ===== *)
theory Sessions
  imports Capture Plan_Store
begin

text \<open>
  Project sessions: the hash-chained authority (session_authority.py) and its transitions with their
  guards (session.py). The engine's observations enter as the record \<open>engine\<close>.
\<close>

section \<open>The ASCII text of a body\<close>

text \<open>\<open>json.dumps(body, sort_keys=True, separators=(',', ':'))\<close>: everything outside space to tilde is escaped.\<close>

definition escape_ascii :: "char \<Rightarrow> string" where
  "escape_ascii c = (if 127 \<le> (of_char c :: nat)
     then [CHR 0x5C, CHR ''u'', CHR ''0'', CHR ''0'', hex_digit (of_char c div 16), hex_digit (of_char c mod 16)]
     else escape_char c)"

definition quoted_ascii :: "string \<Rightarrow> string" where
  "quoted_ascii s = CHR 0x22 # concat (map escape_ascii s) @ [CHR 0x22]"

primrec json_ascii :: "json \<Rightarrow> string" where
  "json_ascii JNull = ''null''"
| "json_ascii (JBool b) = (if b then ''true'' else ''false'')"
| "json_ascii (JInt i) = int_text i"
| "json_ascii (JStr s) = quoted_ascii s"
| "json_ascii (JArr vs) = CHR ''['' # join_comma (map json_ascii vs) @ [CHR '']'']"
| "json_ascii (JObj kvs) =
     CHR ''{'' # join_comma (map (\<lambda>(k, t). quoted_ascii k @ CHR '':'' # t) (sort_key fst (map (map_prod id json_ascii) kvs)))
       @ [CHR ''}'']"

section \<open>Heads and events\<close>

record session_head =
  sh_session_id :: string
  sh_generation :: int
  sh_state :: session_state
  sh_client :: string
  sh_engine :: string
  sh_reported :: string
  sh_flash :: string
  sh_package :: string

definition head_fields :: "session_head \<Rightarrow> (string \<times> json) list" where
  "head_fields h = [(''session_id'', JStr (sh_session_id h)), (''generation'', JInt (sh_generation h)),
     (''state'', JStr (session_state_name (sh_state h))), (''owner_client_id'', JStr (sh_client h)),
     (''owner_engine_id'', JStr (sh_engine h)), (''reported_session_id'', JStr (sh_reported h)),
     (''flash_digest'', JStr (sh_flash h)), (''runtime_package_digest'', JStr (sh_package h))]"

definition head_of :: "session_record \<Rightarrow> session_head" where
  "head_of r = \<lparr>sh_session_id = sr_session_id r, sh_generation = sr_generation r, sh_state = sr_state r,
     sh_client = sr_owner_client r, sh_engine = sr_owner_engine r, sh_reported = sr_reported r,
     sh_flash = sr_flash_digest r, sh_package = sr_package_digest r\<rparr>"

definition session_event_json :: "session_event \<Rightarrow> json" where
  "session_event_json e = JObj [(''sequence'', JInt (int (se_sequence e))), (''request_id'', JStr (se_request_id e)),
     (''session_id'', JStr (se_session_id e)), (''generation'', JInt (se_generation e)), (''action'', JStr (se_action e)),
     (''client_id'', JStr (se_client e)), (''input_digest'', JStr (se_input_digest e)),
     (''body_json'', JStr (json_ascii (se_body e))), (''previous_digest'', jopt (se_previous e)),
     (''created_at'', JStr (se_created e))]"

definition event_sound :: "(string \<Rightarrow> string) \<Rightarrow> session_event \<Rightarrow> bool" where
  "event_sound H e \<longleftrightarrow> content_digest H (session_event_json e) = se_digest e"

definition find_session :: "string \<Rightarrow> project \<Rightarrow> session_record option" where
  "find_session sid s = find (\<lambda>r. sr_session_id r = sid) (sessions s)"

definition history_error :: error where
  "history_error = LaneError ''SESSION_HISTORY_INTEGRITY''"

text \<open>\<open>current\<close>: the selected session, checked against the event of its head.\<close>

definition current_session :: "(string \<Rightarrow> string) \<Rightarrow> project \<Rightarrow> session_record option result" where
  "current_session H s =
     (case session_current s of
        None \<Rightarrow> Inr None
      | Some sid \<Rightarrow> (case find_session sid s of
            None \<Rightarrow> Inr None
          | Some r \<Rightarrow> (case find (\<lambda>e. se_digest e = sr_event_digest r) (session_events s) of
                None \<Rightarrow> Inl history_error
              | Some e \<Rightarrow>
                  if \<not> event_sound H e then Inl history_error
                  else rbind (items_are (se_body e) (head_fields (head_of r))) (\<lambda>same.
                    if same then Inr (Some r) else Inl history_error))))"

definition replay :: "(string \<Rightarrow> string) \<Rightarrow> string \<Rightarrow> string \<Rightarrow> string \<Rightarrow> string \<Rightarrow> project \<Rightarrow> json option result" where
  "replay H rid action client input_digest s =
     (case find (\<lambda>e. se_request_id e = rid) (session_events s) of
        None \<Rightarrow> Inr None
      | Some e \<Rightarrow>
          if (se_action e, se_client e, se_input_digest e) \<noteq> (action, client, input_digest)
          then Inl (LaneError ''SESSION_REQUEST_CONFLICT'')
          else if \<not> event_sound H e then Inl history_error
          else (case se_body e of
              JObj kvs \<Rightarrow> Inr (Some (JObj (put_field kvs ''event_digest'' (JStr (se_digest e)))))
            | _ \<Rightarrow> Inl (Raised ''TypeError'')))"

section \<open>Append\<close>

definition new_session_event ::
  "world \<Rightarrow> string \<Rightarrow> string \<Rightarrow> string \<Rightarrow> string \<Rightarrow> session_head \<Rightarrow> json \<Rightarrow> project \<Rightarrow> session_event" where
  "new_session_event w action client rid input_digest h body s =
     (let prior = latest se_sequence (session_events s);
          e = \<lparr>se_sequence = (case prior of None \<Rightarrow> 1 | Some p \<Rightarrow> se_sequence p + 1), se_request_id = rid,
            se_session_id = sh_session_id h, se_generation = sh_generation h, se_action = action, se_client = client,
            se_input_digest = input_digest, se_body = body, se_previous = map_option se_digest prior, se_digest = [],
            se_created = now w\<rparr>
      in e\<lparr>se_digest := content_digest (sha256 w) (session_event_json e)\<rparr>)"

definition session_clash :: "session_event \<Rightarrow> session_event \<Rightarrow> bool" where
  "session_clash a b \<longleftrightarrow> se_sequence a = se_sequence b \<or> se_request_id a = se_request_id b \<or> se_digest a = se_digest b
     \<or> se_session_id a = se_session_id b \<and> se_generation a = se_generation b"

text \<open>
  \<open>INSERT ... ON CONFLICT(session_id) DO UPDATE\<close> under the index \<open>sessions_one_active\<close> and the check
  of the generation.
\<close>

definition session_row :: "world \<Rightarrow> session_head \<Rightarrow> string \<Rightarrow> session_record" where
  "session_row w h digest = \<lparr>sr_session_id = sh_session_id h, sr_state = sh_state h, sr_generation = sh_generation h,
     sr_owner_client = sh_client h, sr_owner_engine = sh_engine h, sr_reported = sh_reported h,
     sr_flash_digest = sh_flash h, sr_package_digest = sh_package h, sr_event_digest = digest,
     sr_created = now w, sr_updated = now w\<rparr>"

definition upsert_session :: "world \<Rightarrow> session_head \<Rightarrow> string \<Rightarrow> (project, unit) action" where
  "upsert_session w h digest =
     bnd (gets (\<lambda>s. sh_generation h < 1 \<or> sh_state h = SessActive
        \<and> list_ex (\<lambda>r. sr_state r = SessActive \<and> sr_session_id r \<noteq> sh_session_id h) (sessions s))) (\<lambda>refused.
     bnd (if refused then abort (Raised ''IntegrityError'') else ret ()) (\<lambda>_.
     modify (\<lambda>s. s\<lparr>sessions :=
       (if find_session (sh_session_id h) s = None then sessions s @ [session_row w h digest]
        else update_where (\<lambda>r. sr_session_id r = sh_session_id h)
          (\<lambda>r. (session_row w h digest)\<lparr>sr_created := sr_created r\<rparr>) (sessions s))\<rparr>)))"

definition append_session ::
  "world \<Rightarrow> string \<Rightarrow> string \<Rightarrow> string \<Rightarrow> string \<Rightarrow> session_head \<Rightarrow> (string \<times> json) list \<Rightarrow> (project, json) action" where
  "append_session w action client rid input_digest h rest =
     bnd (bnd (gets (current_session (sha256 w))) lift_result) (\<lambda>cur.
     bnd (lift_result (transition (map_option (\<lambda>r. session_state_name (sr_state r)) cur) action
       (session_state_name (sh_state h)) ''project_session'')) (\<lambda>_.
     bnd (gets (new_session_event w action client rid input_digest h (JObj (head_fields h @ rest)))) (\<lambda>e.
     bnd (insert_row session_events session_events_update session_clash e) (\<lambda>_.
     bnd (upsert_session w h (se_digest e)) (\<lambda>_.
     bnd (modify (\<lambda>s. s\<lparr>session_current := Some (sh_session_id h)\<rparr>)) (\<lambda>_.
     bnd (append_receipt w (Some ''sessions'') action
       [(''session_id'', JStr (sh_session_id h)), (''generation'', JInt (sh_generation h)),
        (''event_digest'', JStr (se_digest e)), (''client_id'', JStr client), (''request_id'', JStr rid),
        (''identity_scope'', JStr ''authenticated_engine_client'')]) (\<lambda>_.
     ret (JObj (put_field (head_fields h @ rest) ''event_digest'' (JStr (se_digest e)))))))))))"

section \<open>Verification of the history\<close>

text \<open>The last event of each session seen so far.\<close>

type_synonym session_heads = "(string \<times> session_event) list"

definition set_head :: "string \<Rightarrow> session_event \<Rightarrow> session_heads \<Rightarrow> session_heads" where
  "set_head sid e heads = (sid, e) # filter (\<lambda>h. fst h \<noteq> sid) heads"

definition session_event_ok ::
  "(string \<Rightarrow> string) \<Rightarrow> string \<Rightarrow> nat \<Rightarrow> string option \<Rightarrow> session_heads \<Rightarrow> session_event \<Rightarrow> bool" where
  "session_event_ok H pid n previous heads e \<longleftrightarrow>
     se_sequence e = n \<and> se_previous e = previous \<and> event_sound H e
     \<and> jget (se_body e) ''session_id'' = Some (JStr (se_session_id e))
     \<and> jget (se_body e) ''project_id'' = Some (JStr pid) \<and> jget (se_body e) ''generation'' = Some (JInt (se_generation e))
     \<and> se_generation e = (case map_of heads (se_session_id e) of None \<Rightarrow> 1 | Some p \<Rightarrow> se_generation p + 1)"

fun session_walk ::
  "(string \<Rightarrow> string) \<Rightarrow> string \<Rightarrow> nat \<Rightarrow> string option \<Rightarrow> session_heads \<Rightarrow> session_event list \<Rightarrow> session_heads result" where
  "session_walk H pid n previous heads [] = Inr heads"
| "session_walk H pid n previous heads (e # es) =
     (if 262144 < length (json_ascii (se_body e)) then Inl (LaneError ''SESSION_HISTORY_BUDGET'')
      else if \<not> session_event_ok H pid n previous heads e then Inl history_error
      else session_walk H pid (Suc n) (Some (se_digest e)) (set_head (se_session_id e) e heads) es)"

definition record_matches :: "session_heads \<Rightarrow> session_record \<Rightarrow> bool" where
  "record_matches heads r \<longleftrightarrow> (case map_of heads (sr_session_id r) of None \<Rightarrow> False
     | Some e \<Rightarrow> sr_event_digest r = se_digest e
         \<and> list_all (\<lambda>(k, v). jget (se_body e) k = Some v) (tl (head_fields (head_of r))))"

definition verify_sessions :: "(string \<Rightarrow> string) \<Rightarrow> int \<Rightarrow> project \<Rightarrow> (nat \<times> nat) result" where
  "verify_sessions H limit s =
     (if \<not> (1 \<le> limit \<and> limit \<le> 50000) then Inl (LaneError ''SESSION_HISTORY_BUDGET'')
      else if limit < int (length (session_events s)) then Inl (LaneError ''SESSION_HISTORY_BUDGET'')
      else
        let rows = sort_key se_sequence (session_events s) in
        rbind (session_walk H (project_id s) 1 None [] rows) (\<lambda>heads.
        if limit < int (length (sessions s)) \<or> sr_session_id ` set (sessions s) \<noteq> fst ` set heads then Inl history_error
        else if \<not> list_all (record_matches heads) (sessions s) then Inl history_error
        else rbind (current_session H s) (\<lambda>cur.
          if rows \<noteq> [] \<and> map_option sr_session_id cur \<noteq> Some (se_session_id (last rows)) then Inl history_error
          else Inr (length rows, length (sessions s)))))"

section \<open>Transitions of a session\<close>

datatype session_command =
    Boot string string bool
  | Resume string string bool string int string "string option"
  | Exit_Session string int string string

record engine =
  en_instance :: string
  en_package :: string
  en_flash :: "(string \<times> string) result"
  en_authentic :: "string \<Rightarrow> bool"
  en_host :: json
  en_storage :: "json result"
  en_root_pv :: "(string \<times> json) list"
  en_offers :: "(string \<times> string \<times> string \<times> string) list"

definition action_of :: "session_command \<Rightarrow> string" where
  "action_of c = (case c of Boot _ _ _ \<Rightarrow> ''session_boot'' | Resume _ _ _ _ _ _ _ \<Rightarrow> ''session_resume''
     | Exit_Session _ _ _ _ \<Rightarrow> ''session_exit'')"

definition reported_pattern :: "string \<Rightarrow> bool" where
  "reported_pattern t \<longleftrightarrow> bounded 1 128 t
     \<and> list_all (\<lambda>d. is_upper d \<or> is_lower d \<or> is_digit d \<or> d = CHR ''.'' \<or> d = CHR ''_'' \<or> d = CHR ''-'') t"

definition valid_command :: "session_command \<Rightarrow> bool" where
  "valid_command c = (case c of
     Boot rep root native \<Rightarrow> reported_pattern rep \<and> digest_pattern root
   | Resume rep root native sid gen digest cont \<Rightarrow> reported_pattern rep \<and> digest_pattern root \<and> uuid_pattern sid \<and> 1 \<le> gen
       \<and> digest_pattern digest \<and> pred_option uuid_pattern cont
   | Exit_Session sid gen digest reason \<Rightarrow> uuid_pattern sid \<and> 1 \<le> gen \<and> digest_pattern digest \<and> bounded 1 1000 reason)"

definition command_json :: "session_command \<Rightarrow> json" where
  "command_json c = (case c of
     Boot rep root native \<Rightarrow> JObj [(''reported_session_id'', JStr rep), (''expected_root_pv_digest'', JStr root),
       (''require_native_attestation'', JBool native)]
   | Resume rep root native sid gen digest cont \<Rightarrow> JObj [(''reported_session_id'', JStr rep),
       (''expected_root_pv_digest'', JStr root), (''require_native_attestation'', JBool native), (''session_id'', JStr sid),
       (''expected_generation'', JInt gen), (''expected_event_digest'', JStr digest), (''continuation_id'', jopt cont)]
   | Exit_Session sid gen digest reason \<Rightarrow> JObj [(''session_id'', JStr sid), (''expected_generation'', JInt gen),
       (''expected_event_digest'', JStr digest), (''reason'', JStr reason)])"

text \<open>\<open>_safe_boundary\<close>: no pending work, no open effect, no open steer.\<close>

definition safe_boundary :: "(project, unit) action" where
  "safe_boundary =
     bnd (gets (\<lambda>s. list_ex (\<lambda>j. jb_state j \<in> {JQueued, JRunning, JUncertain}) (jobs s))) (\<lambda>busy.
     bnd (require (\<not> busy) ''SESSION_WORK_NOT_QUIESCENT'') (\<lambda>_.
     bnd (gets (\<lambda>s. list_ex (\<lambda>e. ef_state e = Prepared) (effects s))) (\<lambda>uncertain.
     bnd (require (\<not> uncertain) ''SESSION_EFFECT_UNCERTAIN'') (\<lambda>_.
     bnd (gets (\<lambda>s. list_ex open_steer (steers s))) (\<lambda>waiting.
     require (\<not> waiting) ''SESSION_STEER_PENDING'')))))"

text \<open>\<open>_can_resume\<close>: the owner itself, an accepted continuation, or a client that is gone.\<close>

definition can_resume :: "engine \<Rightarrow> string \<Rightarrow> session_record \<Rightarrow> string option \<Rightarrow> unit result" where
  "can_resume en client r continuation =
     (if sr_owner_client r = client \<and> sr_owner_engine r = en_instance en then Inr ()
      else case continuation of
        Some c \<Rightarrow>
          if en_offers en = [] then Inl (LaneError ''SESSION_CONTINUATION_REQUIRED'')
          else if map_of (en_offers en) c = Some (sr_owner_client r, client, ''accepted'') then Inr ()
          else Inl (LaneError ''SESSION_CONTINUATION_MISMATCH'')
      | None \<Rightarrow>
          if sr_owner_engine r = en_instance en \<and> en_authentic en (sr_owner_client r)
          then Inl (LaneError ''SESSION_OWNER_ACTIVE'') else Inr ())"

text \<open>The session identity and generation that a command leads to.\<close>

definition next_head :: "world \<Rightarrow> engine \<Rightarrow> string \<Rightarrow> session_command \<Rightarrow> session_record option \<Rightarrow> (string \<times> int) result" where
  "next_head w en client c previous =
     (case c of
        Boot _ _ _ \<Rightarrow>
          if (case previous of None \<Rightarrow> False | Some p \<Rightarrow> sr_state p = SessActive) then Inl (LaneError ''ONE_SESSION_RULE_ACTIVE'')
          else Inr (draw 0 w, 1)
      | Resume _ _ _ sid gen digest cont \<Rightarrow> (case previous of
            None \<Rightarrow> Inl (LaneError ''NO_ACTIVE_SESSION'')
          | Some p \<Rightarrow>
              if sr_state p \<noteq> SessActive then Inl (LaneError ''NO_ACTIVE_SESSION'')
              else if (sid, gen, digest) \<noteq> (sr_session_id p, sr_generation p, sr_event_digest p)
              then Inl (LaneError ''SESSION_HEAD_CHANGED'')
              else rbind (can_resume en client p cont) (\<lambda>_. Inr (sr_session_id p, sr_generation p + 1)))
      | Exit_Session sid gen digest _ \<Rightarrow> (case previous of
            None \<Rightarrow> Inl (LaneError ''NO_ACTIVE_SESSION'')
          | Some p \<Rightarrow>
              if sr_state p \<noteq> SessActive then Inl (LaneError ''NO_ACTIVE_SESSION'')
              else if (sid, gen, digest) \<noteq> (sr_session_id p, sr_generation p, sr_event_digest p)
              then Inl (LaneError ''SESSION_HEAD_CHANGED'')
              else if (sr_owner_client p, sr_owner_engine p) \<noteq> (client, en_instance en)
              then Inl (LaneError ''SESSION_OWNER_REQUIRED'')
              else Inr (sr_session_id p, sr_generation p + 1)))"

definition expected_root :: "session_command \<Rightarrow> string option" where
  "expected_root c = (case c of Boot _ root _ \<Rightarrow> Some root | Resume _ root _ _ _ _ _ \<Rightarrow> Some root
     | Exit_Session _ _ _ _ \<Rightarrow> None)"

definition native_required :: "session_command \<Rightarrow> bool" where
  "native_required c = (case c of Boot _ _ native \<Rightarrow> native | Resume _ _ native _ _ _ _ \<Rightarrow> native
     | Exit_Session _ _ _ _ \<Rightarrow> False)"

definition reported_of :: "session_command \<Rightarrow> session_record option \<Rightarrow> string" where
  "reported_of c previous = (case c of Boot rep _ _ \<Rightarrow> rep | Resume rep _ _ _ _ _ _ \<Rightarrow> rep
     | Exit_Session _ _ _ _ \<Rightarrow> (case previous of None \<Rightarrow> [] | Some p \<Rightarrow> sr_reported p))"

definition exit_reason :: "session_command \<Rightarrow> json" where
  "exit_reason c = (case c of Exit_Session _ _ _ reason \<Rightarrow> JStr reason | _ \<Rightarrow> JNull)"

definition plan_reference :: "plan_snapshot option \<Rightarrow> json" where
  "plan_reference p = (case p of
     None \<Rightarrow> JObj [(''state'', JStr ''no_plan''), (''revision'', JNull), (''document_digest'', JNull), (''event_head'', JNull),
       (''total_tasks'', JInt 0)]
   | Some n \<Rightarrow> JObj [(''state'', JStr ''ready''), (''revision'', JInt (sn_revision n)),
       (''document_digest'', JStr (sn_document_digest n)), (''event_head'', jopt (sn_event_head n)),
       (''total_tasks'', JInt (int (sn_total n)))])"

text \<open>The fields of a \<open>SessionResult\<close> beside the head.\<close>

definition result_fields ::
  "project \<Rightarrow> (string \<times> json) list \<Rightarrow> json \<Rightarrow> bool \<Rightarrow> bool \<Rightarrow> bool \<Rightarrow> json \<Rightarrow> json \<Rightarrow> string \<Rightarrow> string \<Rightarrow> json \<Rightarrow> json
   \<Rightarrow> (string \<times> json) list" where
  "result_fields s root plan bound authenticated current context host opn scope reason route =
     [(''project_id'', JStr (project_id s)), (''event_digest'', JNull), (''root_pv'', JObj root), (''plan'', plan),
      (''capture_bound'', JBool bound), (''owner_authenticated'', JBool authenticated), (''flash_current'', JBool current),
      (''context'', context), (''host_observation'', host), (''operation'', JStr opn),
      (''observation_scope'', JStr scope), (''exit_reason'', reason), (''storage_route'', route),
      (''state_authority'', JStr ''sessions_lane_sqlite''), (''identity_scope'', JStr ''authenticated_engine_client''),
      (''reported_session_identity'', JStr ''client_report_only''), (''native_task_attestation'', JStr ''not_provided''),
      (''hook_execution_attested'', JBool False), (''native_plan_updated'', JBool False), (''jobs_replayed'', JBool False),
      (''terminal_exit'', JBool False), (''native_goal_completed'', JBool False)]"

definition commit_session ::
  "world \<Rightarrow> engine \<Rightarrow> lease \<Rightarrow> string \<Rightarrow> string \<Rightarrow> session_command \<Rightarrow> session_record option \<Rightarrow> string \<times> int
   \<Rightarrow> string \<times> string \<Rightarrow> json \<Rightarrow> (project, json) action" where
  "commit_session w en l client rid c previous = (\<lambda>(sid, gen) (flash, context) route.
     let closed = (action_of c = ''session_exit'');
         h = \<lparr>sh_session_id = sid, sh_generation = gen, sh_state = (if closed then SessClosed else SessActive),
              sh_client = client, sh_engine = en_instance en, sh_reported = reported_of c previous, sh_flash = flash,
              sh_package = en_package en\<rparr>
     in in_transaction w l
       (bnd (bnd (gets (snapshot (sha256 w) None 0 1)) lift_result) (\<lambda>plan.
        bnd (gets (\<lambda>s. result_fields s (put_field (en_root_pv en) ''reference_scope'' (JStr ''before_session_writer_acquisition''))
          (plan_reference plan) (\<not> closed) (en_authentic en client) (\<not> closed)
          (if closed then JNull else JStr context) (en_host en) (action_of c) ''at_transition_commit'' (exit_reason c) route)) (\<lambda>rest.
        append_session w (action_of c) client rid (content_digest (sha256 w) (command_json c)) h rest))))"

definition session_transition ::
  "world \<Rightarrow> engine \<Rightarrow> lease \<Rightarrow> string \<Rightarrow> string \<Rightarrow> session_command \<Rightarrow> router \<Rightarrow> (project, json \<times> router) action" where
  "session_transition w en l client rid c bs =
     bnd (require (\<not> native_required c) ''NATIVE_TASK_ATTESTATION_UNAVAILABLE'') (\<lambda>_.
     bnd (require (en_authentic en client) ''CLIENT_SESSION_EXPIRED'') (\<lambda>_.
     bnd (lift_result (en_flash en)) (\<lambda>flash.
     bnd (bnd (gets (replay (sha256 w) rid (action_of c) client (content_digest (sha256 w) (command_json c)))) lift_result) (\<lambda>seen.
     case seen of
       Some v \<Rightarrow> ret (v, bs)
     | None \<Rightarrow>
         bnd (bnd (gets (current_session (sha256 w))) lift_result) (\<lambda>previous.
         bnd safe_boundary (\<lambda>_.
         bnd (lift_result (next_head w en client c previous)) (\<lambda>hd.
         bnd (require (case expected_root c of None \<Rightarrow> True
           | Some d \<Rightarrow> map_of (en_root_pv en) ''head_digest'' = Some (JStr d)) ''SESSION_ROOT_PV_CHANGED'') (\<lambda>_.
         bnd (if action_of c = ''session_exit'' then ret JNull else lift_result (en_storage en)) (\<lambda>route.
         bnd (gets project_id) (\<lambda>pid.
         let selected = \<lparr>cb_client = client, cb_project = pid\<rparr>;
             reported = reported_of c previous;
             closing = (action_of c = ''session_exit'')
         in
         bnd (lift_result (transition_allowed selected reported (map_option sr_owner_client previous) closing bs)) (\<lambda>_.
         bnd (commit_session (branch 1 w) en l client rid c previous hd flash route) (\<lambda>v.
         ret (v, transition_publish selected reported (map_option sr_owner_client previous)
           (map_option sr_reported previous) closing bs)))))))))))))"

section \<open>Boundary evidence\<close>

definition BOUNDARY_EVENTS :: "(string \<times> string) list" where
  "BOUNDARY_EVENTS = [(''ordinary_turn'', ''MID_DELTA_QUERY''), (''delta_append'', ''DELTA_EXIT''),
     (''session_exit'', ''EXIT_BOOT''), (''work_handoff'', ''WORK_HANDOFF_BOUNDARY''),
     (''goal_completion'', ''GOAL_COMPLETION_BOUNDARY'')]"

definition boundary_source :: "(string \<Rightarrow> string) \<Rightarrow> string \<Rightarrow> (string \<times> string) option \<Rightarrow> project \<Rightarrow> json result" where
  "boundary_source H client source s =
     (case source of
        None \<Rightarrow> Inr JNull
      | Some (eid, cursor) \<Rightarrow> (case find_event eid s of
            None \<Rightarrow> Inl (LaneError ''EXIT_SOURCE_MISMATCH'')
          | Some e \<Rightarrow>
              if le_cursor e \<noteq> cursor \<or> le_client e \<noteq> client then Inl (LaneError ''EXIT_SOURCE_MISMATCH'')
              else rbind (validate_row H e) (\<lambda>_.
                rbind (read_object H ''chat_lineage'' (le_payload_digest e) s) (\<lambda>payload.
                Inr (JObj [(''event_id'', JStr (le_event_id e)), (''cursor'', JStr (le_cursor e)),
                  (''payload_digest'', JStr (le_payload_digest e)), (''kind'', JStr (le_kind e)),
                  (''provenance'', JStr (le_provenance e)), (''reported_session_id'', jopt (le_session e)),
                  (''reported_turn_id'', jopt (le_turn e)),
                  (''complete_visible_source'', JBool (\<not> truthy (got payload ''truncated''))),
                  (''native_action_proven'', JBool False)])))))"

text \<open>
  \<open>boundary\<close>: \<open>policy\<close> is the row of the workflow gate table for an event, \<open>continuation\<close> the checked
  reference of a continuation. No boundary is terminal.
\<close>

record boundary_result =
  br_kind :: string
  br_event :: string
  br_policy :: json
  br_source :: json
  br_continuation :: json
  br_evidence_state :: string
  br_terminal_exit_allowed :: bool
  br_terminal_receipt_emitted :: bool

definition session_boundary ::
  "(string \<Rightarrow> string) \<Rightarrow> (string \<Rightarrow> json option) \<Rightarrow> json result \<Rightarrow> string \<Rightarrow> string \<Rightarrow> (string \<times> string) option
   \<Rightarrow> project \<Rightarrow> boundary_result result" where
  "session_boundary H policy continuation client kind source s =
     (case map_of BOUNDARY_EVENTS kind of
        None \<Rightarrow> Inl (Raised ''ValidationError'')
      | Some event \<Rightarrow> (case policy event of
            None \<Rightarrow> Inl (LaneError ''ENV_UOP_REQUIRED_GATE_MISSING'')
          | Some row \<Rightarrow>
              rbind (boundary_source H client source s) (\<lambda>src.
              rbind continuation (\<lambda>cont.
              Inr \<lparr>br_kind = kind, br_event = event, br_policy = row, br_source = src, br_continuation = cont,
                br_evidence_state = (if kind \<in> {''work_handoff'', ''goal_completion''} then ''native_evidence_unavailable''
                  else ''nonterminal_boundary''),
                br_terminal_exit_allowed = False, br_terminal_receipt_emitted = False\<rparr>))))"

end
