(* ===== verification/Project_Laws.thy ===== *)
theory Project_Laws
  imports Plan_Growth Job_Recovery Sessions
begin

text \<open>
  The composition: every operation of every component keeps the invariants of the Plan, of the queue
  and of the captured history together, in any order and interleaving.
\<close>

section \<open>Reads\<close>

lemma keeps_reads:
  "(\<And>s a s'. m s = Inr (a, s') \<Longrightarrow> s' = s) \<Longrightarrow> keeps I m"
  by (auto simp: valid_def)

lemma keeps_head_row [keeps_rules]: "keeps I (head_row e)"
  by (rule keeps_reads) (simp add: run_simps)

lemma keeps_task_row [keeps_rules]: "keeps I (task_row rv tid)"
  by (rule keeps_reads) (simp add: run_simps)

lemma keeps_job_row [keeps_rules]: "keeps I (job_row jid)"
  by (rule keeps_reads) (simp add: job_row_Inr)

lemma keeps_running_row [keeps_rules]: "keeps I (running_row jid l x)"
  by (rule keeps_reads) (simp add: running_row_Inr)

lemma keeps_restoration_ready [keeps_rules]: "keeps I (require_restoration_execution_ready H)"
  by (rule keeps_reads) (auto dest: restoration_ready_Inr)

lemma keeps_recovery_ready [keeps_rules]: "keeps I require_recovery_execution_ready"
  by (rule keeps_reads) (simp add: run_simps)

lemma keeps_steer_source [keeps_rules]: "keeps I (steer_source w r a)"
  by (rule keeps_reads) (erule steer_source_reads)

lemma keeps_newest_source [keeps_rules]: "keeps I (newest_source r e)"
  by (rule keeps_reads) (erule newest_source_reads)

lemma keeps_checkpoint_matches [keeps_rules]: "keeps I (checkpoint_matches w r q)"
  by (rule keeps_reads) (erule checkpoint_matches_reads)

lemma keeps_read_task [keeps_rules]: "keeps I (read_task H tid rv)"
  unfolding read_task_def by (intro keeps_rules)

lemma keeps_get_job [keeps_rules]: "keeps I (get_job jid)"
  unfolding get_job_def by (intro keeps_rules)

lemma keeps_restoration_gate:
  assumes "\<And>s c. I s \<Longrightarrow> I (s\<lparr>restoration := c\<rparr>)"
  shows "keeps I (require_restoration_plan H d rv)"
  by (rule validI) (auto elim!: restoration_gate_Inr simp: assms)

lemma keeps_recovery_gate:
  assumes "\<And>s c. I s \<Longrightarrow> I (s\<lparr>recovery := c\<rparr>)"
  shows "keeps I (require_recovery_plan d rv)"
  by (rule validI) (auto elim!: recovery_gate_Inr simp: assms)

declare keeps_modify [keeps_rules] keeps_insert_row [keeps_rules] keeps_insert_into [keeps_rules]
  keeps_restoration_gate [keeps_rules] keeps_recovery_gate [keeps_rules]

section \<open>What each invariant does not read\<close>

lemma lineage_inv_fields [simp]:
  "lineage_inv H (s\<lparr>kernel_lock := a1\<rparr>) = lineage_inv H s" "lineage_inv H (s\<lparr>writer_lease := a2\<rparr>) = lineage_inv H s"
  "lineage_inv H (s\<lparr>receipts := a3\<rparr>) = lineage_inv H s" "lineage_inv H (s\<lparr>revisions := a4\<rparr>) = lineage_inv H s"
  "lineage_inv H (s\<lparr>plan_head := a5\<rparr>) = lineage_inv H s" "lineage_inv H (s\<lparr>bindings := a6\<rparr>) = lineage_inv H s"
  "lineage_inv H (s\<lparr>projections := a7\<rparr>) = lineage_inv H s" "lineage_inv H (s\<lparr>jobs := a8\<rparr>) = lineage_inv H s"
  "lineage_inv H (s\<lparr>effects := a9\<rparr>) = lineage_inv H s" "lineage_inv H (s\<lparr>steers := b1\<rparr>) = lineage_inv H s"
  "lineage_inv H (s\<lparr>control := b2\<rparr>) = lineage_inv H s" "lineage_inv H (s\<lparr>interrupts := b3\<rparr>) = lineage_inv H s"
  "lineage_inv H (s\<lparr>delta_runs := b4\<rparr>) = lineage_inv H s" "lineage_inv H (s\<lparr>delta_exits := b5\<rparr>) = lineage_inv H s"
  "lineage_inv H (s\<lparr>sessions := b6\<rparr>) = lineage_inv H s" "lineage_inv H (s\<lparr>session_current := b7\<rparr>) = lineage_inv H s"
  "lineage_inv H (s\<lparr>session_events := b8\<rparr>) = lineage_inv H s" "lineage_inv H (s\<lparr>tasks := b9\<rparr>) = lineage_inv H s"
  "lineage_inv H (s\<lparr>events := c1\<rparr>) = lineage_inv H s" "lineage_inv H (s\<lparr>decisions := c2\<rparr>) = lineage_inv H s"
  "lineage_inv H (s\<lparr>restoration := c3\<rparr>) = lineage_inv H s" "lineage_inv H (s\<lparr>recovery := c6\<rparr>) = lineage_inv H s"
  "lineage_inv H (s\<lparr>grants := c7\<rparr>) = lineage_inv H s" "lineage_inv H (s\<lparr>host_files := c9\<rparr>) = lineage_inv H s"
  "lineage_inv H (s\<lparr>dependencies := d1\<rparr>) = lineage_inv H s" "lineage_inv H (supersede_open s) = lineage_inv H s"
  "lineage_inv H (s\<lparr>chunks := d3\<rparr>) = lineage_inv H s"
  by (simp_all add: lineage_inv_def objects_sound_def find_blob_def registered_def supersede_open_def)

lemma job_inv_fields [simp]:
  "job_inv (s\<lparr>kernel_lock := a1\<rparr>) = job_inv s" "job_inv (s\<lparr>writer_lease := a2\<rparr>) = job_inv s"
  "job_inv (s\<lparr>receipts := a3\<rparr>) = job_inv s" "job_inv (s\<lparr>revisions := a4\<rparr>) = job_inv s"
  "job_inv (s\<lparr>plan_head := a5\<rparr>) = job_inv s" "job_inv (s\<lparr>bindings := a6\<rparr>) = job_inv s"
  "job_inv (s\<lparr>projections := a7\<rparr>) = job_inv s" "job_inv (s\<lparr>blobs := a8\<rparr>) = job_inv s"
  "job_inv (s\<lparr>objects := a9\<rparr>) = job_inv s" "job_inv (s\<lparr>steers := b1\<rparr>) = job_inv s"
  "job_inv (s\<lparr>control := b2\<rparr>) = job_inv s" "job_inv (s\<lparr>interrupts := b3\<rparr>) = job_inv s"
  "job_inv (s\<lparr>delta_runs := b4\<rparr>) = job_inv s" "job_inv (s\<lparr>delta_exits := b5\<rparr>) = job_inv s"
  "job_inv (s\<lparr>sessions := b6\<rparr>) = job_inv s" "job_inv (s\<lparr>session_current := b7\<rparr>) = job_inv s"
  "job_inv (s\<lparr>session_events := b8\<rparr>) = job_inv s" "job_inv (s\<lparr>tasks := b9\<rparr>) = job_inv s"
  "job_inv (s\<lparr>events := c1\<rparr>) = job_inv s" "job_inv (s\<lparr>decisions := c2\<rparr>) = job_inv s"
  "job_inv (s\<lparr>restoration := c3\<rparr>) = job_inv s" "job_inv (s\<lparr>recovery := c6\<rparr>) = job_inv s"
  "job_inv (s\<lparr>grants := c7\<rparr>) = job_inv s" "job_inv (s\<lparr>host_files := c9\<rparr>) = job_inv s"
  "job_inv (s\<lparr>dependencies := d1\<rparr>) = job_inv s" "job_inv (s\<lparr>lineage := d2\<rparr>) = job_inv s"
  "job_inv (s\<lparr>chunks := d3\<rparr>) = job_inv s" "job_inv (supersede_open s) = job_inv s"
  by (rule job_inv_cong; simp add: supersede_open_def)+

section \<open>Objects, receipts and events\<close>

lemma keeps_good: "(\<And>s a s'. m s = Inr (a, s') \<Longrightarrow> job_good s s') \<Longrightarrow> keeps job_inv m"
  by (auto simp: valid_def job_good_def)

lemma lineage_put_object [keeps_rules]: "sha256 w = H \<Longrightarrow> keeps (lineage_inv H) (put_object w lane limit v)"
  using put_object_lineage_inv [of w] by (simp add: valid_def)

lemma lineage_append_receipt [keeps_rules]: "keeps (lineage_inv H) (append_receipt w lane k b)"
  by (rule validI) (auto simp: run_simps)

lemma job_put_object [keeps_rules]: "keeps job_inv (put_object w lane limit v)"
  by (rule keeps_good) (erule put_object_good)

lemma job_append_receipt [keeps_rules]: "keeps job_inv (append_receipt w lane k b)"
  by (rule keeps_good) (erule append_receipt_good)

text \<open>The rows of the Plan are invisible to the other two.\<close>

lemma keeps_plan_rows:
  assumes "\<And>s x. I s \<Longrightarrow> I (s\<lparr>tasks := x\<rparr>)" "\<And>s x. I s \<Longrightarrow> I (s\<lparr>events := x\<rparr>)" "\<And>s x. I s \<Longrightarrow> I (s\<lparr>plan_head := x\<rparr>)"
    and "\<And>s. I s \<Longrightarrow> I (supersede_open s)" "\<And>s x. I s \<Longrightarrow> I (s\<lparr>projections := x\<rparr>)" "\<And>s x. I s \<Longrightarrow> I (s\<lparr>dependencies := x\<rparr>)"
  shows "keeps I (add_event w rv tid kind actor payload eid)" "keeps I (prepare_projection w rv actor)"
    "keeps I (transition_rows w l t st rv actor eid ev)" "keeps I (insert_tasks H rv ts)"
proof -
  show event: "keeps I (add_event w rv tid kind actor payload eid)" for w rv tid kind payload eid
    unfolding add_event_def update_task_def set_event_head_def by (intro keeps_rules) (auto intro: assms)
  show projection: "keeps I (prepare_projection w rv actor)" for w rv
    unfolding prepare_projection_def Let_def by (intro keeps_rules) (auto intro: assms)
  show "keeps I (transition_rows w l t st rv actor eid ev)"
    unfolding transition_rows_def change_state_def activation_ready_def completion_ready_def update_task_def
    by (intro keeps_rules event projection) (auto intro: assms)
  show "keeps I (insert_tasks H rv ts)"
    unfolding insert_tasks_def insert_task_def by (intro keeps_rules) (auto intro: assms)
qed

lemma lineage_plan_rows [keeps_rules]:
  "keeps (lineage_inv G) (add_event w rv tid kind actor payload eid)" "keeps (lineage_inv G) (prepare_projection w rv actor)"
  "keeps (lineage_inv G) (transition_rows w l t st rv actor eid ev)" "keeps (lineage_inv G) (insert_tasks H rv ts)"
  by (rule keeps_plan_rows; simp)+

lemma job_plan_rows [keeps_rules]:
  "keeps job_inv (add_event w rv tid kind actor payload eid)" "keeps job_inv (prepare_projection w rv actor)"
  "keeps job_inv (transition_rows w l t st rv actor eid ev)" "keeps job_inv (insert_tasks H rv ts)"
  by (rule keeps_plan_rows; simp)+

section \<open>The queue\<close>

lemma keeps_queue:
  assumes jobs: "\<And>s x. I s \<Longrightarrow> I (s\<lparr>jobs := x\<rparr>)" and effects: "\<And>s x. I s \<Longrightarrow> I (s\<lparr>effects := x\<rparr>)"
    and receipt: "\<And>w lane k b. keeps I (append_receipt w lane k b)"
  shows "keeps I (enqueue w l rq client n)" "keeps I (claim w l jid)" "keeps I (request_cancel w l jid reason)"
    "keeps I (checkpoint w l jid ph d rs x p)" "keeps I (prepare_effect w l jid key d x)"
    "keeps I (confirm_effect w l jid eid ev x)" "keeps I (complete w l jid v x)" "keeps I (fail_job w l jid d x)"
    "keeps I (reconcile_interrupted w l)" "keeps I (reconcile_effect w l jid eid out ev)"
proof -
  have update: "keeps I (update_job jid f)" for jid f
    unfolding update_job_def by (intro keeps_rules) (auto intro: jobs)
  have effect: "keeps I (update_effect P f c)" for P f c
    unfolding update_effect_def by (intro keeps_rules) (auto intro: effects)
  note rules = keeps_rules receipt update effect
  show "keeps I (enqueue w l rq client n)"
    unfolding enqueue_def admit_new_def Let_def by (intro rules) (auto intro: jobs)
  show "keeps I (claim w l jid)" unfolding claim_def by (intro rules)
  show "keeps I (request_cancel w l jid reason)" unfolding request_cancel_def by (intro rules)
  show "keeps I (checkpoint w l jid ph d rs x p)" unfolding checkpoint_def Let_def by (intro rules)
  show "keeps I (prepare_effect w l jid key d x)" unfolding prepare_effect_def by (intro rules) (auto intro: effects)
  show "keeps I (confirm_effect w l jid eid ev x)" unfolding confirm_effect_def by (intro rules)
  show "keeps I (complete w l jid v x)" unfolding complete_def by (intro rules)
  show "keeps I (fail_job w l jid d x)" unfolding fail_job_def by (intro rules)
  show "keeps I (reconcile_interrupted w l)"
    unfolding reconcile_interrupted_def reconcile_row_def Let_def by (intro rules)
  show "keeps I (reconcile_effect w l jid eid out ev)" unfolding reconcile_effect_def by (intro rules)
qed

lemma job_ops_keep:
  "keeps job_inv (enqueue w l rq client n)" "keeps job_inv (claim w l jid)" "keeps job_inv (request_cancel w l jid reason)"
  "keeps job_inv (checkpoint w l jid ph d rs x p)" "keeps job_inv (prepare_effect w l jid key d x)"
  "keeps job_inv (confirm_effect w l jid eid ev x)" "keeps job_inv (complete w l jid v x)" "keeps job_inv (fail_job w l jid d x)"
  "keeps job_inv (reconcile_interrupted w l)" "keeps job_inv (reconcile_effect w l jid eid out ev)"
  by (rule keeps_good, erule enqueue_good claim_good request_cancel_good checkpoint_good prepare_effect_good confirm_effect_good
      complete_good fail_job_good reconcile_interrupted_good reconcile_effect_good)+

section \<open>Plan changes\<close>

text \<open>Jobs that never ran are superseded or cancelled without touching their effects.\<close>

lemma rewrite_idle_jobs:
  assumes "job_inv s" and "\<And>j. jb_job_id (f j) = jb_job_id j" "\<And>j. jb_request_id (f j) = jb_request_id j"
    and "\<And>j. P j \<Longrightarrow> jb_state j \<in> {JQueued, JCheckpointed} \<and> job_evolves j (f j) \<and> jb_state (f j) \<noteq> JRunning"
  shows "job_inv (s\<lparr>jobs := update_where P f (jobs s)\<rparr>)"
proof -
  have "job_good s (s\<lparr>jobs := update_where P f (jobs s)\<rparr>)"
  proof (rule update_jobs_good [OF assms(2,3)])
    fix j
    assume j: "j \<in> set (jobs s)" "P j"
    have "find_job (jb_job_id j) s = Some j"
      using assms(1) j(1) find_key_unique [of jb_job_id "jobs s" j] by (simp add: find_job_def job_inv_def job_keys_def)
    then have "\<not> pending_effect (jb_job_id j) s"
      using pending_state [OF assms(1)] assms(4) [OF j(2)] by fastforce
    with assms(4) [OF j(2)] show "job_evolves j (f j) \<and> owned (f j)
        \<and> (pending_effect (jb_job_id j) s \<longrightarrow> jb_state (f j) \<in> {JRunning, JUncertain})"
      by (auto simp: owned_def)
  qed
  with assms(1) show ?thesis by (simp add: job_good_def)
qed

lemma keeps_supersede_jobs: "keeps job_inv (supersede_jobs w rv)"
  unfolding supersede_jobs_def
  by (intro keeps_modify rewrite_idle_jobs) (auto simp: job_evolves_def)

lemma keeps_create_plan:
  assumes "\<And>s x. I s \<Longrightarrow> I (s\<lparr>restoration := x\<rparr>)" "\<And>s x. I s \<Longrightarrow> I (s\<lparr>recovery := x\<rparr>)"
    "\<And>s x. I s \<Longrightarrow> I (s\<lparr>revisions := x\<rparr>)" "\<And>s x. I s \<Longrightarrow> I (s\<lparr>plan_head := x\<rparr>)"
    and rows: "\<And>w rv tid kind actor payload eid. keeps I (add_event w rv tid kind actor payload eid)"
      "\<And>w rv actor. keeps I (prepare_projection w rv actor)" "\<And>H rv ts. keeps I (insert_tasks H rv ts)"
      "\<And>w lane k b. keeps I (append_receipt w lane k b)"
  shows "keeps I (create_plan w vd l r actor)"
  unfolding create_plan_def create_rows_def by (intro keeps_rules rows) (auto intro: assms)

lemma keeps_replace_plan:
  assumes "\<And>s x. I s \<Longrightarrow> I (s\<lparr>restoration := x\<rparr>)" "\<And>s x. I s \<Longrightarrow> I (s\<lparr>recovery := x\<rparr>)"
    "\<And>s x. I s \<Longrightarrow> I (s\<lparr>revisions := x\<rparr>)" "\<And>s x. I s \<Longrightarrow> I (s\<lparr>plan_head := x\<rparr>)"
    "\<And>s x. I s \<Longrightarrow> I (s\<lparr>tasks := x\<rparr>)" "\<And>s x. I s \<Longrightarrow> I (s\<lparr>steers := x\<rparr>)" "\<And>s x. I s \<Longrightarrow> I (s\<lparr>control := x\<rparr>)"
    and rows: "\<And>w rv tid kind actor payload eid. keeps I (add_event w rv tid kind actor payload eid)"
      "\<And>w rv actor. keeps I (prepare_projection w rv actor)" "\<And>H rv ts. keeps I (insert_tasks H rv ts)"
      "\<And>w lane k b. keeps I (append_receipt w lane k b)" "\<And>w rv. keeps I (supersede_jobs w rv)"
  shows "keeps I (replace_plan w vd l r actor)"
proof -
  have "keeps I (carry_row w r actor x)" for x
    unfolding carry_row_def update_task_def by (intro keeps_rules rows) (auto intro: assms)
  then show ?thesis
    unfolding replace_plan_def replace_checks_def replace_rows_def Let_def settle_steers_def resume_control_def
    by (intro keeps_rules rows) (auto intro: assms)
qed

section \<open>All of them together\<close>

definition sound :: "(string \<Rightarrow> string) \<Rightarrow> project \<Rightarrow> project \<Rightarrow> bool" where
  "sound H s0 s \<longleftrightarrow> plan_good H s0 s \<and> lineage_inv H s \<and> job_inv s"

lemma keeps_soundI:
  "keeps (plan_good H s0) m \<Longrightarrow> keeps (lineage_inv H) m \<Longrightarrow> keeps job_inv m \<Longrightarrow> keeps (sound H s0) m"
  unfolding valid_def sound_def by blast

lemma sound_fields [simp]:
  "sound H s0 (s\<lparr>kernel_lock := a1\<rparr>) = sound H s0 s" "sound H s0 (s\<lparr>writer_lease := a2\<rparr>) = sound H s0 s"
  "sound H s0 (s\<lparr>bindings := a6\<rparr>) = sound H s0 s" "sound H s0 (s\<lparr>projections := a7\<rparr>) = sound H s0 s"
  "sound H s0 (s\<lparr>steers := b1\<rparr>) = sound H s0 s" "sound H s0 (s\<lparr>control := b2\<rparr>) = sound H s0 s"
  "sound H s0 (s\<lparr>interrupts := b3\<rparr>) = sound H s0 s" "sound H s0 (s\<lparr>delta_runs := b4\<rparr>) = sound H s0 s"
  "sound H s0 (s\<lparr>delta_exits := b5\<rparr>) = sound H s0 s" "sound H s0 (s\<lparr>sessions := b6\<rparr>) = sound H s0 s"
  "sound H s0 (s\<lparr>session_current := b7\<rparr>) = sound H s0 s" "sound H s0 (s\<lparr>session_events := b8\<rparr>) = sound H s0 s"
  "sound H s0 (s\<lparr>decisions := c2\<rparr>) = sound H s0 s" "sound H s0 (s\<lparr>grants := c7\<rparr>) = sound H s0 s"
  "sound H s0 (s\<lparr>host_files := c9\<rparr>) = sound H s0 s"
  by (simp_all add: sound_def)

lemma sound_storage [keeps_rules]:
  "sha256 w = H \<Longrightarrow> keeps (sound H s0) (put_object w lane limit v)" "keeps (sound H s0) (append_receipt w owner k b)"
  by (rule keeps_soundI; intro keeps_rules; assumption?)+

lemma sound_transition_rows [keeps_rules]:
  "sha256 w = H \<Longrightarrow> keeps (sound H s0) (transition_rows w l t st rv actor eid ev)"
  by (rule keeps_soundI; intro keeps_rules; assumption?)

lemma sound_queue [keeps_rules]:
  "keeps (sound H s0) (enqueue w l rq client n)" "keeps (sound H s0) (claim w l jid)"
  "keeps (sound H s0) (request_cancel w l jid reason)" "keeps (sound H s0) (checkpoint w l jid ph d rs x p)"
  "keeps (sound H s0) (prepare_effect w l jid key d x)" "keeps (sound H s0) (confirm_effect w l jid eid ev x)"
  "keeps (sound H s0) (complete w l jid v x)" "keeps (sound H s0) (fail_job w l jid d x)"
  "keeps (sound H s0) (reconcile_interrupted w l)" "keeps (sound H s0) (reconcile_effect w l jid eid out ev)"
  by ((rule keeps_soundI, rule keeps_queue, simp, simp, intro keeps_rules, rule keeps_queue, simp, simp, intro keeps_rules,
      rule job_ops_keep)+)

lemma sound_plan_ops [keeps_rules]:
  assumes "sha256 w = H"
  shows "keeps (sound H s0) (create_plan w vd l c actor)" "keeps (sound H s0) (replace_plan w vd l r actor)"
    "keeps (sound H s0) (transition_task w l tid st rv actor eid ev)"
proof -
  show "keeps (sound H s0) (create_plan w vd l c actor)"
    by (rule keeps_soundI; (rule good_create_plan keeps_create_plan)?; (intro keeps_rules)?; (rule assms)?; simp?)
  show "keeps (sound H s0) (replace_plan w vd l r actor)"
    by (rule keeps_soundI; (rule good_replace_plan keeps_replace_plan)?; (intro keeps_rules keeps_supersede_jobs)?; (rule assms)?;
        (simp add: supersede_jobs_def keeps_modify)?)
  show "keeps (sound H s0) (transition_task w l tid st rv actor eid ev)"
    unfolding transition_task_def by (intro keeps_rules assms)
qed

end
