(* ===== verification/Restoration.thy ===== *)
theory Restoration
  imports Sessions Coordination
begin

text \<open>
  The two operations that put a project on other ground: restoring a commit of the sources into a fresh
  workspace (store.py, \<open>SourceRestoration\<close>) and administrative recovery of the databases from a backup
  (database_recovery.py). Both revoke the clients, supersede the checkpointed jobs, close the session and
  leave a pending control row that only a new Plan revision clears (Plan_Gates). Git, the source intake
  and the copying of the backup are parameters.
\<close>

section \<open>A quiescent project\<close>

text \<open>\<open>assert_quiescent\<close>.\<close>

definition assert_quiescent :: "(project, unit) action" where
  "assert_quiescent =
     bnd (gets (\<lambda>s. list_ex (\<lambda>j. jb_state j \<in> {JQueued, JRunning, JUncertain}) (jobs s))) (\<lambda>busy.
     bnd (require (\<not> busy) ''RECOVERY_JOBS_NOT_QUIESCENT'') (\<lambda>_.
     bnd (gets (\<lambda>s. list_ex (\<lambda>e. ef_state e = Prepared) (effects s))) (\<lambda>uncertain.
     bnd (require (\<not> uncertain) ''RECOVERY_EFFECT_UNCERTAIN'') (\<lambda>_.
     bnd (gets (\<lambda>s. case plan_head s of None \<Rightarrow> False
       | Some h \<Rightarrow> list_ex (\<lambda>t. pt_revision t = cur_revision h \<and> pt_state t = Active) (tasks s))) (\<lambda>active.
     bnd (require (\<not> active) ''RECOVERY_PLAN_CHECKPOINT_REQUIRED'') (\<lambda>_.
     bnd (gets (\<lambda>s. list_ex open_steer (steers s))) (\<lambda>waiting.
     require (\<not> waiting) ''RECOVERY_STEER_PENDING'')))))))"

text \<open>\<open>recovery_operation\<close>: the errors of files and records reach the caller as one code.\<close>

definition recovery_operation :: "('s, 'a) process \<Rightarrow> ('s, 'a) process" where
  "recovery_operation p = (\<lambda>s. case p s of
     (Inl (Raised e), s') \<Rightarrow>
       (Inl (if e \<in> set [''OSError'', ''IntegrityError'', ''OperationalError'', ''ValidationError'', ''ValueError'', ''KeyError'', ''TypeError'']
         then LaneError ''RECOVERY_IO_OR_DATA_FAILURE'' else Raised e), s')
   | r \<Rightarrow> r)"

text \<open>What both operations do to the clients, the checkpointed jobs and the session.\<close>

definition revoke_all_grants :: "world \<Rightarrow> (project, unit) action" where
  "revoke_all_grants w = modify (\<lambda>s. s\<lparr>grants := update_where (\<lambda>g. ag_revoked g = None)
     (\<lambda>g. g\<lparr>ag_revoked := Some (now w)\<rparr>) (grants s)\<rparr>)"

definition supersede_checkpointed :: "world \<Rightarrow> (project, unit) action" where
  "supersede_checkpointed w = modify (\<lambda>s. s\<lparr>jobs := update_where (\<lambda>j. jb_state j = JCheckpointed)
     (\<lambda>j. j\<lparr>jb_state := JSuperseded, jb_resumable := False, jb_updated := now w\<rparr>) (jobs s)\<rparr>)"

definition object_fields :: "json \<Rightarrow> (string \<times> json) list result" where
  "object_fields v = (case v of JObj kvs \<Rightarrow> Inr kvs | _ \<Rightarrow> Inl (Raised ''TypeError''))"

text \<open>The body of the closing event: the recorded body with these fields replaced.\<close>

definition closing_fields :: "string \<Rightarrow> json \<Rightarrow> (string \<times> json) list \<Rightarrow> (string \<times> json) list" where
  "closing_fields reason root kvs = foldl (\<lambda>b (k, v). put_field b k v) kvs
     [(''owner_authenticated'', JBool False), (''capture_bound'', JBool False), (''flash_current'', JBool False),
      (''operation'', JStr ''recovery''), (''observation_scope'', JStr ''at_transition_commit''),
      (''exit_reason'', JStr reason), (''root_pv'', root)]"

definition beside_head :: "session_head \<Rightarrow> (string \<times> json) list \<Rightarrow> (string \<times> json) list" where
  "beside_head h kvs = filter (\<lambda>kv. fst kv \<notin> set (map fst (head_fields h))) kvs"

definition close_recovery_session :: "world \<Rightarrow> string \<Rightarrow> json result \<Rightarrow> string \<Rightarrow> (project, nat) action" where
  "close_recovery_session w digest root reason =
     bnd (bnd (gets (current_session (sha256 w))) lift_result) (\<lambda>cur. case cur of
       None \<Rightarrow> ret 0
     | Some r \<Rightarrow>
         if sr_state r \<noteq> SessActive then ret 0
         else bnd (gets (\<lambda>s. find (\<lambda>e. se_digest e = sr_event_digest r) (session_events s))) (\<lambda>e.
              bnd (lift_result (case e of None \<Rightarrow> Inl (Raised ''TypeError'') | Some q \<Rightarrow> object_fields (se_body q))) (\<lambda>kvs.
              bnd (lift_result root) (\<lambda>pv.
              let h = (head_of r)\<lparr>sh_state := SessClosed, sh_generation := sr_generation r + 1\<rparr> in
              bnd (append_session (branch 0 w) ''session_recovery_closed'' ''administrative-recovery'' (draw 1 w) digest h
                (beside_head h (closing_fields reason pv kvs))) (\<lambda>_. ret 1)))))"

section \<open>Preview of a restoration\<close>

record git_restore =
  gt_request_id :: string
  gt_branch :: string
  gt_commit :: string
  gt_destination :: string
  gt_expected :: string

definition commit_pattern :: "string \<Rightarrow> bool" where
  "commit_pattern c \<longleftrightarrow> length c \<in> {40, 64} \<and> list_all is_hex c"

definition valid_restore :: "git_restore \<Rightarrow> bool" where
  "valid_restore r \<longleftrightarrow> uuid_pattern (gt_request_id r) \<and> bounded 1 200 (gt_branch r) \<and> commit_pattern (gt_commit r)
     \<and> bounded 1 1000 (gt_destination r) \<and> digest_pattern (gt_expected r)"

definition restore_json :: "git_restore \<Rightarrow> json" where
  "restore_json r = JObj [(''branch'', JStr (gt_branch r)), (''commit'', JStr (gt_commit r)),
     (''destination_root'', JStr (gt_destination r)), (''request_id'', JStr (gt_request_id r)),
     (''expected_preview_digest'', JStr (gt_expected r))]"

text \<open>
  What the engine sees of Git and of the disk. The k-th look at the source is \<open>gv_identity g k\<close>; a
  destination is admitted (\<open>_destination\<close>) with its absolute path.
\<close>

record git_view =
  gv_destination :: "string \<Rightarrow> bool \<Rightarrow> string result"
  gv_identity :: "nat \<Rightarrow> json result"
  gv_selection :: "nat \<Rightarrow> string \<Rightarrow> string \<Rightarrow> json result"
  gv_clone :: "unit result"
  gv_checkout :: "unit result"
  gv_restored :: "json result"
  gv_authorized :: "unit result"
  gv_root_pv :: "json result"

record plan_boundary =
  pb_revision :: int
  pb_event_head :: "string option"
  pb_lineage_head :: "string option"
  pb_generation :: int

definition boundary_json :: "plan_boundary \<Rightarrow> json" where
  "boundary_json b = JObj [(''revision'', JInt (pb_revision b)), (''event_head'', jopt (pb_event_head b)),
     (''lineage_head'', jopt (pb_lineage_head b)), (''restore_generation'', JInt (pb_generation b))]"

definition boundary_of :: "project \<Rightarrow> plan_boundary" where
  "boundary_of s = \<lparr>pb_revision = (case plan_head s of None \<Rightarrow> 0 | Some h \<Rightarrow> cur_revision h),
     pb_event_head = (case plan_head s of None \<Rightarrow> None | Some h \<Rightarrow> cur_event_head h),
     pb_lineage_head = map_option le_cursor (latest le_sequence (lineage s)),
     pb_generation = (case restoration s of None \<Rightarrow> 0 | Some c \<Rightarrow> rs_generation c)\<rparr>"

definition source_boundary :: "(project, plan_boundary) action" where
  "source_boundary = bnd assert_quiescent (\<lambda>_. gets boundary_of)"

record restore_preview =
  rp_source :: string
  rp_destination :: string
  rp_identity :: json
  rp_selection :: json
  rp_boundary :: plan_boundary

definition preview_fields :: "string \<Rightarrow> restore_preview \<Rightarrow> (string \<times> json) list" where
  "preview_fields pid p = [(''project_id'', JStr pid), (''source_root'', JStr (rp_source p)),
     (''destination_root'', JStr (rp_destination p)), (''source_identity'', rp_identity p), (''selection'', rp_selection p),
     (''plan_boundary'', boundary_json (rp_boundary p)), (''generation'', JInt (pb_generation (rp_boundary p)))]"

definition preview_digest :: "(string \<Rightarrow> string) \<Rightarrow> string \<Rightarrow> restore_preview \<Rightarrow> string" where
  "preview_digest H pid p = content_digest H (JObj (preview_fields pid p))"

definition preview_dump :: "(string \<Rightarrow> string) \<Rightarrow> string \<Rightarrow> restore_preview \<Rightarrow> json" where
  "preview_dump H pid p = JObj (preview_fields pid p @ [(''preview_digest'', JStr (preview_digest H pid p)),
     (''source_workspace_reset'', JBool False), (''source_code_reindexed'', JBool False),
     (''external_filters_enabled'', JBool False), (''submodules_initialized'', JBool False),
     (''lfs_objects_downloaded'', JBool False)])"

text \<open>The n-th preview of a call; \<open>existing\<close> admits a destination that is there.\<close>

definition restore_preview_of :: "git_view \<Rightarrow> nat \<Rightarrow> git_restore \<Rightarrow> bool \<Rightarrow> (project, restore_preview) action" where
  "restore_preview_of g n r existing =
     bnd (lift_result (gv_destination g (gt_destination r) existing)) (\<lambda>dest.
     bnd source_boundary (\<lambda>before.
     bnd (lift_result (gv_identity g (2 * n))) (\<lambda>identity.
     bnd (lift_result (gv_selection g n (gt_branch r) (gt_commit r))) (\<lambda>selected.
     bnd source_boundary (\<lambda>after.
     bnd (lift_result (gv_identity g (2 * n + 1))) (\<lambda>again.
     bnd (require (after = before \<and> again = identity) ''RESTORE_SOURCE_CHANGED'') (\<lambda>_.
     bnd (gets source_root) (\<lambda>src.
     ret \<lparr>rp_source = src, rp_destination = dest, rp_identity = identity, rp_selection = selected, rp_boundary = before\<rparr>))))))))"

section \<open>Restoration\<close>

definition find_restore :: "string \<Rightarrow> project \<Rightarrow> restore_request option" where
  "find_restore rid s = find (\<lambda>q. rq_restore_id q = rid) (restore_requests s)"

definition restore_clash :: "restore_request \<Rightarrow> restore_request \<Rightarrow> bool" where
  "restore_clash a b \<longleftrightarrow> rq_restore_id a = rq_restore_id b
     \<or> rq_restore_state a = RestorePending \<and> rq_restore_state b = RestorePending"

definition set_restore :: "string \<Rightarrow> (restore_request \<Rightarrow> restore_request) \<Rightarrow> (project, unit) action" where
  "set_restore rid f = modify (\<lambda>s. s\<lparr>restore_requests :=
     update_where (\<lambda>q. rq_restore_id q = rid) f (restore_requests s)\<rparr>)"

text \<open>The recorded request: the result of a published one, or \<open>None\<close> to go on.\<close>

definition read_restore :: "world \<Rightarrow> lease \<Rightarrow> git_restore \<Rightarrow> string \<Rightarrow> bool \<Rightarrow> (project, json option) action" where
  "read_restore w l r actor reconcile =
     bnd (if valid_restore r then ret () else abort (Raised ''ValidationError'')) (\<lambda>_.
     bnd (check_lease w l) (\<lambda>_.
     bnd (gets (find_restore (gt_request_id r))) (\<lambda>row. case row of
       None \<Rightarrow> bnd (require (\<not> reconcile) ''RESTORE_REQUEST_MISSING'') (\<lambda>_. ret None)
     | Some q \<Rightarrow>
         bnd (require (rq_restore_input q = content_digest (sha256 w) (restore_json r) \<and> (rq_restore_actor q = actor \<or> reconcile))
           ''RESTORE_REQUEST_CONFLICT'') (\<lambda>_.
         if rq_restore_state q = RestorePublished then
           (case rq_restore_result q of None \<Rightarrow> abort (Raised ''ValidationError'') | Some v \<Rightarrow> ret (Some v))
         else bnd (require (rq_restore_state q \<noteq> RestoreAbandoned \<and> reconcile) ''RESTORE_RECONCILIATION_REQUIRED'') (\<lambda>_.
           ret None)))))"

definition begin_restore :: "world \<Rightarrow> lease \<Rightarrow> git_restore \<Rightarrow> string \<Rightarrow> restore_preview \<Rightarrow> (project, unit) action" where
  "begin_restore w l r actor p = in_transaction w l
     (bnd (gets (\<lambda>s. list_ex (\<lambda>q. rq_restore_state q = RestorePending) (restore_requests s))) (\<lambda>waiting.
      bnd (require (\<not> waiting) ''RESTORE_PENDING'') (\<lambda>_.
      bnd (gets project_id) (\<lambda>pid.
      bnd (insert_row restore_requests restore_requests_update restore_clash
        \<lparr>rq_restore_id = gt_request_id r, rq_restore_actor = actor,
         rq_restore_input = content_digest (sha256 w) (restore_json r),
         rq_restore_body = JObj [(''request'', restore_json r), (''preview'', preview_dump (sha256 w) pid p)],
         rq_restore_state = RestorePending, rq_restore_result = None\<rparr>) (\<lambda>_.
      bnd (append_receipt w (Some ''sources'') ''git_restore_started''
        [(''request_id'', JStr (gt_request_id r)), (''preview_digest'', JStr (preview_digest (sha256 w) pid p)),
         (''destination_root'', JStr (rp_destination p))]) (\<lambda>_. ret ()))))))"

definition open_principals :: "project \<Rightarrow> string list" where
  "open_principals s = remdups (map ag_principal (filter (\<lambda>g. ag_revoked g = None) (grants s)))"

definition entry_clash :: "restore_entry \<Rightarrow> restore_entry \<Rightarrow> bool" where
  "entry_clash a b \<longleftrightarrow> rh_generation a = rh_generation b \<or> rh_digest a = rh_digest b"

definition restored_entry ::
  "world \<Rightarrow> git_restore \<Rightarrow> string \<Rightarrow> restore_preview \<Rightarrow> json \<Rightarrow> project \<Rightarrow> restore_entry" where
  "restored_entry w r actor p identity s =
     (let gen = pb_generation (rp_boundary p) + 1;
          body = JObj [(''project_id'', JStr (project_id s)), (''request_id'', JStr (gt_request_id r)),
            (''generation'', JInt gen), (''previous_digest'', jopt (map_option rh_digest (latest rh_generation (restore_history s)))),
            (''previous_source_root'', JStr (source_root s)), (''source_root'', JStr (rp_destination p)),
            (''preview'', preview_dump (sha256 w) (project_id s) p), (''restored_identity'', identity),
            (''actor_id'', JStr actor), (''created_at'', JStr (now w))]
      in \<lparr>rh_generation = gen, rh_digest = content_digest (sha256 w) body, rh_body = body\<rparr>)"

definition restored_result :: "git_restore \<Rightarrow> restore_preview \<Rightarrow> json \<Rightarrow> restore_entry \<Rightarrow> project \<Rightarrow> (string \<times> json) list" where
  "restored_result r p tree e s =
     [(''project_id'', JStr (project_id s)), (''request_id'', JStr (gt_request_id r)), (''generation'', JInt (rh_generation e)),
      (''restore_digest'', JStr (rh_digest e)), (''previous_source_root'', JStr (source_root s)),
      (''source_root'', JStr (rp_destination p)), (''commit'', JStr (gt_commit r)), (''tree'', tree),
      (''plan_refresh_required'', JBool True), (''clients_must_reconnect'', JBool True),
      (''source_workspace_reset'', JBool False), (''project_history_rewound'', JBool False),
      (''source_code_reindexed'', JBool False), (''native_task_attestation'', JStr ''not_provided'')]"

text \<open>The transaction that moves the project to the restored sources.\<close>

definition publish_restore ::
  "world \<Rightarrow> git_view \<Rightarrow> lease \<Rightarrow> git_restore \<Rightarrow> string \<Rightarrow> restore_preview \<Rightarrow> json \<Rightarrow> json \<Rightarrow> (project, json) action" where
  "publish_restore w g l r actor p identity tree = in_transaction w l
     (bnd assert_quiescent (\<lambda>_.
      bnd (gets open_principals) (\<lambda>clients.
      bnd (require (length clients \<le> 256) ''RESTORATION_CLIENT_BUDGET'') (\<lambda>_.
      bnd (gets (restored_entry w r actor p identity)) (\<lambda>e.
      bnd (gets (restored_result r p tree e)) (\<lambda>res.
      bnd (insert_row restore_history restore_history_update entry_clash e) (\<lambda>_.
      bnd (modify (\<lambda>s. s\<lparr>restoration := Some \<lparr>rs_generation = rh_generation e, rs_restore_digest = rh_digest e,
        rs_required_after = pb_revision (rp_boundary p), rs_cleared_by = None\<rparr>\<rparr>)) (\<lambda>_.
      bnd (modify (\<lambda>s. s\<lparr>source_root := rp_destination p\<rparr>)) (\<lambda>_.
      bnd (revoke_all_grants w) (\<lambda>_.
      bnd (supersede_checkpointed w) (\<lambda>_.
      bnd (close_recovery_session (branch 0 w) (rh_digest e) (gv_root_pv g) ''source_binding_changed'') (\<lambda>_.
      bnd (set_restore (gt_request_id r) (\<lambda>q. q\<lparr>rq_restore_state := RestorePublished, rq_restore_result := Some (JObj res)\<rparr>)) (\<lambda>_.
      bnd (append_receipt w (Some ''sources'') ''git_source_restored'' res) (\<lambda>_.
      ret (JObj res)))))))))))))))"

text \<open>
  \<open>execute\<close>: the calls before the publication each commit on their own, with the worlds \<open>ws 0\<close>,
  \<open>ws 1\<close>, \<dots> in the order of time. Further heartbeats that long scans send are operations of the queue.
\<close>

definition is_clean_at :: "string \<Rightarrow> json \<Rightarrow> json \<Rightarrow> bool" where
  "is_clean_at commit_id selection identity \<longleftrightarrow> jget identity ''head'' = Some (JStr commit_id)
     \<and> jget identity ''tree'' = jget selection ''tree'' \<and> jget identity ''tree'' \<noteq> None
     \<and> jget identity ''clean'' = Some (JBool True)"

definition fresh_workspace ::
  "(nat \<Rightarrow> world) \<Rightarrow> git_view \<Rightarrow> lease \<Rightarrow> git_restore \<Rightarrow> string \<Rightarrow> restore_preview \<Rightarrow> (project, unit) process" where
  "fresh_workspace ws g l r actor p =
     pbind (commit (begin_restore (ws 1) l r actor p)) (\<lambda>_.
     pbind (commit (heartbeat (ws 2) l)) (\<lambda>_.
     pbind (commit (lift_result (gv_clone g))) (\<lambda>_.
     pbind (commit (heartbeat (ws 3) l)) (\<lambda>_.
     commit (lift_result (gv_checkout g))))))"

definition restore_source ::
  "(nat \<Rightarrow> world) \<Rightarrow> git_view \<Rightarrow> lease \<Rightarrow> git_restore \<Rightarrow> string \<Rightarrow> bool \<Rightarrow> (project, json) process" where
  "restore_source ws g l r actor reconcile =
     pbind (commit (read_restore (ws 0) l r actor reconcile)) (\<lambda>seen. case seen of
       Some v \<Rightarrow> preturn v
     | None \<Rightarrow>
         pbind (commit (gets project_id)) (\<lambda>pid.
         pbind (commit (restore_preview_of g 0 r reconcile)) (\<lambda>p.
         pbind (prequire (preview_digest (sha256 (ws 0)) pid p = gt_expected r) ''RESTORE_PREVIEW_CHANGED'') (\<lambda>_.
         pbind (if reconcile then preturn () else fresh_workspace ws g l r actor p) (\<lambda>_.
         pbind (commit (heartbeat (ws 4) l)) (\<lambda>_.
         pbind (commit (lift_result (gv_restored g))) (\<lambda>identity.
         pbind (prequire (is_clean_at (gt_commit r) (rp_selection p) identity) ''RESTORED_WORKSPACE_CHANGED'') (\<lambda>_.
         pbind (commit (restore_preview_of g 1 r True)) (\<lambda>q.
         pbind (prequire (preview_digest (sha256 (ws 0)) pid q = preview_digest (sha256 (ws 0)) pid p) ''RESTORE_SOURCE_CHANGED'') (\<lambda>_.
         pbind (commit (lift_result (gv_authorized g))) (\<lambda>_.
         commit (publish_restore (ws 5) g l r actor p identity
           (case jget identity ''tree'' of None \<Rightarrow> JNull | Some t \<Rightarrow> t)))))))))))))"

definition restore_expects :: "string \<Rightarrow> restore_request \<Rightarrow> bool" where
  "restore_expects digest q \<longleftrightarrow> (case jget (rq_restore_body q) ''preview'' of None \<Rightarrow> False
     | Some v \<Rightarrow> jget v ''preview_digest'' = Some (JStr digest))"

definition abandon_restore :: "world \<Rightarrow> lease \<Rightarrow> string \<Rightarrow> string \<Rightarrow> string \<Rightarrow> (project, unit) action" where
  "abandon_restore w l rid expected actor = in_transaction w l
     (bnd (gets (find_restore rid)) (\<lambda>row.
      bnd (require (case row of None \<Rightarrow> False | Some q \<Rightarrow> restore_expects expected q) ''RESTORE_REQUEST_CONFLICT'') (\<lambda>_.
      bnd (require (case row of None \<Rightarrow> True | Some q \<Rightarrow> rq_restore_state q \<noteq> RestorePublished) ''RESTORE_ALREADY_PUBLISHED'') (\<lambda>_.
      bnd (set_restore rid (\<lambda>q. q\<lparr>rq_restore_state := RestoreAbandoned\<rparr>)) (\<lambda>_.
      bnd (append_receipt w (Some ''sources'') ''git_restore_abandoned''
        [(''request_id'', JStr rid), (''actor_id'', JStr actor), (''files_removed'', JBool False)]) (\<lambda>_. ret ()))))))"

section \<open>Reindexing the restored sources\<close>

text \<open>
  \<open>reindex\<close>. The source intake and the graph builder write the Sources lane themselves; what they
  publish is \<open>si_batch\<close> and \<open>si_graph\<close>, of which the project keeps the snapshot row.
\<close>

record built_graph =
  bg_snapshot :: graph_snapshot
  bg_files :: int
  bg_parsed :: int
  bg_coverage :: json
  bg_omitted :: int

record source_index =
  si_identity :: "nat \<Rightarrow> json result"
  si_authorized :: "nat \<Rightarrow> unit result"
  si_batch :: "string result"
  si_graph :: "string \<Rightarrow> built_graph result"
  si_unchanged :: "string \<Rightarrow> unit result"

definition reindex_matches :: "string \<Rightarrow> restoration_control option \<Rightarrow> restoration_control result" where
  "reindex_matches digest c = (case c of None \<Rightarrow> Inl (LaneError ''RESTORATION_REINDEX_MISMATCH'')
     | Some k \<Rightarrow> if rs_restore_digest k = digest then Inr k else Inl (LaneError ''RESTORATION_REINDEX_MISMATCH''))"

definition restored_identity :: "(string \<Rightarrow> string) \<Rightarrow> restoration_control \<Rightarrow> project \<Rightarrow> json result" where
  "restored_identity H c s = (case find (\<lambda>e. rh_generation e = rs_generation c) (restore_history s) of
       None \<Rightarrow> Inl (Raised ''TypeError'')
     | Some e \<Rightarrow> if content_digest H (rh_body e) \<noteq> rh_digest e then Inl (LaneError ''RESTORATION_HISTORY_INTEGRITY'')
         else (case jget (rh_body e) ''restored_identity'' of None \<Rightarrow> Inl (Raised ''KeyError'') | Some v \<Rightarrow> Inr v))"

definition still_restored :: "json \<Rightarrow> json \<Rightarrow> bool" where
  "still_restored expected identity \<longleftrightarrow> jget identity ''clean'' = Some (JBool True)
     \<and> jget identity ''head'' = jget expected ''head'' \<and> jget identity ''tree'' = jget expected ''tree''"

definition reindex_result :: "restoration_control \<Rightarrow> string \<Rightarrow> built_graph \<Rightarrow> project \<Rightarrow> (string \<times> json) list" where
  "reindex_result c batch b s =
     [(''project_id'', JStr (project_id s)), (''generation'', JInt (rs_generation c)),
      (''restore_digest'', JStr (rs_restore_digest c)), (''source_root'', JStr (source_root s)),
      (''batch_id'', JStr batch), (''graph_id'', JStr (gs_graph_id (bg_snapshot b))), (''file_count'', JInt (bg_files b)),
      (''parsed_file_count'', JInt (bg_parsed b)), (''coverage_states'', bg_coverage b)]"

definition reindex_row ::
  "world \<Rightarrow> string \<Rightarrow> restoration_control \<Rightarrow> string \<Rightarrow> built_graph \<Rightarrow> json \<Rightarrow> project \<Rightarrow> restoration_reindex" where
  "reindex_row w actor c batch b identity s =
     (let body = JObj [(''project_id'', JStr (project_id s)), (''generation'', JInt (rs_generation c)),
            (''restore_digest'', JStr (rs_restore_digest c)), (''batch_id'', JStr batch),
            (''graph_id'', JStr (gs_graph_id (bg_snapshot b))), (''graph_root_sha256'', JStr (gs_graph_root (bg_snapshot b))),
            (''coverage_sha256'', JStr (gs_coverage (bg_snapshot b))), (''source_identity'', identity),
            (''actor_id'', JStr actor), (''created_at'', JStr (now w)), (''result'', JObj (reindex_result c batch b s))]
      in \<lparr>ri_generation = rs_generation c, ri_body = body, ri_digest = content_digest (sha256 w) body\<rparr>)"

definition reindex_clash :: "restoration_reindex \<Rightarrow> restoration_reindex \<Rightarrow> bool" where
  "reindex_clash a b \<longleftrightarrow> ri_generation a = ri_generation b \<or> ri_digest a = ri_digest b"

definition reindex_rows ::
  "world \<Rightarrow> source_index \<Rightarrow> lease \<Rightarrow> string \<Rightarrow> restoration_control \<Rightarrow> json \<Rightarrow> (project, unit) action" where
  "reindex_rows w si l actor c identity = in_transaction w l
     (bnd (lift_result (si_batch si)) (\<lambda>batch.
      bnd (lift_result (si_graph si batch)) (\<lambda>b.
      bnd (require (gs_status (bg_snapshot b) = ''PASS'' \<and> bg_omitted b = 0) ''RESTORATION_REINDEX_INCOMPLETE'') (\<lambda>_.
      bnd (lift_result (si_unchanged si batch)) (\<lambda>_.
      bnd (lift_result (si_identity si 1)) (\<lambda>again.
      bnd (require (again = identity) ''RESTORATION_REINDEX_SOURCE_CHANGED'') (\<lambda>_.
      bnd (lift_result (si_authorized si 1)) (\<lambda>_.
      bnd (modify (\<lambda>s. if list_ex (\<lambda>q. gs_graph_id q = gs_graph_id (bg_snapshot b)) (graphs s) then s
        else s\<lparr>graphs := graphs s @ [bg_snapshot b]\<rparr>)) (\<lambda>_.
      bnd (gets (reindex_row w actor c batch b identity)) (\<lambda>row.
      bnd (insert_row reindexes reindexes_update reindex_clash row) (\<lambda>_.
      bnd (gets (reindex_result c batch b)) (\<lambda>res.
      bnd (append_receipt w (Some ''sources'') ''restored_sources_reindexed''
        ((''reindex_digest'', JStr (ri_digest row)) # res)) (\<lambda>_. ret ())))))))))))))"

text \<open>A recorded reindex is checked and returned; otherwise it is made once.\<close>

definition recorded_reindex :: "(string \<Rightarrow> string) \<Rightarrow> source_index \<Rightarrow> restoration_control \<Rightarrow> (project, unit) action" where
  "recorded_reindex H si c =
     bnd (bnd (gets (require_reindex H c)) lift_result) (\<lambda>(body, digest).
     lift_result (case text_field body ''batch_id'' of None \<Rightarrow> Inl (Raised ''KeyError'') | Some b \<Rightarrow> si_unchanged si b))"

definition reindex_source :: "(nat \<Rightarrow> world) \<Rightarrow> source_index \<Rightarrow> lease \<Rightarrow> string \<Rightarrow> string \<Rightarrow> (project, unit) process" where
  "reindex_source ws si l digest actor =
     pbind (commit (bnd (gets (\<lambda>s. reindex_matches digest (restoration s))) lift_result)) (\<lambda>c.
     pbind (commit (bnd (gets (restored_identity (sha256 (ws 0)) c)) lift_result)) (\<lambda>expected.
     pbind (commit (gets (\<lambda>s. list_ex (\<lambda>q. ri_generation q = rs_generation c) (reindexes s)))) (\<lambda>prior.
     pbind (commit (lift_result (si_identity si 0))) (\<lambda>identity.
     pbind (prequire (still_restored expected identity) ''RESTORATION_REINDEX_SOURCE_CHANGED'') (\<lambda>_.
     pbind (commit (lift_result (si_authorized si 0))) (\<lambda>_.
     if prior then commit (recorded_reindex (sha256 (ws 0)) si c)
     else pbind (commit (heartbeat (ws 0) l)) (\<lambda>_. commit (reindex_rows (ws 1) si l actor c identity))))))))"

section \<open>Recovery from a backup\<close>

text \<open>
  \<open>restore_backup_offline\<close>, from the transaction on the copied databases: the state is the one the
  backup holds, and from then on the directory \<open>or_destination\<close> is the project. Extensions and the
  Universe lane are not part of the project state: \<open>or_extensions\<close> are the open registrations it
  revokes, \<open>or_federation\<close> the bodies of the federation grants it revokes.
\<close>

record offline_recovery =
  or_original :: string
  or_destination :: string
  or_backup_digest :: string
  or_backup_root :: string
  or_backup_source :: string
  or_backup_pv :: json
  or_lanes :: int
  or_extensions :: nat
  or_federation :: "(string \<times> json) list list"
  or_root_pv :: "json result"

definition recovery_clash :: "recovery_entry \<Rightarrow> recovery_entry \<Rightarrow> bool" where
  "recovery_clash a b \<longleftrightarrow> rw_sequence a = rw_sequence b \<or> rw_digest a = rw_digest b"

definition recovery_record :: "world \<Rightarrow> offline_recovery \<Rightarrow> nat \<Rightarrow> nat \<Rightarrow> project \<Rightarrow> int \<times> (string \<times> json) list" where
  "recovery_record w p revoked closed s =
     (let previous = latest rw_sequence (recovery_history s);
          n = (case previous of None \<Rightarrow> 1 | Some e \<Rightarrow> rw_sequence e + 1)
      in (n, [(''project_id'', JStr (project_id s)), (''original_state_root'', JStr (or_original p)),
        (''state_root'', JStr (or_destination p)), (''source_root'', JStr (or_backup_source p)),
        (''backup_digest'', JStr (or_backup_digest p)), (''backup_state_root'', JStr (or_backup_root p)),
        (''created_at'', JStr (now w)), (''backup_root_pv'', or_backup_pv p), (''restored_lane_count'', JInt (or_lanes p)),
        (''previous_digest'', jopt (map_option rw_digest previous)), (''sequence'', JInt n),
        (''prior_grants_revoked'', JInt (int revoked)), (''extensions_revoked'', JInt (int (or_extensions p))),
        (''sessions_closed'', JInt (int closed)), (''federation_grants_revoked'', JInt (int (length (or_federation p)))),
        (''source_files_restored'', JBool False), (''source_bytes_reverified'', JBool False),
        (''automatic_job_replay'', JBool False), (''native_task_attestation'', JStr ''not_provided'')]))"

definition federation_receipt :: "world \<Rightarrow> nat \<times> (string \<times> json) list \<Rightarrow> (project, unit) action" where
  "federation_receipt w = (\<lambda>(i, body).
     bnd (append_receipt (branch i w) (Some ''universe'') ''federation_edge_grant_revoked'' body) (\<lambda>_. ret ()))"

definition clear_lease :: "(project, unit) action" where
  "clear_lease = modify (\<lambda>s. s\<lparr>writer_lease := map_option (\<lambda>r. r\<lparr>wr_fence := wr_fence r + 1, wr_owner := None,
     wr_engine := None, wr_expires := None\<rparr>) (writer_lease s)\<rparr>)"

definition recover_database :: "world \<Rightarrow> offline_recovery \<Rightarrow> (project, unit) action" where
  "recover_database w p =
     bnd (gets kernel_lock) (\<lambda>lock.
     bnd (require (lock = None) ''RUNTIME_IN_USE'') (\<lambda>_.
     bnd (modify (\<lambda>s. s\<lparr>project_root := or_destination p\<rparr>)) (\<lambda>_.
     bnd (gets (\<lambda>s. length (filter (\<lambda>g. ag_revoked g = None) (grants s)))) (\<lambda>revoked.
     bnd (revoke_all_grants w) (\<lambda>_.
     bnd (require (or_extensions p \<le> 256) ''RECOVERY_EXTENSION_BUDGET'') (\<lambda>_.
     bnd (require (length (or_federation p) \<le> 10000) ''RECOVERY_FEDERATION_BUDGET'') (\<lambda>_.
     bnd (each (federation_receipt (branch 1 w)) (enumerate 0 (or_federation p))) (\<lambda>_.
     bnd clear_lease (\<lambda>_.
     bnd (supersede_checkpointed w) (\<lambda>_.
     bnd (close_recovery_session (branch 0 w) (or_backup_digest p) (or_root_pv p) ''administrative_recovery'') (\<lambda>closed.
     bnd (gets (\<lambda>s. case plan_head s of None \<Rightarrow> 0 | Some h \<Rightarrow> cur_revision h)) (\<lambda>rv.
     bnd (gets (recovery_record w p revoked closed)) (\<lambda>(n, body).
     let digest = content_digest (sha256 w) (JObj body) in
     bnd (insert_row recovery_history recovery_history_update recovery_clash
       \<lparr>rw_sequence = n, rw_digest = digest, rw_body = JObj body\<rparr>) (\<lambda>_.
     bnd (modify (\<lambda>s. s\<lparr>recovery := Some \<lparr>rd_recovery_digest = digest, rd_required_after = rv, rd_cleared_by = None\<rparr>\<rparr>)) (\<lambda>_.
     bnd (append_receipt w None ''database_recovered_to_fresh_root'' (body @ [(''recovery_digest'', JStr digest)])) (\<lambda>_.
     ret ()))))))))))))))))"

section \<open>What they leave behind\<close>

text \<open>
  After either of them no checkpointed job is left, no client has an open grant, and no Plan task starts
  before a new revision names the digest: the control row is pending.
\<close>

definition cut_off :: "project \<Rightarrow> bool" where
  "cut_off s \<longleftrightarrow> list_all (\<lambda>g. ag_revoked g \<noteq> None) (grants s) \<and> list_all (\<lambda>j. jb_state j \<noteq> JCheckpointed) (jobs s)"

lemma append_session_frame:
  "append_session w action client rid d h rest s = Inr (v, s') \<Longrightarrow> grants s' = grants s \<and> jobs s' = jobs s
     \<and> restoration s' = restoration s \<and> restore_history s' = restore_history s \<and> recovery_history s' = recovery_history s
     \<and> source_root s' = source_root s \<and> plan_head s' = plan_head s"
  by (auto simp: append_session_def upsert_session_def run_simps)

lemma close_session_frame:
  assumes "close_recovery_session w d root reason s = Inr (n, s')"
  shows "grants s' = grants s \<and> jobs s' = jobs s \<and> restoration s' = restoration s \<and> restore_history s' = restore_history s
     \<and> recovery_history s' = recovery_history s \<and> source_root s' = source_root s \<and> plan_head s' = plan_head s"
  using assms by (auto simp: close_recovery_session_def Let_def run_simps dest!: append_session_frame)

lemma all_revoked: "list_all (\<lambda>g. ag_revoked g \<noteq> None) (update_where (\<lambda>g. ag_revoked g = None) (\<lambda>g. g\<lparr>ag_revoked := Some t\<rparr>) gs)"
  by (induction gs) simp_all

lemma none_checkpointed: "list_all (\<lambda>j. jb_state j \<noteq> JCheckpointed)
    (update_where (\<lambda>j. jb_state j = JCheckpointed) (\<lambda>j. j\<lparr>jb_state := JSuperseded, jb_resumable := False, jb_updated := t\<rparr>) js)"
  by (induction js) simp_all

lemma restoration_cuts_off:
  assumes "publish_restore w g l r actor p identity tree s = Inr (v, s')"
  shows "cut_off s'" and "source_root s' = rp_destination p" and "pending_restoration s' \<noteq> None"
  using assms
  by (auto simp: publish_restore_def in_transaction_def set_restore_def revoke_all_grants_def supersede_checkpointed_def run_simps
      cut_off_def pending_restoration_def all_revoked none_checkpointed simp del: not_None_eq dest!: close_session_frame)

lemma each_receipts_frame:
  "each (federation_receipt w) xs s = Inr (u, s') \<Longrightarrow> grants s' = grants s \<and> jobs s' = jobs s"
proof (induction xs arbitrary: s)
  case (Cons x xs)
  obtain i body where x: "x = (i, body)" by (cases x)
  from Cons.prems obtain s1 where s1: "federation_receipt w (i, body) s = Inr ((), s1)" "each (federation_receipt w) xs s1 = Inr (u, s')"
    by (auto simp: x run_simps)
  then have "grants s1 = grants s \<and> jobs s1 = jobs s" by (auto simp: federation_receipt_def run_simps)
  with Cons.IH [OF s1(2)] show ?case by simp
qed (simp add: run_simps)

lemma recovery_cuts_off:
  assumes "recover_database w p s = Inr (u, s')"
  shows "cut_off s'" and "pending_recovery s' \<noteq> None"
  using assms
  by (auto simp: recover_database_def Let_def clear_lease_def revoke_all_grants_def supersede_checkpointed_def run_simps
      cut_off_def pending_recovery_def all_revoked none_checkpointed case_prod_beta
      simp del: not_None_eq dest!: close_session_frame each_receipts_frame)

end
