(* ===== verification/Project_Steps.thy ===== *)
theory Project_Steps
  imports Project_Laws Restoration
begin

text \<open>
  The operations of capture, steering, sessions, grants, Delta, coordination, restoration and recovery: each keeps
  the invariants of Project_Laws.
\<close>

section \<open>Capture\<close>

lemma keeps_append_event:
  assumes "\<And>s x. I s \<Longrightarrow> I (s\<lparr>lineage := x\<rparr>)" "\<And>s x. I s \<Longrightarrow> I (s\<lparr>chunks := x\<rparr>)"
    and "\<And>w lane limit v. keeps I (put_object w lane limit v)" "\<And>w lane k b. keeps I (append_receipt w lane k b)"
  shows "keeps I (append_event w screen l r client prov)"
  unfolding append_event_def insert_event_def Let_def
  by (intro keeps_rules assms) (auto intro: assms)

lemma sound_append_event [keeps_rules]:
  assumes "sha256 w = H"
  shows "keeps (sound H s0) (append_event w screen l r client prov)"
proof (rule keeps_soundI)
  show "keeps (lineage_inv H) (append_event w screen l r client prov)"
    using append_event_inv [of w] assms by (simp add: valid_def)
qed (rule keeps_append_event; (intro keeps_rules)?; simp)+

lemma keeps_at_state: "(\<And>s. keeps I (m s)) \<Longrightarrow> keeps I (\<lambda>s. m s s)"
  by (simp add: valid_def)

lemma sound_record_decision [keeps_rules]: "keeps (sound H s0) (record_decision w l d r client prov)"
  unfolding record_decision_def by (intro keeps_rules) simp_all

lemma sound_capture_event [keeps_rules]:
  "sha256 w = H \<Longrightarrow> keeps (sound H s0) (capture_event w clean l r client prov)"
  unfolding capture_event_def by (rule keeps_at_state) (intro keeps_rules, simp)

section \<open>Steering\<close>

lemma keeps_assess [keeps_rules]: "keeps I (assess w clean r actor)"
  by (rule keeps_reads) (erule assess_Inr)

lemma sound_submit_steer [keeps_rules]: "keeps (sound H s0) (submit_steer w clean l r actor)"
  unfolding submit_steer_def preview_def queue_steer_def pause_project_def
  by (intro keeps_rules) simp_all

lemma sound_jobs: "sound H s0 s \<Longrightarrow> job_inv (s\<lparr>jobs := x\<rparr>) \<Longrightarrow> sound H s0 (s\<lparr>jobs := x\<rparr>)"
  by (simp add: sound_def)

lemma interrupt_jobs_good: "job_good s (s\<lparr>jobs := update_where (\<lambda>j. jb_state j \<in> {JRunning, JQueued, JCheckpointed})
     (\<lambda>j. j\<lparr>jb_cancellation := Some ''Captured host interrupt'',
       jb_state := (if jb_state j = JQueued then JCancelled else jb_state j), jb_updated := now w\<rparr>) (jobs s)\<rparr>)"
proof (cases "job_inv s")
  case True
  have "\<not> pending_effect (jb_job_id j) s" if "j \<in> set (jobs s)" "jb_state j \<in> {JQueued, JCheckpointed}" for j
  proof
    assume "pending_effect (jb_job_id j) s"
    moreover have "find_job (jb_job_id j) s = Some j"
      using True that(1) find_key_unique [of jb_job_id "jobs s" j] by (simp add: find_job_def job_inv_def job_keys_def)
    ultimately show False using pending_state [OF True] that(2) by fastforce
  qed
  with True show ?thesis
    by (intro update_jobs_good) (auto simp: job_evolves_def owned_def job_inv_def)
qed (simp add: job_good_def)

lemma sound_interrupt_jobs [keeps_rules]: "keeps (sound H s0) (interrupt_jobs w)"
  unfolding interrupt_jobs_def
  by (intro keeps_modify sound_jobs) (use interrupt_jobs_good in \<open>auto simp: sound_def job_good_def\<close>)

lemma sound_record_interrupt [keeps_rules]: "keeps (sound H s0) (record_interrupt w l eid cursor actor)"
  unfolding record_interrupt_def pause_project_def by (intro keeps_rules) simp_all

section \<open>Sessions and grants\<close>

lemma sound_append_session [keeps_rules]: "keeps (sound H s0) (append_session w action client rid d h rest)"
  unfolding append_session_def upsert_session_def by (intro keeps_rules) simp_all

lemma sound_commit_session [keeps_rules]: "keeps (sound H s0) (commit_session w en l client rid c p hg f route)"
proof (cases hg; cases f)
  fix sid gen flash ctx
  assume "hg = (sid, gen)" "f = (flash, ctx)"
  then show ?thesis unfolding commit_session_def Let_def by (simp only: prod.case) (intro keeps_rules)
qed

lemma sound_session_transition [keeps_rules]: "keeps (sound H s0) (session_transition w en l client rid c bs)"
  unfolding session_transition_def safe_boundary_def Let_def by (intro keeps_rules)

lemma sound_grants [keeps_rules]:
  "keeps (sound H s0) (issue_grant w fs l q)" "keeps (sound H s0) (revoke_grant w l gid)"
  unfolding issue_grant_def revoke_grant_def by (intro keeps_rules; simp)+

section \<open>Delta\<close>

lemma keeps_preflight [keeps_rules]: "keeps I (preflight w env c r)"
  unfolding preflight_def by (intro keeps_rules)

lemma sound_update_run [keeps_rules]: "keeps (sound H s0) (update_run jid f)"
  unfolding update_run_def by (intro keeps_rules) simp

lemma sound_delta_enter [keeps_rules]:
  "sha256 w = H \<Longrightarrow> keeps (sound H s0) (delta_enter_action w env l c r)"
  unfolding delta_enter_action_def new_run_def admit_run_def nothing_pending_def by (intro keeps_rules) simp_all

lemma sound_runs [keeps_rules]:
  "keeps (sound H s0) (run_started w l jid)" "keeps (sound H s0) (run_blocked w l jid cd)"
  unfolding run_started_def run_blocked_def by (intro keeps_rules)+

lemma sound_recover_rows [keeps_rules]:
  assumes "sha256 w = H"
  shows "keeps (sound H s0) (recover_rows w l jid r cd)"
proof -
  have "keeps (sound H s0) (modify (\<lambda>s. s\<lparr>jobs := update_where (\<lambda>j. jb_job_id j = jid \<and> jb_state j = JQueued)
       (\<lambda>j. j\<lparr>jb_state := JFailed, jb_error_code := Some cd, jb_resumable := False, jb_updated := now w\<rparr>) (jobs s)\<rparr>))"
    by (intro keeps_modify sound_jobs rewrite_idle_jobs) (auto simp: sound_def job_evolves_def)
  then show ?thesis unfolding recover_rows_def by (intro keeps_rules) (auto simp: assms valid_def run_simps)
qed

lemma sound_delta_recover [keeps_rules]:
  "sha256 w = H \<Longrightarrow> keeps (sound H s0) (delta_recover w validated learned l jid r cd)"
  unfolding delta_recover_def published_completion_def by (intro keeps_rules)

lemma sound_failed_exit [keeps_rules]: "sha256 w = H \<Longrightarrow> keeps (sound H s0) (failed_exit w x bnds ro v)"
  unfolding failed_exit_def by (intro keeps_rules)

lemma keeps_current_owner [keeps_rules]: "keeps I (current_owner w slot x)"
  unfolding current_owner_def
  by (intro keeps_rules; cases "ex_heartbeat_error x" rule: option.exhaust) (auto intro: keeps_rules split: list.split)

lemma sound_verified_exit [keeps_rules]:
  "sha256 w = H \<Longrightarrow> keeps (sound H s0) (verified_exit_rows w slot x r actor bnds ro checks v g extra)"
  unfolding verified_exit_rows_def owner_steers_def running_run_def select_next_def by (intro keeps_rules) simp_all

section \<open>Recovery of effects\<close>

lemma sound_settle_job [keeps_rules]: "sha256 w = H \<Longrightarrow> keeps (sound H s0) (settle_job w l client r)"
  unfolding settle_job_def block_run_def ready_steers_def by (intro keeps_rules) simp_all

lemma sound_reconcile_job [keeps_rules]:
  "sha256 w = H \<Longrightarrow> keeps (sound H s0) (reconcile_job w ob1 ob2 l client rv r)"
  unfolding reconcile_job_def reconcilable_def by (intro keeps_rules) simp_all

section \<open>The writer\<close>

lemma sound_receipts: "grows (=) (receipts s) rs \<Longrightarrow> sound H s0 s \<Longrightarrow> sound H s0 (s\<lparr>receipts := rs\<rparr>)"
  by (auto simp: sound_def plan_good_def plan_since_def grows_eq_append intro!: plan_inv_receipts)

lemma sound_writer_frame:
  assumes "writer_frame s t" "sound H s0 s"
  shows "sound H s0 t"
proof -
  have t: "t = s\<lparr>kernel_lock := kernel_lock t, writer_lease := writer_lease t, receipts := receipts t\<rparr>"
  proof -
    have "t\<lparr>kernel_lock := None, writer_lease := None, receipts := []\<rparr>
        = s\<lparr>kernel_lock := None, writer_lease := None, receipts := []\<rparr>"
      using assms(1) by (simp add: writer_frame_def)
    then have "t\<lparr>kernel_lock := None, writer_lease := None, receipts := []\<rparr>\<lparr>kernel_lock := kernel_lock t, writer_lease := writer_lease t,
        receipts := receipts t\<rparr> = s\<lparr>kernel_lock := None, writer_lease := None, receipts := []\<rparr>\<lparr>kernel_lock := kernel_lock t,
        writer_lease := writer_lease t, receipts := receipts t\<rparr>" by (rule arg_cong)
    then show ?thesis by simp
  qed
  have "grows (=) (receipts (s\<lparr>kernel_lock := kernel_lock t, writer_lease := writer_lease t\<rparr>)) (receipts t)"
    using writer_frame_receipts [OF assms(1)] by simp
  from sound_receipts [OF this] assms(2) show ?thesis by (subst t) simp
qed

lemma sound_writer [keeps_rules]:
  "keeps (sound H s0) (acquire w l)" "keeps (sound H s0) (release l)" "keeps (sound H s0) (heartbeat w l)"
  by (rule validI, erule sound_writer_frame [rotated], erule acquire_frame release_frame heartbeat_frame)+

section \<open>Processes\<close>

definition pkeeps :: "('s \<Rightarrow> bool) \<Rightarrow> ('s, 'a) process \<Rightarrow> bool" where
  "pkeeps I p \<longleftrightarrow> (\<forall>s. I s \<longrightarrow> I (snd (p s)))"

named_theorems pkeeps_rules \<open>processes that keep an invariant\<close>

lemma pkeeps_commit [pkeeps_rules]: "keeps I m \<Longrightarrow> pkeeps I (commit m)"
  by (simp add: pkeeps_def keeps_process)

lemma pkeeps_pbind [pkeeps_rules]: "pkeeps I p \<Longrightarrow> (\<And>a. pkeeps I (f a)) \<Longrightarrow> pkeeps I (pbind p f)"
  unfolding pkeeps_def pbind_def by (fastforce split: prod.split sum.split)

lemma pkeeps_return [pkeeps_rules]: "pkeeps I (preturn a)" "pkeeps I (pfail e)" "pkeeps I (prequire ok c)"
  by (simp_all add: pkeeps_def preturn_def pfail_def prequire_def)

lemma pkeeps_branch [pkeeps_rules]:
  "pkeeps I p \<Longrightarrow> pkeeps I q \<Longrightarrow> pkeeps I (if b then p else q)"
  "pkeeps I p \<Longrightarrow> (\<And>x. pkeeps I (f x)) \<Longrightarrow> pkeeps I (case y of None \<Rightarrow> p | Some x \<Rightarrow> f x)"
  "(\<And>e. pkeeps I (g e)) \<Longrightarrow> (\<And>x. pkeeps I (f x)) \<Longrightarrow> pkeeps I (case r of Inl e \<Rightarrow> g e | Inr x \<Rightarrow> f x)"
  by (simp_all split: option.split sum.split)

lemma pkeeps_case_prod [pkeeps_rules]: "(\<And>a b. pkeeps I (f a b)) \<Longrightarrow> pkeeps I (case p of (a, b) \<Rightarrow> f a b)"
  by (cases p) simp

lemma keeps_set_projection [keeps_rules]: "keeps (sound H s0) (set_projection pid f)"
  unfolding set_projection_def by (intro keeps_rules) simp

lemma keeps_read_projection [keeps_rules]: "keeps I (read_host_projection H pid)"
  unfolding read_host_projection_def by (intro keeps_rules)

lemma sound_sync_steps [keeps_rules]:
  "keeps (sound H s0) (sync_begin w root l pid expected)" "keeps (sound H s0) (sync_failed w l p e)"
  "keeps (sound H s0) (sync_confirm w l q after actor)"
  unfolding sync_begin_def sync_failed_def sync_confirm_def by (intro keeps_rules; simp)+

lemma sound_write_host_file [pkeeps_rules]: "pkeeps (sound H s0) (write_host_file G io path actual text)"
  by (auto simp: pkeeps_def write_host_file_def split: option.split)

text \<open>A process that goes on with the state its first part left, whatever that part returned.\<close>

lemma pkeeps_handled:
  "pkeeps I p \<Longrightarrow> (\<And>a. pkeeps I (f a)) \<Longrightarrow> (\<And>e. pkeeps I (g e)) \<Longrightarrow>
     pkeeps I (\<lambda>s. case p s of (Inr a, s') \<Rightarrow> f a s' | (Inl e, s') \<Rightarrow> g e s')"
  unfolding pkeeps_def by (fastforce split: prod.split sum.split)

lemma sound_sync [pkeeps_rules]: "pkeeps (sound H s0) (sync_host_plan w root io l pid expected actor)"
proof -
  have "pkeeps (sound H s0) (case st of Current p \<Rightarrow> preturn p | Drifted \<Rightarrow> pfail (LaneError ''HOST_PLAN_CHANGED'')
     | Publish path actual p \<Rightarrow> (\<lambda>s. case write_host_file (sha256 w) io path actual (hp_markdown p) s of
           (Inr after, s') \<Rightarrow> commit (sync_confirm w l p after actor) s'
         | (Inl e, s') \<Rightarrow> pbind (commit (sync_failed w l (hp_projection_id p) e)) (\<lambda>_. pfail (write_error e)) s'))" for st
    by (cases st) (simp_all, intro pkeeps_rules, intro pkeeps_rules, intro pkeeps_handled pkeeps_rules keeps_rules)
  then show ?thesis unfolding sync_host_plan_def by (intro pkeeps_rules keeps_rules)
qed

lemma sound_publish [pkeeps_rules]:
  "pkeeps (sound H s0) (publish_if_bound w root io l pid actor)" "pkeeps (sound H s0) (publish_latest w root io l actor)"
  unfolding publish_latest_def publish_if_bound_def by (intro pkeeps_rules keeps_rules)+

lemma sound_projection [keeps_rules]: "keeps (sound H s0) (prepare_projection w rv actor)"
proof (rule keeps_soundI)
  show "keeps (plan_good H s0) (prepare_projection w rv actor)"
    by (rule keeps_plan_good) (auto intro: keeps_rules dest: prepare_projection_since)
qed (intro keeps_rules)+

lemma sound_bind [pkeeps_rules]: "pkeeps (sound H s0) (bind_host_plan w root io l r actor)"
  unfolding bind_host_plan_def bind_rows_def deactivate_def Let_def by (intro pkeeps_rules keeps_rules) simp_all

lemma pkeeps_state: "(\<And>s. fst (p s) = fst (q s)) \<Longrightarrow> (\<And>s. snd (p s) = snd (q s)) \<Longrightarrow> pkeeps I q \<Longrightarrow> pkeeps I p"
  by (simp add: pkeeps_def)

lemma sound_published [pkeeps_rules]:
  assumes "keeps (sound H s0) m"
  shows "pkeeps (sound H s0) (published w root io l actor m)"
proof -
  have "pkeeps I (\<lambda>s. (g s, s))" for I :: "project \<Rightarrow> bool" and g :: "project \<Rightarrow> error + plan_snapshot option"
    by (simp add: pkeeps_def)
  then show ?thesis unfolding published_def by (intro pkeeps_rules assms)
qed

lemma sound_plan_processes [pkeeps_rules]:
  assumes "sha256 w = H"
  shows "pkeeps (sound H s0) (create w vd root io l c actor)" "pkeeps (sound H s0) (replace_revision w vd root io l r actor)"
    "pkeeps (sound H s0) (transition_published w root io l tid st rv actor eid ev)"
  unfolding create_def replace_revision_def transition_published_def
  by (intro pkeeps_rules keeps_rules assms)+

section \<open>Executions\<close>

text \<open>The methods of an execution: the invariant of the project, whatever the execution object is.\<close>

definition wkeeps :: "(project \<Rightarrow> bool) \<Rightarrow> 'a work \<Rightarrow> bool" where
  "wkeeps I p \<longleftrightarrow> pkeeps (\<lambda>(s, x). I s) p"

lemma wkeeps_rules [pkeeps_rules]:
  "wkeeps I p \<Longrightarrow> (\<And>a. wkeeps I (f a)) \<Longrightarrow> wkeeps I (pbind p f)"
  "wkeeps I (preturn a)" "wkeeps I (pfail e)" "wkeeps I (prequire ok c)" "wkeeps I (set_execution g)"
  "pkeeps I q \<Longrightarrow> wkeeps I (on_project q)" "(\<And>x. wkeeps I (k x)) \<Longrightarrow> wkeeps I (with_execution k)"
  "wkeeps I p \<Longrightarrow> wkeeps I p' \<Longrightarrow> wkeeps I (if b then p else p')"
  unfolding wkeeps_def
  by (intro pkeeps_rules; assumption | auto simp: pkeeps_def set_execution_def on_project_def with_execution_def
      split: prod.split option.split sum.split)+

lemma wkeeps_case_rules [pkeeps_rules]:
  "wkeeps I p \<Longrightarrow> (\<And>x. wkeeps I (f x)) \<Longrightarrow> wkeeps I (case y of None \<Rightarrow> p | Some x \<Rightarrow> f x)"
  "(\<And>e. wkeeps I (h e)) \<Longrightarrow> (\<And>a. wkeeps I (k a)) \<Longrightarrow> wkeeps I (case r of Inl e \<Rightarrow> h e | Inr a \<Rightarrow> k a)"
  "(\<And>a b. wkeeps I (g a b)) \<Longrightarrow> wkeeps I (case q of (a, b) \<Rightarrow> g a b)"
  "(\<And>c. wkeeps I (u c)) \<Longrightarrow> (\<And>m. wkeeps I (v m)) \<Longrightarrow>
     wkeeps I (case z of LaneError c \<Rightarrow> u c | Raised m \<Rightarrow> v m)"
  by (simp_all split: option.split sum.split prod.split error.split)

lemma keeps_may_continue [keeps_rules]: "keeps I (may_continue w slot x)"
  unfolding may_continue_def owner_steers_def by (intro keeps_rules)

lemma work_before [pkeeps_rules]: "wkeeps I (before_more_work w slot env)"
  unfolding before_more_work_def by (intro pkeeps_rules keeps_rules)

lemma work_spend [pkeeps_rules]: "wkeeps I (spend env)"
  unfolding spend_def by (intro pkeeps_rules)

lemma work_submit: "wkeeps I (submit_work w slot env pool source linked names op arguments)"
  unfolding submit_work_def Let_def by (intro pkeeps_rules)

lemma work_effects:
  "wkeeps (sound H s0) (execution_prepare_effect w slot env key d)" "wkeeps (sound H s0) (execution_confirm_effect w slot eid ev)"
  unfolding execution_prepare_effect_def execution_confirm_effect_def by (intro pkeeps_rules keeps_rules)+

lemma work_results [pkeeps_rules]: "wkeeps I worker_results"
  unfolding worker_results_def Let_def by (intro pkeeps_rules)

lemma work_observe [pkeeps_rules]: "wkeeps I (observe_work G pause)"
proof -
  have "wkeeps I (case observe G fs g of
         (Inr _, g') \<Rightarrow> pbind (set_execution (\<lambda>y. y\<lparr>ex_guard := Some g'\<rparr>)) (\<lambda>_. preturn pause)
       | (Inl (LaneError c), g') \<Rightarrow>
           pbind (set_execution (\<lambda>y. y\<lparr>ex_guard := Some (g'\<lparr>gd_failure := Some c\<rparr>)\<rparr>)) (\<lambda>_. preturn True)
       | (Inl e, g') \<Rightarrow> pbind (set_execution (\<lambda>y. y\<lparr>ex_guard := Some g'\<rparr>)) (\<lambda>_. pfail e))" for fs g
    by (intro pkeeps_rules)
  then show ?thesis unfolding observe_work_def by (intro pkeeps_rules)
qed

lemma keeps_own_steers [keeps_rules]: "keeps I (owner_steers rv)"
  unfolding owner_steers_def by (intro keeps_rules)

lemma sound_cancel_mark [keeps_rules]:
  "keeps (sound H s0) (update_job jid (\<lambda>j. j\<lparr>jb_cancellation := Some reason\<rparr>))"
proof -
  have "job_good s (s\<lparr>jobs := update_where P (\<lambda>j. j\<lparr>jb_cancellation := Some reason\<rparr>) (jobs s)\<rparr>)" for s P
  proof (cases "job_inv s")
    case True
    have "jb_state j \<in> {JRunning, JUncertain}" if "j \<in> set (jobs s)" "pending_effect (jb_job_id j) s" for j
    proof -
      have "find_job (jb_job_id j) s = Some j"
        using True that(1) find_key_unique [of jb_job_id "jobs s" j] by (simp add: find_job_def job_inv_def job_keys_def)
      with that(2) show ?thesis using pending_state [OF True] by blast
    qed
    with True show ?thesis by (intro update_jobs_good) (auto simp: job_evolves_def owned_def job_inv_def)
  qed (simp add: job_good_def)
  then show ?thesis
    unfolding update_job_def by (intro keeps_modify sound_jobs) (auto simp: sound_def job_good_def)
qed

lemma sound_block_task [keeps_rules]: "sha256 w = H \<Longrightarrow> keeps (sound H s0) (block_task w x stopped)"
  unfolding block_task_def by (intro keeps_rules)

lemma sound_steer_checkpointed [keeps_rules]: "keeps (sound H s0) (steer_checkpointed w st d q)"
  unfolding steer_checkpointed_def by (intro keeps_rules) simp

lemma sound_checkpoint_rows [keeps_rules]:
  "sha256 w = H \<Longrightarrow> keeps (sound H s0) (checkpoint_rows w slot x phase content g resumable pause)"
  unfolding checkpoint_rows_def by (intro keeps_rules) simp_all

lemma work_checkpoint:
  "sha256 w = H \<Longrightarrow> wkeeps (sound H s0) (execution_checkpoint w slot root io g phase content resumable pause)"
  unfolding execution_checkpoint_def by (intro pkeeps_rules keeps_rules)

lemma work_complete: "wkeeps (sound H s0) (execution_complete w slot env result)"
  unfolding execution_complete_def by (intro pkeeps_rules keeps_rules)

lemma sound_record_end [keeps_rules]: "keeps (sound H s0) (record_end w x)"
  unfolding record_end_def by (intro keeps_rules)

lemma sound_commit:
  "commit m s = (r, s') \<Longrightarrow> keeps (sound H s0) m \<Longrightarrow> sound H s0 s \<Longrightarrow> sound H s0 s'"
  using keeps_process [of "sound H s0" m s] by simp

lemma work_finish: "wkeeps (sound H s0) (execution_finish w)"
proof -
  have "wkeeps (sound H s0) (\<lambda>(s, x). case commit (record_end w x) s of (r, s1) \<Rightarrow>
     case commit (release (ex_lease x)) s1 of (_, s2) \<Rightarrow>
       (r, (s2, x\<lparr>ex_closed := True, ex_lease := (ex_lease x)\<lparr>ls_held := False\<rparr>\<rparr>)))"
    by (auto simp: wkeeps_def pkeeps_def split: prod.split
        dest!: sound_commit [OF _ sound_record_end] sound_commit [OF _ sound_writer(2)])
  then show ?thesis unfolding execution_finish_def by (intro pkeeps_rules)
qed

lemma work_heartbeat: "wkeeps (sound H s0) (heartbeat_tick w busy)"
proof -
  have "wkeeps (sound H s0) (\<lambda>(s, y). case commit (heartbeat w l) s of
         (Inr _, s') \<Rightarrow> (Inr True, (s', y))
       | (Inl (LaneError c), s') \<Rightarrow> (Inr False, (s', y\<lparr>ex_heartbeat_error := Some c\<rparr>))
       | (Inl e, s') \<Rightarrow> (Inl e, (s', y)))" for l
    by (auto simp: wkeeps_def pkeeps_def split: prod.split sum.split error.split
        dest!: sound_commit [OF _ sound_writer(3)])
  then show ?thesis unfolding heartbeat_tick_def by (intro pkeeps_rules)
qed

section \<open>The coordinator\<close>

lemma keeps_new_lease [keeps_rules]: "keeps (sound H s0) (mutation_lease w active engine seconds kind)"
  unfolding mutation_lease_def by (intro keeps_rules)

lemma sound_execution_ready [keeps_rules]: "keeps (sound H s0) (execution_ready w l jid task rv)"
  unfolding execution_ready_def by (intro keeps_rules)

lemma sound_start_execution [pkeeps_rules]: "pkeeps (sound H s0) (start_execution w active engine jid task rv)"
proof -
  have "pkeeps (sound H s0) (\<lambda>s. case commit (execution_ready (branch 1 w) l jid task rv) s of
       (Inr x, s') \<Rightarrow> (Inr x, s')
     | (Inl e, s') \<Rightarrow> (Inl e, snd (commit (release l) s')))" for l
    by (auto simp: pkeeps_def split: prod.split sum.split
        dest!: sound_commit [OF _ sound_execution_ready] intro: keeps_process [OF sound_writer(2)])
  then show ?thesis unfolding start_execution_def by (intro pkeeps_rules keeps_rules)
qed

lemma sound_idle [keeps_rules]: "sha256 w = H \<Longrightarrow> keeps (sound H s0) (checkpoint_idle_plan w active l rid rv actor)"
  unfolding checkpoint_idle_plan_def idle_checkpoint_def task_intact_def
  by (intro keeps_rules) (simp_all add: branch_def)

section \<open>Restoration and recovery\<close>

lemma plan_inv_ground [simp]:
  "plan_inv H (s\<lparr>project_root := a1\<rparr>) = plan_inv H s" "plan_inv H (s\<lparr>source_root := a2\<rparr>) = plan_inv H s"
  "plan_inv H (s\<lparr>restoration := a3\<rparr>) = plan_inv H s" "plan_inv H (s\<lparr>recovery := a4\<rparr>) = plan_inv H s"
  "plan_inv H (s\<lparr>restore_requests := a5\<rparr>) = plan_inv H s" "plan_inv H (s\<lparr>restore_history := a6\<rparr>) = plan_inv H s"
  "plan_inv H (s\<lparr>recovery_history := a7\<rparr>) = plan_inv H s" "plan_inv H (s\<lparr>reindexes := a8\<rparr>) = plan_inv H s"
  "plan_inv H (s\<lparr>graphs := a9\<rparr>) = plan_inv H s"
  by (simp_all add: plan_inv_def history_ok_def rows_ok_def row_ok_def waits_for_def exit_recorded_def order_ok_def
      ordered_upto_def sealed_def view_Inr deps_of_task_def split: option.split)

lemma lineage_inv_ground [simp]:
  "lineage_inv H (s\<lparr>project_root := a1\<rparr>) = lineage_inv H s" "lineage_inv H (s\<lparr>source_root := a2\<rparr>) = lineage_inv H s"
  "lineage_inv H (s\<lparr>restoration := a3\<rparr>) = lineage_inv H s" "lineage_inv H (s\<lparr>recovery := a4\<rparr>) = lineage_inv H s"
  "lineage_inv H (s\<lparr>restore_requests := a5\<rparr>) = lineage_inv H s" "lineage_inv H (s\<lparr>restore_history := a6\<rparr>) = lineage_inv H s"
  "lineage_inv H (s\<lparr>recovery_history := a7\<rparr>) = lineage_inv H s" "lineage_inv H (s\<lparr>reindexes := a8\<rparr>) = lineage_inv H s"
  "lineage_inv H (s\<lparr>graphs := a9\<rparr>) = lineage_inv H s"
  by (simp_all add: lineage_inv_def objects_sound_def find_blob_def registered_def)

lemma job_inv_ground [simp]:
  "job_inv (s\<lparr>project_root := a1\<rparr>) = job_inv s" "job_inv (s\<lparr>source_root := a2\<rparr>) = job_inv s"
  "job_inv (s\<lparr>restoration := a3\<rparr>) = job_inv s" "job_inv (s\<lparr>recovery := a4\<rparr>) = job_inv s"
  "job_inv (s\<lparr>restore_requests := a5\<rparr>) = job_inv s" "job_inv (s\<lparr>restore_history := a6\<rparr>) = job_inv s"
  "job_inv (s\<lparr>recovery_history := a7\<rparr>) = job_inv s" "job_inv (s\<lparr>reindexes := a8\<rparr>) = job_inv s"
  "job_inv (s\<lparr>graphs := a9\<rparr>) = job_inv s"
  by (rule job_inv_cong; simp)+

lemma sound_ground [simp]:
  "sound H s0 (s\<lparr>project_root := a1\<rparr>) = sound H s0 s" "sound H s0 (s\<lparr>source_root := a2\<rparr>) = sound H s0 s"
  "sound H s0 (s\<lparr>restoration := a3\<rparr>) = sound H s0 s" "sound H s0 (s\<lparr>recovery := a4\<rparr>) = sound H s0 s"
  "sound H s0 (s\<lparr>restore_requests := a5\<rparr>) = sound H s0 s" "sound H s0 (s\<lparr>restore_history := a6\<rparr>) = sound H s0 s"
  "sound H s0 (s\<lparr>recovery_history := a7\<rparr>) = sound H s0 s" "sound H s0 (s\<lparr>reindexes := a8\<rparr>) = sound H s0 s"
  "sound H s0 (s\<lparr>graphs := a9\<rparr>) = sound H s0 s"
  by (simp_all add: sound_def plan_good_def plan_since_def)

lemma sound_supersede_checkpointed [keeps_rules]: "keeps (sound H s0) (supersede_checkpointed w)"
  unfolding supersede_checkpointed_def
  by (intro keeps_modify sound_jobs rewrite_idle_jobs) (auto simp: sound_def job_evolves_def)

lemma sound_close_session [keeps_rules]: "keeps (sound H s0) (close_recovery_session w d root reason)"
  unfolding close_recovery_session_def Let_def by (intro keeps_rules)

lemma keeps_preview [keeps_rules]: "keeps I assert_quiescent" "keeps I (restore_preview_of g n r existing)"
  unfolding restore_preview_of_def source_boundary_def assert_quiescent_def by (intro keeps_rules)+

lemma sound_restore_rows [keeps_rules]:
  "keeps (sound H s0) (read_restore w l r actor reconcile)" "keeps (sound H s0) (begin_restore w l r actor p)"
  "keeps (sound H s0) (publish_restore w g l r actor p identity tree)"
  "keeps (sound H s0) (abandon_restore w l rid expected actor)"
  unfolding read_restore_def begin_restore_def publish_restore_def abandon_restore_def set_restore_def revoke_all_grants_def
  by (intro keeps_rules; simp)+

lemma sound_restore_source [pkeeps_rules]: "pkeeps (sound H s0) (restore_source ws g l r actor reconcile)"
  unfolding restore_source_def fresh_workspace_def by (intro pkeeps_rules keeps_rules)

lemma sound_reindex [pkeeps_rules]: "pkeeps (sound H s0) (reindex_source ws si l d actor)"
  unfolding reindex_source_def recorded_reindex_def reindex_rows_def by (intro pkeeps_rules keeps_rules) simp_all

lemma sound_recover_database [keeps_rules]: "keeps (sound H s0) (recover_database w p)"
  unfolding recover_database_def federation_receipt_def clear_lease_def revoke_all_grants_def Let_def
  by (intro keeps_rules) simp_all

lemma pkeeps_recovery_operation [pkeeps_rules]: "pkeeps I p \<Longrightarrow> pkeeps I (recovery_operation p)"
  by (auto simp: pkeeps_def recovery_operation_def split: prod.split sum.split error.split)

end
