(* ===== verification/Project_Machine.thy ===== *)
theory Project_Machine
  imports Project_Steps
begin

text \<open>
  The whole program over one project: every modelled operation that writes the tables of the record
  \<open>project\<close>, in any order, the processes that also write the host file, the execution that holds the
  coordinator's slot, restoration of the sources and offline recovery of the databases, a process death at
  any point and edits of the host file from outside. A recovery goes on from the state its backup holds: a
  run that recovers an older backup is the run up to that backup, followed by \<open>Recover\<close>. Writes of
  lanes that the record leaves out are named in the header of \<open>Spec2Isabelle\<close>. The state is the project with the
  slot. \<open>H\<close> is the digest function of the run; every world an operation runs in hashes with it.
\<close>

section \<open>Operations\<close>

datatype work_op =
    Submit world guard_env bool "string list" "string list \<Rightarrow> bool" "string list" string "(string \<times> json) list"
  | ExternalBegin world guard_env string string
  | ExternalEnd world string string
  | Guarded guard
  | Results
  | Observe bool
  | Report world "string list" "string \<Rightarrow> string option" "int option" string json bool bool
  | Deliver world guard_env json
  | FailedExit world "(string \<times> json) list" string json
  | VerifiedExit world delta_enter string "(string \<times> json) list" string "verification_check list" json "int option"
      "(string \<times> json) list"
  | Beat world bool
  | Finish world

datatype project_op =
    Queue job_op
  | Create world "validator \<times> validator" "string list" "string \<Rightarrow> string option" lease plan_create string
  | Replace world "validator \<times> validator" "string list" "string \<Rightarrow> string option" lease plan_replace string
  | Move world "string list" "string \<Rightarrow> string option" lease string task_state int string "string option" "string option"
  | Bind world "string list" "string \<Rightarrow> string option" lease host_bind string
  | Sync world "string list" "string \<Rightarrow> string option" lease "string option" "string option" string
  | CaptureInput world "string \<Rightarrow> string" lease lineage_record string string
  | SteerInput world "string \<Rightarrow> string" lease steer_request string
  | Interrupt world lease string string string
  | Session world engine lease string string session_command router
  | Issue world filesystem lease grant_request
  | Revoke world lease string
  | Enter world delta_env lease caller delta_enter
  | RunStarted world lease string
  | RunBlocked world lease string string
  | RunRecover world "json \<Rightarrow> unit result" "json \<Rightarrow> unit result" lease string delta_enter string
  | ReconcileJob world observer observer lease string "int option" reconcile_request
  | CheckpointIdle world lease string int string
  | Restore "nat \<Rightarrow> world" git_view lease git_restore string bool
  | AbandonRestore world lease string string string
  | Reindex "nat \<Rightarrow> world" source_index lease string string
  | Recover world offline_recovery
  | Start world string string "string option" "int option"
  | Work work_op
  | HostEdit "(string list \<times> string) list"
  | Die

type_synonym system = "project \<times> execution option"

definition pdrop :: "('s, 'a) process \<Rightarrow> ('s, unit) process" where
  "pdrop p = pbind p (\<lambda>_. preturn ())"

definition rows :: "(project, 'a) action \<Rightarrow> (project, unit) process" where
  "rows m = pdrop (commit m)"

fun queue_exec :: "(string \<Rightarrow> string) \<Rightarrow> job_op \<Rightarrow> (project, unit) action" where
  "queue_exec H (Put w lane limit v) = discard (put_object (hashed H w) lane limit v)"
| "queue_exec H q = job_exec q"

primrec work_exec :: "(string \<Rightarrow> string) \<Rightarrow> work_op \<Rightarrow> string option \<Rightarrow> unit work" where
  "work_exec H (Submit w env pool src linked names op args) slot =
     pdrop (submit_work (hashed H w) slot env pool src linked names op args)"
| "work_exec H (ExternalBegin w env key d) slot = pdrop (execution_prepare_effect (hashed H w) slot env key d)"
| "work_exec H (ExternalEnd w eid ev) slot = execution_confirm_effect (hashed H w) slot eid ev"
| "work_exec H (Guarded g) slot = set_execution (\<lambda>x. x\<lparr>ex_guard := Some g\<rparr>)"
| "work_exec H Results slot = pdrop worker_results"
| "work_exec H (Observe p) slot = pdrop (observe_work H p)"
| "work_exec H (Report w root io g phase content resumable pause) slot =
     pdrop (execution_checkpoint (hashed H w) slot root io g phase content resumable pause)"
| "work_exec H (Deliver w env v) slot = execution_complete (hashed H w) slot env v"
| "work_exec H (FailedExit w bnds ro v) slot = with_execution (\<lambda>x. on_project (rows (failed_exit (hashed H w) x bnds ro v)))"
| "work_exec H (VerifiedExit w r actor bnds ro checks v g extra) slot = with_execution (\<lambda>x. on_project (rows
     (verified_exit_rows (hashed H w) slot x r actor bnds ro checks v g extra)))"
| "work_exec H (Beat w busy) slot = pdrop (heartbeat_tick (hashed H w) busy)"
| "work_exec H (Finish w) slot = pdrop (execution_finish (hashed H w))"

text \<open>The processes that leave the slot as it is; \<open>active\<close> is the execution in it.\<close>

primrec process_of :: "(string \<Rightarrow> string) \<Rightarrow> project_op \<Rightarrow> execution option \<Rightarrow> (project, unit) process" where
  "process_of H (Queue q) active = rows (queue_exec H q)"
| "process_of H (Create w vd root io l c actor) active = pdrop (create (hashed H w) vd root io l c actor)"
| "process_of H (Replace w vd root io l r actor) active = pdrop (replace_revision (hashed H w) vd root io l r actor)"
| "process_of H (Move w root io l tid st rv actor eid ev) active =
     pdrop (transition_published (hashed H w) root io l tid st rv actor eid ev)"
| "process_of H (Bind w root io l r actor) active = pdrop (bind_host_plan (hashed H w) root io l r actor)"
| "process_of H (Sync w root io l pid expected actor) active = pdrop (sync_host_plan (hashed H w) root io l pid expected actor)"
| "process_of H (CaptureInput w clean l r client prov) active = rows (capture_event (hashed H w) clean l r client prov)"
| "process_of H (SteerInput w clean l r actor) active = rows (submit_steer (hashed H w) clean l r actor)"
| "process_of H (Interrupt w l eid cursor actor) active = rows (record_interrupt (hashed H w) l eid cursor actor)"
| "process_of H (Session w en l client rid c bs) active = rows (session_transition (hashed H w) en l client rid c bs)"
| "process_of H (Issue w fs l q) active = rows (issue_grant (hashed H w) fs l q)"
| "process_of H (Revoke w l gid) active = rows (revoke_grant (hashed H w) l gid)"
| "process_of H (Enter w env l c r) active = rows (delta_enter_action (hashed H w) env l c r)"
| "process_of H (RunStarted w l jid) active = rows (run_started (hashed H w) l jid)"
| "process_of H (RunBlocked w l jid cd) active = rows (run_blocked (hashed H w) l jid cd)"
| "process_of H (RunRecover w vd lrn l jid r cd) active = rows (delta_recover (hashed H w) vd lrn l jid r cd)"
| "process_of H (ReconcileJob w ob1 ob2 l client rv r) active = rows (reconcile_job (hashed H w) ob1 ob2 l client rv r)"
| "process_of H (CheckpointIdle w l rid rv actor) active = rows (checkpoint_idle_plan (hashed H w) active l rid rv actor)"
| "process_of H (Restore ws g l r actor reconcile) active =
     pdrop (recovery_operation (restore_source (\<lambda>k. hashed H (ws k)) g l r actor reconcile))"
| "process_of H (AbandonRestore w l rid d actor) active = rows (abandon_restore (hashed H w) l rid d actor)"
| "process_of H (Reindex ws si l d actor) active =
     pdrop (recovery_operation (reindex_source (\<lambda>k. hashed H (ws k)) si l d actor))"
| "process_of H (Recover w p) active = (if active = None then rows (recover_database (hashed H w) p) else preturn ())"
| "process_of H (HostEdit fs) active = (\<lambda>s. (Inr (), s\<lparr>host_files := fs\<rparr>))"
| "process_of H Die active = (\<lambda>s. (Inr (), s\<lparr>kernel_lock := None\<rparr>))"
| "process_of H (Start w engine jid task rv) active = preturn ()"
| "process_of H (Work k) active = preturn ()"

text \<open>
  One operation of the system. An execution starts when the slot is free and \<open>execution\<close> admits it; the
  slot is free again after \<open>Finish\<close> and when the process dies.
\<close>

definition slot_after :: "project_op \<Rightarrow> execution \<Rightarrow> execution option" where
  "slot_after q x = (case q of Work (Finish w) \<Rightarrow> None | _ \<Rightarrow> Some x)"

definition system_step :: "(string \<Rightarrow> string) \<Rightarrow> project_op \<Rightarrow> system \<Rightarrow> system" where
  "system_step H q = (\<lambda>(s, active). case q of
     Start w engine jid task rv \<Rightarrow> (case start_execution (hashed H w) active engine jid task rv s of
         (Inr x, s') \<Rightarrow> (s', Some x) | (Inl e, s') \<Rightarrow> (s', active))
   | Work k \<Rightarrow> (case active of None \<Rightarrow> (s, None)
       | Some x \<Rightarrow> (case work_exec H k (Some (execution_id x)) (s, x) of (r, s', x') \<Rightarrow> (s', slot_after q x')))
   | Die \<Rightarrow> (snd (process_of H Die active s), None)
   | _ \<Rightarrow> (snd (process_of H q active s), active))"

primrec run_system :: "(string \<Rightarrow> string) \<Rightarrow> project_op list \<Rightarrow> system \<Rightarrow> system" where
  "run_system H [] c = c"
| "run_system H (q # qs) c = run_system H qs (system_step H q c)"

definition project_after :: "(string \<Rightarrow> string) \<Rightarrow> string \<Rightarrow> string \<Rightarrow> project_op list \<Rightarrow> project" where
  "project_after H pid rt qs = fst (run_system H qs (empty_project pid rt, None))"

lemma run_system_append: "run_system H (qs @ rs) c = run_system H rs (run_system H qs c)"
  by (induction qs arbitrary: c) simp_all

section \<open>Every operation keeps the invariants\<close>

lemma pkeeps_pdrop [pkeeps_rules]: "pkeeps I p \<Longrightarrow> pkeeps I (pdrop p)"
  unfolding pdrop_def by (intro pkeeps_rules)

lemma wkeeps_pdrop [pkeeps_rules]: "wkeeps I p \<Longrightarrow> wkeeps I (pdrop p)"
  unfolding pdrop_def by (intro pkeeps_rules)

lemma pkeeps_rows [pkeeps_rules]: "keeps I m \<Longrightarrow> pkeeps I (rows m)"
  unfolding rows_def by (intro pkeeps_rules)

lemma keeps_discard [keeps_rules]: "keeps I m \<Longrightarrow> keeps I (discard m)"
  unfolding discard_def by (intro keeps_rules)

lemma sound_queue_exec: "keeps (sound H s0) (queue_exec H q)"
proof -
  have "keeps (sound H s0) (writer_exec x)" for x
    by (cases x) (simp_all, (intro keeps_rules; simp)+)
  then show ?thesis by (cases q) (simp_all, (intro keeps_rules; simp)+)
qed

lemma sound_work_exec: "wkeeps (sound H s0) (work_exec H k slot)"
  by (cases k)
    (simp_all, (intro pkeeps_rules keeps_rules work_submit work_effects work_checkpoint work_complete work_heartbeat work_finish; simp)+)

lemma sound_process_of: "pkeeps (sound H s0) (process_of H q active)"
  by (cases q) (simp_all split del: if_split, (intro pkeeps_rules keeps_rules sound_queue_exec; simp?)+, auto simp: pkeeps_def)

lemma sound_step:
  assumes "sound H s0 (fst c)"
  shows "sound H s0 (fst (system_step H q c))"
proof -
  obtain s active where c: "c = (s, active)" by (cases c)
  with assms have s: "sound H s0 s" by simp
  have p: "sound H s0 (snd (process_of H q' active s))" for q'
    using sound_process_of s by (simp add: pkeeps_def)
  have start: "sound H s0 s'" if "start_execution w active engine jid task rv s = (r, s')" for w engine jid task rv r s'
    using sound_start_execution [of H s0] s that unfolding pkeeps_def by (metis snd_conv)
  have work: "sound H s0 s'" if "work_exec H k slot (s, x) = (r, s', x')" for k slot x r s' x'
    using sound_work_exec [of H s0 k slot, unfolded wkeeps_def pkeeps_def, THEN spec, of "(s, x)"] s that by simp
  show ?thesis
  proof (cases q)
    case (Start w engine jid task rv)
    with s show ?thesis by (auto simp: system_step_def c split: prod.split sum.split dest: start)
  next
    case (Work k)
    with s show ?thesis by (auto simp: system_step_def c split: prod.split option.split dest: work)
  qed (simp_all add: system_step_def c p del: process_of.simps)
qed

lemma sound_run: "sound H s0 (fst c) \<Longrightarrow> sound H s0 (fst (run_system H qs c))"
  by (induction qs arbitrary: c) (simp_all add: sound_step)

lemma sound_empty: "sound H (empty_project pid rt) (empty_project pid rt)"
  by (simp add: sound_def plan_good_def)

lemma sound_start: "sound H s0 s \<Longrightarrow> sound H s s"
  by (simp add: sound_def plan_good_def)

lemma sound_after: "sound H (empty_project pid rt) (project_after H pid rt qs)"
  unfolding project_after_def by (rule sound_run) (simp add: sound_empty)

lemma sound_later: "sound H (project_after H pid rt qs) (project_after H pid rt (qs @ rs))"
  unfolding project_after_def run_system_append
  by (rule sound_run, rule sound_start, fold project_after_def, rule sound_after)

end
