(* ===== verification/Plan_Board.thy ===== *)
theory Plan_Board
  imports Plan_Laws Delta
begin

text \<open>
  An abstract Plan: the board of one revision, the states of its tasks and what each one needs. The
  transition of plan_runtime.py refines one move on it, and a board whose tasks stand after the tasks
  they need never gets stuck.
\<close>

section \<open>The board\<close>

record board =
  bd_rows :: "(string \<times> task_state) list"
  bd_needs :: "(string \<times> string) list"

definition board_ready :: "string \<Rightarrow> board \<Rightarrow> bool" where
  "board_ready tid b \<longleftrightarrow> \<not> list_ex (\<lambda>(x, d). x = tid \<and> list_ex (\<lambda>(i, q). i = d \<and> q \<noteq> Completed) (bd_rows b)) (bd_needs b)"

definition board_move :: "string \<Rightarrow> task_state \<Rightarrow> board \<Rightarrow> board option" where
  "board_move tid st b = (case map_of (bd_rows b) tid of
     None \<Rightarrow> None
   | Some q \<Rightarrow>
       if task_step q st \<and> (st = Active \<longrightarrow> board_ready tid b \<and> \<not> list_ex (\<lambda>(i, p). p = Active) (bd_rows b))
       then Some (b\<lparr>bd_rows := map (\<lambda>(i, p). (i, if i = tid then st else p)) (bd_rows b)\<rparr>) else None)"

definition board_of :: "int \<Rightarrow> project \<Rightarrow> board" where
  "board_of rv s = \<lparr>bd_rows = map (\<lambda>t. (pt_task_id t, pt_state t)) (filter (\<lambda>t. pt_revision t = rv) (tasks s)),
     bd_needs = map (\<lambda>d. (dep_task_id d, dep_dependency d)) (filter (\<lambda>d. dep_revision d = rv) (dependencies s))\<rparr>"

lemma board_ready_of: "board_ready tid (board_of rv s) \<longleftrightarrow> \<not> waits_for rv tid s"
  by (auto simp: board_ready_def board_of_def waits_for_def list_ex_iff)

lemma board_active_of:
  "list_ex (\<lambda>(i, p). p = Active) (bd_rows (board_of rv s)) \<longleftrightarrow> list_ex (\<lambda>t. pt_revision t = rv \<and> pt_state t = Active) (tasks s)"
  by (auto simp: board_of_def list_ex_iff)

lemma board_row_of: "map_of (bd_rows (board_of rv s)) tid = map_option pt_state (find_task rv tid s)"
proof -
  have "map_of (map (\<lambda>t. (pt_task_id t, pt_state t)) (filter (\<lambda>t. pt_revision t = rv) xs)) tid
      = map_option pt_state (find (\<lambda>t. pt_revision t = rv \<and> pt_task_id t = tid) xs)" for xs
    by (induction xs) auto
  then show ?thesis by (simp add: board_of_def find_task_def)
qed

lemma board_frame:
  assumes "plan_frame s s'"
  shows "board_of rv s' = board_of rv s"
proof -
  have "map (\<lambda>t. (pt_task_id t, pt_state t)) (filter (\<lambda>t. pt_revision t = rv) xs)
      = map (\<lambda>(v, i, d, q). (i, q)) (filter (\<lambda>f. fst f = rv) (map face xs))" for xs
    by (induction xs) (simp_all add: face_def)
  then show ?thesis using assms by (simp add: board_of_def plan_frame_def)
qed

lemma board_set_state:
  "board_of rv (set_state rv tid st s)
     = (board_of rv s)\<lparr>bd_rows := map (\<lambda>(i, p). (i, if i = tid then st else p)) (bd_rows (board_of rv s))\<rparr>"
proof -
  have "map (\<lambda>t. (pt_task_id t, pt_state t)) (filter (\<lambda>t. pt_revision t = rv) (update_where (is_task rv tid) (\<lambda>t. t\<lparr>pt_state := st\<rparr>) xs))
      = map (\<lambda>(i, p). (i, if i = tid then st else p)) (map (\<lambda>t. (pt_task_id t, pt_state t)) (filter (\<lambda>t. pt_revision t = rv) xs))" for xs
    by (induction xs) (auto simp: update_where_def is_task_def)
  then show ?thesis by (simp add: board_of_def set_state_def)
qed

section \<open>Transitions are moves\<close>

lemma prepare_frame: "prepare_projection w rv actor s = Inr (pid, s') \<Longrightarrow> plan_frame s s'"
proof -
  assume run: "prepare_projection w rv actor s = Inr (pid, s')"
  have "keeps (plan_frame s) (head_row e)" for e by (rule validI) (simp add: run_simps)
  then have "keeps (plan_frame s) (prepare_projection w rv actor)"
    unfolding prepare_projection_def Let_def by (intro write_rules) (simp_all add: plan_frame_def supersede_open_def)
  from validD [OF this _ run] show ?thesis by (simp add: plan_frame_def)
qed

lemma change_state_move:
  assumes "change_state w rv row st actor eid ev s = Inr (r, s')" "find_task rv tid s = Some row"
  shows "board_move tid st (board_of rv s) = Some (board_of rv s') \<and> snd r \<noteq> None"
  using assms(1)
proof (rule change_state_Inr)
  fix s1
  have tid: "pt_task_id row = tid" using find_taskD [OF assms(2)] by simp
  assume step: "task_step (pt_state row) st"
    and ready: "st = Active \<Longrightarrow> \<not> waits_for rv (pt_task_id row) s
       \<and> \<not> list_ex (\<lambda>t. pt_revision t = rv \<and> pt_state t = Active) (tasks s) \<and> pending_restoration s = None \<and> pending_recovery s = None"
    and ev: "add_event (branch 1 w) rv (Some (pt_task_id row)) ''task_transition'' actor
       (JObj (transition_payload st (pt_contract_digest row) ev
              @ [(''from_state'', JStr (task_state_name (pt_state row)))])) eid
       (set_state rv (pt_task_id row) st s) = Inr (fst r, s1)"
    and proj: "\<exists>pid. prepare_projection (branch 2 w) rv actor s1 = Inr (pid, s') \<and> snd r = Some pid"
  from proj have "board_of rv s' = board_of rv s1" by (auto dest: prepare_frame board_frame)
  also have "\<dots> = board_of rv (set_state rv tid st s)" using add_event_rows [OF ev] board_frame tid by simp
  also have "Some \<dots> = board_move tid st (board_of rv s)"
    using step ready assms(2)
    by (simp add: board_move_def board_row_of board_ready_of board_active_of board_set_state tid)
  finally show ?thesis using proj by auto
qed

lemma transition_move:
  assumes "transition_rows w l tid st rv actor eid ev s = Inr ((d, p), s')"
  shows "case p of None \<Rightarrow> s' = s | Some _ \<Rightarrow> board_move tid st (board_of rv s) = Some (board_of rv s')"
  using assms
proof (cases rule: transition_rows_cases)
  case (changed h row)
  with change_state_move [OF changed(5,3)] show ?thesis by auto
qed simp

section \<open>Readiness\<close>

lemma done_iff: "dependencies_done rv tid s \<longleftrightarrow> \<not> waits_for rv tid s"
  by (simp add: dependencies_done_def waits_for_def)

lemma next_ready_Some:
  "next_ready rv s = Some tid \<Longrightarrow> \<exists>t \<in> set (tasks s). pt_revision t = rv \<and> pt_task_id t = tid \<and> pt_state t = Queued
     \<and> \<not> waits_for rv tid s"
  by (auto simp: next_ready_def done_iff tasks_of_def dest!: find_SomeD)

lemma next_ready_None: "next_ready rv s = None \<Longrightarrow> t \<in> set (tasks s) \<Longrightarrow> pt_revision t = rv \<Longrightarrow> pt_state t = Queued
    \<Longrightarrow> waits_for rv (pt_task_id t) s"
  by (auto simp: next_ready_def done_iff tasks_of_def find_None_iff)

text \<open>In an ordered revision whose tasks are queued or completed, the first queued task is ready.\<close>

lemma ordered_next_ready:
  assumes order: "ordered_upto n s" and idle: "\<forall>t \<in> set (tasks s). pt_revision t = rv \<longrightarrow> pt_state t \<in> {Queued, Completed}"
    and t: "t \<in> set (tasks s)" "pt_revision t = rv" "pt_state t = Queued"
  shows "next_ready rv s \<noteq> None"
proof
  assume none: "next_ready rv s = None"
  let ?Q = "\<lambda>t. t \<in> set (tasks s) \<and> pt_revision t = rv \<and> pt_state t = Queued"
  from t have "?Q t" by simp
  from ex_has_least_nat [of ?Q, OF this, of pt_position] obtain m where
    m: "?Q m" and least: "\<And>u. ?Q u \<Longrightarrow> pt_position m \<le> pt_position u" by blast
  from next_ready_None [OF none, of m] m obtain d u where
    d: "d \<in> set (dependencies s)" "dep_revision d = rv" "dep_task_id d = pt_task_id m"
    and u: "u \<in> set (tasks s)" "pt_revision u = rv" "pt_task_id u = dep_dependency d" "pt_state u \<noteq> Completed"
    by (auto simp: waits_for_def list_ex_iff)
  from u idle have "?Q u" by auto
  from least [OF this] have "pt_position m \<le> pt_position u" .
  moreover have "pt_position u < pt_position m"
    using order d u m unfolding ordered_upto_def by (simp add: task_key_def)
  ultimately show False by simp
qed

section \<open>Counting rows\<close>

abbreviation moved :: "string \<Rightarrow> task_state \<Rightarrow> (string \<times> task_state) list \<Rightarrow> (string \<times> task_state) list" where
  "moved tid st rows \<equiv> map (\<lambda>(i, p). (i, if i = tid then st else p)) rows"

definition rows_in :: "(task_state \<Rightarrow> bool) \<Rightarrow> (string \<times> task_state) list \<Rightarrow> nat" where
  "rows_in P rows = length (filter (\<lambda>r. P (snd r)) rows)"

lemma rows_in_simps [simp]: "rows_in P [] = 0" "rows_in P (r # rows) = (if P (snd r) then 1 else 0) + rows_in P rows"
  by (simp_all add: rows_in_def)

lemma moved_others: "tid \<notin> fst ` set rows \<Longrightarrow> moved tid st rows = rows"
  by (induction rows) auto

text \<open>A move takes its one row from the state it had to the new one.\<close>

lemma rows_in_moved:
  assumes "distinct (map fst rows)" "map_of rows tid = Some q"
  shows "rows_in P (moved tid st rows) + (if P q then 1 else 0) = rows_in P rows + (if P st then 1 else 0)"
  using assms by (induction rows) (auto simp: moved_others simp del: map_map split: if_splits)

lemma board_moveD:
  assumes "board_move tid st b = Some b'"
  obtains q where "map_of (bd_rows b) tid = Some q" "task_step q st" "bd_rows b' = moved tid st (bd_rows b)" "bd_needs b' = bd_needs b"
  using assms by (auto simp: board_move_def split: option.splits if_splits)

lemma rows_in_board:
  "length (filter (\<lambda>t. P (pt_state t)) (tasks_of rv s)) = rows_in P (bd_rows (board_of rv s))"
  by (simp add: tasks_of_def filter_sort rows_in_def board_of_def filter_map comp_def)

lemma board_distinct: "rows_ok s \<Longrightarrow> distinct (map fst (bd_rows (board_of rv s)))"
  by (auto simp: rows_ok_def board_of_def distinct_map task_key_def comp_def inj_on_def intro!: distinct_filter)

lemma board_one_active: "rows_ok s \<Longrightarrow> rows_in (\<lambda>p. p = Active) (bd_rows (board_of rv s)) \<le> 1"
proof -
  assume "rows_ok s"
  then have one: "length (filter (\<lambda>t. pt_state t = Active) (tasks s)) \<le> 1" by (rule rows_ok_one_active)
  have less: "length (filter (\<lambda>t. pt_state t = Active) (filter (\<lambda>t. pt_revision t = rv) ts)) \<le> length (filter (\<lambda>t. pt_state t = Active) ts)" for ts
    by (induction ts) auto
  have "length (filter (\<lambda>t. pt_state t = Active) (filter (\<lambda>t. pt_revision t = rv) (tasks s))) \<le> 1"
    using le_trans [OF less one] .
  then show ?thesis
    unfolding rows_in_board [of "\<lambda>p. p = Active" rv s, symmetric] tasks_of_def by (simp add: filter_sort)
qed

text \<open>Whether a task is ready depends on the board alone.\<close>

lemma next_ready_board:
  "next_ready rv s = None \<longleftrightarrow> \<not> list_ex (\<lambda>(i, p). p = Queued \<and> board_ready i (board_of rv s)) (bd_rows (board_of rv s))"
proof -
  have "next_ready rv s = None \<longleftrightarrow> (\<forall>t \<in> set (tasks s). pt_revision t = rv \<longrightarrow> pt_state t = Queued \<longrightarrow> waits_for rv (pt_task_id t) s)"
    by (auto simp: next_ready_def done_iff tasks_of_def find_None_iff)
  then show ?thesis by (auto simp: list_ex_iff board_ready_of) (auto simp: board_of_def)
qed

lemma settled_or_other:
  "list_ex (\<lambda>t. pt_state t \<in> {Active, Blocked, Failed, Cancelled, Superseded}) (tasks_of rv s)
     \<longleftrightarrow> \<not> (\<forall>t \<in> set (tasks s). pt_revision t = rv \<longrightarrow> pt_state t \<in> {Queued, Completed})"
proof -
  have "x \<in> {Active, Blocked, Failed, Cancelled, Superseded} \<longleftrightarrow> x \<notin> {Queued, Completed}" for x
    by (cases x) simp_all
  then show ?thesis unfolding list_ex_iff tasks_of_def by auto
qed

lemma ordered_selects:
  assumes "ordered_upto n s"
  shows "list_ex (\<lambda>t. next_ready rv s = Some (pt_task_id t)) (tasks_of rv s)
   \<or> list_all (\<lambda>t. pt_state t = Completed) (tasks_of rv s)
   \<or> list_ex (\<lambda>t. pt_state t \<in> {Active, Blocked, Failed, Cancelled, Superseded}) (tasks_of rv s)"
proof (cases "next_ready rv s")
  case None
  have "pt_state t = Completed"
    if "\<forall>t \<in> set (tasks s). pt_revision t = rv \<longrightarrow> pt_state t \<in> {Queued, Completed}" "t \<in> set (tasks s)" "pt_revision t = rv" for t
    using ordered_next_ready [OF assms that(1,2,3)] None that by blast
  then have "list_all (\<lambda>t. pt_state t = Completed) (tasks_of rv s)"
    if "\<forall>t \<in> set (tasks s). pt_revision t = rv \<longrightarrow> pt_state t \<in> {Queued, Completed}"
    using that by (simp add: list_all_iff tasks_of_def)
  then show ?thesis unfolding settled_or_other by blast
next
  case (Some tid)
  from next_ready_Some [OF this] Some show ?thesis by (auto simp: list_ex_iff tasks_of_def)
qed

section \<open>Properties\<close>

text \<open>
  C7. A transition refines one move of the abstract board: when it is recorded, the board of its
  revision has made exactly that move (known task, legal step, and for activation complete
  dependencies and no other active task); when it is a retry, nothing changes.
\<close>

theorem transition_refines_board:
  "case transition_rows w l tid st rv actor eid ev s of
     Inl e \<Rightarrow> snd (commit (transition_rows w l tid st rv actor eid ev) s) = s
   | Inr ((d, None), s') \<Rightarrow> s' = s
   | Inr ((d, Some pid), s') \<Rightarrow> board_move tid st (board_of rv s) = Some (board_of rv s')"
  using transition_move [of w l tid st rv actor eid ev s] by (auto simp: commit_def split: sum.split prod.split option.split)

text \<open>
  C35. Activation waits for restoration, recovery, dependencies and the other tasks: a task becomes
  active only when no restoration and no recovery is pending, every task it depends on in its revision
  is completed and no task of the revision is active.
\<close>

theorem activation_waits:
  "case transition_rows w l tid Active rv actor None ev s of
     Inl e \<Rightarrow> True
   | Inr (r, s') \<Rightarrow> pending_restoration s = None \<and> pending_recovery s = None \<and> dependencies_done rv tid s
       \<and> filter (\<lambda>t. pt_revision t = rv \<and> pt_state t = Active) (tasks s) = []"
proof (cases "transition_rows w l tid Active rv actor None ev s")
  case (Inr r)
  then obtain d s' where run: "transition_rows w l tid Active rv actor None ev s = Inr (d, s')" by (cases r) simp
  then obtain row where row: "find_task rv tid s = Some row" "change_state w rv row Active actor None ev s = Inr (d, s')"
    unfolding transition_rows_def by (auto simp: run_simps)
  have tid: "pt_task_id row = tid" using find_taskD [OF row(1)] by simp
  from row(2) show ?thesis
    by (rule change_state_Inr) (auto simp: run done_iff tid filter_empty_conv list_ex_iff)
qed simp

end
