(* ===== verification/Delta_Laws.thy ===== *)
theory Delta_Laws
  imports Plan_Board Project_Laws
begin

text \<open>What a verified exit does to the Plan, the job and its run (adaptive_delta_exit.py, \<open>DeltaExit.finish\<close>).\<close>

section \<open>Transitions without an event identifier\<close>

lemma fresh_transition_move:
  assumes "transition_rows w l tid st rv actor None ev s = Inr (r, s')"
  shows "board_move tid st (board_of rv s) = Some (board_of rv s')"
proof -
  from assms obtain row where "find_task rv tid s = Some row" "change_state w rv row st actor None ev s = Inr (r, s')"
    unfolding transition_rows_def by (auto simp: run_simps)
  from change_state_move [OF this(2,1)] show ?thesis ..
qed

section \<open>The rest of the exit\<close>

lemma keeps_owner [keeps_rules]: "keeps I (current_owner w slot x)"
  unfolding current_owner_def
  by (intro keeps_rules; cases "ex_heartbeat_error x" rule: option.exhaust) (auto intro: keeps_rules split: list.split)

lemma keeps_waiting [keeps_rules]: "keeps I (owner_steers rv)"
  unfolding owner_steers_def by (intro keeps_rules)

lemma keeps_running_run [keeps_rules]: "keeps I (running_run x r)"
  unfolding running_run_def by (intro keeps_rules)

lemma board_fields [simp]:
  "board_of rv (s\<lparr>jobs := a\<rparr>) = board_of rv s" "board_of rv (s\<lparr>effects := b\<rparr>) = board_of rv s"
  "board_of rv (s\<lparr>receipts := c\<rparr>) = board_of rv s" "board_of rv (s\<lparr>delta_runs := d\<rparr>) = board_of rv s"
  "board_of rv (s\<lparr>delta_exits := e\<rparr>) = board_of rv s" "board_of rv (s\<lparr>blobs := f\<rparr>) = board_of rv s"
  "board_of rv (s\<lparr>objects := g\<rparr>) = board_of rv s"
  by (simp_all add: board_of_def)

lemma keeps_board:
  "keeps (\<lambda>s. board_of rv s = b) (append_receipt w owner k vs)" "keeps (\<lambda>s. board_of rv s = b) (put_object w lane limit c)"
  "keeps (\<lambda>s. board_of rv s = b) (complete w l jid v x)" "keeps (\<lambda>s. board_of rv s = b) (update_run jid f)"
proof -
  show receipt: "keeps (\<lambda>s. board_of rv s = b) (append_receipt w owner k vs)" for w owner k vs
    by (rule validI) (auto simp: run_simps)
  show "keeps (\<lambda>s. board_of rv s = b) (put_object w lane limit c)"
    by (rule validI, erule put_object_Inr) (auto split: option.splits)
  show "keeps (\<lambda>s. board_of rv s = b) (complete w l jid v x)"
    by (rule keeps_queue) (simp_all add: receipt)
  show "keeps (\<lambda>s. board_of rv s = b) (update_run jid f)"
    unfolding update_run_def by (intro keeps_rules) simp
qed

lemma select_next_move:
  assumes "select_next w l rv s = Inr (n, s')"
  shows "n = next_ready rv s" "(case n of None \<Rightarrow> Some (board_of rv s) | Some tid \<Rightarrow> board_move tid Active (board_of rv s)) = Some (board_of rv s')"
  using assms by (auto simp: select_next_def run_simps dest: fresh_transition_move split: option.splits)

definition done_job :: "string \<Rightarrow> project \<Rightarrow> bool" where
  "done_job jid s \<longleftrightarrow> map_option jb_state (find_job jid s) = Some JSucceeded"

lemma done_job_fields [simp]:
  "done_job j (s\<lparr>receipts := c\<rparr>) = done_job j s" "done_job j (s\<lparr>delta_runs := d\<rparr>) = done_job j s"
  "done_job j (s\<lparr>delta_exits := e\<rparr>) = done_job j s" "done_job j (s\<lparr>tasks := f\<rparr>) = done_job j s"
  "done_job j (s\<lparr>events := g\<rparr>) = done_job j s" "done_job j (s\<lparr>plan_head := h\<rparr>) = done_job j s"
  "done_job j (s\<lparr>projections := p\<rparr>) = done_job j s" "done_job j (supersede_open s) = done_job j s"
  "done_job j (s\<lparr>dependencies := q\<rparr>) = done_job j s"
  by (simp_all add: done_job_def find_job_def supersede_open_def)

lemma complete_done: "complete w l jid v x s = Inr (u, s') \<Longrightarrow> done_job jid s'"
  by (auto simp: complete_def op_simps done_job_def find_job_def find_update_where_key [where key = jb_job_id]
      dest: find_SomeD)

lemma keeps_done:
  "keeps (done_job j) (append_receipt w lane k b)" "keeps (done_job j) (update_run jid f)"
  "keeps (done_job j) (transition_rows w l t st rv actor eid ev)" "keeps (done_job j) (select_next w l rv)"
proof -
  show "keeps (done_job j) (append_receipt w lane k b)" by (rule validI) (auto simp: run_simps)
  show "keeps (done_job j) (update_run jid f)" unfolding update_run_def by (intro keeps_rules) simp
  show rows: "keeps (done_job j) (transition_rows w l t st rv actor eid ev)" for w l t st rv actor eid ev
    by (rule keeps_plan_rows) simp_all
  show "keeps (done_job j) (select_next w l rv)" unfolding select_next_def by (intro keeps_rules rows)
qed

section \<open>The exit\<close>

definition exit_row :: "world \<Rightarrow> string \<Rightarrow> string \<Rightarrow> string \<Rightarrow> string option \<Rightarrow> delta_exit" where
  "exit_row w jid vo receipt n = \<lparr>dx_job_id = jid, dx_verification_object = vo, dx_receipt_id = receipt, dx_next_task = n,
     dx_created = now w\<rparr>"

lemma verified_exit_steps:
  assumes "verified_exit_rows w slot x r actor bnds ro checks v g extra s = Inr ((receipt, vo, n), s')"
  obtains t1 t2 d body t3 t4 u5 t5 t6 f t7 t8 where
    "put_object w ''plan'' 262144 v s = Inr (vo, t1)"
    "running_run x r t1 = Inr (d, t2)"
    "append_receipt (branch 1 w) None ''delta_exit_verified'' body t2 = Inr (receipt, t3)"
    "complete (branch 2 w) (ex_lease x) (job_id x) (JObj [(''result_object'', JStr ro),
          (''verification_object'', JStr vo), (''receipt_id'', JStr receipt)]) (execution_id x) t3 = Inr ((), t4)"
    "transition_rows (branch 3 w) (ex_lease x) (de_task r) Completed (de_revision r) actor None (Some receipt) t4 = Inr (u5, t5)"
    "select_next (branch 4 w) (ex_lease x) (de_revision r) t5 = Inr (n, t6)"
    "update_run (job_id x) f t6 = Inr ((), t7)"
    "t8 = t7\<lparr>delta_exits := delta_exits t7 @ [exit_row w (job_id x) vo receipt n]\<rparr>"
    "\<exists>b q. append_receipt (branch 5 w) None ''delta_next_selected'' b t8 = Inr (q, s')"
proof -
  have owner: "t' = t" if "current_owner w slot x t = Inr (u, t')" for t u t'
    using validD [OF keeps_owner [of "\<lambda>s. s = t"] refl that] .
  have waiting: "t' = t" if "owner_steers (ex_revision x) t = Inr (u, t')" for t u t'
    using validD [OF keeps_waiting [of "\<lambda>s. s = t"] refl that] .
  from assms obtain t1 t1' d t2 t3 t4 u5 t5 t6 t7 q where
    "put_object w ''plan'' 262144 v s = Inr (vo, t1)"
    "current_owner w slot x t1 = Inr ((), t1')"
    "\<exists>u. owner_steers (ex_revision x) t1' = Inr (u, t2)"
    and rest: "\<exists>t2'. running_run x r t2 = Inr (d, t2') \<and> append_receipt (branch 1 w) None ''delta_exit_verified''
       (receipt_fields x d bnds (project_id t2') vo ro g checks extra) t2' = Inr (receipt, t3)"
    "complete (branch 2 w) (ex_lease x) (job_id x) (JObj [(''result_object'', JStr ro),
          (''verification_object'', JStr vo), (''receipt_id'', JStr receipt)]) (execution_id x) t3 = Inr ((), t4)"
    "transition_rows (branch 3 w) (ex_lease x) (de_task r) Completed (de_revision r) actor None (Some receipt) t4 = Inr (u5, t5)"
    "select_next (branch 4 w) (ex_lease x) (de_revision r) t5 = Inr (n, t6)"
    "update_run (job_id x) (\<lambda>d. d\<lparr>dr_state := RVerified, dr_result_object := Some ro,
          dr_error_code := None, dr_updated := now w\<rparr>) t6 = Inr ((), t7)"
    "append_receipt (branch 5 w) None ''delta_next_selected'' [(''after_job_id'', JStr (job_id x)),
          (''plan_revision'', JInt (de_revision r)), (''next_task_id'', jopt n), (''automatic_execution'', JBool False),
          (''native_goal_mutated'', JBool False)] (t7\<lparr>delta_exits := delta_exits t7 @ [exit_row w (job_id x) vo receipt n]\<rparr>)
       = Inr (q, s')"
    unfolding verified_exit_rows_def exit_row_def
    by (auto simp: bnd_Inr in_transaction_Inr gets_Inr require_Inr ret_Inr own_lease_Inr insert_row_Inr simp del: append_receipt_Inr)
  moreover from this have "t2 = t1" by (auto dest: owner waiting)
  ultimately show thesis using rest by (elim exE conjE) (rule that; (assumption | rule refl | blast)?)
qed

lemma verified_exit_laws:
  assumes "verified_exit_rows w slot x r actor bnds ro checks v g extra s = Inr ((receipt, vo, n), s')"
  shows "Option.bind (board_move (de_task r) Completed (board_of (de_revision r) s))
      (\<lambda>b. case n of None \<Rightarrow> Some b | Some tid \<Rightarrow> board_move tid Active b) = Some (board_of (de_revision r) s')"
    and "done_job (job_id x) s'"
    and "exit_row w (job_id x) vo receipt n \<in> set (delta_exits s')"
    and "n = None \<longrightarrow> next_ready (de_revision r) s' = None"
  using assms
proof (atomize (full), rule verified_exit_steps)
  fix t1 t2 d body t3 t4 u5 t5 t6 f t7 t8
  assume t1: "put_object w ''plan'' 262144 v s = Inr (vo, t1)"
    and t2: "running_run x r t1 = Inr (d, t2)"
    and t3: "append_receipt (branch 1 w) None ''delta_exit_verified'' body t2 = Inr (receipt, t3)"
    and t4: "complete (branch 2 w) (ex_lease x) (job_id x) (JObj [(''result_object'', JStr ro),
          (''verification_object'', JStr vo), (''receipt_id'', JStr receipt)]) (execution_id x) t3 = Inr ((), t4)"
    and t5: "transition_rows (branch 3 w) (ex_lease x) (de_task r) Completed (de_revision r) actor None (Some receipt) t4 = Inr (u5, t5)"
    and t6: "select_next (branch 4 w) (ex_lease x) (de_revision r) t5 = Inr (n, t6)"
    and t7: "update_run (job_id x) f t6 = Inr ((), t7)"
    and t8: "t8 = t7\<lparr>delta_exits := delta_exits t7 @ [exit_row w (job_id x) vo receipt n]\<rparr>"
    and s': "\<exists>b q. append_receipt (branch 5 w) None ''delta_next_selected'' b t8 = Inr (q, s')"
  let ?b = "board_of (de_revision r)"
  have "?b t1 = ?b s" by (rule validD [OF keeps_board(2) refl t1])
  with validD [OF keeps_running_run [of "\<lambda>t. ?b t = ?b s"] _ t2] have "?b t2 = ?b s" .
  from validD [OF keeps_board(1) this t3] have "?b t3 = ?b s" .
  from validD [OF keeps_board(3) this t4] have b4: "?b t4 = ?b s" .
  have b8: "?b s' = ?b t6"
  proof -
    have "?b t8 = ?b t6" using validD [OF keeps_board(4) refl t7] by (simp add: t8)
    with s' show ?thesis by (auto intro: validD [OF keeps_board(1)])
  qed
  have "done_job (job_id x) t5" by (rule validD [OF keeps_done(3) complete_done [OF t4] t5])
  from validD [OF keeps_done(4) this t6] have "done_job (job_id x) t6" .
  from validD [OF keeps_done(2) this t7] have "done_job (job_id x) t8" by (simp add: t8)
  with s' have d8: "done_job (job_id x) s'" by (auto intro: validD [OF keeps_done(1)])
  have "delta_exits s' = delta_exits t8" using s' by (auto simp: append_receipt_Inr)
  moreover have "next_ready (de_revision r) s' = None" if "n = None"
  proof -
    have "next_ready (de_revision r) t5 = None" "?b t6 = ?b t5" using select_next_move [OF t6] that by simp_all
    then show ?thesis unfolding next_ready_board b8 by simp
  qed
  ultimately show "(Option.bind (board_move (de_task r) Completed (?b s))
      (\<lambda>b. case n of None \<Rightarrow> Some b | Some tid \<Rightarrow> board_move tid Active b) = Some (?b s')
    \<and> done_job (job_id x) s') \<and> exit_row w (job_id x) vo receipt n \<in> set (delta_exits s')
    \<and> (n = None \<longrightarrow> next_ready (de_revision r) s' = None)"
    using fresh_transition_move [OF t5] select_next_move(2) [OF t6] b4 b8 d8 by (simp add: t8)
qed

section \<open>Properties\<close>

text \<open>
  C6. A verified exit is complete-then-select: when it commits, the board of its revision has made the
  move of its task to completed and then, if a task was selected, the move of that task to active; its
  job has succeeded and its exit row is stored. When it fails, nothing changes.
\<close>

theorem verified_exit_refines_board:
  "case verified_exit_rows w slot x r actor bnds ro checks v g extra s of
     Inl e \<Rightarrow> snd (commit (verified_exit_rows w slot x r actor bnds ro checks v g extra) s) = s
   | Inr ((receipt, vo, n), s') \<Rightarrow>
       Option.bind (board_move (de_task r) Completed (board_of (de_revision r) s))
         (\<lambda>b. case n of None \<Rightarrow> Some b | Some tid \<Rightarrow> board_move tid Active b) = Some (board_of (de_revision r) s')
       \<and> map_option jb_state (find_job (job_id x) s') = Some JSucceeded
       \<and> \<lparr>dx_job_id = job_id x, dx_verification_object = vo, dx_receipt_id = receipt, dx_next_task = n, dx_created = now w\<rparr>
           \<in> set (delta_exits s')"
  using verified_exit_laws [of w slot x r actor bnds ro checks v g extra s]
  by (auto simp: commit_def done_job_def exit_row_def split: sum.split prod.split)

end
