(* ===== verification/Plan_Progress.thy ===== *)
theory Plan_Progress
  imports Project_Machine Delta_Laws
begin

text \<open>
  How far verified exits carry a plan: each one that commits completes one task for good, and it leaves the next
  task active, or no task to select.
\<close>

section \<open>One exit\<close>

definition tasks_in :: "(task_state \<Rightarrow> bool) \<Rightarrow> int \<Rightarrow> project \<Rightarrow> nat" where
  "tasks_in P rv s = length (filter (\<lambda>t. P (pt_state t)) (tasks_of rv s))"

lemma tasks_in_board: "tasks_in P rv s = rows_in P (bd_rows (board_of rv s))"
  by (simp add: tasks_in_def rows_in_board)

lemma sound_rows: "sound H s0 s \<Longrightarrow> rows_ok s"
  by (simp add: sound_def plan_good_def plan_inv_def)

lemma sound_ordered: "sound H s0 s \<Longrightarrow> \<exists>n. ordered_upto n s"
  by (cases "plan_head s") (auto simp: sound_def plan_good_def plan_inv_def order_ok_def ordered_upto_def)

text \<open>The one row of a filter, from its length and a member.\<close>

lemma only_row: "length (filter Q xs) = 1 \<Longrightarrow> x \<in> set xs \<Longrightarrow> Q x \<Longrightarrow> filter Q xs = [x]"
proof -
  assume "length (filter Q xs) = 1" and x: "x \<in> set xs" "Q x"
  then obtain y where y: "filter Q xs = [y]" by (auto simp: length_Suc_conv)
  moreover have "x \<in> set (filter Q xs)" using x by simp
  ultimately show "filter Q xs = [x]" by simp
qed

lemma exit_counts:
  assumes sound: "sound H s0 s"
    and run: "verified_exit_rows w slot x r actor bnds ro checks v g extra s = Inr ((receipt, vo, n), s')"
  shows "tasks_in (\<lambda>p. p = Completed) (de_revision r) s' = tasks_in (\<lambda>p. p = Completed) (de_revision r) s + 1"
    and "map pt_task_id (filter (\<lambda>t. pt_state t = Active) (tasks_of (de_revision r) s')) = (case n of None \<Rightarrow> [] | Some tid \<Rightarrow> [tid])"
proof -
  let ?rv = "de_revision r"
  let ?rows = "\<lambda>u. bd_rows (board_of ?rv u)"
  note laws = verified_exit_laws [OF run]
  have ids: "distinct (map fst (?rows s))" and one: "rows_in (\<lambda>p. p = Active) (?rows s) \<le> 1"
    using board_distinct board_one_active sound_rows [OF sound] by blast+
  obtain b where b: "board_move (de_task r) Completed (board_of ?rv s) = Some b"
      "(case n of None \<Rightarrow> Some b | Some tid \<Rightarrow> board_move tid Active b) = Some (board_of ?rv s')"
    using laws(1) by (auto simp: bind_eq_Some_conv)
  from b(1) obtain q where q: "map_of (?rows s) (de_task r) = Some q" "task_step q Completed" "bd_rows b = moved (de_task r) Completed (?rows s)"
    by (rule board_moveD)
  have "q = Active" using q(2) by (cases q) simp_all
  note counts = rows_in_moved [OF ids q(1), where st = Completed, folded q(3)]
  have b_done: "rows_in (\<lambda>p. p = Completed) (bd_rows b) = rows_in (\<lambda>p. p = Completed) (?rows s) + 1"
    using counts [of "\<lambda>p. p = Completed"] by (simp add: \<open>q = Active\<close>)
  have b_active: "rows_in (\<lambda>p. p = Active) (bd_rows b) = 0"
    using counts [of "\<lambda>p. p = Active"] one by (simp add: \<open>q = Active\<close>)
  have b_ids: "distinct (map fst (bd_rows b))" using ids q(3) by (simp add: comp_def case_prod_beta')
  have "rows_in (\<lambda>p. p = Completed) (?rows s') = rows_in (\<lambda>p. p = Completed) (bd_rows b)
      \<and> map pt_task_id (filter (\<lambda>t. pt_state t = Active) (tasks_of ?rv s')) = (case n of None \<Rightarrow> [] | Some tid \<Rightarrow> [tid])"
  proof (cases n)
    case None
    then have "board_of ?rv s' = b" using b(2) by simp
    then show ?thesis using b_active rows_in_board [of "\<lambda>p. p = Active" ?rv s'] None by simp
  next
    case (Some tid)
    then obtain q' where q': "map_of (bd_rows b) tid = Some q'" "task_step q' Active" "?rows s' = moved tid Active (bd_rows b)"
      using b(2) by (auto elim: board_moveD)
    have "q' = Queued" using q'(2) by (cases q') simp_all
    note counts' = rows_in_moved [OF b_ids q'(1), where st = Active, folded q'(3)]
    have "rows_in (\<lambda>p. p = Active) (?rows s') = 1"
      using counts' [of "\<lambda>p. p = Active"] b_active by (simp add: \<open>q' = Queued\<close>)
    then have len: "length (filter (\<lambda>t. pt_state t = Active) (tasks_of ?rv s')) = 1"
      using rows_in_board [of "\<lambda>p. p = Active" ?rv s'] by simp
    have "(tid, Active) \<in> set (?rows s')" using q'(1,3) by (force dest: map_of_SomeD)
    then obtain t where t: "t \<in> set (tasks_of ?rv s')" "pt_task_id t = tid" "pt_state t = Active"
      by (auto simp: board_of_def tasks_of_def)
    have "filter (\<lambda>t. pt_state t = Active) (tasks_of ?rv s') = [t]" by (rule only_row [OF len t(1)]) (rule t(3))
    moreover have "rows_in (\<lambda>p. p = Completed) (?rows s') = rows_in (\<lambda>p. p = Completed) (bd_rows b)"
      using counts' [of "\<lambda>p. p = Completed"] by (simp add: \<open>q' = Queued\<close>)
    ultimately show ?thesis using t(2) Some by simp
  qed
  then show "tasks_in (\<lambda>p. p = Completed) ?rv s' = tasks_in (\<lambda>p. p = Completed) ?rv s + 1"
    and "map pt_task_id (filter (\<lambda>t. pt_state t = Active) (tasks_of ?rv s')) = (case n of None \<Rightarrow> [] | Some tid \<Rightarrow> [tid])"
    using b_done by (simp_all add: tasks_in_board)
qed

lemma exit_ends:
  assumes sound: "sound H s0 s" and H: "sha256 w = H"
    and run: "verified_exit_rows w slot x r actor bnds ro checks v g extra s = Inr ((receipt, vo, None), s')"
  shows "list_all (\<lambda>t. pt_state t = Completed) (tasks_of (de_revision r) s')
    \<or> list_ex (\<lambda>t. pt_state t \<in> {Blocked, Failed, Cancelled, Superseded}) (tasks_of (de_revision r) s')"
proof -
  let ?ts = "tasks_of (de_revision r) s'"
  have "sound H s0 s'" using validD [OF sound_verified_exit [OF H] sound run] .
  then obtain k where "ordered_upto k s'" using sound_ordered by blast
  moreover have "next_ready (de_revision r) s' = None" using verified_exit_laws(4) [OF run] by simp
  moreover have "filter (\<lambda>t. pt_state t = Active) ?ts = []" using exit_counts(2) [OF sound run] by simp
  ultimately show ?thesis
    using ordered_selects [of k s' "de_revision r"] by (auto simp: list_ex_iff filter_empty_conv)
qed

section \<open>All exits of a run\<close>

definition exit_commits :: "(string \<Rightarrow> string) \<Rightarrow> int \<Rightarrow> project_op \<Rightarrow> system \<Rightarrow> bool" where
  "exit_commits H rv q c = (case (q, snd c) of
     (Work (VerifiedExit w r actor bnds ro checks v g extra), Some x) \<Rightarrow> de_revision r = rv
       \<and> \<not> isl (verified_exit_rows (hashed H w) (Some (execution_id x)) x r actor bnds ro checks v g extra (fst c))
   | _ \<Rightarrow> False)"

text \<open>The number of verified exits of a revision that commit in a run.\<close>

primrec committed_exits :: "(string \<Rightarrow> string) \<Rightarrow> int \<Rightarrow> project_op list \<Rightarrow> system \<Rightarrow> nat" where
  "committed_exits H rv [] c = 0"
| "committed_exits H rv (q # qs) c = (if exit_commits H rv q c then 1 else 0) + committed_exits H rv qs (system_step H q c)"

lemma grows_count:
  assumes "grows R xs ys" "\<And>x y. R x y \<Longrightarrow> P x \<Longrightarrow> P y"
  shows "length (filter P xs) \<le> length (filter P ys)"
  using assms(1)
proof (induction xs arbitrary: ys)
  case (Cons x xs)
  then obtain y ys' where ys: "ys = y # ys'" "R x y" "grows R xs ys'"
    by (cases ys) (force simp: grows_def)+
  with Cons.IH [OF ys(3)] assms(2) show ?case by simp
qed simp

lemma completed_since: "plan_since s s' \<Longrightarrow> tasks_in (\<lambda>p. p = Completed) rv s \<le> tasks_in (\<lambda>p. p = Completed) rv s'"
proof -
  assume "plan_since s s'"
  then have "length (filter (\<lambda>t. pt_state t = Completed \<and> pt_revision t = rv) (tasks s))
      \<le> length (filter (\<lambda>t. pt_state t = Completed \<and> pt_revision t = rv) (tasks s'))"
    by (intro grows_count [of task_evolves])
      (auto simp: plan_since_def task_evolves_def same_contract_def task_key_def terminal_def dest: plan_steps_terminal)
  then show ?thesis by (simp add: tasks_in_def tasks_of_def filter_sort conj_commute)
qed

lemma succeeded_run: "\<not> isl (m :: error + (('a \<times> 'b \<times> 'c) \<times> project)) \<Longrightarrow> \<exists>a b n s'. m = Inr ((a, b, n), s')"
  by (cases m) auto

lemma exit_step:
  assumes "sound H s0 (fst c)"
  shows "tasks_in (\<lambda>p. p = Completed) rv (fst c) + (if exit_commits H rv q c then 1 else 0)
    \<le> tasks_in (\<lambda>p. p = Completed) rv (fst (system_step H q c))"
proof (cases "exit_commits H rv q c")
  case True
  then obtain s x w r actor bnds ro checks v g extra where
    c: "c = (s, Some x)" "q = Work (VerifiedExit w r actor bnds ro checks v g extra)" "de_revision r = rv"
      and done': "\<not> isl (verified_exit_rows (hashed H w) (Some (execution_id x)) x r actor bnds ro checks v g extra s)"
    by (cases c) (auto simp: exit_commits_def split: project_op.splits work_op.splits option.splits)
  obtain receipt vo n s' where
    run: "verified_exit_rows (hashed H w) (Some (execution_id x)) x r actor bnds ro checks v g extra s = Inr ((receipt, vo, n), s')"
    using succeeded_run [OF done'] by blast
  have "fst (system_step H q c) = s'"
    by (simp add: c run system_step_def with_execution_def on_project_def rows_def pdrop_def pbind_def commit_def preturn_def)
  with True exit_counts(1) [OF _ run] assms c show ?thesis by simp
next
  case False
  have "sound H (fst c) (fst (system_step H q c))" by (rule sound_step, rule sound_start, rule assms)
  then have "plan_since (fst c) (fst (system_step H q c))" by (simp add: sound_def plan_good_def)
  with False show ?thesis using completed_since by simp
qed

lemma exits_of_run:
  "sound H s0 (fst c) \<Longrightarrow> committed_exits H rv qs c + tasks_in (\<lambda>p. p = Completed) rv (fst c)
    \<le> tasks_in (\<lambda>p. p = Completed) rv (fst (run_system H qs c))"
proof (induction qs arbitrary: c)
  case (Cons q qs)
  from Cons.IH [OF sound_step [OF Cons.prems], of q] exit_step [OF Cons.prems, of rv q] show ?case
    unfolding committed_exits.simps run_system.simps by linarith
qed simp

end
