(* ===== verification/Durable.thy ===== *)
theory Durable
  imports Prelude
begin

text \<open>
  Processes that write to a disk one durable step at a time and may lose power between two steps. A
  run takes the disk and the number of writes left before the power fails; it returns, raises, or is
  lost with the disk as the last write left it. The triples carry a crash condition besides the usual
  postconditions, so that one walk over the code settles every crash point.
\<close>

section \<open>Processes\<close>

datatype 'a outcome = Done 'a | Refused error | Lost

type_synonym ('d, 'a) durable = "'d \<times> nat \<Rightarrow> 'a outcome \<times> 'd \<times> nat"

definition dret :: "'a \<Rightarrow> ('d, 'a) durable" where
  "dret a = (\<lambda>m. (Done a, m))"

definition dbind :: "('d, 'a) durable \<Rightarrow> ('a \<Rightarrow> ('d, 'b) durable) \<Rightarrow> ('d, 'b) durable" where
  "dbind p f = (\<lambda>m. case p m of (Done a, m') \<Rightarrow> f a m' | (Refused e, m') \<Rightarrow> (Refused e, m') | (Lost, m') \<Rightarrow> (Lost, m'))"

definition dlift :: "'a result \<Rightarrow> ('d, 'a) durable" where
  "dlift r = (\<lambda>m. (case r of Inl e \<Rightarrow> Refused e | Inr a \<Rightarrow> Done a, m))"

definition dget :: "('d \<Rightarrow> 'a) \<Rightarrow> ('d, 'a) durable" where
  "dget f = (\<lambda>m. (Done (f (fst m)), m))"

definition dtry :: "('d \<Rightarrow> 'a result) \<Rightarrow> ('d, 'a) durable" where
  "dtry f = (\<lambda>m. dlift (f (fst m)) m)"

definition dcheck :: "bool \<Rightarrow> error \<Rightarrow> ('d, unit) durable" where
  "dcheck ok e = dlift (if ok then Inr () else Inl e)"

text \<open>One durable write.\<close>

definition persist :: "('d \<Rightarrow> 'd) \<Rightarrow> ('d, unit) durable" where
  "persist f = (\<lambda>m. case snd m of 0 \<Rightarrow> (Lost, m) | Suc n \<Rightarrow> (Done (), f (fst m), n))"

text \<open>\<open>try: p except BaseException: h\<close>; nothing catches a loss of power.\<close>

definition dcatch :: "('d, 'a) durable \<Rightarrow> (error \<Rightarrow> ('d, 'a) durable) \<Rightarrow> ('d, 'a) durable" where
  "dcatch p h = (\<lambda>m. case p m of (Refused e, m') \<Rightarrow> h e m' | r \<Rightarrow> r)"

primrec deach :: "('a \<Rightarrow> ('d, unit) durable) \<Rightarrow> 'a list \<Rightarrow> ('d, unit) durable" where
  "deach f [] = dret ()"
| "deach f (x # xs) = dbind (f x) (\<lambda>_. deach f xs)"

primrec dcollect :: "('a \<Rightarrow> ('d, 'b) durable) \<Rightarrow> 'a list \<Rightarrow> ('d, 'b list) durable" where
  "dcollect f [] = dret []"
| "dcollect f (x # xs) = dbind (f x) (\<lambda>y. dbind (dcollect f xs) (\<lambda>ys. dret (y # ys)))"

named_theorems run_durable \<open>evaluation of durable processes\<close>

lemmas durable_defs = dret_def dbind_def dlift_def dget_def dtry_def dcheck_def persist_def dcatch_def

declare durable_defs [run_durable]

lemma dbind_lift_Inr: "dbind (dlift (Inr a)) f = f a"
  by (simp add: dbind_def dlift_def)

section \<open>Triples with a crash condition\<close>

primrec ends :: "('a \<Rightarrow> 'd \<Rightarrow> bool) \<Rightarrow> (error \<Rightarrow> 'd \<Rightarrow> bool) \<Rightarrow> ('d \<Rightarrow> bool) \<Rightarrow> 'a outcome \<Rightarrow> 'd \<Rightarrow> bool" where
  "ends Q E C (Done a) d = Q a d"
| "ends Q E C (Refused e) d = E e d"
| "ends Q E C Lost d = C d"

definition dspec ::
  "('d \<Rightarrow> bool) \<Rightarrow> ('d, 'a) durable \<Rightarrow> ('a \<Rightarrow> 'd \<Rightarrow> bool) \<Rightarrow> (error \<Rightarrow> 'd \<Rightarrow> bool) \<Rightarrow> ('d \<Rightarrow> bool) \<Rightarrow> bool" where
  "dspec P p Q E C \<longleftrightarrow> (\<forall>d n r d' n'. P d \<longrightarrow> p (d, n) = (r, d', n') \<longrightarrow> ends Q E C r d')"

lemma dspecI: "(\<And>d n r d' n'. P d \<Longrightarrow> p (d, n) = (r, d', n') \<Longrightarrow> ends Q E C r d') \<Longrightarrow> dspec P p Q E C"
  by (simp add: dspec_def)

lemma dspecD: "dspec P p Q E C \<Longrightarrow> P d \<Longrightarrow> p (d, n) = (r, d', n') \<Longrightarrow> ends Q E C r d'"
  unfolding dspec_def by blast

lemma ends_mono:
  assumes "ends Q' E' C' r d" "\<And>a. Q' a d \<Longrightarrow> Q a d" "\<And>e. E' e d \<Longrightarrow> E e d" "C' d \<Longrightarrow> C d"
  shows "ends Q E C r d"
  using assms by (cases r) simp_all

lemma dspec_weaken:
  assumes "dspec P' p Q' E' C'" "\<And>d. P d \<Longrightarrow> P' d" "\<And>a d. Q' a d \<Longrightarrow> Q a d" "\<And>e d. E' e d \<Longrightarrow> E e d"
    "\<And>d. C' d \<Longrightarrow> C d"
  shows "dspec P p Q E C"
proof (rule dspecI)
  fix d n r d' n' assume "P d" "p (d, n) = (r, d', n')"
  with assms(1,2) have "ends Q' E' C' r d'" by (blast intro: dspecD)
  then show "ends Q E C r d'" by (rule ends_mono) (fact assms(3-5))+
qed

lemma dspec_pre: "dspec P' p Q E C \<Longrightarrow> (\<And>d. P d \<Longrightarrow> P' d) \<Longrightarrow> dspec P p Q E C"
  by (rule dspec_weaken)

text \<open>A fact that the precondition implies and that does not depend on the disk.\<close>

lemma dspec_assume: "(\<And>d. P d \<Longrightarrow> A) \<Longrightarrow> (A \<Longrightarrow> dspec P p Q E C) \<Longrightarrow> dspec P p Q E C"
  unfolding dspec_def by blast

lemma dspec_frame: "dspec P p Q E C \<Longrightarrow> dspec (\<lambda>d. P d \<and> A) p (\<lambda>a d. Q a d \<and> A) E C"
  by (rule dspecI) (auto elim: ends_mono dest: dspecD)

lemma dspec_ret: "(\<And>d. P d \<Longrightarrow> Q a d) \<Longrightarrow> dspec P (dret a) Q E C"
  by (auto simp: dspec_def dret_def)

lemma dspec_bind:
  assumes "dspec P p R E C" "\<And>a. dspec (R a) (f a) Q E C"
  shows "dspec P (dbind p f) Q E C"
proof (rule dspecI)
  fix d n r d' n' assume P: "P d" and run: "dbind p f (d, n) = (r, d', n')"
  obtain r1 d1 n1 where p: "p (d, n) = (r1, d1, n1)" by (cases "p (d, n)")
  note first = dspecD [OF assms(1) P p]
  show "ends Q E C r d'"
  proof (cases r1)
    case (Done a)
    with first run p show ?thesis by (intro dspecD [OF assms(2), of a d1]) (simp_all add: dbind_def)
  qed (use first run p in \<open>auto simp: dbind_def\<close>)
qed

lemma dspec_lift:
  assumes "\<And>d e. P d \<Longrightarrow> r = Inl e \<Longrightarrow> E e d" "\<And>d a. P d \<Longrightarrow> r = Inr a \<Longrightarrow> Q a d"
  shows "dspec P (dlift r) Q E C"
  using assms by (cases r) (auto simp: dspec_def dlift_def)

lemma dspec_get: "(\<And>d. P d \<Longrightarrow> Q (f d) d) \<Longrightarrow> dspec P (dget f) Q E C"
  by (auto simp: dspec_def dget_def)

lemma dspec_try:
  assumes "\<And>d e. P d \<Longrightarrow> f d = Inl e \<Longrightarrow> E e d" "\<And>d a. P d \<Longrightarrow> f d = Inr a \<Longrightarrow> Q a d"
  shows "dspec P (dtry f) Q E C"
proof (rule dspecI)
  fix d n r d' n' assume "P d" "dtry f (d, n) = (r, d', n')"
  with assms [of d] show "ends Q E C r d'" by (cases "f d") (auto simp: dtry_def dlift_def)
qed

lemma dspec_check:
  assumes "\<And>d. P d \<Longrightarrow> \<not> ok \<Longrightarrow> E e d" "\<And>d. P d \<Longrightarrow> ok \<Longrightarrow> Q () d"
  shows "dspec P (dcheck ok e) Q E C"
  unfolding dcheck_def using assms by (intro dspec_lift) (auto split: if_splits)

lemma dspec_persist: "(\<And>d. P d \<Longrightarrow> C d) \<Longrightarrow> (\<And>d. P d \<Longrightarrow> Q () (f d)) \<Longrightarrow> dspec P (persist f) Q E C"
  by (auto simp: dspec_def persist_def split: nat.splits)

lemma dspec_catch:
  assumes "dspec P p Q E' C" "\<And>e. dspec (E' e) (h e) Q E C"
  shows "dspec P (dcatch p h) Q E C"
proof (rule dspecI)
  fix d n r d' n' assume P: "P d" and run: "dcatch p h (d, n) = (r, d', n')"
  obtain r1 d1 n1 where p: "p (d, n) = (r1, d1, n1)" by (cases "p (d, n)")
  note first = dspecD [OF assms(1) P p]
  show "ends Q E C r d'"
  proof (cases r1)
    case (Refused e)
    with first run p show ?thesis by (intro dspecD [OF assms(2), of e d1]) (simp_all add: dcatch_def)
  qed (use first run p in \<open>auto simp: dcatch_def\<close>)
qed

text \<open>Rules for one step at a time: what a guard or a read established is kept for the rest.\<close>

lemma dspec_bind_inv:
  "dspec I p (\<lambda>_. I) E C \<Longrightarrow> (\<And>a. dspec I (f a) Q E C) \<Longrightarrow> dspec I (dbind p f) Q E C"
  by (rule dspec_bind)

lemma dspec_bind_try:
  assumes "\<And>d e. P d \<Longrightarrow> f d = Inl e \<Longrightarrow> E e d" "\<And>a. dspec (\<lambda>d. P d \<and> f d = Inr a) (g a) Q E C"
  shows "dspec P (dbind (dtry f) g) Q E C"
  by (rule dspec_bind [OF dspec_try assms(2)]) (use assms(1) in auto)

lemma dspec_bind_get:
  assumes "\<And>a. dspec (\<lambda>d. P d \<and> f d = a) (g a) Q E C"
  shows "dspec P (dbind (dget f) g) Q E C"
  by (rule dspec_bind [OF dspec_get assms]) simp

lemma dspec_bind_lift:
  assumes "\<And>d e. P d \<Longrightarrow> r = Inl e \<Longrightarrow> E e d" "\<And>a. r = Inr a \<Longrightarrow> dspec P (g a) Q E C"
  shows "dspec P (dbind (dlift r) g) Q E C"
proof (cases r)
  case (Inl e)
  with assms(1) show ?thesis by (auto simp: dspec_def dbind_def dlift_def)
next
  case (Inr a)
  from assms(2) [OF this] have "dspec P (g a) Q E C" .
  then show ?thesis by (simp add: Inr dspec_def dbind_def dlift_def)
qed

lemma dspec_bind_check:
  assumes "\<And>d. P d \<Longrightarrow> \<not> ok \<Longrightarrow> E e d" "ok \<Longrightarrow> dspec P (g ()) Q E C"
  shows "dspec P (dbind (dcheck ok e) g) Q E C"
  unfolding dcheck_def using assms by (intro dspec_bind_lift) (auto split: if_splits)

lemma dspec_bind_persist:
  assumes "\<And>d. P d \<Longrightarrow> C d" "\<And>d. P d \<Longrightarrow> R (f d)" "dspec R (g ()) Q E C"
  shows "dspec P (dbind (persist f) g) Q E C"
  by (rule dspec_bind [OF dspec_persist [of P C "\<lambda>_. R"]]) (use assms in \<open>auto simp: unit_all_eq1\<close>)

text \<open>A loop carries an invariant over the elements that are done.\<close>

lemma dspec_each:
  assumes "\<And>ys x zs. xs = ys @ x # zs \<Longrightarrow> dspec (I ys) (f x) (\<lambda>_. I (ys @ [x])) E C"
  shows "dspec (I []) (deach f xs) (\<lambda>_. I xs) E C"
proof -
  have "xs = ys @ zs \<Longrightarrow> dspec (I ys) (deach f zs) (\<lambda>_. I xs) E C" for ys zs
  proof (induction zs arbitrary: ys)
    case Nil
    then show ?case by (auto intro: dspec_ret)
  next
    case (Cons z zs)
    then have "dspec (I (ys @ [z])) (deach f zs) (\<lambda>_. I xs) E C" by simp
    with assms [OF Cons.prems] show ?case by (auto intro: dspec_bind)
  qed
  from this [of "[]" xs] show ?thesis by simp
qed

lemma dspec_each_inv:
  "(\<And>x. x \<in> set xs \<Longrightarrow> dspec I (f x) (\<lambda>_. I) E C) \<Longrightarrow> dspec I (deach f xs) (\<lambda>_. I) E C"
  by (rule dspec_each) simp

text \<open>A loop that collects results: the invariant speaks of the elements and the results so far.\<close>

lemma dspec_collect:
  assumes "\<And>ys x zs rs. xs = ys @ x # zs \<Longrightarrow> dspec (I ys rs) (f x) (\<lambda>r. I (ys @ [x]) (rs @ [r])) E C"
  shows "dspec (I [] []) (dcollect f xs) (I xs) E C"
proof -
  have "xs = ys @ zs \<Longrightarrow> dspec (I ys rs) (dcollect f zs) (\<lambda>rs'. I xs (rs @ rs')) E C" for ys zs rs
  proof (induction zs arbitrary: ys rs)
    case Nil
    then show ?case by (auto intro: dspec_ret)
  next
    case (Cons z zs)
    have "dspec (I (ys @ [z]) (rs @ [r])) (dcollect f zs) (\<lambda>rs'. I xs (rs @ r # rs')) E C" for r
      using Cons.IH [of "ys @ [z]" "rs @ [r]"] Cons.prems by simp
    then show ?case unfolding dcollect.simps
      by (intro dspec_bind [OF assms [OF Cons.prems]]) (rule dspec_bind, assumption, rule dspec_ret)
  qed
  from this [of "[]" xs "[]"] show ?thesis by simp
qed

section \<open>How many writes a process needs\<close>

text \<open>\<open>within k p\<close>: with power for \<open>k\<close> writes, \<open>p\<close> is not lost, and it uses at most \<open>k\<close> of them.\<close>

definition within :: "nat \<Rightarrow> ('d, 'a) durable \<Rightarrow> bool" where
  "within k p \<longleftrightarrow> (\<forall>d n r d' n'. k \<le> n \<longrightarrow> p (d, n) = (r, d', n') \<longrightarrow> r \<noteq> Lost \<and> n \<le> n' + k)"

lemma withinD: "within k p \<Longrightarrow> k \<le> n \<Longrightarrow> p (d, n) = (r, d', n') \<Longrightarrow> r \<noteq> Lost \<and> n \<le> n' + k"
  unfolding within_def by blast

named_theorems within_rules \<open>cost of durable processes\<close>

lemma within_ret [within_rules]: "within 0 (dret a)"
  by (simp add: within_def dret_def)

lemma within_lift [within_rules]: "within 0 (dlift r)"
  by (auto simp: within_def dlift_def split: sum.split)

lemma within_get [within_rules]: "within 0 (dget f)"
  by (simp add: within_def dget_def)

lemma within_try [within_rules]: "within 0 (dtry f)"
  by (auto simp: within_def dtry_def dlift_def split: sum.split)

lemma within_check [within_rules]: "within 0 (dcheck ok e)"
  unfolding dcheck_def by (rule within_lift)

lemma within_persist [within_rules]: "within 1 (persist f)"
  by (auto simp: within_def persist_def split: nat.splits)

lemma within_mono:
  assumes "within k p" "k \<le> l"
  shows "within l p"
  unfolding within_def
proof (intro allI impI)
  fix d n r d' n' assume n: "l \<le> n" and p: "p (d, n) = (r, d', n')"
  have "k \<le> n" using n assms(2) by simp
  note withinD [OF assms(1) this p]
  with assms(2) show "r \<noteq> Lost \<and> n \<le> n' + l" by simp
qed

lemma within_bind:
  assumes "within k p" "\<And>a. within l (f a)"
  shows "within (k + l) (dbind p f)"
  unfolding within_def
proof (intro allI impI)
  fix d n r d' n' assume n: "k + l \<le> n" and run: "dbind p f (d, n) = (r, d', n')"
  obtain r1 d1 n1 where p: "p (d, n) = (r1, d1, n1)" by (cases "p (d, n)")
  have "k \<le> n" using n by simp
  note * = withinD [OF assms(1) this p]
  show "r \<noteq> Lost \<and> n \<le> n' + (k + l)"
  proof (cases r1)
    case (Done a)
    with run p have "f a (d1, n1) = (r, d', n')" by (simp add: dbind_def)
    moreover have "l \<le> n1" using * n by simp
    ultimately have "r \<noteq> Lost \<and> n1 \<le> n' + l" using withinD [OF assms(2)] by blast
    with * show ?thesis by simp
  qed (use * run p in \<open>auto simp: dbind_def\<close>)
qed

lemma within_each:
  assumes "\<And>x. within k (f x)"
  shows "within (length xs * k) (deach f xs)"
proof (induction xs)
  case Nil
  show ?case using within_ret by simp
next
  case (Cons x xs)
  then show ?case using within_bind [OF assms] by simp
qed

text \<open>With enough power, a process that cannot raise returns.\<close>

lemma within_runs:
  assumes "within k p" "dspec P p Q (\<lambda>_ _. False) C" "P d" "k \<le> n"
  shows "\<exists>a d' n'. p (d, n) = (Done a, d', n') \<and> Q a d'"
proof -
  obtain r d' n' where p: "p (d, n) = (r, d', n')" by (cases "p (d, n)")
  have "r \<noteq> Lost" using assms(1,4) p by (auto simp: within_def)
  with p dspecD [OF assms(2,3) p] show ?thesis by (cases r) auto
qed

end
