(* ===== verification/Lane_Registry.thy ===== *)
theory Lane_Registry
  imports Python_Values
begin

text \<open>
  The catalog of lanes (lanes.py): which authority and sector lanes exist, under which aliases a
  caller names them, and where the database of each one lies below the project root. A named custom
  lane is an instance of the lane \<open>custom\<close> under its own identity.
\<close>

section \<open>Definitions\<close>

datatype lane_kind = Authority | Sector

record lane_definition =
  canonical_lane_id :: string
  display_label :: string
  aliases :: "string list"
  lane_kind :: lane_kind

definition kind_name :: "lane_kind \<Rightarrow> string" where
  "kind_name k = (case k of Authority \<Rightarrow> ''authority'' | Sector \<Rightarrow> ''sector'')"

definition sqlite_filename :: "lane_definition \<Rightarrow> string" where
  "sqlite_filename d = canonical_lane_id d @ ''_'' @ kind_name (lane_kind d) @ ''_v001.sqlite''"

definition database_relative_path :: "lane_definition \<Rightarrow> string" where
  "database_relative_path d = canonical_lane_id d @ ''/'' @ sqlite_filename d"

text \<open>The constructors of the catalog: a lane answers to its identity, label, command and aliases.\<close>

definition retained :: "string \<Rightarrow> string \<Rightarrow> string list \<Rightarrow> lane_definition" where
  "retained i l as = \<lparr>canonical_lane_id = i, display_label = l,
     aliases = [i, l, ''manage-project-sources --lane '' @ i] @ as, lane_kind = Sector\<rparr>"

definition sector :: "string \<Rightarrow> string \<Rightarrow> lane_definition" where
  "sector i l = \<lparr>canonical_lane_id = i, display_label = l, aliases = [i, l], lane_kind = Sector\<rparr>"

definition authority :: "string \<Rightarrow> string \<Rightarrow> string list \<Rightarrow> lane_definition" where
  "authority i l as = \<lparr>canonical_lane_id = i, display_label = l, aliases = [i, l] @ as, lane_kind = Authority\<rparr>"

definition retained_sectors :: "lane_definition list" where
  "retained_sectors =
    [retained ''github_code'' ''GitHub Code'' [''code'', ''git'', ''github'', ''github repository'', ''git remote''],
     retained ''local_code'' ''Local Code'' [''code'', ''local'', ''code folder'', ''local git worktree''],
     retained ''docs'' ''Docs'' [''documents'', ''documentation''],
     (retained ''data_excel'' ''Excel'' [])\<lparr>aliases := [''data_excel'', ''Excel'', ''spreadsheet'', ''workbook'']\<rparr>,
     retained ''ppt'' ''PPT / Presentation'' [''presentation'', ''powerpoint''],
     retained ''pdf_ocr'' ''PDF / OCR'' [''pdf'', ''portable document''],
     retained ''images_ocr'' ''Images / OCR'' [''images'', ''image'', ''image ocr''],
     retained ''artifacts'' ''Artifacts'' [''project artifacts'', ''artifact vault''],
     (retained ''custom'' ''Custom'' [])\<lparr>aliases := [''custom'', ''Custom'', ''custom source'', ''generic'', ''other'', ''sqlite'',
       ''selected sqlite'', ''sqlite database'']\<rparr>,
     retained ''research'' ''Research'' [''research evidence'', ''research sources'']]"

definition additional_sectors :: "lane_definition list" where
  "additional_sectors = [sector ''data'' ''Structured data'', sector ''tableau'' ''Tableau'', sector ''power_bi'' ''Power BI'']"

definition authorities :: "lane_definition list" where
  "authorities =
    [authority ''plan'' ''Plan'' [], authority ''chat_lineage'' ''ChatLineage'' [''lineage''],
     authority ''canon'' ''task exchange authority'' [''canon_input''], authority ''memory'' ''Project Memory'' [''project_memory''],
     authority ''learning'' ''Learning'' [''agent_learning''], authority ''sources'' ''Sources'' [''source_authority''],
     authority ''sessions'' ''Sessions'' [''session_authority''], authority ''receipts'' ''Receipts'' [''receipt_ledger''],
     authority ''universe'' ''Universe'' [''project_universe'']]"

definition lane_definitions :: "lane_definition list" where
  "lane_definitions = authorities @ retained_sectors @ additional_sectors"

definition CANONICAL_LANE_IDS :: "string list" where
  "CANONICAL_LANE_IDS = map canonical_lane_id lane_definitions"

definition RETIRED_LANE_IDS :: "string list" where
  "RETIRED_LANE_IDS = [''discussion'', ''analysis'', ''mode'', ''brain_loader'', ''project_engulf'', ''sqlite_brain'',
     ''project_overlay'', ''connector_brain'', ''accepted'', ''onenote'', ''access'', ''visio'', ''outlook'', ''project'', ''publisher'']"

section \<open>Resolution of an alias\<close>

text \<open>
  \<open>_normalize\<close>: trimmed, lower case, every run of other characters than letters and digits becomes one
  underscore, and underscores at the ends go. LaneRegistryError is a ValueError of lanes.py.
\<close>

fun squeeze :: "bool \<Rightarrow> string \<Rightarrow> string" where
  "squeeze run [] = []"
| "squeeze run (c # cs) = (if is_lower c \<or> is_digit c then c # squeeze False cs
     else if run then squeeze True cs else CHR ''_'' # squeeze True cs)"

definition strip_underscores :: "string \<Rightarrow> string" where
  "strip_underscores s = rev (dropWhile (\<lambda>c. c = CHR ''_'') (rev (dropWhile (\<lambda>c. c = CHR ''_'') s)))"

definition normalize_alias :: "string \<Rightarrow> string result" where
  "normalize_alias s = (let t = strip_underscores (squeeze False (map lower_char (strip s))) in
     if t = [] then Inl (Raised ''LaneRegistryError'') else Inr t)"

definition is_named_custom_lane :: "string \<Rightarrow> bool" where
  "is_named_custom_lane s \<longleftrightarrow> starts ''custom__'' s \<and> (case drop 8 s of [] \<Rightarrow> False | c # cs \<Rightarrow>
     is_lower c \<and> length cs \<le> 39 \<and> list_all (\<lambda>d. is_lower d \<or> is_digit d \<or> d = CHR ''_'') cs)"

definition LANE_ALIAS_INDEX :: "(string result \<times> string) list" where
  "LANE_ALIAS_INDEX = remdups (concat (map (\<lambda>d. map (\<lambda>a. (normalize_alias a, canonical_lane_id d)) (aliases d)) lane_definitions))"

definition alias_matches :: "string \<Rightarrow> string list" where
  "alias_matches n = sort (map snd (filter (\<lambda>p. fst p = Inr n) LANE_ALIAS_INDEX))"

text \<open>
  The index holds the lanes of a normalized alias in order; only \<open>code\<close> names two of them, and no
  \<open>code_mode\<close> is given here.
\<close>

definition resolve_lane_id :: "string \<Rightarrow> string result" where
  "resolve_lane_id a = (if is_named_custom_lane a then Inr a
     else rbind (normalize_alias a) (\<lambda>n. case alias_matches n of
         [i] \<Rightarrow> Inr i
       | _ \<Rightarrow> Inl (Raised ''LaneRegistryError'')))"

definition get_lane :: "string \<Rightarrow> lane_definition result" where
  "get_lane a = (if is_named_custom_lane a
     then Inr \<lparr>canonical_lane_id = a, display_label = drop 8 a, aliases = [a], lane_kind = Sector\<rparr>
     else rbind (resolve_lane_id a) (\<lambda>i. case find (\<lambda>d. canonical_lane_id d = i) lane_definitions of
         Some d \<Rightarrow> Inr d
       | None \<Rightarrow> Inl (Raised ''KeyError'')))"

section \<open>Facts about the catalog\<close>

lemma canonical_ids_distinct: "distinct CANONICAL_LANE_IDS"
  by code_simp

lemma no_retired_lane: "list_all (\<lambda>i. i \<notin> set RETIRED_LANE_IDS) CANONICAL_LANE_IDS"
  by code_simp

lemma database_paths_distinct: "distinct (map database_relative_path lane_definitions)"
  by code_simp

lemma label_normalizes: "normalize_alias '' PPT / Presentation'' = Inr ''ppt_presentation''"
  by code_simp

lemma single_Inr [run_simps]: "(case xs of [x] \<Rightarrow> Inr x | _ \<Rightarrow> Inl e) = Inr i \<longleftrightarrow> xs = [i]"
  by (cases xs rule: remdups_adj.cases) simp_all

lemma resolved_is_known: "resolve_lane_id a = Inr i \<Longrightarrow> \<not> is_named_custom_lane a \<Longrightarrow> i \<in> set CANONICAL_LANE_IDS"
proof -
  assume "resolve_lane_id a = Inr i" "\<not> is_named_custom_lane a"
  then obtain n where "alias_matches n = [i]"
    by (auto simp: resolve_lane_id_def run_simps)
  then have "i \<in> set (alias_matches n)" by simp
  then show "i \<in> set CANONICAL_LANE_IDS"
    by (auto simp: alias_matches_def LANE_ALIAS_INDEX_def CANONICAL_LANE_IDS_def)
qed

text \<open>A lane that was found is a definition of the catalog or a named custom instance.\<close>

lemma get_lane_known:
  assumes "get_lane a = Inr d"
  shows "d \<in> set lane_definitions \<or> is_named_custom_lane (canonical_lane_id d)"
proof (cases "is_named_custom_lane a")
  case True
  with assms show ?thesis by (auto simp: get_lane_def)
next
  case False
  with assms obtain i where "find (\<lambda>d. canonical_lane_id d = i) lane_definitions = Some d"
    by (auto simp: get_lane_def run_simps split: option.splits)
  then show ?thesis by (auto dest: find_SomeD)
qed

text \<open>The index maps every alias of a lane to it, so a canonical identity never names another lane.\<close>

lemma canonical_ids_normalized: "list_all (\<lambda>i. normalize_alias i = Inr i) CANONICAL_LANE_IDS"
  by code_simp

lemma canonical_id_alias: "list_all (\<lambda>d. canonical_lane_id d \<in> set (aliases d)) lane_definitions"
  by code_simp

lemma alias_in_matches: "d \<in> set lane_definitions \<Longrightarrow> a \<in> set (aliases d) \<Longrightarrow> normalize_alias a = Inr n
    \<Longrightarrow> canonical_lane_id d \<in> set (alias_matches n)"
  by (force simp: alias_matches_def LANE_ALIAS_INDEX_def)

lemma rcollect_result: "rcollect f xs = Inr ys \<Longrightarrow> x \<in> set xs \<Longrightarrow> \<exists>y \<in> set ys. f x = Inr y"
  by (induction xs arbitrary: ys) (auto simp: run_simps)

lemma get_lane_canonical:
  assumes "i \<in> set CANONICAL_LANE_IDS" "get_lane i = Inr d"
  shows "canonical_lane_id d = i"
proof (cases "is_named_custom_lane i")
  case True
  with assms(2) show ?thesis by (auto simp: get_lane_def)
next
  case False
  from assms(1) obtain e where e: "e \<in> set lane_definitions" "canonical_lane_id e = i" "normalize_alias i = Inr i"
    using canonical_ids_normalized by (auto simp: CANONICAL_LANE_IDS_def list_all_iff)
  then have "i \<in> set (alias_matches i)"
    using alias_in_matches [of e i i] canonical_id_alias by (auto simp: list_all_iff)
  moreover from False assms(2) e(3) obtain j where "alias_matches i = [j]" "find (\<lambda>d. canonical_lane_id d = j) lane_definitions = Some d"
    by (auto simp: get_lane_def resolve_lane_id_def run_simps split: option.splits)
  ultimately show ?thesis by (auto dest: find_SomeD)
qed

end
