(* ===== verification/Lane_Disk.thy ===== *)
theory Lane_Disk
  imports Durable Lane_Registry Storage
begin

text \<open>
  What a project keeps on disk outside its tables: the root database with the published heads and
  the transaction journal, one SQLite file per lane with its rollback journal, the backups of
  prepared commits, and the files of each lane (storage.py, lane_transactions.py). The tables of a
  lane are the content of its file, and \<open>image\<close> is what SQLite reads in such a content.
\<close>

section \<open>State\<close>

record root_head =
  rh_revision :: nat
  rh_digest :: string
  rh_commit :: "string option"

record lane_head =
  lh_lane :: string
  lh_revision :: nat
  lh_digest :: string
  lh_commit :: string

record undo_record =
  ur_lane :: string
  ur_database :: string
  ur_backup :: string
  ur_before :: string
  ur_after :: "string option"

record undo_body =
  ub_project :: string
  ub_layout :: string
  ub_root :: root_head
  ub_heads :: "lane_head list"
  ub_lanes :: "undo_record list"
  ub_fence :: "int option"
  ub_published :: "lane_head list option"

datatype journal_phase = Prepared | Published | Aborted

record journal_row =
  jr_commit :: string
  jr_phase :: journal_phase
  jr_body :: undo_body
  jr_created :: string
  jr_updated :: string

record catalog_row =
  ca_lane :: string
  ca_kind :: lane_kind
  ca_path :: string

record root_tables =
  rt_catalog :: "catalog_row list"
  rt_head :: root_head
  rt_heads :: "lane_head list"
  rt_journal :: "journal_row list"

text \<open>
  A database file: while SQLite writes a commit into it, its rollback journal holds the old content,
  and whoever opens the file for writing rolls it back first.
\<close>

record database_file =
  db_content :: string
  db_hot :: "string option"

record disk =
  root_db :: root_tables
  lane_db :: "string \<Rightarrow> database_file option"
  backup_files :: "string \<times> string \<Rightarrow> string option"
  txn_folders :: "string list"
  restore_files :: "string \<times> string \<Rightarrow> string option"
  object_files :: "string \<times> string \<Rightarrow> string option"
  history_files :: "string \<Rightarrow> string option"

text \<open>What SQLite reads in the bytes of a lane database; a file that is none has no image.\<close>

record history_entry =
  he_owner :: string
  he_version :: int
  he_filename :: string
  he_digest :: string
  he_text :: string
  he_document :: "json option"

record lane_image =
  im_identity :: "(string \<times> string \<times> string \<times> string) option"
  im_application :: int
  im_quick_check :: string
  im_foreign_keys_ok :: bool
  im_journal_mode :: string
  im_objects :: "(string \<times> nat) list"
  im_history :: "history_entry list option"

text \<open>
  The project the process works on: its identity, the hash, SQLite's reading of a file, the content
  of a new lane database, and what a write that was cut off leaves of the old and new content.
\<close>

record site =
  st_project :: string
  st_hash :: "string \<Rightarrow> string"
  st_image :: "string \<Rightarrow> lane_image option"
  st_new_database :: "lane_definition \<Rightarrow> string"
  st_torn :: "string \<Rightarrow> string \<Rightarrow> string"

definition STORAGE_LAYOUT :: string where
  "STORAGE_LAYOUT = ''direct_flat_pv_lanes_v2''"

definition LANE_APPLICATION_ID :: int where
  "LANE_APPLICATION_ID = 0x45564C4E"

section \<open>JSON forms\<close>

definition jint :: "nat \<Rightarrow> json" where
  "jint n = JInt (int n)"

definition root_head_json :: "root_head \<Rightarrow> json" where
  "root_head_json h = JObj [(''singleton'', JInt 1), (''revision'', jint (rh_revision h)),
     (''head_digest'', JStr (rh_digest h)), (''commit_id'', jopt (rh_commit h))]"

definition lane_head_json :: "lane_head \<Rightarrow> json" where
  "lane_head_json h = JObj [(''lane_id'', JStr (lh_lane h)), (''revision'', jint (lh_revision h)),
     (''head_digest'', JStr (lh_digest h)), (''commit_id'', JStr (lh_commit h))]"

definition undo_record_json :: "undo_record \<Rightarrow> json" where
  "undo_record_json r = JObj ([(''lane_id'', JStr (ur_lane r)), (''database'', JStr (ur_database r)),
     (''backup'', JStr (ur_backup r)), (''before_sha256'', JStr (ur_before r))]
     @ optional_field ''after_sha256'' (map_option JStr (ur_after r)))"

definition undo_json :: "undo_body \<Rightarrow> json" where
  "undo_json b = JObj ([(''project_id'', JStr (ub_project b)), (''layout'', JStr (ub_layout b)),
     (''before_root'', root_head_json (ub_root b)), (''before_heads'', JArr (map lane_head_json (ub_heads b))),
     (''lanes'', JArr (map undo_record_json (ub_lanes b))),
     (''writer_fence'', case ub_fence b of None \<Rightarrow> JNull | Some f \<Rightarrow> JInt f)]
     @ optional_field ''published_heads'' (map_option (\<lambda>hs. JArr (map lane_head_json hs)) (ub_published b)))"

text \<open>The head of a lane is the digest of its identity and of the hash of its database file.\<close>

definition lane_digest :: "site \<Rightarrow> string \<Rightarrow> string \<Rightarrow> string" where
  "lane_digest s i h = content_digest (st_hash s) (JObj [(''lane_id'', JStr i), (''database_sha256'', JStr h)])"

definition root_digest :: "site \<Rightarrow> nat \<Rightarrow> string \<Rightarrow> lane_head list \<Rightarrow> string" where
  "root_digest s n p hs = content_digest (st_hash s) (JObj [(''project_id'', JStr (st_project s)),
     (''revision'', jint n), (''previous_digest'', JStr p), (''lanes'', JArr (map lane_head_json hs))])"

section \<open>Reading\<close>

text \<open>The commits that were prepared and neither published nor aborted.\<close>

definition pending :: "root_tables \<Rightarrow> journal_row list" where
  "pending rt = filter (\<lambda>r. jr_phase r = Prepared) (rt_journal rt)"

definition lane_head_of :: "string \<Rightarrow> lane_head list \<Rightarrow> lane_head option" where
  "lane_head_of i hs = find (\<lambda>h. lh_lane h = i) hs"

definition catalogued :: "string \<Rightarrow> root_tables \<Rightarrow> catalog_row option" where
  "catalogued i rt = find (\<lambda>r. ca_lane r = i) (rt_catalog rt)"

text \<open>\<open>_verify_published_head\<close>: a lane without a head has nothing published yet.\<close>

definition published_head_ok :: "site \<Rightarrow> root_tables \<Rightarrow> string \<Rightarrow> string \<Rightarrow> bool" where
  "published_head_ok s rt i c = (case lane_head_of i (rt_heads rt) of None \<Rightarrow> True
     | Some h \<Rightarrow> lh_digest h = lane_digest s i (st_hash s c))"

definition lane_identity :: "site \<Rightarrow> lane_definition \<Rightarrow> string \<times> string \<times> string \<times> string" where
  "lane_identity s d = (st_project s, canonical_lane_id d, kind_name (lane_kind d), STORAGE_LAYOUT)"

text \<open>The check of \<open>_raw_connection\<close>: the file is a lane database of this project and lane.\<close>

definition identity_ok :: "site \<Rightarrow> lane_definition \<Rightarrow> string \<Rightarrow> bool" where
  "identity_ok s d c = (case st_image s c of None \<Rightarrow> False
     | Some im \<Rightarrow> im_application im = LANE_APPLICATION_ID \<and> im_identity im = Some (lane_identity s d))"

text \<open>\<open>project_snapshot\<close>: nothing is read while an interrupted commit waits for its recovery.\<close>

definition project_snapshot :: "disk \<Rightarrow> unit result" where
  "project_snapshot d = (if pending (root_db d) \<noteq> [] then Inl (LaneError ''PROJECT_RECOVERY_REQUIRED'') else Inr ())"

text \<open>
  A read of a lane: \<open>LaneStore\<close> and its read-only \<open>connection\<close>. A read-only connection cannot roll a
  hot journal back.
\<close>

definition read_lane :: "site \<Rightarrow> lane_definition \<Rightarrow> disk \<Rightarrow> string result" where
  "read_lane s ld d = (let i = canonical_lane_id ld in
     rbind (project_snapshot d) (\<lambda>_.
     case catalogued i (root_db d) of
       None \<Rightarrow> Inl (LaneError ''LANE_NOT_INITIALIZED'')
     | Some r \<Rightarrow>
         if ca_path r \<noteq> database_relative_path ld \<or> ca_kind r \<noteq> lane_kind ld then Inl (LaneError ''LANE_BINDING_MISMATCH'')
         else case lane_db d i of
           None \<Rightarrow> Inl (Raised ''OperationalError'')
         | Some f \<Rightarrow>
             if db_hot f \<noteq> None then Inl (Raised ''OperationalError'')
             else if \<not> identity_ok s ld (db_content f) then Inl (LaneError ''LANE_IDENTITY_MISMATCH'')
             else if \<not> published_head_ok s (root_db d) i (db_content f) then Inl (LaneError ''LANE_HEAD_MISMATCH'')
             else Inr (db_content f)))"

section \<open>Schema history\<close>

definition history_entry_ok :: "site \<Rightarrow> string \<Rightarrow> history_entry \<Rightarrow> bool" where
  "history_entry_ok s i e \<longleftrightarrow> (case he_document e of None \<Rightarrow> False
     | Some doc \<Rightarrow> (case he_owner e of [] \<Rightarrow> False | c # cs \<Rightarrow> is_lower c \<and> length cs \<le> 31
           \<and> list_all (\<lambda>x. is_lower x \<or> is_digit x) cs)
       \<and> 1 \<le> he_version e \<and> digest_pattern (he_digest e) \<and> he_filename e = ''schema-history.v4.json''
       \<and> st_hash s (he_text e) = he_digest e
       \<and> jget doc ''schema'' = Some (JStr ''evidence-lane.schema-history-entry.v4'')
       \<and> jget doc ''project_id'' = Some (JStr (st_project s)) \<and> jget doc ''lane_id'' = Some (JStr i)
       \<and> jget doc ''owner'' = Some (JStr (he_owner e)) \<and> jget doc ''version'' = Some (JInt (he_version e)))"

definition history_documents :: "lane_image \<Rightarrow> json list" where
  "history_documents im = (case im_history im of None \<Rightarrow> [] | Some es \<Rightarrow>
     map (\<lambda>e. case he_document e of None \<Rightarrow> JNull | Some doc \<Rightarrow> doc) es)"

definition history_projection :: "site \<Rightarrow> string \<Rightarrow> lane_image \<Rightarrow> string" where
  "history_projection s i im = json_text (JObj [(''schema'', JStr ''evidence-lane.schema-history.v4''),
     (''project_id'', JStr (st_project s)), (''lane_id'', JStr i), (''entries'', JArr (history_documents im))])
     @ [CHR 0x0A]"

text \<open>
  \<open>verify_schema_history_files\<close>: the recorded entries are sound and, outside a commit, the file beside
  the database is their projection.
\<close>

definition verify_schema_history_files :: "site \<Rightarrow> bool \<Rightarrow> string \<Rightarrow> lane_image \<Rightarrow> disk \<Rightarrow> unit result" where
  "verify_schema_history_files s in_commit i im d = (case im_history im of None \<Rightarrow> Inr ()
     | Some es \<Rightarrow>
         if \<not> list_all (history_entry_ok s i) es then Inl (LaneError ''SCHEMA_HISTORY_INTEGRITY'')
         else if in_commit then Inr ()
         else case history_files d i of
             None \<Rightarrow> Inl (LaneError ''SCHEMA_HISTORY_INTEGRITY'')
           | Some t \<Rightarrow> if 4194304 < utf8_size t \<or> t \<noteq> history_projection s i im
               then Inl (LaneError ''SCHEMA_HISTORY_INTEGRITY'') else Inr ())"

section \<open>Writing\<close>

text \<open>The durable steps: the file of a lane, and the root database, which SQLite commits atomically.\<close>

definition set_lane :: "string \<Rightarrow> database_file \<Rightarrow> disk \<Rightarrow> disk" where
  "set_lane i f d = d\<lparr>lane_db := (lane_db d)(i := Some f)\<rparr>"

definition commit_root :: "(root_tables \<Rightarrow> root_tables) \<Rightarrow> (disk, unit) durable" where
  "commit_root f = persist (\<lambda>d. d\<lparr>root_db := f (root_db d)\<rparr>)"

text \<open>SQLite opens a database for writing: a hot journal is rolled back into the file.\<close>

definition resolve_journal :: "string \<Rightarrow> (disk, unit) durable" where
  "resolve_journal i = dbind (dget (\<lambda>d. lane_db d i)) (\<lambda>f. case f of
     None \<Rightarrow> dret ()
   | Some file \<Rightarrow> (case db_hot file of
         None \<Rightarrow> dret ()
       | Some old \<Rightarrow> persist (set_lane i \<lparr>db_content = old, db_hot = None\<rparr>)))"

text \<open>
  SQLite commits a lane in DELETE mode: the journal is written, the pages follow, and removing the
  journal commits.
\<close>

definition commit_lane :: "site \<Rightarrow> string \<Rightarrow> string \<Rightarrow> string \<Rightarrow> (disk, unit) durable" where
  "commit_lane s i old new =
     dbind (persist (set_lane i \<lparr>db_content = old, db_hot = Some old\<rparr>)) (\<lambda>_.
     dbind (persist (set_lane i \<lparr>db_content = st_torn s old new, db_hot = Some old\<rparr>)) (\<lambda>_.
     dbind (persist (set_lane i \<lparr>db_content = new, db_hot = Some old\<rparr>)) (\<lambda>_.
     persist (set_lane i \<lparr>db_content = new, db_hot = None\<rparr>))))"

text \<open>
  \<open>_copy_new\<close>: the target is created and must not exist; a power failure leaves a part of the copy.
\<close>

definition copy_new ::
  "site \<Rightarrow> (disk \<Rightarrow> string option) \<Rightarrow> (string \<Rightarrow> disk \<Rightarrow> disk) \<Rightarrow> string \<Rightarrow> (disk, unit) durable" where
  "copy_new s get put c =
     dbind (dget get) (\<lambda>t.
     dbind (dcheck (t = None) (Raised ''FileExistsError'')) (\<lambda>_.
     dbind (persist (put (st_torn s [] c))) (\<lambda>_.
     persist (put c))))"

definition set_backup :: "string \<times> string \<Rightarrow> string \<Rightarrow> disk \<Rightarrow> disk" where
  "set_backup k c d = d\<lparr>backup_files := (backup_files d)(k := Some c)\<rparr>"

definition set_restore :: "string \<times> string \<Rightarrow> string \<Rightarrow> disk \<Rightarrow> disk" where
  "set_restore k c d = d\<lparr>restore_files := (restore_files d)(k := Some c)\<rparr>"

text \<open>\<open>os.replace(scratch, target)\<close>: atomic; a rollback journal beside the target stays where it is.\<close>

definition replace_lane :: "string \<times> string \<Rightarrow> disk \<Rightarrow> disk" where
  "replace_lane k d = (case restore_files d k of None \<Rightarrow> d
     | Some c \<Rightarrow> d\<lparr>restore_files := (restore_files d)(k := None),
         lane_db := (lane_db d)(fst k := Some \<lparr>db_content = c, db_hot = (case lane_db d (fst k) of None \<Rightarrow> None | Some f \<Rightarrow> db_hot f)\<rparr>)\<rparr>)"

lemma set_simps [simp]:
  "root_db (set_lane i f d) = root_db d" "lane_db (set_lane i f d) = (lane_db d)(i := Some f)"
  "backup_files (set_lane i f d) = backup_files d" "restore_files (set_lane i f d) = restore_files d"
  "root_db (set_backup k c d) = root_db d" "lane_db (set_backup k c d) = lane_db d"
  "backup_files (set_backup k c d) = (backup_files d)(k := Some c)" "restore_files (set_backup k c d) = restore_files d"
  "root_db (set_restore k c d) = root_db d" "lane_db (set_restore k c d) = lane_db d"
  "backup_files (set_restore k c d) = backup_files d" "restore_files (set_restore k c d) = (restore_files d)(k := Some c)"
  "root_db (replace_lane k d) = root_db d" "backup_files (replace_lane k d) = backup_files d"
  by (simp_all add: set_lane_def set_backup_def set_restore_def replace_lane_def split: option.split)

end
