(* ===== verification/Lane_Commit.thy ===== *)
theory Lane_Commit
  imports Lane_Disk
begin

text \<open>
  The coordinated commit of several lane databases and its recovery (lane_transactions.py). SQLite
  makes each database atomic; this code makes all of them and the published heads one commit: it
  copies every enlisted database, journals the copies as prepared, commits the lanes one by one and
  publishes the heads with the journal in one commit of the root database. Whatever interrupts it, the
  prepared journal leads back to the copies.
\<close>

section \<open>An attempt to commit\<close>

text \<open>
  \<open>wh_check\<close> is \<open>writer.check_commit\<close> on the root's tables; \<open>at_fault\<close> is the injected fault of a
  checkpoint. \<open>at_write\<close> is the body of the \<open>with\<close> block: from the contents of the enlisted databases
  to the object files it put and, unless it raises, the contents SQLite will commit; \<open>at_optimize\<close> is
  \<open>PRAGMA optimize\<close> on such a content.
\<close>

record writer_handle =
  wh_holds :: bool
  wh_fence :: "int option"
  wh_check :: "root_tables \<Rightarrow> unit result"

record attempt =
  at_commit :: string
  at_scratch :: "string \<Rightarrow> string"
  at_now :: string
  at_writer :: "writer_handle option"
  at_expected :: "nat option"
  at_fault :: "string \<Rightarrow> error option"
  at_read_only :: bool
  at_writer_busy :: bool
  at_publication_busy :: bool
  at_write :: "(string \<times> string) list \<Rightarrow> ((string \<times> string) \<times> string) list \<times> (string \<times> string) list result"
  at_optimize :: "string \<Rightarrow> string \<Rightarrow> string result"

definition checkpoint_at :: "attempt \<Rightarrow> string \<Rightarrow> (disk, unit) durable" where
  "checkpoint_at a phase = dlift (case at_fault a phase of None \<Rightarrow> Inr () | Some e \<Rightarrow> Inl e)"

definition check_commit :: "attempt \<Rightarrow> disk \<Rightarrow> unit result" where
  "check_commit a d = (case at_writer a of None \<Rightarrow> Inr () | Some w \<Rightarrow> wh_check w (root_db d))"

definition check_revision :: "attempt \<Rightarrow> disk \<Rightarrow> unit result" where
  "check_revision a d = (case at_expected a of None \<Rightarrow> Inr ()
     | Some n \<Rightarrow> if rh_revision (rt_head (root_db d)) = n then Inr () else Inl (LaneError ''STALE_ROOT_REVISION''))"

definition writer_lock :: "attempt \<Rightarrow> unit result" where
  "writer_lock a =
     (if at_read_only a then Inl (LaneError ''READ_ONLY_PROJECT'')
      else case at_writer a of
        None \<Rightarrow> if at_writer_busy a then Inl (LaneError ''PROJECT_WRITER_BUSY'')
          else if at_publication_busy a then Inl (LaneError ''PROJECT_COMMIT_BUSY'') else Inr ()
      | Some w \<Rightarrow> if \<not> wh_holds w then Inl (LaneError ''WRITER_NOT_HELD'')
          else if at_publication_busy a then Inl (LaneError ''PROJECT_COMMIT_BUSY'') else Inr ())"

section \<open>Undo evidence\<close>

definition backup_path :: "string \<Rightarrow> string \<Rightarrow> string" where
  "backup_path c i = ''.transactions/'' @ c @ ''/'' @ i @ ''.before.sqlite''"

definition backup_ok :: "site \<Rightarrow> lane_definition \<Rightarrow> lane_head list \<Rightarrow> undo_record \<Rightarrow> string \<Rightarrow> bool" where
  "backup_ok s ld hs r b \<longleftrightarrow> st_hash s b = ur_before r
     \<and> (case lane_head_of (canonical_lane_id ld) hs of None \<Rightarrow> True
        | Some h \<Rightarrow> lh_digest h = lane_digest s (canonical_lane_id ld) (ur_before r))
     \<and> (case st_image s b of None \<Rightarrow> False | Some im \<Rightarrow> im_identity im = Some (lane_identity s ld)
          \<and> im_application im = LANE_APPLICATION_ID \<and> im_quick_check im = ''ok'')"

fun undo_records_ok :: "site \<Rightarrow> string \<Rightarrow> lane_head list \<Rightarrow> string list \<Rightarrow> undo_record list \<Rightarrow> disk \<Rightarrow> bool" where
  "undo_records_ok s c hs seen [] d \<longleftrightarrow> True"
| "undo_records_ok s c hs seen (r # rs) d \<longleftrightarrow> (case get_lane (ur_lane r) of
       Inl e \<Rightarrow> False
     | Inr ld \<Rightarrow> let i = canonical_lane_id ld in
         i \<notin> set seen \<and> i = ur_lane r \<and> ur_backup r = backup_path c i \<and> ur_database r = database_relative_path ld
         \<and> (case backup_files d (c, i) of None \<Rightarrow> False | Some b \<Rightarrow> backup_ok s ld hs r b)
         \<and> undo_records_ok s c hs (i # seen) rs d)"

text \<open>\<open>_validate_undo\<close>: whatever is wrong with the evidence, the interrupted state is preserved.\<close>

definition validate_undo :: "site \<Rightarrow> string \<Rightarrow> undo_body \<Rightarrow> disk \<Rightarrow> unit result" where
  "validate_undo s c b d =
     (if uuid_pattern c \<and> length (json_text (undo_json b)) \<le> 1000000
         \<and> ub_project b = st_project s \<and> ub_layout b = STORAGE_LAYOUT
         \<and> 1 \<le> length (ub_lanes b) \<and> length (ub_lanes b) \<le> 27 \<and> undo_records_ok s c (ub_heads b) [] (ub_lanes b) d
      then Inr () else Inl (LaneError ''RECOVERY_EVIDENCE_INVALID''))"

section \<open>Restoring\<close>

text \<open>Opened and closed first, so that SQLite itself resolves a hot journal.\<close>

definition settle_lane :: "site \<Rightarrow> string \<Rightarrow> (disk, unit) durable" where
  "settle_lane s i = dbind (resolve_journal i) (\<lambda>_.
     dtry (\<lambda>d. case lane_db d i of
         None \<Rightarrow> Inl (Raised ''OperationalError'')
       | Some f \<Rightarrow> (case st_image s (db_content f) of
           None \<Rightarrow> Inl (Raised ''DatabaseError'')
         | Some im \<Rightarrow> if im_journal_mode im = ''delete'' then Inr () else Inl (LaneError ''UNSUPPORTED_JOURNAL_MODE''))))"

definition restore_lane :: "site \<Rightarrow> attempt \<Rightarrow> string \<Rightarrow> undo_record \<Rightarrow> (disk, unit) durable" where
  "restore_lane s a c r = (let i = ur_lane r; k = (i, at_scratch a i) in
     dbind (dtry (\<lambda>d. case backup_files d (c, i) of None \<Rightarrow> Inl (Raised ''FileNotFoundError'') | Some b \<Rightarrow> Inr b)) (\<lambda>b.
     dbind (copy_new s (\<lambda>d. restore_files d k) (set_restore k) b) (\<lambda>_.
     dbind (dcheck (st_hash s b = ur_before r) (LaneError ''RECOVERY_COPY_FAILED'')) (\<lambda>_.
     dbind (persist (replace_lane k)) (\<lambda>_.
     checkpoint_at a (''restored:'' @ i))))))"

definition restore :: "site \<Rightarrow> attempt \<Rightarrow> string \<Rightarrow> undo_body \<Rightarrow> (disk, unit) durable" where
  "restore s a c b =
     dbind (dtry (validate_undo s c b)) (\<lambda>_.
     dbind (dtry (\<lambda>d. if rt_head (root_db d) \<noteq> ub_root b \<or> rt_heads (root_db d) \<noteq> ub_heads b
         then Inl (LaneError ''RECOVERY_HEAD_CHANGED'') else Inr ())) (\<lambda>_.
     dbind (deach (\<lambda>r. settle_lane s (ur_lane r)) (ub_lanes b)) (\<lambda>_.
     deach (restore_lane s a c) (ub_lanes b))))"

definition mark_aborted :: "string \<Rightarrow> string \<Rightarrow> root_tables \<Rightarrow> root_tables" where
  "mark_aborted c t rt = rt\<lparr>rt_journal := update_where (\<lambda>r. jr_commit r = c \<and> jr_phase r = Prepared)
     (\<lambda>r. r\<lparr>jr_phase := Aborted, jr_updated := t\<rparr>) (rt_journal rt)\<rparr>"

text \<open>\<open>recover_transactions\<close>: restores the one interrupted commit and marks it aborted.\<close>

definition recover_transactions :: "site \<Rightarrow> attempt \<Rightarrow> (disk, (string \<times> nat) list) durable" where
  "recover_transactions s a =
     dbind (dlift (writer_lock a)) (\<lambda>_.
     dbind (dtry (check_commit a)) (\<lambda>_.
     dbind (dget (\<lambda>d. pending (root_db d))) (\<lambda>es.
     case es of
       [] \<Rightarrow> dret []
     | [e] \<Rightarrow> dbind (restore s a (jr_commit e) (jr_body e)) (\<lambda>_.
         dbind (commit_root (mark_aborted (jr_commit e) (at_now a))) (\<lambda>_.
         dget (\<lambda>d. [(jr_commit e, rh_revision (rt_head (root_db d)))])))
     | _ \<Rightarrow> dlift (Inl (LaneError ''RECOVERY_JOURNAL_CONFLICT'')))))"

section \<open>Preparing\<close>

text \<open>\<open>_initialize_lane\<close>: the catalog row follows the new database file.\<close>

definition initialize_lane :: "site \<Rightarrow> lane_definition \<Rightarrow> (disk, unit) durable" where
  "initialize_lane s ld = (let i = canonical_lane_id ld in
     dbind (dtry project_snapshot) (\<lambda>_.
     dbind (dget (\<lambda>d. catalogued i (root_db d))) (\<lambda>found.
     case found of
       Some r \<Rightarrow> dcheck (ca_path r = database_relative_path ld \<and> ca_kind r = lane_kind ld) (LaneError ''LANE_BINDING_MISMATCH'')
     | None \<Rightarrow>
         dbind (dget (\<lambda>d. lane_db d i)) (\<lambda>f.
         dbind (dcheck (f = None) (LaneError ''UNREGISTERED_LANE_DATABASE'')) (\<lambda>_.
         dbind (persist (set_lane i \<lparr>db_content = st_torn s [] (st_new_database s ld), db_hot = None\<rparr>)) (\<lambda>_.
         dbind (persist (set_lane i \<lparr>db_content = st_new_database s ld, db_hot = None\<rparr>)) (\<lambda>_.
         commit_root (\<lambda>rt. rt\<lparr>rt_catalog := rt_catalog rt @
           [\<lparr>ca_lane = i, ca_kind = lane_kind ld, ca_path = database_relative_path ld\<rparr>]\<rparr>))))))))"

text \<open>A lane is opened read-only and its schema history is verified before anything is written.\<close>

definition inspect_lane :: "site \<Rightarrow> lane_definition \<Rightarrow> disk \<Rightarrow> unit result" where
  "inspect_lane s ld d = rbind (read_lane s ld d) (\<lambda>c.
     case st_image s c of
       None \<Rightarrow> Inl (Raised ''DatabaseError'')
     | Some im \<Rightarrow> verify_schema_history_files s False (canonical_lane_id ld) im d)"

definition verify_lane_head :: "site \<Rightarrow> lane_definition \<Rightarrow> disk \<Rightarrow> unit result" where
  "verify_lane_head s ld d = (case lane_db d (canonical_lane_id ld) of
       None \<Rightarrow> Inl (Raised ''FileNotFoundError'')
     | Some f \<Rightarrow> if published_head_ok s (root_db d) (canonical_lane_id ld) (db_content f) then Inr ()
         else Inl (LaneError ''LANE_HEAD_MISMATCH''))"

definition open_lane :: "site \<Rightarrow> lane_definition \<Rightarrow> (disk, string) durable" where
  "open_lane s ld = (let i = canonical_lane_id ld in
     dbind (resolve_journal i) (\<lambda>_.
     dtry (\<lambda>d. case lane_db d i of
         None \<Rightarrow> Inl (Raised ''OperationalError'')
       | Some f \<Rightarrow> if \<not> identity_ok s ld (db_content f) then Inl (LaneError ''LANE_IDENTITY_MISMATCH'')
           else (case st_image s (db_content f) of
             None \<Rightarrow> Inl (Raised ''DatabaseError'')
           | Some im \<Rightarrow> if im_journal_mode im = ''delete'' then Inr (db_content f)
               else Inl (LaneError ''UNSUPPORTED_JOURNAL_MODE'')))))"

definition backup_lane :: "site \<Rightarrow> attempt \<Rightarrow> lane_definition \<Rightarrow> (disk, undo_record) durable" where
  "backup_lane s a ld = (let i = canonical_lane_id ld; k = (at_commit a, i) in
     dbind (open_lane s ld) (\<lambda>c.
     dbind (copy_new s (\<lambda>d. backup_files d k) (set_backup k) c) (\<lambda>_.
     dret \<lparr>ur_lane = i, ur_database = database_relative_path ld, ur_backup = backup_path (at_commit a) i,
       ur_before = st_hash s c, ur_after = None\<rparr>)))"

definition prepared_body :: "site \<Rightarrow> attempt \<Rightarrow> root_tables \<Rightarrow> undo_record list \<Rightarrow> undo_body" where
  "prepared_body s a rt rs = \<lparr>ub_project = st_project s, ub_layout = STORAGE_LAYOUT, ub_root = rt_head rt,
     ub_heads = rt_heads rt, ub_lanes = rs, ub_fence = (case at_writer a of None \<Rightarrow> None | Some w \<Rightarrow> wh_fence w),
     ub_published = None\<rparr>"

text \<open>
  \<open>select_lanes\<close> is \<open>sorted({get_lane(lane).canonical_lane_id for lane in lanes} | {'receipts'})\<close>; the
  journal row makes the commit one that has to be reconciled.
\<close>

definition select_lanes :: "string list \<Rightarrow> lane_definition list result" where
  "select_lanes lanes = rbind (rcollect get_lane lanes) (\<lambda>lds.
     rcollect get_lane (sort (remdups (map canonical_lane_id lds @ [''receipts'']))))"

definition prepare :: "site \<Rightarrow> attempt \<Rightarrow> lane_definition list \<Rightarrow> (disk, undo_body) durable" where
  "prepare s a lds =
     dbind (dtry (\<lambda>d. rbind (project_snapshot d) (\<lambda>_. rbind (check_revision a d) (\<lambda>_. check_commit a d)))) (\<lambda>_.
     dbind (deach (initialize_lane s) lds) (\<lambda>_.
     dbind (deach (\<lambda>ld. dtry (\<lambda>d. rbind (read_lane s ld d) (\<lambda>_. Inr ()))) lds) (\<lambda>_.
     dbind (deach (\<lambda>ld. dtry (inspect_lane s ld)) lds) (\<lambda>_.
     dbind (dtry (\<lambda>d. rbind (project_snapshot d) (\<lambda>_. rbind (check_commit a d) (\<lambda>_. check_revision a d)))) (\<lambda>_.
     dbind (deach (\<lambda>ld. dtry (verify_lane_head s ld)) lds) (\<lambda>_.
     dbind (dget (\<lambda>d. txn_folders d)) (\<lambda>fs.
     dbind (dcheck (at_commit a \<notin> set fs) (Raised ''FileExistsError'')) (\<lambda>_.
     dbind (persist (\<lambda>d. d\<lparr>txn_folders := txn_folders d @ [at_commit a]\<rparr>)) (\<lambda>_.
     dbind (dcollect (backup_lane s a) lds) (\<lambda>rs.
     dbind (dget (\<lambda>d. prepared_body s a (root_db d) rs)) (\<lambda>b.
     dbind (dtry (validate_undo s (at_commit a) b)) (\<lambda>_.
     dbind (dtry (\<lambda>d. if at_commit a \<in> set (map jr_commit (rt_journal (root_db d))) then Inl (Raised ''IntegrityError'')
         else Inr ())) (\<lambda>_.
     dbind (commit_root (\<lambda>rt. rt\<lparr>rt_journal := rt_journal rt @ [\<lparr>jr_commit = at_commit a, jr_phase = Prepared,
         jr_body = b, jr_created = at_now a, jr_updated = at_now a\<rparr>]\<rparr>)) (\<lambda>_.
     dret b))))))))))))))"

section \<open>Committing and publishing\<close>

text \<open>\<open>_check_lane_files\<close>, on the content the lane is about to commit.\<close>

definition check_lane_files :: "site \<Rightarrow> lane_definition \<Rightarrow> string \<Rightarrow> disk \<Rightarrow> unit result" where
  "check_lane_files s ld c d = (case st_image s c of
     None \<Rightarrow> Inl (Raised ''DatabaseError'')
   | Some im \<Rightarrow> rbind (verify_schema_history_files s True (canonical_lane_id ld) im d) (\<lambda>_.
       if im_identity im \<noteq> Some (lane_identity s ld) \<or> im_application im \<noteq> LANE_APPLICATION_ID
         then Inl (LaneError ''LANE_IDENTITY_MISMATCH'')
       else if \<not> im_foreign_keys_ok im then Inl (LaneError ''LANE_FOREIGN_KEY_FAILED'')
       else if im_quick_check im \<noteq> ''ok'' then Inl (LaneError ''LANE_INTEGRITY_FAILED'')
       else if list_all (\<lambda>(g, n). case object_files d (canonical_lane_id ld, g) of None \<Rightarrow> False
           | Some t \<Rightarrow> length t = n \<and> st_hash s t = g) (im_objects im) then Inr ()
       else Inl (LaneError ''OBJECT_INTEGRITY_FAILED'')))"

text \<open>\<open>verify_committed_sqlite_lane\<close>: reads the committed bytes and returns their hash.\<close>

definition verify_committed :: "site \<Rightarrow> lane_definition \<Rightarrow> disk \<Rightarrow> string result" where
  "verify_committed s ld d = (case lane_db d (canonical_lane_id ld) of
     None \<Rightarrow> Inl (Raised ''FileNotFoundError'')
   | Some f \<Rightarrow> (case st_image s (db_content f) of
       None \<Rightarrow> Inl (Raised ''DatabaseError'')
     | Some im \<Rightarrow>
         if im_identity im \<noteq> Some (lane_identity s ld) \<or> im_application im \<noteq> LANE_APPLICATION_ID
           then Inl (LaneError ''LANE_IDENTITY_MISMATCH'')
         else if im_quick_check im \<noteq> ''ok'' then Inl (LaneError ''LANE_SQLITE_INTEGRITY_FAILED'')
         else if \<not> im_foreign_keys_ok im then Inl (LaneError ''LANE_FOREIGN_KEY_FAILED'')
         else if im_journal_mode im \<noteq> ''delete'' then Inl (LaneError ''UNSUPPORTED_JOURNAL_MODE'')
         else Inr (st_hash s (db_content f))))"

text \<open>The body of the \<open>with\<close> block on the contents of the enlisted lanes, and what it makes of them.\<close>

definition put_files :: "((string \<times> string) \<times> string) list \<Rightarrow> (disk, unit) durable" where
  "put_files fs = deach (\<lambda>(k, v). dbind (dget (\<lambda>d. object_files d k)) (\<lambda>f. case f of
     Some _ \<Rightarrow> dret ()
   | None \<Rightarrow> persist (\<lambda>d. d\<lparr>object_files := (object_files d)(k := Some v)\<rparr>))) fs"

definition lane_contents :: "lane_definition list \<Rightarrow> disk \<Rightarrow> (string \<times> string) list" where
  "lane_contents lds d = map (\<lambda>ld. (canonical_lane_id ld,
     case lane_db d (canonical_lane_id ld) of None \<Rightarrow> [] | Some f \<Rightarrow> db_content f)) lds"

definition new_content :: "(string \<times> string) list \<Rightarrow> (string \<times> string) list \<Rightarrow> string \<Rightarrow> string" where
  "new_content olds news i = (case map_of news i of Some c \<Rightarrow> c
     | None \<Rightarrow> (case map_of olds i of Some c \<Rightarrow> c | None \<Rightarrow> []))"

text \<open>SQLite refuses to change the journal mode inside a transaction.\<close>

definition delete_mode :: "site \<Rightarrow> string \<Rightarrow> bool" where
  "delete_mode s c \<longleftrightarrow> (case st_image s c of None \<Rightarrow> False | Some im \<Rightarrow> im_journal_mode im = ''delete'')"

definition stage_lane ::
  "site \<Rightarrow> attempt \<Rightarrow> (string \<times> string) list \<Rightarrow> (string \<times> string) list \<Rightarrow> lane_definition \<Rightarrow> (disk, string) durable" where
  "stage_lane s a olds news ld = (let i = canonical_lane_id ld in
     dbind (dlift (at_optimize a i (new_content olds news i))) (\<lambda>c.
     dbind (dcheck (st_image s c = None \<or> delete_mode s c) (Raised ''OperationalError'')) (\<lambda>_.
     dbind (dtry (check_lane_files s ld c)) (\<lambda>_. dret c))))"

definition put_head :: "lane_head \<Rightarrow> lane_head list \<Rightarrow> lane_head list" where
  "put_head h hs = insort_key lh_lane h (filter (\<lambda>x. lh_lane x \<noteq> lh_lane h) hs)"

definition new_lane_head :: "site \<Rightarrow> attempt \<Rightarrow> undo_body \<Rightarrow> string \<times> string \<Rightarrow> lane_head" where
  "new_lane_head s a b p = \<lparr>lh_lane = fst p,
     lh_revision = (case lane_head_of (fst p) (ub_heads b) of Some h \<Rightarrow> lh_revision h + 1 | None \<Rightarrow> 1),
     lh_digest = lane_digest s (fst p) (snd p), lh_commit = at_commit a\<rparr>"

definition new_root_head :: "site \<Rightarrow> attempt \<Rightarrow> undo_body \<Rightarrow> lane_head list \<Rightarrow> root_head" where
  "new_root_head s a b hs = (let n = rh_revision (ub_root b) + 1 in
     \<lparr>rh_revision = n, rh_digest = root_digest s n (rh_digest (ub_root b)) hs, rh_commit = Some (at_commit a)\<rparr>)"

definition published_tables :: "site \<Rightarrow> attempt \<Rightarrow> undo_body \<Rightarrow> (string \<times> string) list \<Rightarrow> root_tables \<Rightarrow> root_tables" where
  "published_tables s a b ps rt = (let hs = fold (\<lambda>p. put_head (new_lane_head s a b p)) ps (rt_heads rt) in
     rt\<lparr>rt_heads := hs, rt_head := new_root_head s a b hs,
       rt_journal := update_where (\<lambda>r. jr_commit r = at_commit a)
         (\<lambda>r. r\<lparr>jr_phase := Published, jr_updated := at_now a,
           jr_body := b\<lparr>ub_published := Some hs,
             ub_lanes := map (\<lambda>u. u\<lparr>ur_after := map_of ps (ur_lane u)\<rparr>) (ub_lanes b)\<rparr>\<rparr>) (rt_journal rt)\<rparr>)"

text \<open>
  The publication: the heads, the root head and the journal row change in one commit of the root, over
  the hashes of the databases as they were validated.
\<close>

definition publish_heads :: "site \<Rightarrow> attempt \<Rightarrow> undo_body \<Rightarrow> (string \<times> string) list \<Rightarrow> (disk, root_head) durable" where
  "publish_heads s a b ps =
     dbind (deach (\<lambda>(i, h). dtry (\<lambda>d. case lane_db d i of
           None \<Rightarrow> Inl (Raised ''FileNotFoundError'')
         | Some f \<Rightarrow> if st_hash s (db_content f) = h then Inr () else Inl (LaneError ''SQLITE_COMMITTED_LANE_CHANGED''))) ps) (\<lambda>_.
     dbind (checkpoint_at a ''before_root_publish'') (\<lambda>_.
     dbind (dtry (check_commit a)) (\<lambda>_.
     dbind (commit_root (published_tables s a b ps)) (\<lambda>_.
     dget (\<lambda>d. rt_head (root_db d))))))"

text \<open>The lanes are committed one by one and validated as they are on disk.\<close>

definition commit_lanes ::
  "site \<Rightarrow> attempt \<Rightarrow> (string \<times> string) list \<Rightarrow> (lane_definition \<times> string) list \<Rightarrow> (disk, unit) durable" where
  "commit_lanes s a olds = deach (\<lambda>(ld, c).
     dbind (commit_lane s (canonical_lane_id ld) (new_content olds [] (canonical_lane_id ld)) c) (\<lambda>_.
     checkpoint_at a (''committed:'' @ canonical_lane_id ld)))"

definition validate_lanes :: "site \<Rightarrow> attempt \<Rightarrow> lane_definition list \<Rightarrow> (disk, (string \<times> string) list) durable" where
  "validate_lanes s a = dcollect (\<lambda>ld.
     dbind (dtry (verify_committed s ld)) (\<lambda>h.
     dbind (checkpoint_at a (''validated:'' @ canonical_lane_id ld)) (\<lambda>_.
     dret (canonical_lane_id ld, h))))"

definition write_lanes ::
  "site \<Rightarrow> attempt \<Rightarrow> lane_definition list \<Rightarrow> undo_body \<Rightarrow> (string \<times> string) list \<Rightarrow> (string \<times> string) list \<Rightarrow>
     (disk, root_head) durable" where
  "write_lanes s a lds b olds news =
     dbind (dtry (check_commit a)) (\<lambda>_.
     dbind (dcollect (stage_lane s a olds news) lds) (\<lambda>cs.
     dbind (checkpoint_at a ''before_lane_commits'') (\<lambda>_.
     dbind (commit_lanes s a olds (zip lds cs)) (\<lambda>_.
     dbind (validate_lanes s a lds) (\<lambda>ps.
     publish_heads s a b ps)))))"

definition publish :: "site \<Rightarrow> attempt \<Rightarrow> lane_definition list \<Rightarrow> undo_body \<Rightarrow> (disk, root_head) durable" where
  "publish s a lds b =
     dbind (checkpoint_at a ''prepared'') (\<lambda>_.
     dbind (dget (lane_contents lds)) (\<lambda>olds.
     dbind (put_files (fst (at_write a olds))) (\<lambda>_.
     dbind (dlift (snd (at_write a olds))) (\<lambda>news.
     write_lanes s a lds b olds news))))"

text \<open>
  The handler of an exception before the publication: the open transactions are rolled back, and a
  commit that is still prepared is restored and marked aborted; then the exception goes on.
\<close>

definition undo_attempt :: "site \<Rightarrow> attempt \<Rightarrow> error \<Rightarrow> (disk, root_head) durable" where
  "undo_attempt s a e =
     dbind (dget (\<lambda>d. find (\<lambda>r. jr_commit r = at_commit a) (rt_journal (root_db d)))) (\<lambda>row.
     dbind (case row of
         Some r \<Rightarrow> if jr_phase r = Prepared
           then dbind (restore s (a\<lparr>at_fault := (\<lambda>_. None)\<rparr>) (jr_commit r) (jr_body r)) (\<lambda>_.
             commit_root (mark_aborted (at_commit a) (at_now a)))
           else dret ()
       | None \<Rightarrow> dlift (Inl (Raised ''TypeError''))) (\<lambda>_.
     dlift (Inl e)))"

text \<open>After the publication the schema history beside each lane database is written again.\<close>

definition refresh_lane_artifacts :: "site \<Rightarrow> lane_definition \<Rightarrow> (disk, unit) durable" where
  "refresh_lane_artifacts s ld = (let i = canonical_lane_id ld in
     dbind (dtry (\<lambda>d. case lane_db d i of
         None \<Rightarrow> Inl (Raised ''OperationalError'')
       | Some f \<Rightarrow> (case st_image s (db_content f) of None \<Rightarrow> Inl (Raised ''DatabaseError'') | Some im \<Rightarrow> Inr im))) (\<lambda>im.
     persist (\<lambda>d. d\<lparr>history_files := (history_files d)(i := Some (history_projection s i im))\<rparr>)))"

definition coordinated_transaction :: "site \<Rightarrow> attempt \<Rightarrow> string list \<Rightarrow> (disk, root_head) durable" where
  "coordinated_transaction s a lanes =
     dbind (dlift (select_lanes lanes)) (\<lambda>lds.
     dbind (dlift (writer_lock a)) (\<lambda>_.
     dbind (prepare s a lds) (\<lambda>b.
     dbind (dcatch (publish s a lds b) (undo_attempt s a)) (\<lambda>h.
     dbind (deach (refresh_lane_artifacts s) lds) (\<lambda>_.
     dbind (checkpoint_at a ''published'') (\<lambda>_.
     dret h))))))"

end
