(* ===== verification/Lane_Laws.thy ===== *)
theory Lane_Laws
  imports Lane_Commit
begin

text \<open>
  What the coordinated commit guarantees at every crash point: the published contents of the lanes
  change as a whole or not at all, a prepared commit can always be restored, and a restoration that
  is itself interrupted can be repeated.
\<close>

section \<open>Published contents\<close>

definition lanes_of :: "disk \<Rightarrow> string set" where
  "lanes_of d = ca_lane ` set (rt_catalog (root_db d))"

definition undo_lanes :: "journal_row \<Rightarrow> string list" where
  "undo_lanes e = map ur_lane (ub_lanes (jr_body e))"

text \<open>
  The content a lane is published with: its database, or its backup while a prepared commit on it
  waits for recovery.
\<close>

definition lane_view :: "disk \<Rightarrow> string \<Rightarrow> string option" where
  "lane_view d i = (case pending (root_db d) of
     [] \<Rightarrow> map_option db_content (lane_db d i)
   | e # _ \<Rightarrow> if i \<in> set (undo_lanes e) then backup_files d (jr_commit e, i) else map_option db_content (lane_db d i))"

definition lane_clean :: "site \<Rightarrow> disk \<Rightarrow> string \<Rightarrow> bool" where
  "lane_clean s d i \<longleftrightarrow> (case lane_db d i of None \<Rightarrow> False
     | Some f \<Rightarrow> db_hot f = None \<and> published_head_ok s (root_db d) i (db_content f))"

text \<open>
  A database that SQLite can open, once its journal is rolled back; every database and every backup of
  a prepared commit is one.
\<close>

definition openable :: "site \<Rightarrow> database_file option \<Rightarrow> bool" where
  "openable s f \<longleftrightarrow> (case f of None \<Rightarrow> False
     | Some g \<Rightarrow> delete_mode s (case db_hot g of None \<Rightarrow> db_content g | Some old \<Rightarrow> old))"

definition copied :: "site \<Rightarrow> string option \<Rightarrow> bool" where
  "copied s b \<longleftrightarrow> (case b of None \<Rightarrow> False | Some c \<Rightarrow> delete_mode s c)"

definition evidence_ok :: "site \<Rightarrow> journal_row \<Rightarrow> disk \<Rightarrow> bool" where
  "evidence_ok s e d \<longleftrightarrow> validate_undo s (jr_commit e) (jr_body e) d = Inr ()
     \<and> rt_head (root_db d) = ub_root (jr_body e) \<and> rt_heads (root_db d) = ub_heads (jr_body e)
     \<and> set (undo_lanes e) \<subseteq> lanes_of d \<and> (\<forall>i \<in> set (undo_lanes e). openable s (lane_db d i) \<and> copied s (backup_files d (jr_commit e, i)))"

definition disk_ok :: "site \<Rightarrow> disk \<Rightarrow> bool" where
  "disk_ok s d \<longleftrightarrow> distinct (map jr_commit (rt_journal (root_db d)))
     \<and> lh_lane ` set (rt_heads (root_db d)) \<subseteq> lanes_of d
     \<and> (case pending (root_db d) of
          [] \<Rightarrow> \<forall>i \<in> lanes_of d. lane_clean s d i
        | [e] \<Rightarrow> evidence_ok s e d \<and> (\<forall>i \<in> lanes_of d - set (undo_lanes e). lane_clean s d i)
        | _ \<Rightarrow> False)"

text \<open>Nothing that was published changed; lanes may have been added.\<close>

definition same_view :: "disk \<Rightarrow> disk \<Rightarrow> bool" where
  "same_view d0 d \<longleftrightarrow> rt_head (root_db d) = rt_head (root_db d0) \<and> rt_heads (root_db d) = rt_heads (root_db d0)
     \<and> lanes_of d0 \<subseteq> lanes_of d \<and> (\<forall>i \<in> lanes_of d0. lane_view d i = lane_view d0 i)"

lemma same_view_refl [simp]: "same_view d d"
  by (simp add: same_view_def)

text \<open>The state while the commit \<open>e\<close> is prepared.\<close>

definition prepared :: "site \<Rightarrow> journal_row \<Rightarrow> disk \<Rightarrow> disk \<Rightarrow> bool" where
  "prepared s e d0 d \<longleftrightarrow> disk_ok s d \<and> pending (root_db d) = [e] \<and> same_view d0 d"

definition idle :: "site \<Rightarrow> disk \<Rightarrow> disk \<Rightarrow> bool" where
  "idle s d0 d \<longleftrightarrow> disk_ok s d \<and> pending (root_db d) = [] \<and> same_view d0 d"

lemma validate_undo_cong:
  "backup_files d' = backup_files d \<Longrightarrow> validate_undo s c b d' = validate_undo s c b d"
proof -
  assume eq: "backup_files d' = backup_files d"
  have "undo_records_ok s c hs seen rs d' = undo_records_ok s c hs seen rs d" for hs seen rs
    by (induction rs arbitrary: seen) (simp_all add: Let_def eq split: sum.split option.split)
  then show ?thesis by (simp add: validate_undo_def)
qed

text \<open>Only the root, the backups and the files of the lanes that are not being written matter.\<close>

lemma prepared_cong:
  assumes "prepared s e d0 d" "root_db d' = root_db d" "backup_files d' = backup_files d"
    "\<And>i. i \<notin> set (undo_lanes e) \<Longrightarrow> lane_db d' i = lane_db d i"
    "\<And>i. i \<in> set (undo_lanes e) \<Longrightarrow> openable s (lane_db d i) \<Longrightarrow> openable s (lane_db d' i)"
  shows "prepared s e d0 d'"
proof -
  have "lane_view d' i = lane_view d i" for i
    using assms by (auto simp: lane_view_def prepared_def)
  moreover have "lanes_of d' = lanes_of d" using assms(2) by (simp add: lanes_of_def)
  moreover have "evidence_ok s e d \<Longrightarrow> evidence_ok s e d'"
    using assms(2,3,5) validate_undo_cong [OF assms(3)] \<open>lanes_of d' = lanes_of d\<close> by (simp add: evidence_ok_def)
  moreover have "i \<notin> set (undo_lanes e) \<Longrightarrow> lane_clean s d' i = lane_clean s d i" for i
    using assms(2,4) by (simp add: lane_clean_def split: option.split)
  ultimately show ?thesis
    using assms(1,2) by (auto simp: prepared_def disk_ok_def same_view_def)
qed

lemma prepared_set_lane:
  "prepared s e d0 d \<Longrightarrow> i \<in> set (undo_lanes e) \<Longrightarrow> openable s (Some f) \<Longrightarrow> prepared s e d0 (set_lane i f d)"
  by (erule prepared_cong) auto

lemma prepared_evidence: "prepared s e d0 d \<Longrightarrow> evidence_ok s e d"
  by (auto simp: prepared_def disk_ok_def)

lemma prepared_openable: "prepared s e d0 d \<Longrightarrow> i \<in> set (undo_lanes e) \<Longrightarrow>
    openable s (lane_db d i) \<and> copied s (backup_files d (jr_commit e, i))"
  using prepared_evidence by (auto simp: evidence_ok_def)

lemma prepared_other:
  "prepared s e d0 d \<Longrightarrow> root_db d' = root_db d \<Longrightarrow> backup_files d' = backup_files d \<Longrightarrow> lane_db d' = lane_db d
     \<Longrightarrow> prepared s e d0 d'"
  by (erule prepared_cong) simp_all

section \<open>The undo evidence names whole backups\<close>

lemma undo_records_ok_backup:
  "undo_records_ok s c hs seen rs d \<Longrightarrow> r \<in> set rs \<Longrightarrow>
     \<exists>b. backup_files d (c, ur_lane r) = Some b \<and> st_hash s b = ur_before r
       \<and> (\<forall>h. lane_head_of (ur_lane r) hs = Some h \<longrightarrow> lh_digest h = lane_digest s (ur_lane r) (st_hash s b))"
proof (induction s c hs seen rs d rule: undo_records_ok.induct)
  case (2 s c hs seen r' rs d)
  then show ?case by (cases "get_lane (ur_lane r')") (auto simp: Let_def backup_ok_def split: option.splits)
qed simp

lemma undo_records_ok_distinct:
  "undo_records_ok s c hs seen rs d \<Longrightarrow> distinct (map ur_lane rs) \<and> set (map ur_lane rs) \<inter> set seen = {}"
proof (induction rs arbitrary: seen)
  case (Cons r rs)
  then have "undo_records_ok s c hs (ur_lane r # seen) rs d" "ur_lane r \<notin> set seen"
    by (auto simp: Let_def split: sum.splits)
  with Cons.IH [of "ur_lane r # seen"] show ?case by auto
qed simp

lemma validate_undo_records:
  "validate_undo s c b d = Inr () \<Longrightarrow> undo_records_ok s c (ub_heads b) [] (ub_lanes b) d \<and> length (ub_lanes b) \<le> 27"
  by (auto simp: validate_undo_def split: if_splits)

lemma prepared_backup:
  assumes "prepared s e d0 d" "r \<in> set (ub_lanes (jr_body e))"
  obtains b where "backup_files d (jr_commit e, ur_lane r) = Some b" "st_hash s b = ur_before r"
    "published_head_ok s (root_db d) (ur_lane r) b"
proof -
  have "evidence_ok s e d" using assms(1) by (auto simp: prepared_def disk_ok_def)
  then have "undo_records_ok s (jr_commit e) (ub_heads (jr_body e)) [] (ub_lanes (jr_body e)) d"
    and heads: "rt_heads (root_db d) = ub_heads (jr_body e)"
    by (auto simp: evidence_ok_def dest: validate_undo_records)
  from undo_records_ok_backup [OF this(1) assms(2)] show ?thesis
    using that heads by (auto simp: published_head_ok_def split: option.splits)
qed

section \<open>Restoration\<close>

text \<open>\<open>settled\<close> lanes have no journal left; \<open>restored\<close> lanes hold their backup.\<close>

definition settled :: "string list \<Rightarrow> disk \<Rightarrow> bool" where
  "settled is d \<longleftrightarrow> (\<forall>i \<in> set is. \<exists>f. lane_db d i = Some f \<and> db_hot f = None)"

definition restored :: "journal_row \<Rightarrow> undo_record list \<Rightarrow> disk \<Rightarrow> bool" where
  "restored e rs d \<longleftrightarrow> (\<forall>r \<in> set rs. \<exists>b. backup_files d (jr_commit e, ur_lane r) = Some b
     \<and> lane_db d (ur_lane r) = Some \<lparr>db_content = b, db_hot = None\<rparr>)"

lemma resolve_spec:
  assumes "i \<in> set (undo_lanes e)" and frame: "\<And>d f. P d \<Longrightarrow> P (set_lane i f d)"
  shows "dspec (\<lambda>d. prepared s e d0 d \<and> settled js d \<and> P d) (resolve_journal i)
     (\<lambda>_ d. prepared s e d0 d \<and> settled (js @ [i]) d \<and> P d) E (prepared s e d0)"
  unfolding resolve_journal_def
proof (rule dspec_bind_get)
  fix f
  let ?P = "\<lambda>d. (prepared s e d0 d \<and> settled js d \<and> P d) \<and> lane_db d i = f"
  have put: "prepared s e d0 (set_lane i \<lparr>db_content = old, db_hot = None\<rparr> d)"
    if "?P d" "f = Some g" "db_hot g = Some old" for d g old
    using that prepared_openable [of s e d0 d i] assms(1)
    by (intro prepared_set_lane) (auto simp: openable_def)
  have some: "\<not> ?P d" if "f = None" for d
    using that prepared_openable [of s e d0 d i] assms(1) by (auto simp: openable_def split: option.splits)
  show "dspec ?P (case f of None \<Rightarrow> dret () | Some g \<Rightarrow> (case db_hot g of None \<Rightarrow> dret ()
        | Some old \<Rightarrow> persist (set_lane i \<lparr>db_content = old, db_hot = None\<rparr>)))
      (\<lambda>_ d. prepared s e d0 d \<and> settled (js @ [i]) d \<and> P d) E (prepared s e d0)"
  proof (cases f)
    case None
    with some show ?thesis unfolding dspec_def by blast
  next
    case (Some g)
    show ?thesis
    proof (cases "db_hot g")
      case None
      with Some show ?thesis by (auto intro: dspec_ret simp: settled_def)
    next
      case (Some old)
      with \<open>f = Some g\<close> put frame show ?thesis by (auto intro!: dspec_persist simp: settled_def)
    qed
  qed
qed

text \<open>
  What can still stop a restoration of a sound disk: an injected fault, or a scratch file that is there
  already. \<open>calm\<close> says that neither happens; \<open>free\<close> follows the scratch names that are still to be used.
\<close>

definition free :: "attempt \<Rightarrow> undo_record list \<Rightarrow> disk \<Rightarrow> bool" where
  "free a rs d \<longleftrightarrow> (\<forall>r \<in> set rs. restore_files d (ur_lane r, at_scratch a (ur_lane r)) = None)"

definition calm :: "attempt \<Rightarrow> bool" where
  "calm a \<longleftrightarrow> (\<forall>p. at_fault a p = None)"

lemma fault_not_calm: "(case at_fault a p of None \<Rightarrow> Inr () | Some e \<Rightarrow> Inl e) = Inl x \<Longrightarrow> \<not> calm a"
  by (auto simp: calm_def split: option.splits)

lemma settle_spec:
  assumes "i \<in> set (undo_lanes e)"
  shows "dspec (\<lambda>d. prepared s e d0 d \<and> settled js d \<and> (q \<longrightarrow> free a us d)) (settle_lane s i)
     (\<lambda>_ d. prepared s e d0 d \<and> settled (js @ [i]) d \<and> (q \<longrightarrow> free a us d)) (\<lambda>_ _. False) (prepared s e d0)"
  unfolding settle_lane_def
proof (rule dspec_bind [OF resolve_spec [OF assms]], simp add: free_def set_lane_def, rule dspec_try)
  fix d x
  assume P: "prepared s e d0 d \<and> settled (js @ [i]) d \<and> (q \<longrightarrow> free a us d)"
    and run: "(case lane_db d i of None \<Rightarrow> Inl (Raised ''OperationalError'')
       | Some f \<Rightarrow> (case st_image s (db_content f) of None \<Rightarrow> Inl (Raised ''DatabaseError'')
         | Some im \<Rightarrow> if im_journal_mode im = ''delete'' then Inr () else Inl (LaneError ''UNSUPPORTED_JOURNAL_MODE''))) = Inl x"
  from P obtain f where "lane_db d i = Some f" "db_hot f = None" unfolding settled_def by auto
  with P run prepared_openable [of s e d0 d i] assms show False
    by (auto simp: openable_def delete_mode_def split: option.splits if_splits)
qed

lemma restore_lane_spec:
  assumes r: "r \<in> set (ub_lanes (jr_body e))" and new: "ur_lane r \<notin> ur_lane ` set zs"
  shows "dspec (\<lambda>d. prepared s e d0 d \<and> settled (undo_lanes e) d \<and> restored e rs d \<and> (q \<longrightarrow> free a (r # zs) d))
     (restore_lane s a (jr_commit e) r)
     (\<lambda>_ d. prepared s e d0 d \<and> settled (undo_lanes e) d \<and> restored e (rs @ [r]) d \<and> (q \<longrightarrow> free a zs d))
     (\<lambda>_ d. prepared s e d0 d \<and> \<not> (q \<and> calm a)) (prepared s e d0)" (is "dspec ?Pre _ ?Q ?E ?C")
proof -
  let ?i = "ur_lane r" and ?k = "(ur_lane r, at_scratch a (ur_lane r))"
  let ?P = "\<lambda>d. prepared s e d0 d \<and> settled (undo_lanes e) d \<and> restored e rs d \<and> (q \<longrightarrow> free a zs d)"
  have i: "?i \<in> set (undo_lanes e)" using r by (auto simp: undo_lanes_def)
  have scratch: "?P d \<Longrightarrow> ?P (set_restore ?k c d)" for c d
  proof -
    assume P: "?P d"
    then have "prepared s e d0 (set_restore ?k c d)" by (auto intro: prepared_other)
    moreover have "ur_lane x \<noteq> ?i" if "x \<in> set zs" for x using new imageI [OF that, of ur_lane] by metis
    then have "free a zs d \<Longrightarrow> free a zs (set_restore ?k c d)" by (simp add: free_def)
    ultimately show "?P (set_restore ?k c d)" using P by (auto simp: settled_def restored_def)
  qed
  have put: "?Q () (replace_lane ?k d)"
    if P: "?P d" and b: "backup_files d (jr_commit e, ?i) = Some b" and k: "restore_files d ?k = Some b" for b d
  proof -
    obtain f where f: "lane_db d ?i = Some f" "db_hot f = None"
      using P i unfolding settled_def by blast
    have db: "lane_db (replace_lane ?k d) = (lane_db d)(?i := Some \<lparr>db_content = b, db_hot = None\<rparr>)"
      and rf: "restore_files (replace_lane ?k d) = (restore_files d)(?k := None)"
      using k f by (simp_all add: replace_lane_def)
    have "copied s (Some b)" using prepared_openable [of s e d0 d ?i] P i b by simp
    then have "openable s (Some \<lparr>db_content = b, db_hot = None\<rparr>)" by (simp add: openable_def copied_def)
    then have "prepared s e d0 (replace_lane ?k d)"
      by (intro prepared_cong [of s e d0 d "replace_lane ?k d"]) (use P i in \<open>auto simp: db\<close>)
    moreover have "settled (undo_lanes e) (replace_lane ?k d)"
      using P db by (auto simp: settled_def)
    moreover have "restored e (rs @ [r]) (replace_lane ?k d)"
      using P b db by (auto simp: restored_def)
    moreover have "q \<longrightarrow> free a zs (replace_lane ?k d)" using P rf by (auto simp: free_def)
    ultimately show ?thesis by simp
  qed
  have hash: "st_hash s b = ur_before r"
    if "prepared s e d0 d" "backup_files d (jr_commit e, ?i) = Some b" for b d
    using prepared_backup [OF that(1) r] that(2) by (metis option.inject)
  show ?thesis
    unfolding restore_lane_def Let_def copy_new_def
  proof (rule dspec_bind_try)
    fix d x assume "?Pre d" "(case backup_files d (jr_commit e, ?i) of None \<Rightarrow> Inl (Raised ''FileNotFoundError'') | Some b \<Rightarrow> Inr b) = Inl x"
    with prepared_openable [of s e d0 d ?i] i show "?E x d" by (auto simp: copied_def split: option.splits)
  next
    fix b
    show "dspec (\<lambda>d. ?Pre d \<and> (case backup_files d (jr_commit e, ?i) of None \<Rightarrow> Inl (Raised ''FileNotFoundError'') | Some b \<Rightarrow> Inr b) = Inr b)
      (dbind (dbind (dget (\<lambda>d. restore_files d ?k)) (\<lambda>t.
          dbind (dcheck (t = None) (Raised ''FileExistsError'')) (\<lambda>_.
          dbind (persist (set_restore ?k (st_torn s [] b))) (\<lambda>_. persist (set_restore ?k b))))) (\<lambda>_.
        dbind (dcheck (st_hash s b = ur_before r) (LaneError ''RECOVERY_COPY_FAILED'')) (\<lambda>_.
        dbind (persist (replace_lane ?k)) (\<lambda>_. checkpoint_at a (''restored:'' @ ?i))))) ?Q ?E ?C"
    proof (rule dspec_bind [where R = "\<lambda>_ d. ?P d \<and> backup_files d (jr_commit e, ?i) = Some b \<and> restore_files d ?k = Some b"])
      let ?B = "\<lambda>d. ?P d \<and> backup_files d (jr_commit e, ?i) = Some b"
      show "dspec (\<lambda>d. ?Pre d \<and> (case backup_files d (jr_commit e, ?i) of None \<Rightarrow> Inl (Raised ''FileNotFoundError'') | Some b \<Rightarrow> Inr b) = Inr b)
        (dbind (dget (\<lambda>d. restore_files d ?k)) (\<lambda>t.
          dbind (dcheck (t = None) (Raised ''FileExistsError'')) (\<lambda>_.
          dbind (persist (set_restore ?k (st_torn s [] b))) (\<lambda>_. persist (set_restore ?k b)))))
        (\<lambda>_ d. ?P d \<and> backup_files d (jr_commit e, ?i) = Some b \<and> restore_files d ?k = Some b) ?E ?C"
        by (rule dspec_bind_get, rule dspec_bind_check, force simp: free_def,
            rule dspec_bind_persist [where R = ?B], blast,
            use scratch in \<open>force simp: free_def split: option.splits\<close>,
            rule dspec_persist, blast, use scratch in force)
      show "dspec (\<lambda>d. ?P d \<and> backup_files d (jr_commit e, ?i) = Some b \<and> restore_files d ?k = Some b)
        (dbind (dcheck (st_hash s b = ur_before r) (LaneError ''RECOVERY_COPY_FAILED'')) (\<lambda>_.
          dbind (persist (replace_lane ?k)) (\<lambda>_. checkpoint_at a (''restored:'' @ ?i)))) ?Q ?E ?C"
        unfolding checkpoint_at_def
        by (rule dspec_bind_check, use hash in blast, rule dspec_bind_persist [where R = "?Q ()"], blast,
            use put in blast, rule dspec_lift) (auto dest: fault_not_calm)
    qed
  qed
qed

lemma restore_spec:
  "dspec (\<lambda>d. prepared s e d0 d \<and> (q \<longrightarrow> free a (ub_lanes (jr_body e)) d)) (restore s a (jr_commit e) (jr_body e))
     (\<lambda>_ d. prepared s e d0 d \<and> restored e (ub_lanes (jr_body e)) d)
     (\<lambda>_ d. prepared s e d0 d \<and> \<not> (q \<and> calm a)) (prepared s e d0)" (is "dspec ?Pre _ ?Q ?E ?C")
proof (rule dspec_assume [where A = "distinct (undo_lanes e)"])
  let ?us = "ub_lanes (jr_body e)"
  show "distinct (undo_lanes e)" if "?Pre d" for d
  proof -
    have "evidence_ok s e d" using that by (blast intro: prepared_evidence)
    then show ?thesis unfolding evidence_ok_def undo_lanes_def
      using validate_undo_records undo_records_ok_distinct by blast
  qed
  assume distinct: "distinct (undo_lanes e)"
  have settle: "dspec ?Pre (deach (\<lambda>r. settle_lane s (ur_lane r)) ?us)
      (\<lambda>_ d. prepared s e d0 d \<and> settled (undo_lanes e) d \<and> (q \<longrightarrow> free a ?us d)) ?E ?C"
    by (rule dspec_weaken [OF dspec_each [where I = "\<lambda>ys d. prepared s e d0 d \<and> settled (map ur_lane ys) d \<and> (q \<longrightarrow> free a ?us d)"
          and E = "\<lambda>_ _. False"]])
      (use settle_spec in \<open>auto simp: undo_lanes_def settled_def [of "[]"]\<close>)
  have put: "dspec (\<lambda>d. prepared s e d0 d \<and> settled (undo_lanes e) d \<and> (q \<longrightarrow> free a ?us d)) (deach (restore_lane s a (jr_commit e)) ?us) ?Q ?E ?C"
  proof (rule dspec_weaken [OF dspec_each [where xs = ?us and I = "\<lambda>ys d. prepared s e d0 d \<and> settled (undo_lanes e) d \<and> restored e ys d
      \<and> (q \<longrightarrow> free a (drop (length ys) ?us) d)"]])
    fix ys r zs assume us: "?us = ys @ r # zs"
    with distinct have "ur_lane r \<notin> ur_lane ` set zs" by (simp add: undo_lanes_def)
    from restore_lane_spec [OF _ this, of e s d0 ys q a] us
    show "dspec (\<lambda>d. prepared s e d0 d \<and> settled (undo_lanes e) d \<and> restored e ys d \<and> (q \<longrightarrow> free a (drop (length ys) ?us) d))
      (restore_lane s a (jr_commit e) r)
      (\<lambda>_ d. prepared s e d0 d \<and> settled (undo_lanes e) d \<and> restored e (ys @ [r]) d \<and> (q \<longrightarrow> free a (drop (length (ys @ [r])) ?us) d)) ?E ?C"
      by simp
  qed (auto simp: restored_def)
  have evidence: "validate_undo s (jr_commit e) (jr_body e) d = Inr ()" "rt_head (root_db d) = ub_root (jr_body e)"
    "rt_heads (root_db d) = ub_heads (jr_body e)" if "?Pre d" for d
    using that prepared_evidence by (auto simp: evidence_ok_def)
  show "dspec ?Pre (restore s a (jr_commit e) (jr_body e)) ?Q ?E ?C"
    unfolding restore_def
    by (rule dspec_bind_try, use evidence in force, rule dspec_bind_try, use evidence in force,
        rule dspec_bind [OF dspec_pre [OF settle] put]) blast
qed

section \<open>Recovery\<close>

definition kept :: "site \<Rightarrow> disk \<Rightarrow> disk \<Rightarrow> bool" where
  "kept s d0 d \<longleftrightarrow> disk_ok s d \<and> same_view d0 d"

lemma prepared_kept: "prepared s e d0 d \<Longrightarrow> kept s d0 d"
  by (simp add: prepared_def kept_def)

lemma idle_kept: "idle s d0 d \<Longrightarrow> kept s d0 d"
  by (simp add: idle_def kept_def)

lemma kept_cases: "disk_ok s d \<Longrightarrow> idle s d d \<or> (\<exists>e. prepared s e d d)"
  by (auto simp: disk_ok_def idle_def prepared_def split: list.splits)

lemma pending_marked:
  assumes "pending rt = [e]"
  shows "pending (mark_aborted (jr_commit e) t rt) = []"
proof -
  have "r = e" if "r \<in> set (rt_journal rt)" "jr_phase r = Prepared" for r
  proof -
    from that have "r \<in> set (pending rt)" by (simp add: pending_def)
    with assms show ?thesis by simp
  qed
  then show ?thesis by (auto simp: pending_def mark_aborted_def filter_empty_conv set_update_where split: if_splits)
qed

lemma mark_aborted_fields [simp]:
  "rt_head (mark_aborted c t rt) = rt_head rt" "rt_heads (mark_aborted c t rt) = rt_heads rt"
  "rt_catalog (mark_aborted c t rt) = rt_catalog rt"
  "map jr_commit (rt_journal (mark_aborted c t rt)) = map jr_commit (rt_journal rt)"
  by (simp_all add: mark_aborted_def map_update_where)

lemma lane_clean_cong:
  "rt_heads (root_db d') = rt_heads (root_db d) \<Longrightarrow> lane_db d' i = lane_db d i \<Longrightarrow> lane_clean s d' i = lane_clean s d i"
  by (simp add: lane_clean_def published_head_ok_def split: option.split)

lemma restored_view:
  assumes "prepared s e d0 d" "restored e (ub_lanes (jr_body e)) d"
  shows "map_option db_content (lane_db d i) = lane_view d i"
proof (cases "i \<in> set (undo_lanes e)")
  case True
  then obtain r where "r \<in> set (ub_lanes (jr_body e))" "i = ur_lane r" by (auto simp: undo_lanes_def)
  with assms(2) obtain b where "backup_files d (jr_commit e, i) = Some b" "lane_db d i = Some \<lparr>db_content = b, db_hot = None\<rparr>"
    unfolding restored_def by blast
  with True assms(1) show ?thesis by (simp add: lane_view_def prepared_def)
next
  case False
  with assms(1) show ?thesis by (simp add: lane_view_def prepared_def)
qed

lemma restored_clean:
  assumes "prepared s e d0 d" "restored e (ub_lanes (jr_body e)) d" "i \<in> lanes_of d"
  shows "lane_clean s d i"
proof (cases "i \<in> set (undo_lanes e)")
  case True
  then obtain r where r: "r \<in> set (ub_lanes (jr_body e))" "i = ur_lane r" by (auto simp: undo_lanes_def)
  from prepared_backup [OF assms(1) r(1)] obtain b where
    b: "backup_files d (jr_commit e, i) = Some b" "published_head_ok s (root_db d) i b"
    using r(2) by blast
  from assms(2) r b(1) have "lane_db d i = Some \<lparr>db_content = b, db_hot = None\<rparr>"
    unfolding restored_def by fastforce
  with b(2) show ?thesis by (simp add: lane_clean_def)
next
  case False
  with assms(1,3) show ?thesis by (auto simp: prepared_def disk_ok_def)
qed

lemma mark_aborted_idle:
  assumes "prepared s e d0 d" "restored e (ub_lanes (jr_body e)) d"
  shows "idle s d0 (d\<lparr>root_db := mark_aborted (jr_commit e) t (root_db d)\<rparr>)" (is "idle s d0 ?d")
proof -
  have p: "pending (root_db d) = [e]" "disk_ok s d" "same_view d0 d" using assms(1) by (simp_all add: prepared_def)
  have q: "pending (root_db ?d) = []" using pending_marked [OF p(1)] by simp
  have lanes: "lanes_of ?d = lanes_of d" by (simp add: lanes_of_def)
  have view: "lane_view ?d i = lane_view d i" for i
    using restored_view [OF assms] q by (simp add: lane_view_def [of ?d])
  have "lane_clean s ?d i" if "i \<in> lanes_of d" for i
    using restored_clean [OF assms that] lane_clean_cong [of ?d d i s] by simp
  with p(2) q lanes have "disk_ok s ?d" by (auto simp: disk_ok_def)
  with p(3) q lanes view show ?thesis by (simp add: idle_def same_view_def)
qed

text \<open>
  A recovery at any point of time keeps what was published, whether it completes, is refused or is cut
  off; when it completes, nothing is pending any more.
\<close>

lemma recover_spec:
  "dspec (\<lambda>d. d = d0 \<and> disk_ok s d) (recover_transactions s a) (\<lambda>_. idle s d0) (\<lambda>_. kept s d0) (kept s d0)"
proof -
  have kept: "d = d0 \<and> disk_ok s d \<Longrightarrow> kept s d0 d" for d by (auto simp: kept_def)
  have one: "dspec (prepared s e d0) (dbind (restore s a (jr_commit e) (jr_body e)) (\<lambda>_.
      dbind (commit_root (mark_aborted (jr_commit e) (at_now a))) (\<lambda>_.
      dget (\<lambda>d. [(jr_commit e, rh_revision (rt_head (root_db d)))])))) (\<lambda>_. idle s d0) (\<lambda>_. kept s d0) (kept s d0)" for e
  proof (rule dspec_bind [where R = "\<lambda>_ d. prepared s e d0 d \<and> restored e (ub_lanes (jr_body e)) d"])
    show "dspec (prepared s e d0) (restore s a (jr_commit e) (jr_body e))
      (\<lambda>_ d. prepared s e d0 d \<and> restored e (ub_lanes (jr_body e)) d) (\<lambda>_. kept s d0) (kept s d0)"
      by (rule dspec_weaken [OF restore_spec [where q = False]]) (auto intro: prepared_kept)
    show "dspec (\<lambda>d. prepared s e d0 d \<and> restored e (ub_lanes (jr_body e)) d)
      (dbind (commit_root (mark_aborted (jr_commit e) (at_now a))) (\<lambda>_.
        dget (\<lambda>d. [(jr_commit e, rh_revision (rt_head (root_db d)))]))) (\<lambda>_. idle s d0) (\<lambda>_. kept s d0) (kept s d0)"
      unfolding commit_root_def
      by (rule dspec_bind_persist [where R = "idle s d0"]) (auto intro: prepared_kept mark_aborted_idle dspec_get)
  qed
  show ?thesis
    unfolding recover_transactions_def
  proof (rule dspec_bind_lift, use kept in blast, rule dspec_bind_try, use kept in blast, rule dspec_bind_get)
    fix es
    show "dspec (\<lambda>d. ((d = d0 \<and> disk_ok s d) \<and> check_commit a d = Inr u) \<and> pending (root_db d) = es)
      (case es of [] \<Rightarrow> dret [] | [e] \<Rightarrow> dbind (restore s a (jr_commit e) (jr_body e)) (\<lambda>_.
         dbind (commit_root (mark_aborted (jr_commit e) (at_now a))) (\<lambda>_.
         dget (\<lambda>d. [(jr_commit e, rh_revision (rt_head (root_db d)))])))
       | _ \<Rightarrow> dlift (Inl (LaneError ''RECOVERY_JOURNAL_CONFLICT'')))
      (\<lambda>_. idle s d0) (\<lambda>_. kept s d0) (kept s d0)" for u
    proof (cases es rule: remdups_adj.cases)
      case 1
      then show ?thesis by (auto intro: dspec_ret simp: idle_def)
    next
      case (2 e)
      then show ?thesis by (auto intro!: dspec_pre [OF one] simp: prepared_def)
    next
      case (3 e e' es')
      then show ?thesis by (auto intro!: dspec_lift simp: disk_ok_def)
    qed
  qed
qed

end
