(* ===== verification/Lane_Prepare.thy ===== *)
theory Lane_Prepare
  imports Lane_Laws
begin

text \<open>
  The first half of the coordinated commit, up to the journal row: it creates missing lanes and copies
  the selected ones, and nothing that is published changes. Its last write makes the commit a prepared
  one that the copies can undo.
\<close>

section \<open>Preparing changes nothing that is published\<close>

text \<open>Lanes that were added hold the content of a new database of a selected definition.\<close>

definition added :: "site \<Rightarrow> disk \<Rightarrow> lane_definition list \<Rightarrow> disk \<Rightarrow> bool" where
  "added s d0 lds d \<longleftrightarrow> (\<forall>i \<in> lanes_of d - lanes_of d0. \<exists>ld \<in> set lds. canonical_lane_id ld = i
     \<and> lane_view d i = Some (st_new_database s ld))"

lemma idle_frame:
  assumes "idle s d0 d" "root_db d' = root_db d" "\<And>i. i \<in> lanes_of d \<Longrightarrow> lane_db d' i = lane_db d i"
  shows "idle s d0 d' \<and> (added s d0 lds d \<longrightarrow> added s d0 lds d')"
proof -
  have p: "pending (root_db d) = []" and lanes: "lanes_of d' = lanes_of d"
    using assms(1,2) by (simp_all add: idle_def lanes_of_def)
  have view: "i \<in> lanes_of d \<Longrightarrow> lane_view d' i = lane_view d i" for i
    using p assms(2,3) by (simp add: lane_view_def)
  have "i \<in> lanes_of d \<Longrightarrow> lane_clean s d' i = lane_clean s d i" for i
    using assms(2,3) by (intro lane_clean_cong) simp_all
  then have "idle s d0 d'"
    using assms(1,2) lanes view p by (auto simp: idle_def disk_ok_def same_view_def)
  then show ?thesis using lanes view by (auto simp: added_def)
qed

lemma idle_set_lane:
  "idle s d0 d \<and> added s d0 lds d \<Longrightarrow> i \<notin> lanes_of d \<Longrightarrow> idle s d0 (set_lane i f d) \<and> added s d0 lds (set_lane i f d)"
proof -
  assume *: "idle s d0 d \<and> added s d0 lds d" "i \<notin> lanes_of d"
  then have "j \<in> lanes_of d \<Longrightarrow> lane_db (set_lane i f d) j = lane_db d j" for j by auto
  with * idle_frame [of s d0 d "set_lane i f d" lds] show ?thesis by simp
qed

lemma idle_catalogue:
  assumes P: "idle s d0 d \<and> added s d0 lds d" and ld: "ld \<in> set lds" "i = canonical_lane_id ld" "i \<notin> lanes_of d"
    and db: "lane_db d i = Some \<lparr>db_content = st_new_database s ld, db_hot = None\<rparr>"
    and d': "d' = d\<lparr>root_db := (root_db d)\<lparr>rt_catalog := rt_catalog (root_db d) @
      [\<lparr>ca_lane = i, ca_kind = k, ca_path = p\<rparr>]\<rparr>\<rparr>"
  shows "idle s d0 d' \<and> added s d0 lds d'"
proof -
  have q: "pending (root_db d) = []" "pending (root_db d') = []" using P d' by (simp_all add: idle_def pending_def)
  have lanes: "lanes_of d' = insert i (lanes_of d)" using d' by (auto simp: lanes_of_def)
  have view: "lane_view d' j = lane_view d j" for j using q d' by (simp add: lane_view_def)
  have "lh_lane ` set (rt_heads (root_db d)) \<subseteq> lanes_of d" using P by (simp add: idle_def disk_ok_def)
  then have "lane_head_of i (rt_heads (root_db d)) = None"
    using ld(3) by (auto simp: lane_head_of_def find_None_iff)
  then have "lane_clean s d' i" using db d' by (simp add: lane_clean_def published_head_ok_def)
  moreover have "lane_clean s d' j = lane_clean s d j" for j using d' by (intro lane_clean_cong) simp_all
  ultimately have "disk_ok s d'" using P q lanes d' by (auto simp: idle_def disk_ok_def)
  moreover have "same_view d0 d'" using P lanes view d' by (auto simp: idle_def same_view_def)
  moreover have "lane_view d' i = Some (st_new_database s ld)" using db view q by (simp add: lane_view_def)
  ultimately show ?thesis using q P ld lanes view by (auto simp: idle_def added_def)
qed

lemma catalogued_None: "catalogued i (root_db d) = None \<longleftrightarrow> i \<notin> lanes_of d"
  by (auto simp: catalogued_def lanes_of_def find_None_iff)

lemma initialize_spec:
  assumes "ld \<in> set lds"
  shows "dspec (\<lambda>d. idle s d0 d \<and> added s d0 lds d) (initialize_lane s ld)
    (\<lambda>_ d. idle s d0 d \<and> added s d0 lds d) (\<lambda>_. idle s d0) (idle s d0)"
proof -
  let ?i = "canonical_lane_id ld" and ?P = "\<lambda>d. idle s d0 d \<and> added s d0 lds d"
  let ?new = "\<lparr>db_content = st_new_database s ld, db_hot = None\<rparr>"
  have create: "dspec (\<lambda>d. ?P d \<and> catalogued ?i (root_db d) = None)
     (dbind (dget (\<lambda>d. lane_db d ?i)) (\<lambda>f.
         dbind (dcheck (f = None) (LaneError ''UNREGISTERED_LANE_DATABASE'')) (\<lambda>_.
         dbind (persist (set_lane ?i \<lparr>db_content = st_torn s [] (st_new_database s ld), db_hot = None\<rparr>)) (\<lambda>_.
         dbind (persist (set_lane ?i ?new)) (\<lambda>_.
         commit_root (\<lambda>rt. rt\<lparr>rt_catalog := rt_catalog rt @
           [\<lparr>ca_lane = ?i, ca_kind = lane_kind ld, ca_path = database_relative_path ld\<rparr>]\<rparr>))))))
     (\<lambda>_. ?P) (\<lambda>_. idle s d0) (idle s d0)"
    unfolding commit_root_def catalogued_None
    by (rule dspec_bind_get, rule dspec_bind_check, simp,
        rule dspec_bind_persist [where R = "\<lambda>d. ?P d \<and> ?i \<notin> lanes_of d"], simp,
        use idle_set_lane in \<open>force simp: lanes_of_def\<close>,
        rule dspec_bind_persist [where R = "\<lambda>d. ?P d \<and> ?i \<notin> lanes_of d \<and> lane_db d ?i = Some ?new"], simp,
        use idle_set_lane in \<open>force simp: lanes_of_def\<close>,
        rule dspec_persist, simp, use idle_catalogue [OF _ assms refl] in blast)
  show ?thesis
    unfolding initialize_lane_def Let_def
  proof (rule dspec_bind_try, simp, rule dspec_bind_get)
    fix found u
    show "dspec (\<lambda>d. (?P d \<and> project_snapshot d = Inr u) \<and> catalogued ?i (root_db d) = found)
      (case found of Some r \<Rightarrow> dcheck (ca_path r = database_relative_path ld \<and> ca_kind r = lane_kind ld) (LaneError ''LANE_BINDING_MISMATCH'')
       | None \<Rightarrow> dbind (dget (\<lambda>d. lane_db d ?i)) (\<lambda>f.
         dbind (dcheck (f = None) (LaneError ''UNREGISTERED_LANE_DATABASE'')) (\<lambda>_.
         dbind (persist (set_lane ?i \<lparr>db_content = st_torn s [] (st_new_database s ld), db_hot = None\<rparr>)) (\<lambda>_.
         dbind (persist (set_lane ?i ?new)) (\<lambda>_.
         commit_root (\<lambda>rt. rt\<lparr>rt_catalog := rt_catalog rt @
           [\<lparr>ca_lane = ?i, ca_kind = lane_kind ld, ca_path = database_relative_path ld\<rparr>]\<rparr>))))))
      (\<lambda>_. ?P) (\<lambda>_. idle s d0) (idle s d0)"
    proof (cases found)
      case None
      then show ?thesis by (auto intro: dspec_pre [OF create])
    qed (auto intro: dspec_check)
  qed
qed

text \<open>
  The copies: every selected lane is backed up by its content, and a copy that was made stays, because
  the next one must not find its target.
\<close>

definition backed_up :: "site \<Rightarrow> string \<Rightarrow> undo_record list \<Rightarrow> disk \<Rightarrow> bool" where
  "backed_up s c rs d \<longleftrightarrow> (\<forall>r \<in> set rs. \<exists>t. lane_db d (ur_lane r) = Some \<lparr>db_content = t, db_hot = None\<rparr>
     \<and> backup_files d (c, ur_lane r) = Some t \<and> delete_mode s t)"

definition preparing :: "site \<Rightarrow> disk \<Rightarrow> lane_definition list \<Rightarrow> disk \<Rightarrow> bool" where
  "preparing s d0 lds d \<longleftrightarrow> idle s d0 d \<and> added s d0 lds d \<and> canonical_lane_id ` set lds \<subseteq> lanes_of d"

lemma preparing_frame:
  "preparing s d0 lds d \<Longrightarrow> root_db d' = root_db d \<Longrightarrow> lane_db d' = lane_db d \<Longrightarrow> preparing s d0 lds d'"
  using idle_frame [of s d0 d d' lds] by (simp add: preparing_def lanes_of_def)

lemma preparing_idle: "preparing s d0 lds d \<Longrightarrow> idle s d0 d"
  by (simp add: preparing_def)

lemma preparing_clean:
  assumes "preparing s d0 lds d" "ld \<in> set lds"
  obtains t where "lane_db d (canonical_lane_id ld) = Some \<lparr>db_content = t, db_hot = None\<rparr>"
proof -
  have "lane_clean s d (canonical_lane_id ld)"
    using assms by (auto simp: preparing_def idle_def disk_ok_def)
  then obtain f where "lane_db d (canonical_lane_id ld) = Some f" "db_hot f = None"
    by (auto simp: lane_clean_def split: option.splits)
  with that [of "db_content f"] show ?thesis by simp
qed

lemma open_spec:
  assumes "ld \<in> set lds"
  shows "dspec (\<lambda>d. preparing s d0 lds d \<and> backed_up s c rs d) (open_lane s ld)
    (\<lambda>t d. preparing s d0 lds d \<and> backed_up s c rs d \<and> delete_mode s t
       \<and> lane_db d (canonical_lane_id ld) = Some \<lparr>db_content = t, db_hot = None\<rparr>)
    (\<lambda>_. idle s d0) (idle s d0)"
proof -
  let ?i = "canonical_lane_id ld" and ?P = "\<lambda>d. preparing s d0 lds d \<and> backed_up s c rs d"
  have clean: "?P d \<Longrightarrow> lane_db d ?i = None \<or> (\<exists>f. lane_db d ?i = Some f \<and> db_hot f = None)" for d
    by (metis assms database_file.select_convs(2) preparing_clean)
  have resolve: "dspec ?P (resolve_journal ?i) (\<lambda>_. ?P) (\<lambda>_. idle s d0) (idle s d0)"
    unfolding resolve_journal_def
  proof (rule dspec_bind_get)
    fix f
    show "dspec (\<lambda>d. ?P d \<and> lane_db d ?i = f) (case f of None \<Rightarrow> dret () | Some file \<Rightarrow> (case db_hot file of
        None \<Rightarrow> dret () | Some old \<Rightarrow> persist (set_lane ?i \<lparr>db_content = old, db_hot = None\<rparr>)))
      (\<lambda>_. ?P) (\<lambda>_. idle s d0) (idle s d0)"
    proof (cases "f = None \<or> (\<exists>file. f = Some file \<and> db_hot file = None)")
      case False
      then have "\<not> (?P d \<and> lane_db d ?i = f)" for d using clean by blast
      then show ?thesis unfolding dspec_def by blast
    qed (auto intro: dspec_ret)
  qed
  show ?thesis
    unfolding open_lane_def Let_def
  proof (rule dspec_bind [OF resolve], rule dspec_try, blast intro: preparing_idle)
    fix d t
    assume P: "?P d" and run: "(case lane_db d ?i of None \<Rightarrow> Inl (Raised ''OperationalError'')
      | Some f \<Rightarrow> if \<not> identity_ok s ld (db_content f) then Inl (LaneError ''LANE_IDENTITY_MISMATCH'')
          else (case st_image s (db_content f) of None \<Rightarrow> Inl (Raised ''DatabaseError'')
            | Some im \<Rightarrow> if im_journal_mode im = ''delete'' then Inr (db_content f)
                else Inl (LaneError ''UNSUPPORTED_JOURNAL_MODE''))) = Inr t"
    from P have "preparing s d0 lds d" by simp
    then obtain u where "lane_db d ?i = Some \<lparr>db_content = u, db_hot = None\<rparr>"
      by (rule preparing_clean [OF _ assms])
    with P run show "preparing s d0 lds d \<and> backed_up s c rs d \<and> delete_mode s t \<and> lane_db d ?i = Some \<lparr>db_content = t, db_hot = None\<rparr>"
      by (simp add: delete_mode_def split: if_splits option.splits)
  qed
qed

lemma backup_spec:
  assumes "ld \<in> set lds"
  shows "dspec (\<lambda>d. preparing s d0 lds d \<and> backed_up s (at_commit a) rs d) (backup_lane s a ld)
    (\<lambda>r d. preparing s d0 lds d \<and> backed_up s (at_commit a) (rs @ [r]) d \<and> ur_lane r = canonical_lane_id ld)
    (\<lambda>_. idle s d0) (idle s d0)"
proof -
  let ?i = "canonical_lane_id ld" and ?k = "(at_commit a, canonical_lane_id ld)"
  let ?P = "\<lambda>t d. preparing s d0 lds d \<and> backed_up s (at_commit a) rs d \<and> delete_mode s t \<and> lane_db d ?i = Some \<lparr>db_content = t, db_hot = None\<rparr>"
  have put: "?P t d \<and> ?i \<notin> ur_lane ` set rs \<Longrightarrow> ?P t (set_backup ?k u d)" for t u d
    by (auto simp: backed_up_def image_iff intro: preparing_frame)
  have copy: "dspec (?P t) (copy_new s (\<lambda>d. backup_files d ?k) (set_backup ?k) t)
     (\<lambda>_ d. ?P t d \<and> backup_files d ?k = Some t) (\<lambda>_. idle s d0) (idle s d0)" for t
    unfolding copy_new_def
  proof (rule dspec_bind_get, rule dspec_bind_check)
    fix f :: "string option"
    assume "f = None"
    show "dspec (\<lambda>d. ?P t d \<and> backup_files d ?k = f)
      (dbind (persist (set_backup ?k (st_torn s [] t))) (\<lambda>_. persist (set_backup ?k t)))
      (\<lambda>_ d. ?P t d \<and> backup_files d ?k = Some t) (\<lambda>_. idle s d0) (idle s d0)"
      by (rule dspec_bind_persist [where R = "\<lambda>d. ?P t d \<and> ?i \<notin> ur_lane ` set rs"])
        (use put \<open>f = None\<close> in \<open>force simp: backed_up_def preparing_idle intro!: dspec_persist\<close>)+
  qed (blast intro: preparing_idle)
  show ?thesis
    unfolding backup_lane_def Let_def
    by (rule dspec_bind [OF open_spec [OF assms]], rule dspec_bind [OF copy], rule dspec_ret)
      (auto simp: backed_up_def)
qed

section \<open>The prepared commit\<close>

definition started :: "site \<Rightarrow> disk \<Rightarrow> lane_definition list \<Rightarrow> journal_row \<Rightarrow> disk \<Rightarrow> bool" where
  "started s d0 lds e d \<longleftrightarrow> undo_lanes e = map canonical_lane_id lds \<and> added s d0 lds d
     \<and> (\<forall>i \<in> set (undo_lanes e). \<exists>t. lane_db d i = Some \<lparr>db_content = t, db_hot = None\<rparr> \<and> lane_view d i = Some t
         \<and> delete_mode s t)"

lemma journal_prepared:
  assumes P: "preparing s d0 lds d" "backed_up s c rs d" and lanes: "map ur_lane rs = map canonical_lane_id lds"
    and e: "e = \<lparr>jr_commit = c, jr_phase = Prepared, jr_body = b, jr_created = t, jr_updated = u\<rparr>"
    and b: "b = prepared_body s a (root_db d) rs" "validate_undo s c b d = Inr ()"
    and fresh: "c \<notin> jr_commit ` set (rt_journal (root_db d))"
    and d': "d' = d\<lparr>root_db := (root_db d)\<lparr>rt_journal := rt_journal (root_db d) @ [e]\<rparr>\<rparr>"
  shows "prepared s e d0 d' \<and> started s d0 lds e d'"
proof -
  have idle: "idle s d0 d" "added s d0 lds d" "canonical_lane_id ` set lds \<subseteq> lanes_of d"
    using P(1) by (simp_all add: preparing_def)
  have q: "pending (root_db d) = []" "pending (root_db d') = [e]"
    using idle(1) d' e by (simp_all add: idle_def pending_def)
  have lanes': "lanes_of d' = lanes_of d" and undo: "undo_lanes e = map canonical_lane_id lds"
    using d' e b(1) lanes by (simp_all add: lanes_of_def undo_lanes_def prepared_body_def)
  have copy: "\<exists>t. lane_db d i = Some \<lparr>db_content = t, db_hot = None\<rparr> \<and> backup_files d (c, i) = Some t \<and> delete_mode s t"
    if i: "i \<in> set (undo_lanes e)" for i
  proof -
    have "undo_lanes e = map ur_lane rs" using undo lanes by simp
    with i obtain r where "r \<in> set rs" "i = ur_lane r" by auto
    with P(2) show ?thesis unfolding backed_up_def by blast
  qed
  have view: "lane_view d' i = lane_view d i" for i
  proof (cases "i \<in> set (undo_lanes e)")
    case True
    from copy [OF this] show ?thesis using True q d' e by (auto simp: lane_view_def)
  qed (use q d' e in \<open>simp add: lane_view_def\<close>)
  have "set (undo_lanes e) \<subseteq> lanes_of d'" using undo idle(3) lanes' by auto
  moreover have "openable s (lane_db d' i) \<and> copied s (backup_files d' (jr_commit e, i))" if i: "i \<in> set (undo_lanes e)" for i
    using copy [OF i] d' e by (auto simp: openable_def copied_def)
  ultimately have "evidence_ok s e d'"
    using b e d' validate_undo_cong [of d' d s c b] by (simp add: evidence_ok_def prepared_body_def)
  moreover have "lane_clean s d' i = lane_clean s d i" for i using d' by (intro lane_clean_cong) simp_all
  ultimately have "disk_ok s d'"
    using idle(1) q d' e fresh lanes' by (auto simp: idle_def disk_ok_def)
  moreover have "same_view d0 d'" using idle(1) lanes' view d' by (simp add: idle_def same_view_def)
  moreover have "started s d0 lds e d'"
    unfolding started_def
  proof (intro conjI ballI)
    show "undo_lanes e = map canonical_lane_id lds" by (rule undo)
    show "added s d0 lds d'" using idle(2) lanes' view by (simp add: added_def)
    fix i assume i: "i \<in> set (undo_lanes e)"
    from copy [OF this] obtain t where "lane_db d i = Some \<lparr>db_content = t, db_hot = None\<rparr>" "delete_mode s t" by blast
    moreover from this have "lane_view d i = Some t" using q by (simp add: lane_view_def)
    ultimately show "\<exists>t. lane_db d' i = Some \<lparr>db_content = t, db_hot = None\<rparr> \<and> lane_view d' i = Some t
      \<and> delete_mode s t" using view d' by simp
  qed
  ultimately show ?thesis using q by (simp add: prepared_def)
qed

text \<open>The lanes are found before they are copied.\<close>

lemma read_lane_catalogued: "read_lane s ld d = Inr c \<Longrightarrow> canonical_lane_id ld \<in> lanes_of d"
  using catalogued_None [of "canonical_lane_id ld" d]
  by (auto simp: read_lane_def Let_def run_simps split: option.splits)

lemma prepare_spec:
  "dspec (\<lambda>d. d = d0 \<and> disk_ok s d) (prepare s a lds)
     (\<lambda>b d. \<exists>e. prepared s e d0 d \<and> started s d0 lds e d \<and> jr_commit e = at_commit a \<and> jr_body e = b)
     (\<lambda>_. kept s d0) (kept s d0)"
proof -
  let ?P = "\<lambda>d. idle s d0 d \<and> added s d0 lds d" and ?R = "preparing s d0 lds" and ?E = "\<lambda>_. kept s d0" and ?C = "kept s d0"
  let ?Q = "\<lambda>b d. \<exists>e. prepared s e d0 d \<and> started s d0 lds e d \<and> jr_commit e = at_commit a \<and> jr_body e = b"
  have start: "(d = d0 \<and> disk_ok s d) \<and> rbind (project_snapshot d) f = Inr u \<Longrightarrow> ?P d" for d u f
    by (auto simp: idle_def added_def project_snapshot_def run_simps split: if_splits)
  have init: "dspec ?P (deach (initialize_lane s) lds) (\<lambda>_. ?P) ?E ?C"
    by (rule dspec_each_inv, rule dspec_weaken [OF initialize_spec]) (auto intro: idle_kept)
  have read: "dspec ?P (deach (\<lambda>ld. dtry (\<lambda>d. rbind (read_lane s ld d) (\<lambda>_. Inr ()))) lds) (\<lambda>_. ?R) ?E ?C"
    by (rule dspec_weaken [OF dspec_each [where I = "\<lambda>ys d. ?P d \<and> canonical_lane_id ` set ys \<subseteq> lanes_of d"]], rule dspec_try)
      (auto simp: preparing_def run_simps intro: idle_kept dest: read_lane_catalogued)
  have guard: "dspec ?R (deach (\<lambda>ld. dtry (g ld)) lds) (\<lambda>_. ?R) ?E ?C" for g :: "lane_definition \<Rightarrow> disk \<Rightarrow> unit result"
    by (rule dspec_each_inv, rule dspec_try) (auto intro: idle_kept preparing_idle)
  have copies: "dspec ?R (dcollect (backup_lane s a) lds)
      (\<lambda>rs d. ?R d \<and> backed_up s (at_commit a) rs d \<and> map ur_lane rs = map canonical_lane_id lds) ?E ?C"
  proof (rule dspec_pre [OF dspec_collect [where
      I = "\<lambda>ys rs d. ?R d \<and> backed_up s (at_commit a) rs d \<and> map ur_lane rs = map canonical_lane_id ys"]])
    fix ys ld zs rs assume "lds = ys @ ld # zs"
    then have "ld \<in> set lds" by simp
    have "dspec (\<lambda>d. ?R d \<and> backed_up s (at_commit a) rs d) (backup_lane s a ld)
      (\<lambda>r d. ?R d \<and> backed_up s (at_commit a) (rs @ [r]) d \<and> ur_lane r = canonical_lane_id ld) ?E ?C"
      by (rule dspec_weaken [OF backup_spec [OF \<open>ld \<in> set lds\<close>]]) (auto intro: idle_kept)
    from dspec_frame [OF this, of "map ur_lane rs = map canonical_lane_id ys"]
    show "dspec (\<lambda>d. ?R d \<and> backed_up s (at_commit a) rs d \<and> map ur_lane rs = map canonical_lane_id ys)
      (backup_lane s a ld) (\<lambda>r d. ?R d \<and> backed_up s (at_commit a) (rs @ [r]) d
        \<and> map ur_lane (rs @ [r]) = map canonical_lane_id (ys @ [ld])) ?E ?C"
      by (rule dspec_weaken) auto
  qed (auto simp: backed_up_def)
  have journal: "dspec (\<lambda>d. ?R d \<and> backed_up s (at_commit a) rs d \<and> map ur_lane rs = map canonical_lane_id lds)
     (dbind (dget (\<lambda>d. prepared_body s a (root_db d) rs)) (\<lambda>b.
     dbind (dtry (validate_undo s (at_commit a) b)) (\<lambda>_.
     dbind (dtry (\<lambda>d. if at_commit a \<in> set (map jr_commit (rt_journal (root_db d))) then Inl (Raised ''IntegrityError'')
         else Inr ())) (\<lambda>_.
     dbind (commit_root (\<lambda>rt. rt\<lparr>rt_journal := rt_journal rt @ [\<lparr>jr_commit = at_commit a, jr_phase = Prepared,
         jr_body = b, jr_created = at_now a, jr_updated = at_now a\<rparr>]\<rparr>)) (\<lambda>_.
     dret b))))) ?Q ?E ?C" for rs
  proof (rule dspec_bind_get, rule dspec_bind_try, blast intro: idle_kept preparing_idle,
      rule dspec_bind_try, blast intro: idle_kept preparing_idle, unfold commit_root_def)
    fix b u v
    let ?J = "\<lambda>d. (((?R d \<and> backed_up s (at_commit a) rs d \<and> map ur_lane rs = map canonical_lane_id lds)
        \<and> prepared_body s a (root_db d) rs = b) \<and> validate_undo s (at_commit a) b d = Inr u)
        \<and> (if at_commit a \<in> set (map jr_commit (rt_journal (root_db d))) then Inl (Raised ''IntegrityError'') else Inr ()) = Inr v"
    let ?e = "\<lparr>jr_commit = at_commit a, jr_phase = Prepared, jr_body = b, jr_created = at_now a, jr_updated = at_now a\<rparr>"
    have step: "?Q b (d\<lparr>root_db := (root_db d)\<lparr>rt_journal := rt_journal (root_db d) @ [?e]\<rparr>\<rparr>)" if "?J d" for d
    proof -
      have 1: "?R d" "backed_up s (at_commit a) rs d" "map ur_lane rs = map canonical_lane_id lds"
        "b = prepared_body s a (root_db d) rs" "validate_undo s (at_commit a) b d = Inr ()"
        using that by simp_all
      have 2: "at_commit a \<notin> jr_commit ` set (rt_journal (root_db d))"
        using that [THEN conjunct2] by (simp split: if_splits)
      from journal_prepared [OF 1(1-3) refl 1(4,5) 2 refl] show ?thesis by (intro exI [of _ ?e]) simp
    qed
    show "dspec ?J (dbind (persist (\<lambda>d. d\<lparr>root_db := (root_db d)\<lparr>rt_journal := rt_journal (root_db d) @ [?e]\<rparr>\<rparr>))
       (\<lambda>_. dret b)) ?Q ?E ?C"
      by (rule dspec_bind_persist [where R = "?Q b"], elim conjE, rule idle_kept, rule preparing_idle, assumption,
          rule step, assumption, rule dspec_ret)
  qed
  show ?thesis
    unfolding prepare_def
    by (rule dspec_bind_try, force simp: kept_def,
        rule dspec_bind [OF dspec_pre [OF init]], erule start, rule dspec_bind [OF read], rule dspec_bind [OF guard],
        rule dspec_bind_inv [OF dspec_try], blast intro: idle_kept preparing_idle, blast,
        rule dspec_bind [OF guard],
        rule dspec_bind_get, rule dspec_bind_check, blast intro: idle_kept preparing_idle,
        rule dspec_bind_persist [where R = ?R], blast intro: idle_kept preparing_idle, fastforce intro: preparing_frame,
        rule dspec_bind [OF copies journal])
qed

end
