(* ===== verification/Lane_Atomic.thy ===== *)
theory Lane_Atomic
  imports Lane_Prepare
begin

text \<open>
  The coordinated commit is atomic: from a sound disk, whatever its body does and wherever it raises or
  loses power, it leaves a sound disk on which either every published content is as before or the
  whole update is published.
\<close>

section \<open>The heads after a publication\<close>

lemma find_insort:
  "find P (insort_key f x xs) = (if P x \<and> (\<forall>y \<in> set xs. \<not> P y) then Some x
     else if P x then find P (insort_key f x xs) else find P xs)"
  by (induction xs) auto

lemma lane_head_of_put: "lane_head_of i (put_head h hs) = (if lh_lane h = i then Some h else lane_head_of i hs)"
proof -
  have "find (\<lambda>x. lh_lane x = i) (filter (\<lambda>x. lh_lane x \<noteq> j) hs) = find (\<lambda>x. lh_lane x = i) hs" if "i \<noteq> j" for j
    using that by (induction hs) auto
  then show ?thesis by (subst lane_head_of_def, subst put_head_def, subst find_insort) (auto simp: lane_head_of_def)
qed

lemma put_head_lanes: "lh_lane ` set (put_head h hs) \<subseteq> insert (lh_lane h) (lh_lane ` set hs)"
  by (auto simp: put_head_def set_insort_key)

lemma lane_head_of_fold:
  assumes "\<And>p. lh_lane (nh p) = fst p" "distinct (map fst ps)"
  shows "lane_head_of i (fold (\<lambda>p. put_head (nh p)) ps hs) = (case map_of ps i of Some h \<Rightarrow> Some (nh (i, h)) | None \<Rightarrow> lane_head_of i hs)"
  using assms(2)
proof (induction ps arbitrary: hs)
  case (Cons p ps)
  obtain j h where p: "p = (j, h)" by (cases p)
  have "map_of ps j = None" using Cons.prems p by (simp add: map_of_eq_None_iff)
  then show ?case using Cons p assms(1) by (auto simp: lane_head_of_put split: option.splits)
qed simp

lemma fold_put_lanes:
  assumes "\<And>p. lh_lane (nh p) = fst p"
  shows "lh_lane ` set (fold (\<lambda>p. put_head (nh p)) ps hs) \<subseteq> fst ` set ps \<union> lh_lane ` set hs"
proof (induction ps arbitrary: hs)
  case (Cons p ps)
  then show ?case using put_head_lanes [of "nh p" hs] assms by (fastforce simp: image_iff)
qed simp

lemma new_lane_head_lane [simp]: "lh_lane (new_lane_head s a b p) = fst p"
  by (simp add: new_lane_head_def)

section \<open>The update\<close>

text \<open>The contents the body of the commit starts from.\<close>

definition contents_before :: "site \<Rightarrow> disk \<Rightarrow> lane_definition list \<Rightarrow> (string \<times> string) list" where
  "contents_before s d0 lds = map (\<lambda>ld. (canonical_lane_id ld,
     if canonical_lane_id ld \<in> lanes_of d0 then (case lane_view d0 (canonical_lane_id ld) of Some t \<Rightarrow> t | None \<Rightarrow> [])
     else st_new_database s ld)) lds"

text \<open>
  \<open>updated\<close>: every selected lane has the content the body and \<open>PRAGMA optimize\<close> made of it, every other
  lane is as before, and the root is one revision further.
\<close>

definition updated :: "site \<Rightarrow> attempt \<Rightarrow> lane_definition list \<Rightarrow> disk \<Rightarrow> disk \<Rightarrow> bool" where
  "updated s a lds d0 d \<longleftrightarrow> (\<exists>news cs. snd (at_write a (contents_before s d0 lds)) = Inr news
       \<and> list_all2 (\<lambda>ld c. at_optimize a (canonical_lane_id ld)
             (new_content (contents_before s d0 lds) news (canonical_lane_id ld)) = Inr c
           \<and> lane_view d (canonical_lane_id ld) = Some c) lds cs)
     \<and> (\<forall>i \<in> lanes_of d0 - canonical_lane_id ` set lds. lane_view d i = lane_view d0 i)
     \<and> lanes_of d0 \<union> canonical_lane_id ` set lds \<subseteq> lanes_of d
     \<and> rh_revision (rt_head (root_db d)) = rh_revision (rt_head (root_db d0)) + 1
     \<and> rh_commit (rt_head (root_db d)) = Some (at_commit a)"

definition published :: "site \<Rightarrow> attempt \<Rightarrow> lane_definition list \<Rightarrow> disk \<Rightarrow> disk \<Rightarrow> bool" where
  "published s a lds d0 d \<longleftrightarrow> disk_ok s d \<and> pending (root_db d) = [] \<and> updated s a lds d0 d"

text \<open>\<open>committed ps\<close>: the lanes of \<open>ps\<close> hold the content that was committed to them.\<close>

definition committed :: "(lane_definition \<times> string) list \<Rightarrow> disk \<Rightarrow> bool" where
  "committed ps d \<longleftrightarrow> (\<forall>(ld, c) \<in> set ps. lane_db d (canonical_lane_id ld) = Some \<lparr>db_content = c, db_hot = None\<rparr>)"

definition validated :: "site \<Rightarrow> (string \<times> string) list \<Rightarrow> disk \<Rightarrow> bool" where
  "validated s ps d \<longleftrightarrow> (\<forall>p \<in> set ps. \<exists>f. lane_db d (fst p) = Some f \<and> snd p = st_hash s (db_content f))"

lemma pending_published:
  assumes "pending rt = [e]" "jr_commit e = at_commit a"
  shows "pending (published_tables s a b ps rt) = []"
proof -
  have "r = e" if "r \<in> set (rt_journal rt)" "jr_phase r = Prepared" for r
  proof -
    from that have "r \<in> set (pending rt)" by (simp add: pending_def)
    with assms(1) show ?thesis by simp
  qed
  then show ?thesis using assms(2)
    by (auto simp: pending_def published_tables_def Let_def filter_empty_conv set_update_where split: if_splits)
qed

lemma published_tables_fields [simp]:
  "rt_catalog (published_tables s a b ps rt) = rt_catalog rt"
  "map jr_commit (rt_journal (published_tables s a b ps rt)) = map jr_commit (rt_journal rt)"
  "rt_heads (published_tables s a b ps rt) = fold (\<lambda>p. put_head (new_lane_head s a b p)) ps (rt_heads rt)"
  "rh_revision (rt_head (published_tables s a b ps rt)) = rh_revision (ub_root b) + 1"
  "rh_commit (rt_head (published_tables s a b ps rt)) = Some (at_commit a)"
  by (simp_all add: published_tables_def Let_def map_update_where new_root_head_def)

lemma publication:
  assumes P: "prepared s e d0 d" "jr_commit e = at_commit a" "jr_body e = b" "undo_lanes e = map canonical_lane_id lds"
    and cs: "committed (zip lds cs) d" "length cs = length lds"
    and ps: "map fst ps = map canonical_lane_id lds" "validated s ps d"
    and d': "d' = d\<lparr>root_db := published_tables s a b ps (root_db d)\<rparr>"
  shows "disk_ok s d' \<and> pending (root_db d') = [] \<and> lanes_of d' = lanes_of d
    \<and> list_all2 (\<lambda>ld c. lane_view d' (canonical_lane_id ld) = Some c) lds cs
    \<and> (\<forall>i \<in> lanes_of d0 - canonical_lane_id ` set lds. lane_view d' i = lane_view d0 i)"
proof -
  have ok: "disk_ok s d" "pending (root_db d) = [e]" "same_view d0 d" using P(1) by (simp_all add: prepared_def)
  have ev: "evidence_ok s e d" "i \<in> lanes_of d \<Longrightarrow> i \<notin> set (undo_lanes e) \<Longrightarrow> lane_clean s d i" for i
    using ok(1,2) by (auto simp: disk_ok_def)
  have distinct: "distinct (map fst ps)"
    using undo_records_ok_distinct validate_undo_records ev(1) ps(1) P(3,4) unfolding evidence_ok_def undo_lanes_def by metis
  have q: "pending (root_db d') = []" using pending_published [OF ok(2) P(2)] d' by simp
  have lanes: "lanes_of d' = lanes_of d" using d' by (simp add: lanes_of_def)
  have ids: "set (undo_lanes e) = canonical_lane_id ` set lds" "fst ` set ps = canonical_lane_id ` set lds"
    using P(4) ps(1) by (simp, metis list.set_map)
  have view: "list_all2 (\<lambda>ld c. lane_view d' (canonical_lane_id ld) = Some c) lds cs"
    using cs q d' by (auto simp: list_all2_iff committed_def lane_view_def)
  have others: "lane_view d' i = lane_view d i" if "i \<notin> set (undo_lanes e)" for i
    using that q ok(2) d' by (simp add: lane_view_def)
  have "lane_clean s d' i" if "i \<in> lanes_of d" for i
  proof (cases "i \<in> set (undo_lanes e)")
    case True
    with ids obtain h where "(i, h) \<in> set ps" by force
    with ps(2) distinct obtain f where f: "map_of ps i = Some h" "lane_db d i = Some f" "h = st_hash s (db_content f)"
      unfolding validated_def by fastforce
    moreover have "db_hot f = None"
    proof -
      from True ids obtain ld where "ld \<in> set lds" "canonical_lane_id ld = i" by auto
      then obtain c where "(ld, c) \<in> set (zip lds cs)" using cs(2) by (metis in_set_impl_in_set_zip1)
      with cs(1) f(2) \<open>canonical_lane_id ld = i\<close> show ?thesis by (fastforce simp: committed_def)
    qed
    ultimately show ?thesis
      using d' distinct by (simp add: lane_clean_def published_head_ok_def lane_head_of_fold new_lane_head_def)
  next
    case False
    then have "map_of ps i = None" using ids by (simp add: map_of_eq_None_iff)
    with ev(2) [OF that False] d' distinct show ?thesis
      by (simp add: lane_clean_def published_head_ok_def lane_head_of_fold split: option.splits)
  qed
  moreover have "lh_lane ` set (rt_heads (root_db d')) \<subseteq> lanes_of d"
  proof -
    have "lh_lane ` set (rt_heads (root_db d')) \<subseteq> fst ` set ps \<union> lh_lane ` set (rt_heads (root_db d))"
      using fold_put_lanes [of "new_lane_head s a b" ps "rt_heads (root_db d)"] d' by simp
    moreover have "lh_lane ` set (rt_heads (root_db d)) \<subseteq> lanes_of d" using ok(1) by (simp add: disk_ok_def)
    moreover have "fst ` set ps \<subseteq> lanes_of d" using ev(1) ids by (simp add: evidence_ok_def)
    ultimately show ?thesis by blast
  qed
  ultimately have "disk_ok s d'" using ok(1) q lanes d' by (simp add: disk_ok_def)
  then show ?thesis using q lanes view others ids(1) ok(3) by (auto simp: same_view_def)
qed

section \<open>Publishing\<close>

text \<open>A commit of a lane under a prepared commit: the lane is one of those that can be restored.\<close>

lemma commit_lane_spec:
  assumes "i \<in> set (undo_lanes e)" "i \<notin> canonical_lane_id ` fst ` set ps" and modes: "delete_mode s old" "delete_mode s new"
  shows "dspec (\<lambda>d. prepared s e d0 d \<and> committed ps d) (commit_lane s i old new)
    (\<lambda>_ d. prepared s e d0 d \<and> committed ps d \<and> lane_db d i = Some \<lparr>db_content = new, db_hot = None\<rparr>)
    (\<lambda>_. prepared s e d0) (prepared s e d0)"
proof -
  let ?P = "\<lambda>d. prepared s e d0 d \<and> committed ps d"
  have set: "?P (set_lane i f d)" if "?P d" "openable s (Some f)" for d f
  proof -
    have "lane_db (set_lane i f d) (canonical_lane_id ld) = lane_db d (canonical_lane_id ld)" if "(ld, c) \<in> set ps" for ld c
      using assms(2) that by force
    with that prepared_set_lane [of s e d0 d i f] assms(1) show ?thesis by (fastforce simp: committed_def)
  qed
  have hot: "openable s (Some \<lparr>db_content = t, db_hot = Some old\<rparr>)" for t using modes by (simp add: openable_def)
  have new: "openable s (Some \<lparr>db_content = new, db_hot = None\<rparr>)" using modes by (simp add: openable_def)
  show ?thesis
    unfolding commit_lane_def
    by (rule dspec_bind_persist [where R = ?P], blast, rule set, assumption, rule hot,
        rule dspec_bind_persist [where R = ?P], blast, rule set, assumption, rule hot,
        rule dspec_bind_persist [where R = ?P], blast, rule set, assumption, rule hot,
        rule dspec_persist, blast, use set new in simp)
qed

lemma put_files_spec:
  assumes P: "\<And>d f. P d \<Longrightarrow> P (d\<lparr>object_files := f\<rparr>)"
  shows "dspec P (put_files fs) (\<lambda>_. P) (\<lambda>_. P) P"
  unfolding put_files_def
proof (rule dspec_each_inv)
  fix x :: "(string \<times> string) \<times> string"
  obtain k v where x: "x = (k, v)" by (cases x)
  show "dspec P (case x of (k, v) \<Rightarrow> dbind (dget (\<lambda>d. object_files d k)) (\<lambda>f. case f of
      Some _ \<Rightarrow> dret () | None \<Rightarrow> persist (\<lambda>d. d\<lparr>object_files := (object_files d)(k := Some v)\<rparr>))) (\<lambda>_. P) (\<lambda>_. P) P"
    unfolding x prod.case
    by (rule dspec_bind_get) (auto split: option.split intro!: dspec_ret dspec_persist P)
qed

definition staged :: "site \<Rightarrow> attempt \<Rightarrow> (string \<times> string) list \<Rightarrow> (string \<times> string) list \<Rightarrow> lane_definition \<Rightarrow> string \<Rightarrow> bool" where
  "staged s a olds news ld c \<longleftrightarrow> at_optimize a (canonical_lane_id ld) (new_content olds news (canonical_lane_id ld)) = Inr c
     \<and> delete_mode s c"

lemma stage_spec:
  "dspec P (dcollect (stage_lane s a olds news) lds) (\<lambda>cs d. P d \<and> list_all2 (staged s a olds news) lds cs) (\<lambda>_. P) P"
proof -
  have one: "dspec (\<lambda>d. P d \<and> list_all2 (staged s a olds news) ys cs) (stage_lane s a olds news ld)
      (\<lambda>c d. P d \<and> list_all2 (staged s a olds news) (ys @ [ld]) (cs @ [c])) (\<lambda>_. P) P" for ys cs ld
    unfolding stage_lane_def Let_def
    by (rule dspec_bind_lift, blast, rule dspec_bind_check, blast, rule dspec_bind_try, blast, rule dspec_ret)
      (auto intro!: list_all2_appendI simp: staged_def check_lane_files_def)
  show ?thesis
    by (rule dspec_pre [OF dspec_collect [where I = "\<lambda>ys cs d. P d \<and> list_all2 (staged s a olds news) ys cs"]]) (use one in auto)
qed

lemma commit_all_spec:
  assumes "undo_lanes e = map canonical_lane_id lds" "distinct (undo_lanes e)" "length cs = length lds"
    and olds: "\<And>ld. ld \<in> set lds \<Longrightarrow> delete_mode s (new_content olds [] (canonical_lane_id ld))"
    and cs: "\<And>c. c \<in> set cs \<Longrightarrow> delete_mode s c"
  shows "dspec (prepared s e d0) (commit_lanes s a olds (zip lds cs))
    (\<lambda>_ d. prepared s e d0 d \<and> committed (zip lds cs) d) (\<lambda>_. prepared s e d0) (prepared s e d0)"
  unfolding commit_lanes_def
proof (rule dspec_pre [OF dspec_each [where I = "\<lambda>ys d. prepared s e d0 d \<and> committed ys d"]])
  fix ys x zs assume xs: "zip lds cs = ys @ x # zs"
  obtain ld c where x: "x = (ld, c)" by (cases x)
  have "distinct (map canonical_lane_id (map fst (zip lds cs)))" using assms by simp
  then have new: "canonical_lane_id ld \<notin> canonical_lane_id ` fst ` set ys" unfolding xs x by auto
  have "(ld, c) \<in> set (zip lds cs)" unfolding xs x by simp
  then have in_lds: "ld \<in> set lds" "c \<in> set cs" by (auto dest: set_zip_leftD set_zip_rightD)
  then have undo: "canonical_lane_id ld \<in> set (undo_lanes e)" using assms(1) by simp
  show "dspec (\<lambda>d. prepared s e d0 d \<and> committed ys d)
    (case x of (ld, c) \<Rightarrow> dbind (commit_lane s (canonical_lane_id ld) (new_content olds [] (canonical_lane_id ld)) c) (\<lambda>_.
      checkpoint_at a (''committed:'' @ canonical_lane_id ld)))
    (\<lambda>_ d. prepared s e d0 d \<and> committed (ys @ [x]) d) (\<lambda>_. prepared s e d0) (prepared s e d0)"
    unfolding x prod.case checkpoint_at_def
    by (rule dspec_bind [OF commit_lane_spec [OF undo new olds [OF in_lds(1)] cs [OF in_lds(2)]]], rule dspec_lift) (auto simp: committed_def)
qed (simp add: committed_def)

lemma verify_all_spec:
  "dspec P (validate_lanes s a lds)
     (\<lambda>ps d. P d \<and> map fst ps = map canonical_lane_id lds \<and> validated s ps d) (\<lambda>_. P) P"
  unfolding validate_lanes_def
proof (rule dspec_pre [OF dspec_collect [where
    I = "\<lambda>ys ps d. P d \<and> map fst ps = map canonical_lane_id ys \<and> validated s ps d"]])
  fix ys ld zs and ps :: "(string \<times> string) list"
  show "dspec (\<lambda>d. P d \<and> map fst ps = map canonical_lane_id ys \<and> validated s ps d)
    (dbind (dtry (verify_committed s ld)) (\<lambda>h.
       dbind (checkpoint_at a (''validated:'' @ canonical_lane_id ld)) (\<lambda>_. dret (canonical_lane_id ld, h))))
    (\<lambda>p d. P d \<and> map fst (ps @ [p]) = map canonical_lane_id (ys @ [ld]) \<and> validated s (ps @ [p]) d) (\<lambda>_. P) P"
    unfolding checkpoint_at_def
    by (rule dspec_bind_try, blast, rule dspec_bind_lift, blast, rule dspec_ret)
      (auto simp: validated_def verify_committed_def split: option.splits if_splits)
qed (simp add: validated_def)

lemma contents_known:
  "ld \<in> set lds \<Longrightarrow> new_content (lane_contents lds d) [] (canonical_lane_id ld)
     = (case lane_db d (canonical_lane_id ld) of None \<Rightarrow> [] | Some f \<Rightarrow> db_content f)"
proof -
  have "map_of (map (\<lambda>ld. (canonical_lane_id ld, g (canonical_lane_id ld))) lds) (canonical_lane_id ld) = Some (g (canonical_lane_id ld))"
    if "ld \<in> set lds" for g :: "string \<Rightarrow> string"
    using that by (induction lds) auto
  from this [of "\<lambda>i. case lane_db d i of None \<Rightarrow> [] | Some f \<Rightarrow> db_content f"]
  show "ld \<in> set lds \<Longrightarrow> ?thesis" by (simp add: new_content_def lane_contents_def)
qed

lemma contents_started:
  assumes "started s d0 lds e d" "prepared s e d0 d" "distinct (undo_lanes e)"
  shows "lane_contents lds d = contents_before s d0 lds"
  unfolding lane_contents_def contents_before_def
proof (rule map_cong [OF refl])
  fix ld assume ld: "ld \<in> set lds"
  let ?i = "canonical_lane_id ld"
  have undo: "undo_lanes e = map canonical_lane_id lds" using assms(1) by (simp add: started_def)
  with assms(1) ld obtain t where t: "lane_db d ?i = Some \<lparr>db_content = t, db_hot = None\<rparr>" "lane_view d ?i = Some t"
    unfolding started_def by auto
  have "set (undo_lanes e) \<subseteq> lanes_of d" using assms(2) by (auto simp: prepared_def disk_ok_def evidence_ok_def)
  then have i: "?i \<in> lanes_of d" using undo ld by auto
  show "(?i, case lane_db d ?i of None \<Rightarrow> [] | Some f \<Rightarrow> db_content f) =
      (?i, if ?i \<in> lanes_of d0 then (case lane_view d0 ?i of Some t \<Rightarrow> t | None \<Rightarrow> []) else st_new_database s ld)"
  proof (cases "?i \<in> lanes_of d0")
    case True
    with assms(2) t show ?thesis by (auto simp: prepared_def same_view_def)
  next
    case False
    with assms(1) i obtain ld' where ld': "ld' \<in> set lds" "canonical_lane_id ld' = ?i" "lane_view d ?i = Some (st_new_database s ld')"
      unfolding started_def added_def by blast
    then have "ld' = ld" using undo assms(3) ld by (auto simp: distinct_map inj_on_def)
    with ld' t False show ?thesis by simp
  qed
qed

lemma prepared_undo:
  "prepared s e d0 d \<Longrightarrow> distinct (undo_lanes e) \<and> set (undo_lanes e) \<subseteq> lanes_of d
     \<and> rh_revision (ub_root (jr_body e)) = rh_revision (rt_head (root_db d0))"
proof -
  assume P: "prepared s e d0 d"
  then have ev: "evidence_ok s e d" by (auto simp: prepared_def disk_ok_def)
  then have "distinct (undo_lanes e)"
    unfolding evidence_ok_def undo_lanes_def using validate_undo_records undo_records_ok_distinct by blast
  with ev P show ?thesis by (auto simp: evidence_ok_def prepared_def same_view_def)
qed

lemma publish_root:
  assumes e: "jr_commit e = at_commit a" "jr_body e = b" and undo: "undo_lanes e = map canonical_lane_id lds"
    and news: "snd (at_write a (contents_before s d0 lds)) = Inr news"
    and cs: "list_all2 (staged s a (contents_before s d0 lds) news) lds cs"
    and P: "prepared s e d0 d" "committed (zip lds cs) d" "map fst ps = map canonical_lane_id lds" "validated s ps d"
  shows "published s a lds d0 (d\<lparr>root_db := published_tables s a b ps (root_db d)\<rparr>)" (is "published s a lds d0 ?d")
proof -
  have "length cs = length lds" using cs by (simp add: list_all2_lengthD)
  note * = publication [OF P(1) e undo P(2) this P(3,4) refl]
  have "lanes_of d0 \<subseteq> lanes_of d" using P(1) by (simp add: prepared_def same_view_def)
  moreover have "canonical_lane_id ` set lds \<subseteq> lanes_of d" using prepared_undo [OF P(1)] undo by simp
  moreover have "rh_revision (ub_root b) = rh_revision (rt_head (root_db d0))" using prepared_undo [OF P(1)] e by simp
  moreover have "list_all2 (\<lambda>ld c. at_optimize a (canonical_lane_id ld)
      (new_content (contents_before s d0 lds) news (canonical_lane_id ld)) = Inr c
      \<and> lane_view ?d (canonical_lane_id ld) = Some c) lds cs"
    using cs * by (simp add: list_all2_conv_all_nth staged_def)
  ultimately show ?thesis using * news unfolding published_def updated_def by auto
qed

lemma publish_heads_spec:
  assumes root: "\<And>d. P d \<Longrightarrow> Q (d\<lparr>root_db := published_tables s a b ps (root_db d)\<rparr>)"
  shows "dspec P (publish_heads s a b ps) (\<lambda>h d. Q d \<and> h = rt_head (root_db d)) (\<lambda>_. P) P"
proof -
  have "dspec P (deach (\<lambda>(i, h). dtry (g i h)) ps) (\<lambda>_. P) (\<lambda>_. P) P" for g :: "string \<Rightarrow> string \<Rightarrow> disk \<Rightarrow> unit result"
  proof (rule dspec_each_inv)
    show "dspec P (case x of (i, h) \<Rightarrow> dtry (g i h)) (\<lambda>_. P) (\<lambda>_. P) P" for x
      by (cases x) (auto intro: dspec_try)
  qed
  then show ?thesis
    unfolding publish_heads_def checkpoint_at_def commit_root_def
    by (rule dspec_bind, intro dspec_bind_lift dspec_bind_try dspec_bind_persist [where R = Q] dspec_get)
      (use root in blast)+
qed

lemma write_lanes_spec:
  assumes e: "jr_commit e = at_commit a" "jr_body e = b"
    and undo: "undo_lanes e = map canonical_lane_id lds" "distinct (undo_lanes e)"
    and olds: "olds = contents_before s d0 lds" and news: "snd (at_write a olds) = Inr news"
    and modes: "\<And>ld. ld \<in> set lds \<Longrightarrow> delete_mode s (new_content olds [] (canonical_lane_id ld))"
  shows "dspec (prepared s e d0) (write_lanes s a lds b olds news)
    (\<lambda>h d. published s a lds d0 d \<and> h = rt_head (root_db d)) (\<lambda>_. prepared s e d0) (prepared s e d0)"
    (is "dspec ?P _ ?Q ?E ?C")
  unfolding write_lanes_def
proof (rule dspec_bind_inv [OF dspec_try], assumption, assumption, rule dspec_bind, rule stage_spec, rule dspec_assume, erule conjunct2)
  fix cs
  let ?staged = "list_all2 (staged s a olds news) lds cs"
  assume cs: ?staged
  have "length cs = length lds" "\<And>c. c \<in> set cs \<Longrightarrow> delete_mode s c"
    using cs by (auto simp: list_all2_conv_all_nth staged_def in_set_conv_nth)
  then have commit: "dspec ?P (commit_lanes s a olds (zip lds cs)) (\<lambda>_ d. ?P d \<and> committed (zip lds cs) d) ?E ?C"
    using commit_all_spec [OF undo] modes by blast
  have heads: "dspec (\<lambda>d. (?P d \<and> committed (zip lds cs) d) \<and> map fst ps = map canonical_lane_id lds \<and> validated s ps d)
      (publish_heads s a b ps) ?Q ?E ?C" for ps
    by (rule dspec_weaken [OF publish_heads_spec [where Q = "published s a lds d0"
        and P = "\<lambda>d. (?P d \<and> committed (zip lds cs) d) \<and> map fst ps = map canonical_lane_id lds \<and> validated s ps d"]])
      (use publish_root [OF e undo(1)] news cs olds in auto)
  show "dspec (\<lambda>d. ?P d \<and> ?staged) (dbind (checkpoint_at a ''before_lane_commits'') (\<lambda>_.
     dbind (commit_lanes s a olds (zip lds cs)) (\<lambda>_. dbind (validate_lanes s a lds) (publish_heads s a b)))) ?Q ?E ?C"
    unfolding checkpoint_at_def
    by (rule dspec_bind_lift, blast, rule dspec_bind [OF dspec_pre [OF commit]], blast,
        rule dspec_bind [OF dspec_weaken [OF verify_all_spec]], assumption, assumption, blast, blast, rule heads)
qed

lemma publish_spec:
  assumes e: "jr_commit e = at_commit a" "jr_body e = b"
  shows "dspec (\<lambda>d. prepared s e d0 d \<and> started s d0 lds e d) (publish s a lds b)
    (\<lambda>h d. published s a lds d0 d \<and> h = rt_head (root_db d)) (\<lambda>_. prepared s e d0) (prepared s e d0)"
    (is "dspec ?P _ ?Q ?E ?C")
  unfolding publish_def checkpoint_at_def
proof (rule dspec_bind_lift, blast, rule dspec_bind_get, rule dspec_assume)
  fix olds
  let ?facts = "undo_lanes e = map canonical_lane_id lds \<and> distinct (undo_lanes e) \<and> olds = contents_before s d0 lds
     \<and> (\<forall>ld \<in> set lds. delete_mode s (new_content olds [] (canonical_lane_id ld)))"
  show ?facts if P: "?P d \<and> lane_contents lds d = olds" for d
  proof -
    have "distinct (undo_lanes e)" using prepared_undo P by blast
    moreover have "delete_mode s (new_content olds [] (canonical_lane_id ld))" if ld: "ld \<in> set lds" for ld
      using P ld contents_known [of ld lds d] by (fastforce simp: started_def)
    ultimately show ?thesis using P contents_started [of s d0 lds e d] by (auto simp: started_def)
  qed
  assume facts: ?facts
  have files: "dspec (prepared s e d0) (put_files fs) (\<lambda>_. prepared s e d0) ?E ?C" for fs
    by (rule put_files_spec) (rule prepared_other, auto)
  show "dspec (\<lambda>d. ?P d \<and> lane_contents lds d = olds) (dbind (put_files (fst (at_write a olds))) (\<lambda>_.
      dbind (dlift (snd (at_write a olds))) (write_lanes s a lds b olds))) ?Q ?E ?C"
    using facts by (intro dspec_bind [OF dspec_pre [OF files]] dspec_bind_lift write_lanes_spec e) auto
qed

section \<open>The whole commit\<close>

text \<open>The handler restores what the attempt prepared.\<close>

lemma undo_spec:
  assumes "jr_commit e = at_commit a"
  shows "dspec (prepared s e d0) (undo_attempt s a x) (\<lambda>_ _. False) (\<lambda>_. kept s d0) (kept s d0)"
  unfolding undo_attempt_def
proof (rule dspec_bind_get)
  fix row
  show "dspec (\<lambda>d. prepared s e d0 d \<and> find (\<lambda>r. jr_commit r = at_commit a) (rt_journal (root_db d)) = row)
     (dbind (case row of
         Some r \<Rightarrow> if jr_phase r = Prepared
           then dbind (restore s (a\<lparr>at_fault := (\<lambda>_. None)\<rparr>) (jr_commit r) (jr_body r)) (\<lambda>_.
             commit_root (mark_aborted (at_commit a) (at_now a)))
           else dret ()
       | None \<Rightarrow> dlift (Inl (Raised ''TypeError''))) (\<lambda>_.
     dlift (Inl x))) (\<lambda>_ _. False) (\<lambda>_. kept s d0) (kept s d0)"
  proof (rule dspec_assume [where A = "row = Some e \<and> jr_phase e = Prepared"])
    fix d assume P: "prepared s e d0 d \<and> find (\<lambda>r. jr_commit r = at_commit a) (rt_journal (root_db d)) = row"
    then have "e \<in> set (pending (root_db d))" by (simp add: prepared_def)
    then have "e \<in> set (rt_journal (root_db d))" "jr_phase e = Prepared" by (auto simp: pending_def)
    moreover have "distinct (map jr_commit (rt_journal (root_db d)))" using P by (auto simp: prepared_def disk_ok_def)
    ultimately show "row = Some e \<and> jr_phase e = Prepared" using P find_key_unique assms by metis
  next
    assume row: "row = Some e \<and> jr_phase e = Prepared"
    have marked: "dspec (\<lambda>d. prepared s e d0 d \<and> restored e (ub_lanes (jr_body e)) d)
        (commit_root (mark_aborted (at_commit a) (at_now a))) (\<lambda>_. kept s d0) (\<lambda>_. kept s d0) (kept s d0)"
      unfolding commit_root_def
      by (rule dspec_persist) (auto simp flip: assms intro: prepared_kept idle_kept mark_aborted_idle)
    have step: "dspec (prepared s e d0) (dbind (restore s (a\<lparr>at_fault := (\<lambda>_. None)\<rparr>) (jr_commit e) (jr_body e)) (\<lambda>_.
        commit_root (mark_aborted (at_commit a) (at_now a)))) (\<lambda>_. kept s d0) (\<lambda>_. kept s d0) (kept s d0)"
      by (rule dspec_bind [OF dspec_weaken [OF restore_spec [where q = False]] marked]) (auto intro: prepared_kept)
    show "dspec (\<lambda>d. prepared s e d0 d \<and> find (\<lambda>r. jr_commit r = at_commit a) (rt_journal (root_db d)) = row)
     (dbind (case row of
         Some r \<Rightarrow> if jr_phase r = Prepared
           then dbind (restore s (a\<lparr>at_fault := (\<lambda>_. None)\<rparr>) (jr_commit r) (jr_body r)) (\<lambda>_.
             commit_root (mark_aborted (at_commit a) (at_now a)))
           else dret ()
       | None \<Rightarrow> dlift (Inl (Raised ''TypeError''))) (\<lambda>_.
     dlift (Inl x))) (\<lambda>_ _. False) (\<lambda>_. kept s d0) (kept s d0)"
      by (simp only: row option.case simp_thms if_True, rule dspec_bind [OF dspec_pre [OF step]], blast, rule dspec_lift) simp_all
  qed
qed

text \<open>The files beside the database are no part of what is published.\<close>

lemma published_history: "published s a lds d0 d \<Longrightarrow> published s a lds d0 (d\<lparr>history_files := h\<rparr>)"
proof -
  assume P: "published s a lds d0 d"
  have "lane_view (d\<lparr>history_files := h\<rparr>) i = lane_view d i" for i
    by (simp add: lane_view_def split: list.split)
  moreover have "lanes_of (d\<lparr>history_files := h\<rparr>) = lanes_of d" by (simp add: lanes_of_def)
  moreover have "lane_clean s (d\<lparr>history_files := h\<rparr>) i = lane_clean s d i" for i by (rule lane_clean_cong) simp_all
  moreover from this have "disk_ok s (d\<lparr>history_files := h\<rparr>)"
    using P \<open>lanes_of _ = _\<close> by (auto simp: published_def disk_ok_def)
  ultimately show ?thesis using P by (simp add: published_def updated_def)
qed

lemma refresh_spec:
  "dspec (published s a lds d0) (deach (refresh_lane_artifacts s) xs) (\<lambda>_. published s a lds d0)
     (\<lambda>_. published s a lds d0) (published s a lds d0)"
  by (rule dspec_each_inv, unfold refresh_lane_artifacts_def Let_def, rule dspec_bind_try, assumption,
      rule dspec_persist) (auto intro: published_history)

lemma transaction_spec:
  assumes "select_lanes lanes = Inr lds"
  shows "dspec (\<lambda>d. d = d0 \<and> disk_ok s d) (coordinated_transaction s a lanes)
    (\<lambda>_. published s a lds d0) (\<lambda>_ d. kept s d0 d \<or> published s a lds d0 d)
    (\<lambda>d. kept s d0 d \<or> published s a lds d0 d)" (is "dspec ?P _ ?Q ?E ?C")
proof -
  have publish: "dspec (\<lambda>d. \<exists>e. prepared s e d0 d \<and> started s d0 lds e d \<and> jr_commit e = at_commit a \<and> jr_body e = b)
      (dcatch (publish s a lds b) (undo_attempt s a)) ?Q ?E ?C" for b
  proof -
    have "dspec (\<lambda>d. prepared s e d0 d \<and> started s d0 lds e d) (dcatch (publish s a lds b) (undo_attempt s a)) ?Q ?E ?C"
      if "jr_commit e = at_commit a" "jr_body e = b" for e
      by (rule dspec_catch [OF dspec_weaken [OF publish_spec [OF that]] dspec_weaken [OF undo_spec [OF that(1)]]])
        (auto intro: prepared_kept)
    then show ?thesis unfolding dspec_def by blast
  qed
  have rest: "dspec (published s a lds d0) (dbind (deach (refresh_lane_artifacts s) lds) (\<lambda>_.
      dbind (checkpoint_at a ''published'') (\<lambda>_. dret h))) ?Q ?E ?C" for h
    unfolding checkpoint_at_def
    by (rule dspec_bind [OF dspec_weaken [OF refresh_spec]], assumption, assumption, blast, blast,
        rule dspec_bind_lift, blast, rule dspec_ret)
  show ?thesis
    unfolding coordinated_transaction_def assms dbind_lift_Inr
    by (rule dspec_bind_lift, force simp: kept_def,
        rule dspec_bind [OF dspec_weaken [OF prepare_spec]], assumption, assumption, blast, blast,
        rule dspec_bind [OF publish rest])
qed

end
