(* ===== verification/Lane_Recovery.thy ===== *)
theory Lane_Recovery
  imports Lane_Atomic
begin

text \<open>
  Projects in use: commits and recoveries one after another, each cut off anywhere. The disk stays
  sound, what a reader gets is what was published, and a recovery that is left alone completes.
\<close>

section \<open>Any sequence of commits, crashes and recoveries\<close>

text \<open>Each attempt runs with power for the given number of writes; the next one finds the disk it left.\<close>

datatype lane_op =
    Commit_Lanes attempt "string list" nat
  | Recover_Lanes attempt nat

primrec disk_after :: "site \<Rightarrow> lane_op \<Rightarrow> disk \<Rightarrow> disk" where
  "disk_after s (Commit_Lanes a lanes n) d = fst (snd (coordinated_transaction s a lanes (d, n)))"
| "disk_after s (Recover_Lanes a n) d = fst (snd (recover_transactions s a (d, n)))"

definition new_disk :: disk where
  "new_disk = \<lparr>root_db = \<lparr>rt_catalog = [], rt_head = \<lparr>rh_revision = 0, rh_digest = [], rh_commit = None\<rparr>,
     rt_heads = [], rt_journal = []\<rparr>, lane_db = (\<lambda>_. None), backup_files = (\<lambda>_. None), txn_folders = [],
     restore_files = (\<lambda>_. None), object_files = (\<lambda>_. None), history_files = (\<lambda>_. None)\<rparr>"

definition whole_update :: "site \<Rightarrow> lane_op \<Rightarrow> disk \<Rightarrow> disk \<Rightarrow> bool" where
  "whole_update s x d d' \<longleftrightarrow> (case x of
     Commit_Lanes a lanes n \<Rightarrow> (case select_lanes lanes of Inl _ \<Rightarrow> False | Inr lds \<Rightarrow> published s a lds d d')
   | Recover_Lanes a n \<Rightarrow> False)"

text \<open>
  The contract of a store that survives crashes: every operation, however it ends, keeps the store
  sound and either changes nothing that is published or makes its whole update.
\<close>

locale crash_safe_store =
  fixes step :: "'op \<Rightarrow> 'd \<Rightarrow> 'd"
    and ok :: "'d \<Rightarrow> bool"
    and same :: "'d \<Rightarrow> 'd \<Rightarrow> bool"
    and whole :: "'op \<Rightarrow> 'd \<Rightarrow> 'd \<Rightarrow> bool"
  assumes step_ok: "ok d \<Longrightarrow> ok (step x d)"
    and step_atomic: "ok d \<Longrightarrow> same d (step x d) \<or> whole x d (step x d)"
    and same_refl: "same d d"
    and same_trans: "same d d' \<Longrightarrow> same d' d'' \<Longrightarrow> same d d''"
begin

lemma run_ok: "ok d \<Longrightarrow> ok (fold step xs d)"
  by (induction xs arbitrary: d) (simp_all add: step_ok)

text \<open>A run in which no operation made its update published nothing.\<close>

lemma run_same:
  assumes "ok d" "\<And>ys x zs. xs = ys @ x # zs \<Longrightarrow> \<not> whole x (fold step ys d) (step x (fold step ys d))"
  shows "same d (fold step xs d)"
  using assms
proof (induction xs rule: rev_induct)
  case (snoc x xs)
  have "same d (fold step xs d)" using snoc.prems(2) by (intro snoc.IH [OF snoc.prems(1)]) auto
  moreover have "same (fold step xs d) (step x (fold step xs d))"
    using step_atomic [OF run_ok [OF snoc.prems(1)]] snoc.prems(2) [of xs x "[]"] by auto
  ultimately show ?case by (simp add: same_trans)
qed (simp add: same_refl)

end

lemma run_ends: "dspec P p Q E C \<Longrightarrow> P d \<Longrightarrow> ends Q E C (fst (p (d, n))) (fst (snd (p (d, n))))"
  by (erule dspecD [where n = n and n' = "snd (snd (p (d, n)))"]) simp_all

lemma select_failed: "select_lanes lanes = Inl e \<Longrightarrow> coordinated_transaction s a lanes (d, n) = (Refused e, d, n)"
  by (simp add: coordinated_transaction_def dbind_def dlift_def)

lemma disk_after_cases:
  assumes "disk_ok s d"
  shows "kept s d (disk_after s x d) \<or> whole_update s x d (disk_after s x d)"
proof (cases x)
  case (Commit_Lanes a lanes n)
  show ?thesis
  proof (cases "select_lanes lanes")
    case (Inl e)
    with Commit_Lanes assms show ?thesis by (simp add: select_failed kept_def)
  next
    case (Inr lds)
    have "ends (\<lambda>_. published s a lds d) (\<lambda>_ d'. kept s d d' \<or> published s a lds d d') (\<lambda>d'. kept s d d' \<or> published s a lds d d')
        (fst (coordinated_transaction s a lanes (d, n))) (fst (snd (coordinated_transaction s a lanes (d, n))))"
      by (rule run_ends [OF transaction_spec [OF Inr]]) (use assms in simp)
    then have "kept s d (disk_after s x d) \<or> published s a lds d (disk_after s x d)"
      using Commit_Lanes by (cases "fst (coordinated_transaction s a lanes (d, n))") auto
    with Commit_Lanes Inr show ?thesis by (simp add: whole_update_def)
  qed
next
  case (Recover_Lanes a n)
  have "ends (\<lambda>_. idle s d) (\<lambda>_. kept s d) (kept s d) (fst (recover_transactions s a (d, n))) (fst (snd (recover_transactions s a (d, n))))"
    by (rule run_ends [OF recover_spec]) (use assms in simp)
  then have "kept s d (disk_after s x d)"
    using Recover_Lanes by (cases "fst (recover_transactions s a (d, n))") (auto intro: idle_kept)
  then show ?thesis by simp
qed

lemma same_view_trans: "same_view d d' \<Longrightarrow> same_view d' d'' \<Longrightarrow> same_view d d''"
  unfolding same_view_def by (metis subset_trans subset_iff)

interpretation lane_store: crash_safe_store "disk_after s" "disk_ok s" same_view "whole_update s" for s
proof unfold_locales
  fix d x
  assume "disk_ok s d"
  note * = disk_after_cases [OF this, of x]
  show "disk_ok s (disk_after s x d)"
    using * by (auto simp: kept_def whole_update_def published_def split: lane_op.splits sum.splits)
  show "same_view d (disk_after s x d) \<or> whole_update s x d (disk_after s x d)"
    using * by (auto simp: kept_def)
qed (auto intro: same_view_trans)

definition lane_history :: "site \<Rightarrow> lane_op list \<Rightarrow> disk" where
  "lane_history s xs = fold (disk_after s) xs new_disk"

lemma new_disk_ok: "disk_ok s new_disk"
  by (simp add: disk_ok_def new_disk_def pending_def lanes_of_def)

lemma lane_history_ok: "disk_ok s (lane_history s xs)"
  unfolding lane_history_def by (rule lane_store.run_ok [OF new_disk_ok])

section \<open>A recovery that is left alone\<close>

lemma within_settle: "within 1 (settle_lane s i)"
proof -
  have "within 1 (case f of None \<Rightarrow> dret () | Some g \<Rightarrow> (case db_hot g of None \<Rightarrow> dret ()
      | Some old \<Rightarrow> persist (set_lane i \<lparr>db_content = old, db_hot = None\<rparr>)))" for f
    by (auto split: option.split intro: within_mono [OF within_ret] within_persist [unfolded One_nat_def])
  from within_bind [OF within_get this] have "within 1 (resolve_journal i)" by (simp add: resolve_journal_def)
  from within_bind [OF this within_try] show ?thesis by (simp add: settle_lane_def)
qed

lemma within_restore_lane: "within 3 (restore_lane s a c r)"
proof -
  have copy: "within 2 (copy_new s get put t)" for get put t
    unfolding copy_new_def
    by (rule within_mono, (rule within_bind within_get within_check within_persist)+) simp
  show ?thesis
    unfolding restore_lane_def Let_def checkpoint_at_def
    by (rule within_mono, (rule within_bind within_try copy within_check within_persist within_lift)+) simp
qed

lemma within_restore: "within (4 * length (ub_lanes b)) (restore s a c b)"
proof -
  have settle: "within (length (ub_lanes b) * 1) (deach (\<lambda>r. settle_lane s (ur_lane r)) (ub_lanes b))"
    by (rule within_each) (rule within_settle)
  have put: "within (length (ub_lanes b) * 3) (deach (restore_lane s a c) (ub_lanes b))"
    by (rule within_each) (rule within_restore_lane)
  show ?thesis
    unfolding restore_def
    by (rule within_mono, rule within_bind [OF within_try], rule within_bind [OF within_try], rule within_bind [OF settle put]) simp
qed

text \<open>
  Four writes per lane and one for the journal; a prepared commit has at most 27 lanes, so 109 writes are
  always enough.
\<close>

definition RECOVERY_WRITES :: nat where
  "RECOVERY_WRITES = 4 * 27 + 1"

definition undisturbed :: "attempt \<Rightarrow> disk \<Rightarrow> bool" where
  "undisturbed a d \<longleftrightarrow> writer_lock a = Inr () \<and> check_commit a d = Inr () \<and> calm a
     \<and> list_all (\<lambda>e. free a (ub_lanes (jr_body e)) d) (pending (root_db d))"

lemma recovery_runs:
  assumes ok: "disk_ok s d" and a: "undisturbed a d" and n: "RECOVERY_WRITES \<le> n"
  shows "\<exists>r d' n'. recover_transactions s a (d, n) = (Done r, d', n') \<and> idle s d d'"
  using kept_cases [OF ok]
proof (elim disjE exE)
  assume "idle s d d"
  with a show ?thesis
    by (auto simp: recover_transactions_def undisturbed_def idle_def dbind_def dlift_def dtry_def dget_def dret_def)
next
  fix e assume e: "prepared s e d d"
  let ?p = "dbind (restore s a (jr_commit e) (jr_body e)) (\<lambda>_.
    dbind (commit_root (mark_aborted (jr_commit e) (at_now a))) (\<lambda>_.
    dget (\<lambda>d. [(jr_commit e, rh_revision (rt_head (root_db d)))])))"
  have pend: "pending (root_db d) = [e]" using e by (simp add: prepared_def)
  have run: "recover_transactions s a (d, n) = ?p (d, n)"
  proof -
    have "dbind (dtry (check_commit a)) f (d, n) = f () (d, n)" "dbind (dget (\<lambda>d. pending (root_db d))) g (d, n) = g [e] (d, n)"
      for f :: "unit \<Rightarrow> (disk, (string \<times> nat) list) durable" and g :: "journal_row list \<Rightarrow> (disk, (string \<times> nat) list) durable"
      using a pend by (simp_all add: undisturbed_def dbind_def dtry_def dlift_def dget_def)
    then show ?thesis using a by (simp add: recover_transactions_def undisturbed_def dbind_lift_Inr)
  qed
  have free: "calm a" "free a (ub_lanes (jr_body e)) d" using a pend by (simp_all add: undisturbed_def)
  have "dspec (\<lambda>d'. prepared s e d d' \<and> (True \<longrightarrow> free a (ub_lanes (jr_body e)) d')) ?p (\<lambda>_. idle s d) (\<lambda>_ _. False) (kept s d)"
  proof (rule dspec_bind [where R = "\<lambda>_ d'. prepared s e d d' \<and> restored e (ub_lanes (jr_body e)) d'"])
    show "dspec (\<lambda>d'. prepared s e d d' \<and> (True \<longrightarrow> free a (ub_lanes (jr_body e)) d')) (restore s a (jr_commit e) (jr_body e))
      (\<lambda>_ d'. prepared s e d d' \<and> restored e (ub_lanes (jr_body e)) d') (\<lambda>_ _. False) (kept s d)"
      by (rule dspec_weaken [OF restore_spec [where q = True]]) (use free in \<open>auto intro: prepared_kept\<close>)
    show "dspec (\<lambda>d'. prepared s e d d' \<and> restored e (ub_lanes (jr_body e)) d')
      (dbind (commit_root (mark_aborted (jr_commit e) (at_now a))) (\<lambda>_.
        dget (\<lambda>d. [(jr_commit e, rh_revision (rt_head (root_db d)))]))) (\<lambda>_. idle s d) (\<lambda>_ _. False) (kept s d)"
      unfolding commit_root_def
      by (rule dspec_bind_persist [where R = "idle s d"]) (auto intro: prepared_kept mark_aborted_idle dspec_get)
  qed
  moreover have "within RECOVERY_WRITES ?p"
  proof (rule within_mono)
    show "within (4 * length (ub_lanes (jr_body e)) + (1 + 0)) ?p"
      unfolding commit_root_def by (intro within_bind within_restore within_persist within_get)
    have "length (ub_lanes (jr_body e)) \<le> 27"
      using prepared_evidence [OF e] validate_undo_records unfolding evidence_ok_def by blast
    then show "4 * length (ub_lanes (jr_body e)) + (1 + 0) \<le> RECOVERY_WRITES" by (simp add: RECOVERY_WRITES_def)
  qed
  ultimately show ?thesis
    unfolding run using e free n by (intro within_runs [where P = "\<lambda>d'. prepared s e d d' \<and> (True \<longrightarrow> free a (ub_lanes (jr_body e)) d')"]) auto
qed

section \<open>A stale schema history\<close>

text \<open>
  \<open>stale_history\<close>: the file beside the database of a lane is not the projection of the history that the
  database records. A power failure after the publication and before the refresh leaves it so.
\<close>

definition stale_history :: "site \<Rightarrow> string \<Rightarrow> disk \<Rightarrow> bool" where
  "stale_history s i d \<longleftrightarrow> pending (root_db d) = [] \<and> (case lane_db d i of None \<Rightarrow> False
     | Some f \<Rightarrow> db_hot f = None \<and> (case st_image s (db_content f) of None \<Rightarrow> False
       | Some im \<Rightarrow> im_history im \<noteq> None \<and> history_files d i \<noteq> Some (history_projection s i im)))"

lemma stale_refused: "stale_history s (canonical_lane_id ld) d \<Longrightarrow> inspect_lane s ld d \<noteq> Inr u"
  by (auto simp: stale_history_def inspect_lane_def read_lane_def Let_def verify_schema_history_files_def
    run_simps split: option.splits)

lemma stale_cong: "stale_history s i d \<Longrightarrow> pending (root_db d') = [] \<Longrightarrow> lane_db d' i = lane_db d i
    \<Longrightarrow> history_files d' i = history_files d i \<Longrightarrow> stale_history s i d'"
  by (auto simp: stale_history_def split: option.splits)

lemma initialize_stale:
  "dspec (stale_history s i) (initialize_lane s ld) (\<lambda>_. stale_history s i) (\<lambda>_. stale_history s i) (stale_history s i)"
proof -
  let ?j = "canonical_lane_id ld" and ?W = "stale_history s i"
  let ?V = "\<lambda>d. ?W d \<and> canonical_lane_id ld \<noteq> i"
  have new: "canonical_lane_id ld \<noteq> i" if "?W d" "lane_db d ?j = None" for d
    using that by (auto simp: stale_history_def)
  have set: "?W (set_lane ?j f d)" if "?V d" for f d
    by (rule stale_cong [of s i d]) (use that in \<open>auto simp: stale_history_def set_lane_def\<close>)
  have row: "?W (d\<lparr>root_db := (root_db d)\<lparr>rt_catalog := cs\<rparr>\<rparr>)" if "?W d" for d cs
    by (rule stale_cong [OF that]) (use that in \<open>auto simp: stale_history_def pending_def\<close>)
  have add: "dspec (\<lambda>d. ?W d \<and> lane_db d ?j = None) (dbind (persist (set_lane ?j g)) (\<lambda>_. dbind (persist (set_lane ?j h)) (\<lambda>_.
      commit_root (\<lambda>rt. rt\<lparr>rt_catalog := rt_catalog rt @ rs\<rparr>)))) (\<lambda>_. ?W) (\<lambda>_. ?W) ?W" for g h rs
    unfolding commit_root_def
    by (rule dspec_bind_persist [where R = ?V], blast, use new set in blast,
        rule dspec_bind_persist [where R = ?W], blast, use set in blast, rule dspec_persist, blast, rule row)
  show ?thesis
    unfolding initialize_lane_def Let_def
  proof (rule dspec_bind_try, assumption, rule dspec_bind_get)
    fix found
    show "dspec (\<lambda>d. (?W d \<and> project_snapshot d = Inr u) \<and> catalogued ?j (root_db d) = found) (case found of
       Some r \<Rightarrow> dcheck (ca_path r = database_relative_path ld \<and> ca_kind r = lane_kind ld) (LaneError ''LANE_BINDING_MISMATCH'')
     | None \<Rightarrow> dbind (dget (\<lambda>d. lane_db d ?j)) (\<lambda>f.
         dbind (dcheck (f = None) (LaneError ''UNREGISTERED_LANE_DATABASE'')) (\<lambda>_.
         dbind (persist (set_lane ?j \<lparr>db_content = st_torn s [] (st_new_database s ld), db_hot = None\<rparr>)) (\<lambda>_.
         dbind (persist (set_lane ?j \<lparr>db_content = st_new_database s ld, db_hot = None\<rparr>)) (\<lambda>_.
         commit_root (\<lambda>rt. rt\<lparr>rt_catalog := rt_catalog rt @
           [\<lparr>ca_lane = ?j, ca_kind = lane_kind ld, ca_path = database_relative_path ld\<rparr>]\<rparr>)))))) (\<lambda>_. ?W) (\<lambda>_. ?W) ?W" for u
    proof (cases found)
      case None
      show ?thesis unfolding None option.case
        by (rule dspec_bind_get, rule dspec_bind_check, blast, rule dspec_pre [OF add]) auto
    next
      case (Some r)
      show ?thesis unfolding Some option.case by (rule dspec_check) auto
    qed
  qed
qed

lemma prepare_stale:
  assumes "ld \<in> set lds" "canonical_lane_id ld = i"
  shows "dspec (stale_history s i) (prepare s a lds) (\<lambda>_ _. False) (\<lambda>_. stale_history s i) (stale_history s i)"
proof -
  let ?W = "stale_history s i"
  have try_each: "dspec ?W (deach (\<lambda>ld. dtry (f ld)) xs) (\<lambda>_. ?W) (\<lambda>_. ?W) ?W" for f :: "lane_definition \<Rightarrow> disk \<Rightarrow> unit result" and xs
    by (intro dspec_each_inv dspec_try)
  have inspect: "dspec ?W (deach (\<lambda>ld. dtry (inspect_lane s ld)) lds) (\<lambda>_ _. False) (\<lambda>_. ?W) ?W"
  proof -
    let ?I = "\<lambda>xs d. ?W d \<and> ld \<notin> set xs"
    have "dspec (?I []) (deach (\<lambda>ld. dtry (inspect_lane s ld)) lds) (\<lambda>_. ?I lds) (\<lambda>_. ?W) ?W"
    proof (rule dspec_each)
      fix ys x zs
      show "dspec (?I ys) (dtry (inspect_lane s x)) (\<lambda>_. ?I (ys @ [x])) (\<lambda>_. ?W) ?W"
        by (rule dspec_try) (use stale_refused [of s ld] assms(2) in auto)
    qed
    then show ?thesis by (rule dspec_weaken) (use assms(1) in auto)
  qed
  show ?thesis
    unfolding prepare_def
    by (rule dspec_bind_inv [OF dspec_try], assumption, assumption,
        rule dspec_bind_inv [OF dspec_each_inv [OF initialize_stale]],
        rule dspec_bind_inv [OF try_each], rule dspec_bind [OF inspect]) (simp add: dspec_def)
qed

lemma transaction_stale:
  assumes "select_lanes lanes = Inr lds" "ld \<in> set lds" "canonical_lane_id ld = i"
  shows "dspec (stale_history s i) (coordinated_transaction s a lanes) (\<lambda>_ _. False) (\<lambda>_. stale_history s i) (stale_history s i)"
  unfolding coordinated_transaction_def assms(1) dbind_lift_Inr
  by (rule dspec_bind_lift, assumption, rule dspec_bind [OF prepare_stale [OF assms(2,3)]]) (simp add: dspec_def)

lemma receipts_selected:
  assumes "select_lanes lanes = Inr lds"
  shows "\<exists>ld \<in> set lds. canonical_lane_id ld = ''receipts''"
proof -
  from assms obtain ids where ids: "rcollect get_lane ids = Inr lds" "''receipts'' \<in> set ids"
    by (auto simp: select_lanes_def run_simps)
  then obtain ld where "ld \<in> set lds" "get_lane ''receipts'' = Inr ld"
    by (blast dest: rcollect_result)
  moreover from this have "canonical_lane_id ld = ''receipts''"
    by (intro get_lane_canonical) (simp_all add: CANONICAL_LANE_IDS_def lane_definitions_def authorities_def authority_def)
  ultimately show ?thesis by blast
qed

lemma step_stale: "stale_history s ''receipts'' d \<Longrightarrow> stale_history s ''receipts'' (disk_after s x d)"
proof (cases x)
  case (Commit_Lanes a lanes n)
  assume W: "stale_history s ''receipts'' d"
  show ?thesis
  proof (cases "select_lanes lanes")
    case (Inl e)
    with Commit_Lanes W show ?thesis by (simp add: select_failed)
  next
    case (Inr lds)
    from receipts_selected [OF this] obtain ld where "ld \<in> set lds" "canonical_lane_id ld = ''receipts''" by blast
    then have "ends (\<lambda>_ _. False) (\<lambda>_. stale_history s ''receipts'') (stale_history s ''receipts'')
        (fst (coordinated_transaction s a lanes (d, n))) (fst (snd (coordinated_transaction s a lanes (d, n))))"
      by (intro run_ends [OF transaction_stale [OF Inr]] W)
    then have "stale_history s ''receipts'' (fst (snd (coordinated_transaction s a lanes (d, n))))"
      by (cases "fst (coordinated_transaction s a lanes (d, n))") simp_all
    with Commit_Lanes show ?thesis by simp
  qed
next
  case (Recover_Lanes a n)
  assume W: "stale_history s ''receipts'' d"
  have "dspec (stale_history s ''receipts'') (recover_transactions s a) (\<lambda>_. stale_history s ''receipts'') (\<lambda>_. stale_history s ''receipts'') (stale_history s ''receipts'')"
    unfolding recover_transactions_def
    by (rule dspec_bind_lift, assumption, rule dspec_bind_try, blast, rule dspec_bind_get)
      (auto simp: stale_history_def dspec_def dret_def split: list.split)
  then have "ends (\<lambda>_. stale_history s ''receipts'') (\<lambda>_. stale_history s ''receipts'') (stale_history s ''receipts'')
      (fst (recover_transactions s a (d, n))) (fst (snd (recover_transactions s a (d, n))))"
    by (rule run_ends) (rule W)
  then have "stale_history s ''receipts'' (fst (snd (recover_transactions s a (d, n))))"
    by (cases "fst (recover_transactions s a (d, n))") simp_all
  with Recover_Lanes show ?thesis by simp
qed

section \<open>What callers rely on\<close>

text \<open>
  C8. A coordinated commit is atomic wherever it is cut off. After any history of commits and recoveries,
  each cut off anywhere, a commit that returns has published its whole update; one that raises or loses
  power has published the whole update or left everything that was published as it was; and the disk is
  sound in each case.
\<close>

theorem commits_are_atomic:
  "case coordinated_transaction s a lanes (lane_history s xs, n) of (r, d, m) \<Rightarrow> disk_ok s d
     \<and> (case r of Done h \<Rightarrow> whole_update s (Commit_Lanes a lanes n) (lane_history s xs) d
        | _ \<Rightarrow> same_view (lane_history s xs) d \<or> whole_update s (Commit_Lanes a lanes n) (lane_history s xs) d)"
proof (cases "select_lanes lanes")
  case (Inl e)
  then show ?thesis by (simp add: select_failed lane_history_ok)
next
  case (Inr lds)
  obtain r d m where run: "coordinated_transaction s a lanes (lane_history s xs, n) = (r, d, m)"
    by (cases "coordinated_transaction s a lanes (lane_history s xs, n)")
  let ?d = "lane_history s xs"
  have "ends (\<lambda>_. published s a lds ?d) (\<lambda>_ d'. kept s ?d d' \<or> published s a lds ?d d') (\<lambda>d'. kept s ?d d' \<or> published s a lds ?d d') r d"
    by (rule dspecD [OF transaction_spec [OF Inr] _ run]) (simp add: lane_history_ok)
  then show ?thesis
    using run Inr by (cases r) (auto simp: whole_update_def kept_def published_def)
qed

text \<open>
  C10. A reader never sees a part of a commit: whatever the history, a read that succeeds returns the
  published content of the lane with no commit pending, and no read fails on a lane head that does not
  match its database or on a database with a rollback journal.
\<close>

theorem readers_see_published:
  "case read_lane s ld (lane_history s xs) of
     Inl e \<Rightarrow> e \<noteq> LaneError ''LANE_HEAD_MISMATCH'' \<and> e \<noteq> Raised ''OperationalError''
   | Inr c \<Rightarrow> pending (root_db (lane_history s xs)) = [] \<and> lane_view (lane_history s xs) (canonical_lane_id ld) = Some c"
proof -
  let ?d = "lane_history s xs" and ?i = "canonical_lane_id ld"
  have "lane_clean s ?d ?i" if "pending (root_db ?d) = []" "catalogued ?i (root_db ?d) = Some r" for r
  proof -
    from that(2) have "?i \<in> lanes_of ?d" by (auto simp: catalogued_def lanes_of_def dest!: find_SomeD intro!: image_eqI [where x = r])
    with that(1) lane_history_ok [of s xs] show ?thesis by (simp add: disk_ok_def)
  qed
  then show ?thesis
    by (auto simp: read_lane_def Let_def project_snapshot_def rbind_def lane_clean_def lane_view_def split: option.splits)
qed

text \<open>
  C11. Recoveries change nothing that is published, however many are made and wherever each one is cut off.
\<close>

theorem recoveries_keep_published:
  "same_view (lane_history s xs) (lane_history s (xs @ map (\<lambda>(a, n). Recover_Lanes a n) rs))"
proof -
  have "\<not> whole_update s x d d'" if "x \<in> set (map (\<lambda>(a, n). Recover_Lanes a n) rs)" for x d d'
    using that by (auto simp: whole_update_def)
  then have "same_view (lane_history s xs) (fold (disk_after s) (map (\<lambda>(a, n). Recover_Lanes a n) rs) (lane_history s xs))"
    by (intro lane_store.run_same lane_history_ok) (metis in_set_conv_decomp)
  then show ?thesis by (simp add: lane_history_def)
qed

text \<open>
  C9. A recovery that is left alone completes: with the power for 109 writes, no injected fault, the writer
  and its fence in order and the scratch names unused, it returns, nothing is pending any more and the
  published contents are those the interrupted commit started from.
\<close>

theorem recovery_completes:
  assumes "disk_ok s d" "undisturbed a d" "RECOVERY_WRITES \<le> n"
  shows "case recover_transactions s a (d, n) of (r, d', m) \<Rightarrow>
    (case r of Done _ \<Rightarrow> True | _ \<Rightarrow> False) \<and> disk_ok s d' \<and> pending (root_db d') = [] \<and> same_view d d'"
  using recovery_runs [OF assms] by (auto simp: idle_def)

definition sample_site :: site where
  "sample_site = \<lparr>st_project = ''p'', st_hash = (\<lambda>x. x),
     st_image = (\<lambda>c. if c = [] then None else Some \<lparr>im_identity = Some (''p'', ''custom__x'', ''sector'', STORAGE_LAYOUT),
       im_application = LANE_APPLICATION_ID, im_quick_check = ''ok'', im_foreign_keys_ok = True, im_journal_mode = ''delete'',
       im_objects = [], im_history = None\<rparr>),
     st_new_database = (\<lambda>ld. ''new''), st_torn = (\<lambda>old new. take 1 new @ drop 1 old)\<rparr>"

definition sample_commit :: string where
  "sample_commit = ''01234567-89ab-cdef-0123-456789abcdef''"

definition sample_undo :: undo_body where
  "sample_undo = \<lparr>ub_project = ''p'', ub_layout = STORAGE_LAYOUT, ub_root = \<lparr>rh_revision = 3, rh_digest = ''r'', rh_commit = None\<rparr>,
     ub_heads = [\<lparr>lh_lane = ''custom__x'', lh_revision = 3, lh_digest = lane_digest sample_site ''custom__x'' ''old'', lh_commit = ''c''\<rparr>],
     ub_lanes = [\<lparr>ur_lane = ''custom__x'', ur_database = ''custom__x/custom__x_sector_v001.sqlite'',
       ur_backup = backup_path sample_commit ''custom__x'', ur_before = ''old'', ur_after = None\<rparr>],
     ub_fence = None, ub_published = None\<rparr>"

text \<open>The power failed while SQLite was writing the second of two commits into the lane.\<close>

definition sample_disk :: disk where
  "sample_disk = \<lparr>root_db = \<lparr>rt_catalog = [\<lparr>ca_lane = ''custom__x'', ca_kind = Sector, ca_path = ''custom__x/custom__x_sector_v001.sqlite''\<rparr>],
       rt_head = ub_root sample_undo, rt_heads = ub_heads sample_undo,
       rt_journal = [\<lparr>jr_commit = sample_commit, jr_phase = journal_phase.Prepared, jr_body = sample_undo, jr_created = [], jr_updated = []\<rparr>]\<rparr>,
     lane_db = (\<lambda>i. if i = ''custom__x'' then Some \<lparr>db_content = ''nld'', db_hot = Some ''old''\<rparr> else None),
     backup_files = (\<lambda>k. if k = (sample_commit, ''custom__x'') then Some ''old'' else None),
     txn_folders = [sample_commit], restore_files = (\<lambda>_. None), object_files = (\<lambda>_. None), history_files = (\<lambda>_. None)\<rparr>"

definition sample_attempt :: attempt where
  "sample_attempt = \<lparr>at_commit = ''c2'', at_scratch = (\<lambda>i. ''u''), at_now = ''t'', at_writer = None, at_expected = None,
     at_fault = (\<lambda>_. None), at_read_only = False, at_writer_busy = False, at_publication_busy = False,
     at_write = (\<lambda>cs. ([], Inr cs)), at_optimize = (\<lambda>_. Inr)\<rparr>"

lemma sample_body_short: "drop 700 (json_text (undo_json sample_undo)) = []"
  by code_simp

lemma sample_evidence: "validate_undo sample_site sample_commit sample_undo sample_disk = Inr ()"
proof -
  have "undo_records_ok sample_site sample_commit (ub_heads sample_undo) [] (ub_lanes sample_undo) sample_disk \<and> uuid_pattern sample_commit"
    by code_simp
  with sample_body_short show ?thesis by (simp add: validate_undo_def) (simp add: sample_undo_def sample_site_def)
qed

lemma sample_ok: "disk_ok sample_site sample_disk"
proof -
  have "pending (root_db sample_disk) = [\<lparr>jr_commit = sample_commit, jr_phase = journal_phase.Prepared, jr_body = sample_undo, jr_created = [], jr_updated = []\<rparr>]"
    by (simp add: sample_disk_def pending_def)
  moreover have "lanes_of sample_disk = {''custom__x''}" by (simp add: sample_disk_def lanes_of_def)
  moreover have "delete_mode sample_site ''old''" by (simp add: delete_mode_def sample_site_def)
  ultimately show ?thesis
    using sample_evidence
    by (simp add: disk_ok_def evidence_ok_def undo_lanes_def openable_def copied_def) (simp add: sample_disk_def sample_undo_def)
qed

theorem recovery_completes_witness:
  "case recover_transactions sample_site sample_attempt (sample_disk, 109) of (r, d', m) \<Rightarrow>
    (case r of Done _ \<Rightarrow> True | _ \<Rightarrow> False) \<and> disk_ok sample_site d' \<and> pending (root_db d') = [] \<and> same_view sample_disk d'"
proof (rule recovery_completes [OF sample_ok])
  show "undisturbed sample_attempt sample_disk"
    by (simp add: undisturbed_def writer_lock_def check_commit_def calm_def free_def pending_def sample_attempt_def sample_disk_def)
qed (simp add: RECOVERY_WRITES_def)

text \<open>
  C38. A schema history of the lane of the receipts that went stale blocks the project: after any further
  commits and recoveries it is still stale, and no commit returns.
\<close>

theorem stale_history_blocks:
  assumes "stale_history s ''receipts'' d"
  shows "stale_history s ''receipts'' (fold (disk_after s) xs d)
    \<and> (case fst (coordinated_transaction s a lanes (fold (disk_after s) xs d, n)) of Done h \<Rightarrow> False | _ \<Rightarrow> True)"
proof -
  have W: "stale_history s ''receipts'' (fold (disk_after s) xs d)"
    using assms by (induction xs arbitrary: d) (simp_all add: step_stale)
  show ?thesis
  proof (cases "select_lanes lanes")
    case (Inl e)
    with W show ?thesis by (simp add: select_failed)
  next
    case (Inr lds)
    from receipts_selected [OF this] obtain ld where "ld \<in> set lds" "canonical_lane_id ld = ''receipts''" by blast
    then have "ends (\<lambda>_ _. False) (\<lambda>_. stale_history s ''receipts'') (stale_history s ''receipts'')
        (fst (coordinated_transaction s a lanes (fold (disk_after s) xs d, n)))
        (fst (snd (coordinated_transaction s a lanes (fold (disk_after s) xs d, n))))"
      by (intro run_ends [OF transaction_stale [OF Inr]] W)
    with W show ?thesis by (cases "fst (coordinated_transaction s a lanes (fold (disk_after s) xs d, n))") simp_all
  qed
qed

text \<open>A commit migrated the lane and was published; the power failed before the file was written.\<close>

definition stale_site :: site where
  "stale_site = sample_site\<lparr>st_image := (\<lambda>c. Some \<lparr>im_identity = Some (''p'', ''receipts'', ''authority'', STORAGE_LAYOUT),
       im_application = LANE_APPLICATION_ID, im_quick_check = ''ok'', im_foreign_keys_ok = True, im_journal_mode = ''delete'',
       im_objects = [], im_history = Some [\<lparr>he_owner = ''receipts'', he_version = 1, he_filename = ''schema-history.v4.json'',
         he_digest = ''d'', he_text = ''{}'', he_document = Some (JObj [])\<rparr>]\<rparr>)\<rparr>"

definition stale_disk :: disk where
  "stale_disk = new_disk\<lparr>lane_db := (\<lambda>i. if i = ''receipts'' then Some \<lparr>db_content = ''new'', db_hot = None\<rparr> else None)\<rparr>"

theorem stale_history_blocks_witness:
  "stale_history stale_site ''receipts'' (fold (disk_after stale_site) [Recover_Lanes sample_attempt 5] stale_disk)
    \<and> (case fst (coordinated_transaction stale_site sample_attempt [] (fold (disk_after stale_site) [Recover_Lanes sample_attempt 5] stale_disk, 200)) of
       Done h \<Rightarrow> False | _ \<Rightarrow> True)"
  by (rule stale_history_blocks)
    (simp add: stale_history_def stale_disk_def stale_site_def new_disk_def pending_def)

end
