(* ===== verification/Canon_Rows.thy ===== *)
theory Canon_Rows
  imports Capture Writers
begin

text \<open>
  The data of the task exchange lane (canon_task_graph.py): participants owned by engine clients,
  receiver-owned contracts, messages and their sealed envelopes, task edges, the attributed events,
  and the tables that hold them. A stored body is kept as the value its JSON text was made of.
\<close>

section \<open>Values\<close>

datatype canon_kind = Requirements | Evidence | Correction | Plan_Proposal | Task_Result | Clarification | Backfire

definition canon_kind_name :: "canon_kind \<Rightarrow> string" where
  "canon_kind_name k = (case k of Requirements \<Rightarrow> ''requirements'' | Evidence \<Rightarrow> ''evidence'' | Correction \<Rightarrow> ''correction''
     | Plan_Proposal \<Rightarrow> ''plan_proposal'' | Task_Result \<Rightarrow> ''result'' | Clarification \<Rightarrow> ''clarification'' | Backfire \<Rightarrow> ''backfire'')"

datatype canon_state = Sealed | Received | Admitted | Rejected | Needs_Clarification | Was_Superseded

definition canon_state_name :: "canon_state \<Rightarrow> string" where
  "canon_state_name st = (case st of Sealed \<Rightarrow> ''sealed'' | Received \<Rightarrow> ''received'' | Admitted \<Rightarrow> ''admitted''
     | Rejected \<Rightarrow> ''rejected'' | Needs_Clarification \<Rightarrow> ''needs_clarification'' | Was_Superseded \<Rightarrow> ''superseded'')"

datatype local_role = Outbox | Inbox | Both_Boxes

definition local_role_name :: "local_role \<Rightarrow> string" where
  "local_role_name r = (case r of Outbox \<Rightarrow> ''outbox'' | Inbox \<Rightarrow> ''inbox'' | Both_Boxes \<Rightarrow> ''both'')"

datatype scalar_kind = String_Field | Integer_Field | Number_Field | Boolean_Field | Null_Field

definition scalar_kind_name :: "scalar_kind \<Rightarrow> string" where
  "scalar_kind_name k = (case k of String_Field \<Rightarrow> ''string'' | Integer_Field \<Rightarrow> ''integer'' | Number_Field \<Rightarrow> ''number''
     | Boolean_Field \<Rightarrow> ''boolean'' | Null_Field \<Rightarrow> ''null'')"

text \<open>The test of \<open>types[kind]\<close>; numbers are integers here.\<close>

fun scalar_has :: "scalar_kind \<Rightarrow> json \<Rightarrow> bool" where
  "scalar_has String_Field (JStr _) = True"
| "scalar_has Integer_Field (JInt _) = True"
| "scalar_has Number_Field (JInt _) = True"
| "scalar_has Boolean_Field (JBool _) = True"
| "scalar_has Null_Field JNull = True"
| "scalar_has _ _ = False"

fun is_scalar :: "json \<Rightarrow> bool" where
  "is_scalar (JArr _) = False"
| "is_scalar (JObj _) = False"
| "is_scalar _ = True"

record endpoint =
  ep_project :: string
  ep_participant :: string

record participant =
  pa_project :: string
  pa_id :: string
  pa_owner :: string
  pa_label :: string
  pa_reported :: "string option"
  pa_generation :: int

text \<open>\<open>MemoryReference\<close> (project_memory.py).\<close>

record memory_reference =
  mr_kind :: string
  mr_key :: string
  mr_digest :: string
  mr_revision :: "int option"
  mr_profile :: "string option"
  mr_lane :: "string option"

record canon_payload =
  py_summary :: string
  py_fields :: "(string \<times> json) list"
  py_references :: "memory_reference list"

record backfire_details =
  bd_exchange :: string
  bd_digest :: string
  bd_class :: string
  bd_revision :: int
  bd_dependencies :: "string list"
  bd_return_route :: endpoint
  bd_trace :: "endpoint list"

text \<open>\<open>CanonSend\<close> without its request identifier: what the envelope seals.\<close>

record message =
  ms_sender :: string
  ms_receiver :: string
  ms_destination :: "string option"
  ms_kind :: canon_kind
  ms_payload :: canon_payload
  ms_expected :: "string option"
  ms_return :: "string option"
  ms_reply_to :: "string option"
  ms_supersedes :: "string option"
  ms_expires :: "string option"
  ms_edge :: "string option"
  ms_backfire :: "backfire_details option"

record envelope =
  xv_project :: string
  xv_id :: string
  xv_revision :: int
  xv_client :: string
  xv_message :: message
  xv_depth :: int
  xv_created :: string

text \<open>The receiver's contract: \<open>CanonExpected\<close> without the fields of the request.\<close>

record expected_input =
  ex_receiver :: string
  ex_key :: string
  ex_senders :: "string list"
  ex_endpoints :: "endpoint list"
  ex_kinds :: "canon_kind list"
  ex_fields :: "(string \<times> scalar_kind) list"
  ex_required :: "string list"
  ex_max_bytes :: int
  ex_auto_admit :: bool
  ex_active :: bool

record contract_body =
  kb_project :: string
  kb_contract :: expected_input
  kb_version :: int
  kb_client :: string
  kb_schema :: string
  kb_created :: string

text \<open>\<open>CanonTaskEdgeRegister\<close> without the request and the source.\<close>

record edge_definition =
  ed_id :: string
  ed_destination :: endpoint
  ed_direction :: string
  ed_contract :: string
  ed_schema :: string
  ed_return :: string
  ed_revision :: int
  ed_dependencies :: "string list"
  ed_mode :: string
  ed_scope :: string
  ed_actions :: "string list"
  ed_paths :: "string list"
  ed_tools :: "string list"
  ed_expires :: "string option"

record edge_body =
  eb_source :: endpoint
  eb_definition :: edge_definition
  eb_source_at_seal :: participant
  eb_destination_at_seal :: participant
  eb_created :: string

section \<open>JSON forms\<close>

definition jstrings :: "string list \<Rightarrow> json" where
  "jstrings xs = JArr (map JStr xs)"

definition jnumber_opt :: "int option \<Rightarrow> json" where
  "jnumber_opt x = (case x of None \<Rightarrow> JNull | Some i \<Rightarrow> JInt i)"

definition endpoint_json :: "endpoint \<Rightarrow> json" where
  "endpoint_json e = JObj [(''project_id'', JStr (ep_project e)), (''participant_id'', JStr (ep_participant e))]"

definition participant_json :: "participant \<Rightarrow> json" where
  "participant_json p = JObj [(''project_id'', JStr (pa_project p)), (''participant_id'', JStr (pa_id p)),
     (''owner_client_id'', JStr (pa_owner p)), (''label'', JStr (pa_label p)), (''reported_host_task_id'', jopt (pa_reported p)),
     (''owner_generation'', JInt (pa_generation p)),
     (''identity_evidence'', JStr ''engine_client_ownership_with_optional_host_claim''),
     (''native_task_attestation'', JStr ''not_provided''), (''host_task_created'', JBool False)]"

definition reference_json :: "memory_reference \<Rightarrow> json" where
  "reference_json r = JObj [(''kind'', JStr (mr_kind r)), (''key'', JStr (mr_key r)), (''digest'', JStr (mr_digest r)),
     (''revision'', jnumber_opt (mr_revision r)), (''profile'', jopt (mr_profile r)), (''lane_id'', jopt (mr_lane r))]"

definition payload_json :: "canon_payload \<Rightarrow> json" where
  "payload_json p = JObj [(''summary'', JStr (py_summary p)), (''fields'', JObj (py_fields p)),
     (''references'', JArr (map reference_json (py_references p)))]"

definition backfire_json :: "backfire_details \<Rightarrow> json" where
  "backfire_json b = JObj [(''admitted_exchange_id'', JStr (bd_exchange b)), (''admitted_envelope_digest'', JStr (bd_digest b)),
     (''failure_class'', JStr (bd_class b)), (''requested_revision'', JInt (bd_revision b)),
     (''dependency_ids'', jstrings (bd_dependencies b)), (''return_route'', endpoint_json (bd_return_route b)),
     (''trace'', JArr (map endpoint_json (bd_trace b))), (''automatic_retry_allowed'', JBool False)]"

definition message_fields :: "message \<Rightarrow> (string \<times> json) list" where
  "message_fields m = [(''sender_id'', JStr (ms_sender m)), (''receiver_id'', JStr (ms_receiver m)),
     (''destination_project_id'', jopt (ms_destination m)), (''kind'', JStr (canon_kind_name (ms_kind m))),
     (''payload'', payload_json (ms_payload m)), (''expected_contract'', jopt (ms_expected m)),
     (''return_contract'', jopt (ms_return m)), (''reply_to'', jopt (ms_reply_to m)), (''supersedes'', jopt (ms_supersedes m)),
     (''expires_at'', jopt (ms_expires m)), (''edge_id'', jopt (ms_edge m)),
     (''backfire'', case ms_backfire m of None \<Rightarrow> JNull | Some b \<Rightarrow> backfire_json b)]"

definition send_json :: "string \<Rightarrow> message \<Rightarrow> json" where
  "send_json rid m = JObj ((''request_id'', JStr rid) # message_fields m)"

definition envelope_json :: "envelope \<Rightarrow> json" where
  "envelope_json e = JObj [(''schema'', JStr ''evidence-lane.canon-envelope.v4''), (''project_id'', JStr (xv_project e)),
     (''exchange_id'', JStr (xv_id e)), (''revision'', JInt (xv_revision e)), (''source_client_id'', JStr (xv_client e)),
     (''message'', JObj (message_fields (xv_message e))), (''return_depth'', JInt (xv_depth e)), (''created_at'', JStr (xv_created e)),
     (''payload_provenance'', JStr ''agent_report''), (''native_task_attestation'', JStr ''not_provided''),
     (''source_write_granted'', JBool False), (''plan_mutated'', JBool False)]"

definition expected_fields :: "expected_input \<Rightarrow> (string \<times> json) list" where
  "expected_fields x = [(''receiver_id'', JStr (ex_receiver x)), (''contract_key'', JStr (ex_key x)),
     (''sender_ids'', jstrings (ex_senders x)), (''sender_endpoints'', JArr (map endpoint_json (ex_endpoints x))),
     (''kinds'', jstrings (map canon_kind_name (ex_kinds x))),
     (''fields'', JObj (map (\<lambda>(k, t). (k, JStr (scalar_kind_name t))) (ex_fields x))),
     (''required_reference_kinds'', jstrings (ex_required x)), (''max_bytes'', JInt (ex_max_bytes x)),
     (''auto_admit'', JBool (ex_auto_admit x)), (''active'', JBool (ex_active x))]"

definition contract_json :: "contract_body \<Rightarrow> json" where
  "contract_json c = JObj [(''project_id'', JStr (kb_project c)), (''contract'', JObj (expected_fields (kb_contract c))),
     (''version'', JInt (kb_version c)), (''source_client_id'', JStr (kb_client c)),
     (''payload_schema_digest'', JStr (kb_schema c)), (''created_at'', JStr (kb_created c))]"

definition definition_fields :: "edge_definition \<Rightarrow> (string \<times> json) list" where
  "definition_fields d = [(''edge_id'', JStr (ed_id d)), (''destination'', endpoint_json (ed_destination d)),
     (''direction'', JStr (ed_direction d)), (''contract_digest'', JStr (ed_contract d)), (''schema_digest'', JStr (ed_schema d)),
     (''expected_return_contract'', JStr (ed_return d)), (''edge_revision'', JInt (ed_revision d)),
     (''dependency_ids'', jstrings (ed_dependencies d)), (''task_mode'', JStr (ed_mode d)), (''scope_class'', JStr (ed_scope d)),
     (''permitted_actions'', jstrings (ed_actions d)), (''permitted_paths'', jstrings (ed_paths d)),
     (''permitted_tools'', jstrings (ed_tools d)), (''expires_at'', jopt (ed_expires d))]"

definition edge_json :: "edge_body \<Rightarrow> json" where
  "edge_json b = JObj [(''schema'', JStr ''evidence-lane.canon-task-edge.v4''), (''source'', endpoint_json (eb_source b)),
     (''definition'', JObj (definition_fields (eb_definition b))), (''source_at_seal'', participant_json (eb_source_at_seal b)),
     (''destination_at_seal'', participant_json (eb_destination_at_seal b)), (''created_at'', JStr (eb_created b)),
     (''one_writer'', JBool True), (''approval_propagation_allowed'', JBool False), (''pointer_propagation_allowed'', JBool False),
     (''source_write_granted'', JBool False), (''native_task_attestation'', JStr ''not_provided'')]"

section \<open>Results\<close>

record edge_result =
  et_project :: string
  et_id :: string
  et_digest :: string
  et_edge :: edge_body
  et_path :: string
  et_role :: string
  et_bound :: bool
  et_duplicate :: bool

record sent =
  sn_id :: string
  sn_digest :: string
  sn_state :: canon_state
  sn_duplicate :: bool
  sn_role :: local_role
  sn_path :: string
  sn_reasons :: "string list"
  sn_required :: bool

record decision =
  dc_id :: string
  dc_state :: canon_state
  dc_version :: int
  dc_receiver :: string
  dc_reason :: string
  dc_accept :: bool
  dc_reasons :: "string list"

record superseded =
  su_id :: string
  su_digest :: string
  su_successor :: string
  su_successor_digest :: string
  su_receiver :: string
  su_version :: int
  su_basis :: string
  su_duplicate :: bool

text \<open>The requests of the two conditional operations, and what their events record.\<close>

record task_result_request =
  tr_request :: string
  tr_edge :: string
  tr_reply :: string
  tr_payload :: canon_payload
  tr_expires :: "string option"

record backfire_request =
  br_request :: string
  br_exchange :: string
  br_digest :: string
  br_class :: string
  br_recipient :: endpoint
  br_contract :: string
  br_revision :: int
  br_payload :: canon_payload
  br_dependencies :: "string list"
  br_return_route :: endpoint
  br_return_contract :: string
  br_trace :: "endpoint list"
  br_expires :: string

datatype operation_request = Result_Request task_result_request | Backfire_Request backfire_request

record operation_record =
  op_delivery :: sent
  op_key :: string
  op_identity :: string
  op_request :: operation_request

datatype canon_result =
    Joined participant
  | Contracted string contract_body
  | Edge_Recorded edge_result
  | Delivered sent
  | Decided decision
  | Superseding superseded
  | Operated operation_record
  | Operation_Replayed string string string

definition edge_result_fields :: "edge_result \<Rightarrow> (string \<times> json) list" where
  "edge_result_fields r = [(''project_id'', JStr (et_project r)), (''edge_id'', JStr (et_id r)), (''edge_digest'', JStr (et_digest r)),
     (''edge'', edge_json (et_edge r)), (''artifact_path'', JStr (et_path r)), (''local_role'', JStr (et_role r)),
     (''destination_bound'', JBool (et_bound r)), (''duplicate'', JBool (et_duplicate r)),
     (''contract_hash_evidence'', JStr ''declared_scope_verified_when_used_by_exchange''),
     (''source_write_granted'', JBool False), (''plan_mutated'', JBool False), (''host_task_created'', JBool False),
     (''native_task_attestation'', JStr ''not_provided'')]"

definition sent_fields :: "sent \<Rightarrow> (string \<times> json) list" where
  "sent_fields r = [(''exchange_id'', JStr (sn_id r)), (''envelope_digest'', JStr (sn_digest r)),
     (''state'', JStr (canon_state_name (sn_state r))), (''duplicate'', JBool (sn_duplicate r)),
     (''local_role'', JStr (local_role_name (sn_role r))), (''artifact_path'', JStr (sn_path r)),
     (''compatibility_reasons'', jstrings (sn_reasons r)), (''receiver_decision_required'', JBool (sn_required r)),
     (''authority'', JStr ''canon''), (''source_write_granted'', JBool False), (''plan_mutated'', JBool False)]"

definition decision_fields :: "decision \<Rightarrow> (string \<times> json) list" where
  "decision_fields r = [(''exchange_id'', JStr (dc_id r)), (''state'', JStr (canon_state_name (dc_state r))),
     (''version'', JInt (dc_version r)), (''receiver_id'', JStr (dc_receiver r)), (''reason'', JStr (dc_reason r)),
     (''incompatible_input_decision'', if dc_accept r then JStr ''ACCEPT'' else JNull),
     (''compatibility_reasons'', jstrings (dc_reasons r)), (''plan_mutated'', JBool False), (''source_write_granted'', JBool False)]"

definition superseded_fields :: "superseded \<Rightarrow> (string \<times> json) list" where
  "superseded_fields r = [(''exchange_id'', JStr (su_id r)), (''envelope_digest'', JStr (su_digest r)),
     (''successor_id'', JStr (su_successor r)), (''successor_envelope_digest'', JStr (su_successor_digest r)),
     (''receiver_id'', JStr (su_receiver r)), (''version'', JInt (su_version r)), (''decision_basis'', JStr (su_basis r)),
     (''state'', JStr ''superseded''), (''duplicate'', JBool (su_duplicate r)), (''plan_mutated'', JBool False),
     (''source_write_granted'', JBool False)]"

definition operation_request_json :: "operation_request \<Rightarrow> json" where
  "operation_request_json q = (case q of
       Result_Request r \<Rightarrow> JObj [(''request_id'', JStr (tr_request r)), (''edge_id'', JStr (tr_edge r)), (''reply_to'', JStr (tr_reply r)),
         (''payload'', payload_json (tr_payload r)), (''expires_at'', jopt (tr_expires r))]
     | Backfire_Request r \<Rightarrow> JObj [(''request_id'', JStr (br_request r)), (''admitted_exchange_id'', JStr (br_exchange r)),
         (''admitted_envelope_digest'', JStr (br_digest r)), (''failure_class'', JStr (br_class r)),
         (''recipient'', endpoint_json (br_recipient r)), (''requested_contract'', JStr (br_contract r)),
         (''requested_revision'', JInt (br_revision r)), (''payload'', payload_json (br_payload r)),
         (''dependency_ids'', jstrings (br_dependencies r)), (''return_route'', endpoint_json (br_return_route r)),
         (''return_contract'', JStr (br_return_contract r)), (''trace'', JArr (map endpoint_json (br_trace r))),
         (''expires_at'', JStr (br_expires r))])"

definition operation_sent_fields :: "string \<Rightarrow> sent \<Rightarrow> (string \<times> json) list" where
  "operation_sent_fields key r = sent_fields r @ [(''dedup_key'', JStr key), (''automatic_retry_allowed'', JBool False)]"

definition canon_result_json :: "canon_result \<Rightarrow> json" where
  "canon_result_json r = (case r of
       Joined p \<Rightarrow> participant_json p
     | Contracted d b \<Rightarrow> JObj [(''contract_digest'', JStr d), (''version'', JInt (kb_version b)), (''contract'', contract_json b)]
     | Edge_Recorded e \<Rightarrow> JObj (edge_result_fields e)
     | Delivered m \<Rightarrow> JObj (sent_fields m)
     | Decided d \<Rightarrow> JObj (decision_fields d)
     | Superseding u \<Rightarrow> JObj (superseded_fields u)
     | Operated p \<Rightarrow> JObj [(''exchange_id'', JStr (sn_id (op_delivery p))),
         (''delivery'', JObj (operation_sent_fields (op_key p) (op_delivery p))),
         (''operation'', JObj [(''dedup_key'', JStr (op_key p)), (''identity_digest'', JStr (op_identity p)),
           (''request'', operation_request_json (op_request p))])]
     | Operation_Replayed i c k \<Rightarrow> JObj [(''exchange_id'', JStr i), (''canonical_request_id'', JStr c), (''dedup_key'', JStr k)])"

section \<open>Tables\<close>

record participant_row =
  pr_id :: string
  pr_owner :: string
  pr_body :: participant
  pr_digest :: string
  pr_created :: string

record contract_row =
  ct_digest :: string
  ct_receiver :: string
  ct_key :: string
  ct_version :: int
  ct_body :: contract_body

record exchange_row =
  xc_sequence :: nat
  xc_id :: string
  xc_sender :: string
  xc_receiver :: string
  xc_kind :: canon_kind
  xc_digest :: string
  xc_body :: envelope
  xc_state :: canon_state
  xc_version :: int
  xc_state_digest :: string
  xc_parent :: "string option"
  xc_created :: string
  xc_source :: string
  xc_destination :: string
  xc_role :: local_role
  xc_path :: string

record canon_event =
  cv_sequence :: nat
  cv_request :: string
  cv_kind :: string
  cv_actor :: string
  cv_input :: string
  cv_result :: canon_result
  cv_previous :: "string option"
  cv_digest :: string
  cv_created :: string

record edge_row =
  er_id :: string
  er_digest :: string
  er_source :: string
  er_destination :: string
  er_body :: edge_body
  er_path :: string

text \<open>
  Continuity (task_binding_registry.py): what an offer binds, the authority checkpoint of the exchange lane, the
  ownership record of a transferred participant, and the tables of the continuation in the chat lineage lane.
\<close>

record canon_locator =
  cl_sequence :: nat
  cl_id :: string
  cl_digest :: string
  cl_source :: string
  cl_destination :: string
  cl_sender :: string
  cl_receiver :: string
  cl_state :: canon_state
  cl_version :: int
  cl_expected :: "string option"

record canon_checkpoint =
  cp_project :: string
  cp_participants :: "string list"
  cp_sequence :: nat
  cp_head :: "string option"
  cp_pending :: "canon_locator list"

record recovery_terms =
  rt_source :: string
  rt_destination :: string
  rt_reason :: string

text \<open>\<open>cb_canon\<close> is the checkpoint with its digest; historical offers have none.\<close>

record continuation_body =
  cb_id :: string
  cb_project :: string
  cb_source_root :: string
  cb_state_root :: string
  cb_participant :: string
  cb_source_client :: string
  cb_source_digest :: string
  cb_generation :: int
  cb_destination :: string
  cb_participants :: "(string \<times> string) list"
  cb_destination_digest :: string
  cb_destination_client :: string
  cb_task :: memory_reference
  cb_memory :: "string option"
  cb_lineage :: "string option"
  cb_canon :: "(canon_checkpoint \<times> string) option"
  cb_plan_head :: "string option"
  cb_expires :: string
  cb_created :: string
  cb_recovery :: "(recovery_terms \<times> string) option"

record continuation_offered =
  fo_id :: string
  fo_digest :: string
  fo_source :: string
  fo_destination :: string
  fo_expires :: string
  fo_canon :: "string option"

record continuation_accepted =
  fa_id :: string
  fa_participant :: string
  fa_generation :: int
  fa_owner :: string
  fa_previous :: string
  fa_binding :: string
  fa_revision :: int
  fa_task :: string
  fa_participants :: "string list"
  fa_canon :: "string option"

datatype continuation_result =
    Was_Offered continuation_offered
  | Was_Accepted continuation_accepted
  | Was_Cancelled string

datatype offer_state = Offer_Open | Offer_Accepted | Offer_Cancelled

record offer_row =
  of_sequence :: nat
  of_id :: string
  of_participant :: string
  of_source :: string
  of_destination :: string
  of_digest :: string
  of_body :: continuation_body
  of_state :: offer_state
  of_result :: "continuation_accepted option"
  of_created :: string

record ownership_binding =
  ow_project :: string
  ow_participant :: string
  ow_generation :: int
  ow_previous :: participant
  ow_current :: participant
  ow_continuation :: string
  ow_task :: memory_reference
  ow_source :: string
  ow_destination :: string
  ow_created :: string
  ow_canon :: "string option"

record transfer_row =
  tb_digest :: string
  tb_participant :: string
  tb_generation :: int
  tb_body :: ownership_binding

record continuation_event =
  cw_sequence :: nat
  cw_request :: string
  cw_kind :: string
  cw_actor :: string
  cw_input :: string
  cw_result :: continuation_result
  cw_previous :: "string option"
  cw_digest :: string
  cw_created :: string

text \<open>
  The lane of one project. \<open>cn_base\<close> holds the project's identity, its writer lease and the Receipts
  lane; \<open>cn_files\<close> the packet and graph files below the lane, by their path. The last three tables are those of the
  continuation, which are kept in the chat lineage lane of the same project.
\<close>

record canon =
  cn_base :: project
  cn_participants :: "participant_row list"
  cn_contracts :: "contract_row list"
  cn_current :: "((string \<times> string) \<times> string) list"
  cn_exchanges :: "exchange_row list"
  cn_events :: "canon_event list"
  cn_supersessions :: "(string \<times> string) list"
  cn_edges :: "edge_row list"
  cn_bindings :: "(string \<times> string) list"
  cn_files :: "string \<Rightarrow> string option"
  cn_offers :: "offer_row list"
  cn_transfers :: "transfer_row list"
  cn_continuations :: "continuation_event list"

abbreviation cn_project :: "canon \<Rightarrow> string" where
  "cn_project s \<equiv> project_id (cn_base s)"

text \<open>
  What a call takes from outside: the world, the instant of a timestamp with a time zone
  (\<open>datetime.fromisoformat\<close>), \<open>uuid5\<close>, the patterns of secrets, the schema of the payload model, and the check of
  a reference by its owner (\<open>ProjectMemory._reference\<close>).
\<close>

record canon_env =
  ce_world :: world
  ce_stamp :: "string \<Rightarrow> int option"
  ce_uuid5 :: "string \<Rightarrow> string \<Rightarrow> string"
  ce_secret :: "string \<Rightarrow> bool"
  ce_clean :: "string \<Rightarrow> string"
  ce_schema :: json
  ce_reference :: "memory_reference \<Rightarrow> canon \<Rightarrow> unit result"

abbreviation ce_hash :: "canon_env \<Rightarrow> string \<Rightarrow> string" where
  "ce_hash v \<equiv> sha256 (ce_world v)"

definition at_base :: "(project, 'a) action \<Rightarrow> (canon, 'a) action" where
  "at_base m = (\<lambda>s. case m (cn_base s) of Inl e \<Rightarrow> Inl e | Inr (a, b) \<Rightarrow> Inr (a, s\<lparr>cn_base := b\<rparr>))"

text \<open>\<open>initialize\<close> and \<open>with lease.transaction('canon')\<close>; the tables exist from the first call on.\<close>

definition canon_transaction :: "canon_env \<Rightarrow> lease \<Rightarrow> (canon, 'a) action \<Rightarrow> (canon, 'a) action" where
  "canon_transaction v l m =
     bnd (at_base (own_lease (ce_world v) l)) (\<lambda>_.
     bnd (at_base (check_lease (ce_world v) l)) (\<lambda>_.
     bnd m (\<lambda>a.
     bnd (at_base (check_lease (ce_world v) l)) (\<lambda>_.
     ret a))))"

section \<open>Events\<close>

definition canon_event_json :: "canon_event \<Rightarrow> json" where
  "canon_event_json e = JObj [(''sequence'', JInt (int (cv_sequence e))), (''request_id'', JStr (cv_request e)),
     (''kind'', JStr (cv_kind e)), (''actor_id'', JStr (cv_actor e)), (''input_digest'', JStr (cv_input e)),
     (''result_json'', JStr (json_text (canon_result_json (cv_result e)))), (''previous_digest'', jopt (cv_previous e)),
     (''created_at'', JStr (cv_created e))]"

definition canon_event_ok :: "(string \<Rightarrow> string) \<Rightarrow> canon_event \<Rightarrow> bool" where
  "canon_event_ok H e \<longleftrightarrow> content_digest H (canon_event_json e) = cv_digest e"

definition new_canon_event :: "canon_env \<Rightarrow> string \<Rightarrow> string \<Rightarrow> string \<Rightarrow> string \<Rightarrow> canon_result \<Rightarrow> canon \<Rightarrow> canon_event" where
  "new_canon_event v rid kind actor key r s =
     (let prior = latest cv_sequence (cn_events s);
          e = \<lparr>cv_sequence = (case prior of None \<Rightarrow> 1 | Some p \<Rightarrow> cv_sequence p + 1), cv_request = rid, cv_kind = kind,
            cv_actor = actor, cv_input = key, cv_result = r, cv_previous = map_option cv_digest prior, cv_digest = [],
            cv_created = now (ce_world v)\<rparr>
      in e\<lparr>cv_digest := content_digest (ce_hash v) (canon_event_json e)\<rparr>)"

definition canon_event_clash :: "canon_event \<Rightarrow> canon_event \<Rightarrow> bool" where
  "canon_event_clash a b \<longleftrightarrow> cv_sequence a = cv_sequence b \<or> cv_request a = cv_request b \<or> cv_digest a = cv_digest b"

definition add_canon_event :: "canon_env \<Rightarrow> string \<Rightarrow> string \<Rightarrow> string \<Rightarrow> string \<Rightarrow> canon_result \<Rightarrow> (canon, unit) action" where
  "add_canon_event v rid kind actor key r =
     bnd (gets (new_canon_event v rid kind actor key r)) (\<lambda>e.
     insert_row cn_events cn_events_update canon_event_clash e)"

definition canon_replay :: "(string \<Rightarrow> string) \<Rightarrow> string \<Rightarrow> string \<Rightarrow> string \<Rightarrow> string \<Rightarrow> canon \<Rightarrow> canon_result option result" where
  "canon_replay H rid kind actor key s =
     (case find (\<lambda>e. cv_request e = rid) (cn_events s) of
        None \<Rightarrow> Inr None
      | Some e \<Rightarrow>
          if (cv_kind e, cv_actor e, cv_input e) \<noteq> (kind, actor, key) then Inl (LaneError ''CANON_REQUEST_CONFLICT'')
          else if \<not> canon_event_ok H e then Inl (LaneError ''CANON_HISTORY_INTEGRITY'')
          else Inr (Some (cv_result e)))"

fun canon_walk :: "(string \<Rightarrow> string) \<Rightarrow> nat \<Rightarrow> string option \<Rightarrow> canon_event list \<Rightarrow> string option option" where
  "canon_walk H n p [] = Some p"
| "canon_walk H n p (e # es) = (if cv_sequence e = n \<and> cv_previous e = p \<and> cv_digest e = content_digest H (canon_event_json e)
     then canon_walk H (Suc n) (Some (cv_digest e)) es else None)"

text \<open>The \<open>k\<close>-th receipt of a call, in the Receipts lane of the project.\<close>

definition canon_receipt :: "nat \<Rightarrow> canon_env \<Rightarrow> string \<Rightarrow> (string \<times> json) list \<Rightarrow> (canon, unit) action" where
  "canon_receipt k v kind body = bnd (at_base (append_receipt (branch k (ce_world v)) (Some ''canon'') kind body)) (\<lambda>_. ret ())"

end
