(* ===== verification/Canon_Graph.thy ===== *)
theory Canon_Graph
  imports Canon_Rows
begin

text \<open>
  Participants and task edges of the exchange lane (canon_task_graph.py): the search for a cycle, the
  reading of a recorded edge with its integrity checks, and its registration and binding.
\<close>

section \<open>Validation of requests\<close>

primrec has_secret :: "(string \<Rightarrow> bool) \<Rightarrow> json \<Rightarrow> bool" where
  "has_secret p JNull = False"
| "has_secret p (JBool b) = False"
| "has_secret p (JInt i) = False"
| "has_secret p (JStr t) = p t"
| "has_secret p (JArr vs) = list_ex (\<lambda>x. x) (map (has_secret p) vs)"
| "has_secret p (JObj kvs) = list_ex (\<lambda>x. snd x) (map (map_prod id (has_secret p)) kvs)"

definition REASONING_KEYS :: "string list" where
  "REASONING_KEYS = [''chain_of_thought'', ''private_reasoning'', ''hidden_reasoning'', ''internal_reasoning'', ''reasoning_content'']"

definition safe_text :: "canon_env \<Rightarrow> json \<Rightarrow> bool" where
  "safe_text v j \<longleftrightarrow> \<not> has_secret (ce_secret v) j \<and> redact (ce_clean v) j = j
     \<and> (case j of JObj kvs \<Rightarrow> list_all (\<lambda>kv. map lower_char (fst kv) \<notin> set REASONING_KEYS) kvs | _ \<Rightarrow> True)"

definition valid_endpoint :: "endpoint \<Rightarrow> bool" where
  "valid_endpoint e \<longleftrightarrow> uuid_pattern (ep_project e) \<and> uuid_pattern (ep_participant e)"

definition bounded_entries :: "canon_env \<Rightarrow> string list \<Rightarrow> bool" where
  "bounded_entries v xs \<longleftrightarrow> length xs \<le> 32 \<and> distinct xs \<and> list_all (\<lambda>x. \<not> blank x \<and> length x \<le> 512) xs
     \<and> safe_text v (jstrings xs)"

text \<open>A timestamp that is given must parse and have a time zone.\<close>

definition valid_stamp :: "canon_env \<Rightarrow> string option \<Rightarrow> bool" where
  "valid_stamp v t \<longleftrightarrow> (case t of None \<Rightarrow> True | Some x \<Rightarrow> length x \<le> 40 \<and> (x = [] \<or> ce_stamp v x \<noteq> None))"

definition valid_edge :: "canon_env \<Rightarrow> string \<Rightarrow> edge_definition \<Rightarrow> bool" where
  "valid_edge v source d \<longleftrightarrow> uuid_pattern (ed_id d) \<and> uuid_pattern source \<and> valid_endpoint (ed_destination d)
     \<and> ed_direction d \<in> set [''upstream'', ''downstream'', ''lateral'']
     \<and> digest_pattern (ed_contract d) \<and> digest_pattern (ed_schema d) \<and> digest_pattern (ed_return d) \<and> 1 \<le> ed_revision d
     \<and> ed_mode d \<in> set [''top_level_task'', ''subagent''] \<and> ed_scope d \<in> set [''read_only'', ''governed_read_write'']
     \<and> list_all (bounded_entries v) [ed_dependencies d, ed_actions d, ed_paths d, ed_tools d]
     \<and> list_all uuid_pattern (ed_dependencies d) \<and> ed_id d \<notin> set (ed_dependencies d) \<and> valid_stamp v (ed_expires d)"

section \<open>Participants\<close>

definition find_participant :: "string \<Rightarrow> canon \<Rightarrow> participant_row option" where
  "find_participant p s = find (\<lambda>r. pr_id r = p) (cn_participants s)"

definition read_participant :: "(string \<Rightarrow> string) \<Rightarrow> string \<Rightarrow> string option \<Rightarrow> canon \<Rightarrow> participant result" where
  "read_participant H p owner s =
     (case find_participant p s of
        None \<Rightarrow> Inl (LaneError ''CANON_PARTICIPANT_NOT_FOUND'')
      | Some r \<Rightarrow>
          if content_digest H (participant_json (pr_body r)) \<noteq> pr_digest r \<or> pa_project (pr_body r) \<noteq> cn_project s
             \<or> pa_id (pr_body r) \<noteq> p \<or> pa_owner (pr_body r) \<noteq> pr_owner r
          then Inl (LaneError ''CANON_PARTICIPANT_INTEGRITY'')
          else if (case owner of None \<Rightarrow> False | Some o' \<Rightarrow> pr_owner r \<noteq> o') then Inl (LaneError ''CANON_OWNER_MISMATCH'')
          else Inr (pr_body r))"

abbreviation check_participant :: "canon_env \<Rightarrow> string \<Rightarrow> string option \<Rightarrow> (canon, participant) action" where
  "check_participant v p owner \<equiv> bnd (gets (read_participant (ce_hash v) p owner)) lift_result"

record join_request =
  jo_request :: string
  jo_label :: string
  jo_reported :: "string option"

definition join_json :: "join_request \<Rightarrow> json" where
  "join_json r = JObj [(''request_id'', JStr (jo_request r)), (''label'', JStr (jo_label r)), (''reported_host_task_id'', jopt (jo_reported r))]"

definition valid_join :: "canon_env \<Rightarrow> join_request \<Rightarrow> bool" where
  "valid_join v r \<longleftrightarrow> uuid_pattern (jo_request r) \<and> bounded 1 200 (jo_label r) \<and> pred_option uuid_pattern (jo_reported r)
     \<and> safe_text v (JStr (jo_label r))"

abbreviation replayed :: "canon_env \<Rightarrow> string \<Rightarrow> string \<Rightarrow> string \<Rightarrow> string \<Rightarrow> (canon, canon_result option) action" where
  "replayed v rid kind actor key \<equiv> bnd (gets (canon_replay (ce_hash v) rid kind actor key)) lift_result"

definition join :: "canon_env \<Rightarrow> lease \<Rightarrow> string \<Rightarrow> join_request \<Rightarrow> (canon, participant) action" where
  "join v l actor r =
     bnd (if valid_join v r then ret () else abort (Raised ''ValidationError'')) (\<lambda>_.
     canon_transaction v l (
       bnd (ret (content_digest (ce_hash v) (join_json r))) (\<lambda>key.
       bnd (replayed v (jo_request r) ''join'' actor key) (\<lambda>prior.
       case prior of
         Some (Joined p) \<Rightarrow> ret p
       | Some _ \<Rightarrow> abort (Raised ''ValidationError'')
       | None \<Rightarrow>
           bnd (gets (\<lambda>s. \<lparr>pa_project = cn_project s, pa_id = draw 0 (ce_world v), pa_owner = actor, pa_label = jo_label r,
             pa_reported = jo_reported r, pa_generation = 1\<rparr>)) (\<lambda>p.
           bnd (insert_into cn_participants cn_participants_update pr_id
             \<lparr>pr_id = pa_id p, pr_owner = actor, pr_body = p, pr_digest = content_digest (ce_hash v) (participant_json p),
              pr_created = now (ce_world v)\<rparr>) (\<lambda>_.
           bnd (add_canon_event v (jo_request r) ''join'' actor key (Joined p)) (\<lambda>_. ret p)))))))"

section \<open>Cycles\<close>

definition node_key :: "endpoint \<Rightarrow> string" where
  "node_key e = ep_project e @ '':'' @ ep_participant e"

definition successors :: "(string \<times> string) list \<Rightarrow> string \<Rightarrow> string list" where
  "successors es n = remdups (map snd (filter (\<lambda>e. fst e = n) es))"

text \<open>The search of \<open>_would_cycle\<close>: the head of the list is the top of the stack.\<close>

function search :: "(string \<times> string) list \<Rightarrow> string \<Rightarrow> string list \<Rightarrow> string list \<Rightarrow> bool" where
  "search es goal [] seen = False"
| "search es goal (c # stack) seen =
     (if c = goal then True
      else if c \<in> set seen then search es goal stack seen
      else search es goal (rev (successors es c) @ stack) (c # seen))"
  by pat_completeness auto

lemma no_successors: "c \<notin> fst ` set es \<Longrightarrow> successors es c = []"
  by (auto simp: successors_def filter_empty_conv image_iff)

termination search
proof (relation "measures [\<lambda>(es, goal, stack, seen). card (fst ` set es - set seen), \<lambda>(es, goal, stack, seen). length stack]")
  fix es :: "(string \<times> string) list" and goal c :: string and stack seen
  assume new: "c \<notin> set seen"
  show "((es, goal, rev (successors es c) @ stack, c # seen), es, goal, c # stack, seen)
      \<in> measures [\<lambda>(es, goal, stack, seen). card (fst ` set es - set seen), \<lambda>(es, goal, stack, seen). length stack]"
  proof (cases "c \<in> fst ` set es")
    case True
    with new have "fst ` set es - set (c # seen) \<subset> fst ` set es - set seen" by auto
    then have "card (fst ` set es - set (c # seen)) < card (fst ` set es - set seen)"
      by (rule psubset_card_mono [rotated]) simp
    then show ?thesis by simp
  next
    case False
    then have "fst ` set es - set (c # seen) = fst ` set es - set seen" by auto
    then show ?thesis using no_successors [OF False] by simp
  qed
qed simp_all

definition would_cycle :: "(string \<times> string) list \<Rightarrow> string \<Rightarrow> string \<Rightarrow> bool" where
  "would_cycle es source destination = search es source [destination] []"

section \<open>Recorded edges\<close>

definition find_edge :: "string \<Rightarrow> canon \<Rightarrow> edge_row option" where
  "find_edge i s = find (\<lambda>r. er_id r = i) (cn_edges s)"

definition find_canon_event :: "string \<Rightarrow> canon \<Rightarrow> canon_event option" where
  "find_canon_event rid s = find (\<lambda>e. cv_request e = rid) (cn_events s)"

definition edge_path :: "string \<Rightarrow> string \<Rightarrow> string result" where
  "edge_path i d = (if uuid_pattern i \<and> digest_pattern d
     then Inr (''canon/objects/graph/'' @ d @ ''/'' @ i @ ''.json'') else Inl (LaneError ''CANON_EDGE_INTEGRITY''))"

text \<open>The event that bound the edge: both the binding and its event must be recorded.\<close>

definition edge_binding :: "string \<Rightarrow> canon \<Rightarrow> canon_event option" where
  "edge_binding i s = (case find (\<lambda>b. fst b = i) (cn_bindings s) of None \<Rightarrow> None | Some b \<Rightarrow> find_canon_event (snd b) s)"

definition binding_ok :: "(string \<Rightarrow> string) \<Rightarrow> edge_row \<Rightarrow> canon_event \<Rightarrow> bool" where
  "binding_ok H r e \<longleftrightarrow> canon_event_ok H e \<and> cv_kind e = ''task_edge_bind''
     \<and> (case cv_result e of Edge_Recorded t \<Rightarrow> et_id t = er_id r \<and> et_digest t = er_digest r \<and> et_bound t | _ \<Rightarrow> False)"

definition read_edge :: "canon_env \<Rightarrow> string \<Rightarrow> canon \<Rightarrow> edge_result result" where
  "read_edge v i s =
     (case find_edge i s of
        None \<Rightarrow> Inl (LaneError ''CANON_EDGE_NOT_FOUND'')
      | Some r \<Rightarrow> let b = er_body r; d = eb_definition b in
          if content_digest (ce_hash v) (edge_json b) \<noteq> er_digest r \<or> ed_id d \<noteq> i
             \<or> node_key (eb_source b) \<noteq> er_source r \<or> node_key (ed_destination d) \<noteq> er_destination r
             \<or> cn_project s \<notin> {ep_project (eb_source b), ep_project (ed_destination d)}
          then Inl (LaneError ''CANON_EDGE_INTEGRITY'')
          else if \<not> valid_edge v (ep_participant (eb_source b)) d then Inl (Raised ''ValidationError'')
          else rbind (edge_path i (er_digest r)) (\<lambda>path.
            if er_path r \<noteq> path \<or> cn_files s path \<noteq> Some (json_text (edge_json b)) then Inl (LaneError ''CANON_EDGE_FILE_INTEGRITY'')
            else let e = edge_binding i s in
              if \<not> (case e of None \<Rightarrow> True | Some x \<Rightarrow> binding_ok (ce_hash v) r x) then Inl (LaneError ''CANON_EDGE_BINDING_INTEGRITY'')
              else if ep_project (eb_source b) \<noteq> cn_project s \<and> e = None then Inl (LaneError ''CANON_EDGE_BINDING_INTEGRITY'')
              else Inr \<lparr>et_project = cn_project s, et_id = i, et_digest = er_digest r, et_edge = b, et_path = path,
                et_role = (if ep_project (eb_source b) = cn_project s then (if e = None then ''source'' else ''both'') else ''destination''),
                et_bound = (e \<noteq> None), et_duplicate = False\<rparr>))"

definition edge_pair :: "edge_body \<Rightarrow> string \<times> string" where
  "edge_pair b = (node_key (eb_source b), node_key (ed_destination (eb_definition b)))"

text \<open>\<open>_graph_edges\<close>: every recorded edge, each checked against those before it.\<close>

fun graph_walk :: "canon_env \<Rightarrow> (string \<times> string) list \<Rightarrow> edge_row list \<Rightarrow> canon \<Rightarrow> edge_result list result" where
  "graph_walk v pairs [] s = Inr []"
| "graph_walk v pairs (r # rs) s = rbind (read_edge v (er_id r) s) (\<lambda>e.
     if would_cycle pairs (fst (edge_pair (et_edge e))) (snd (edge_pair (et_edge e))) then Inl (LaneError ''CANON_TASK_GRAPH_CYCLE_BLOCKED'')
     else rbind (graph_walk v (pairs @ [edge_pair (et_edge e)]) rs s) (\<lambda>es. Inr (e # es)))"

definition graph_edges :: "canon_env \<Rightarrow> nat \<Rightarrow> canon \<Rightarrow> edge_result list result" where
  "graph_edges v limit s = (if limit < length (cn_edges s) then Inl (LaneError ''CANON_GRAPH_BUDGET'') else graph_walk v [] (cn_edges s) s)"

section \<open>Registration and binding\<close>

text \<open>\<open>_expiry\<close> of an optional timestamp; an empty one counts as none.\<close>

definition not_expired :: "canon_env \<Rightarrow> string option \<Rightarrow> unit result" where
  "not_expired v t = (case t of None \<Rightarrow> Inr ()
     | Some x \<Rightarrow> if x = [] then Inr () else (case ce_stamp v x of
           None \<Rightarrow> Inl (Raised ''ValueError'')
         | Some i \<Rightarrow> if i \<le> instant (ce_world v) then Inl (LaneError ''CANON_EXCHANGE_EXPIRED'') else Inr ()))"

abbreviation check_expiry :: "canon_env \<Rightarrow> string option \<Rightarrow> (canon, unit) action" where
  "check_expiry v t \<equiv> lift_result (not_expired v t)"

text \<open>A file that is there must hold the same bytes; a new one is written and never replaced.\<close>

definition put_file :: "string \<Rightarrow> string \<Rightarrow> string \<Rightarrow> (canon, unit) action" where
  "put_file code path text =
     bnd (gets (\<lambda>s. cn_files s path)) (\<lambda>f.
     case f of
       Some old \<Rightarrow> require (old = text) code
     | None \<Rightarrow> modify (\<lambda>s. s\<lparr>cn_files := (cn_files s)(path := Some text)\<rparr>))"

definition edge_clash :: "edge_row \<Rightarrow> edge_row \<Rightarrow> bool" where
  "edge_clash a b \<longleftrightarrow> er_id a = er_id b \<or> er_digest a = er_digest b \<or> er_path a = er_path b"

definition MAX_GRAPH_EDGES :: nat where
  "MAX_GRAPH_EDGES = 5000"

definition write_edge :: "canon_env \<Rightarrow> lease \<Rightarrow> bool \<Rightarrow> edge_body \<Rightarrow> (canon, unit) action" where
  "write_edge v l local_dependencies b =
     (let d = eb_definition b; i = ed_id d; digest = content_digest (ce_hash v) (edge_json b) in
     bnd (gets (find_edge i)) (\<lambda>existing.
     case existing of
       Some r \<Rightarrow> require (er_digest r = digest) ''CANON_EDGE_IMMUTABILITY_CONFLICT''
     | None \<Rightarrow>
         bnd (bnd (gets (graph_edges v MAX_GRAPH_EDGES)) lift_result) (\<lambda>edges.
         bnd (require (\<not> would_cycle (map (\<lambda>e. edge_pair (et_edge e)) edges) (fst (edge_pair b)) (snd (edge_pair b)))
           ''CANON_TASK_GRAPH_CYCLE_BLOCKED'') (\<lambda>_.
         bnd (require (local_dependencies \<longrightarrow> set (ed_dependencies d) \<subseteq> set (map et_id edges)) ''CANON_EDGE_DEPENDENCY_NOT_FOUND'') (\<lambda>_.
         bnd (lift_result (edge_path i digest)) (\<lambda>path.
         bnd (at_base (check_lease (ce_world v) l)) (\<lambda>_.
         bnd (put_file ''CANON_EDGE_FILE_INTEGRITY'' path (json_text (edge_json b))) (\<lambda>_.
         insert_row cn_edges cn_edges_update edge_clash \<lparr>er_id = i, er_digest = digest, er_source = fst (edge_pair b),
           er_destination = snd (edge_pair b), er_body = b, er_path = path\<rparr>))))))))"

record edge_request =
  eg_request :: string
  eg_source :: string
  eg_definition :: edge_definition

definition edge_request_json :: "edge_request \<Rightarrow> json" where
  "edge_request_json r = JObj ([(''request_id'', JStr (eg_request r)), (''source_id'', JStr (eg_source r))] @ definition_fields (eg_definition r))"

abbreviation checked_edge :: "canon_env \<Rightarrow> string \<Rightarrow> (canon, edge_result) action" where
  "checked_edge v i \<equiv> bnd (gets (read_edge v i)) lift_result"

definition duplicate_edge :: "canon_env \<Rightarrow> string \<Rightarrow> (canon, edge_result) action" where
  "duplicate_edge v i = bnd (checked_edge v i) (\<lambda>e. ret (e\<lparr>et_duplicate := True\<rparr>))"

text \<open>\<open>destination\<close> is the participant of another project, as the caller read it there.\<close>

definition register_task_edge ::
  "canon_env \<Rightarrow> lease \<Rightarrow> string \<Rightarrow> edge_request \<Rightarrow> participant option \<Rightarrow> (canon, edge_result) action" where
  "register_task_edge v l actor r destination = (let d = eg_definition r in
     bnd (if uuid_pattern (eg_request r) \<and> valid_edge v (eg_source r) d then ret () else abort (Raised ''ValidationError'')) (\<lambda>_.
     canon_transaction v l (
       bnd (ret (content_digest (ce_hash v) (edge_request_json r))) (\<lambda>key.
       bnd (check_participant v (eg_source r) (Some actor)) (\<lambda>_.
       bnd (replayed v (eg_request r) ''task_edge_register'' actor key) (\<lambda>prior.
       if prior \<noteq> None then duplicate_edge v (ed_id d)
       else
         bnd (check_expiry v (ed_expires d)) (\<lambda>_.
         bnd (check_participant v (eg_source r) (Some actor)) (\<lambda>source.
         bnd (gets cn_project) (\<lambda>pid.
         bnd (if ep_project (ed_destination d) = pid
              then bnd (check_participant v (ep_participant (ed_destination d)) None) (\<lambda>p. ret (Some p))
              else ret destination) (\<lambda>target.
         case target of
           None \<Rightarrow> raise ''CANON_EDGE_DESTINATION_UNVERIFIED''
         | Some t \<Rightarrow>
             bnd (require ((pa_project t, pa_id t) = (ep_project (ed_destination d), ep_participant (ed_destination d)))
               ''CANON_EDGE_DESTINATION_UNVERIFIED'') (\<lambda>_.
             bnd (write_edge v l True \<lparr>eb_source = \<lparr>ep_project = pid, ep_participant = eg_source r\<rparr>, eb_definition = d,
               eb_source_at_seal = source, eb_destination_at_seal = t, eb_created = now (ce_world v)\<rparr>) (\<lambda>_.
             bnd (checked_edge v (ed_id d)) (\<lambda>e.
             bnd (add_canon_event v (eg_request r) ''task_edge_register'' actor key (Edge_Recorded e)) (\<lambda>_.
             bnd (canon_receipt 0 v ''canon_task_edge_registered'' (edge_result_fields e)) (\<lambda>_.
             ret e)))))))))))))))"

record bind_request =
  bi_request :: string
  bi_project :: string
  bi_edge :: string
  bi_digest :: string

definition bind_json :: "bind_request \<Rightarrow> json" where
  "bind_json r = JObj [(''request_id'', JStr (bi_request r)), (''source_project_id'', JStr (bi_project r)),
     (''edge_id'', JStr (bi_edge r)), (''edge_digest'', JStr (bi_digest r))]"

definition valid_bind :: "bind_request \<Rightarrow> bool" where
  "valid_bind r \<longleftrightarrow> uuid_pattern (bi_request r) \<and> uuid_pattern (bi_project r) \<and> uuid_pattern (bi_edge r) \<and> digest_pattern (bi_digest r)"

text \<open>\<open>foreign\<close> is the edge as the caller read it in the project of its source.\<close>

definition bind_task_edge ::
  "canon_env \<Rightarrow> lease \<Rightarrow> string \<Rightarrow> bind_request \<Rightarrow> edge_result option \<Rightarrow> (canon, edge_result) action" where
  "bind_task_edge v l actor r foreign =
     bnd (if valid_bind r then ret () else abort (Raised ''ValidationError'')) (\<lambda>_.
     canon_transaction v l (
       bnd (gets cn_project) (\<lambda>pid.
       bnd (if bi_project r = pid then bnd (checked_edge v (bi_edge r)) (\<lambda>e. ret (Some e)) else ret foreign) (\<lambda>found.
       case found of
         None \<Rightarrow> raise ''CANON_EDGE_SOURCE_MISMATCH''
       | Some e \<Rightarrow>
           bnd (require (et_digest e = bi_digest r \<and> et_id e = bi_edge r \<and> ep_project (eb_source (et_edge e)) = bi_project r)
             ''CANON_EDGE_SOURCE_MISMATCH'') (\<lambda>_.
           bnd (ret (ed_destination (eb_definition (et_edge e)))) (\<lambda>dest.
           bnd (require (ep_project dest = pid) ''CANON_EDGE_DESTINATION_PROJECT_MISMATCH'') (\<lambda>_.
           bnd (check_participant v (ep_participant dest) (Some actor)) (\<lambda>_.
           bnd (ret (content_digest (ce_hash v) (bind_json r))) (\<lambda>key.
           bnd (replayed v (bi_request r) ''task_edge_bind'' actor key) (\<lambda>prior.
           if prior \<noteq> None then duplicate_edge v (bi_edge r)
           else
             bnd (check_expiry v (ed_expires (eb_definition (et_edge e)))) (\<lambda>_.
             bnd (gets (\<lambda>s. find (\<lambda>b. fst b = bi_edge r) (cn_bindings s))) (\<lambda>bound.
             if bound \<noteq> None then duplicate_edge v (bi_edge r)
             else
               bnd (write_edge v l False (et_edge e)) (\<lambda>_.
               bnd (lift_result (edge_path (bi_edge r) (bi_digest r))) (\<lambda>path.
               bnd (ret \<lparr>et_project = pid, et_id = bi_edge r, et_digest = bi_digest r, et_edge = et_edge e, et_path = path,
                 et_role = (if bi_project r = pid then ''both'' else ''destination''), et_bound = True, et_duplicate = False\<rparr>) (\<lambda>res.
               bnd (add_canon_event v (bi_request r) ''task_edge_bind'' actor key (Edge_Recorded res)) (\<lambda>_.
               bnd (insert_into cn_bindings cn_bindings_update fst (bi_edge r, bi_request r)) (\<lambda>_.
               bnd (canon_receipt 0 v ''canon_task_edge_bound'' (edge_result_fields res)) (\<lambda>_.
               checked_edge v (bi_edge r)))))))))))))))))))"

section \<open>What the search finds\<close>

lemma set_successors: "set (successors es c) = {d. (c, d) \<in> set es}"
  by (force simp: successors_def)

text \<open>Nodes that were seen are closed under successors, up to what is still on the stack.\<close>

lemma search_iff:
  assumes "goal \<notin> set seen" "\<And>x y. x \<in> set seen \<Longrightarrow> (x, y) \<in> set es \<Longrightarrow> y \<in> set seen \<union> set stack"
  shows "search es goal stack seen \<longleftrightarrow> (\<exists>x \<in> set stack. (x, goal) \<in> (set es)\<^sup>*)"
  using assms
proof (induction es goal stack seen rule: search.induct)
  case (1 es goal seen)
  then show ?case by simp
next
  case (2 es goal c stack seen)
  show ?case
  proof (cases "c = goal \<or> c \<in> set seen")
    case True
    show ?thesis
    proof (cases "c = goal")
      case False
      with True have seen: "c \<in> set seen" by simp
      have closed: "y \<in> set seen \<union> set stack" if "x \<in> set seen" "(x, y) \<in> set es" for x y
        using 2(4) [OF that] seen by auto
      have IH: "search es goal stack seen \<longleftrightarrow> (\<exists>x \<in> set stack. (x, goal) \<in> (set es)\<^sup>*)"
        by (rule "2.IH"(1) [OF False seen]) (use 2(3) closed in auto)
      have "\<exists>x \<in> set stack. (x, goal) \<in> (set es)\<^sup>*" if "(c, goal) \<in> (set es)\<^sup>*"
      proof -
        have "x \<in> set seen \<union> set stack \<Longrightarrow> \<exists>z \<in> set stack. (z, goal) \<in> (set es)\<^sup>*"
          if "(x, goal) \<in> (set es)\<^sup>*" for x
          using that
        proof (induction rule: converse_rtrancl_induct)
          case base
          with 2(3) have "goal \<in> set stack" by auto
          then show ?case by blast
        next
          case (step y z)
          then show ?case using closed by (meson UnE UnI1 UnI2 converse_rtrancl_into_rtrancl)
        qed
        with that seen show ?thesis by blast
      qed
      with IH seen False show ?thesis by auto
    qed simp
  next
    case False
    then have "search es goal (rev (successors es c) @ stack) (c # seen)
        \<longleftrightarrow> (\<exists>x \<in> set (rev (successors es c) @ stack). (x, goal) \<in> (set es)\<^sup>*)"
      by (intro "2.IH"(2)) (use 2(3,4) False set_successors in fastforce)+
    moreover have "(c, goal) \<in> (set es)\<^sup>* \<longleftrightarrow> (\<exists>x \<in> set (successors es c). (x, goal) \<in> (set es)\<^sup>*)"
      using False by (auto simp: set_successors elim: converse_rtranclE intro: converse_rtrancl_into_rtrancl)
    ultimately show ?thesis using False by auto
  qed
qed

lemma would_cycle_iff: "would_cycle es source destination \<longleftrightarrow> (destination, source) \<in> (set es)\<^sup>*"
  unfolding would_cycle_def by (subst search_iff) simp_all

lemma acyclic_add_edge: "acyclic (set (es @ [(a, b)])) \<longleftrightarrow> acyclic (set es) \<and> \<not> would_cycle es a b"
  by (simp add: would_cycle_iff acyclic_insert)

end
