(* ===== verification/Canon_Exchange.thy ===== *)
theory Canon_Exchange
  imports Canon_Graph
begin

text \<open>
  Messages of the exchange lane (canon_task_graph.py): contracts and their match, sealed packets and
  their delivery, the receiver's decision, corrections and supersession.
\<close>

section \<open>Contracts\<close>

record expect_request =
  xp_request :: string
  xp_contract :: expected_input
  xp_version :: int

definition expect_json :: "expect_request \<Rightarrow> json" where
  "expect_json r = JObj ([(''request_id'', JStr (xp_request r)), (''expected_version'', JInt (xp_version r))] @ expected_fields (xp_contract r))"

definition REFERENCE_KINDS :: "string list" where
  "REFERENCE_KINDS = [''plan_task'', ''lineage_event'', ''learning_version'', ''receipt'', ''source_object'', ''canon_exchange'']"

definition valid_expect :: "expect_request \<Rightarrow> bool" where
  "valid_expect r \<longleftrightarrow> (let x = xp_contract r; n = length (ex_senders x) + length (ex_endpoints x) in
     uuid_pattern (xp_request r) \<and> uuid_pattern (ex_receiver x) \<and> name_pattern (ex_key x) \<and> 0 \<le> xp_version r
     \<and> length (ex_senders x) \<le> 32 \<and> list_all valid_endpoint (ex_endpoints x) \<and> 1 \<le> n \<and> n \<le> 32 \<and> distinct (ex_endpoints x)
     \<and> distinct (ex_senders x) \<and> list_all uuid_pattern (ex_senders x)
     \<and> 1 \<le> length (ex_kinds x) \<and> length (ex_kinds x) \<le> 7 \<and> distinct (ex_kinds x)
     \<and> length (ex_fields x) \<le> 32 \<and> distinct (map fst (ex_fields x)) \<and> list_all (\<lambda>(k, t). name_pattern k) (ex_fields x)
     \<and> length (ex_required x) \<le> 6 \<and> set (ex_required x) \<subseteq> set REFERENCE_KINDS
     \<and> 1024 \<le> ex_max_bytes x \<and> ex_max_bytes x \<le> 65536)"

definition current_digest :: "string \<Rightarrow> string \<Rightarrow> canon \<Rightarrow> string option" where
  "current_digest receiver key s = map_of (cn_current s) (receiver, key)"

definition find_contract :: "string \<Rightarrow> canon \<Rightarrow> contract_row option" where
  "find_contract d s = find (\<lambda>r. ct_digest r = d) (cn_contracts s)"

definition read_contract :: "(string \<Rightarrow> string) \<Rightarrow> string \<Rightarrow> canon \<Rightarrow> contract_body result" where
  "read_contract H d s =
     (case find_contract d s of
        None \<Rightarrow> Inl (LaneError ''CANON_CONTRACT_NOT_FOUND'')
      | Some r \<Rightarrow> let b = ct_body r in
          if content_digest H (contract_json b) \<noteq> d \<or> kb_project b \<noteq> cn_project s \<or> kb_version b \<noteq> ct_version r
             \<or> ex_receiver (kb_contract b) \<noteq> ct_receiver r \<or> ex_key (kb_contract b) \<noteq> ct_key r
          then Inl (LaneError ''CANON_CONTRACT_INTEGRITY'') else Inr b)"

text \<open>The version of the current contract: \<open>canon_contract_current JOIN canon_contracts\<close>.\<close>

definition current_version :: "string \<Rightarrow> string \<Rightarrow> canon \<Rightarrow> int" where
  "current_version receiver key s = (case current_digest receiver key s of None \<Rightarrow> 0
     | Some d \<Rightarrow> (case find_contract d s of None \<Rightarrow> 0 | Some r \<Rightarrow> ct_version r))"

definition set_current :: "string \<Rightarrow> string \<Rightarrow> string \<Rightarrow> canon \<Rightarrow> canon" where
  "set_current receiver key d s = s\<lparr>cn_current :=
     (if current_digest receiver key s = None then cn_current s @ [((receiver, key), d)]
      else update_where (\<lambda>c. fst c = (receiver, key)) (\<lambda>c. ((receiver, key), d)) (cn_current s))\<rparr>"

definition contract_clash :: "contract_row \<Rightarrow> contract_row \<Rightarrow> bool" where
  "contract_clash a b \<longleftrightarrow> ct_digest a = ct_digest b
     \<or> (ct_receiver a, ct_key a, ct_version a) = (ct_receiver b, ct_key b, ct_version b)"

text \<open>An endpoint of this project is read here; another one must be among those the caller verified.\<close>

definition check_endpoint :: "canon_env \<Rightarrow> expected_input \<Rightarrow> participant list \<Rightarrow> endpoint \<Rightarrow> (canon, unit) action" where
  "check_endpoint v x foreign e =
     bnd (gets cn_project) (\<lambda>pid.
     if ep_project e = pid then
       bnd (check_participant v (ep_participant e) None) (\<lambda>_.
       require (ep_participant e \<notin> set (ex_senders x)) ''CANON_DUPLICATE_ENDPOINT'')
     else require (list_ex (\<lambda>p. (pa_project p, pa_id p) = (ep_project e, ep_participant e)) foreign) ''CANON_FOREIGN_SOURCE_NOT_VERIFIED'')"

definition expect ::
  "canon_env \<Rightarrow> lease \<Rightarrow> string \<Rightarrow> expect_request \<Rightarrow> participant list \<Rightarrow> (canon, string \<times> contract_body) action" where
  "expect v l actor r foreign = (let x = xp_contract r in
     bnd (if valid_expect r then ret () else abort (Raised ''ValidationError'')) (\<lambda>_.
     canon_transaction v l (
       bnd (ret (content_digest (ce_hash v) (expect_json r))) (\<lambda>key.
       bnd (replayed v (xp_request r) ''expect'' actor key) (\<lambda>prior.
       case prior of
         Some (Contracted d b) \<Rightarrow> ret (d, b)
       | Some _ \<Rightarrow> abort (Raised ''ValidationError'')
       | None \<Rightarrow>
           bnd (check_participant v (ex_receiver x) (Some actor)) (\<lambda>_.
           bnd (each (\<lambda>p. bnd (check_participant v p None) (\<lambda>_. ret ())) (ex_senders x)) (\<lambda>_.
           bnd (each (check_endpoint v x foreign) (ex_endpoints x)) (\<lambda>_.
           bnd (gets (current_version (ex_receiver x) (ex_key x))) (\<lambda>n.
           bnd (require (n = xp_version r) ''CANON_CONTRACT_VERSION_CONFLICT'') (\<lambda>_.
           bnd (gets (\<lambda>s. \<lparr>kb_project = cn_project s, kb_contract = x, kb_version = n + 1, kb_client = actor,
             kb_schema = content_digest (ce_hash v) (ce_schema v), kb_created = now (ce_world v)\<rparr>)) (\<lambda>b.
           bnd (ret (content_digest (ce_hash v) (contract_json b))) (\<lambda>d.
           bnd (insert_row cn_contracts cn_contracts_update contract_clash
             \<lparr>ct_digest = d, ct_receiver = ex_receiver x, ct_key = ex_key x, ct_version = n + 1, ct_body = b\<rparr>) (\<lambda>_.
           bnd (modify (set_current (ex_receiver x) (ex_key x) d)) (\<lambda>_.
           bnd (add_canon_event v (xp_request r) ''expect'' actor key (Contracted d b)) (\<lambda>_.
           ret (d, b))))))))))))))))"

definition sender_allowed :: "string \<Rightarrow> expected_input \<Rightarrow> string \<Rightarrow> string \<Rightarrow> bool" where
  "sender_allowed pid x p project \<longleftrightarrow> project = pid \<and> p \<in> set (ex_senders x)
     \<or> \<lparr>ep_project = project, ep_participant = p\<rparr> \<in> set (ex_endpoints x)"

text \<open>\<open>_match\<close>: the message fits the current contract of its receiver; returns whether it is admitted at once.\<close>

definition contract_fits :: "canon_env \<Rightarrow> contract_body \<Rightarrow> string \<Rightarrow> message \<Rightarrow> string \<Rightarrow> canon \<Rightarrow> bool" where
  "contract_fits v b d m source s \<longleftrightarrow> (let x = kb_contract b in
     current_digest (ms_receiver m) (ex_key x) s = Some d \<and> ex_active x \<and> ex_receiver x = ms_receiver m
     \<and> kb_schema b = content_digest (ce_hash v) (ce_schema v) \<and> sender_allowed (cn_project s) x (ms_sender m) source
     \<and> ms_kind m \<in> set (ex_kinds x) \<and> int (utf8_size (json_dump (payload_json (ms_payload m)))) \<le> ex_max_bytes x
     \<and> set (ex_required x) \<subseteq> set (map mr_kind (py_references (ms_payload m))))"

definition fields_fit :: "expected_input \<Rightarrow> canon_payload \<Rightarrow> bool" where
  "fields_fit x p \<longleftrightarrow> set (map fst (py_fields p)) = set (map fst (ex_fields x))
     \<and> list_all (\<lambda>(n, k). case map_of (py_fields p) n of None \<Rightarrow> False | Some j \<Rightarrow> scalar_has k j) (ex_fields x)"

definition match_contract :: "canon_env \<Rightarrow> message \<Rightarrow> string \<Rightarrow> canon \<Rightarrow> bool result" where
  "match_contract v m source s =
     (case ms_expected m of
        None \<Rightarrow> Inr False
      | Some d \<Rightarrow> rbind (read_contract (ce_hash v) d s) (\<lambda>b.
          if \<not> contract_fits v b d m source s then Inl (LaneError ''CANON_CONTRACT_MISMATCH'')
          else if \<not> fields_fit (kb_contract b) (ms_payload m) then Inl (LaneError ''CANON_PAYLOAD_TYPE_MISMATCH'')
          else Inr (ex_auto_admit (kb_contract b))))"

definition MISMATCH_CODES :: "string list" where
  "MISMATCH_CODES = [''CANON_CONTRACT_NOT_FOUND'', ''CANON_CONTRACT_MISMATCH'', ''CANON_PAYLOAD_TYPE_MISMATCH'']"

definition compatibility :: "canon_env \<Rightarrow> message \<Rightarrow> string \<Rightarrow> canon \<Rightarrow> (bool \<times> string list) result" where
  "compatibility v m source s =
     (if ms_expected m = None then Inr (False, [''CANON_EXPECTED_CONTRACT_UNDEFINED''])
      else case match_contract v m source s of
        Inr automatic \<Rightarrow> Inr (automatic, [])
      | Inl (LaneError c) \<Rightarrow> if c \<in> set MISMATCH_CODES then Inr (False, [c]) else Inl (LaneError c)
      | Inl e \<Rightarrow> Inl e)"

section \<open>Sealed packets\<close>

definition state_digest :: "(string \<Rightarrow> string) \<Rightarrow> string \<Rightarrow> string \<Rightarrow> canon_state \<Rightarrow> int \<Rightarrow> string" where
  "state_digest H i d st n = content_digest H (JObj [(''exchange_id'', JStr i), (''envelope_digest'', JStr d),
     (''state'', JStr (canon_state_name st)), (''version'', JInt n)])"

text \<open>\<open>_route\<close>; an empty destination counts as none.\<close>

definition message_destination :: "string \<Rightarrow> message \<Rightarrow> string" where
  "message_destination source m = (case ms_destination m of None \<Rightarrow> source | Some d \<Rightarrow> if d = [] then source else d)"

definition envelope_route :: "envelope \<Rightarrow> string \<times> string" where
  "envelope_route e = (xv_project e, message_destination (xv_project e) (xv_message e))"

definition role_of :: "string \<Rightarrow> string \<Rightarrow> string \<Rightarrow> local_role result" where
  "role_of pid source destination =
     (if source = pid \<and> destination = pid then Inr Both_Boxes
      else if source = pid then Inr Outbox
      else if destination = pid then Inr Inbox
      else Inl (LaneError ''CANON_PROJECT_ROUTE_MISMATCH''))"

definition packet_path :: "string \<Rightarrow> string \<Rightarrow> local_role \<Rightarrow> string result" where
  "packet_path i d role = (if uuid_pattern i \<and> digest_pattern d
     then Inr (''canon/objects/'' @ (if role = Outbox then ''outbox'' else ''inbox'') @ ''/'' @ d @ ''/'' @ i @ ''.json'')
     else Inl (LaneError ''CANON_PACKET_FILE_INTEGRITY''))"

definition find_exchange :: "string \<Rightarrow> canon \<Rightarrow> exchange_row option" where
  "find_exchange i s = find (\<lambda>r. xc_id r = i) (cn_exchanges s)"

definition valid_reference :: "memory_reference \<Rightarrow> bool" where
  "valid_reference r \<longleftrightarrow> mr_kind r \<in> set REFERENCE_KINDS \<and> task_id_pattern (mr_key r) \<and> digest_pattern (mr_digest r)
     \<and> (case mr_revision r of None \<Rightarrow> True | Some n \<Rightarrow> 1 \<le> n)
     \<and> ((mr_kind r = ''plan_task'') = (mr_revision r \<noteq> None)) \<and> ((mr_kind r = ''source_object'') = (mr_profile r \<noteq> None))
     \<and> (mr_kind r = ''source_object'' \<longrightarrow> mr_key r = mr_digest r) \<and> ((mr_kind r = ''source_object'') = (mr_lane r \<noteq> None))
     \<and> pred_option name_pattern (mr_profile r) \<and> pred_option name_pattern (mr_lane r)"

definition valid_payload :: "canon_env \<Rightarrow> canon_payload \<Rightarrow> bool" where
  "valid_payload v p \<longleftrightarrow> bounded 1 4000 (py_summary p) \<and> length (py_fields p) \<le> 32 \<and> length (py_references p) \<le> 20
     \<and> list_all valid_reference (py_references p) \<and> utf8_size (json_dump (payload_json p)) \<le> 65536
     \<and> distinct (map fst (py_fields p))
     \<and> list_all (\<lambda>(k, j). name_pattern k \<and> is_scalar j \<and> (case j of JStr t \<Rightarrow> length t \<le> 4000 | _ \<Rightarrow> True)) (py_fields p)
     \<and> safe_text v (JStr (py_summary p)) \<and> safe_text v (JObj (py_fields p))"

definition BACKFIRE_CLASSES :: "string list" where
  "BACKFIRE_CLASSES = [''EXECUTION_FAILURE_REQUIRES_UPSTREAM_ACTION'', ''MISSING_INFORMATION_FROM_SOURCE'',
     ''NEW_REQUIREMENT_FROM_SOURCE'', ''LINKED_TASK_INPUT_REQUIRED'']"

definition valid_details :: "backfire_details \<Rightarrow> bool" where
  "valid_details b \<longleftrightarrow> uuid_pattern (bd_exchange b) \<and> digest_pattern (bd_digest b) \<and> bd_class b \<in> set BACKFIRE_CLASSES
     \<and> 2 \<le> bd_revision b \<and> bd_revision b \<le> 1000000 \<and> length (bd_dependencies b) \<le> 32 \<and> valid_endpoint (bd_return_route b)
     \<and> length (bd_trace b) \<le> 32 \<and> list_all valid_endpoint (bd_trace b)
     \<and> distinct (bd_dependencies b) \<and> list_all uuid_pattern (bd_dependencies b) \<and> distinct (bd_trace b)"

definition valid_message :: "canon_env \<Rightarrow> message \<Rightarrow> bool" where
  "valid_message v m \<longleftrightarrow> uuid_pattern (ms_sender m) \<and> uuid_pattern (ms_receiver m) \<and> pred_option uuid_pattern (ms_destination m)
     \<and> valid_payload v (ms_payload m) \<and> pred_option digest_pattern (ms_expected m) \<and> pred_option digest_pattern (ms_return m)
     \<and> pred_option uuid_pattern (ms_reply_to m) \<and> pred_option uuid_pattern (ms_supersedes m) \<and> pred_option uuid_pattern (ms_edge m)
     \<and> pred_option valid_details (ms_backfire m) \<and> valid_stamp v (ms_expires m)
     \<and> \<not> (ms_sender m = ms_receiver m \<and> ms_destination m = None)
     \<and> (ms_kind m \<in> {Task_Result, Clarification, Backfire} \<and> ms_reply_to m = None \<longrightarrow> ms_kind m = Backfire \<and> ms_backfire m \<noteq> None)
     \<and> (ms_backfire m \<noteq> None \<longrightarrow> ms_kind m = Backfire \<and> ms_reply_to m = None \<and> ms_supersedes m = None \<and> ms_edge m = None
          \<and> ms_expected m \<noteq> None)
     \<and> (ms_kind m = Correction) = (ms_supersedes m \<noteq> None)"

text \<open>\<open>exchange\<close>: a recorded packet with its integrity checks.\<close>

definition row_names_envelope :: "(string \<Rightarrow> string) \<Rightarrow> exchange_row \<Rightarrow> local_role \<Rightarrow> bool" where
  "row_names_envelope H r role \<longleftrightarrow> (let e = xc_body r; m = xv_message e in
     content_digest H (envelope_json e) = xc_digest r \<and> xv_id e = xc_id r
     \<and> (ms_sender m, ms_receiver m, ms_kind m) = (xc_sender r, xc_receiver r, xc_kind r)
     \<and> (xc_source r, xc_destination r, xc_role r) = (fst (envelope_route e), snd (envelope_route e), role))"

definition known_participant :: "canon_env \<Rightarrow> string \<Rightarrow> canon \<Rightarrow> unit result" where
  "known_participant v p s = rbind (read_participant (ce_hash v) p None s) (\<lambda>_. Inr ())"

definition check_row :: "canon_env \<Rightarrow> exchange_row \<Rightarrow> canon \<Rightarrow> exchange_row result" where
  "check_row v r s = (let e = xc_body r; (source, destination) = envelope_route e in
     rbind (role_of (cn_project s) source destination) (\<lambda>role.
     if \<not> row_names_envelope (ce_hash v) r role then Inl (LaneError ''CANON_ENVELOPE_INTEGRITY'')
     else if xc_state_digest r \<noteq> state_digest (ce_hash v) (xc_id r) (xc_digest r) (xc_state r) (xc_version r)
       then Inl (LaneError ''CANON_STATE_INTEGRITY'')
     else if (role = Outbox) \<noteq> (xc_state r = Sealed) then Inl (LaneError ''CANON_STATE_INTEGRITY'')
     else rbind (if source = cn_project s then known_participant v (xc_sender r) s else Inr ()) (\<lambda>_.
       rbind (if destination = cn_project s then known_participant v (xc_receiver r) s else Inr ()) (\<lambda>_.
       if \<not> valid_message v (xv_message e) then Inl (Raised ''ValidationError'')
       else rbind (packet_path (xv_id e) (xc_digest r) role) (\<lambda>path.
         if cn_files s path \<noteq> Some (json_text (envelope_json e)) \<or> xc_path r \<noteq> path then Inl (LaneError ''CANON_PACKET_FILE_INTEGRITY'')
         else Inr r)))))"

definition read_exchange :: "canon_env \<Rightarrow> string \<Rightarrow> canon \<Rightarrow> exchange_row result" where
  "read_exchange v i s = (case find_exchange i s of None \<Rightarrow> Inl (LaneError ''CANON_EXCHANGE_NOT_FOUND'') | Some r \<Rightarrow> check_row v r s)"

section \<open>What another project is told about a packet\<close>

text \<open>\<open>source_snapshot\<close> returns this; \<open>parent_observation\<close> is the row's identity, digest, state and version.\<close>

record parent_observation =
  po_id :: string
  po_digest :: string
  po_state :: canon_state
  po_version :: int

record backfire_observation =
  bo_row :: parent_observation
  bo_revision :: int
  bo_destination :: endpoint
  bo_trace :: "endpoint list"

record source_seal =
  sl_request :: string
  sl_actor :: string
  sl_input :: string
  sl_digest :: string

record source_snapshot =
  ss_envelope :: envelope
  ss_digest :: string
  ss_parent :: "parent_observation option"
  ss_parent_envelope :: "envelope option"
  ss_backfire :: "backfire_observation option"
  ss_project :: string
  ss_history :: "nat \<times> string option"
  ss_reasons :: "string list"
  ss_seal :: source_seal

definition observe_row :: "exchange_row \<Rightarrow> parent_observation" where
  "observe_row r = \<lparr>po_id = xc_id r, po_digest = xc_digest r, po_state = xc_state r, po_version = xc_version r\<rparr>"

definition observation_fields :: "parent_observation \<Rightarrow> (string \<times> json) list" where
  "observation_fields o' = [(''exchange_id'', JStr (po_id o')), (''envelope_digest'', JStr (po_digest o')),
     (''state'', JStr (canon_state_name (po_state o'))), (''version'', JInt (po_version o'))]"

definition snapshot_json :: "source_snapshot \<Rightarrow> json" where
  "snapshot_json n = JObj [(''source_project_id'', JStr (ss_project n)), (''envelope_digest'', JStr (ss_digest n)),
     (''parent_observation'', case ss_parent n of None \<Rightarrow> JNull | Some p \<Rightarrow> JObj (observation_fields p)),
     (''backfire_observation'', case ss_backfire n of None \<Rightarrow> JNull | Some b \<Rightarrow> JObj (observation_fields (bo_row b)
        @ [(''revision'', JInt (bo_revision b)), (''destination'', endpoint_json (bo_destination b)),
           (''trace'', JArr (map endpoint_json (bo_trace b)))])),
     (''source_history'', JObj [(''events_verified'', JInt (int (fst (ss_history n)))), (''head'', jopt (snd (ss_history n)))]),
     (''source_seal'', JObj [(''request_id'', JStr (sl_request (ss_seal n))), (''actor_id'', JStr (sl_actor (ss_seal n))),
        (''input_digest'', JStr (sl_input (ss_seal n))), (''digest'', JStr (sl_digest (ss_seal n)))])]"

section \<open>Supersession\<close>

definition same_route :: "exchange_row \<Rightarrow> exchange_row \<Rightarrow> bool" where
  "same_route a b \<longleftrightarrow> (xc_sender a, xc_receiver a, xc_source a, xc_destination a) = (xc_sender b, xc_receiver b, xc_source b, xc_destination b)"

text \<open>The recorded link of a superseded exchange; historical rows have none.\<close>

definition read_supersession :: "canon_env \<Rightarrow> exchange_row \<Rightarrow> canon \<Rightarrow> superseded option result" where
  "read_supersession v r s =
     (case (case map_of (cn_supersessions s) (xc_id r) of None \<Rightarrow> None | Some rid \<Rightarrow> find_canon_event rid s) of
        None \<Rightarrow> Inr None
      | Some e \<Rightarrow>
          if \<not> canon_event_ok (ce_hash v) e \<or> cv_kind e \<noteq> ''supersede'' then Inl (LaneError ''CANON_HISTORY_INTEGRITY'')
          else (case cv_result e of
            Superseding u \<Rightarrow> rbind (read_exchange v (su_successor u) s) (\<lambda>n.
              if su_id u \<noteq> xc_id r \<or> xc_state r \<noteq> Was_Superseded \<or> su_digest u \<noteq> xc_digest r \<or> su_version u \<noteq> xc_version r
                 \<or> su_receiver u \<noteq> xc_receiver r \<or> xc_digest n \<noteq> su_successor_digest u \<or> xc_sequence n \<le> xc_sequence r
                 \<or> \<not> same_route n r
              then Inl (LaneError ''CANON_SUPERSESSION_INTEGRITY'') else Inr (Some u))
          | _ \<Rightarrow> Inl (Raised ''ValidationError'')))"

definition set_exchange_state :: "(string \<Rightarrow> string) \<Rightarrow> string \<Rightarrow> canon_state \<Rightarrow> int \<Rightarrow> canon \<Rightarrow> canon" where
  "set_exchange_state H i st n s = s\<lparr>cn_exchanges := update_where (\<lambda>r. xc_id r = i)
     (\<lambda>r. r\<lparr>xc_state := st, xc_version := n, xc_state_digest := state_digest H i (xc_digest r) st n\<rparr>) (cn_exchanges s)\<rparr>"

abbreviation checked_exchange :: "canon_env \<Rightarrow> string \<Rightarrow> (canon, exchange_row) action" where
  "checked_exchange v i \<equiv> bnd (gets (read_exchange v i)) lift_result"

definition succession :: "string \<Rightarrow> string \<Rightarrow> string \<Rightarrow> exchange_row \<Rightarrow> exchange_row \<Rightarrow> superseded" where
  "succession i j basis r n = \<lparr>su_id = i, su_digest = xc_digest r, su_successor = j, su_successor_digest = xc_digest n,
     su_receiver = xc_receiver r, su_version = xc_version r + 1, su_basis = basis, su_duplicate = False\<rparr>"

text \<open>A repeated supersession must name the recorded successor.\<close>

definition repeat_supersession :: "canon_env \<Rightarrow> exchange_row \<Rightarrow> string \<Rightarrow> (canon, superseded) action" where
  "repeat_supersession v r successor =
     bnd (bnd (gets (read_supersession v r)) lift_result) (\<lambda>prev.
     case prev of
       None \<Rightarrow> raise ''CANON_SUPERSESSION_RECORD_UNAVAILABLE''
     | Some u \<Rightarrow> bnd (require (su_successor u = successor) ''CANON_SUPERSESSION_REPLAY_CONFLICT'') (\<lambda>_. ret (u\<lparr>su_duplicate := True\<rparr>)))"

text \<open>\<open>request\<close> is the request identifier and input digest of an explicit supersession.\<close>

definition write_supersession :: "canon_env \<Rightarrow> string \<Rightarrow> superseded \<Rightarrow> (string \<times> string) option \<Rightarrow> (canon, superseded) action" where
  "write_supersession v actor u request =
     bnd (modify (set_exchange_state (ce_hash v) (su_id u) Was_Superseded (su_version u))) (\<lambda>_.
     bnd (ret (case request of
         Some q \<Rightarrow> q
       | None \<Rightarrow> (draw 1 (ce_world v), content_digest (ce_hash v) (JObj (superseded_fields u))))) (\<lambda>(rid, key).
     bnd (add_canon_event v rid ''supersede'' actor key (Superseding u)) (\<lambda>_.
     bnd (insert_row cn_supersessions cn_supersessions_update (\<lambda>a b. fst a = fst b \<or> snd a = snd b) (su_id u, rid)) (\<lambda>_.
     bnd (canon_receipt 1 v ''canon_superseded'' (superseded_fields u)) (\<lambda>_.
     ret u)))))"

text \<open>\<open>_supersede\<close>.\<close>

definition supersede_row ::
  "canon_env \<Rightarrow> string \<Rightarrow> string \<Rightarrow> string \<Rightarrow> string \<Rightarrow> (string \<times> string) option \<Rightarrow> (canon, superseded) action" where
  "supersede_row v original successor actor basis request =
     bnd (checked_exchange v original) (\<lambda>r.
     bnd (checked_exchange v successor) (\<lambda>n.
     bnd (require (same_route r n \<and> xc_sequence r < xc_sequence n) ''CANON_SUPERSESSION_LINEAGE_INVALID'') (\<lambda>_.
     if xc_state r = Was_Superseded then repeat_supersession v r successor
     else
       bnd (require (xc_state r \<in> {Admitted, Rejected, Needs_Clarification}) ''CANON_SUPERSESSION_STATE_INVALID'') (\<lambda>_.
       bnd (require (xc_state n = Admitted) ''CANON_SUPERSESSION_SUCCESSOR_NOT_ADMITTED'') (\<lambda>_.
       bnd (check_expiry v (ms_expires (xv_message (xc_body n)))) (\<lambda>_.
       write_supersession v actor (succession original successor basis r n) request))))))"

end
