(* ===== verification/Canon_Delivery.thy ===== *)
theory Canon_Delivery
  imports Canon_Exchange
begin

text \<open>
  The operations that move messages (canon_task_graph.py): sending and sealing, the snapshot a source
  shows, reception in the destination project, the receiver's decision, supersession, and the two
  deduplicated operations, results and conditional input requests.
\<close>

section \<open>Messages on an edge\<close>

definition returning :: "message \<Rightarrow> bool" where
  "returning m \<longleftrightarrow> ms_kind m \<in> {Task_Result, Clarification, Backfire}"

definition check_edge_message :: "canon_env \<Rightarrow> bool \<Rightarrow> message \<Rightarrow> string \<Rightarrow> canon \<Rightarrow> unit result" where
  "check_edge_message v historical m sender_project s =
     (case ms_edge m of None \<Rightarrow> Inr () | Some i \<Rightarrow>
        rbind (read_edge v i s) (\<lambda>e. let d = eb_definition (et_edge e); source = eb_source (et_edge e); destination = ed_destination d;
            contract = (if returning m then ed_return d else ed_contract d);
            actual = (\<lparr>ep_project = sender_project, ep_participant = ms_sender m\<rparr>,
              \<lparr>ep_project = message_destination sender_project m, ep_participant = ms_receiver m\<rparr>) in
          if ep_project destination = cn_project s \<and> \<not> et_bound e then Inl (LaneError ''CANON_EDGE_NOT_BOUND'')
          else rbind (if historical then Inr () else not_expired v (ed_expires d)) (\<lambda>_.
            if ed_schema d \<noteq> content_digest (ce_hash v) (ce_schema v) then Inl (LaneError ''CANON_EDGE_SCHEMA_MISMATCH'')
            else if actual \<noteq> (if returning m then (destination, source) else (source, destination)) \<or> ms_expected m \<noteq> Some contract
              then Inl (LaneError ''CANON_EDGE_CONTRACT_MISMATCH'')
            else if returning m then
              rbind (case ms_reply_to m of None \<Rightarrow> Inl (LaneError ''CANON_EXCHANGE_NOT_FOUND'') | Some p \<Rightarrow> read_exchange v p s) (\<lambda>r.
                let pm = xv_message (xc_body r) in
                if ms_edge pm \<noteq> Some i \<or> ms_return pm \<noteq> Some contract
                   \<or> envelope_route (xc_body r) \<noteq> (ep_project source, ep_project destination)
                   \<or> (ms_sender pm, ms_receiver pm) \<noteq> (ep_participant source, ep_participant destination)
                then Inl (LaneError ''CANON_EDGE_RETURN_MISMATCH'') else Inr ())
            else if ms_return m \<noteq> Some (ed_return d) then Inl (LaneError ''CANON_EDGE_RETURN_MISMATCH'') else Inr ())))"

section \<open>Returns\<close>

text \<open>
  The earlier exchange a return answers: a row of this project, or the envelope of a conditional request
  that the source observed (role \<open>None\<close>).
\<close>

definition observed_parent :: "canon_env \<Rightarrow> string \<Rightarrow> source_snapshot option \<Rightarrow> (envelope \<times> parent_observation) option" where
  "observed_parent v reply n = (case n of None \<Rightarrow> None | Some x \<Rightarrow> (case (ss_parent_envelope x, ss_parent x) of
       (Some e, Some o') \<Rightarrow> if ms_backfire (xv_message e) \<noteq> None \<and> xv_id e = reply
          \<and> content_digest (ce_hash v) (envelope_json e) = po_digest o' \<and> po_id o' = reply then Some (e, o') else None
     | _ \<Rightarrow> None))"

definition find_parent ::
  "canon_env \<Rightarrow> string \<Rightarrow> source_snapshot option \<Rightarrow> canon \<Rightarrow> (envelope \<times> local_role option \<times> parent_observation) result" where
  "find_parent v reply n s = (case read_exchange v reply s of
     Inr r \<Rightarrow> Inr (xc_body r, Some (xc_role r), observe_row r)
   | Inl e \<Rightarrow> if e = LaneError ''CANON_EXCHANGE_NOT_FOUND'' then
         (case observed_parent v reply n of None \<Rightarrow> Inl e | Some (b, o') \<Rightarrow> Inr (b, None, o'))
       else Inl e)"

definition return_route_of :: "envelope \<Rightarrow> endpoint" where
  "return_route_of e = (case ms_backfire (xv_message e) of
     Some b \<Rightarrow> bd_return_route b
   | None \<Rightarrow> \<lparr>ep_project = fst (envelope_route e), ep_participant = ms_sender (xv_message e)\<rparr>)"

definition return_depth :: "canon_env \<Rightarrow> message \<Rightarrow> string \<Rightarrow> string \<Rightarrow> source_snapshot option \<Rightarrow> canon \<Rightarrow> int result" where
  "return_depth v m source destination n s =
     (case ms_reply_to m of None \<Rightarrow> Inr 0 | Some reply \<Rightarrow>
        rbind (find_parent v reply n s) (\<lambda>(e, role, o'). let pm = xv_message e in
          if \<not> valid_message v pm then Inl (Raised ''ValidationError'')
          else rbind (not_expired v (ms_expires pm)) (\<lambda>_.
            if ms_return pm \<noteq> None \<and> ms_expected m \<noteq> ms_return pm then Inl (LaneError ''CANON_RETURN_CONTRACT_MISMATCH'')
            else if (snd (envelope_route e), ms_receiver pm) \<noteq> (source, ms_sender m)
                 \<or> (ep_project (return_route_of e), ep_participant (return_route_of e)) \<noteq> (destination, ms_receiver m)
              then Inl (LaneError ''CANON_RETURN_ROUTE_MISMATCH'')
            else if role = Some Outbox \<and> (case Option.bind n ss_parent of None \<Rightarrow> True
                  | Some x \<Rightarrow> po_id x \<noteq> po_id o' \<or> po_digest x \<noteq> po_digest o' \<or> po_state x \<notin> {Admitted, Needs_Clarification})
              then Inl (LaneError ''CANON_RETURN_REQUIRES_INPUT'')
            else if role \<noteq> Some Outbox \<and> po_state o' \<notin> {Admitted, Needs_Clarification}
              then Inl (LaneError ''CANON_RETURN_REQUIRES_INPUT'')
            else if 8 < xv_depth e + 1 then Inl (LaneError ''CANON_RETURN_DEPTH'') else Inr (xv_depth e + 1))))"

definition check_correction :: "canon_env \<Rightarrow> message \<Rightarrow> string \<Rightarrow> string \<Rightarrow> canon \<Rightarrow> unit result" where
  "check_correction v m source destination s =
     (case ms_supersedes m of None \<Rightarrow> Inr () | Some i \<Rightarrow>
        rbind (read_exchange v i s) (\<lambda>r.
          if (xc_sender r, xc_receiver r) \<noteq> (ms_sender m, ms_receiver m) \<or> envelope_route (xc_body r) \<noteq> (source, destination)
             \<or> xc_state r = Was_Superseded
          then Inl (LaneError ''CANON_CORRECTION_MISMATCH'') else Inr ()))"

definition check_return :: "canon_env \<Rightarrow> message \<Rightarrow> string \<Rightarrow> string \<Rightarrow> source_snapshot option \<Rightarrow> canon \<Rightarrow> int result" where
  "check_return v m source destination n s =
     rbind (return_depth v m source destination n s) (\<lambda>depth.
     rbind (check_correction v m source destination s) (\<lambda>_. Inr depth))"

section \<open>Messages of this project\<close>

type_synonym contract_snapshot = "contract_body \<times> string option"

definition return_contract_snapshot :: "canon_env \<Rightarrow> string \<Rightarrow> canon \<Rightarrow> contract_snapshot result" where
  "return_contract_snapshot v d s = rbind (read_contract (ce_hash v) d s) (\<lambda>b.
     Inr (b, current_digest (ex_receiver (kb_contract b)) (ex_key (kb_contract b)) s))"

definition check_return_contract ::
  "canon_env \<Rightarrow> message \<Rightarrow> contract_snapshot option \<Rightarrow> canon \<Rightarrow> unit result" where
  "check_return_contract v m foreign s =
     (case ms_return m of None \<Rightarrow> Inr () | Some d \<Rightarrow>
        (let destination = message_destination (cn_project s) m;
             route = (case ms_backfire m of Some b \<Rightarrow> bd_return_route b
               | None \<Rightarrow> \<lparr>ep_project = cn_project s, ep_participant = ms_sender m\<rparr>) in
         rbind (if ep_project route = cn_project s then rbind (return_contract_snapshot v d s) (\<lambda>x. Inr (Some x)) else Inr foreign) (\<lambda>snap.
         case snap of None \<Rightarrow> Inl (LaneError ''CANON_RETURN_CONTRACT_MISMATCH'')
         | Some (b, current) \<Rightarrow> let x = kb_contract b in
             if kb_project b \<noteq> ep_project route \<or> ex_receiver x \<noteq> ep_participant route
                \<or> \<not> (destination = ep_project route \<and> ms_receiver m \<in> set (ex_senders x)
                     \<or> \<lparr>ep_project = destination, ep_participant = ms_receiver m\<rparr> \<in> set (ex_endpoints x))
                \<or> \<not> ex_active x \<or> current \<noteq> Some d
             then Inl (LaneError ''CANON_RETURN_CONTRACT_MISMATCH'') else Inr ())))"

primrec check_dependencies :: "canon_env \<Rightarrow> string list \<Rightarrow> canon \<Rightarrow> unit result" where
  "check_dependencies v [] s = Inr ()"
| "check_dependencies v (i # is) s =
     rbind (if find_exchange i s \<noteq> None then rbind (read_exchange v i s) (\<lambda>_. Inr ()) else rbind (read_edge v i s) (\<lambda>_. Inr ())) (\<lambda>_.
     check_dependencies v is s)"

definition inherited_trace :: "envelope \<Rightarrow> endpoint list" where
  "inherited_trace e = (case ms_backfire (xv_message e) of None \<Rightarrow> [] | Some b \<Rightarrow> bd_trace b)"

definition check_backfire_source :: "canon_env \<Rightarrow> message \<Rightarrow> backfire_details \<Rightarrow> canon \<Rightarrow> backfire_observation result" where
  "check_backfire_source v m b s =
     rbind (read_exchange v (bd_exchange b) s) (\<lambda>r. let e = xc_body r;
         source = \<lparr>ep_project = cn_project s, ep_participant = ms_sender m\<rparr>;
         recipient = \<lparr>ep_project = message_destination (cn_project s) m, ep_participant = ms_receiver m\<rparr>;
         inherited = inherited_trace e; trace = bd_trace b in
       if xc_digest r \<noteq> bd_digest b then Inl (LaneError ''CANON_BACKFIRE_INPUT_MISMATCH'')
       else if xc_destination r \<noteq> cn_project s \<or> xc_receiver r \<noteq> ms_sender m \<or> xc_state r \<noteq> Admitted \<or> xc_role r = Outbox
         then Inl (LaneError ''CANON_BACKFIRE_REQUIRES_ADMITTED_INPUT'')
       else rbind (not_expired v (ms_expires (xv_message e))) (\<lambda>_.
         if bd_revision b \<le> xv_revision e then Inl (LaneError ''CANON_BACKFIRE_STALE_REVISION_BLOCKED'')
         else if length trace < 2 \<or> drop (length trace - 2) trace \<noteq> [source, recipient] \<or> take (length inherited) trace \<noteq> inherited
           then Inl (LaneError ''CANON_BACKFIRE_ROUTE_CYCLE_BLOCKED'')
         else rbind (check_dependencies v (bd_dependencies b) s) (\<lambda>_.
           Inr \<lparr>bo_row = observe_row r, bo_revision = xv_revision e, bo_destination = source, bo_trace = inherited\<rparr>)))"

primrec check_references :: "canon_env \<Rightarrow> memory_reference list \<Rightarrow> canon \<Rightarrow> unit result" where
  "check_references v [] s = Inr ()"
| "check_references v (r # rs) s = rbind (ce_reference v r s) (\<lambda>_. check_references v rs s)"

text \<open>\<open>_validate_message\<close>: whether the contract admits at once (\<open>False\<close> when it is not checked), and the depth.\<close>

definition check_message ::
  "canon_env \<Rightarrow> bool \<Rightarrow> message \<Rightarrow> participant option \<Rightarrow> contract_snapshot option \<Rightarrow> canon \<Rightarrow> (bool \<times> int) result" where
  "check_message v check_contract m remote snap s = (let destination = message_destination (cn_project s) m in
     rbind (read_participant (ce_hash v) (ms_sender m) None s) (\<lambda>_.
     rbind (if destination = cn_project s
         then rbind (read_participant (ce_hash v) (ms_receiver m) None s) (\<lambda>_.
           if ms_sender m = ms_receiver m then Inl (LaneError ''CANON_SELF_ROUTE'') else Inr ())
         else (case remote of None \<Rightarrow> Inl (LaneError ''CANON_REMOTE_RECEIVER_REQUIRED'')
           | Some p \<Rightarrow> if pa_project p = destination \<and> pa_id p = ms_receiver m then Inr ()
               else Inl (LaneError ''CANON_REMOTE_RECEIVER_REQUIRED''))) (\<lambda>_.
     rbind (not_expired v (ms_expires m)) (\<lambda>_.
     rbind (check_edge_message v False m (cn_project s) s) (\<lambda>_.
     rbind (if check_contract \<and> destination = cn_project s then match_contract v m (cn_project s) s else Inr False) (\<lambda>automatic.
     rbind (check_return_contract v m snap s) (\<lambda>_.
     rbind (case ms_backfire m of None \<Rightarrow> Inr () | Some b \<Rightarrow> rbind (check_backfire_source v m b s) (\<lambda>_. Inr ())) (\<lambda>_.
     rbind (check_references v (py_references (ms_payload m)) s) (\<lambda>_.
     rbind (check_return v m (cn_project s) destination None s) (\<lambda>depth.
     Inr (automatic, depth)))))))))))"

section \<open>Sending\<close>

definition exchange_clash :: "exchange_row \<Rightarrow> exchange_row \<Rightarrow> bool" where
  "exchange_clash a b \<longleftrightarrow> xc_sequence a = xc_sequence b \<or> xc_id a = xc_id b \<or> xc_path a = xc_path b"

definition new_exchange :: "canon_env \<Rightarrow> envelope \<Rightarrow> canon_state \<Rightarrow> local_role \<Rightarrow> string \<Rightarrow> canon \<Rightarrow> exchange_row" where
  "new_exchange v e st role path s = (let m = xv_message e; d = content_digest (ce_hash v) (envelope_json e) in
     \<lparr>xc_sequence = (case latest xc_sequence (cn_exchanges s) of None \<Rightarrow> 1 | Some r \<Rightarrow> xc_sequence r + 1),
      xc_id = xv_id e, xc_sender = ms_sender m, xc_receiver = ms_receiver m, xc_kind = ms_kind m, xc_digest = d, xc_body = e,
      xc_state = st, xc_version = 1, xc_state_digest = state_digest (ce_hash v) (xv_id e) d st 1,
      xc_parent = (case ms_reply_to m of None \<Rightarrow> None | Some p \<Rightarrow> if find_exchange p s = None then None else Some p),
      xc_created = xv_created e, xc_source = fst (envelope_route e), xc_destination = snd (envelope_route e), xc_role = role, xc_path = path\<rparr>)"

definition insert_exchange :: "canon_env \<Rightarrow> envelope \<Rightarrow> canon_state \<Rightarrow> (canon, sent) action" where
  "insert_exchange v e st =
     bnd (gets cn_project) (\<lambda>pid.
     bnd (lift_result (role_of pid (fst (envelope_route e)) (snd (envelope_route e)))) (\<lambda>role.
     bnd (ret (content_digest (ce_hash v) (envelope_json e))) (\<lambda>d.
     bnd (lift_result (packet_path (xv_id e) d role)) (\<lambda>path.
     bnd (put_file ''CANON_PACKET_FILE_INTEGRITY'' path (json_text (envelope_json e))) (\<lambda>_.
     bnd (gets (new_exchange v e st role path)) (\<lambda>r.
     bnd (insert_row cn_exchanges cn_exchanges_update exchange_clash r) (\<lambda>_.
     ret \<lparr>sn_id = xv_id e, sn_digest = d, sn_state = st, sn_duplicate = False, sn_role = role, sn_path = path,
       sn_reasons = [], sn_required = False\<rparr>)))))))"

text \<open>The body of \<open>send\<close>, inside the transaction that its caller opened.\<close>

definition sealed_envelope :: "canon_env \<Rightarrow> string \<Rightarrow> message \<Rightarrow> int \<Rightarrow> int \<Rightarrow> canon \<Rightarrow> envelope" where
  "sealed_envelope v actor m revision depth s = \<lparr>xv_project = cn_project s, xv_id = draw 0 (ce_world v), xv_revision = revision,
     xv_client = actor, xv_message = m, xv_depth = depth, xv_created = now (ce_world v)\<rparr>"

text \<open>\<open>_admission_basis\<close> of the receipts: a sealed packet is not received yet.\<close>

definition delivery_receipt :: "sent \<Rightarrow> (string \<times> json) list \<Rightarrow> (string \<times> json) list" where
  "delivery_receipt r extra = sent_fields r @ extra @ [(''admission_basis'', JStr (if sn_state r = Sealed then ''not_received''
     else if sn_state r = Admitted then ''receiver_expected_contract'' else ''pending_receiver''))]"

text \<open>
  What \<open>send\<close> and \<open>receive\<close> write: the packet, the supersession that an admitted correction brings, the
  event and the receipt.
\<close>

definition record_delivery ::
  "canon_env \<Rightarrow> string \<Rightarrow> string \<Rightarrow> string \<Rightarrow> string \<Rightarrow> envelope \<Rightarrow> canon_state \<Rightarrow> string list \<Rightarrow> (string \<times> json) list \<Rightarrow> (canon, sent) action" where
  "record_delivery v actor rid kind key e st reasons extra =
     bnd (insert_exchange v e st) (\<lambda>r0.
     bnd (ret (r0\<lparr>sn_reasons := reasons, sn_required := (st = Received)\<rparr>)) (\<lambda>r.
     bnd (case ms_supersedes (xv_message e) of
         Some i \<Rightarrow> if st = Admitted then bnd (supersede_row v i (sn_id r) actor ''receiver_expected_contract'' None) (\<lambda>_. ret ()) else ret ()
       | None \<Rightarrow> ret ()) (\<lambda>_.
     bnd (add_canon_event v rid kind actor key (Delivered r)) (\<lambda>_.
     bnd (canon_receipt 0 v (if st = Sealed then ''canon_outbox_sealed'' else ''canon_exchange_received'') (delivery_receipt r extra)) (\<lambda>_.
     ret r)))))"

definition seal_message ::
  "canon_env \<Rightarrow> string \<Rightarrow> string \<Rightarrow> string \<Rightarrow> message \<Rightarrow> int \<Rightarrow> (canon, sent) action" where
  "seal_message v actor rid key m depth =
     bnd (gets cn_project) (\<lambda>pid.
     bnd (if message_destination pid m = pid then bnd (gets (compatibility v m pid)) lift_result else ret (False, [])) (\<lambda>(automatic, reasons).
     bnd (case ms_supersedes m of None \<Rightarrow> ret 1
       | Some i \<Rightarrow> bnd (checked_exchange v i) (\<lambda>r. ret (xv_revision (xc_body r) + 1))) (\<lambda>revision.
     bnd (gets (sealed_envelope v actor m revision depth)) (\<lambda>e.
     record_delivery v actor rid ''send'' key e
       (if message_destination pid m \<noteq> pid then Sealed else if automatic then Admitted else Received)
       reasons [(''source_client_id'', JStr actor)]))))"

definition send_rows ::
  "canon_env \<Rightarrow> string \<Rightarrow> string \<Rightarrow> message \<Rightarrow> participant option \<Rightarrow> contract_snapshot option \<Rightarrow> (canon, sent) action" where
  "send_rows v actor rid m remote snap =
     bnd (ret (content_digest (ce_hash v) (send_json rid m))) (\<lambda>key.
     bnd (check_participant v (ms_sender m) (Some actor)) (\<lambda>_.
     bnd (replayed v rid ''send'' actor key) (\<lambda>prior.
     case prior of
       Some (Delivered r) \<Rightarrow> ret (r\<lparr>sn_duplicate := True\<rparr>)
     | Some _ \<Rightarrow> abort (Raised ''ValidationError'')
     | None \<Rightarrow>
         bnd (bnd (gets (check_message v False m remote snap)) lift_result) (\<lambda>(_, depth).
         seal_message v actor rid key m depth))))"

definition valid_send :: "canon_env \<Rightarrow> string \<Rightarrow> message \<Rightarrow> bool" where
  "valid_send v rid m \<longleftrightarrow> uuid_pattern rid \<and> valid_message v m"

definition send ::
  "canon_env \<Rightarrow> lease \<Rightarrow> bool \<Rightarrow> string \<Rightarrow> string \<Rightarrow> message \<Rightarrow> participant option \<Rightarrow> contract_snapshot option \<Rightarrow> (canon, sent) action" where
  "send v l typed actor rid m remote snap =
     bnd (if valid_send v rid m then ret () else abort (Raised ''ValidationError'')) (\<lambda>_.
     bnd (require (ms_kind m = Backfire \<longrightarrow> typed) ''CANON_TYPED_BACKFIRE_REQUIRED'') (\<lambda>_.
     canon_transaction v l (send_rows v actor rid m remote snap)))"

section \<open>Reception\<close>

record receive_request =
  rq_request :: string
  rq_project :: string
  rq_exchange :: string
  rq_digest :: string

definition receive_json :: "receive_request \<Rightarrow> json" where
  "receive_json r = JObj [(''request_id'', JStr (rq_request r)), (''source_project_id'', JStr (rq_project r)),
     (''exchange_id'', JStr (rq_exchange r)), (''envelope_digest'', JStr (rq_digest r))]"

definition valid_receive :: "receive_request \<Rightarrow> bool" where
  "valid_receive r \<longleftrightarrow> uuid_pattern (rq_request r) \<and> uuid_pattern (rq_project r) \<and> uuid_pattern (rq_exchange r) \<and> digest_pattern (rq_digest r)"

definition receive_route_ok :: "canon_env \<Rightarrow> receive_request \<Rightarrow> source_snapshot \<Rightarrow> string \<Rightarrow> bool" where
  "receive_route_ok v r n pid \<longleftrightarrow> (case envelope_route (ss_envelope n) of (source, destination) \<Rightarrow>
     source = rq_project r \<and> source \<noteq> destination \<and> destination = pid
     \<and> content_digest (ce_hash v) (envelope_json (ss_envelope n)) = rq_digest r \<and> xv_id (ss_envelope n) = rq_exchange r
     \<and> ss_project n = source \<and> ss_digest n = rq_digest r)"

definition backfire_observed :: "message \<Rightarrow> backfire_details \<Rightarrow> string \<Rightarrow> backfire_observation option \<Rightarrow> bool" where
  "backfire_observed m b source o' \<longleftrightarrow> (case o' of None \<Rightarrow> False
     | Some x \<Rightarrow> po_id (bo_row x) = bd_exchange b \<and> po_digest (bo_row x) = bd_digest b \<and> po_state (bo_row x) = Admitted
         \<and> bo_destination x = \<lparr>ep_project = source, ep_participant = ms_sender m\<rparr> \<and> bo_revision x < bd_revision b)"

definition check_incoming :: "canon_env \<Rightarrow> receive_request \<Rightarrow> source_snapshot \<Rightarrow> canon \<Rightarrow> (bool \<times> string list) result" where
  "check_incoming v r n s =
     (if \<not> receive_route_ok v r n (cn_project s) then Inl (LaneError ''CANON_RECEIVE_ROUTE_MISMATCH'')
      else let e = ss_envelope n; m = xv_message e; (source, destination) = envelope_route e in
        if \<not> valid_message v m then Inl (Raised ''ValidationError'')
        else rbind (read_participant (ce_hash v) (ms_receiver m) None s) (\<lambda>_.
          rbind (not_expired v (ms_expires m)) (\<lambda>_.
          rbind (case ss_reasons n of [] \<Rightarrow> Inr () | c # _ \<Rightarrow> Inl (LaneError c)) (\<lambda>_.
          rbind (case ms_backfire m of None \<Rightarrow> Inr () | Some b \<Rightarrow> if backfire_observed m b source (ss_backfire n) then Inr ()
              else Inl (LaneError ''CANON_BACKFIRE_SOURCE_INTEGRITY'')) (\<lambda>_.
          rbind (check_edge_message v False m source s) (\<lambda>_.
          rbind (check_return v m source destination (Some n) s) (\<lambda>depth.
          if depth \<noteq> xv_depth e then Inl (LaneError ''CANON_RETURN_DEPTH'')
          else compatibility v m source s)))))))"

text \<open>The first sealing or receiving event of an exchange tells why it was not admitted at once.\<close>

definition admission_reasons :: "canon_env \<Rightarrow> string \<Rightarrow> canon \<Rightarrow> string list result" where
  "admission_reasons v i s =
     (case find (\<lambda>e. cv_kind e \<in> {''send'', ''receive''} \<and> (case cv_result e of Delivered r \<Rightarrow> sn_id r = i | _ \<Rightarrow> False)) (cn_events s) of
        None \<Rightarrow> Inr []
      | Some e \<Rightarrow> if canon_event_ok (ce_hash v) e then (case cv_result e of Delivered r \<Rightarrow> Inr (sn_reasons r) | _ \<Rightarrow> Inr [])
          else Inl (LaneError ''CANON_HISTORY_INTEGRITY''))"

definition delivery_result :: "canon_env \<Rightarrow> exchange_row \<Rightarrow> (canon, sent) action" where
  "delivery_result v r = bnd (bnd (gets (admission_reasons v (xc_id r))) lift_result) (\<lambda>reasons.
     ret \<lparr>sn_id = xc_id r, sn_digest = xc_digest r, sn_state = xc_state r, sn_duplicate = True, sn_role = xc_role r, sn_path = xc_path r,
       sn_reasons = reasons, sn_required = (xc_state r \<in> {Received, Needs_Clarification})\<rparr>)"

definition receive :: "canon_env \<Rightarrow> lease \<Rightarrow> string \<Rightarrow> receive_request \<Rightarrow> source_snapshot \<Rightarrow> (canon, sent) action" where
  "receive v l actor r n = (let e = ss_envelope n; m = xv_message e in
     bnd (if valid_receive r then ret () else abort (Raised ''ValidationError'')) (\<lambda>_.
     bnd (gets cn_project) (\<lambda>pid.
     bnd (require (receive_route_ok v r n pid) ''CANON_RECEIVE_ROUTE_MISMATCH'') (\<lambda>_.
     bnd (if valid_message v m then ret () else abort (Raised ''ValidationError'')) (\<lambda>_.
     canon_transaction v l (
       bnd (check_participant v (ms_receiver m) (Some actor)) (\<lambda>_.
       bnd (ret (content_digest (ce_hash v) (receive_json r))) (\<lambda>key.
       bnd (replayed v (rq_request r) ''receive'' actor key) (\<lambda>prior.
       if prior \<noteq> None then bnd (checked_exchange v (rq_exchange r)) (delivery_result v)
       else bnd (gets (find_exchange (rq_exchange r))) (\<lambda>existing.
         if existing \<noteq> None then
           bnd (checked_exchange v (rq_exchange r)) (\<lambda>row.
           bnd (require (xc_digest row = rq_digest r \<and> xc_body row = e) ''CANON_ENVELOPE_IMMUTABILITY_CONFLICT'') (\<lambda>_.
           delivery_result v row))
         else
           bnd (bnd (gets (check_incoming v r n)) lift_result) (\<lambda>(automatic, reasons).
           record_delivery v actor (rq_request r) ''receive'' key e (if automatic then Admitted else Received) reasons
             [(''source_observation'', snapshot_json n)])))))))))))"

section \<open>The receiver's decision\<close>

datatype decision_kind = Admit | Reject | Clarify

definition decision_name :: "decision_kind \<Rightarrow> string" where
  "decision_name d = (case d of Admit \<Rightarrow> ''admit'' | Reject \<Rightarrow> ''reject'' | Clarify \<Rightarrow> ''clarify'')"

record decide_request =
  dq_request :: string
  dq_exchange :: string
  dq_digest :: string
  dq_version :: int
  dq_decision :: decision_kind
  dq_reason :: string
  dq_accept :: bool

definition decide_json :: "decide_request \<Rightarrow> json" where
  "decide_json r = JObj [(''request_id'', JStr (dq_request r)), (''exchange_id'', JStr (dq_exchange r)),
     (''envelope_digest'', JStr (dq_digest r)), (''expected_version'', JInt (dq_version r)),
     (''decision'', JStr (decision_name (dq_decision r))), (''reason'', JStr (dq_reason r)),
     (''incompatible_input_decision'', if dq_accept r then JStr ''ACCEPT'' else JNull)]"

definition valid_decide :: "canon_env \<Rightarrow> decide_request \<Rightarrow> bool" where
  "valid_decide v r \<longleftrightarrow> uuid_pattern (dq_request r) \<and> uuid_pattern (dq_exchange r) \<and> digest_pattern (dq_digest r) \<and> 1 \<le> dq_version r
     \<and> bounded 1 1000 (dq_reason r) \<and> safe_text v (JStr (dq_reason r))"

definition decided_state :: "decision_kind \<Rightarrow> canon_state" where
  "decided_state d = (case d of Admit \<Rightarrow> Admitted | Reject \<Rightarrow> Rejected | Clarify \<Rightarrow> Needs_Clarification)"

text \<open>What an admission checks again: expiry, edge, compatibility, evidence and return.\<close>

definition check_admission ::
  "canon_env \<Rightarrow> decide_request \<Rightarrow> exchange_row \<Rightarrow> string list \<Rightarrow> source_snapshot option \<Rightarrow> canon \<Rightarrow> unit result" where
  "check_admission v r row reasons n s = (let e = xc_body row; m = xv_message e; (source, destination) = envelope_route e in
     rbind (not_expired v (ms_expires m)) (\<lambda>_.
     rbind (check_edge_message v False m source s) (\<lambda>_.
     if reasons \<noteq> [] \<and> \<not> dq_accept r then Inl (LaneError ''CANON_INPUT_ACCEPT_REQUIRED'')
     else rbind (if source = cn_project s then check_references v (py_references (ms_payload m)) s
         else (case n of None \<Rightarrow> Inl (LaneError ''CANON_SOURCE_ENVELOPE_MISMATCH'')
           | Some x \<Rightarrow> if ss_envelope x \<noteq> e \<or> ss_digest x \<noteq> xc_digest row \<or> ss_project x \<noteq> source
               then Inl (LaneError ''CANON_SOURCE_ENVELOPE_MISMATCH'') else Inr ())) (\<lambda>_.
       rbind (check_return v m source destination n s) (\<lambda>_. Inr ())))))"

definition decision_record :: "decide_request \<Rightarrow> exchange_row \<Rightarrow> string list \<Rightarrow> decision" where
  "decision_record r row reasons = \<lparr>dc_id = dq_exchange r, dc_state = decided_state (dq_decision r), dc_version = xc_version row + 1,
     dc_receiver = xc_receiver row, dc_reason = dq_reason r, dc_accept = dq_accept r, dc_reasons = reasons\<rparr>"

definition write_decision ::
  "canon_env \<Rightarrow> string \<Rightarrow> string \<Rightarrow> decide_request \<Rightarrow> exchange_row \<Rightarrow> string list \<Rightarrow> (canon, decision) action" where
  "write_decision v actor key r row reasons =
     bnd (modify (set_exchange_state (ce_hash v) (dq_exchange r) (decided_state (dq_decision r)) (xc_version row + 1))) (\<lambda>_.
     bnd (case ms_supersedes (xv_message (xc_body row)) of
         Some i \<Rightarrow> if dq_decision r = Admit
           then bnd (supersede_row v i (dq_exchange r) actor ''receiver_correction_admission'' None) (\<lambda>_. ret ()) else ret ()
       | None \<Rightarrow> ret ()) (\<lambda>_.
     bnd (add_canon_event v (dq_request r) ''decide'' actor key (Decided (decision_record r row reasons))) (\<lambda>_.
     bnd (canon_receipt 0 v ''canon_receiver_decision''
       (decision_fields (decision_record r row reasons) @ [(''source_client_id'', JStr actor)])) (\<lambda>_.
     ret (decision_record r row reasons)))))"

definition decide :: "canon_env \<Rightarrow> lease \<Rightarrow> string \<Rightarrow> decide_request \<Rightarrow> source_snapshot option \<Rightarrow> (canon, decision) action" where
  "decide v l actor r n =
     bnd (if valid_decide v r then ret () else abort (Raised ''ValidationError'')) (\<lambda>_.
     canon_transaction v l (
       bnd (ret (content_digest (ce_hash v) (decide_json r))) (\<lambda>key.
       bnd (checked_exchange v (dq_exchange r)) (\<lambda>row.
       bnd (require (xc_role row \<noteq> Outbox) ''CANON_RECEIVER_PROJECT_REQUIRED'') (\<lambda>_.
       bnd (check_participant v (xc_receiver row) (Some actor)) (\<lambda>_.
       bnd (replayed v (dq_request r) ''decide'' actor key) (\<lambda>prior.
       case prior of
         Some (Decided d) \<Rightarrow> ret d
       | Some _ \<Rightarrow> abort (Raised ''ValidationError'')
       | None \<Rightarrow>
           bnd (require (xc_digest row = dq_digest r \<and> xc_version row = dq_version r) ''CANON_DECISION_VERSION_CONFLICT'') (\<lambda>_.
           bnd (require (xc_state row \<in> {Received, Needs_Clarification}) ''CANON_DECISION_STATE'') (\<lambda>_.
           bnd (bnd (gets (compatibility v (xv_message (xc_body row)) (fst (envelope_route (xc_body row))))) lift_result) (\<lambda>(_, reasons).
           bnd (if dq_decision r = Admit then bnd (gets (check_admission v r row reasons n)) lift_result
                else require (\<not> dq_accept r) ''CANON_INPUT_DECISION_MISMATCH'') (\<lambda>_.
           write_decision v actor key r row reasons)))))))))))"

record supersede_request =
  sq_request :: string
  sq_exchange :: string
  sq_digest :: string
  sq_version :: int
  sq_successor :: string
  sq_successor_digest :: string

definition supersede_json :: "supersede_request \<Rightarrow> json" where
  "supersede_json r = JObj [(''request_id'', JStr (sq_request r)), (''exchange_id'', JStr (sq_exchange r)),
     (''envelope_digest'', JStr (sq_digest r)), (''expected_version'', JInt (sq_version r)),
     (''successor_id'', JStr (sq_successor r)), (''successor_envelope_digest'', JStr (sq_successor_digest r))]"

definition valid_supersede :: "supersede_request \<Rightarrow> bool" where
  "valid_supersede r \<longleftrightarrow> uuid_pattern (sq_request r) \<and> uuid_pattern (sq_exchange r) \<and> digest_pattern (sq_digest r) \<and> 1 \<le> sq_version r
     \<and> uuid_pattern (sq_successor r) \<and> digest_pattern (sq_successor_digest r)"

definition supersede :: "canon_env \<Rightarrow> lease \<Rightarrow> string \<Rightarrow> supersede_request \<Rightarrow> (canon, superseded) action" where
  "supersede v l actor r =
     bnd (if valid_supersede r then ret () else abort (Raised ''ValidationError'')) (\<lambda>_.
     canon_transaction v l (
       bnd (ret (content_digest (ce_hash v) (supersede_json r))) (\<lambda>key.
       bnd (replayed v (sq_request r) ''supersede'' actor key) (\<lambda>prior.
       bnd (checked_exchange v (sq_exchange r)) (\<lambda>row.
       case prior of
         Some p \<Rightarrow>
           bnd (check_participant v (xc_receiver row) (Some actor)) (\<lambda>_.
           bnd (bnd (gets (read_supersession v row)) lift_result) (\<lambda>u.
           case u of
             None \<Rightarrow> raise ''CANON_SUPERSESSION_INTEGRITY''
           | Some x \<Rightarrow> bnd (require (p = Superseding x) ''CANON_SUPERSESSION_INTEGRITY'') (\<lambda>_. ret (x\<lparr>su_duplicate := True\<rparr>))))
       | None \<Rightarrow>
           bnd (checked_exchange v (sq_successor r)) (\<lambda>next.
           bnd (check_participant v (xc_receiver row) (Some actor)) (\<lambda>_.
           bnd (require (xc_digest row = sq_digest r \<and> xc_version row = sq_version r \<and> xc_digest next = sq_successor_digest r)
             ''CANON_SUPERSESSION_VERSION_CONFLICT'') (\<lambda>_.
           supersede_row v (sq_exchange r) (sq_successor r) actor ''receiver_explicit'' (Some (sq_request r, key))))))))))"

section \<open>What a source shows\<close>

definition verify_canon_history :: "(string \<Rightarrow> string) \<Rightarrow> nat \<Rightarrow> canon \<Rightarrow> (nat \<times> string option) result" where
  "verify_canon_history H limit s =
     (let rows = sort_key cv_sequence (cn_events s) in
      if \<not> (1 \<le> limit \<and> limit \<le> 50000) \<or> limit < length rows then Inl (LaneError ''CANON_HISTORY_BUDGET'')
      else case canon_walk H 1 None rows of None \<Rightarrow> Inl (LaneError ''CANON_HISTORY_INTEGRITY'') | Some h \<Rightarrow> Inr (length rows, h))"

section \<open>Deduplicated operations\<close>

text \<open>The messages that a result and a conditional request seal.\<close>

definition task_result_message :: "canon_env \<Rightarrow> task_result_request \<Rightarrow> canon \<Rightarrow> (string \<times> message) result" where
  "task_result_message v r s = rbind (read_edge v (tr_edge r) s) (\<lambda>e. let d = eb_definition (et_edge e); source = eb_source (et_edge e) in
     if ep_project (ed_destination d) \<noteq> cn_project s then Inl (LaneError ''CANON_TASK_RESULT_OWNER_MISMATCH'')
     else Inr (ce_uuid5 v (tr_request r) ''canon:task_result:seal'',
       \<lparr>ms_sender = ep_participant (ed_destination d), ms_receiver = ep_participant source, ms_destination = Some (ep_project source),
        ms_kind = Task_Result, ms_payload = tr_payload r, ms_expected = Some (ed_return d), ms_return = None,
        ms_reply_to = Some (tr_reply r), ms_supersedes = None, ms_expires = tr_expires r, ms_edge = Some (tr_edge r), ms_backfire = None\<rparr>))"

definition backfire_message :: "canon_env \<Rightarrow> backfire_request \<Rightarrow> canon \<Rightarrow> (string \<times> message) result" where
  "backfire_message v r s = rbind (read_exchange v (br_exchange r) s) (\<lambda>row.
     let source = \<lparr>ep_project = cn_project s, ep_participant = xc_receiver row\<rparr>; inherited = inherited_trace (xc_body row);
         trace = (if br_trace r = [] then inherited else br_trace r) in
     if source \<in> set trace \<or> br_recipient r \<in> set trace \<or> source = br_recipient r \<or> 30 < length trace
        \<or> take (length inherited) trace \<noteq> inherited
     then Inl (LaneError ''CANON_BACKFIRE_ROUTE_CYCLE_BLOCKED'')
     else let b = \<lparr>bd_exchange = br_exchange r, bd_digest = br_digest r, bd_class = br_class r, bd_revision = br_revision r,
              bd_dependencies = sort (br_dependencies r), bd_return_route = br_return_route r, bd_trace = trace @ [source, br_recipient r]\<rparr>;
            m = \<lparr>ms_sender = ep_participant source, ms_receiver = ep_participant (br_recipient r),
              ms_destination = Some (ep_project (br_recipient r)), ms_kind = Backfire, ms_payload = br_payload r,
              ms_expected = Some (br_contract r), ms_return = Some (br_return_contract r), ms_reply_to = None, ms_supersedes = None,
              ms_expires = Some (br_expires r), ms_edge = None, ms_backfire = Some b\<rparr> in
          if valid_message v m then Inr (ce_uuid5 v (br_request r) ''canon:backfire:seal'', m) else Inl (Raised ''ValidationError''))"

definition operation_request_id :: "operation_request \<Rightarrow> string" where
  "operation_request_id q = (case q of Result_Request r \<Rightarrow> tr_request r | Backfire_Request r \<Rightarrow> br_request r)"

definition operation_kind :: "operation_request \<Rightarrow> string" where
  "operation_kind q = (case q of Result_Request r \<Rightarrow> ''task_result'' | Backfire_Request r \<Rightarrow> ''backfire'')"

definition operation_message :: "canon_env \<Rightarrow> operation_request \<Rightarrow> canon \<Rightarrow> (string \<times> message) result" where
  "operation_message v q s = (case q of
       Result_Request r \<Rightarrow> rbind (task_result_message v r s) (\<lambda>x.
         if valid_message v (snd x) then Inr x else Inl (Raised ''ValidationError''))
     | Backfire_Request r \<Rightarrow> backfire_message v r s)"

definition operation_key :: "canon_env \<Rightarrow> operation_request \<Rightarrow> string" where
  "operation_key v q = content_digest (ce_hash v) (case q of
       Backfire_Request r \<Rightarrow> JObj [(''recipient'', endpoint_json (br_recipient r)), (''requested_contract'', JStr (br_contract r)),
         (''requested_revision'', JInt (br_revision r))]
     | Result_Request r \<Rightarrow> JObj [(''edge_id'', JStr (tr_edge r)),
         (''result_payload_digest'', JStr (content_digest (ce_hash v) (payload_json (tr_payload r))))])"

text \<open>The identity of an operation leaves out the request identifier and the expiry.\<close>

definition operation_identity :: "canon_env \<Rightarrow> message \<Rightarrow> string" where
  "operation_identity v m = content_digest (ce_hash v) (JObj (filter (\<lambda>kv. fst kv \<noteq> ''expires_at'') (message_fields m)))"

text \<open>\<open>_operation_record\<close>: the event, the request, the message and the sealed packet name the same operation.\<close>

definition read_operation :: "canon_env \<Rightarrow> canon_event \<Rightarrow> canon \<Rightarrow> (operation_record \<times> exchange_row) result" where
  "read_operation v e s =
     (if \<not> canon_event_ok (ce_hash v) e \<or> cv_kind e \<notin> {''backfire'', ''task_result''} then Inl (LaneError ''CANON_OPERATION_INTEGRITY'')
      else case cv_result e of
        Operated p \<Rightarrow>
          if operation_kind (op_request p) \<noteq> cv_kind e then Inl (Raised ''ValidationError'')
          else rbind (operation_message v (op_request p) s) (\<lambda>(rid, m).
            rbind (read_exchange v (sn_id (op_delivery p)) s) (\<lambda>row.
            rbind (canon_replay (ce_hash v) rid ''send'' (cv_actor e) (content_digest (ce_hash v) (send_json rid m)) s) (\<lambda>seal.
            if cv_request e \<noteq> operation_request_id (op_request p)
               \<or> cv_input e \<noteq> content_digest (ce_hash v) (operation_request_json (op_request p))
               \<or> op_key p \<noteq> operation_key v (op_request p) \<or> op_identity p \<noteq> operation_identity v m
               \<or> xv_message (xc_body row) \<noteq> m \<or> xv_client (xc_body row) \<noteq> cv_actor e \<or> xc_digest row \<noteq> sn_digest (op_delivery p)
               \<or> \<not> (case seal of Some (Delivered x) \<Rightarrow> sn_id x = sn_id (op_delivery p) \<and> sn_digest x = sn_digest (op_delivery p)
                     \<and> sn_state x = sn_state (op_delivery p) \<and> sn_role x = sn_role (op_delivery p) | _ \<Rightarrow> False)
            then Inl (LaneError ''CANON_OPERATION_INTEGRITY'') else Inr (p, row))))
      | _ \<Rightarrow> Inl (Raised ''ValidationError''))"

definition find_operation :: "string \<Rightarrow> string \<Rightarrow> canon \<Rightarrow> canon_event option" where
  "find_operation kind key s = find (\<lambda>e. cv_kind e = kind \<and> (case cv_result e of Operated p \<Rightarrow> op_key p = key | _ \<Rightarrow> False)) (cn_events s)"

text \<open>The canonical event of a request identifier that was used before.\<close>

definition recorded_operation ::
  "canon_env \<Rightarrow> string \<Rightarrow> string \<Rightarrow> string \<Rightarrow> string \<Rightarrow> canon \<Rightarrow> canon_event option result" where
  "recorded_operation v rid kind actor key s =
     (case find_canon_event rid s of
        None \<Rightarrow> Inr None
      | Some e \<Rightarrow>
          if cv_kind e \<noteq> kind \<and> cv_kind e \<noteq> kind @ ''_replay'' then Inl (LaneError ''CANON_REQUEST_CONFLICT'')
          else rbind (canon_replay (ce_hash v) rid (cv_kind e) actor key s) (\<lambda>recorded.
            if cv_kind e = kind then Inr (Some e)
            else case recorded of
              Some (Operation_Replayed i c k) \<Rightarrow> (case find_canon_event c s of
                  Some x \<Rightarrow> if cv_kind x = kind then Inr (Some x) else Inl (LaneError ''CANON_OPERATION_INTEGRITY'')
                | None \<Rightarrow> Inl (LaneError ''CANON_OPERATION_INTEGRITY''))
            | _ \<Rightarrow> Inl (Raised ''KeyError'')))"

definition conflict_code :: "string \<Rightarrow> string" where
  "conflict_code kind = (if kind = ''backfire'' then ''CANON_BACKFIRE_DEDUP_CONFLICT'' else ''CANON_TASK_RESULT_DEDUP_CONFLICT'')"

definition seal_operation ::
  "canon_env \<Rightarrow> lease \<Rightarrow> string \<Rightarrow> operation_request \<Rightarrow> string \<times> message \<Rightarrow> participant option \<Rightarrow> contract_snapshot option
     \<Rightarrow> (canon, sent \<times> string) action" where
  "seal_operation v l actor q x remote snap = (let kind = operation_kind q; rid = operation_request_id q; m = snd x;
       key = operation_key v q; identity = operation_identity v m;
       request_digest = content_digest (ce_hash v) (operation_request_json q) in
     bnd (check_participant v (ms_sender m) (Some actor)) (\<lambda>_.
     bnd (bnd (gets (recorded_operation v rid kind actor request_digest)) lift_result) (\<lambda>recorded.
     bnd (gets (\<lambda>s. if recorded = None then find_operation kind key s else recorded)) (\<lambda>canonical.
     case canonical of
       Some e \<Rightarrow>
         bnd (bnd (gets (read_operation v e)) lift_result) (\<lambda>(p, row).
         bnd (require (op_key p = key \<and> op_identity p = identity) (conflict_code kind)) (\<lambda>_.
         bnd (gets (find_canon_event rid)) (\<lambda>mine.
         bnd (if mine \<noteq> None then ret ()
              else add_canon_event v rid (kind @ ''_replay'') actor request_digest (Operation_Replayed (xc_id row) (cv_request e) key)) (\<lambda>_.
         bnd (delivery_result v row) (\<lambda>d. ret (d, key))))))
     | None \<Rightarrow>
         bnd (send v l (kind = ''backfire'') actor (fst x) m remote snap) (\<lambda>d.
         bnd (add_canon_event v rid kind actor request_digest
           (Operated \<lparr>op_delivery = d, op_key = key, op_identity = identity, op_request = q\<rparr>)) (\<lambda>_.
         bnd (canon_receipt 2 v (if kind = ''backfire'' then ''canon_backfire_proposed'' else ''canon_task_result_sealed'')
           (operation_sent_fields key d)) (\<lambda>_.
         ret (d, key))))))))"

definition valid_operation_request :: "canon_env \<Rightarrow> operation_request \<Rightarrow> bool" where
  "valid_operation_request v q = (case q of
       Result_Request r \<Rightarrow> uuid_pattern (tr_request r) \<and> uuid_pattern (tr_edge r) \<and> uuid_pattern (tr_reply r)
         \<and> valid_payload v (tr_payload r) \<and> pred_option (\<lambda>t. length t \<le> 40) (tr_expires r)
     | Backfire_Request r \<Rightarrow> uuid_pattern (br_request r) \<and> uuid_pattern (br_exchange r) \<and> digest_pattern (br_digest r)
         \<and> br_class r \<in> set BACKFIRE_CLASSES \<and> valid_endpoint (br_recipient r) \<and> digest_pattern (br_contract r)
         \<and> 2 \<le> br_revision r \<and> br_revision r \<le> 1000000 \<and> valid_payload v (br_payload r) \<and> length (br_dependencies r) \<le> 32
         \<and> distinct (br_dependencies r) \<and> list_all uuid_pattern (br_dependencies r) \<and> valid_endpoint (br_return_route r)
         \<and> digest_pattern (br_return_contract r) \<and> length (br_trace r) \<le> 30 \<and> list_all valid_endpoint (br_trace r)
         \<and> distinct (br_trace r) \<and> bounded 1 40 (br_expires r) \<and> ce_stamp v (br_expires r) \<noteq> None)"

text \<open>\<open>task_result\<close> and \<open>backfire\<close>; the latter validates its source before it looks for a duplicate.\<close>

definition operate ::
  "canon_env \<Rightarrow> lease \<Rightarrow> string \<Rightarrow> operation_request \<Rightarrow> participant option \<Rightarrow> contract_snapshot option \<Rightarrow> (canon, sent \<times> string) action" where
  "operate v l actor q remote snap =
     bnd (if valid_operation_request v q then ret () else abort (Raised ''ValidationError'')) (\<lambda>_.
     canon_transaction v l (
       bnd (bnd (gets (operation_message v q)) lift_result) (\<lambda>x.
       bnd (case ms_backfire (snd x) of
           None \<Rightarrow> ret ()
         | Some b \<Rightarrow> bnd (check_participant v (ms_sender (snd x)) (Some actor)) (\<lambda>_.
             bnd (bnd (gets (check_backfire_source v (snd x) b)) lift_result) (\<lambda>_. ret ()))) (\<lambda>_.
       seal_operation v l actor q x remote snap))))"

section \<open>The snapshot of a source\<close>

definition seal_event_of :: "string \<Rightarrow> canon \<Rightarrow> canon_event option" where
  "seal_event_of i s = find (\<lambda>e. cv_kind e = ''send'' \<and> (case cv_result e of Delivered r \<Rightarrow> sn_id r = i | _ \<Rightarrow> False)) (cn_events s)"

definition seal_matches :: "canon_env \<Rightarrow> exchange_row \<Rightarrow> canon_event \<Rightarrow> bool" where
  "seal_matches v r e \<longleftrightarrow> canon_event_ok (ce_hash v) e
     \<and> (case cv_result e of Delivered x \<Rightarrow> sn_digest x = xc_digest r \<and> sn_state x = Sealed \<and> sn_role x = Outbox | _ \<Rightarrow> False)
     \<and> cv_actor e = xv_client (xc_body r)
     \<and> cv_input e = content_digest (ce_hash v) (send_json (cv_request e) (xv_message (xc_body r)))"

text \<open>The checks whose failure a preview reports instead of raising it.\<close>

definition source_checks :: "canon_env \<Rightarrow> message \<Rightarrow> canon \<Rightarrow> backfire_observation option result" where
  "source_checks v m s = rbind (not_expired v (ms_expires m)) (\<lambda>_.
     rbind (check_references v (py_references (ms_payload m)) s) (\<lambda>_.
     case ms_backfire m of None \<Rightarrow> Inr None | Some b \<Rightarrow> rbind (check_backfire_source v m b s) (\<lambda>o'. Inr (Some o'))))"

definition PREVIEW_CODES :: "string list" where
  "PREVIEW_CODES = [''CANON_EXCHANGE_EXPIRED'', ''MEMORY_SOURCE_MISMATCH'', ''CANON_BACKFIRE_REQUIRES_ADMITTED_INPUT'',
     ''CANON_BACKFIRE_STALE_REVISION_BLOCKED'']"

definition observe_source :: "canon_env \<Rightarrow> bool \<Rightarrow> message \<Rightarrow> canon \<Rightarrow> (backfire_observation option \<times> string list) result" where
  "observe_source v preview m s = (case source_checks v m s of
       Inr o' \<Rightarrow> Inr (o', [])
     | Inl (LaneError c) \<Rightarrow> if preview \<and> c \<in> set PREVIEW_CODES then Inr (None, [c]) else Inl (LaneError c)
     | Inl e \<Rightarrow> Inl e)"

definition check_operation_of :: "canon_env \<Rightarrow> string \<Rightarrow> message \<Rightarrow> canon \<Rightarrow> unit result" where
  "check_operation_of v i m s = (case ms_backfire m of None \<Rightarrow> Inr () | Some _ \<Rightarrow>
     (case find (\<lambda>e. cv_kind e = ''backfire'' \<and> (case cv_result e of Operated p \<Rightarrow> sn_id (op_delivery p) = i | _ \<Rightarrow> False)) (cn_events s) of
        None \<Rightarrow> Inl (LaneError ''CANON_OPERATION_INTEGRITY'')
      | Some e \<Rightarrow> rbind (read_operation v e s) (\<lambda>_. Inr ())))"

definition source_snapshot_of :: "canon_env \<Rightarrow> bool \<Rightarrow> string \<Rightarrow> string \<Rightarrow> canon \<Rightarrow> source_snapshot result" where
  "source_snapshot_of v preview i digest s =
     rbind (read_exchange v i s) (\<lambda>r. let e = xc_body r; m = xv_message e in
     if xc_digest r \<noteq> digest \<or> xc_role r \<noteq> Outbox then Inl (LaneError ''CANON_SOURCE_ENVELOPE_MISMATCH'')
     else case seal_event_of i s of
       None \<Rightarrow> Inl (LaneError ''CANON_SOURCE_SEAL_INTEGRITY'')
     | Some x \<Rightarrow>
         if \<not> seal_matches v r x then Inl (LaneError ''CANON_SOURCE_SEAL_INTEGRITY'')
         else rbind (check_operation_of v i m s) (\<lambda>_.
           rbind (observe_source v preview m s) (\<lambda>(o', reasons).
           rbind (case ms_reply_to m of None \<Rightarrow> Inr None | Some p \<Rightarrow> rbind (read_exchange v p s) (\<lambda>y. Inr (Some y))) (\<lambda>parent.
           rbind (verify_canon_history (ce_hash v) 50000 s) (\<lambda>history.
           Inr \<lparr>ss_envelope = e, ss_digest = xc_digest r, ss_parent = map_option observe_row parent,
             ss_parent_envelope = map_option xc_body parent, ss_backfire = o', ss_project = cn_project s, ss_history = history,
             ss_reasons = reasons, ss_seal = \<lparr>sl_request = cv_request x, sl_actor = cv_actor x, sl_input = cv_input x, sl_digest = cv_digest x\<rparr>\<rparr>)))))"

end
