(* ===== verification/Canon_Laws.thy ===== *)
theory Canon_Laws
  imports Canon_Delivery Hash_Chain
begin

text \<open>
  Rules for invariants of the exchange lane. Each operation is walked through once: what has been read
  and checked when it writes becomes the precondition of the write (\<open>arriving\<close>, \<open>decidable_row\<close>,
  \<open>superseding\<close>), so that an invariant needs one lemma for each kind of write. The chain of events is the first
  of them.
\<close>

section \<open>Rules\<close>

declare keeps_case_prod [keeps_rules] keeps_abort [keeps_rules]

lemma valid_weaken: "keeps I m \<Longrightarrow> (\<And>s. P s \<Longrightarrow> I s) \<Longrightarrow> valid P m (\<lambda>_. I)"
  unfolding valid_def by blast

lemma valid_split: "valid P m (\<lambda>_. J) \<Longrightarrow> (\<And>a. valid J (f a) Q) \<Longrightarrow> valid P (bnd m f) Q"
  by (rule valid_bnd)

lemma keeps_case_result [keeps_rules]:
  assumes "\<And>p. keeps I (f1 p)" "\<And>d b. keeps I (f2 d b)" "\<And>e. keeps I (f3 e)" "\<And>m. keeps I (f4 m)" "\<And>d. keeps I (f5 d)"
    "\<And>u. keeps I (f6 u)" "\<And>p. keeps I (f7 p)" "\<And>i c k. keeps I (f8 i c k)"
  shows "keeps I (case r of Joined p \<Rightarrow> f1 p | Contracted d b \<Rightarrow> f2 d b | Edge_Recorded e \<Rightarrow> f3 e | Delivered m \<Rightarrow> f4 m
    | Decided d \<Rightarrow> f5 d | Superseding u \<Rightarrow> f6 u | Operated p \<Rightarrow> f7 p | Operation_Replayed i c k \<Rightarrow> f8 i c k)"
  using assms by (cases r) simp_all

lemma at_base_Inr [run_simps]: "at_base m s = Inr (a, s') \<longleftrightarrow> (\<exists>b. m (cn_base s) = Inr (a, b) \<and> s' = s\<lparr>cn_base := b\<rparr>)"
  by (auto simp: at_base_def split: sum.splits prod.splits)

lemma check_lease_reads: "check_lease w l b = Inr (a, b') \<Longrightarrow> b' = b"
  by (auto simp: check_lease_def run_simps)

lemma own_lease_reads: "own_lease w l b = Inr (a, b') \<Longrightarrow> b' = b"
  by (auto simp: own_lease_def run_simps dest: check_lease_reads)

lemma keeps_lease_checks [keeps_rules]: "keeps I (at_base (check_lease w l))" "keeps I (at_base (own_lease w l))"
  by (auto simp: valid_def run_simps dest!: check_lease_reads own_lease_reads)

lemma keeps_canon_transaction: "keeps I m \<Longrightarrow> keeps I (canon_transaction v l m)"
  unfolding canon_transaction_def by (intro keeps_rules)

lemma keeps_canon_receipt:
  "(\<And>s x. I s \<Longrightarrow> I (s\<lparr>cn_base := (cn_base s)\<lparr>receipts := x\<rparr>\<rparr>)) \<Longrightarrow> keeps I (canon_receipt k v kind body)"
  by (auto simp: valid_def canon_receipt_def run_simps)

section \<open>What has been checked when a row is written\<close>

definition owned_participant :: "canon_env \<Rightarrow> string \<Rightarrow> string \<Rightarrow> canon \<Rightarrow> bool" where
  "owned_participant v p actor s \<longleftrightarrow> (\<exists>x. read_participant (ce_hash v) p (Some actor) s = Inr x)"

text \<open>
  A new packet: its message is valid, its sender belongs to the client that sealed it, its local receiver is known,
  and its first state is the one its contract allows.
\<close>

definition arriving :: "canon_env \<Rightarrow> envelope \<Rightarrow> canon_state \<Rightarrow> canon \<Rightarrow> bool" where
  "arriving v e st s \<longleftrightarrow> (let m = xv_message e; (source, destination) = envelope_route e in
     valid_message v m
     \<and> (source = cn_project s \<longrightarrow> owned_participant v (ms_sender m) (xv_client e) s)
     \<and> (destination = cn_project s \<longrightarrow> known_participant v (ms_receiver m) s = Inr ())
     \<and> (if destination \<noteq> cn_project s then st = Sealed
        else st = Received \<or> st = Admitted \<and> (\<exists>rs. compatibility v m source s = Inr (True, rs))))"

definition decidable_row :: "canon_env \<Rightarrow> string \<Rightarrow> decide_request \<Rightarrow> exchange_row \<Rightarrow> canon \<Rightarrow> bool" where
  "decidable_row v actor r row s \<longleftrightarrow> read_exchange v (dq_exchange r) s = Inr row \<and> xc_role row \<noteq> Outbox
     \<and> (\<exists>p. read_participant (ce_hash v) (xc_receiver row) (Some actor) s = Inr p)
     \<and> xc_state row \<in> {Received, Needs_Clarification}"

definition superseding :: "canon_env \<Rightarrow> string \<Rightarrow> string \<Rightarrow> exchange_row \<Rightarrow> exchange_row \<Rightarrow> canon \<Rightarrow> bool" where
  "superseding v i j r n s \<longleftrightarrow> read_exchange v i s = Inr r \<and> read_exchange v j s = Inr n \<and> same_route r n
     \<and> xc_sequence r < xc_sequence n \<and> xc_state r \<in> {Admitted, Rejected, Needs_Clarification} \<and> xc_state n = Admitted"

lemma succession_fields: "su_id (succession i j basis r n) = i" "su_version (succession i j basis r n) = xc_version r + 1"
  by (simp_all add: succession_def)

lemma keeps_supersede_row:
  assumes receipt: "\<And>s x. I s \<Longrightarrow> I (s\<lparr>cn_base := (cn_base s)\<lparr>receipts := x\<rparr>\<rparr>)"
    and set_state: "\<And>r n. valid (\<lambda>s. I s \<and> superseding v i j r n s)
      (modify (set_exchange_state (ce_hash v) i Was_Superseded (xc_version r + 1))) (\<lambda>_. J (succession i j basis r n))"
    and event: "\<And>u rid key. valid (J u) (add_canon_event v rid ''supersede'' actor key (Superseding u)) (\<lambda>_. K u rid)"
    and link: "\<And>u rid. valid (K u rid)
      (insert_row cn_supersessions cn_supersessions_update (\<lambda>a b. fst a = fst b \<or> snd a = snd b) (su_id u, rid)) (\<lambda>_. I)"
  shows "keeps I (supersede_row v i j actor basis request)"
proof -
  have writes: "valid (\<lambda>s. I s \<and> superseding v i j r n s) (write_supersession v actor (succession i j basis r n) request) (\<lambda>_. I)" for r n
    unfolding write_supersession_def
    unfolding succession_fields case_prod_beta'
    apply (rule valid_split, rule set_state, rule valid_let)
    apply (rule valid_split, rule event, rule valid_split, rule link [of "succession i j basis r n", unfolded succession_fields])
    apply (intro keeps_rules keeps_canon_receipt receipt)
    apply assumption
    done
  show ?thesis
    unfolding supersede_row_def repeat_supersession_def
    apply (rule valid_read, rule valid_read, rule valid_require)
    subgoal for r n
      apply (cases "xc_state r = Was_Superseded")
      subgoal by simp (rule valid_weaken [of I], intro keeps_rules, simp)
      subgoal
        apply (simp only: if_False)
        apply (rule valid_require, rule valid_require, rule valid_lift)
        apply (rule valid_pre [OF writes])
        apply (simp add: superseding_def)
        done
      done
    done
qed

lemma keeps_record_delivery:
  assumes receipt: "\<And>s x. I s \<Longrightarrow> I (s\<lparr>cn_base := (cn_base s)\<lparr>receipts := x\<rparr>\<rparr>)"
    and super: "\<And>i j basis. keeps I (supersede_row v i j actor basis None)"
    and event: "\<And>rid kind key r. keeps I (add_canon_event v rid kind actor key r)"
    and new_row: "valid P (insert_exchange v e st) (\<lambda>_. I)"
  shows "valid P (record_delivery v actor rid kind key e st reasons extra) (\<lambda>_. I)"
  unfolding record_delivery_def
  by (rule valid_split [OF new_row]) (intro keeps_rules super event keeps_canon_receipt receipt; assumption)

lemma read_participant_owned:
  "read_participant H p (Some a) s = Inr x \<Longrightarrow> read_participant H p None s = Inr x"
  by (auto simp: read_participant_def split: option.splits if_splits)

lemma known_participant_iff: "known_participant v p s = Inr () \<longleftrightarrow> (\<exists>x. read_participant (ce_hash v) p None s = Inr x)"
  by (auto simp: known_participant_def run_simps)

lemma sealed_route [simp]:
  "envelope_route (sealed_envelope v actor m revision depth s) = (cn_project s, message_destination (cn_project s) m)"
  "xv_message (sealed_envelope v actor m revision depth s) = m" "xv_client (sealed_envelope v actor m revision depth s) = actor"
  "xv_project (sealed_envelope v actor m revision depth s) = cn_project s"
  by (simp_all add: envelope_route_def sealed_envelope_def)

lemma check_message_knows:
  assumes "check_message v cc m remote snap s = Inr x" "message_destination (cn_project s) m = cn_project s"
  shows "known_participant v (ms_receiver m) s = Inr ()"
  using assms by (auto simp: check_message_def Let_def rbind_Inr known_participant_iff)

lemma keeps_send_rows:
  assumes receipt: "\<And>s x. I s \<Longrightarrow> I (s\<lparr>cn_base := (cn_base s)\<lparr>receipts := x\<rparr>\<rparr>)"
    and super: "\<And>i j basis. keeps I (supersede_row v i j actor basis None)"
    and event: "\<And>rid kind key r. keeps I (add_canon_event v rid kind actor key r)"
    and new_row: "\<And>e st. valid (\<lambda>s. I s \<and> arriving v e st s \<and> xv_project e = cn_project s) (insert_exchange v e st) (\<lambda>_. I)"
    and m: "valid_message v m"
  shows "keeps I (send_rows v actor rid m remote snap)"
proof -
  have seal: "valid (\<lambda>s. I s \<and> owned_participant v (ms_sender m) actor s
        \<and> (message_destination (cn_project s) m = cn_project s \<longrightarrow> known_participant v (ms_receiver m) s = Inr ()))
      (seal_message v actor rid key m depth) (\<lambda>_. I)" (is "valid ?P _ _") for key depth
  proof -
    have tail: "valid (\<lambda>s. ?P s \<and> cn_project s = pid \<and> (if message_destination pid m \<noteq> pid then st = Sealed
          else st = Received \<or> st = Admitted \<and> (\<exists>rs. compatibility v m pid s = Inr (True, rs))))
        (bnd (case ms_supersedes m of None \<Rightarrow> ret 1
           | Some i \<Rightarrow> bnd (checked_exchange v i) (\<lambda>r. ret (xv_revision (xc_body r) + 1))) (\<lambda>revision.
         bnd (gets (sealed_envelope v actor m revision depth)) (\<lambda>e.
         record_delivery v actor rid ''send'' key e st reasons [(''source_client_id'', JStr actor)]))) (\<lambda>_. I)" for pid st reasons
      apply (rule valid_split [OF keeps_case_option])
        apply (intro keeps_rules)+
      apply (rule valid_gets)
      apply (rule keeps_record_delivery [OF receipt super event], assumption)
      apply (rule valid_pre [OF new_row])
      apply (auto simp: arriving_def m)
      done
    show ?thesis
      unfolding seal_message_def
      apply (rule valid_gets)
      subgoal for pid
        apply (cases "message_destination pid m = pid")
        subgoal
          apply (simp only: if_True simp_thms)
          apply (rule valid_read)
          subgoal for x
            apply (cases x, simp only: prod.case if_False)
            apply (rule valid_pre [OF tail [of pid]])
            apply auto
            done
          done
        subgoal
          apply (simp only: if_False)
          apply (rule valid_let)
          apply (simp, rule valid_pre [OF tail [of pid]], auto)
          done
        done
      done
  qed
  show ?thesis
    unfolding send_rows_def
    apply (rule valid_let, rule valid_read, rule valid_read)
    subgoal for p prior
      apply (cases prior)
      subgoal
        apply simp
        apply (rule valid_read)
        subgoal for x
          by (cases x) (simp, rule valid_pre [OF seal], auto dest: check_message_knows simp: owned_participant_def)
        done
      subgoal for r by (rule valid_weaken [of I]) (cases r, simp_all, (intro keeps_rules)+)
      done
    done
qed

lemma keeps_send:
  assumes "valid_message v m \<Longrightarrow> keeps I (send_rows v actor rid m remote snap)"
  shows "keeps I (send v l typed actor rid m remote snap)"
  unfolding send_def
  by (rule valid_check, rule valid_require, rule keeps_canon_transaction, rule assms) (simp add: valid_send_def)

lemma keeps_delivery_result [keeps_rules]: "keeps I (delivery_result v r)"
  unfolding delivery_result_def by (intro keeps_rules)

lemma check_incoming_arrives:
  assumes "check_incoming v r n s = Inr (automatic, reasons)" "valid_message v (xv_message (ss_envelope n))"
  shows "arriving v (ss_envelope n) (if automatic then Admitted else Received) s"
    and "fst (envelope_route (ss_envelope n)) \<noteq> cn_project s"
  using assms
  by (auto simp: check_incoming_def arriving_def receive_route_ok_def Let_def known_participant_iff rbind_Inr split: prod.splits if_splits)

lemma keeps_receive:
  assumes receipt: "\<And>s x. I s \<Longrightarrow> I (s\<lparr>cn_base := (cn_base s)\<lparr>receipts := x\<rparr>\<rparr>)"
    and super: "\<And>i j basis. keeps I (supersede_row v i j actor basis None)"
    and event: "\<And>rid kind key r. keeps I (add_canon_event v rid kind actor key r)"
    and new_row: "\<And>st. valid (\<lambda>s. I s \<and> arriving v (ss_envelope n) st s \<and> fst (envelope_route (ss_envelope n)) \<noteq> cn_project s)
      (insert_exchange v (ss_envelope n) st) (\<lambda>_. I)"
  shows "keeps I (receive v l actor r n)"
proof -
  let ?e = "ss_envelope n"
  have rest: "valid (\<lambda>s. I s \<and> check_incoming v r n s = Inr x)
      (case x of (automatic, reasons) \<Rightarrow> record_delivery v actor (rq_request r) ''receive'' key ?e (if automatic then Admitted else Received) reasons
         [(''source_observation'', snapshot_json n)]) (\<lambda>_. I)" if "valid_message v (xv_message ?e)" for x key
    apply (cases x, simp only: prod.case)
    apply (rule keeps_record_delivery [OF receipt super event], assumption)
    apply (rule valid_pre [OF new_row])
    apply (use that check_incoming_arrives in blast)
    done
  show ?thesis
    unfolding receive_def Let_def
    apply (rule valid_check, rule keeps_bnd, rule keeps_gets, rule valid_require, rule valid_check, rule keeps_canon_transaction)
    apply (rule keeps_bnd, intro keeps_rules, rule keeps_bnd, rule keeps_ret, rule keeps_bnd, intro keeps_rules, rule keeps_if)
     apply (intro keeps_rules)
    apply (rule keeps_bnd, rule keeps_gets, rule keeps_if)
     apply (intro keeps_rules)
    apply (rule valid_read, rule rest, assumption)
    done
qed

lemma keeps_decide:
  assumes receipt: "\<And>s x. I s \<Longrightarrow> I (s\<lparr>cn_base := (cn_base s)\<lparr>receipts := x\<rparr>\<rparr>)"
    and set_state: "\<And>row. valid (\<lambda>s. I s \<and> decidable_row v actor r row s)
      (modify (set_exchange_state (ce_hash v) (dq_exchange r) (decided_state (dq_decision r)) (xc_version row + 1))) (\<lambda>_. J row)"
    and super: "\<And>row i j basis. keeps (J row) (supersede_row v i j actor basis None)"
    and event: "\<And>row key reasons. valid (J row)
      (add_canon_event v (dq_request r) ''decide'' actor key (Decided (decision_record r row reasons))) (\<lambda>_. I)"
  shows "keeps I (decide v l actor r n)"
proof -
  have writes: "valid (\<lambda>s. I s \<and> decidable_row v actor r row s) (write_decision v actor key r row reasons) (\<lambda>_. I)" for row key reasons
    unfolding write_decision_def
    apply (rule valid_split, rule set_state)
    apply (rule valid_split [where J = "J row"])
     apply (intro keeps_rules super)
    apply (rule valid_split, rule event)
    apply (intro keeps_rules keeps_canon_receipt receipt, assumption)
    done
  show ?thesis
    unfolding decide_def
    apply (rule valid_check, rule keeps_canon_transaction, rule valid_let, rule valid_read, rule valid_require, rule valid_read, rule valid_read)
    subgoal for row p prior
      apply (cases prior)
      subgoal
        apply simp
        apply (rule valid_require, rule valid_require, rule valid_read)
        subgoal for x
          apply (cases x, simp only: prod.case)
          apply (rule valid_split [where J = "\<lambda>s. I s \<and> decidable_row v actor r row s"])
           apply (auto simp: valid_def run_simps decidable_row_def) [1]
          apply (rule writes)
          done
        done
      subgoal for res by (rule valid_weaken [of I]) (cases res, simp_all, (intro keeps_rules)+)
      done
    done
qed

lemma keeps_supersede:
  assumes "\<And>q. keeps I (supersede_row v (sq_exchange r) (sq_successor r) actor ''receiver_explicit'' q)"
  shows "keeps I (supersede v l actor r)"
  unfolding supersede_def by (intro keeps_rules keeps_canon_transaction assms)

lemma operation_message_valid: "operation_message v q s = Inr x \<Longrightarrow> valid_message v (snd x)"
  by (auto simp: operation_message_def backfire_message_def Let_def run_simps split: operation_request.splits if_splits)

lemma keeps_operate:
  assumes receipt: "\<And>s x. I s \<Longrightarrow> I (s\<lparr>cn_base := (cn_base s)\<lparr>receipts := x\<rparr>\<rparr>)"
    and event: "\<And>rid kind key r. keeps I (add_canon_event v rid kind actor key r)"
    and sends: "\<And>typed rid m. keeps I (send v l typed actor rid m remote snap)"
  shows "keeps I (operate v l actor q remote snap)"
  unfolding operate_def seal_operation_def Let_def
  by (intro keeps_rules keeps_canon_transaction event sends keeps_canon_receipt receipt; (assumption | simp))

lemma keeps_join:
  assumes "\<And>rid kind key r. keeps I (add_canon_event v rid kind actor key r)"
    and "\<And>row. keeps I (insert_into cn_participants cn_participants_update pr_id row)"
  shows "keeps I (join v l actor r)"
  unfolding join_def by (intro keeps_rules keeps_canon_transaction assms)

lemma keeps_check_endpoint [keeps_rules]: "keeps I (check_endpoint v x foreign e)"
  unfolding check_endpoint_def by (intro keeps_rules)

lemma keeps_expect:
  assumes event: "\<And>rid kind key r. keeps I (add_canon_event v rid kind actor key r)"
    and contract: "\<And>row. valid (\<lambda>s. I s \<and> (\<exists>p. read_participant (ce_hash v) (ex_receiver (xp_contract r)) (Some actor) s = Inr p)
        \<and> kb_client (ct_body row) = actor \<and> ex_receiver (kb_contract (ct_body row)) = ex_receiver (xp_contract r)
        \<and> ct_digest row = content_digest (ce_hash v) (contract_json (ct_body row)))
      (insert_row cn_contracts cn_contracts_update contract_clash row) (\<lambda>_. I)"
    and current: "\<And>a k d. keeps I (modify (set_current a k d))"
  shows "keeps I (expect v l actor r foreign)"
proof -
  let ?P = "\<lambda>s. I s \<and> (\<exists>p. read_participant (ce_hash v) (ex_receiver (xp_contract r)) (Some actor) s = Inr p)"
  have writes: "valid ?P (bnd (gets (\<lambda>s. \<lparr>kb_project = cn_project s, kb_contract = xp_contract r, kb_version = n + 1, kb_client = actor,
             kb_schema = content_digest (ce_hash v) (ce_schema v), kb_created = now (ce_world v)\<rparr>)) (\<lambda>b.
           bnd (ret (content_digest (ce_hash v) (contract_json b))) (\<lambda>d.
           bnd (insert_row cn_contracts cn_contracts_update contract_clash
             \<lparr>ct_digest = d, ct_receiver = ex_receiver (xp_contract r), ct_key = ex_key (xp_contract r), ct_version = n + 1, ct_body = b\<rparr>) (\<lambda>_.
           bnd (modify (set_current (ex_receiver (xp_contract r)) (ex_key (xp_contract r)) d)) (\<lambda>_.
           bnd (add_canon_event v (xp_request r) ''expect'' actor key (Contracted d b)) (\<lambda>_.
           ret (d, b))))))) (\<lambda>_. I)" for n key
    apply (rule valid_gets, rule valid_let)
    apply (rule valid_split, rule valid_pre [OF contract], (auto) [1])
    apply (intro keeps_rules current event)
    done
  show ?thesis
    unfolding expect_def Let_def
    apply (rule valid_check, rule keeps_canon_transaction, rule valid_let, rule valid_read)
    subgoal for prior
      apply (cases prior)
      subgoal
        apply simp
        apply (rule valid_read)
        apply (rule valid_pre [where P' = ?P])
         apply (rule valid_split [where J = ?P], intro keeps_rules)
         apply (rule valid_split [where J = ?P], intro keeps_rules)
         apply (rule valid_split [where J = ?P], intro keeps_rules)
         apply (rule valid_split [where J = ?P], intro keeps_rules)
         apply (rule writes)
        apply auto
        done
      subgoal for res by (rule valid_weaken [of I]) (cases res, simp_all, (intro keeps_rules)+)
      done
    done
qed

lemma keeps_register:
  assumes receipt: "\<And>s x. I s \<Longrightarrow> I (s\<lparr>cn_base := (cn_base s)\<lparr>receipts := x\<rparr>\<rparr>)"
    and "\<And>rid kind key r. keeps I (add_canon_event v rid kind actor key r)" "\<And>deps b. keeps I (write_edge v l deps b)"
  shows "keeps I (register_task_edge v l actor r destination)"
  unfolding register_task_edge_def duplicate_edge_def Let_def
  by (intro keeps_rules keeps_canon_transaction assms(2,3) keeps_canon_receipt receipt; assumption)

lemma keeps_bind:
  assumes receipt: "\<And>s x. I s \<Longrightarrow> I (s\<lparr>cn_base := (cn_base s)\<lparr>receipts := x\<rparr>\<rparr>)"
    and "\<And>rid kind key r. keeps I (add_canon_event v rid kind actor key r)" "\<And>deps b. keeps I (write_edge v l deps b)"
    and "\<And>b. keeps I (insert_into cn_bindings cn_bindings_update fst b)"
  shows "keeps I (bind_task_edge v l actor r foreign)"
  unfolding bind_task_edge_def duplicate_edge_def
  by (intro keeps_rules keeps_canon_transaction assms(2-4) keeps_canon_receipt receipt; assumption)

end
