(* ===== verification/Canon_State.thy ===== *)
theory Canon_State
  imports Canon_Laws
begin

text \<open>
  What every reachable state of the exchange lane satisfies: the events verify, every recorded packet
  passes its integrity checks, every superseded packet is linked to the admitted one that replaced it, and
  nothing is admitted without its receiver.
\<close>

section \<open>One engine\<close>

text \<open>The calls of one run share everything in \<open>canon_env\<close> but the world and the stores of other owners.\<close>

definition same_engine :: "canon_env \<Rightarrow> canon_env \<Rightarrow> bool" where
  "same_engine v v' \<longleftrightarrow> ce_hash v' = ce_hash v \<and> ce_stamp v' = ce_stamp v \<and> ce_uuid5 v' = ce_uuid5 v \<and> ce_secret v' = ce_secret v
     \<and> ce_clean v' = ce_clean v \<and> ce_schema v' = ce_schema v"

lemma same_engine_refl [simp]: "same_engine v v"
  by (simp add: same_engine_def)

lemma same_engine_valid:
  assumes "same_engine v v'"
  shows "valid_message v' = valid_message v" "valid_edge v' = valid_edge v" "ce_hash v' = ce_hash v"
proof -
  have fields: "ce_hash v' = ce_hash v" "ce_stamp v' = ce_stamp v" "ce_secret v' = ce_secret v" "ce_clean v' = ce_clean v"
    using assms by (simp_all add: same_engine_def)
  have safe: "safe_text v' = safe_text v" by (intro ext) (unfold fields safe_text_def, rule refl)
  have stamp: "valid_stamp v' = valid_stamp v" by (intro ext) (unfold fields valid_stamp_def, rule refl)
  have payload: "valid_payload v' = valid_payload v" by (intro ext) (unfold safe valid_payload_def, rule refl)
  have entries: "bounded_entries v' = bounded_entries v" by (intro ext) (unfold safe bounded_entries_def, rule refl)
  show "valid_message v' = valid_message v" by (intro ext) (unfold stamp payload valid_message_def, rule refl)
  show "valid_edge v' = valid_edge v" by (intro ext) (unfold stamp entries valid_edge_def, rule refl)
  show "ce_hash v' = ce_hash v" by (simp add: fields)
qed

lemma same_engine_reads:
  assumes "same_engine v v'"
  shows "read_exchange v' = read_exchange v" "check_row v' = check_row v" "known_participant v' = known_participant v"
    "read_supersession v' = read_supersession v" "read_edge v' = read_edge v" "compatibility v' = compatibility v"
proof -
  note v = same_engine_valid [OF assms]
  have schema: "ce_schema v' = ce_schema v" using assms by (simp add: same_engine_def)
  show known: "known_participant v' = known_participant v" by (intro ext) (unfold known_participant_def v, rule refl)
  show row: "check_row v' = check_row v" by (intro ext) (unfold check_row_def v known, rule refl)
  show exchange: "read_exchange v' = read_exchange v" by (intro ext) (unfold read_exchange_def row, rule refl)
  show "read_supersession v' = read_supersession v" by (intro ext) (unfold read_supersession_def v exchange, rule refl)
  show "read_edge v' = read_edge v" by (intro ext) (unfold read_edge_def v, rule refl)
  show "compatibility v' = compatibility v"
    by (intro ext) (unfold compatibility_def match_contract_def contract_fits_def v schema, rule refl)
qed

section \<open>Events\<close>

lemma canon_event_binds:
  assumes "jnorm (canon_event_json e) = jnorm (canon_event_json e')"
  shows "cv_sequence e = cv_sequence e' \<and> cv_previous e = cv_previous e'"
proof -
  note field = jnorm_field [OF assms [unfolded canon_event_json_def]]
  show ?thesis using field [of "''sequence''"] field [of "''previous_digest''"] by simp
qed

interpretation canon_chain: hash_chain cv_sequence cv_previous cv_digest canon_event_json "\<lambda>_ _. True" canon_walk
  by unfold_locales (auto dest: canon_event_binds)

definition events_ok :: "(string \<Rightarrow> string) \<Rightarrow> canon \<Rightarrow> bool" where
  "events_ok H s \<longleftrightarrow> canon_walk H 1 None (cn_events s) \<noteq> None \<and> distinct (map cv_request (cn_events s))"

lemma add_canon_event_Inr:
  "add_canon_event v rid kind actor key r s = Inr x \<longleftrightarrow>
     (\<forall>q \<in> set (cn_events s). \<not> canon_event_clash (new_canon_event v rid kind actor key r s) q)
     \<and> x = ((), s\<lparr>cn_events := cn_events s @ [new_canon_event v rid kind actor key r s]\<rparr>)"
  by (auto simp: add_canon_event_def run_simps)

lemma new_event_fields [simp]:
  "cv_request (new_canon_event v rid kind actor key r s) = rid" "cv_kind (new_canon_event v rid kind actor key r s) = kind"
  "cv_actor (new_canon_event v rid kind actor key r s) = actor" "cv_result (new_canon_event v rid kind actor key r s) = r"
  "cv_input (new_canon_event v rid kind actor key r s) = key"
  "canon_event_ok (ce_hash v) (new_canon_event v rid kind actor key r s)"
  by (simp_all add: new_canon_event_def Let_def canon_event_ok_def canon_event_json_def)

lemma walk_numbers: "canon_walk H 1 None es = Some h \<Longrightarrow> map cv_sequence es = [Suc 0 ..< Suc (length es)]"
  using canon_chain.verify_numbers [of H 1 None es h] by simp

lemma walk_new_event:
  assumes "canon_walk (ce_hash v) 1 None (cn_events s) = Some h"
  shows "canon_walk (ce_hash v) 1 None (cn_events s @ [new_canon_event v rid kind actor key r s]) \<noteq> None"
proof -
  let ?e = "new_canon_event v rid kind actor key r s"
  have latest: "latest cv_sequence (cn_events s) = (if cn_events s = [] then None else Some (last (cn_events s)))"
    by (rule latest_numbered) (rule walk_numbers [OF assms])
  have "cv_sequence (last (cn_events s)) = length (cn_events s)" if "cn_events s \<noteq> []"
    using arg_cong [OF walk_numbers [OF assms], of last] that by (subst (asm) last_map) (simp_all del: upt_Suc)
  then have "cv_sequence ?e = Suc (length (cn_events s))"
    by (simp add: new_canon_event_def Let_def latest)
  moreover have "cv_previous ?e = h"
    using assms canon_chain.verify_head [OF assms] by (auto simp: new_canon_event_def Let_def latest)
  moreover have "cv_digest ?e = content_digest (ce_hash v) (canon_event_json ?e)"
    using new_event_fields(6) [of v rid kind actor key r s] by (simp add: canon_event_ok_def)
  ultimately show ?thesis using canon_chain.verify_extend [OF assms] by simp
qed

lemma events_add_event: "ce_hash v = H \<Longrightarrow> keeps (events_ok H) (add_canon_event v rid kind actor key r)"
  by (rule validI) (auto simp: add_canon_event_Inr events_ok_def canon_event_clash_def simp del: One_nat_def not_None_eq dest!: walk_new_event)

lemma events_ok_fields [simp]:
  "events_ok H (s\<lparr>cn_base := a1\<rparr>) = events_ok H s" "events_ok H (s\<lparr>cn_participants := a2\<rparr>) = events_ok H s"
  "events_ok H (s\<lparr>cn_contracts := a3\<rparr>) = events_ok H s" "events_ok H (s\<lparr>cn_current := a4\<rparr>) = events_ok H s"
  "events_ok H (s\<lparr>cn_exchanges := a5\<rparr>) = events_ok H s" "events_ok H (s\<lparr>cn_supersessions := a6\<rparr>) = events_ok H s"
  "events_ok H (s\<lparr>cn_edges := a7\<rparr>) = events_ok H s" "events_ok H (s\<lparr>cn_bindings := a8\<rparr>) = events_ok H s"
  "events_ok H (s\<lparr>cn_files := a9\<rparr>) = events_ok H s"
  by (simp_all add: events_ok_def)

section \<open>What a recorded packet depends on\<close>

text \<open>\<open>extends s s'\<close>: participants and files of \<open>s\<close> are still what they were.\<close>

definition extends :: "canon \<Rightarrow> canon \<Rightarrow> bool" where
  "extends s s' \<longleftrightarrow> cn_project s' = cn_project s
     \<and> (\<forall>p r. find_participant p s = Some r \<longrightarrow> find_participant p s' = Some r)
     \<and> (\<forall>p t. cn_files s p = Some t \<longrightarrow> cn_files s' p = Some t)"

lemma extends_fields [simp]:
  "extends s (s\<lparr>cn_contracts := a3\<rparr>)" "extends s (s\<lparr>cn_current := a4\<rparr>)" "extends s (s\<lparr>cn_exchanges := a5\<rparr>)"
  "extends s (s\<lparr>cn_supersessions := a6\<rparr>)" "extends s (s\<lparr>cn_edges := a7\<rparr>)" "extends s (s\<lparr>cn_bindings := a8\<rparr>)"
  "extends s (s\<lparr>cn_events := a9\<rparr>)" "extends s (s\<lparr>cn_base := (cn_base s)\<lparr>receipts := b1\<rparr>\<rparr>)"
  "extends s (set_exchange_state H i st n s)"
  by (simp_all add: extends_def find_participant_def set_exchange_state_def)

lemma find_append: "find P (xs @ ys) = (case find P xs of Some x \<Rightarrow> Some x | None \<Rightarrow> find P ys)"
  by (induction xs) auto

lemma extends_participant [simp]: "extends s (s\<lparr>cn_participants := cn_participants s @ rs\<rparr>)"
  by (simp add: extends_def find_participant_def find_append)

lemma extends_file: "cn_files s p = None \<Longrightarrow> extends s (s\<lparr>cn_files := (cn_files s)(p \<mapsto> t)\<rparr>)"
  by (simp add: extends_def find_participant_def)

lemma extends_trans: "extends s t \<Longrightarrow> extends t u \<Longrightarrow> extends s u"
  by (simp add: extends_def)

lemma read_participant_extends:
  assumes "read_participant H p w s = Inr x" "extends s s'"
  shows "read_participant H p w s' = Inr x"
proof -
  obtain r where r: "find_participant p s = Some r" using assms(1) by (auto simp: read_participant_def split: option.splits)
  then have "find_participant p s' = Some r" "cn_project s' = cn_project s" using assms(2) by (simp_all add: extends_def)
  with r assms(1) show ?thesis by (simp add: read_participant_def)
qed

lemma known_participant_extends:
  "known_participant v p s = Inr () \<Longrightarrow> extends s s' \<Longrightarrow> known_participant v p s' = Inr ()"
  unfolding known_participant_iff by (blast intro: read_participant_extends)

text \<open>The checks of a packet, written out.\<close>

lemma guard_Inr: "(if c then Inl e else m) = Inr r \<longleftrightarrow> \<not> c \<and> m = Inr r"
  by simp

lemma when_Inr: "rbind (if c then m else Inr ()) f = Inr r \<longleftrightarrow> (c \<longrightarrow> m = Inr ()) \<and> f () = Inr r"
  by (cases c) (auto simp: rbind_Inr)

lemma check_row_iff:
  "check_row v r s = Inr r' \<longleftrightarrow> (\<exists>role. role_of (cn_project s) (fst (envelope_route (xc_body r))) (snd (envelope_route (xc_body r))) = Inr role
     \<and> row_names_envelope (ce_hash v) r role
     \<and> xc_state_digest r = state_digest (ce_hash v) (xc_id r) (xc_digest r) (xc_state r) (xc_version r)
     \<and> (role = Outbox) = (xc_state r = Sealed)
     \<and> (fst (envelope_route (xc_body r)) = cn_project s \<longrightarrow> known_participant v (xc_sender r) s = Inr ())
     \<and> (snd (envelope_route (xc_body r)) = cn_project s \<longrightarrow> known_participant v (xc_receiver r) s = Inr ())
     \<and> valid_message v (xv_message (xc_body r))
     \<and> (\<exists>path. packet_path (xv_id (xc_body r)) (xc_digest r) role = Inr path
         \<and> cn_files s path = Some (json_text (envelope_json (xc_body r))) \<and> xc_path r = path \<and> r' = r))"
  unfolding check_row_def Let_def case_prod_beta' rbind_Inr [of "role_of _ _ _"] guard_Inr when_Inr rbind_Inr [of "packet_path _ _ _"]
  by (simp only: not_not de_Morgan_disj sum.inject eq_commute [of r r'] conj_assoc)

lemma check_row_extends:
  assumes "check_row v r s = Inr r" "extends s s'"
  shows "check_row v r s' = Inr r"
proof -
  have "cn_project s' = cn_project s" "cn_files s path = Some t \<Longrightarrow> cn_files s' path = Some t" for path t
    using assms(2) by (simp_all add: extends_def)
  with assms(1) known_participant_extends [OF _ assms(2), of v] show ?thesis unfolding check_row_iff by fastforce
qed

section \<open>Recorded packets\<close>

definition packets_ok :: "canon_env \<Rightarrow> canon \<Rightarrow> bool" where
  "packets_ok v s \<longleftrightarrow> map xc_sequence (cn_exchanges s) = [Suc 0 ..< Suc (length (cn_exchanges s))]
     \<and> distinct (map xc_id (cn_exchanges s)) \<and> (\<forall>r \<in> set (cn_exchanges s). check_row v r s = Inr r)"

lemma packets_ok_extends: "packets_ok v s \<Longrightarrow> extends s s' \<Longrightarrow> cn_exchanges s' = cn_exchanges s \<Longrightarrow> packets_ok v s'"
  by (auto simp: packets_ok_def check_row_extends)

lemma read_exchange_iff:
  assumes "packets_ok v s"
  shows "read_exchange v i s = Inr r \<longleftrightarrow> r \<in> set (cn_exchanges s) \<and> xc_id r = i"
proof
  assume "read_exchange v i s = Inr r"
  then show "r \<in> set (cn_exchanges s) \<and> xc_id r = i"
    by (auto simp: read_exchange_def find_exchange_def check_row_iff split: option.splits dest: find_SomeD)
next
  assume r: "r \<in> set (cn_exchanges s) \<and> xc_id r = i"
  then have "find_exchange i s = Some r"
    unfolding find_exchange_def using assms find_key_unique [of xc_id "cn_exchanges s" r i] by (simp add: packets_ok_def)
  with r assms show "read_exchange v i s = Inr r" by (simp add: read_exchange_def packets_ok_def)
qed

section \<open>Writes of packets\<close>

lemma role_of_Inr: "role_of p a b = Inr role \<longleftrightarrow> (a = p \<or> b = p) \<and> role = (if a = p then (if b = p then Both_Boxes else Outbox) else Inbox)"
  by (auto simp: role_of_def)

lemma find_exchange_append: "cn_exchanges s' = cn_exchanges s @ [r] \<Longrightarrow> xc_id r \<noteq> i \<Longrightarrow> find_exchange i s' = find_exchange i s"
  by (simp add: find_exchange_def find_append split: option.split)

text \<open>What an insertion leaves: the file, and one new row with the first version of its state.\<close>

lemma insert_exchange_Inr:
  assumes "insert_exchange v e st s = Inr (x, s')"
  obtains role path f where "role_of (cn_project s) (fst (envelope_route e)) (snd (envelope_route e)) = Inr role"
    and "packet_path (xv_id e) (content_digest (ce_hash v) (envelope_json e)) role = Inr path"
    and "s' = s\<lparr>cn_files := f, cn_exchanges := cn_exchanges s @ [new_exchange v e st role path (s\<lparr>cn_files := f\<rparr>)]\<rparr>"
    and "extends s (s\<lparr>cn_files := f\<rparr>)" "f path = Some (json_text (envelope_json e))"
    and "\<forall>q \<in> set (cn_exchanges s). \<not> exchange_clash (new_exchange v e st role path (s\<lparr>cn_files := f\<rparr>)) q"
    and "x = \<lparr>sn_id = xv_id e, sn_digest = content_digest (ce_hash v) (envelope_json e), sn_state = st, sn_duplicate = False,
      sn_role = role, sn_path = path, sn_reasons = [], sn_required = False\<rparr>"
proof -
  from assms obtain role path s1 where role: "role_of (cn_project s) (fst (envelope_route e)) (snd (envelope_route e)) = Inr role"
    and path: "packet_path (xv_id e) (content_digest (ce_hash v) (envelope_json e)) role = Inr path"
    and put: "put_file ''CANON_PACKET_FILE_INTEGRITY'' path (json_text (envelope_json e)) s = Inr ((), s1)"
    and row: "\<forall>q \<in> set (cn_exchanges s1). \<not> exchange_clash (new_exchange v e st role path s1) q"
    and s': "s' = s1\<lparr>cn_exchanges := cn_exchanges s1 @ [new_exchange v e st role path s1]\<rparr>"
    and x: "x = \<lparr>sn_id = xv_id e, sn_digest = content_digest (ce_hash v) (envelope_json e), sn_state = st, sn_duplicate = False,
      sn_role = role, sn_path = path, sn_reasons = [], sn_required = False\<rparr>"
    by (auto simp: insert_exchange_def run_simps)
  have stored: "s1 = s\<lparr>cn_files := cn_files s1\<rparr>" "extends s s1" "cn_files s1 path = Some (json_text (envelope_json e))"
    using put by (auto simp: put_file_def run_simps extends_file) (simp_all add: extends_def)
  show ?thesis
  proof (rule that [OF role path])
    show "s' = s\<lparr>cn_files := cn_files s1, cn_exchanges := cn_exchanges s @ [new_exchange v e st role path (s\<lparr>cn_files := cn_files s1\<rparr>)]\<rparr>"
      using s' stored(1) by (metis canon.select_convs(5) canon.update_convs(5) canon.surjective canon.update_convs(10))
    show "extends s (s\<lparr>cn_files := cn_files s1\<rparr>)" using stored by simp
    show "cn_files s1 path = Some (json_text (envelope_json e))" by (rule stored(3))
    show "\<forall>q \<in> set (cn_exchanges s). \<not> exchange_clash (new_exchange v e st role path (s\<lparr>cn_files := cn_files s1\<rparr>)) q"
      using row stored(1) by (metis canon.ext_inject canon.surjective canon.update_convs(10))
  qed (rule x)
qed

lemma new_exchange_fields [simp]:
  "xc_id (new_exchange v e st role path s) = xv_id e" "xc_body (new_exchange v e st role path s) = e"
  "xc_state (new_exchange v e st role path s) = st" "xc_role (new_exchange v e st role path s) = role"
  "xc_path (new_exchange v e st role path s) = path" "xc_version (new_exchange v e st role path s) = 1"
  "xc_sender (new_exchange v e st role path s) = ms_sender (xv_message e)"
  "xc_receiver (new_exchange v e st role path s) = ms_receiver (xv_message e)"
  "xc_source (new_exchange v e st role path s) = fst (envelope_route e)"
  "xc_destination (new_exchange v e st role path s) = snd (envelope_route e)"
  "xc_digest (new_exchange v e st role path s) = content_digest (ce_hash v) (envelope_json e)"
  "xc_kind (new_exchange v e st role path s) = ms_kind (xv_message e)"
  by (simp_all add: new_exchange_def Let_def)

lemma last_sequence:
  assumes "map xc_sequence rows = [Suc 0 ..< Suc (length rows)]" "rows \<noteq> []"
  shows "xc_sequence (last rows) = length rows"
  using arg_cong [OF assms(1), of last] assms(2) by (subst (asm) last_map) (simp_all del: upt_Suc)

lemma rows_insert:
  "valid (\<lambda>s. packets_ok v s \<and> arriving v e st s) (insert_exchange v e st) (\<lambda>_. packets_ok v)"
proof (rule validI, elim conjE)
  fix s x s'
  assume ok: "packets_ok v s" and new: "arriving v e st s" and run: "insert_exchange v e st s = Inr (x, s')"
  from run obtain role path f where role: "role_of (cn_project s) (fst (envelope_route e)) (snd (envelope_route e)) = Inr role"
    and path: "packet_path (xv_id e) (content_digest (ce_hash v) (envelope_json e)) role = Inr path"
    and s': "s' = s\<lparr>cn_files := f, cn_exchanges := cn_exchanges s @ [new_exchange v e st role path (s\<lparr>cn_files := f\<rparr>)]\<rparr>"
    and ext: "extends s (s\<lparr>cn_files := f\<rparr>)" and stored: "f path = Some (json_text (envelope_json e))"
    and clash: "\<forall>q \<in> set (cn_exchanges s). \<not> exchange_clash (new_exchange v e st role path (s\<lparr>cn_files := f\<rparr>)) q"
    by (rule insert_exchange_Inr)
  let ?r = "new_exchange v e st role path (s\<lparr>cn_files := f\<rparr>)"
  have ext': "extends s s'" unfolding s' by (rule extends_trans [OF ext]) simp
  have numbers: "map xc_sequence (cn_exchanges s) = [Suc 0 ..< Suc (length (cn_exchanges s))]" using ok by (simp add: packets_ok_def)
  have "latest xc_sequence (cn_exchanges s) = (if cn_exchanges s = [] then None else Some (last (cn_exchanges s)))"
    by (rule latest_numbered [OF numbers])
  then have seq: "xc_sequence ?r = Suc (length (cn_exchanges s))"
    using last_sequence [OF numbers] by (simp add: new_exchange_def Let_def)
  have known: "known_participant v p s' = Inr ()" if "known_participant v p s = Inr ()" for p
    using that ext' by (rule known_participant_extends)
  have owned_known: "known_participant v p s = Inr ()" if "owned_participant v p a s" for p a
    using that by (auto simp: owned_participant_def known_participant_iff dest: read_participant_owned)
  have digest: "xc_state_digest ?r = state_digest (ce_hash v) (xc_id ?r) (xc_digest ?r) (xc_state ?r) (xc_version ?r)"
    by (simp add: new_exchange_def Let_def)
  have "check_row v ?r s' = Inr ?r"
    unfolding check_row_iff digest new_exchange_fields
    using new role path stored known owned_known
    by (auto simp: s' arriving_def role_of_Inr row_names_envelope_def Let_def split: prod.splits if_splits)
  moreover have "check_row v r s' = Inr r" if "r \<in> set (cn_exchanges s)" for r
    using that ok ext' by (auto simp: packets_ok_def intro: check_row_extends)
  moreover have "xv_id e \<notin> xc_id ` set (cn_exchanges s)" using clash by (auto simp: exchange_clash_def)
  ultimately show "packets_ok v s'" using ok numbers seq by (auto simp: packets_ok_def s')
qed

lemma rows_set_state:
  assumes "(st = Sealed) = False"
  shows "valid (\<lambda>s. packets_ok v s \<and> (\<exists>r. read_exchange v i s = Inr r \<and> xc_state r \<noteq> Sealed))
    (modify (set_exchange_state (ce_hash v) i st n)) (\<lambda>_. packets_ok v)"
proof (rule validI, elim conjE exE)
  fix s x s' r
  assume ok: "packets_ok v s" and read: "read_exchange v i s = Inr r" and state: "xc_state r \<noteq> Sealed"
    and run: "modify (set_exchange_state (ce_hash v) i st n) s = Inr (x, s')"
  from run have s': "s' = set_exchange_state (ce_hash v) i st n s" by (simp add: run_simps)
  have ext: "extends s s'" by (simp add: s')
  let ?f = "\<lambda>r. r\<lparr>xc_state := st, xc_version := n, xc_state_digest := state_digest (ce_hash v) i (xc_digest r) st n\<rparr>"
  have r: "r \<in> set (cn_exchanges s)" "xc_id r = i" using read read_exchange_iff [OF ok] by auto
  have changed: "check_row v (?f r) s' = Inr (?f r)"
  proof -
    have "check_row v r s' = Inr r" using ok r(1) ext by (auto simp: packets_ok_def intro: check_row_extends)
    then show ?thesis
      unfolding check_row_iff using state assms r(2) by (auto simp: row_names_envelope_def Let_def)
  qed
  have keep: "check_row v q s' = Inr q" if "q \<in> set (cn_exchanges s)" for q
    using that ok ext by (auto simp: packets_ok_def intro: check_row_extends)
  have "q = r" if "q \<in> set (cn_exchanges s)" "xc_id q = i" for q
    using ok that r key_unique [of xc_id "cn_exchanges s" q r] by (simp add: packets_ok_def)
  with changed keep have "\<forall>q \<in> set (cn_exchanges s'). check_row v q s' = Inr q"
    by (auto simp: s' set_exchange_state_def set_update_where split: if_splits)
  moreover have "map xc_sequence (cn_exchanges s') = map xc_sequence (cn_exchanges s)" "map xc_id (cn_exchanges s') = map xc_id (cn_exchanges s)"
    by (simp_all add: s' set_exchange_state_def map_update_where)
  moreover have "length (cn_exchanges s') = length (cn_exchanges s)" by (simp add: s' set_exchange_state_def)
  ultimately show "packets_ok v s'" using ok by (simp add: packets_ok_def)
qed

end
