(* ===== verification/Canon_Links.thy ===== *)
theory Canon_Links
  imports Canon_State
begin

text \<open>
  The life cycle of a packet, the tables that only grow, and the links from superseded packets to the
  admitted ones that replaced them.
\<close>

section \<open>The life cycle of a packet\<close>

text \<open>
  What may happen to a recorded packet: its receiver decides it while it is pending, and a decided one is
  superseded. The envelope, its digest, its route and its place in the table never change.
\<close>

inductive exchange_move :: "exchange_row \<Rightarrow> exchange_row \<Rightarrow> bool" where
  decided: "xc_state r \<in> {Received, Needs_Clarification} \<Longrightarrow> st \<in> {Admitted, Rejected, Needs_Clarification} \<Longrightarrow>
    exchange_move r (r\<lparr>xc_state := st, xc_version := xc_version r + 1, xc_state_digest := d\<rparr>)"
| superseded: "xc_state r \<in> {Admitted, Rejected, Needs_Clarification} \<Longrightarrow>
    exchange_move r (r\<lparr>xc_state := Was_Superseded, xc_version := xc_version r + 1, xc_state_digest := d\<rparr>)"

inductive_cases exchange_moveE: "exchange_move r r'"

abbreviation exchange_since :: "exchange_row \<Rightarrow> exchange_row \<Rightarrow> bool" where
  "exchange_since \<equiv> exchange_move\<^sup>*\<^sup>*"

text \<open>What identifies a packet, its state aside.\<close>

definition sealed_part :: "exchange_row \<Rightarrow> exchange_row" where
  "sealed_part r = r\<lparr>xc_state := Sealed, xc_version := 0, xc_state_digest := []\<rparr>"

lemma exchange_move_sealed: "exchange_move r r' \<Longrightarrow> sealed_part r' = sealed_part r"
  by (erule exchange_moveE) (simp_all add: sealed_part_def)

lemma exchange_since_sealed: "exchange_since r r' \<Longrightarrow> sealed_part r' = sealed_part r"
  by (induction rule: rtranclp_induct) (simp_all add: exchange_move_sealed)

lemma sealed_part_selects [simp]:
  "xc_id (sealed_part r) = xc_id r"
  "xc_body (sealed_part r) = xc_body r"
  "xc_digest (sealed_part r) = xc_digest r"
  "xc_sequence (sealed_part r) = xc_sequence r"
  "xc_sender (sealed_part r) = xc_sender r"
  "xc_receiver (sealed_part r) = xc_receiver r"
  "xc_source (sealed_part r) = xc_source r"
  "xc_destination (sealed_part r) = xc_destination r"
  "xc_role (sealed_part r) = xc_role r"
  by (simp_all add: sealed_part_def)

lemma sealed_part_fields:
  assumes "sealed_part r' = sealed_part r"
  shows "xc_id r' = xc_id r"
    "xc_body r' = xc_body r"
    "xc_digest r' = xc_digest r"
    "xc_sequence r' = xc_sequence r"
    "xc_sender r' = xc_sender r"
    "xc_receiver r' = xc_receiver r"
    "xc_source r' = xc_source r"
    "xc_destination r' = xc_destination r"
    "xc_role r' = xc_role r"
  by (metis assms sealed_part_selects)+

lemma move_states:
  "exchange_move r r' \<Longrightarrow> xc_state r \<noteq> Sealed" "exchange_move r r' \<Longrightarrow> xc_state r \<noteq> Was_Superseded"
  "exchange_move r r' \<Longrightarrow> xc_state r = Admitted \<Longrightarrow> xc_state r' = Was_Superseded"
  "exchange_move r r' \<Longrightarrow> xc_version r' = xc_version r + 1"
  by (erule exchange_move.cases; auto)+

lemma since_cases: "exchange_since r r' \<Longrightarrow> r' = r \<or> (\<exists>q. exchange_move r q \<and> exchange_since q r')"
  by (erule converse_rtranclpE) blast+

lemma final_states: "exchange_since r r' \<Longrightarrow> xc_state r \<in> {Sealed, Was_Superseded} \<Longrightarrow> r' = r"
  using since_cases move_states(1,2) by blast

lemma admitted_stays: "exchange_since r r' \<Longrightarrow> xc_state r = Admitted \<Longrightarrow> r' = r \<or> xc_state r' = Was_Superseded"
  using since_cases [of r r'] move_states(3) [of r] final_states by blast

lemma versions_count: "exchange_since r r' \<Longrightarrow> xc_version r \<le> xc_version r'"
  by (induction rule: rtranclp_induct) (simp_all add: move_states(4))

section \<open>Tables that only grow\<close>

definition canon_since :: "canon \<Rightarrow> canon \<Rightarrow> bool" where
  "canon_since s s' \<longleftrightarrow> extends s s' \<and> grows (=) (cn_participants s) (cn_participants s') \<and> grows (=) (cn_contracts s) (cn_contracts s')
     \<and> grows (=) (cn_events s) (cn_events s') \<and> grows (=) (cn_supersessions s) (cn_supersessions s')
     \<and> grows (=) (cn_edges s) (cn_edges s') \<and> grows (=) (cn_bindings s) (cn_bindings s')
     \<and> grows exchange_since (cn_exchanges s) (cn_exchanges s')"

lemma extends_refl [simp]: "extends s s"
  by (simp add: extends_def)

lemma canon_since_refl [simp]: "canon_since s s"
  by (simp add: canon_since_def grows_refl)

lemma canon_since_trans: "canon_since s t \<Longrightarrow> canon_since t u \<Longrightarrow> canon_since s u"
  unfolding canon_since_def by (blast intro: extends_trans grows_eq_trans grows_trans rtranclp_trans)

lemma canon_since_step: "canon_since s0 s \<Longrightarrow> canon_since s t \<Longrightarrow> canon_since s0 t"
  by (rule canon_since_trans)

lemma canon_since_appends:
  "canon_since s (s\<lparr>cn_events := cn_events s @ es\<rparr>)" "canon_since s (s\<lparr>cn_participants := cn_participants s @ ps\<rparr>)"
  "canon_since s (s\<lparr>cn_contracts := cn_contracts s @ cs\<rparr>)" "canon_since s (s\<lparr>cn_supersessions := cn_supersessions s @ ls\<rparr>)"
  "canon_since s (s\<lparr>cn_bindings := cn_bindings s @ bs\<rparr>)" "canon_since s (s\<lparr>cn_exchanges := cn_exchanges s @ xs\<rparr>)"
  "canon_since s (s\<lparr>cn_current := cs'\<rparr>)" "canon_since s (s\<lparr>cn_base := (cn_base s)\<lparr>receipts := rs\<rparr>\<rparr>)"
  by (simp_all add: canon_since_def grows_refl grows_append)

lemma canon_since_file: "cn_files s p = None \<Longrightarrow> canon_since s (s\<lparr>cn_files := (cn_files s)(p \<mapsto> t)\<rparr>)"
  by (simp add: canon_since_def grows_refl extends_file)

lemma canon_since_files: "extends s (s\<lparr>cn_files := f\<rparr>) \<Longrightarrow> canon_since s (s\<lparr>cn_files := f\<rparr>)"
  by (simp add: canon_since_def grows_refl)

lemma canon_since_set_state:
  assumes "\<And>q d. q \<in> set (cn_exchanges s) \<Longrightarrow> xc_id q = i \<Longrightarrow> exchange_move q (q\<lparr>xc_state := st, xc_version := n, xc_state_digest := d\<rparr>)"
  shows "canon_since s (set_exchange_state H i st n s)"
proof -
  have "grows exchange_since (cn_exchanges s) (cn_exchanges (set_exchange_state H i st n s))"
    unfolding set_exchange_state_def by (simp, rule grows_update_where) (auto intro: r_into_rtranclp assms)
  then show ?thesis by (simp add: canon_since_def set_exchange_state_def grows_refl)
qed

lemma since_row:
  assumes "canon_since s s'" "n \<in> set (cn_exchanges s)"
  obtains n' where "n' \<in> set (cn_exchanges s')" "exchange_since n n'"
  using assms grows_member [of exchange_since] unfolding canon_since_def by blast

lemma find_event_since: "find_canon_event rid s = Some e \<Longrightarrow> canon_since s s' \<Longrightarrow> find_canon_event rid s' = Some e"
  by (auto simp: canon_since_def grows_eq_append find_canon_event_def find_append)

text \<open>Every kind of write, from a state that came after \<open>s0\<close>.\<close>

abbreviation grown :: "canon_env \<Rightarrow> canon \<Rightarrow> canon \<Rightarrow> bool" where
  "grown v s0 s \<equiv> packets_ok v s \<and> canon_since s0 s"

lemma grown_step: "packets_ok v s \<Longrightarrow> canon_since s0 s \<Longrightarrow> canon_since s t \<Longrightarrow> packets_ok v t \<Longrightarrow> grown v s0 t"
  by (blast intro: canon_since_trans)

lemma packets_ok_appends:
  assumes "packets_ok v s"
  shows "packets_ok v (s\<lparr>cn_events := x1\<rparr>)" "packets_ok v (s\<lparr>cn_participants := cn_participants s @ ps\<rparr>)"
    "packets_ok v (s\<lparr>cn_contracts := x2\<rparr>)" "packets_ok v (s\<lparr>cn_supersessions := x3\<rparr>)" "packets_ok v (s\<lparr>cn_bindings := x4\<rparr>)"
    "packets_ok v (s\<lparr>cn_current := x5\<rparr>)" "packets_ok v (s\<lparr>cn_base := (cn_base s)\<lparr>receipts := rs\<rparr>\<rparr>)" "packets_ok v (s\<lparr>cn_edges := x6\<rparr>)"
  by (rule packets_ok_extends [OF assms]; simp)+

lemma rows_event: "keeps (packets_ok v) (add_canon_event v' rid kind actor key r)"
  by (rule validI) (auto simp: add_canon_event_Inr packets_ok_appends)

lemma grown_event: "keeps (grown v s0) (add_canon_event v' rid kind actor key r)"
  by (rule validI) (auto simp: add_canon_event_Inr intro!: packets_ok_appends intro: canon_since_step canon_since_appends)

lemma grown_receipt: "grown v s0 s \<Longrightarrow> grown v s0 (s\<lparr>cn_base := (cn_base s)\<lparr>receipts := x\<rparr>\<rparr>)"
  by (blast intro: packets_ok_appends canon_since_step canon_since_appends)

lemma since_insert:
  assumes "insert_exchange v e st s = Inr (x, s')"
  shows "canon_since s s'"
  using assms
  by (rule insert_exchange_Inr)
    (auto intro: canon_since_trans [OF canon_since_files canon_since_appends(6) [of "_\<lparr>cn_files := _\<rparr>", simplified]])

lemma grown_new_row: "valid (\<lambda>s. grown v s0 s \<and> arriving v e st s) (insert_exchange v e st) (\<lambda>_. grown v s0)"
proof (rule validI, elim conjE)
  fix s x s'
  assume "packets_ok v s" "canon_since s0 s" "arriving v e st s" "insert_exchange v e st s = Inr (x, s')"
  then show "grown v s0 s'"
    using validD [OF rows_insert] since_insert canon_since_trans by blast
qed

lemma decidable_row_move:
  assumes "packets_ok v s" "decidable_row v actor r row s" "q \<in> set (cn_exchanges s)" "xc_id q = dq_exchange r"
  shows "q = row" "exchange_move q (q\<lparr>xc_state := decided_state (dq_decision r), xc_version := xc_version row + 1, xc_state_digest := d\<rparr>)"
proof -
  have "row \<in> set (cn_exchanges s)" "xc_id row = dq_exchange r"
    using assms(2) read_exchange_iff [OF assms(1)] by (auto simp: decidable_row_def)
  then show "q = row" using assms key_unique [of xc_id "cn_exchanges s" q row] by (simp add: packets_ok_def)
  then show "exchange_move q (q\<lparr>xc_state := decided_state (dq_decision r), xc_version := xc_version row + 1, xc_state_digest := d\<rparr>)"
    using assms(2) by (auto simp: decidable_row_def decided_state_def intro!: exchange_move.decided split: decision_kind.split)
qed

lemma superseding_move:
  assumes "packets_ok v s" "superseding v i j r n s" "q \<in> set (cn_exchanges s)" "xc_id q = i"
  shows "q = r" "exchange_move q (q\<lparr>xc_state := Was_Superseded, xc_version := xc_version r + 1, xc_state_digest := d\<rparr>)"
proof -
  have "r \<in> set (cn_exchanges s)" "xc_id r = i"
    using assms(2) read_exchange_iff [OF assms(1)] by (auto simp: superseding_def)
  then show "q = r" using assms key_unique [of xc_id "cn_exchanges s" q r] by (simp add: packets_ok_def)
  then show "exchange_move q (q\<lparr>xc_state := Was_Superseded, xc_version := xc_version r + 1, xc_state_digest := d\<rparr>)"
    using assms(2) by (auto simp: superseding_def intro!: exchange_move.superseded)
qed

lemma rows_decide:
  "valid (\<lambda>s. packets_ok v s \<and> decidable_row v actor r row s)
     (modify (set_exchange_state (ce_hash v) (dq_exchange r) (decided_state (dq_decision r)) n)) (\<lambda>_. packets_ok v)"
  by (rule valid_pre [OF rows_set_state]) (auto simp: decided_state_def decidable_row_def split: decision_kind.split)

lemma rows_supersede:
  "valid (\<lambda>s. packets_ok v s \<and> superseding v i j r n s)
     (modify (set_exchange_state (ce_hash v) i Was_Superseded m)) (\<lambda>_. packets_ok v)"
  by (rule valid_pre [OF rows_set_state]) (auto simp: superseding_def)

lemma grown_decide:
  "valid (\<lambda>s. grown v s0 s \<and> decidable_row v actor r row s)
     (modify (set_exchange_state (ce_hash v) (dq_exchange r) (decided_state (dq_decision r)) (xc_version row + 1))) (\<lambda>_. grown v s0)"
proof (rule validI, elim conjE)
  fix s x s'
  assume s: "packets_ok v s" "canon_since s0 s" "decidable_row v actor r row s"
    and run: "modify (set_exchange_state (ce_hash v) (dq_exchange r) (decided_state (dq_decision r)) (xc_version row + 1)) s = Inr (x, s')"
  have "canon_since s s'" using run decidable_row_move(2) [OF s(1,3)] by (auto simp: run_simps intro!: canon_since_set_state)
  then show "grown v s0 s'" using validD [OF rows_decide conjI [OF s(1,3)] run] s(2) canon_since_trans by blast
qed

lemma grown_supersede:
  "valid (\<lambda>s. grown v s0 s \<and> superseding v i j r n s)
     (modify (set_exchange_state (ce_hash v) i Was_Superseded (xc_version r + 1))) (\<lambda>_. grown v s0)"
proof (rule validI, elim conjE)
  fix s x s'
  assume s: "packets_ok v s" "canon_since s0 s" "superseding v i j r n s"
    and run: "modify (set_exchange_state (ce_hash v) i Was_Superseded (xc_version r + 1)) s = Inr (x, s')"
  have "canon_since s s'" using run superseding_move(2) [OF s(1,3)] by (auto simp: run_simps intro!: canon_since_set_state)
  then show "grown v s0 s'" using validD [OF rows_supersede conjI [OF s(1,3)] run] s(2) canon_since_trans by blast
qed

end
