(* ===== verification/Canon_Succession.thy ===== *)
theory Canon_Succession
  imports Canon_Links
begin

text \<open>
  The links of superseded packets: every one of them has its recorded event, a newer packet on the same
  route, and that packet was admitted.
\<close>

section \<open>Links\<close>

definition link_between :: "canon \<Rightarrow> exchange_row \<Rightarrow> exchange_row \<Rightarrow> superseded \<Rightarrow> bool" where
  "link_between s r n u \<longleftrightarrow> n \<in> set (cn_exchanges s) \<and> xc_id n = su_successor u \<and> xc_digest n = su_successor_digest u
     \<and> su_id u = xc_id r \<and> su_digest u = xc_digest r \<and> su_version u = xc_version r \<and> su_receiver u = xc_receiver r
     \<and> xc_sequence r < xc_sequence n \<and> same_route n r \<and> xc_state n \<in> {Admitted, Was_Superseded}"

definition link_event :: "canon_env \<Rightarrow> superseded \<Rightarrow> canon_event \<Rightarrow> bool" where
  "link_event v u e \<longleftrightarrow> canon_event_ok (ce_hash v) e \<and> cv_kind e = ''supersede'' \<and> cv_result e = Superseding u"

definition recorded_link :: "canon_env \<Rightarrow> canon \<Rightarrow> exchange_row \<Rightarrow> superseded \<Rightarrow> bool" where
  "recorded_link v s r u \<longleftrightarrow> (\<exists>rid e n. map_of (cn_supersessions s) (xc_id r) = Some rid \<and> find_canon_event rid s = Some e
     \<and> link_event v u e \<and> link_between s r n u)"

definition links_but :: "canon_env \<Rightarrow> string option \<Rightarrow> canon \<Rightarrow> bool" where
  "links_but v i s \<longleftrightarrow> (\<forall>r \<in> set (cn_exchanges s). xc_state r = Was_Superseded \<longrightarrow> i \<noteq> Some (xc_id r) \<longrightarrow> (\<exists>u. recorded_link v s r u))"

lemma link_between_since:
  assumes "link_between s r n u" "canon_since s s'"
  shows "\<exists>n'. link_between s' r n' u"
proof -
  obtain n' where n': "n' \<in> set (cn_exchanges s')" "exchange_since n n'"
    using assms(1) since_row [OF assms(2), of n] by (auto simp: link_between_def)
  have "xc_state n' \<in> {Admitted, Was_Superseded}"
    using n'(2) assms(1) admitted_stays final_states by (fastforce simp: link_between_def)
  with assms(1) n' sealed_part_fields [OF exchange_since_sealed [OF n'(2)]] show ?thesis
    by (auto simp: link_between_def same_route_def intro!: exI [of _ n'])
qed

lemma map_of_since: "map_of (cn_supersessions s) i = Some rid \<Longrightarrow> canon_since s s' \<Longrightarrow> map_of (cn_supersessions s') i = Some rid"
  by (auto simp: canon_since_def grows_eq_append)

lemma recorded_link_since: "recorded_link v s r u \<Longrightarrow> canon_since s s' \<Longrightarrow> recorded_link v s' r u"
  unfolding recorded_link_def using find_event_since map_of_since link_between_since by meson

lemma links_since:
  assumes "links_but v i s" "canon_since s s'"
    and "\<And>r. r \<in> set (cn_exchanges s') \<Longrightarrow> xc_state r = Was_Superseded \<Longrightarrow> j \<noteq> Some (xc_id r) \<Longrightarrow> i \<noteq> Some (xc_id r) \<and> r \<in> set (cn_exchanges s)"
  shows "links_but v j s'"
  using assms recorded_link_since unfolding links_but_def by blast

section \<open>Writes that keep them\<close>

abbreviation trail_ok :: "canon_env \<Rightarrow> canon \<Rightarrow> bool" where
  "trail_ok v s \<equiv> packets_ok v s \<and> links_but v None s"

lemma links_same_rows:
  assumes "links_but v i s" "canon_since s s'" "cn_exchanges s' = cn_exchanges s"
  shows "links_but v i s'"
  using assms by (intro links_since [OF assms(1,2)]) simp

lemma trail_event: "keeps (trail_ok v) (add_canon_event v' rid kind actor key r)"
  by (rule validI) (auto simp: add_canon_event_Inr intro: packets_ok_appends links_same_rows canon_since_appends)

lemma trail_receipt: "trail_ok v s \<Longrightarrow> trail_ok v (s\<lparr>cn_base := (cn_base s)\<lparr>receipts := x\<rparr>\<rparr>)"
  by (auto intro: packets_ok_appends links_same_rows canon_since_appends)

lemma arriving_state: "arriving v e st s \<Longrightarrow> st \<in> {Sealed, Received, Admitted}"
  by (auto simp: arriving_def Let_def split: prod.splits if_splits)

lemma trail_new_row: "valid (\<lambda>s. trail_ok v s \<and> arriving v e st s) (insert_exchange v e st) (\<lambda>_. trail_ok v)"
proof (rule validI, elim conjE)
  fix s x s'
  assume s: "packets_ok v s" "links_but v None s" "arriving v e st s" and run: "insert_exchange v e st s = Inr (x, s')"
  have "\<exists>r. cn_exchanges s' = cn_exchanges s @ [r] \<and> xc_state r = st"
    using run by (rule insert_exchange_Inr) (auto)
  with arriving_state [OF s(3)] have "links_but v None s'"
    by (intro links_since [OF s(2) since_insert [OF run]]) auto
  then show "trail_ok v s'" using validD [OF rows_insert conjI [OF s(1,3)] run] by simp
qed

lemma trail_decide:
  "valid (\<lambda>s. trail_ok v s \<and> decidable_row v actor r row s)
     (modify (set_exchange_state (ce_hash v) (dq_exchange r) (decided_state (dq_decision r)) (xc_version row + 1))) (\<lambda>_. trail_ok v)"
proof (rule validI, elim conjE)
  fix s x s'
  assume s: "packets_ok v s" "links_but v None s" "decidable_row v actor r row s"
    and run: "modify (set_exchange_state (ce_hash v) (dq_exchange r) (decided_state (dq_decision r)) (xc_version row + 1)) s = Inr (x, s')"
  have s': "s' = set_exchange_state (ce_hash v) (dq_exchange r) (decided_state (dq_decision r)) (xc_version row + 1) s"
    using run by (simp add: run_simps)
  have since: "canon_since s s'" unfolding s' by (rule canon_since_set_state) (rule decidable_row_move(2) [OF s(1,3)])
  have "links_but v None s'"
    by (rule links_since [OF s(2) since])
      (auto simp: s' set_exchange_state_def set_update_where decided_state_def split: if_splits decision_kind.splits)
  then show "trail_ok v s'" using validD [OF rows_decide conjI [OF s(1,3)] run] by simp
qed

text \<open>In the course of a supersession: the state is set, then the event is there, then the link.\<close>

definition half_linked :: "canon_env \<Rightarrow> superseded \<Rightarrow> canon \<Rightarrow> bool" where
  "half_linked v u s \<longleftrightarrow> packets_ok v s \<and> links_but v (Some (su_id u)) s \<and> (\<exists>r n. r \<in> set (cn_exchanges s) \<and> link_between s r n u)"

definition nearly_linked :: "canon_env \<Rightarrow> superseded \<Rightarrow> string \<Rightarrow> canon \<Rightarrow> bool" where
  "nearly_linked v u rid s \<longleftrightarrow> half_linked v u s \<and> (\<exists>e. find_canon_event rid s = Some e \<and> link_event v u e)"

lemma trail_supersede:
  "valid (\<lambda>s. trail_ok v s \<and> superseding v i j r n s)
     (modify (set_exchange_state (ce_hash v) i Was_Superseded (xc_version r + 1))) (\<lambda>_. half_linked v (succession i j basis r n))"
proof (rule validI, elim conjE)
  fix s x s'
  assume s: "packets_ok v s" "links_but v None s" "superseding v i j r n s"
    and run: "modify (set_exchange_state (ce_hash v) i Was_Superseded (xc_version r + 1)) s = Inr (x, s')"
  have s': "s' = set_exchange_state (ce_hash v) i Was_Superseded (xc_version r + 1) s" using run by (simp add: run_simps)
  have since: "canon_since s s'" unfolding s' by (rule canon_since_set_state) (rule superseding_move(2) [OF s(1,3)])
  have rows: "r \<in> set (cn_exchanges s)" "xc_id r = i" "n \<in> set (cn_exchanges s)" "xc_id n = j"
    using s(3) read_exchange_iff [OF s(1)] by (auto simp: superseding_def)
  have links: "links_but v (Some i) s'"
    by (rule links_since [OF s(2) since]) (auto simp: s' set_exchange_state_def set_update_where split: if_splits)
  let ?r = "r\<lparr>xc_state := Was_Superseded, xc_version := xc_version r + 1,
    xc_state_digest := state_digest (ce_hash v) i (xc_digest r) Was_Superseded (xc_version r + 1)\<rparr>"
  have r': "?r \<in> set (cn_exchanges s')"
    using rows by (auto simp: s' set_exchange_state_def set_update_where image_iff intro!: bexI [of _ r])
  have "j \<noteq> i"
  proof
    assume "j = i"
    then have "n = r" using rows s(1) key_unique [of xc_id "cn_exchanges s" n r] by (simp add: packets_ok_def)
    then show False using s(3) by (simp add: superseding_def)
  qed
  then have n': "n \<in> set (cn_exchanges s')" using rows by (auto simp: s' set_exchange_state_def set_update_where image_iff intro!: bexI [of _ n])
  have "link_between s' ?r n (succession i j basis r n)"
    using s(3) n' rows by (auto simp: link_between_def succession_def superseding_def same_route_def)
  then show "half_linked v (succession i j basis r n) s'"
    using validD [OF rows_supersede conjI [OF s(1,3)] run] links r' unfolding half_linked_def succession_fields by blast
qed

lemma half_linked_since:
  assumes "half_linked v u s" "canon_since s s'" "packets_ok v s'" "cn_exchanges s' = cn_exchanges s"
  shows "half_linked v u s'"
proof -
  obtain r n where r: "r \<in> set (cn_exchanges s')" "link_between s r n u" using assms by (auto simp: half_linked_def)
  from link_between_since [OF r(2) assms(2)] obtain n' where "link_between s' r n' u" by blast
  with r assms show ?thesis unfolding half_linked_def by (blast intro: links_same_rows)
qed

lemma trail_supersede_event:
  "valid (half_linked v u) (add_canon_event v rid ''supersede'' actor key (Superseding u)) (\<lambda>_. nearly_linked v u rid)"
proof (rule validI)
  fix s x s'
  let ?e = "new_canon_event v rid ''supersede'' actor key (Superseding u) s"
  assume s: "half_linked v u s" and run: "add_canon_event v rid ''supersede'' actor key (Superseding u) s = Inr (x, s')"
  then have s': "s' = s\<lparr>cn_events := cn_events s @ [?e]\<rparr>" and fresh: "\<forall>q \<in> set (cn_events s). cv_request q \<noteq> rid"
    by (auto simp: add_canon_event_Inr canon_event_clash_def)
  have "find (\<lambda>e. cv_request e = rid) (cn_events s) = None" using fresh by (simp add: find_None_iff)
  then have "find_canon_event rid s' = Some ?e" by (simp add: s' find_canon_event_def find_append)
  moreover have "link_event v u ?e" by (simp add: link_event_def)
  moreover have "half_linked v u s'"
  proof (rule half_linked_since [OF s])
    show "canon_since s s'" unfolding s' by (rule canon_since_appends)
    show "packets_ok v s'" using s unfolding s' half_linked_def by (blast intro: packets_ok_appends)
    show "cn_exchanges s' = cn_exchanges s" by (simp add: s')
  qed
  ultimately show "nearly_linked v u rid s'" unfolding nearly_linked_def by blast
qed

lemma trail_supersede_link:
  "valid (nearly_linked v u rid)
     (insert_row cn_supersessions cn_supersessions_update (\<lambda>a b. fst a = fst b \<or> snd a = snd b) (su_id u, rid)) (\<lambda>_. trail_ok v)"
proof (rule validI)
  fix s x s'
  assume s: "nearly_linked v u rid s"
    and run: "insert_row cn_supersessions cn_supersessions_update (\<lambda>a b. fst a = fst b \<or> snd a = snd b) (su_id u, rid) s = Inr (x, s')"
  from run have s': "s' = s\<lparr>cn_supersessions := cn_supersessions s @ [(su_id u, rid)]\<rparr>"
    and fresh: "\<forall>q \<in> set (cn_supersessions s). fst q \<noteq> su_id u"
    by (auto simp: run_simps)
  have since: "canon_since s s'" unfolding s' by (rule canon_since_appends)
  have ok: "packets_ok v s'" using s unfolding s' nearly_linked_def half_linked_def by (blast intro: packets_ok_appends)
  obtain r n e where r: "r \<in> set (cn_exchanges s)" "link_between s r n u" "find_canon_event rid s = Some e" "link_event v u e"
    using s by (auto simp: nearly_linked_def half_linked_def)
  obtain n' where n': "link_between s' r n' u" using link_between_since [OF r(2) since] by blast
  have "map_of (cn_supersessions s) (su_id u) = None" using fresh by (auto simp: map_of_eq_None_iff)
  then have "map_of (cn_supersessions s') (su_id u) = Some rid" by (simp add: s' map_add_def)
  moreover have "su_id u = xc_id r" using r(2) by (simp add: link_between_def)
  ultimately have link: "recorded_link v s' r u"
    unfolding recorded_link_def using r(3,4) n' find_event_since [OF r(3) since] by auto
  have "links_but v (Some (su_id u)) s'"
    using s since by (auto simp: nearly_linked_def half_linked_def s' intro: links_same_rows)
  moreover have "q = r" if "q \<in> set (cn_exchanges s')" "xc_id q = su_id u" for q
    using that r ok \<open>su_id u = xc_id r\<close> key_unique [of xc_id "cn_exchanges s'" q r] by (simp add: packets_ok_def s')
  ultimately have "links_but v None s'" using link by (auto simp: links_but_def)
  with ok show "trail_ok v s'" by simp
qed

lemma trail_supersede_row: "keeps (trail_ok v) (supersede_row v i j actor basis request)"
  by (rule keeps_supersede_row [OF trail_receipt trail_supersede trail_supersede_event trail_supersede_link])

section \<open>What the links say\<close>

lemma recorded_link_reads:
  assumes "trail_ok v s" "r \<in> set (cn_exchanges s)" "xc_state r = Was_Superseded"
  obtains u n where "read_supersession v r s = Inr (Some u)" "find_exchange (su_successor u) s = Some n"
    "n \<in> set (cn_exchanges s)" "xc_sequence r < xc_sequence n" "same_route n r" "xc_state n \<in> {Admitted, Was_Superseded}"
proof -
  obtain u rid e n where link: "map_of (cn_supersessions s) (xc_id r) = Some rid" "find_canon_event rid s = Some e"
      "link_event v u e" "link_between s r n u"
    using assms unfolding links_but_def recorded_link_def by blast
  have n: "read_exchange v (su_successor u) s = Inr n"
    using assms(1) link(4) read_exchange_iff by (auto simp: link_between_def)
  then have "find_exchange (su_successor u) s = Some n"
    by (auto simp: read_exchange_def check_row_iff split: option.splits)
  moreover have "read_supersession v r s = Inr (Some u)"
    using link n assms(3) by (simp add: read_supersession_def link_event_def link_between_def rbind_def)
  ultimately show ?thesis using that link(4) by (auto simp: link_between_def)
qed

text \<open>The packet in force for a superseded one, along the recorded links.\<close>

primrec input_in_force :: "canon_env \<Rightarrow> nat \<Rightarrow> exchange_row \<Rightarrow> canon \<Rightarrow> exchange_row option" where
  "input_in_force v 0 r s = None"
| "input_in_force v (Suc k) r s = (if xc_state r \<noteq> Was_Superseded then Some r
     else case read_supersession v r s of
       Inr (Some u) \<Rightarrow> (case find_exchange (su_successor u) s of Some n \<Rightarrow> input_in_force v k n s | None \<Rightarrow> None)
     | _ \<Rightarrow> None)"

lemma sequence_bound: "packets_ok v s \<Longrightarrow> r \<in> set (cn_exchanges s) \<Longrightarrow> xc_sequence r \<le> length (cn_exchanges s)"
  unfolding packets_ok_def by (metis atLeastLessThan_iff in_set_conv_nth length_map less_Suc_eq_le list.set_map nth_map set_upt image_eqI)

lemma in_force_found:
  assumes "trail_ok v s" "r \<in> set (cn_exchanges s)" "xc_state r \<in> {Admitted, Was_Superseded}"
    and "length (cn_exchanges s) - xc_sequence r < k"
  shows "\<exists>n. input_in_force v k r s = Some n \<and> xc_state n = Admitted \<and> same_route n r"
  using assms(2-4)
proof (induction k arbitrary: r)
  case 0
  then show ?case by simp
next
  case (Suc k)
  show ?case
  proof (cases "xc_state r = Was_Superseded")
    case False
    with Suc.prems show ?thesis by (auto simp: same_route_def)
  next
    case True
    from recorded_link_reads [OF assms(1) Suc.prems(1) True] obtain u n where
      n: "read_supersession v r s = Inr (Some u)" "find_exchange (su_successor u) s = Some n"
        "n \<in> set (cn_exchanges s)" "xc_sequence r < xc_sequence n" "same_route n r" "xc_state n \<in> {Admitted, Was_Superseded}" .
    have "length (cn_exchanges s) - xc_sequence n < k"
      using n(4) Suc.prems(3) sequence_bound [of v s n] assms(1) n(3) by linarith
    from Suc.IH [OF n(3,6) this] n(1,2,5) True show ?thesis by (auto simp: same_route_def)
  qed
qed

end
