(* ===== verification/Canon_Consent.thy ===== *)
theory Canon_Consent
  imports Canon_Links
begin

text \<open>
  No packet takes effect without its receiver: a decided one rests on an event of the client that owned the
  receiving participant when it decided, an automatically admitted one on a contract that the owner of its time
  recorded. Ownership may move later (Continuity), so both are statements about the call that wrote the row:
  \<open>s0\<close> is the state before that call, \<open>V\<close> and \<open>K\<close> say what holds of the events and contracts that were there already.
\<close>

section \<open>Consent\<close>

definition owner_of :: "string \<Rightarrow> canon \<Rightarrow> string option" where
  "owner_of p s = map_option pr_owner (find_participant p s)"

definition decision_event :: "exchange_row \<Rightarrow> canon_event \<Rightarrow> bool" where
  "decision_event r e \<longleftrightarrow> cv_kind e = ''decide''
     \<and> (case cv_result e of
          Decided d \<Rightarrow> dc_id d = xc_id r \<and> (if xc_state r = Was_Superseded then True else dc_state d = xc_state r \<and> dc_version d = xc_version r)
        | _ \<Rightarrow> False)"

definition admitting_contract :: "string \<Rightarrow> exchange_row \<Rightarrow> contract_row \<Rightarrow> bool" where
  "admitting_contract pid r c \<longleftrightarrow> (let x = kb_contract (ct_body c) in
     ms_expected (xv_message (xc_body r)) = Some (ct_digest c) \<and> ex_active x \<and> ex_auto_admit x \<and> ex_receiver x = xc_receiver r
     \<and> ms_kind (xv_message (xc_body r)) \<in> set (ex_kinds x)
     \<and> sender_allowed pid x (xc_sender r) (xc_source r))"

text \<open>Written since \<open>s0\<close>, by the client that owns the participant.\<close>

definition event_by_owner :: "canon \<Rightarrow> canon \<Rightarrow> string \<Rightarrow> canon_event \<Rightarrow> bool" where
  "event_by_owner s0 s p e \<longleftrightarrow> e \<notin> set (cn_events s0) \<and> e \<in> set (cn_events s) \<and> owner_of p s = Some (cv_actor e)"

definition contract_by_owner :: "canon \<Rightarrow> canon \<Rightarrow> contract_row \<Rightarrow> bool" where
  "contract_by_owner s0 s c \<longleftrightarrow> c \<notin> set (cn_contracts s0) \<and> c \<in> set (cn_contracts s)
     \<and> owner_of (ex_receiver (kb_contract (ct_body c))) s = Some (kb_client (ct_body c))"

definition decided_rightly :: "(string \<Rightarrow> canon_event \<Rightarrow> bool) \<Rightarrow> canon \<Rightarrow> canon \<Rightarrow> exchange_row \<Rightarrow> canon_event \<Rightarrow> bool" where
  "decided_rightly V s0 s r e \<longleftrightarrow> decision_event r e \<and> (V (xc_receiver r) e \<or> event_by_owner s0 s (xc_receiver r) e)"

definition consented :: "(string \<Rightarrow> canon_event \<Rightarrow> bool) \<Rightarrow> canon \<Rightarrow> canon \<Rightarrow> exchange_row \<Rightarrow> bool" where
  "consented V s0 s r \<longleftrightarrow> xc_state r \<in> {Sealed, Received} \<or> list_ex (decided_rightly V s0 s r) (cn_events s)
     \<or> xc_state r \<in> {Admitted, Was_Superseded} \<and> list_ex (admitting_contract (cn_project s) r) (cn_contracts s)"

definition contracts_owned :: "(contract_row \<Rightarrow> bool) \<Rightarrow> canon \<Rightarrow> canon \<Rightarrow> bool" where
  "contracts_owned K s0 s \<longleftrightarrow> (\<forall>c \<in> set (cn_contracts s). K c \<or> contract_by_owner s0 s c)"

definition consent_but :: "(string \<Rightarrow> canon_event \<Rightarrow> bool) \<Rightarrow> canon \<Rightarrow> string option \<Rightarrow> canon \<Rightarrow> bool" where
  "consent_but V s0 i s \<longleftrightarrow> (\<forall>r \<in> set (cn_exchanges s). i \<noteq> Some (xc_id r) \<longrightarrow> consented V s0 s r)"

section \<open>What is kept as the tables grow\<close>

lemma owner_since: "owner_of p s = Some a \<Longrightarrow> canon_since s s' \<Longrightarrow> owner_of p s' = Some a"
  by (auto simp: owner_of_def canon_since_def extends_def)

lemma consented_since:
  assumes "consented V s0 s r" "canon_since s s'"
  shows "consented V s0 s' r"
proof -
  have tables: "set (cn_events s) \<subseteq> set (cn_events s')" "set (cn_contracts s) \<subseteq> set (cn_contracts s')" "cn_project s' = cn_project s"
    using assms(2) by (auto simp: canon_since_def grows_eq_append extends_def)
  have "decided_rightly V s0 s' r e" if "decided_rightly V s0 s r e" for e
    using that owner_since [OF _ assms(2)] tables(1) by (auto simp: decided_rightly_def event_by_owner_def)
  then show ?thesis using assms(1) tables unfolding consented_def list_ex_iff by (metis subsetD)
qed

text \<open>A superseded packet keeps the consent it had.\<close>

lemma consented_superseded:
  assumes "consented V s0 s r" "xc_state r \<in> {Admitted, Rejected, Needs_Clarification}"
  shows "consented V s0 s (r\<lparr>xc_state := Was_Superseded, xc_version := n, xc_state_digest := d\<rparr>)"
proof -
  let ?r = "r\<lparr>xc_state := Was_Superseded, xc_version := n, xc_state_digest := d\<rparr>"
  have "decided_rightly V s0 s ?r e" if "decided_rightly V s0 s r e" for e
    using that by (auto simp: decided_rightly_def decision_event_def split: canon_result.splits)
  then have events: "list_ex (decided_rightly V s0 s r) es \<Longrightarrow> list_ex (decided_rightly V s0 s ?r) es" for es
    unfolding list_ex_iff by blast
  have "admitting_contract pid ?r c" if "admitting_contract pid r c" for pid c
    using that by (simp add: admitting_contract_def Let_def)
  then have contracts: "list_ex (admitting_contract pid r) cs \<Longrightarrow> list_ex (admitting_contract pid ?r) cs" for pid cs
    unfolding list_ex_iff by blast
  show ?thesis using assms events contracts by (auto simp: consented_def)
qed

lemma contract_by_owner_since:
  assumes "contract_by_owner s0 s c" "canon_since s s'"
  shows "contract_by_owner s0 s' c"
proof -
  have "set (cn_contracts s) \<subseteq> set (cn_contracts s')" using assms(2) by (auto simp: canon_since_def grows_eq_append)
  then show ?thesis using assms(1) owner_since [OF _ assms(2)] by (auto simp: contract_by_owner_def)
qed

lemma contracts_owned_since:
  assumes "contracts_owned K s0 s" "canon_since s s'" "cn_contracts s' = cn_contracts s"
  shows "contracts_owned K s0 s'"
  using assms contract_by_owner_since unfolding contracts_owned_def by metis

lemma consent_since:
  assumes "consent_but V s0 i s" "canon_since s s'"
    and "\<And>r. r \<in> set (cn_exchanges s') \<Longrightarrow> j \<noteq> Some (xc_id r) \<Longrightarrow> i \<noteq> Some (xc_id r) \<and> r \<in> set (cn_exchanges s) \<or> consented V s0 s' r"
  shows "consent_but V s0 j s'"
  using assms consented_since unfolding consent_but_def by blast

abbreviation consent_ok ::
  "canon_env \<Rightarrow> (string \<Rightarrow> canon_event \<Rightarrow> bool) \<Rightarrow> (contract_row \<Rightarrow> bool) \<Rightarrow> canon \<Rightarrow> string option \<Rightarrow> canon \<Rightarrow> bool" where
  "consent_ok v V K s0 i s \<equiv> packets_ok v s \<and> canon_since s0 s \<and> contracts_owned K s0 s \<and> consent_but V s0 i s"

lemma consent_same_rows:
  assumes "consent_ok v V K s0 i s" "canon_since s s'" "packets_ok v s'" "cn_exchanges s' = cn_exchanges s" "cn_contracts s' = cn_contracts s"
  shows "consent_ok v V K s0 i s'"
  using assms contracts_owned_since [of K s0 s s'] canon_since_trans [of s0 s s'] consent_since [of V s0 i s s' i] by auto

section \<open>Writes that keep it\<close>

lemma consent_appends:
  assumes "consent_ok v V K s0 i s"
  shows "consent_ok v V K s0 i (s\<lparr>cn_base := (cn_base s)\<lparr>receipts := x\<rparr>\<rparr>)" "consent_ok v V K s0 i (s\<lparr>cn_participants := cn_participants s @ ps\<rparr>)"
    "consent_ok v V K s0 i (s\<lparr>cn_bindings := cn_bindings s @ bs\<rparr>)" "consent_ok v V K s0 i (s\<lparr>cn_supersessions := cn_supersessions s @ ls\<rparr>)"
    "consent_ok v V K s0 i (s\<lparr>cn_current := cs\<rparr>)" "consent_ok v V K s0 i (s\<lparr>cn_events := cn_events s @ es\<rparr>)"
  using assms by (intro consent_same_rows [OF assms]; simp add: canon_since_appends packets_ok_appends)+

lemma consent_event: "keeps (consent_ok v V K s0 i) (add_canon_event v' rid kind actor key r)"
  by (rule validI) (clarsimp simp: add_canon_event_Inr, rule consent_appends, simp)

lemma read_participant_owner: "read_participant H p (Some a) s = Inr x \<Longrightarrow> owner_of p s = Some a"
  by (auto simp: read_participant_def owner_of_def split: option.splits if_splits)

lemma compatible_contract:
  assumes "compatibility v m source s = Inr (True, rs)"
  obtains c where "c \<in> set (cn_contracts s)" "ms_expected m = Some (ct_digest c)" "ex_auto_admit (kb_contract (ct_body c))"
    "contract_fits v (ct_body c) (ct_digest c) m source s"
  using assms
  by (auto simp: compatibility_def match_contract_def read_contract_def find_contract_def Let_def rbind_Inr
      split: sum.splits error.splits if_splits option.splits dest: find_SomeD)

lemma consent_new_row: "valid (\<lambda>s. consent_ok v V K s0 None s \<and> arriving v e st s) (insert_exchange v e st) (\<lambda>_. consent_ok v V K s0 None)"
proof (rule validI, elim conjE)
  fix s x s'
  assume s: "packets_ok v s" "contracts_owned K s0 s" "canon_since s0 s" "consent_but V s0 None s" "arriving v e st s" and run: "insert_exchange v e st s = Inr (x, s')"
  have since: "canon_since s s'" by (rule since_insert [OF run])
  obtain r where r: "cn_exchanges s' = cn_exchanges s @ [r]" "xc_body r = e" "xc_state r = st" "xc_receiver r = ms_receiver (xv_message e)"
      "xc_sender r = ms_sender (xv_message e)" "xc_source r = fst (envelope_route e)" "cn_contracts s' = cn_contracts s" "cn_project s' = cn_project s"
    using run by (rule insert_exchange_Inr) auto
  have "consented V s0 s' r"
  proof (cases "st = Admitted")
    case True
    then obtain rs where "compatibility v (xv_message e) (fst (envelope_route e)) s = Inr (True, rs)"
      using s(5) by (auto simp: arriving_def Let_def split: prod.splits if_splits)
    then obtain c where c: "c \<in> set (cn_contracts s)" "ms_expected (xv_message e) = Some (ct_digest c)" "ex_auto_admit (kb_contract (ct_body c))"
        "contract_fits v (ct_body c) (ct_digest c) (xv_message e) (fst (envelope_route e)) s"
      by (rule compatible_contract)
    have "admitting_contract (cn_project s') r c"
      using c by (auto simp: admitting_contract_def contract_fits_def Let_def r)
    with c(1) True r show ?thesis by (auto simp: consented_def list_ex_iff)
  next
    case False
    then show ?thesis using s(5) r by (auto simp: consented_def arriving_def Let_def split: prod.splits if_splits)
  qed
  then have "consent_but V s0 None s'" using r(1) by (intro consent_since [OF s(4) since]) auto
  then show "consent_ok v V K s0 None s'"
    using validD [OF rows_insert conjI [OF s(1,5)] run] contracts_owned_since [OF s(2) since r(7)] canon_since_trans [OF s(3) since] by simp
qed

lemma consent_supersede:
  "valid (\<lambda>s. consent_ok v V K s0 k s \<and> superseding v i j r n s)
     (modify (set_exchange_state (ce_hash v) i Was_Superseded (xc_version r + 1))) (\<lambda>_. consent_ok v V K s0 k)"
proof (rule validI, elim conjE)
  fix s x s'
  assume s: "packets_ok v s" "contracts_owned K s0 s" "canon_since s0 s" "consent_but V s0 k s" "superseding v i j r n s"
    and run: "modify (set_exchange_state (ce_hash v) i Was_Superseded (xc_version r + 1)) s = Inr (x, s')"
  have s': "s' = set_exchange_state (ce_hash v) i Was_Superseded (xc_version r + 1) s" using run by (simp add: run_simps)
  have since: "canon_since s s'" unfolding s' by (rule canon_since_set_state) (rule superseding_move(2) [OF s(1,5)])
  have "consent_but V s0 k s'"
  proof (rule consent_since [OF s(4) since])
    fix q
    assume q: "q \<in> set (cn_exchanges s')" "k \<noteq> Some (xc_id q)"
    show "k \<noteq> Some (xc_id q) \<and> q \<in> set (cn_exchanges s) \<or> consented V s0 s' q"
    proof (cases "q \<in> set (cn_exchanges s)")
      case False
      then obtain p where p: "p \<in> set (cn_exchanges s)" "xc_id p = i" "q = p\<lparr>xc_state := Was_Superseded, xc_version := xc_version r + 1,
          xc_state_digest := state_digest (ce_hash v) i (xc_digest p) Was_Superseded (xc_version r + 1)\<rparr>"
        using q(1) by (auto simp: s' set_exchange_state_def set_update_where split: if_splits)
      moreover have "xc_state p \<in> {Admitted, Rejected, Needs_Clarification}"
        using superseding_move(1) [OF s(1,5) p(1,2)] s(5) by (auto simp: superseding_def)
      moreover have "consented V s0 s p" using p q(2) s(4) by (auto simp: consent_but_def)
      ultimately have "consented V s0 s q" by (simp add: consented_superseded)
      then show ?thesis using since by (blast intro: consented_since)
    qed (use q in simp)
  qed
  then show "consent_ok v V K s0 k s'"
    using validD [OF rows_supersede conjI [OF s(1,5)] run] contracts_owned_since [OF s(2) since] canon_since_trans [OF s(3) since]
    by (simp add: s' set_exchange_state_def)
qed

text \<open>Between the change of state and its event, the decided packet is the exception.\<close>

definition deciding ::
  "canon_env \<Rightarrow> (string \<Rightarrow> canon_event \<Rightarrow> bool) \<Rightarrow> (contract_row \<Rightarrow> bool) \<Rightarrow> canon \<Rightarrow> string \<Rightarrow> decide_request \<Rightarrow> exchange_row \<Rightarrow> canon \<Rightarrow> bool" where
  "deciding v V K s0 actor r row s \<longleftrightarrow> consent_ok v V K s0 (Some (dq_exchange r)) s \<and> owner_of (xc_receiver row) s = Some actor
     \<and> (\<exists>q \<in> set (cn_exchanges s). xc_id q = dq_exchange r \<and> xc_receiver q = xc_receiver row
          \<and> (xc_state q = Was_Superseded \<or> xc_state q = decided_state (dq_decision r) \<and> xc_version q = xc_version row + 1))"

lemma consent_decide:
  "valid (\<lambda>s. consent_ok v V K s0 None s \<and> decidable_row v actor r row s)
     (modify (set_exchange_state (ce_hash v) (dq_exchange r) (decided_state (dq_decision r)) (xc_version row + 1))) (\<lambda>_. deciding v V K s0 actor r row)"
proof (rule validI, elim conjE)
  fix s x s'
  assume s: "packets_ok v s" "contracts_owned K s0 s" "canon_since s0 s" "consent_but V s0 None s" "decidable_row v actor r row s"
    and run: "modify (set_exchange_state (ce_hash v) (dq_exchange r) (decided_state (dq_decision r)) (xc_version row + 1)) s = Inr (x, s')"
  have s': "s' = set_exchange_state (ce_hash v) (dq_exchange r) (decided_state (dq_decision r)) (xc_version row + 1) s"
    using run by (simp add: run_simps)
  have since: "canon_since s s'" unfolding s' by (rule canon_since_set_state) (rule decidable_row_move(2) [OF s(1,5)])
  let ?q = "row\<lparr>xc_state := decided_state (dq_decision r), xc_version := xc_version row + 1,
      xc_state_digest := state_digest (ce_hash v) (dq_exchange r) (xc_digest row) (decided_state (dq_decision r)) (xc_version row + 1)\<rparr>"
  have "consent_but V s0 (Some (dq_exchange r)) s'"
    by (rule consent_since [OF s(4) since]) (auto simp: s' set_exchange_state_def set_update_where split: if_splits)
  moreover have "contracts_owned K s0 s'" by (rule contracts_owned_since [OF s(2) since]) (simp add: s' set_exchange_state_def)
  moreover have "owner_of (xc_receiver row) s' = Some actor"
    using s(5) since by (auto simp: decidable_row_def intro: owner_since read_participant_owner)
  moreover have row: "row \<in> set (cn_exchanges s)" "xc_id row = dq_exchange r"
    using s(5) read_exchange_iff [OF s(1)] by (auto simp: decidable_row_def)
  moreover from row have "?q \<in> set (cn_exchanges s')"
    by (auto simp: s' set_exchange_state_def set_update_where image_iff intro!: bexI [of _ row])
  then have "\<exists>q \<in> set (cn_exchanges s'). xc_id q = dq_exchange r \<and> xc_receiver q = xc_receiver row
          \<and> (xc_state q = Was_Superseded \<or> xc_state q = decided_state (dq_decision r) \<and> xc_version q = xc_version row + 1)"
    using row(2) by (intro bexI [of _ ?q]) simp_all
  ultimately show "deciding v V K s0 actor r row s'"
    using validD [OF rows_decide conjI [OF s(1,5)] run] canon_since_trans [OF s(3) since] unfolding deciding_def by blast
qed

lemma deciding_since:
  assumes "deciding v V K s0 actor r row s" "canon_since s s'" "consent_ok v V K s0 (Some (dq_exchange r)) s'"
    and "\<And>q. q \<in> set (cn_exchanges s) \<Longrightarrow> q \<in> set (cn_exchanges s') \<or> (\<exists>n d. q\<lparr>xc_state := Was_Superseded, xc_version := n, xc_state_digest := d\<rparr> \<in> set (cn_exchanges s'))"
  shows "deciding v V K s0 actor r row s'"
proof -
  obtain q where q: "q \<in> set (cn_exchanges s)" "xc_id q = dq_exchange r" "xc_receiver q = xc_receiver row"
      "xc_state q = Was_Superseded \<or> xc_state q = decided_state (dq_decision r) \<and> xc_version q = xc_version row + 1"
    using assms(1) by (auto simp: deciding_def)
  obtain q' where q': "q' \<in> set (cn_exchanges s')" "xc_id q' = xc_id q" "xc_receiver q' = xc_receiver q" "q' = q \<or> xc_state q' = Was_Superseded"
  proof (cases "q \<in> set (cn_exchanges s')")
    case False
    with assms(4) [OF q(1)] obtain n d where "q\<lparr>xc_state := Was_Superseded, xc_version := n, xc_state_digest := d\<rparr> \<in> set (cn_exchanges s')" by blast
    then show ?thesis by (rule that) simp_all
  qed (rule that [of q], simp_all)
  have "\<exists>q \<in> set (cn_exchanges s'). xc_id q = dq_exchange r \<and> xc_receiver q = xc_receiver row
          \<and> (xc_state q = Was_Superseded \<or> xc_state q = decided_state (dq_decision r) \<and> xc_version q = xc_version row + 1)"
    using q q' by (intro bexI [of _ q']) auto
  then show ?thesis
    using assms(1,3) owner_since [OF _ assms(2)] unfolding deciding_def by blast
qed

lemma deciding_appends:
  assumes "deciding v V K s0 actor r row s"
  shows "deciding v V K s0 actor r row (s\<lparr>cn_base := (cn_base s)\<lparr>receipts := x\<rparr>\<rparr>)" "deciding v V K s0 actor r row (s\<lparr>cn_supersessions := cn_supersessions s @ ls\<rparr>)"
    "deciding v V K s0 actor r row (s\<lparr>cn_events := cn_events s @ es\<rparr>)"
proof -
  have ok: "consent_ok v V K s0 (Some (dq_exchange r)) s" using assms by (simp add: deciding_def)
  show "deciding v V K s0 actor r row (s\<lparr>cn_base := (cn_base s)\<lparr>receipts := x\<rparr>\<rparr>)"
    by (rule deciding_since [OF assms _ consent_appends(1) [OF ok]]) (simp_all add: canon_since_appends)
  show "deciding v V K s0 actor r row (s\<lparr>cn_supersessions := cn_supersessions s @ ls\<rparr>)"
    by (rule deciding_since [OF assms _ consent_appends(4) [OF ok]]) (simp_all add: canon_since_appends)
  show "deciding v V K s0 actor r row (s\<lparr>cn_events := cn_events s @ es\<rparr>)"
    by (rule deciding_since [OF assms _ consent_appends(6) [OF ok]]) (simp_all add: canon_since_appends)
qed

lemma deciding_supersede:
  "valid (\<lambda>s. deciding v V K s0 actor r row s \<and> superseding v i j p n s)
     (modify (set_exchange_state (ce_hash v) i Was_Superseded (xc_version p + 1))) (\<lambda>_. deciding v V K s0 actor r row)"
proof (rule validI, elim conjE)
  fix s x s'
  assume s: "deciding v V K s0 actor r row s" "superseding v i j p n s"
    and run: "modify (set_exchange_state (ce_hash v) i Was_Superseded (xc_version p + 1)) s = Inr (x, s')"
  have s': "s' = set_exchange_state (ce_hash v) i Was_Superseded (xc_version p + 1) s" using run by (simp add: run_simps)
  have ok: "consent_ok v V K s0 (Some (dq_exchange r)) s" "packets_ok v s" using s(1) by (simp_all add: deciding_def)
  have since: "canon_since s s'" unfolding s' by (rule canon_since_set_state) (rule superseding_move(2) [OF ok(2) s(2)])
  show "deciding v V K s0 actor r row s'"
  proof (rule deciding_since [OF s(1) since])
    show "consent_ok v V K s0 (Some (dq_exchange r)) s'" using validD [OF consent_supersede conjI [OF ok(1) s(2)] run] .
    show "q \<in> set (cn_exchanges s') \<or> (\<exists>n d. q\<lparr>xc_state := Was_Superseded, xc_version := n, xc_state_digest := d\<rparr> \<in> set (cn_exchanges s'))"
      if "q \<in> set (cn_exchanges s)" for q
      using that by (cases "xc_id q = i") (force simp: s' set_exchange_state_def set_update_where)+
  qed
qed

lemma deciding_supersede_row: "keeps (deciding v V K s0 actor r row) (supersede_row v i j actor' basis request)"
  by (rule keeps_supersede_row [where J = "\<lambda>_. deciding v V K s0 actor r row" and K = "\<lambda>_ _. deciding v V K s0 actor r row"])
    (rule deciding_appends, assumption, rule deciding_supersede, rule validI, clarsimp simp: add_canon_event_Inr deciding_appends,
      rule validI, clarsimp simp: run_simps deciding_appends)

lemma consent_supersede_row: "keeps (consent_ok v V K s0 k) (supersede_row v i j actor basis request)"
  by (rule keeps_supersede_row [where J = "\<lambda>_. consent_ok v V K s0 k" and K = "\<lambda>_ _. consent_ok v V K s0 k"])
    (rule consent_appends, assumption, rule consent_supersede, rule consent_event, rule keeps_insert_row, rule consent_appends, assumption)

lemma consent_decide_event:
  "valid (deciding v V K s0 actor r row) (add_canon_event v' rid ''decide'' actor key (Decided (decision_record r row reasons))) (\<lambda>_. consent_ok v V K s0 None)"
proof (rule validI)
  fix s x s'
  let ?e = "new_canon_event v' rid ''decide'' actor key (Decided (decision_record r row reasons)) s"
  assume s: "deciding v V K s0 actor r row s" and run: "add_canon_event v' rid ''decide'' actor key (Decided (decision_record r row reasons)) s = Inr (x, s')"
  have s': "s' = s\<lparr>cn_events := cn_events s @ [?e]\<rparr>" using run by (simp add: add_canon_event_Inr)
  have d: "deciding v V K s0 actor r row s'" unfolding s' by (rule deciding_appends [OF s])
  then obtain q where q: "q \<in> set (cn_exchanges s')" "xc_id q = dq_exchange r" "xc_receiver q = xc_receiver row"
      "xc_state q = Was_Superseded \<or> xc_state q = decided_state (dq_decision r) \<and> xc_version q = xc_version row + 1"
    by (auto simp: deciding_def)
  have "?e \<notin> set (cn_events s0)" using s run by (auto simp: deciding_def add_canon_event_Inr canon_event_clash_def canon_since_def grows_eq_append)
  then have "decided_rightly V s0 s' q ?e"
    using d q by (auto simp: decided_rightly_def event_by_owner_def decision_event_def deciding_def decision_record_def s')
  then have "consented V s0 s' q" by (simp add: consented_def list_ex_iff s')
  moreover have "p = q" if "p \<in> set (cn_exchanges s')" "xc_id p = dq_exchange r" for p
    using that q d key_unique [of xc_id "cn_exchanges s'" p q] by (simp add: packets_ok_def deciding_def)
  ultimately have "consent_but V s0 None s'" using d by (auto simp: consent_but_def deciding_def)
  then show "consent_ok v V K s0 None s'" using d by (simp add: deciding_def)
qed

lemma consent_contract:
  assumes "kb_client (ct_body row) = actor" "ex_receiver (kb_contract (ct_body row)) = p"
  shows "valid (\<lambda>s. consent_ok v V K s0 None s \<and> (\<exists>x. read_participant H p (Some actor) s = Inr x))
    (insert_row cn_contracts cn_contracts_update contract_clash row) (\<lambda>_. consent_ok v V K s0 None)"
proof (rule validI, elim conjE exE)
  fix s u s' x
  assume s: "packets_ok v s" "contracts_owned K s0 s" "canon_since s0 s" "consent_but V s0 None s" "read_participant H p (Some actor) s = Inr x"
    and run: "insert_row cn_contracts cn_contracts_update contract_clash row s = Inr (u, s')"
  have s': "s' = s\<lparr>cn_contracts := cn_contracts s @ [row]\<rparr>" and fresh: "row \<notin> set (cn_contracts s)"
    using run by (auto simp: run_simps contract_clash_def)
  have since: "canon_since s s'" unfolding s' by (rule canon_since_appends)
  have owner: "owner_of q s' = owner_of q s" for q by (simp add: s' owner_of_def find_participant_def)
  have "row \<notin> set (cn_contracts s0)" using fresh s(3) by (auto simp: canon_since_def grows_eq_append)
  then have "contract_by_owner s0 s' row"
    using read_participant_owner [OF s(5)] assms owner by (simp add: contract_by_owner_def s')
  then have "contracts_owned K s0 s'"
    using s(2) contract_by_owner_since [OF _ since] by (auto simp: contracts_owned_def s')
  moreover have "consent_but V s0 None s'" by (rule consent_since [OF s(4) since]) (simp add: s')
  moreover have "packets_ok v s'" unfolding s' by (rule packets_ok_appends [OF s(1)])
  ultimately show "consent_ok v V K s0 None s'" using canon_since_trans [OF s(3) since] by simp
qed

end
