(* ===== verification/Canon_Edges.thy ===== *)
theory Canon_Edges
  imports Canon_Links
begin

text \<open>
  The recorded task graph: it has no cycle, every recorded edge reads back with its file and binding, and so
  the check of the whole graph succeeds.
\<close>

section \<open>Edges\<close>

definition row_pair :: "edge_row \<Rightarrow> string \<times> string" where
  "row_pair r = (er_source r, er_destination r)"

definition edge_readable :: "canon_env \<Rightarrow> canon \<Rightarrow> string \<Rightarrow> bool" where
  "edge_readable v s i \<longleftrightarrow> (\<exists>e. read_edge v i s = Inr e)"

text \<open>While an edge is being bound, \<open>i\<close> is the one that is not readable yet.\<close>

definition edges_but :: "canon_env \<Rightarrow> string option \<Rightarrow> canon \<Rightarrow> bool" where
  "edges_but v i s \<longleftrightarrow> distinct (map er_id (cn_edges s)) \<and> acyclic (set (map row_pair (cn_edges s)))
     \<and> (\<forall>r \<in> set (cn_edges s). row_pair r = edge_pair (er_body r))
     \<and> (\<forall>b \<in> set (cn_bindings s). find_canon_event (snd b) s \<noteq> None)
     \<and> (\<forall>r \<in> set (cn_edges s). i \<noteq> Some (er_id r) \<longrightarrow> edge_readable v s (er_id r))"

lemma read_edge_Inr:
  assumes "read_edge v i s = Inr e"
  obtains r where "find_edge i s = Some r" "et_edge e = er_body r" "et_id e = i" "ed_id (eb_definition (et_edge e)) = i" "et_digest e = er_digest r"
  using assms by (auto simp: read_edge_def Let_def rbind_Inr split: option.splits if_splits)

text \<open>What the check of an edge reads of the state.\<close>

lemma read_edge_cong:
  assumes "read_edge v i s = Inr e" "find_edge i s' = find_edge i s" "cn_project s' = cn_project s" "edge_binding i s' = edge_binding i s"
    and "\<And>p t. cn_files s p = Some t \<Longrightarrow> cn_files s' p = Some t"
  shows "read_edge v i s' = Inr e"
proof -
  obtain r where r: "find_edge i s = Some r" using assms(1) by (rule read_edge_Inr)
  obtain path where path: "edge_path i (er_digest r) = Inr path" "cn_files s path = Some (json_text (edge_json (er_body r)))"
    using assms(1) r by (auto simp: read_edge_def Let_def rbind_Inr split: if_splits)
  then have "cn_files s' path = Some (json_text (edge_json (er_body r)))" using assms(5) by blast
  then have "read_edge v i s' = read_edge v i s"
    unfolding read_edge_def assms(2-4) r option.case Let_def path(1) rbind_def sum.case path(2) by simp
  with assms(1) show ?thesis by simp
qed

lemma edge_binding_since:
  assumes "\<forall>b \<in> set (cn_bindings s). find_canon_event (snd b) s \<noteq> None" "canon_since s s'"
    and "\<And>b. b \<in> set (cn_bindings s') \<Longrightarrow> fst b = i \<Longrightarrow> b \<in> set (cn_bindings s)"
  shows "edge_binding i s' = edge_binding i s"
proof -
  obtain zs where zs: "cn_bindings s' = cn_bindings s @ zs" using assms(2) by (auto simp: canon_since_def grows_eq_append)
  show ?thesis
  proof (cases "find (\<lambda>b. fst b = i) (cn_bindings s)")
    case None
    then have "\<forall>b \<in> set (cn_bindings s). fst b \<noteq> i" by (blast dest: find_NoneD)
    then have "\<forall>b \<in> set (cn_bindings s'). fst b \<noteq> i" using assms(3) by blast
    then have "find (\<lambda>b. fst b = i) (cn_bindings s') = None" unfolding find_None_iff by blast
    with None show ?thesis by (simp add: edge_binding_def)
  next
    case (Some b)
    then obtain e where "find_canon_event (snd b) s = Some e" using assms(1) by (auto dest: find_SomeD)
    with Some zs find_event_since [OF _ assms(2)] show ?thesis by (simp add: edge_binding_def find_append)
  qed
qed

lemma edges_since:
  assumes inv: "edges_but v i s" and since: "canon_since s s'" and edges: "cn_edges s' = cn_edges s @ rs"
    and new_rows: "\<And>r. r \<in> set rs \<Longrightarrow> i = Some (er_id r) \<and> row_pair r = edge_pair (er_body r)"
    and ids: "distinct (map er_id (cn_edges s'))" and graph: "acyclic (set (map row_pair (cn_edges s')))"
    and bindings: "\<And>b. b \<in> set (cn_bindings s') \<Longrightarrow> b \<in> set (cn_bindings s) \<or> i = Some (fst b) \<and> find_canon_event (snd b) s' \<noteq> None"
  shows "edges_but v i s'"
proof -
  have bound: "\<forall>b \<in> set (cn_bindings s). find_canon_event (snd b) s \<noteq> None" using inv by (simp add: edges_but_def)
  have "\<forall>b \<in> set (cn_bindings s'). find_canon_event (snd b) s' \<noteq> None"
    using bindings bound find_event_since [OF _ since] by blast
  moreover have "edge_readable v s' (er_id r)" if r: "r \<in> set (cn_edges s)" "i \<noteq> Some (er_id r)" for r
  proof -
    obtain e where e: "read_edge v (er_id r) s = Inr e" using inv r by (auto simp: edges_but_def edge_readable_def)
    have "find_edge (er_id r) s' = find_edge (er_id r) s"
      using e by (rule read_edge_Inr) (simp add: find_edge_def edges find_append)
    moreover have "edge_binding (er_id r) s' = edge_binding (er_id r) s"
      by (rule edge_binding_since [OF bound since]) (use bindings r(2) in auto)
    moreover have "cn_project s' = cn_project s" "cn_files s p = Some t \<Longrightarrow> cn_files s' p = Some t" for p t
      using since by (auto simp: canon_since_def extends_def)
    ultimately show ?thesis unfolding edge_readable_def using read_edge_cong [OF e] by blast
  qed
  ultimately show ?thesis
    using inv ids graph new_rows unfolding edges_but_def by (auto simp: edges)
qed

lemma edges_same:
  assumes "edges_but v i s" "canon_since s s'" "cn_edges s' = cn_edges s" "cn_bindings s' = cn_bindings s"
  shows "edges_but v i s'"
proof -
  have "distinct (map er_id (cn_edges s))" "acyclic (set (map row_pair (cn_edges s)))" using assms(1) unfolding edges_but_def by blast+
  then show ?thesis using assms(3,4) by (intro edges_since [OF assms(1,2), of "[]"]) simp_all
qed

lemma edges_appends:
  assumes "edges_but v i s"
  shows "edges_but v i (s\<lparr>cn_base := (cn_base s)\<lparr>receipts := x\<rparr>\<rparr>)" "edges_but v i (s\<lparr>cn_participants := cn_participants s @ ps\<rparr>)"
    "edges_but v i (s\<lparr>cn_supersessions := cn_supersessions s @ ls\<rparr>)" "edges_but v i (s\<lparr>cn_current := cs\<rparr>)"
    "edges_but v i (s\<lparr>cn_events := cn_events s @ es\<rparr>)" "edges_but v i (s\<lparr>cn_contracts := cn_contracts s @ ks\<rparr>)"
    "edges_but v i (s\<lparr>cn_exchanges := cn_exchanges s @ xs\<rparr>)"
  by (rule edges_same [OF assms canon_since_appends(8)] edges_same [OF assms canon_since_appends(2)]
      edges_same [OF assms canon_since_appends(4)] edges_same [OF assms canon_since_appends(7)] edges_same [OF assms canon_since_appends(1)]
      edges_same [OF assms canon_since_appends(3)] edges_same [OF assms canon_since_appends(6)]; simp)+

lemma edges_file:
  assumes "edges_but v i s" "cn_files s p = None"
  shows "edges_but v i (s\<lparr>cn_files := (cn_files s)(p \<mapsto> t)\<rparr>)"
  by (rule edges_same [OF assms(1) canon_since_file [of s p t, OF assms(2)]]) simp_all

lemma edges_put_file: "keeps (edges_but v i) (put_file code p t)"
  by (rule validI) (auto simp: put_file_def run_simps edges_file)

lemma edges_event: "keeps (edges_but v i) (add_canon_event v' rid kind actor key r)"
  by (rule validI) (clarsimp simp: add_canon_event_Inr, rule edges_appends)

lemma edges_receipt: "keeps (edges_but v i) (canon_receipt k v' kind body)"
  by (rule keeps_canon_receipt) (rule edges_appends)

lemma edges_set_state:
  assumes "edges_but v i s"
  shows "edges_but v i (set_exchange_state H j st n s)"
proof -
  let ?s = "set_exchange_state H j st n s"
  have frame: "cn_edges ?s = cn_edges s" "cn_bindings ?s = cn_bindings s" "cn_files ?s = cn_files s" "cn_project ?s = cn_project s"
      "find_edge k ?s = find_edge k s" "edge_binding k ?s = edge_binding k s" "find_canon_event rid ?s = find_canon_event rid s" for k rid
    by (simp_all add: set_exchange_state_def find_edge_def edge_binding_def find_canon_event_def split: option.split)
  have "edge_readable v ?s k" if "edge_readable v s k" for k
    using that read_edge_cong [of v k s _ ?s] by (auto simp: edge_readable_def frame)
  with assms show ?thesis unfolding edges_but_def frame by blast
qed

section \<open>The search over the whole graph\<close>

lemma graph_walk_pairs:
  assumes "distinct (map er_id (cn_edges s))" "set rs \<subseteq> set (cn_edges s)" "graph_walk v ps rs s = Inr es"
  shows "map (\<lambda>e. edge_pair (et_edge e)) es = map (\<lambda>r. edge_pair (er_body r)) rs"
  using assms(2,3)
proof (induction rs arbitrary: ps es)
  case Nil
  then show ?case by simp
next
  case (Cons r rs)
  then obtain e es' where e: "read_edge v (er_id r) s = Inr e" "graph_walk v (ps @ [edge_pair (et_edge e)]) rs s = Inr es'" "es = e # es'"
    by (auto simp: rbind_Inr split: if_splits)
  have "find_edge (er_id r) s = Some r"
    unfolding find_edge_def using Cons.prems(1) by (intro find_key_unique [OF assms(1)]) simp_all
  then have "et_edge e = er_body r" using e(1) by (auto elim: read_edge_Inr)
  with Cons.IH [OF _ e(2)] Cons.prems(1) e(3) show ?case by simp
qed

lemma graph_walk_runs:
  assumes "edges_but v None s" "set rs \<subseteq> set (cn_edges s)" "acyclic (set (ps @ map row_pair rs))"
  shows "\<exists>es. graph_walk v ps rs s = Inr es"
  using assms(2,3)
proof (induction rs arbitrary: ps)
  case Nil
  show ?case by simp
next
  case (Cons r rs)
  obtain e where e: "read_edge v (er_id r) s = Inr e" using assms(1) Cons.prems(1) by (auto simp: edges_but_def edge_readable_def)
  have "find_edge (er_id r) s = Some r"
    unfolding find_edge_def using Cons.prems(1) assms(1) by (intro find_key_unique) (simp_all add: edges_but_def)
  then have "et_edge e = er_body r" using e by (auto elim: read_edge_Inr)
  then have pair: "edge_pair (et_edge e) = row_pair r" using assms(1) Cons.prems(1) by (simp add: edges_but_def)
  have "acyclic (set (ps @ [row_pair r]))" by (rule acyclic_subset [OF Cons.prems(2)]) auto
  then have "\<not> would_cycle ps (fst (row_pair r)) (snd (row_pair r))" using acyclic_add_edge [of ps "fst (row_pair r)" "snd (row_pair r)"] by simp
  moreover obtain es where "graph_walk v (ps @ [row_pair r]) rs s = Inr es"
    using Cons.IH [of "ps @ [row_pair r]"] Cons.prems by auto
  ultimately show ?case using e pair by (simp add: rbind_def)
qed

section \<open>Registration and binding\<close>

lemma edges_weaken: "edges_but v None s \<Longrightarrow> edges_but v i s"
  unfolding edges_but_def by blast

lemma edges_write:
  assumes "same_engine v v'"
  shows "valid (edges_but v None) (write_edge v' l deps b) (\<lambda>_. edges_but v (Some (ed_id (eb_definition b))))"
proof (rule validI)
  fix s x s'
  assume inv: "edges_but v None s" and run: "write_edge v' l deps b s = Inr (x, s')"
  let ?i = "ed_id (eb_definition b)"
  show "edges_but v (Some ?i) s'"
  proof (cases "find_edge ?i s")
    case (Some r)
    with run have "s' = s" by (simp add: write_edge_def Let_def run_simps)
    with inv show ?thesis by (simp add: edges_weaken)
  next
    case None
    with run obtain es path s1 where graph: "graph_edges v' MAX_GRAPH_EDGES s = Inr es"
      and cycle: "\<not> would_cycle (map (\<lambda>e. edge_pair (et_edge e)) es) (fst (edge_pair b)) (snd (edge_pair b))"
      and put: "put_file ''CANON_EDGE_FILE_INTEGRITY'' path (json_text (edge_json b)) s = Inr ((), s1)"
      and s': "s' = s1\<lparr>cn_edges := cn_edges s1 @ [\<lparr>er_id = ?i, er_digest = content_digest (ce_hash v') (edge_json b), er_source = fst (edge_pair b),
           er_destination = snd (edge_pair b), er_body = b, er_path = path\<rparr>]\<rparr>"
      by (auto simp: write_edge_def Let_def run_simps dest!: check_lease_reads)
    have s1: "edges_but v None s1" "cn_edges s1 = cn_edges s"
      using validD [OF edges_put_file inv put] put by (auto simp: put_file_def run_simps)
    have ids: "distinct (map er_id (cn_edges s))" using inv by (simp add: edges_but_def)
    have walk: "graph_walk v' [] (cn_edges s) s = Inr es" using graph by (simp add: graph_edges_def split: if_splits)
    have pairs: "map row_pair (cn_edges s) = map (\<lambda>e. edge_pair (et_edge e)) es"
      using graph_walk_pairs [OF ids subset_refl walk] inv by (simp add: edges_but_def)
    have "acyclic (set (map row_pair (cn_edges s) @ [edge_pair b]))"
      using acyclic_add_edge [of "map row_pair (cn_edges s)" "fst (edge_pair b)" "snd (edge_pair b)"] cycle inv pairs
      by (simp add: edges_but_def)
    moreover have "?i \<notin> er_id ` set (cn_edges s)" using None by (auto simp: find_edge_def find_None_iff)
    moreover have "canon_since s1 s'" unfolding s' by (simp add: canon_since_def grows_refl grows_append extends_def find_participant_def)
    ultimately show ?thesis
      using ids s1 by (intro edges_since [OF edges_weaken [OF s1(1)], where rs = "drop (length (cn_edges s)) (cn_edges s')"])
        (auto simp: s' row_pair_def)
  qed
qed

lemma edges_checked:
  assumes "same_engine v v'"
  shows "valid (edges_but v (Some i)) (checked_edge v' i) (\<lambda>e s. edges_but v None s \<and> et_id e = i)"
proof (rule validI)
  fix s e s'
  assume inv: "edges_but v (Some i) s" and run: "checked_edge v' i s = Inr (e, s')"
  then have e: "read_edge v i s = Inr e" "s' = s" by (auto simp: run_simps same_engine_reads [OF assms])
  then have "edges_but v None s" using inv unfolding edges_but_def edge_readable_def by auto
  with e show "edges_but v None s' \<and> et_id e = i" by (auto elim: read_edge_Inr)
qed

lemma edges_register:
  assumes "same_engine v v'"
  shows "keeps (edges_but v None) (register_task_edge v' l actor r destination)"
  unfolding register_task_edge_def duplicate_edge_def Let_def
  apply (rule valid_check, rule keeps_canon_transaction, rule valid_let)
  apply (rule keeps_bnd, intro keeps_rules, rule keeps_bnd, intro keeps_rules, rule keeps_if, intro keeps_rules)
  apply (rule keeps_bnd, intro keeps_rules, rule keeps_bnd, intro keeps_rules, rule keeps_bnd, intro keeps_rules,
      rule keeps_bnd, intro keeps_rules, rule keeps_case_option, intro keeps_rules, rule keeps_bnd, intro keeps_rules)
  apply (rule valid_split, rule edges_write [OF assms], unfold edge_body.select_convs)
  apply (rule valid_bnd, rule edges_checked [OF assms])
  apply (rule valid_weaken [where I = "edges_but v None"])
   apply (intro keeps_rules edges_event edges_receipt)
  apply simp
  done

text \<open>A foreign edge is one that its source project read under the identifier it was asked for.\<close>

lemma edges_bind:
  assumes "same_engine v v'" "\<And>e. foreign = Some e \<Longrightarrow> ed_id (eb_definition (et_edge e)) = et_id e"
  shows "keeps (edges_but v None) (bind_task_edge v' l actor r foreign)"
proof -
  let ?I = "edges_but v None" and ?J = "edges_but v (Some (bi_edge r))"
  have found: "valid ?I (if bi_project r = pid then bnd (checked_edge v' (bi_edge r)) (\<lambda>e. ret (Some e)) else ret foreign)
      (\<lambda>x s. ?I s \<and> (\<forall>e. x = Some e \<longrightarrow> ed_id (eb_definition (et_edge e)) = et_id e))" for pid
    by (rule validI) (auto simp: run_simps assms(2) split: if_splits elim!: read_edge_Inr)
  have event: "valid ?J (add_canon_event v' rid kind actor key res) (\<lambda>_ s. ?J s \<and> find_canon_event rid s \<noteq> None)" for rid kind key res
  proof (rule validI)
    fix s x s'
    assume inv: "?J s" and run: "add_canon_event v' rid kind actor key res s = Inr (x, s')"
    have "find_canon_event rid s' \<noteq> None"
      using run unfolding find_canon_event_def find_None_iff by (auto simp: add_canon_event_Inr)
    with validD [OF edges_event inv run] show "?J s' \<and> find_canon_event rid s' \<noteq> None" by simp
  qed
  have bound: "valid (\<lambda>s. ?J s \<and> find_canon_event rid s \<noteq> None) (insert_into cn_bindings cn_bindings_update fst (bi_edge r, rid)) (\<lambda>_. ?J)" for rid
  proof (rule validI, elim conjE)
    fix s x s'
    assume inv: "?J s" and found: "find_canon_event rid s \<noteq> None"
      and run: "insert_into cn_bindings cn_bindings_update fst (bi_edge r, rid) s = Inr (x, s')"
    have s': "s' = s\<lparr>cn_bindings := cn_bindings s @ [(bi_edge r, rid)]\<rparr>" using run by (simp add: run_simps)
    have since: "canon_since s s'" unfolding s' by (rule canon_since_appends)
    have "distinct (map er_id (cn_edges s))" "acyclic (set (map row_pair (cn_edges s)))" using inv unfolding edges_but_def by blast+
    then show "?J s'"
      using found by (intro edges_since [OF inv since, of "[]"]) (auto simp: s' find_canon_event_def)
  qed
  have writes: "valid ?I (bnd (write_edge v' l False (et_edge e)) (\<lambda>_.
               bnd (lift_result (edge_path (bi_edge r) (bi_digest r))) (\<lambda>path.
               bnd (ret \<lparr>et_project = pid, et_id = bi_edge r, et_digest = bi_digest r, et_edge = et_edge e, et_path = path,
                 et_role = (if bi_project r = pid then ''both'' else ''destination''), et_bound = True, et_duplicate = False\<rparr>) (\<lambda>res.
               bnd (add_canon_event v' (bi_request r) ''task_edge_bind'' actor key (Edge_Recorded res)) (\<lambda>_.
               bnd (insert_into cn_bindings cn_bindings_update fst (bi_edge r, bi_request r)) (\<lambda>_.
               bnd (canon_receipt 0 v' ''canon_task_edge_bound'' (edge_result_fields res)) (\<lambda>_.
               checked_edge v' (bi_edge r)))))))) (\<lambda>_. ?I)"
    if "ed_id (eb_definition (et_edge e)) = bi_edge r" for e pid key
    apply (rule valid_split, rule edges_write [OF assms(1), of l False "et_edge e", unfolded that], rule valid_lift, rule valid_let)
    apply (rule valid_bnd, rule event, rule valid_split, rule bound, rule valid_split, rule edges_receipt)
    apply (rule valid_post, rule edges_checked [OF assms(1)], simp)
    done
  show ?thesis
    unfolding bind_task_edge_def duplicate_edge_def
    apply (rule valid_check, rule keeps_canon_transaction, rule keeps_bnd, rule keeps_gets, rule valid_bnd, rule found)
    subgoal for pid x
      apply (cases x)
      subgoal by (rule valid_weaken [where I = ?I]) (simp, intro keeps_rules, simp)
      subgoal for e
        apply (simp only: option.case)
        apply (rule valid_require)
        apply (rule valid_assume [where A = "ed_id (eb_definition (et_edge e)) = bi_edge r"], simp)
        apply (rule valid_weaken [where I = ?I])
         apply (rule valid_let, rule valid_require, rule keeps_bnd, intro keeps_rules, rule valid_let, rule keeps_bnd, intro keeps_rules)
         apply (rule keeps_if, intro keeps_rules, rule keeps_bnd, intro keeps_rules, rule keeps_bnd, intro keeps_rules, rule keeps_if, intro keeps_rules)
         apply (rule writes, assumption)
        apply simp
        done
      done
    done
qed

end
