(* ===== verification/Continuity.thy ===== *)
theory Continuity
  imports Canon_Laws Plan_Rows
begin

text \<open>
  Continuity of a participant (task_binding_registry.py): an offer pins a source client, its participants, the Plan
  task and the heads of the lanes; its acceptance by the destination client moves the participants to that client
  and retires the source. The tables belong to the chat lineage lane, the participants to the exchange lane; both
  are written in one coordinated transaction.
\<close>

section \<open>The authority checkpoint of the exchange lane\<close>

text \<open>\<open>CanonContinuationLocator\<close>, \<open>CanonContinuationCheckpoint\<close> and \<open>continuation_checkpoint\<close> (canon_task_graph.py).\<close>

definition locator_json :: "canon_locator \<Rightarrow> json" where
  "locator_json x = JObj [(''sequence'', JInt (int (cl_sequence x))), (''exchange_id'', JStr (cl_id x)),
     (''envelope_digest'', JStr (cl_digest x)), (''source_project_id'', JStr (cl_source x)),
     (''destination_project_id'', JStr (cl_destination x)), (''sender_id'', JStr (cl_sender x)), (''receiver_id'', JStr (cl_receiver x)),
     (''state'', JStr (canon_state_name (cl_state x))), (''version'', JInt (cl_version x)), (''expected_contract'', jopt (cl_expected x))]"

definition checkpoint_json :: "canon_checkpoint \<Rightarrow> json" where
  "checkpoint_json c = JObj [(''schema_version'', JInt 1), (''project_id'', JStr (cp_project c)),
     (''participant_ids'', jstrings (cp_participants c)), (''event_sequence'', JInt (int (cp_sequence c))),
     (''event_head'', jopt (cp_head c)), (''pending'', JArr (map locator_json (cp_pending c))),
     (''decision_tokens_carried'', JBool False), (''canon_state_mutated'', JBool False),
     (''native_task_attestation'', JStr ''not_provided'')]"

definition pending_states :: "canon_state list" where
  "pending_states = [Sealed, Received, Needs_Clarification]"

definition valid_locator :: "canon_locator \<Rightarrow> bool" where
  "valid_locator x \<longleftrightarrow> 1 \<le> cl_sequence x \<and> list_all uuid_pattern [cl_id x, cl_source x, cl_destination x, cl_sender x, cl_receiver x]
     \<and> digest_pattern (cl_digest x) \<and> cl_state x \<in> set pending_states \<and> 1 \<le> cl_version x \<and> pred_option digest_pattern (cl_expected x)"

definition valid_checkpoint :: "canon_checkpoint \<Rightarrow> bool" where
  "valid_checkpoint c \<longleftrightarrow> uuid_pattern (cp_project c) \<and> 1 \<le> length (cp_participants c) \<and> length (cp_participants c) \<le> 32
     \<and> pred_option digest_pattern (cp_head c) \<and> length (cp_pending c) \<le> 256 \<and> list_all valid_locator (cp_pending c)
     \<and> cp_participants c = sort (remdups (cp_participants c)) \<and> list_all uuid_pattern (cp_participants c)
     \<and> utf8_size (json_dump (checkpoint_json c)) \<le> 131072"

definition pending_row :: "string list \<Rightarrow> string \<Rightarrow> exchange_row \<Rightarrow> bool" where
  "pending_row ids pid r \<longleftrightarrow> xc_state r \<in> set pending_states
     \<and> (xc_source r = pid \<and> xc_sender r \<in> set ids \<or> xc_destination r = pid \<and> xc_receiver r \<in> set ids)"

definition locator_of :: "exchange_row \<Rightarrow> canon_locator" where
  "locator_of r = \<lparr>cl_sequence = xc_sequence r, cl_id = xc_id r, cl_digest = xc_digest r, cl_source = xc_source r,
     cl_destination = xc_destination r, cl_sender = xc_sender r, cl_receiver = xc_receiver r, cl_state = xc_state r,
     cl_version = xc_version r, cl_expected = ms_expected (xv_message (xc_body r))\<rparr>"

definition pending_locator :: "canon_env \<Rightarrow> canon \<Rightarrow> exchange_row \<Rightarrow> canon_locator result" where
  "pending_locator v s r = rbind (read_exchange v (xc_id r) s) (\<lambda>q.
     if valid_locator (locator_of q) then Inr (locator_of q) else Inl (Raised ''ValidationError''))"

definition continuation_checkpoint :: "canon_env \<Rightarrow> string list \<Rightarrow> nat \<Rightarrow> canon \<Rightarrow> canon_checkpoint result" where
  "continuation_checkpoint v participants limit s =
     (let ids = sort (remdups participants) in
      if \<not> (1 \<le> length ids \<and> length ids \<le> 32) \<or> length ids \<noteq> length participants \<or> \<not> list_all uuid_pattern ids
         \<or> \<not> (1 \<le> limit \<and> limit \<le> 256)
      then Inl (LaneError ''CANON_CONTINUITY_BUDGET'')
      else rbind (rcollect (\<lambda>i. read_participant (ce_hash v) i None s) ids) (\<lambda>_.
        rbind (verify_canon_history (ce_hash v) 50000 s) (\<lambda>history.
        let rows = filter (pending_row ids (cn_project s)) (sort_key xc_sequence (cn_exchanges s)) in
        if limit < length rows then Inl (LaneError ''CANON_CONTINUITY_BUDGET'')
        else rbind (rcollect (pending_locator v s) rows) (\<lambda>pending.
          let c = \<lparr>cp_project = cn_project s, cp_participants = ids, cp_sequence = fst history, cp_head = snd history, cp_pending = pending\<rparr> in
          if valid_checkpoint c then Inr c else Inl (Raised ''ValidationError'')))))"

section \<open>Requests and results\<close>

record continuation_offer =
  co_request :: string
  co_participant :: string
  co_destination :: string
  co_revision :: int
  co_task :: string
  co_contract :: string
  co_memory :: "string option"
  co_expires_in :: int
  co_attested :: bool

record continuation_choice =
  ch_request :: string
  ch_continuation :: string
  ch_digest :: string

definition offer_json :: "continuation_offer \<Rightarrow> json" where
  "offer_json r = JObj [(''request_id'', JStr (co_request r)), (''participant_id'', JStr (co_participant r)),
     (''destination_participant_id'', JStr (co_destination r)), (''plan_revision'', JInt (co_revision r)), (''task_id'', JStr (co_task r)),
     (''contract_digest'', JStr (co_contract r)), (''memory_checkpoint'', jopt (co_memory r)),
     (''expires_in_seconds'', JInt (co_expires_in r)), (''require_native_attestation'', JBool (co_attested r))]"

definition valid_offer :: "continuation_offer \<Rightarrow> bool" where
  "valid_offer r \<longleftrightarrow> list_all uuid_pattern [co_request r, co_participant r, co_destination r] \<and> 1 \<le> co_revision r
     \<and> task_id_pattern (co_task r) \<and> digest_pattern (co_contract r) \<and> pred_option digest_pattern (co_memory r)
     \<and> 30 \<le> co_expires_in r \<and> co_expires_in r \<le> 86400"

text \<open>\<open>ContinuationRecoveryOffer\<close> without its offer; the action redacts the reason before it is used.\<close>

definition valid_terms :: "recovery_terms \<Rightarrow> bool" where
  "valid_terms a \<longleftrightarrow> digest_pattern (rt_source a) \<and> digest_pattern (rt_destination a) \<and> bounded 1 1000 (rt_reason a)"

definition terms_fields :: "recovery_terms \<Rightarrow> (string \<times> json) list" where
  "terms_fields a = [(''expected_source_participant_digest'', JStr (rt_source a)),
     (''expected_destination_participant_digest'', JStr (rt_destination a)), (''reason'', JStr (rt_reason a))]"

definition offer_key :: "continuation_offer \<Rightarrow> recovery_terms option \<Rightarrow> json" where
  "offer_key r terms = (case terms of None \<Rightarrow> offer_json r
     | Some a \<Rightarrow> JObj [(''offer'', offer_json r), (''administrative'', JObj (terms_fields a))])"

definition choice_fields :: "continuation_choice \<Rightarrow> (string \<times> json) list" where
  "choice_fields r = [(''request_id'', JStr (ch_request r)), (''continuation_id'', JStr (ch_continuation r)),
     (''continuation_digest'', JStr (ch_digest r))]"

definition valid_choice :: "continuation_choice \<Rightarrow> bool" where
  "valid_choice r \<longleftrightarrow> uuid_pattern (ch_request r) \<and> uuid_pattern (ch_continuation r) \<and> digest_pattern (ch_digest r)"

definition offered_json :: "continuation_offered \<Rightarrow> json" where
  "offered_json x = JObj [(''continuation_id'', JStr (fo_id x)), (''continuation_digest'', JStr (fo_digest x)),
     (''source_client_id'', JStr (fo_source x)), (''destination_client_id'', JStr (fo_destination x)), (''expires_at'', JStr (fo_expires x)),
     (''state'', JStr ''offered''), (''identity_scope'', JStr ''authenticated_engine_clients''),
     (''native_task_attestation'', JStr ''not_provided''), (''host_task_created'', JBool False), (''canon_checkpoint_digest'', jopt (fo_canon x))]"

definition accepted_fields :: "continuation_accepted \<Rightarrow> (string \<times> json) list" where
  "accepted_fields x = [(''continuation_id'', JStr (fa_id x)), (''participant_id'', JStr (fa_participant x)),
     (''owner_generation'', JInt (fa_generation x)), (''owner_client_id'', JStr (fa_owner x)),
     (''previous_owner_client_id'', JStr (fa_previous x)), (''binding_digest'', JStr (fa_binding x)), (''plan_revision'', JInt (fa_revision x)),
     (''task_id'', JStr (fa_task x)), (''transferred_participant_ids'', jstrings (fa_participants x)),
     (''source_client_closeout_only'', JBool True), (''plan_mutated'', JBool False), (''jobs_replayed'', JBool False),
     (''native_task_attestation'', JStr ''not_provided''), (''host_session_attached'', JBool False),
     (''source_bytes_reverified'', JBool False), (''canon_checkpoint_digest'', jopt (fa_canon x)), (''canon_decisions_replayed'', JBool False)]"

definition continuation_result_json :: "continuation_result \<Rightarrow> json" where
  "continuation_result_json r = (case r of Was_Offered x \<Rightarrow> offered_json x | Was_Accepted x \<Rightarrow> JObj (accepted_fields x)
     | Was_Cancelled i \<Rightarrow> JObj [(''continuation_id'', JStr i), (''state'', JStr ''cancelled'')])"

definition pinned_json :: "string \<times> string \<Rightarrow> json" where
  "pinned_json x = JObj [(''participant_id'', JStr (fst x)), (''digest'', JStr (snd x))]"

definition offer_body_json :: "continuation_body \<Rightarrow> json" where
  "offer_body_json b = JObj ([(''continuation_id'', JStr (cb_id b)), (''project_id'', JStr (cb_project b)),
     (''source_root'', JStr (cb_source_root b)), (''state_root'', JStr (cb_state_root b)), (''participant_id'', JStr (cb_participant b)),
     (''source_client_id'', JStr (cb_source_client b)), (''source_participant_digest'', JStr (cb_source_digest b)),
     (''source_owner_generation'', JInt (cb_generation b)), (''destination_participant_id'', JStr (cb_destination b)),
     (''source_participants'', JArr (map pinned_json (cb_participants b))),
     (''destination_participant_digest'', JStr (cb_destination_digest b)), (''destination_client_id'', JStr (cb_destination_client b)),
     (''task'', reference_json (cb_task b)), (''memory_checkpoint'', jopt (cb_memory b)), (''lineage_head'', jopt (cb_lineage b))]
     @ (case cb_canon b of None \<Rightarrow> [] | Some (c, d) \<Rightarrow> [(''canon_checkpoint'', checkpoint_json c), (''canon_checkpoint_digest'', JStr d)])
     @ [(''plan_event_head'', jopt (cb_plan_head b)), (''expires_at'', JStr (cb_expires b)), (''created_at'', JStr (cb_created b)),
     (''identity_scope'', JStr ''authenticated_engine_clients''), (''native_task_attestation'', JStr ''not_provided''),
     (''source_bytes_reverified'', JBool False)]
     @ (case cb_recovery b of None \<Rightarrow> []
        | Some (a, actor) \<Rightarrow> [(''administrative_recovery'', JObj (terms_fields a @ [(''authorized_by_client_id'', JStr actor)]))]))"

definition binding_json :: "ownership_binding \<Rightarrow> json" where
  "binding_json b = JObj [(''project_id'', JStr (ow_project b)), (''participant_id'', JStr (ow_participant b)),
     (''generation'', JInt (ow_generation b)), (''previous_participant'', participant_json (ow_previous b)),
     (''current_participant'', participant_json (ow_current b)), (''continuation_digest'', JStr (ow_continuation b)),
     (''task'', reference_json (ow_task b)), (''source_client_id'', JStr (ow_source b)), (''destination_client_id'', JStr (ow_destination b)),
     (''created_at'', JStr (ow_created b)), (''canon_checkpoint_digest'', jopt (ow_canon b)), (''canon_decisions_replayed'', JBool False),
     (''native_task_attestation'', JStr ''not_provided''), (''source_client_closeout_only'', JBool True)]"

section \<open>Events\<close>

definition continuation_event_json :: "continuation_event \<Rightarrow> json" where
  "continuation_event_json e = JObj [(''sequence'', JInt (int (cw_sequence e))), (''request_id'', JStr (cw_request e)),
     (''kind'', JStr (cw_kind e)), (''actor_id'', JStr (cw_actor e)), (''input_digest'', JStr (cw_input e)),
     (''result_json'', JStr (json_text (continuation_result_json (cw_result e)))), (''previous_digest'', jopt (cw_previous e)),
     (''created_at'', JStr (cw_created e))]"

definition new_continuation_event ::
  "canon_env \<Rightarrow> string \<Rightarrow> string \<Rightarrow> string \<Rightarrow> string \<Rightarrow> continuation_result \<Rightarrow> canon \<Rightarrow> continuation_event" where
  "new_continuation_event v rid kind actor key r s =
     (let prior = latest cw_sequence (cn_continuations s);
          e = \<lparr>cw_sequence = (case prior of None \<Rightarrow> 1 | Some p \<Rightarrow> cw_sequence p + 1), cw_request = rid, cw_kind = kind,
            cw_actor = actor, cw_input = key, cw_result = r, cw_previous = map_option cw_digest prior, cw_digest = [],
            cw_created = now (ce_world v)\<rparr>
      in e\<lparr>cw_digest := content_digest (ce_hash v) (continuation_event_json e)\<rparr>)"

definition continuation_clash :: "continuation_event \<Rightarrow> continuation_event \<Rightarrow> bool" where
  "continuation_clash a b \<longleftrightarrow> cw_sequence a = cw_sequence b \<or> cw_request a = cw_request b \<or> cw_digest a = cw_digest b"

definition add_continuation :: "canon_env \<Rightarrow> string \<Rightarrow> string \<Rightarrow> string \<Rightarrow> string \<Rightarrow> continuation_result \<Rightarrow> (canon, unit) action" where
  "add_continuation v rid kind actor key r =
     bnd (gets (new_continuation_event v rid kind actor key r)) (\<lambda>e.
     insert_row cn_continuations cn_continuations_update continuation_clash e)"

definition continuation_replay :: "(string \<Rightarrow> string) \<Rightarrow> string \<Rightarrow> string \<Rightarrow> string \<Rightarrow> string \<Rightarrow> canon \<Rightarrow> continuation_result option result" where
  "continuation_replay H rid kind actor key s =
     (case find (\<lambda>e. cw_request e = rid) (cn_continuations s) of
        None \<Rightarrow> Inr None
      | Some e \<Rightarrow>
          if (cw_kind e, cw_actor e, cw_input e) \<noteq> (kind, actor, key) then Inl (LaneError ''CONTINUATION_REQUEST_CONFLICT'')
          else if content_digest H (continuation_event_json e) \<noteq> cw_digest e then Inl (LaneError ''CONTINUATION_HISTORY_INTEGRITY'')
          else Inr (Some (cw_result e)))"

fun continuation_walk :: "(string \<Rightarrow> string) \<Rightarrow> nat \<Rightarrow> string option \<Rightarrow> continuation_event list \<Rightarrow> string option option" where
  "continuation_walk H n p [] = Some p"
| "continuation_walk H n p (e # es) =
     (if cw_sequence e = n \<and> cw_previous e = p \<and> cw_digest e = content_digest H (continuation_event_json e)
      then continuation_walk H (Suc n) (Some (cw_digest e)) es else None)"

definition verify_continuations :: "(string \<Rightarrow> string) \<Rightarrow> nat \<Rightarrow> canon \<Rightarrow> (nat \<times> string option) result" where
  "verify_continuations H limit s =
     (let rows = sort_key cw_sequence (cn_continuations s) in
      if \<not> (1 \<le> limit \<and> limit \<le> 50000) \<or> limit < length rows then Inl (LaneError ''CONTINUATION_HISTORY_BUDGET'')
      else case continuation_walk H 1 None rows of
        None \<Rightarrow> Inl (LaneError ''CONTINUATION_HISTORY_INTEGRITY'') | Some h \<Rightarrow> Inr (length rows, h))"

section \<open>The work boundary\<close>

text \<open>\<open>_plan_head\<close>, \<open>_lineage_head\<close> and \<open>_reference\<close> of a Plan task (project_memory.py), and \<open>_boundary\<close>.\<close>

definition plan_head_revision :: "project \<Rightarrow> int option" where
  "plan_head_revision b = map_option cur_revision (plan_head b)"

definition lineage_head :: "project \<Rightarrow> string option" where
  "lineage_head b = map_option le_cursor (latest le_sequence (lineage b))"

definition plan_task_state :: "(string \<Rightarrow> string) \<Rightarrow> memory_reference \<Rightarrow> project \<Rightarrow> string result" where
  "plan_task_state H ref b =
     (case find_task (the (mr_revision ref)) (mr_key ref) b of
        None \<Rightarrow> Inl (LaneError ''MEMORY_SOURCE_MISMATCH'')
      | Some row \<Rightarrow> (case view H b row of
            Inl e \<Rightarrow> Inl (LaneError ''MEMORY_SOURCE_INTEGRITY'')
          | Inr t \<Rightarrow> if pt_contract_digest t \<noteq> mr_digest ref then Inl (LaneError ''MEMORY_SOURCE_MISMATCH'')
              else Inr (if mr_revision ref = plan_head_revision b then task_state_name (pt_state t) else ''historical'')))"

definition task_reference :: "string \<Rightarrow> int \<Rightarrow> string \<Rightarrow> memory_reference" where
  "task_reference key rv d = \<lparr>mr_kind = ''plan_task'', mr_key = key, mr_digest = d, mr_revision = Some rv, mr_profile = None, mr_lane = None\<rparr>"

definition work_boundary :: "(string \<Rightarrow> string) \<Rightarrow> memory_reference \<Rightarrow> (project, unit) action" where
  "work_boundary H ref =
     bnd (if valid_reference ref then ret () else abort (Raised ''ValidationError'')) (\<lambda>_.
     bnd (bnd (gets (plan_task_state H ref)) lift_result) (\<lambda>state.
     bnd (gets (\<lambda>b. plan_head_revision b = mr_revision ref)) (\<lambda>current.
     bnd (require current ''CONTINUATION_STALE_PLAN'') (\<lambda>_.
     bnd (require (state \<in> set [''queued'', ''active'', ''blocked'']) ''CONTINUATION_TASK_TERMINAL'') (\<lambda>_.
     bnd (gets (\<lambda>b. list_ex (\<lambda>j. jb_state j \<in> {JQueued, JRunning, JUncertain}) (jobs b))) (\<lambda>busy.
     bnd (require (\<not> busy) ''CONTINUATION_WORK_NOT_QUIESCENT'') (\<lambda>_.
     bnd (gets (\<lambda>b. list_ex (\<lambda>e. ef_state e = Prepared) (effects b))) (\<lambda>uncertain.
     bnd (require (\<not> uncertain) ''CONTINUATION_EFFECT_UNCERTAIN'') (\<lambda>_.
     bnd (gets (\<lambda>b. list_ex (\<lambda>t. st_state t \<in> {SPending, SCheckpointing, SReady}) (steers b))) (\<lambda>steered.
     require (\<not> steered) ''CONTINUATION_STEER_PENDING''))))))))))"

definition plan_event_head :: "(project, string option) action" where
  "plan_event_head = bnd (gets plan_head) (\<lambda>h.
     case h of None \<Rightarrow> abort (Raised ''TypeError'') | Some c \<Rightarrow> ret (cur_event_head c))"

section \<open>Offers\<close>

text \<open>
  What the operations take from outside beside the exchange lane's environment: the registered source root, the
  \<open>isoformat\<close> of the clock some seconds later, and the Memory lane's checkpoints.
\<close>

record surroundings =
  sg_source_root :: string
  sg_later :: "int \<Rightarrow> string"
  sg_memory :: "string \<Rightarrow> json option"

definition participants_of :: "string \<Rightarrow> canon \<Rightarrow> string list" where
  "participants_of owner s = take 33 (sort (map pr_id (filter (\<lambda>r. pr_owner r = owner) (cn_participants s))))"

definition pin_participant :: "canon_env \<Rightarrow> string \<Rightarrow> string \<Rightarrow> (canon, string \<times> string) action" where
  "pin_participant v owner i = bnd (check_participant v i (Some owner)) (\<lambda>p. ret (i, content_digest (ce_hash v) (participant_json p)))"

abbreviation checkpointed :: "canon_env \<Rightarrow> string list \<Rightarrow> (canon, canon_checkpoint) action" where
  "checkpointed v ids \<equiv> bnd (gets (continuation_checkpoint v ids 256)) lift_result"

text \<open>A Memory checkpoint that an offer names belongs to this project, this task and the source client.\<close>

definition memory_matches :: "canon_env \<Rightarrow> surroundings \<Rightarrow> string \<Rightarrow> json \<Rightarrow> string \<Rightarrow> string \<Rightarrow> bool" where
  "memory_matches v g pid task client d = (case sg_memory g d of
       None \<Rightarrow> False
     | Some j \<Rightarrow> (j \<noteq> JObj [] \<and> content_digest (ce_hash v) j = d \<and> jget j ''project_id'' = Some (JStr pid)
         \<and> map_option jnorm (jget j ''task'') = Some (jnorm task) \<and> jget j ''source_client_id'' = Some (JStr client)))"

definition offer_clash :: "offer_row \<Rightarrow> offer_row \<Rightarrow> bool" where
  "offer_clash a b \<longleftrightarrow> of_sequence a = of_sequence b \<or> of_id a = of_id b \<or> of_digest a = of_digest b
     \<or> of_state a = Offer_Open \<and> of_state b = Offer_Open \<and> of_source a = of_source b"

definition new_offer :: "canon_env \<Rightarrow> continuation_body \<Rightarrow> canon \<Rightarrow> offer_row" where
  "new_offer v b s = \<lparr>of_sequence = (case latest of_sequence (cn_offers s) of None \<Rightarrow> 1 | Some r \<Rightarrow> of_sequence r + 1),
     of_id = cb_id b, of_participant = cb_participant b, of_source = cb_source_client b, of_destination = cb_destination_client b,
     of_digest = content_digest (ce_hash v) (offer_body_json b), of_body = b, of_state = Offer_Open, of_result = None, of_created = cb_created b\<rparr>"

definition offer_body ::
  "canon_env \<Rightarrow> surroundings \<Rightarrow> string \<Rightarrow> recovery_terms option \<Rightarrow> continuation_offer \<Rightarrow> participant \<Rightarrow> participant
    \<Rightarrow> (string \<times> string) list \<Rightarrow> canon_checkpoint \<Rightarrow> string option \<Rightarrow> canon \<Rightarrow> continuation_body" where
  "offer_body v g actor terms r source destination pinned c plan s = \<lparr>cb_id = draw 0 (ce_world v), cb_project = cn_project s,
     cb_source_root = sg_source_root g, cb_state_root = project_root (cn_base s), cb_participant = co_participant r,
     cb_source_client = pa_owner source, cb_source_digest = content_digest (ce_hash v) (participant_json source),
     cb_generation = pa_generation source, cb_destination = co_destination r, cb_participants = pinned,
     cb_destination_digest = content_digest (ce_hash v) (participant_json destination), cb_destination_client = pa_owner destination,
     cb_task = task_reference (co_task r) (co_revision r) (co_contract r), cb_memory = co_memory r, cb_lineage = lineage_head (cn_base s),
     cb_canon = Some (c, content_digest (ce_hash v) (checkpoint_json c)), cb_plan_head = plan,
     cb_expires = sg_later g (co_expires_in r), cb_created = now (ce_world v), cb_recovery = map_option (\<lambda>a. (a, actor)) terms\<rparr>"

definition offer_rows ::
  "canon_env \<Rightarrow> surroundings \<Rightarrow> string \<Rightarrow> recovery_terms option \<Rightarrow> continuation_offer \<Rightarrow> string \<Rightarrow> (canon, continuation_offered) action" where
  "offer_rows v g actor terms r key =
     bnd (check_participant v (co_participant r) (if terms = None then Some actor else None)) (\<lambda>source.
     bnd (check_participant v (co_destination r) None) (\<lambda>destination.
     bnd (require (case terms of None \<Rightarrow> True | Some a \<Rightarrow> content_digest (ce_hash v) (participant_json source) = rt_source a
        \<and> content_digest (ce_hash v) (participant_json destination) = rt_destination a) ''RECOVERY_PARTICIPANT_CHANGED'') (\<lambda>_.
     bnd (require (pa_owner destination \<noteq> pa_owner source) ''CONTINUATION_DESTINATION_REQUIRED'') (\<lambda>_.
     bnd (at_base (work_boundary (ce_hash v) (task_reference (co_task r) (co_revision r) (co_contract r)))) (\<lambda>_.
     bnd (gets (\<lambda>s. list_ex (\<lambda>o'. of_source o' = pa_owner source \<and> of_state o' = Offer_Open) (cn_offers s))) (\<lambda>open_offer.
     bnd (require (\<not> open_offer) ''CONTINUATION_ALREADY_OFFERED'') (\<lambda>_.
     bnd (gets (participants_of (pa_owner source))) (\<lambda>ids.
     bnd (require (length ids \<le> 32) ''CONTINUATION_PARTICIPANT_BUDGET'') (\<lambda>_.
     bnd (collect (pin_participant v (pa_owner source)) ids) (\<lambda>pinned.
     bnd (checkpointed v ids) (\<lambda>c.
     bnd (gets cn_project) (\<lambda>pid.
     bnd (require (case co_memory r of None \<Rightarrow> True
         | Some d \<Rightarrow> memory_matches v g pid (reference_json (task_reference (co_task r) (co_revision r) (co_contract r))) (pa_owner source) d)
       ''CONTINUATION_MEMORY_MISMATCH'') (\<lambda>_.
     bnd (at_base plan_event_head) (\<lambda>plan.
     bnd (gets (offer_body v g actor terms r source destination pinned c plan)) (\<lambda>b.
     bnd (gets (new_offer v b)) (\<lambda>row.
     bnd (insert_row cn_offers cn_offers_update offer_clash row) (\<lambda>_.
     bnd (ret \<lparr>fo_id = cb_id b, fo_digest = of_digest row, fo_source = pa_owner source, fo_destination = pa_owner destination,
        fo_expires = cb_expires b, fo_canon = map_option snd (cb_canon b)\<rparr>) (\<lambda>res.
     bnd (add_continuation v (co_request r) ''offer'' actor key (Was_Offered res)) (\<lambda>_.
     ret res)))))))))))))))))))"

abbreviation continuation_replayed :: "canon_env \<Rightarrow> string \<Rightarrow> string \<Rightarrow> string \<Rightarrow> string \<Rightarrow> (canon, continuation_result option) action" where
  "continuation_replayed v rid kind actor key \<equiv> bnd (gets (continuation_replay (ce_hash v) rid kind actor key)) lift_result"

definition offer_continuation ::
  "canon_env \<Rightarrow> surroundings \<Rightarrow> lease \<Rightarrow> string \<Rightarrow> recovery_terms option \<Rightarrow> continuation_offer \<Rightarrow> (canon, continuation_offered) action" where
  "offer_continuation v g l actor terms r =
     bnd (if valid_offer r then ret () else abort (Raised ''ValidationError'')) (\<lambda>_.
     bnd (require (\<not> co_attested r) ''NATIVE_TASK_ATTESTATION_UNAVAILABLE'') (\<lambda>_.
     canon_transaction v l (
       bnd (ret (content_digest (ce_hash v) (offer_key r terms))) (\<lambda>key.
       bnd (continuation_replayed v (co_request r) ''offer'' actor key) (\<lambda>prior.
       case prior of
         Some (Was_Offered x) \<Rightarrow> ret x
       | Some _ \<Rightarrow> abort (Raised ''ValidationError'')
       | None \<Rightarrow> offer_rows v g actor terms r key)))))"

section \<open>Acceptance and cancellation\<close>

text \<open>\<open>_offer\<close>.\<close>

definition read_offer :: "canon_env \<Rightarrow> surroundings \<Rightarrow> bool \<Rightarrow> string \<Rightarrow> string \<Rightarrow> canon \<Rightarrow> offer_row result" where
  "read_offer v g current i d s =
     (case find (\<lambda>o'. of_id o' = i) (cn_offers s) of
        None \<Rightarrow> Inl (LaneError ''CONTINUATION_NOT_FOUND'')
      | Some o' \<Rightarrow> let b = of_body o' in
          if of_digest o' \<noteq> d \<or> content_digest (ce_hash v) (offer_body_json b) \<noteq> d \<or> cb_project b \<noteq> cn_project s
             \<or> current \<and> (cb_source_root b \<noteq> sg_source_root g \<or> cb_state_root b \<noteq> project_root (cn_base s))
             \<or> (of_participant o', of_source o', of_destination o') \<noteq> (cb_participant b, cb_source_client b, cb_destination_client b)
          then Inl (LaneError ''CONTINUATION_IDENTITY_MISMATCH'')
          else (case cb_canon b of
              None \<Rightarrow> Inr o'
            | Some (c, cd) \<Rightarrow>
                if \<not> valid_checkpoint c then Inl (Raised ''ValidationError'')
                else if content_digest (ce_hash v) (checkpoint_json c) \<noteq> cd \<or> cp_project c \<noteq> cn_project s
                   \<or> cp_participants c \<noteq> map fst (cb_participants b)
                then Inl (LaneError ''CONTINUATION_CANON_INTEGRITY'')
                else Inr o'))"

abbreviation checked_offer :: "canon_env \<Rightarrow> surroundings \<Rightarrow> bool \<Rightarrow> continuation_choice \<Rightarrow> (canon, offer_row) action" where
  "checked_offer v g current r \<equiv> bnd (gets (read_offer v g current (ch_continuation r) (ch_digest r))) lift_result"

definition check_clock :: "canon_env \<Rightarrow> string \<Rightarrow> (canon, unit) action" where
  "check_clock v t = (case ce_stamp v t of
     None \<Rightarrow> abort (Raised ''ValueError'') | Some i \<Rightarrow> require (instant (ce_world v) < i) ''CONTINUATION_EXPIRED'')"

text \<open>The checks of \<open>accept\<close> against what the offer pinned.\<close>

definition accept_checks :: "canon_env \<Rightarrow> string \<Rightarrow> continuation_body \<Rightarrow> (canon, participant) action" where
  "accept_checks v actor b =
     bnd (check_clock v (cb_expires b)) (\<lambda>_.
     bnd (check_participant v (cb_participant b) (Some (cb_source_client b))) (\<lambda>source.
     bnd (check_participant v (cb_destination b) (Some actor)) (\<lambda>destination.
     bnd (require (content_digest (ce_hash v) (participant_json source) = cb_source_digest b
        \<and> content_digest (ce_hash v) (participant_json destination) = cb_destination_digest b) ''CONTINUATION_OWNERSHIP_CHANGED'') (\<lambda>_.
     bnd (at_base (work_boundary (ce_hash v) (cb_task b))) (\<lambda>_.
     bnd (at_base plan_event_head) (\<lambda>plan.
     bnd (require (plan = cb_plan_head b) ''CONTINUATION_PLAN_CHANGED'') (\<lambda>_.
     bnd (gets (\<lambda>s. lineage_head (cn_base s))) (\<lambda>head.
     bnd (require (head = cb_lineage b) ''CONTINUATION_LINEAGE_CHANGED'') (\<lambda>_.
     bnd (gets (participants_of (cb_source_client b))) (\<lambda>ids.
     bnd (require (ids = map fst (cb_participants b)) ''CONTINUATION_OWNERSHIP_CHANGED'') (\<lambda>_.
     bnd (demand (cb_canon b) ''CONTINUATION_CANON_CHECKPOINT_REQUIRED'') (\<lambda>(_, cd).
     bnd (checkpointed v ids) (\<lambda>c.
     bnd (require (content_digest (ce_hash v) (checkpoint_json c) = cd) ''CONTINUATION_CANON_CHANGED'') (\<lambda>_.
     ret destination))))))))))))))"

definition transferred :: "participant \<Rightarrow> string \<Rightarrow> participant \<Rightarrow> participant" where
  "transferred p actor destination = p\<lparr>pa_owner := actor, pa_generation := pa_generation p + 1, pa_reported := pa_reported destination\<rparr>"

definition transfer_clash :: "transfer_row \<Rightarrow> transfer_row \<Rightarrow> bool" where
  "transfer_clash a b \<longleftrightarrow> tb_digest a = tb_digest b \<or> (tb_participant a, tb_generation a) = (tb_participant b, tb_generation b)"

definition set_participant :: "(string \<Rightarrow> string) \<Rightarrow> string \<Rightarrow> participant \<Rightarrow> canon \<Rightarrow> canon" where
  "set_participant H i p s = s\<lparr>cn_participants := update_where (\<lambda>r. pr_id r = i)
     (\<lambda>r. r\<lparr>pr_owner := pa_owner p, pr_body := p, pr_digest := content_digest H (participant_json p)\<rparr>) (cn_participants s)\<rparr>"

text \<open>
  The transfer of one pinned participant. Participants are read through a connection of their own, which sees the
  lane as it was when the transaction began: \<open>before\<close>.
\<close>

definition transfer_participant ::
  "canon_env \<Rightarrow> string \<Rightarrow> continuation_body \<Rightarrow> string \<Rightarrow> participant \<Rightarrow> canon \<Rightarrow> string \<times> string \<Rightarrow> (canon, string \<times> string) action" where
  "transfer_participant v actor b d destination before pinned =
     bnd (lift_result (read_participant (ce_hash v) (fst pinned) (Some (cb_source_client b)) before)) (\<lambda>p.
     bnd (require (content_digest (ce_hash v) (participant_json p) = snd pinned) ''CONTINUATION_OWNERSHIP_CHANGED'') (\<lambda>_.
     bnd (ret (transferred p actor destination)) (\<lambda>q.
     bnd (ret \<lparr>ow_project = cn_project before, ow_participant = fst pinned, ow_generation = pa_generation q, ow_previous = p, ow_current = q,
        ow_continuation = d, ow_task = cb_task b, ow_source = cb_source_client b, ow_destination = actor, ow_created = now (ce_world v),
        ow_canon = map_option snd (cb_canon b)\<rparr>) (\<lambda>bound.
     bnd (ret (content_digest (ce_hash v) (binding_json bound))) (\<lambda>bd.
     bnd (insert_row cn_transfers cn_transfers_update transfer_clash
       \<lparr>tb_digest = bd, tb_participant = fst pinned, tb_generation = pa_generation q, tb_body = bound\<rparr>) (\<lambda>_.
     bnd (modify (set_participant (ce_hash v) (fst pinned) q)) (\<lambda>_.
     ret (fst pinned, bd))))))))"

definition retire_client :: "string \<Rightarrow> (project, unit) action" where
  "retire_client c = insert_into retired_clients retired_clients_update id c"

definition set_offer :: "string \<Rightarrow> offer_state \<Rightarrow> continuation_accepted option \<Rightarrow> canon \<Rightarrow> canon" where
  "set_offer i st res s = s\<lparr>cn_offers := update_where (\<lambda>o'. of_id o' = i)
     (\<lambda>o'. o'\<lparr>of_state := st, of_result := (if res = None then of_result o' else res)\<rparr>) (cn_offers s)\<rparr>"

definition continuation_receipt :: "canon_env \<Rightarrow> string \<Rightarrow> (string \<times> json) list \<Rightarrow> (canon, unit) action" where
  "continuation_receipt v kind body = bnd (at_base (append_receipt (branch 0 (ce_world v)) (Some ''chat_lineage'') kind body)) (\<lambda>_. ret ())"

definition accept_rows :: "canon_env \<Rightarrow> surroundings \<Rightarrow> string \<Rightarrow> continuation_choice \<Rightarrow> string \<Rightarrow> (canon, continuation_accepted) action" where
  "accept_rows v g actor r key =
     bnd (checked_offer v g True r) (\<lambda>o'.
     bnd (ret (of_body o')) (\<lambda>b.
     bnd (require (actor = cb_destination_client b) ''CONTINUATION_RECEIVER_MISMATCH'') (\<lambda>_.
     bnd (require (of_state o' = Offer_Open) ''CONTINUATION_ALREADY_RESOLVED'') (\<lambda>_.
     bnd (accept_checks v actor b) (\<lambda>destination.
     bnd (gets id) (\<lambda>before.
     bnd (collect (transfer_participant v actor b (ch_digest r) destination before) (cb_participants b)) (\<lambda>bound.
     bnd (at_base (retire_client (cb_source_client b))) (\<lambda>_.
     bnd (case map_of bound (cb_participant b) of None \<Rightarrow> abort (Raised ''ValidationError'') | Some d \<Rightarrow> ret d) (\<lambda>d.
     bnd (ret \<lparr>fa_id = ch_continuation r, fa_participant = cb_participant b, fa_generation = cb_generation b + 1, fa_owner = actor,
        fa_previous = cb_source_client b, fa_binding = d, fa_revision = the (mr_revision (cb_task b)), fa_task = mr_key (cb_task b),
        fa_participants = map fst (cb_participants b), fa_canon = map_option snd (cb_canon b)\<rparr>) (\<lambda>res.
     bnd (modify (set_offer (ch_continuation r) Offer_Accepted (Some res))) (\<lambda>_.
     bnd (add_continuation v (ch_request r) ''accept'' actor key (Was_Accepted res)) (\<lambda>_.
     bnd (continuation_receipt v ''project_participant_continued'' (accepted_fields res)) (\<lambda>_.
     ret res)))))))))))))"

definition accept_continuation ::
  "canon_env \<Rightarrow> surroundings \<Rightarrow> lease \<Rightarrow> string \<Rightarrow> continuation_choice \<Rightarrow> (canon, continuation_accepted) action" where
  "accept_continuation v g l actor r =
     bnd (if valid_choice r then ret () else abort (Raised ''ValidationError'')) (\<lambda>_.
     canon_transaction v l (
       bnd (ret (content_digest (ce_hash v) (JObj (choice_fields r)))) (\<lambda>key.
       bnd (continuation_replayed v (ch_request r) ''accept'' actor key) (\<lambda>prior.
       case prior of
         Some (Was_Accepted x) \<Rightarrow> ret x
       | Some _ \<Rightarrow> abort (Raised ''ValidationError'')
       | None \<Rightarrow> accept_rows v g actor r key))))"

text \<open>An administrative cancellation needs neither the owner nor the current roots.\<close>

definition cancel_continuation ::
  "canon_env \<Rightarrow> surroundings \<Rightarrow> lease \<Rightarrow> string \<Rightarrow> bool \<Rightarrow> continuation_choice \<Rightarrow> string \<Rightarrow> (canon, unit) action" where
  "cancel_continuation v g l actor administrative r reason =
     bnd (if valid_choice r \<and> bounded 1 1000 reason then ret () else abort (Raised ''ValidationError'')) (\<lambda>_.
     canon_transaction v l (
       bnd (ret (JObj (choice_fields r @ [(''reason'', JStr reason)]))) (\<lambda>request.
       bnd (ret (content_digest (ce_hash v) (if administrative then JObj [(''request'', request), (''administrative'', JBool True)] else request))) (\<lambda>key.
       bnd (continuation_replayed v (ch_request r) ''cancel'' actor key) (\<lambda>prior.
       case prior of
         Some (Was_Cancelled i) \<Rightarrow> ret ()
       | Some _ \<Rightarrow> abort (Raised ''ValidationError'')
       | None \<Rightarrow>
           bnd (checked_offer v g (\<not> administrative) r) (\<lambda>o'.
           bnd (check_participant v (cb_participant (of_body o')) (if administrative then None else Some actor)) (\<lambda>_.
           bnd (require (of_state o' = Offer_Open) ''CONTINUATION_ALREADY_RESOLVED'') (\<lambda>_.
           bnd (modify (set_offer (ch_continuation r) Offer_Cancelled None)) (\<lambda>_.
           bnd (add_continuation v (ch_request r) ''cancel'' actor key (Was_Cancelled (ch_continuation r))) (\<lambda>_.
           continuation_receipt v ''project_continuation_cancelled'' [(''continuation_id'', JStr (ch_continuation r)),
             (''reason'', JStr (ce_clean v reason)), (''source_client_id'', JStr (cb_source_client (of_body o'))),
             (''actor_id'', JStr actor), (''administrative_recovery'', JBool administrative)]))))))))))"

text \<open>The registered actions; \<open>continuation_recovery_offer\<close> redacts its reason first.\<close>

datatype continuation_call =
    Offer_Continuation continuation_offer
  | Offer_Recovery recovery_terms continuation_offer
  | Accept_Continuation continuation_choice
  | Cancel_Continuation continuation_choice string
  | Cancel_Recovery continuation_choice string

fun continuation_exec :: "canon_env \<Rightarrow> surroundings \<Rightarrow> lease \<Rightarrow> string \<Rightarrow> continuation_call \<Rightarrow> (canon, unit) action" where
  "continuation_exec v g l actor (Offer_Continuation r) = discard (offer_continuation v g l actor None r)"
| "continuation_exec v g l actor (Offer_Recovery a r) =
     bnd (if valid_terms a then ret () else abort (Raised ''ValidationError'')) (\<lambda>_.
     discard (offer_continuation v g l actor (Some (a\<lparr>rt_reason := ce_clean v (rt_reason a)\<rparr>)) r))"
| "continuation_exec v g l actor (Accept_Continuation r) = discard (accept_continuation v g l actor r)"
| "continuation_exec v g l actor (Cancel_Continuation r reason) = cancel_continuation v g l actor False r reason"
| "continuation_exec v g l actor (Cancel_Recovery r reason) = cancel_continuation v g l actor True r reason"

section \<open>What they change\<close>

text \<open>
  The exchange lane keeps every table but the participants, and each of these still reads: only its owner, its
  generation and its reported task may be others.
\<close>

definition exchange_tables :: "canon \<Rightarrow> canon" where
  "exchange_tables s = s\<lparr>cn_base := empty_project (cn_project s) [], cn_participants := [], cn_offers := [], cn_transfers := [], cn_continuations := []\<rparr>"

definition ownership_frame :: "(string \<Rightarrow> string) \<Rightarrow> canon \<Rightarrow> canon \<Rightarrow> bool" where
  "ownership_frame H s t \<longleftrightarrow> exchange_tables t = exchange_tables s \<and> map pr_id (cn_participants t) = map pr_id (cn_participants s)
     \<and> (\<forall>p x. read_participant H p None s = Inr x \<longrightarrow> (\<exists>y. read_participant H p None t = Inr y))"

lemma ownership_frame_refl [simp]: "ownership_frame H s s"
  by (simp add: ownership_frame_def)

lemma exchange_tables_eq:
  "exchange_tables t = exchange_tables s \<longleftrightarrow> cn_project t = cn_project s \<and> cn_contracts t = cn_contracts s \<and> cn_current t = cn_current s
     \<and> cn_exchanges t = cn_exchanges s \<and> cn_events t = cn_events s \<and> cn_supersessions t = cn_supersessions s \<and> cn_edges t = cn_edges s
     \<and> cn_bindings t = cn_bindings s \<and> cn_files t = cn_files s"
  by (cases s, cases t) (auto simp: exchange_tables_def empty_project_def)

lemma frame_tables:
  assumes "ownership_frame H s t"
  shows "cn_project t = cn_project s" "cn_contracts t = cn_contracts s" "cn_exchanges t = cn_exchanges s" "cn_events t = cn_events s"
    "cn_supersessions t = cn_supersessions s" "cn_edges t = cn_edges s" "cn_bindings t = cn_bindings s" "cn_files t = cn_files s"
  using assms by (simp_all add: ownership_frame_def exchange_tables_eq)

lemma frame_continuation [simp]:
  "ownership_frame H s (t\<lparr>cn_offers := a\<rparr>) = ownership_frame H s t" "ownership_frame H s (t\<lparr>cn_transfers := b\<rparr>) = ownership_frame H s t"
  "ownership_frame H s (t\<lparr>cn_continuations := c\<rparr>) = ownership_frame H s t"
  "project_id d = cn_project t \<Longrightarrow> ownership_frame H s (t\<lparr>cn_base := d\<rparr>) = ownership_frame H s t"
proof -
  have reads: "read_participant H p w (t\<lparr>cn_offers := a\<rparr>) = read_participant H p w t"
      "read_participant H p w (t\<lparr>cn_transfers := b\<rparr>) = read_participant H p w t"
      "read_participant H p w (t\<lparr>cn_continuations := c\<rparr>) = read_participant H p w t"
      "project_id d = cn_project t \<Longrightarrow> read_participant H p w (t\<lparr>cn_base := d\<rparr>) = read_participant H p w t" for p w
    by (simp_all add: read_participant_def find_participant_def split: option.split)
  show "ownership_frame H s (t\<lparr>cn_offers := a\<rparr>) = ownership_frame H s t" "ownership_frame H s (t\<lparr>cn_transfers := b\<rparr>) = ownership_frame H s t"
      "ownership_frame H s (t\<lparr>cn_continuations := c\<rparr>) = ownership_frame H s t"
      "project_id d = cn_project t \<Longrightarrow> ownership_frame H s (t\<lparr>cn_base := d\<rparr>) = ownership_frame H s t"
    by (simp_all add: ownership_frame_def exchange_tables_eq reads)
qed

lemma read_set_participant:
  assumes "pa_id q = i" "pa_project q = cn_project s" "read_participant H p None s = Inr x"
  shows "\<exists>y. read_participant H p None (set_participant H i q s) = Inr y"
proof -
  obtain r where r: "find_participant p s = Some r" using assms(3) by (auto simp: read_participant_def split: option.splits)
  then have "pr_id r = p" by (auto simp: find_participant_def dest: find_SomeD)
  have "find_participant p (set_participant H i q s) = Some (if p = i
      then r\<lparr>pr_owner := pa_owner q, pr_body := q, pr_digest := content_digest H (participant_json q)\<rparr> else r)"
    using r \<open>pr_id r = p\<close> unfolding find_participant_def set_participant_def by (simp add: find_update_where_key)
  with r assms show ?thesis by (auto simp: read_participant_def set_participant_def split: if_splits)
qed

lemma frame_set_participant:
  assumes "ownership_frame H s t" "pa_id q = i" "pa_project q = cn_project s"
  shows "ownership_frame H s (set_participant H i q t)"
proof -
  have "map pr_id (cn_participants (set_participant H i q t)) = map pr_id (cn_participants t)"
    by (simp add: set_participant_def map_update_where)
  moreover have "exchange_tables (set_participant H i q t) = exchange_tables t" by (simp add: set_participant_def exchange_tables_def)
  moreover have "pa_project q = cn_project t" using assms frame_tables(1) by metis
  ultimately show ?thesis
    using assms(1) read_set_participant [OF assms(2), of t H] unfolding ownership_frame_def by metis
qed

lemma keeps_frame_base:
  assumes "\<And>b a b'. m b = Inr (a, b') \<Longrightarrow> project_id b' = project_id b"
  shows "keeps (ownership_frame H s) (at_base m)"
  by (rule validI) (auto simp: at_base_def dest: assms split: sum.splits)

lemma keeps_frame_writes [keeps_rules]:
  "keeps (ownership_frame H s) (add_continuation v rid kind actor key r)"
  "keeps (ownership_frame H s) (insert_row cn_offers cn_offers_update offer_clash o')"
  "keeps (ownership_frame H s) (insert_row cn_transfers cn_transfers_update transfer_clash x)"
  "keeps (ownership_frame H s) (modify (set_offer i st res))"
  "keeps (ownership_frame H s) (at_base (retire_client c))"
  "keeps (ownership_frame H s) (continuation_receipt v kind body)"
  "keeps (ownership_frame H s) (at_base plan_event_head)"
  "keeps (ownership_frame H s) (at_base (work_boundary H' ref))"
  "keeps (ownership_frame H s) (at_base (own_lease w l))"
  "keeps (ownership_frame H s) (at_base (check_lease w l))"
  by (auto simp: valid_def add_continuation_def set_offer_def retire_client_def continuation_receipt_def plan_event_head_def work_boundary_def
      at_base_def run_simps split: sum.splits option.splits if_splits)

lemma keeps_transfer:
  assumes "cn_project before = cn_project s"
  shows "keeps (ownership_frame (ce_hash v) s) (transfer_participant v actor b d destination before pinned)"
proof -
  have "keeps (ownership_frame (ce_hash v) s) (modify (set_participant (ce_hash v) i (transferred p actor destination)))"
    if "read_participant (ce_hash v) i (Some a) before = Inr p" for i a p
    using that assms
    by (intro keeps_modify frame_set_participant) (auto simp: transferred_def read_participant_def split: option.splits if_splits)
  then show ?thesis
    unfolding transfer_participant_def by (intro valid_lift valid_require valid_let keeps_bnd keeps_rules) blast+
qed

lemma keeps_continuation_result [keeps_rules]:
  assumes "\<And>x. keeps I (f1 x)" "\<And>x. keeps I (f2 x)" "\<And>i. keeps I (f3 i)"
  shows "keeps I (case r of Was_Offered x \<Rightarrow> f1 x | Was_Accepted x \<Rightarrow> f2 x | Was_Cancelled i \<Rightarrow> f3 i)"
  using assms by (cases r) simp_all

lemma keeps_accept_checks [keeps_rules]: "keeps (ownership_frame H s) (accept_checks v actor b)"
  unfolding accept_checks_def check_clock_def by (intro keeps_rules keeps_case_prod keeps_abort)

lemma keeps_accept_rows: "keeps (ownership_frame (ce_hash v) s) (accept_rows v g actor r key)"
proof -
  let ?I = "ownership_frame (ce_hash v) s"
  have tail: "valid (\<lambda>t. ?I t \<and> id t = before) (bnd (collect (transfer_participant v actor b d destination before) ps) f) (\<lambda>_. ?I)"
    if "\<And>x. keeps ?I (f x)" for before b d destination ps and f :: "(string \<times> string) list \<Rightarrow> (canon, continuation_accepted) action"
  proof (rule valid_assume [where A = "cn_project before = cn_project s"])
    show "cn_project before = cn_project s" if "?I t \<and> id t = before" for t using that frame_tables(1) by auto
    show "valid (\<lambda>t. ?I t \<and> id t = before) (bnd (collect (transfer_participant v actor b d destination before) ps) f) (\<lambda>_. ?I)"
      if "cn_project before = cn_project s"
      by (rule valid_pre [where P' = ?I]) (intro keeps_bnd keeps_collect keeps_transfer that \<open>\<And>x. keeps ?I (f x)\<close>, simp)
  qed
  show ?thesis
    unfolding accept_rows_def
    by (intro keeps_bnd [where m = "bnd _ _"] valid_let valid_require)
      (intro keeps_rules keeps_abort valid_gets tail | simp only:)+
qed

lemma keeps_offer_rows: "keeps (ownership_frame H s) (offer_rows v g actor terms r key)"
  unfolding offer_rows_def pin_participant_def by (intro keeps_rules keeps_case_prod)

text \<open>No continuation changes anything else of the exchange lane, and every participant stays readable.\<close>

lemma continuation_frame:
  assumes "continuation_exec v g l actor c s = Inr (x, t)"
  shows "ownership_frame (ce_hash v) s t"
proof -
  let ?I = "ownership_frame (ce_hash v) s"
  have offer: "keeps ?I (discard (offer_continuation v g l actor terms r))" for terms r
    unfolding offer_continuation_def discard_def by (intro keeps_rules keeps_abort keeps_canon_transaction keeps_offer_rows)
  have accept: "keeps ?I (discard (accept_continuation v g l actor r))" for r
    unfolding accept_continuation_def discard_def by (intro keeps_rules keeps_abort keeps_canon_transaction keeps_accept_rows)
  have cancel: "keeps ?I (cancel_continuation v g l actor admin r reason)" for admin r reason
    unfolding cancel_continuation_def by (intro keeps_rules keeps_abort keeps_canon_transaction)
  have "keeps ?I (continuation_exec v g l actor c)"
    by (cases c) (simp_all only: continuation_exec.simps, (intro offer accept cancel keeps_rules keeps_abort)+)
  then show ?thesis using assms unfolding valid_def by (metis ownership_frame_refl)
qed

section \<open>The history of continuations\<close>

lemma continuation_binds:
  assumes "jnorm (continuation_event_json e) = jnorm (continuation_event_json e')"
  shows "cw_sequence e = cw_sequence e' \<and> cw_previous e = cw_previous e'"
proof -
  note field = jnorm_field [OF assms [unfolded continuation_event_json_def]]
  show ?thesis using field [of "''sequence''"] field [of "''previous_digest''"] by simp
qed

interpretation continuation_chain: hash_chain cw_sequence cw_previous cw_digest continuation_event_json "\<lambda>_ _. True" continuation_walk
  by unfold_locales (auto dest: continuation_binds)

end
