(* ===== verification/Canon_Federation.thy ===== *)
theory Canon_Federation
  imports Canon_Succession Canon_Consent Canon_Edges Continuity
begin

text \<open>
  The projects together (\<open>register_canon_actions\<close> in canon_task_graph.py, \<open>register_continuation_actions\<close> in
  task_binding_registry.py): the actions of one project that first read another one, and the federation of all
  projects with every action, in any order. A remote read sees some earlier state of the other project.
\<close>

section \<open>Reads of other projects\<close>

type_synonym look = "string \<Rightarrow> canon option"

text \<open>\<open>remote_read\<close>: the history of the other project is verified before anything is read from it.\<close>

definition remote_read :: "canon_env \<Rightarrow> look \<Rightarrow> string \<Rightarrow> (canon \<Rightarrow> 'a result) \<Rightarrow> 'a result" where
  "remote_read v look pid f = (case look pid of None \<Rightarrow> Inl (Raised ''ProjectRead'')
     | Some t \<Rightarrow> rbind (verify_canon_history (ce_hash v) 50000 t) (\<lambda>_. f t))"

definition foreign_read :: "canon_env \<Rightarrow> look \<Rightarrow> string \<Rightarrow> string \<Rightarrow> (canon \<Rightarrow> 'a result) \<Rightarrow> 'a option result" where
  "foreign_read v look own other f = (if other = own then Inr None else rbind (remote_read v look other f) (\<lambda>x. Inr (Some x)))"

section \<open>Actions\<close>

definition act_register :: "canon_env \<Rightarrow> look \<Rightarrow> lease \<Rightarrow> string \<Rightarrow> edge_request \<Rightarrow> (canon, edge_result) action" where
  "act_register v look l actor r = (let dest = ed_destination (eg_definition r) in
     bnd (gets cn_project) (\<lambda>pid.
     bnd (lift_result (foreign_read v look pid (ep_project dest) (read_participant (ce_hash v) (ep_participant dest) None))) (\<lambda>d.
     register_task_edge v l actor r d)))"

definition act_bind :: "canon_env \<Rightarrow> look \<Rightarrow> lease \<Rightarrow> string \<Rightarrow> bind_request \<Rightarrow> (canon, edge_result) action" where
  "act_bind v look l actor r =
     bnd (gets cn_project) (\<lambda>pid.
     bnd (lift_result (foreign_read v look pid (bi_project r) (read_edge v (bi_edge r)))) (\<lambda>e.
     bind_task_edge v l actor r e))"

definition act_expect :: "canon_env \<Rightarrow> look \<Rightarrow> lease \<Rightarrow> string \<Rightarrow> expect_request \<Rightarrow> (canon, string \<times> contract_body) action" where
  "act_expect v look l actor r =
     bnd (gets cn_project) (\<lambda>pid.
     bnd (lift_result (rcollect (\<lambda>e. remote_read v look (ep_project e) (read_participant (ce_hash v) (ep_participant e) None))
       (filter (\<lambda>e. ep_project e \<noteq> pid) (ex_endpoints (xp_contract r))))) (\<lambda>foreign.
     expect v l actor r foreign))"

definition remote_receiver :: "canon_env \<Rightarrow> look \<Rightarrow> string \<Rightarrow> message \<Rightarrow> participant option result" where
  "remote_receiver v look pid m = foreign_read v look pid (message_destination pid m) (read_participant (ce_hash v) (ms_receiver m) None)"

definition act_send :: "canon_env \<Rightarrow> look \<Rightarrow> lease \<Rightarrow> string \<Rightarrow> string \<Rightarrow> message \<Rightarrow> (canon, sent) action" where
  "act_send v look l actor rid m =
     bnd (gets cn_project) (\<lambda>pid.
     bnd (lift_result (remote_receiver v look pid m)) (\<lambda>d.
     send v l False actor rid m d None))"

definition act_receive :: "canon_env \<Rightarrow> look \<Rightarrow> lease \<Rightarrow> string \<Rightarrow> receive_request \<Rightarrow> (canon, sent) action" where
  "act_receive v look l actor r =
     bnd (gets cn_project) (\<lambda>pid.
     bnd (require (rq_project r \<noteq> pid) ''CANON_RECEIVE_ROUTE_MISMATCH'') (\<lambda>_.
     bnd (lift_result (remote_read v look (rq_project r) (source_snapshot_of v False (rq_exchange r) (rq_digest r)))) (\<lambda>n.
     receive v l actor r n)))"

text \<open>Only an admission reads the source of the packet again.\<close>

definition decision_snapshot :: "canon_env \<Rightarrow> look \<Rightarrow> decide_request \<Rightarrow> (canon, source_snapshot option) action" where
  "decision_snapshot v look r =
     (if dq_decision r = Admit then
        bnd (gets cn_project) (\<lambda>pid.
        bnd (checked_exchange v (dq_exchange r)) (\<lambda>row.
        lift_result (foreign_read v look pid (xc_source row) (source_snapshot_of v False (dq_exchange r) (xc_digest row)))))
      else ret None)"

definition act_decide :: "canon_env \<Rightarrow> look \<Rightarrow> lease \<Rightarrow> string \<Rightarrow> decide_request \<Rightarrow> (canon, decision) action" where
  "act_decide v look l actor r = bnd (decision_snapshot v look r) (\<lambda>n. decide v l actor r n)"

definition act_operate :: "canon_env \<Rightarrow> look \<Rightarrow> lease \<Rightarrow> string \<Rightarrow> operation_request \<Rightarrow> (canon, sent \<times> string) action" where
  "act_operate v look l actor q =
     bnd (bnd (gets (operation_message v q)) lift_result) (\<lambda>x.
     bnd (gets cn_project) (\<lambda>pid.
     bnd (lift_result (case q of
         Backfire_Request r \<Rightarrow> foreign_read v look pid (ep_project (br_return_route r)) (return_contract_snapshot v (br_return_contract r))
       | Result_Request _ \<Rightarrow> Inr None)) (\<lambda>snap.
     bnd (lift_result (remote_receiver v look pid (snd x))) (\<lambda>d.
     operate v l actor q d snap))))"

datatype canon_call =
    Call_Join join_request
  | Call_Expect expect_request
  | Call_Register edge_request
  | Call_Bind bind_request
  | Call_Send string message
  | Call_Receive receive_request
  | Call_Decide decide_request
  | Call_Supersede supersede_request
  | Call_Operate operation_request

fun canon_exec :: "canon_env \<Rightarrow> look \<Rightarrow> lease \<Rightarrow> string \<Rightarrow> canon_call \<Rightarrow> (canon, unit) action" where
  "canon_exec v look l actor (Call_Join r) = discard (join v l actor r)"
| "canon_exec v look l actor (Call_Expect r) = discard (act_expect v look l actor r)"
| "canon_exec v look l actor (Call_Register r) = discard (act_register v look l actor r)"
| "canon_exec v look l actor (Call_Bind r) = discard (act_bind v look l actor r)"
| "canon_exec v look l actor (Call_Send rid m) = discard (act_send v look l actor rid m)"
| "canon_exec v look l actor (Call_Receive r) = discard (act_receive v look l actor r)"
| "canon_exec v look l actor (Call_Decide r) = discard (act_decide v look l actor r)"
| "canon_exec v look l actor (Call_Supersede r) = discard (supersede v l actor r)"
| "canon_exec v look l actor (Call_Operate q) = discard (act_operate v look l actor q)"

section \<open>The federation\<close>

text \<open>\<open>fd_seen\<close> holds the states that remote reads found; a call names the ones it uses by their place.\<close>

record federation =
  fd_stores :: "string \<Rightarrow> canon"
  fd_seen :: "canon list"

definition looked_up :: "federation \<Rightarrow> nat list \<Rightarrow> look" where
  "looked_up f ks pid = find (\<lambda>t. cn_project t = pid) (map ((!) (fd_seen f)) (filter (\<lambda>k. k < length (fd_seen f)) ks))"

text \<open>
  Beside the actions of the exchange: a continuation moves participants to another client, a reader looks at a
  project, another component changes the rest of a project, and a transaction that fails leaves its packet file
  behind.
\<close>

datatype federation_op =
    Act string world "memory_reference \<Rightarrow> canon \<Rightarrow> unit result" lease string "nat list" canon_call
  | Continue string world surroundings lease string continuation_call
  | Look string
  | Other_Work string project
  | Left_File string string string

definition at_call :: "canon_env \<Rightarrow> world \<Rightarrow> (memory_reference \<Rightarrow> canon \<Rightarrow> unit result) \<Rightarrow> canon_env" where
  "at_call v w rf = v\<lparr>ce_world := hashed (ce_hash v) w, ce_reference := rf\<rparr>"

definition set_store :: "string \<Rightarrow> canon \<Rightarrow> federation \<Rightarrow> federation" where
  "set_store pid s f = f\<lparr>fd_stores := (fd_stores f)(pid := s)\<rparr>"

fun federation_step :: "canon_env \<Rightarrow> federation_op \<Rightarrow> federation \<Rightarrow> federation" where
  "federation_step v (Act pid w rf l actor ks c) f =
     set_store pid (snd (commit (canon_exec (at_call v w rf) (looked_up f ks) l actor c) (fd_stores f pid))) f"
| "federation_step v (Continue pid w g l actor c) f =
     set_store pid (snd (commit (continuation_exec (at_call v w (ce_reference v)) g l actor c) (fd_stores f pid))) f"
| "federation_step v (Look pid) f = f\<lparr>fd_seen := fd_seen f @ [fd_stores f pid]\<rparr>"
| "federation_step v (Other_Work pid b) f = (let s = fd_stores f pid in
     if project_id b = cn_project s then set_store pid (s\<lparr>cn_base := b\<rparr>) f else f)"
| "federation_step v (Left_File pid path body) f = (let s = fd_stores f pid in
     if cn_files s path = None then set_store pid (s\<lparr>cn_files := (cn_files s)(path \<mapsto> body)\<rparr>) f else f)"

primrec run_federation :: "canon_env \<Rightarrow> federation_op list \<Rightarrow> federation \<Rightarrow> federation" where
  "run_federation v [] f = f"
| "run_federation v (q # qs) f = run_federation v qs (federation_step v q f)"

definition empty_canon :: "string \<Rightarrow> string \<Rightarrow> canon" where
  "empty_canon pid root = \<lparr>cn_base = empty_project pid root, cn_participants = [], cn_contracts = [], cn_current = [], cn_exchanges = [],
     cn_events = [], cn_supersessions = [], cn_edges = [], cn_bindings = [], cn_files = \<lambda>_. None,
     cn_offers = [], cn_transfers = [], cn_continuations = []\<rparr>"

definition new_federation :: "(string \<Rightarrow> string) \<Rightarrow> federation" where
  "new_federation roots = \<lparr>fd_stores = (\<lambda>pid. empty_canon pid (roots pid)), fd_seen = []\<rparr>"

definition federation_after :: "canon_env \<Rightarrow> (string \<Rightarrow> string) \<Rightarrow> federation_op list \<Rightarrow> federation" where
  "federation_after v roots qs = run_federation v qs (new_federation roots)"

definition store_after :: "canon_env \<Rightarrow> (string \<Rightarrow> string) \<Rightarrow> federation_op list \<Rightarrow> string \<Rightarrow> canon" where
  "store_after v roots qs pid = fd_stores (federation_after v roots qs) pid"

lemma run_federation_append: "run_federation v (qs @ rs) f = run_federation v rs (run_federation v qs f)"
  by (induction qs arbitrary: f) simp_all

lemma at_call_engine [simp]: "same_engine v (at_call v w rf)"
  by (simp add: same_engine_def at_call_def)

section \<open>Invariants of one project\<close>

text \<open>An invariant that every operation keeps is kept by every action.\<close>

lemma keeps_discarded [keeps_rules]: "keeps I m \<Longrightarrow> keeps I (discard m)"
  unfolding discard_def by (intro keeps_rules)

lemma keeps_decision_snapshot [keeps_rules]: "keeps I (decision_snapshot v look r)"
  unfolding decision_snapshot_def by (intro keeps_rules)

lemma foreign_edge_names:
  "foreign_read v look own other (read_edge v i) = Inr (Some e) \<Longrightarrow> ed_id (eb_definition (et_edge e)) = et_id e"
  by (auto simp: foreign_read_def remote_read_def rbind_Inr split: if_splits option.splits elim!: read_edge_Inr)

lemma keeps_canon_exec:
  assumes "\<And>r. keeps I (join v l actor r)" "\<And>r fs. keeps I (expect v l actor r fs)" "\<And>r d. keeps I (register_task_edge v l actor r d)"
    and bind: "\<And>r e. (\<And>x. e = Some x \<Longrightarrow> ed_id (eb_definition (et_edge x)) = et_id x) \<Longrightarrow> keeps I (bind_task_edge v l actor r e)"
    and "\<And>rid m d s. keeps I (send v l False actor rid m d s)"
    and receive: "\<And>r n. remote_read v look (rq_project r) (source_snapshot_of v False (rq_exchange r) (rq_digest r)) = Inr n \<Longrightarrow>
      keeps I (receive v l actor r n)"
    and "\<And>r n. keeps I (decide v l actor r n)" "\<And>r. keeps I (supersede v l actor r)" "\<And>q d s. keeps I (operate v l actor q d s)"
  shows "keeps I (canon_exec v look l actor c)"
proof (cases c)
  case (Call_Bind r)
  have "keeps I (act_bind v look l actor r)"
    unfolding act_bind_def by (rule keeps_bnd, rule keeps_gets, rule valid_lift, rule bind) (auto intro: foreign_edge_names)
  then show ?thesis by (simp add: Call_Bind keeps_discarded)
next
  case (Call_Receive r)
  have "keeps I (act_receive v look l actor r)"
    unfolding act_receive_def by (rule keeps_bnd, rule keeps_gets, rule valid_require, rule valid_lift, rule receive)
  then show ?thesis by (simp add: Call_Receive keeps_discarded)
qed (simp_all add: act_register_def act_expect_def act_send_def act_decide_def act_operate_def Let_def,
    (intro keeps_rules assms)+)

end
