(* ===== verification/Canon_Agreement.thy ===== *)
theory Canon_Agreement
  imports Canon_Federation
begin

text \<open>
  Every action of a project keeps its invariants.
\<close>

section \<open>One lemma for all actions\<close>

lemma keeps_actions:
  assumes receipt: "\<And>s x. I s \<Longrightarrow> I (s\<lparr>cn_base := (cn_base s)\<lparr>receipts := x\<rparr>\<rparr>)"
    and event: "\<And>rid kind key r. keeps I (add_canon_event v rid kind actor key r)"
    and participant: "\<And>s ps. I s \<Longrightarrow> I (s\<lparr>cn_participants := cn_participants s @ ps\<rparr>)"
    and current: "\<And>s x. I s \<Longrightarrow> I (s\<lparr>cn_current := x\<rparr>)"
    and contract: "\<And>p row. kb_client (ct_body row) = actor \<Longrightarrow> ex_receiver (kb_contract (ct_body row)) = p \<Longrightarrow>
      valid (\<lambda>s. I s \<and> (\<exists>x. read_participant (ce_hash v) p (Some actor) s = Inr x))
        (insert_row cn_contracts cn_contracts_update contract_clash row) (\<lambda>_. I)"
    and super: "\<And>i j basis q. keeps I (supersede_row v i j actor basis q)"
    and own_row: "\<And>e st. valid (\<lambda>s. I s \<and> arriving v e st s \<and> xv_project e = cn_project s) (insert_exchange v e st) (\<lambda>_. I)"
    and foreign_row: "\<And>(r :: receive_request) n st. remote_read v look (rq_project r) (source_snapshot_of v False (rq_exchange r) (rq_digest r)) = Inr n \<Longrightarrow>
      valid (\<lambda>s. I s \<and> arriving v (ss_envelope n) st s \<and> fst (envelope_route (ss_envelope n)) \<noteq> cn_project s)
        (insert_exchange v (ss_envelope n) st) (\<lambda>_. I)"
    and decided: "\<And>r n. keeps I (decide v l actor r n)"
    and registered: "\<And>r d. keeps I (register_task_edge v l actor r d)"
    and bound: "\<And>r e. (\<And>x. e = Some x \<Longrightarrow> ed_id (eb_definition (et_edge x)) = et_id x) \<Longrightarrow> keeps I (bind_task_edge v l actor r e)"
  shows "keeps I (canon_exec v look l actor c)"
proof -
  have sends: "keeps I (send v l typed actor rid m d s)" for typed rid m d s
    by (rule keeps_send, rule keeps_send_rows [OF receipt super event own_row])
  show ?thesis
  proof (rule keeps_canon_exec [OF _ _ registered bound sends _ decided])
    show "keeps I (join v l actor r)" for r
      by (rule keeps_join [OF event keeps_insert_into]) (rule participant)
    show "keeps I (expect v l actor r fs)" for r fs
    proof (rule keeps_expect [OF event])
      fix row
      let ?p = "ex_receiver (xp_contract r)"
      show "valid (\<lambda>s. I s \<and> (\<exists>p. read_participant (ce_hash v) ?p (Some actor) s = Inr p) \<and> kb_client (ct_body row) = actor
          \<and> ex_receiver (kb_contract (ct_body row)) = ?p \<and> ct_digest row = content_digest (ce_hash v) (contract_json (ct_body row)))
        (insert_row cn_contracts cn_contracts_update contract_clash row) (\<lambda>_. I)"
        using contract [of row ?p] unfolding valid_def by blast
      show "keeps I (modify (set_current a k d))" for a k d
        by (rule keeps_modify) (simp add: set_current_def current)
    qed
    show "keeps I (receive v l actor r n)" if "remote_read v look (rq_project r) (source_snapshot_of v False (rq_exchange r) (rq_digest r)) = Inr n" for r n
      by (rule keeps_receive [OF receipt super event foreign_row [OF that]])
    show "keeps I (supersede v l actor r)" for r by (rule keeps_supersede) (rule super)
    show "keeps I (operate v l actor q d s)" for q d s by (rule keeps_operate [OF receipt event sends])
  qed simp_all
qed

section \<open>Each invariant\<close>

lemma same_engine_invariants:
  assumes "same_engine v v'"
  shows "packets_ok v' = packets_ok v" "links_but v' = links_but v" "edges_but v' = edges_but v" "ce_hash v' = ce_hash v"
proof -
  note reads = same_engine_reads [OF assms] same_engine_valid [OF assms]
  show "packets_ok v' = packets_ok v" by (intro ext) (unfold packets_ok_def reads, rule refl)
  show "links_but v' = links_but v" by (intro ext) (unfold links_but_def recorded_link_def link_event_def reads, rule refl)
  show "edges_but v' = edges_but v" by (intro ext) (unfold edges_but_def edge_readable_def reads, rule refl)
  show "ce_hash v' = ce_hash v" by (rule reads)
qed

lemma decided_simply:
  assumes receipt: "\<And>s x. I s \<Longrightarrow> I (s\<lparr>cn_base := (cn_base s)\<lparr>receipts := x\<rparr>\<rparr>)"
    and event: "\<And>rid kind key r. keeps I (add_canon_event v rid kind actor key r)"
    and super: "\<And>i j basis q. keeps I (supersede_row v i j actor basis q)"
    and set_state: "\<And>r row. valid (\<lambda>s. I s \<and> decidable_row v actor r row s)
      (modify (set_exchange_state (ce_hash v) (dq_exchange r) (decided_state (dq_decision r)) (xc_version row + 1))) (\<lambda>_. I)"
  shows "keeps I (decide v l actor r n)"
  by (rule keeps_decide [OF receipt set_state super event])

lemma set_stateI:
  "(\<And>s st n. I s \<Longrightarrow> I (set_exchange_state (ce_hash v) i st n s)) \<Longrightarrow> valid (\<lambda>s. I s \<and> A s) (modify (set_exchange_state (ce_hash v) i st n)) (\<lambda>_. I)"
  by (auto simp: valid_def run_simps)

lemma insert_rowI:
  "(\<And>s. I s \<Longrightarrow> I (upd (\<lambda>_. get s @ [r]) s)) \<Longrightarrow> valid (\<lambda>s. I s \<and> A s) (insert_row get upd clash r) (\<lambda>_. I)"
  by (auto simp: valid_def run_simps)

lemma super_simply:
  assumes receipt: "\<And>s x. I s \<Longrightarrow> I (s\<lparr>cn_base := (cn_base s)\<lparr>receipts := x\<rparr>\<rparr>)"
    and event: "\<And>rid kind key r. keeps I (add_canon_event v rid kind actor key r)"
    and link: "\<And>s ls. I s \<Longrightarrow> I (s\<lparr>cn_supersessions := cn_supersessions s @ ls\<rparr>)"
    and set_state: "\<And>r n. valid (\<lambda>s. I s \<and> superseding v i j r n s)
      (modify (set_exchange_state (ce_hash v) i Was_Superseded (xc_version r + 1))) (\<lambda>_. I)"
  shows "keeps I (supersede_row v i j actor basis q)"
  by (rule keeps_supersede_row [OF receipt set_state event keeps_insert_row]) (assumption | erule link)+

text \<open>Edges are written by two actions only.\<close>

lemma keeps_write_edge:
  assumes "\<And>s p t. I s \<Longrightarrow> cn_files s p = None \<Longrightarrow> I (s\<lparr>cn_files := (cn_files s)(p \<mapsto> t)\<rparr>)"
    and "\<And>s rs. I s \<Longrightarrow> I (s\<lparr>cn_edges := cn_edges s @ rs\<rparr>)"
  shows "keeps I (write_edge v l deps b)"
proof -
  have "keeps I (put_file code p t)" for code p t
    by (rule validI) (auto simp: put_file_def run_simps assms(1))
  then show ?thesis unfolding write_edge_def Let_def by (intro keeps_rules keeps_insert_row assms(2))
qed

lemma events_exec: "keeps (events_ok (ce_hash v)) (canon_exec v look l actor c)"
proof -
  have super: "keeps (events_ok (ce_hash v)) (supersede_row v i j actor basis q)" for i j basis q
    by (rule super_simply) (simp_all add: events_add_event set_stateI set_exchange_state_def)
  have row: "valid (\<lambda>s. events_ok (ce_hash v) s \<and> A s) (insert_exchange v e st) (\<lambda>_. events_ok (ce_hash v))" for A e st
    by (rule validI) (auto elim!: insert_exchange_Inr)
  have edge: "keeps (events_ok (ce_hash v)) (write_edge v l deps b)" for deps b by (rule keeps_write_edge) simp_all
  show ?thesis
    by (rule keeps_actions)
      (simp_all add: events_add_event super row keeps_insert_row keeps_insert_into decided_simply set_stateI set_exchange_state_def
        keeps_register keeps_bind edge insert_rowI)
qed

lemma canon_since_edges: "canon_since s (s\<lparr>cn_edges := cn_edges s @ rs\<rparr>)"
  by (simp add: canon_since_def grows_refl grows_append extends_def find_participant_def)

lemma packets_ok_file: "packets_ok v s \<Longrightarrow> cn_files s p = None \<Longrightarrow> packets_ok v (s\<lparr>cn_files := (cn_files s)(p \<mapsto> t)\<rparr>)"
  by (rule packets_ok_extends [OF _ extends_file]) simp_all

text \<open>What came before stays, and packets move along their life cycle.\<close>

lemma grown_edge: "keeps (grown v s0) (write_edge v' l deps b)"
proof (rule keeps_write_edge; elim conjE)
  show "grown v s0 (s\<lparr>cn_files := (cn_files s)(p \<mapsto> t)\<rparr>)" if "packets_ok v s" "canon_since s0 s" "cn_files s p = None" for s p t
    by (rule grown_step [OF that(1,2) canon_since_file [OF that(3)] packets_ok_file [OF that(1,3)]])
  show "grown v s0 (s\<lparr>cn_edges := cn_edges s @ rs\<rparr>)" if "packets_ok v s" "canon_since s0 s" for s rs
    by (rule grown_step [OF that canon_since_edges packets_ok_appends(8) [OF that(1)]])
qed

lemma grown_appends:
  assumes "grown v s0 s"
  shows "grown v s0 (s\<lparr>cn_participants := cn_participants s @ ps\<rparr>)" "grown v s0 (s\<lparr>cn_contracts := cn_contracts s @ cs\<rparr>)"
    "grown v s0 (s\<lparr>cn_current := x\<rparr>)" "grown v s0 (s\<lparr>cn_supersessions := cn_supersessions s @ ls\<rparr>)"
    "grown v s0 (s\<lparr>cn_bindings := cn_bindings s @ bs\<rparr>)"
  using assms by (blast intro: packets_ok_appends canon_since_step canon_since_appends)+

lemma grown_exec: "keeps (grown v s0) (canon_exec v look l actor c)"
proof -
  have super: "keeps (grown v s0) (supersede_row v i j actor basis q)" for i j basis q
    by (rule super_simply) (rule grown_receipt grown_event grown_appends grown_supersede; assumption?)+
  have row: "valid (\<lambda>s. grown v s0 s \<and> arriving v e st s \<and> A s) (insert_exchange v e st) (\<lambda>_. grown v s0)" for A e st
    by (rule valid_pre [OF grown_new_row]) auto
  have dec: "keeps (grown v s0) (decide v l actor r n)" for r n
    by (rule decided_simply) (rule grown_receipt grown_event super grown_decide; assumption?)+
  show ?thesis
    by (rule keeps_actions)
      (rule grown_receipt grown_event super row dec keeps_register keeps_bind grown_edge insert_rowI keeps_insert_into grown_appends; assumption?)+
qed

lemma trail_exec: "keeps (trail_ok v) (canon_exec v look l actor c)"
proof -
  have same: "trail_ok v t" if "trail_ok v s" "canon_since s t" "cn_exchanges t = cn_exchanges s" "packets_ok v t" for s t
    using that by (blast intro: links_same_rows)
  have appends: "trail_ok v (s\<lparr>cn_participants := cn_participants s @ ps\<rparr>)" "trail_ok v (s\<lparr>cn_contracts := cn_contracts s @ cs\<rparr>)"
      "trail_ok v (s\<lparr>cn_current := x\<rparr>)" "trail_ok v (s\<lparr>cn_bindings := cn_bindings s @ bs\<rparr>)"
    if "trail_ok v s" for s ps cs x bs
    using that by (intro same [OF that]; simp add: canon_since_appends packets_ok_appends)+
  have edge: "keeps (trail_ok v) (write_edge v l deps b)" for deps b
  proof (rule keeps_write_edge)
    show "trail_ok v (s\<lparr>cn_files := (cn_files s)(p \<mapsto> t)\<rparr>)" if "trail_ok v s" "cn_files s p = None" for s p t
      using that by (intro same [OF that(1) canon_since_file]) (simp_all add: packets_ok_file)
    show "trail_ok v (s\<lparr>cn_edges := cn_edges s @ rs\<rparr>)" if "trail_ok v s" for s rs
      using that by (intro same [OF that canon_since_edges]) (simp_all add: packets_ok_appends)
  qed
  have row: "valid (\<lambda>s. trail_ok v s \<and> arriving v e st s \<and> A s) (insert_exchange v e st) (\<lambda>_. trail_ok v)" for A e st
    by (rule valid_pre [OF trail_new_row]) auto
  have dec: "keeps (trail_ok v) (decide v l actor r n)" for r n
    by (rule decided_simply) (rule trail_receipt trail_event trail_supersede_row trail_decide; assumption?)+
  have contract: "valid (\<lambda>s. trail_ok v s \<and> A s) (insert_row cn_contracts cn_contracts_update contract_clash r) (\<lambda>_. trail_ok v)" for A r
    by (rule insert_rowI) (rule appends)
  have binding: "keeps (trail_ok v) (insert_into cn_bindings cn_bindings_update fst b)" for b
    by (rule keeps_insert_into) (rule appends)
  show ?thesis
    by (rule keeps_actions [where I = "trail_ok v", OF trail_receipt trail_event appends(1) appends(3) contract
          trail_supersede_row row row dec keeps_register [OF trail_receipt trail_event edge]
          keeps_bind [OF trail_receipt trail_event edge binding]]) assumption+
qed

lemma consent_exec: "keeps (consent_ok v V K s0 None) (canon_exec v look l actor c)"
proof -
  have edge: "keeps (consent_ok v V K s0 None) (write_edge v l deps b)" for deps b
  proof (rule keeps_write_edge)
    show "consent_ok v V K s0 None (s\<lparr>cn_files := (cn_files s)(p \<mapsto> t)\<rparr>)" if "consent_ok v V K s0 None s" "cn_files s p = None" for s p t
      using that by (intro consent_same_rows [OF that(1) canon_since_file]) (simp_all add: packets_ok_file)
    show "consent_ok v V K s0 None (s\<lparr>cn_edges := cn_edges s @ rs\<rparr>)" if "consent_ok v V K s0 None s" for s rs
      using that by (intro consent_same_rows [OF that canon_since_edges]) (simp_all add: packets_ok_appends)
  qed
  have row: "valid (\<lambda>s. consent_ok v V K s0 None s \<and> arriving v e st s \<and> A s) (insert_exchange v e st) (\<lambda>_. consent_ok v V K s0 None)" for A e st
    by (rule valid_pre [OF consent_new_row]) auto
  have dec: "keeps (consent_ok v V K s0 None) (decide v l actor r n)" for r n
    by (rule keeps_decide [where J = "deciding v V K s0 actor r"])
      (rule consent_appends consent_decide deciding_supersede_row consent_decide_event; assumption?)+
  have binding: "keeps (consent_ok v V K s0 None) (insert_into cn_bindings cn_bindings_update fst b)" for b
    by (rule keeps_insert_into) (rule consent_appends)
  show ?thesis
    by (rule keeps_actions [where I = "consent_ok v V K s0 None", OF consent_appends(1) consent_event consent_appends(2) consent_appends(5) consent_contract
          consent_supersede_row row row dec keeps_register [OF consent_appends(1) consent_event edge]
          keeps_bind [OF consent_appends(1) consent_event edge binding]]) assumption+
qed

lemma edges_exec:
  assumes "same_engine v v'"
  shows "keeps (edges_but v None) (canon_exec v' look l actor c)"
proof -
  have super: "keeps (edges_but v None) (supersede_row v' i j actor basis q)" for i j basis q
    by (rule super_simply) (rule edges_appends edges_event set_stateI edges_set_state; assumption?)+
  have row: "valid (\<lambda>s. edges_but v None s \<and> A s) (insert_exchange v' e st) (\<lambda>_. edges_but v None)" for A e st
    unfolding insert_exchange_def
    by (rule valid_weaken [of "edges_but v None"]) (intro keeps_rules edges_put_file keeps_insert_row edges_appends, simp_all)
  have dec: "keeps (edges_but v None) (decide v' l actor r n)" for r n
    by (rule decided_simply) (rule edges_appends edges_event super set_stateI edges_set_state; assumption?)+
  show ?thesis
    by (rule keeps_actions)
      (rule edges_appends edges_event super row dec edges_register [OF assms] edges_bind [OF assms] insert_rowI; assumption?)+
qed

end
