(* ===== verification/Canon_Machine.thy ===== *)
theory Canon_Machine
  imports Canon_Agreement
begin

text \<open>
  The federation in any reachable state: each project keeps its own invariants, and what one received is what
  the other sealed. The properties of the exchange lane follow.
\<close>

section \<open>Senders and sources\<close>

text \<open>
  A packet that is recorded since \<open>s0\<close>, sealed by the client that owns the sender. \<open>A\<close> says what holds of the packets
  that were there already: later their senders may belong to others.
\<close>

definition sealed_by_owner :: "canon \<Rightarrow> canon \<Rightarrow> envelope \<Rightarrow> bool" where
  "sealed_by_owner s0 s e \<longleftrightarrow> xv_id e \<notin> xc_id ` set (cn_exchanges s0) \<and> xv_id e \<in> xc_id ` set (cn_exchanges s)
     \<and> owner_of (ms_sender (xv_message e)) s = Some (xv_client e)"

definition authored :: "(envelope \<Rightarrow> bool) \<Rightarrow> canon \<Rightarrow> canon \<Rightarrow> bool" where
  "authored A s0 s \<longleftrightarrow> xc_id ` set (cn_exchanges s0) \<subseteq> xc_id ` set (cn_exchanges s)
     \<and> (\<forall>r \<in> set (cn_exchanges s). xc_role r \<noteq> Inbox \<longrightarrow> A (xc_body r) \<or> sealed_by_owner s0 s (xc_body r))"

definition inbox_bodies :: "envelope set \<Rightarrow> canon \<Rightarrow> bool" where
  "inbox_bodies B s \<longleftrightarrow> (\<forall>r \<in> set (cn_exchanges s). xc_role r = Inbox \<longrightarrow> xc_body r \<in> B)"

lemma insert_exchange_row:
  assumes "insert_exchange v e st s = Inr (x, s')"
  obtains r where "cn_exchanges s' = cn_exchanges s @ [r]" "xc_body r = e" "xc_id r = xv_id e" "xv_id e \<notin> xc_id ` set (cn_exchanges s)"
    "role_of (cn_project s) (fst (envelope_route e)) (snd (envelope_route e)) = Inr (xc_role r)"
proof -
  from assms obtain role path f where "role_of (cn_project s) (fst (envelope_route e)) (snd (envelope_route e)) = Inr role"
    "s' = s\<lparr>cn_files := f, cn_exchanges := cn_exchanges s @ [new_exchange v e st role path (s\<lparr>cn_files := f\<rparr>)]\<rparr>"
    "\<forall>q \<in> set (cn_exchanges s). \<not> exchange_clash (new_exchange v e st role path (s\<lparr>cn_files := f\<rparr>)) q"
    by (rule insert_exchange_Inr)
  then show ?thesis by (intro that [of "new_exchange v e st role path (s\<lparr>cn_files := f\<rparr>)"]) (auto simp: exchange_clash_def)
qed

text \<open>Two predicates of the rows that do not look at states: a common way to keep them.\<close>

lemma keeps_row_predicate:
  assumes set_state: "\<And>s i st n. I s \<Longrightarrow> I (set_exchange_state (ce_hash v) i st n s)"
    and since: "\<And>s t. I s \<Longrightarrow> canon_since s t \<Longrightarrow> cn_exchanges t = cn_exchanges s \<Longrightarrow> I t"
    and own_row: "\<And>e st. valid (\<lambda>s. I s \<and> arriving v e st s \<and> xv_project e = cn_project s) (insert_exchange v e st) (\<lambda>_. I)"
    and foreign_row: "\<And>(r :: receive_request) n st. remote_read v look (rq_project r) (source_snapshot_of v False (rq_exchange r) (rq_digest r)) = Inr n \<Longrightarrow>
      valid (\<lambda>s. I s \<and> arriving v (ss_envelope n) st s \<and> fst (envelope_route (ss_envelope n)) \<noteq> cn_project s)
        (insert_exchange v (ss_envelope n) st) (\<lambda>_. I)"
  shows "keeps I (canon_exec v look l actor c)"
proof -
  have receipt: "I (s\<lparr>cn_base := (cn_base s)\<lparr>receipts := x\<rparr>\<rparr>)" and participant: "I (s\<lparr>cn_participants := cn_participants s @ ps\<rparr>)"
    and current: "I (s\<lparr>cn_current := cs\<rparr>)" and contracts: "I (s\<lparr>cn_contracts := cn_contracts s @ ks\<rparr>)"
    and links: "I (s\<lparr>cn_supersessions := cn_supersessions s @ ls\<rparr>)" and bindings: "I (s\<lparr>cn_bindings := cn_bindings s @ bs\<rparr>)"
    and events: "I (s\<lparr>cn_events := cn_events s @ es\<rparr>)" and edges: "I (s\<lparr>cn_edges := cn_edges s @ rs\<rparr>)"
    if "I s" for s x ps cs ks ls bs es rs
    by (rule since [OF that]; simp add: canon_since_appends canon_since_edges)+
  have event: "keeps I (add_canon_event v rid kind actor key r)" for rid kind actor key r
    by (rule validI) (clarsimp simp: add_canon_event_Inr, erule events)
  have edge: "keeps I (write_edge v l deps b)" for deps b
    by (rule keeps_write_edge) (rule since, assumption, rule canon_since_file, assumption, simp, erule edges)
  have contract: "valid (\<lambda>s. I s \<and> A s) (insert_row cn_contracts cn_contracts_update contract_clash r) (\<lambda>_. I)" for A r
    by (rule insert_rowI) (erule contracts)
  have binding: "keeps I (insert_into cn_bindings cn_bindings_update fst b)" for b
    by (rule keeps_insert_into) (erule bindings)
  have states: "valid (\<lambda>s. I s \<and> A s) (modify (set_exchange_state (ce_hash v) i st n)) (\<lambda>_. I)" for A i st n
    by (rule set_stateI) (rule set_state)
  have super: "keeps I (supersede_row v i j actor basis q)" for i j basis q
    by (rule super_simply) (rule receipt event links states; assumption?)+
  have dec: "keeps I (decide v l actor r n)" for r n
    by (rule decided_simply) (rule receipt event super states; assumption?)+
  have reg: "keeps I (register_task_edge v l actor r d)" for r d
    by (rule keeps_register) (rule receipt event edge; assumption?)+
  have bnd: "keeps I (bind_task_edge v l actor r e)" for r e
    by (rule keeps_bind) (rule receipt event edge binding; assumption?)+
  show ?thesis
    by (rule keeps_actions) (rule receipt event participant current contract super own_row foreign_row dec reg bnd; assumption?)+
qed

lemma authored_row: "valid (\<lambda>s. authored A s0 s \<and> arriving v e st s) (insert_exchange v e st) (\<lambda>_. authored A s0)"
proof (rule validI, elim conjE)
  fix s x s'
  assume s: "authored A s0 s" "arriving v e st s" and run: "insert_exchange v e st s = Inr (x, s')"
  obtain r where r: "cn_exchanges s' = cn_exchanges s @ [r]" "xc_body r = e" "xc_id r = xv_id e" "xv_id e \<notin> xc_id ` set (cn_exchanges s)"
      "role_of (cn_project s) (fst (envelope_route e)) (snd (envelope_route e)) = Inr (xc_role r)"
    using run by (rule insert_exchange_row)
  have since: "canon_since s s'" by (rule since_insert [OF run])
  have "sealed_by_owner s0 s' e" if "xc_role r \<noteq> Inbox"
  proof -
    have "owned_participant v (ms_sender (xv_message e)) (xv_client e) s"
      using that r(5) s(2) by (auto simp: role_of_Inr arriving_def Let_def split: prod.splits if_splits)
    then have "owner_of (ms_sender (xv_message e)) s' = Some (xv_client e)"
      using owner_since [OF _ since] by (auto simp: owned_participant_def dest: read_participant_owner)
    then show ?thesis using r(1,3,4) s(1) by (auto simp: sealed_by_owner_def authored_def)
  qed
  moreover have "sealed_by_owner s0 s' b" if "sealed_by_owner s0 s b" for b
    using that r(1) owner_since [OF _ since] by (auto simp: sealed_by_owner_def)
  ultimately show "authored A s0 s'" using s(1) r(1,2) by (auto simp: authored_def)
qed

lemma authored_exec: "keeps (authored A s0) (canon_exec v look l actor c)"
proof (rule keeps_row_predicate)
  show "authored A s0 (set_exchange_state (ce_hash v) i st n s)" if "authored A s0 s" for s i st n
  proof -
    let ?t = "set_exchange_state (ce_hash v) i st n s"
    have "map xc_id (cn_exchanges ?t) = map xc_id (cn_exchanges s)" by (simp add: set_exchange_state_def map_update_where)
    then have ids: "xc_id ` set (cn_exchanges ?t) = xc_id ` set (cn_exchanges s)" by (metis list.set_map)
    have "owner_of p ?t = owner_of p s" for p by (simp add: owner_of_def find_participant_def set_exchange_state_def)
    then have "sealed_by_owner s0 ?t = sealed_by_owner s0 s" by (simp add: sealed_by_owner_def ids fun_eq_iff)
    with that ids show ?thesis by (auto simp: authored_def set_exchange_state_def set_update_where)
  qed
  show "authored A s0 t" if "authored A s0 s" "canon_since s t" "cn_exchanges t = cn_exchanges s" for s t
    using that(1,3) owner_since [OF _ that(2)] by (auto simp: authored_def sealed_by_owner_def)
qed (rule valid_pre [OF authored_row], simp)+

lemma inbox_row:
  "valid (\<lambda>s. inbox_bodies B s \<and> (fst (envelope_route e) \<noteq> cn_project s \<longrightarrow> e \<in> B)) (insert_exchange v e st) (\<lambda>_. inbox_bodies B)"
proof (rule validI, elim conjE)
  fix s x s'
  assume s: "inbox_bodies B s" "fst (envelope_route e) \<noteq> cn_project s \<longrightarrow> e \<in> B" and run: "insert_exchange v e st s = Inr (x, s')"
  obtain r where r: "cn_exchanges s' = cn_exchanges s @ [r]" "xc_body r = e" "xc_id r = xv_id e" "xv_id e \<notin> xc_id ` set (cn_exchanges s)"
      "role_of (cn_project s) (fst (envelope_route e)) (snd (envelope_route e)) = Inr (xc_role r)"
    using run by (rule insert_exchange_row)
  with s show "inbox_bodies B s'" by (auto simp: inbox_bodies_def role_of_Inr split: if_splits)
qed

lemma inbox_exec:
  assumes "\<And>(r :: receive_request) n. remote_read v look (rq_project r) (source_snapshot_of v False (rq_exchange r) (rq_digest r)) = Inr n \<Longrightarrow>
    ss_envelope n \<in> B"
  shows "keeps (inbox_bodies B) (canon_exec v look l actor c)"
proof (rule keeps_row_predicate)
  show "inbox_bodies B (set_exchange_state (ce_hash v) i st n s)" if "inbox_bodies B s" for s i st n
    using that by (auto simp: inbox_bodies_def set_exchange_state_def set_update_where)
  show "inbox_bodies B t" if "inbox_bodies B s" "canon_since s t" "cn_exchanges t = cn_exchanges s" for s t
    using that by (simp add: inbox_bodies_def)
  show "valid (\<lambda>s. inbox_bodies B s \<and> arriving v e st s \<and> xv_project e = cn_project s) (insert_exchange v e st) (\<lambda>_. inbox_bodies B)" for e st
    by (rule valid_pre [OF inbox_row]) (simp add: envelope_route_def)
  show "valid (\<lambda>s. inbox_bodies B s \<and> arriving v (ss_envelope n) st s \<and> fst (envelope_route (ss_envelope n)) \<noteq> cn_project s)
        (insert_exchange v (ss_envelope n) st) (\<lambda>_. inbox_bodies B)"
    if "remote_read v look (rq_project r) (source_snapshot_of v False (rq_exchange r) (rq_digest r)) = Inr n" for r :: receive_request and n st
    by (rule valid_pre [OF inbox_row]) (use assms [OF that] in simp)
qed

text \<open>What a source shows is a row of its outbox.\<close>

lemma snapshot_of_row:
  assumes "remote_read v look pid (source_snapshot_of v preview i d) = Inr n"
  obtains t q where "look pid = Some t" "q \<in> set (cn_exchanges t)" "xc_body q = ss_envelope n" "xc_role q = Outbox"
    "xv_project (ss_envelope n) = cn_project t"
proof -
  obtain t where t: "look pid = Some t" "source_snapshot_of v preview i d t = Inr n"
    using assms by (auto simp: remote_read_def rbind_Inr split: option.splits)
  obtain q where q: "read_exchange v i t = Inr q" "xc_role q = Outbox" "xc_body q = ss_envelope n"
    using t(2) by (auto simp: source_snapshot_of_def Let_def rbind_Inr split: option.splits if_splits prod.splits)
  then have "q \<in> set (cn_exchanges t)" "check_row v q t = Inr q"
    by (auto simp: read_exchange_def find_exchange_def check_row_iff split: option.splits dest: find_SomeD)
  moreover have "xv_project (ss_envelope n) = cn_project t"
    using \<open>check_row v q t = Inr q\<close> q(2,3) by (auto simp: check_row_iff role_of_Inr row_names_envelope_def Let_def envelope_route_def split: if_splits)
  ultimately show ?thesis using that t(1) q by blast
qed

section \<open>The federation\<close>

definition store_ok :: "canon_env \<Rightarrow> canon \<Rightarrow> bool" where
  "store_ok v s \<longleftrightarrow> events_ok (ce_hash v) s \<and> trail_ok v s \<and> edges_but v None s"

text \<open>
  What holds from any state to a later one: the tables grow and the files stay, but a participant may have passed to
  another client.
\<close>

definition canon_later :: "canon \<Rightarrow> canon \<Rightarrow> bool" where
  "canon_later s s' \<longleftrightarrow> cn_project s' = cn_project s \<and> (\<forall>p t. cn_files s p = Some t \<longrightarrow> cn_files s' p = Some t)
     \<and> grows (\<lambda>p q. pr_id q = pr_id p) (cn_participants s) (cn_participants s') \<and> grows (=) (cn_contracts s) (cn_contracts s')
     \<and> grows (=) (cn_events s) (cn_events s') \<and> grows (=) (cn_supersessions s) (cn_supersessions s')
     \<and> grows (=) (cn_edges s) (cn_edges s') \<and> grows (=) (cn_bindings s) (cn_bindings s')
     \<and> grows exchange_since (cn_exchanges s) (cn_exchanges s')"

lemma grows_weaken: "grows R xs ys \<Longrightarrow> (\<And>x y. R x y \<Longrightarrow> S x y) \<Longrightarrow> grows S xs ys"
  by (simp add: grows_def)

lemma since_later: "canon_since s s' \<Longrightarrow> canon_later s s'"
  unfolding canon_since_def canon_later_def extends_def by (blast intro: grows_weaken)

lemma canon_later_refl [simp]: "canon_later s s"
  by (simp add: since_later)

lemma canon_later_trans:
  assumes "canon_later s t" "canon_later t u"
  shows "canon_later s u"
proof -
  have "grows (\<lambda>p q. pr_id q = pr_id p) (cn_participants s) (cn_participants u)"
    using assms unfolding canon_later_def by (auto intro: grows_trans)
  moreover have "grows exchange_since (cn_exchanges s) (cn_exchanges u)"
    using assms unfolding canon_later_def by (blast intro: grows_trans rtranclp_trans)
  moreover have "cn_project u = cn_project s \<and> (\<forall>p x. cn_files s p = Some x \<longrightarrow> cn_files u p = Some x)"
    using assms by (simp add: canon_later_def)
  ultimately show ?thesis using assms unfolding canon_later_def by (blast intro: grows_eq_trans)
qed

lemma later_row:
  assumes "canon_later s s'" "n \<in> set (cn_exchanges s)"
  obtains n' where "n' \<in> set (cn_exchanges s')" "exchange_since n n'"
  using assms grows_member [of exchange_since] unfolding canon_later_def by blast

lemma frame_later: "ownership_frame H s t \<Longrightarrow> canon_later s t"
proof -
  assume frame: "ownership_frame H s t"
  then have ids: "map pr_id (cn_participants t) = map pr_id (cn_participants s)" by (simp add: ownership_frame_def)
  then have "grows (\<lambda>p q. pr_id q = pr_id p) (cn_participants s) (cn_participants t)"
    unfolding grows_def by (metis length_map nth_map order_refl)
  then show ?thesis using frame_tables [OF frame] by (simp add: canon_later_def grows_refl)
qed

definition sealed_at :: "federation \<Rightarrow> envelope \<Rightarrow> bool" where
  "sealed_at f e \<longleftrightarrow> (\<exists>q \<in> set (cn_exchanges (fd_stores f (xv_project e))). xc_body q = e \<and> xc_role q = Outbox)"

definition federation_ok :: "canon_env \<Rightarrow> federation \<Rightarrow> bool" where
  "federation_ok v f \<longleftrightarrow> (\<forall>p. store_ok v (fd_stores f p) \<and> cn_project (fd_stores f p) = p \<and> inbox_bodies {e. sealed_at f e} (fd_stores f p))
     \<and> (\<forall>t \<in> set (fd_seen f). canon_later t (fd_stores f (cn_project t)))"

definition federation_since :: "federation \<Rightarrow> federation \<Rightarrow> bool" where
  "federation_since f f' \<longleftrightarrow> (\<forall>p. canon_later (fd_stores f p) (fd_stores f' p))"

lemma store_exec:
  assumes "same_engine v v'"
  shows "keeps (store_ok v) (canon_exec v' look l actor c)"
proof -
  note same = same_engine_invariants [OF assms]
  show ?thesis
    unfolding store_ok_def
    by (rule keeps_conj [OF events_exec [of v', unfolded same] keeps_conj [OF trail_exec [of v', unfolded same] edges_exec [OF assms]]])
qed

lemma since_exec:
  assumes "same_engine v v'" "store_ok v s" "canon_exec v' look l actor c s = Inr (x, s')"
  shows "canon_since s s'"
proof -
  have "grown v' s s" using assms(1,2) by (simp add: store_ok_def same_engine_invariants [OF assms(1)])
  then show ?thesis using validD [OF grown_exec [of v' s]] assms(3) by blast
qed

lemma canon_since_base: "project_id b = cn_project s \<Longrightarrow> canon_since s (s\<lparr>cn_base := b\<rparr>)"
  by (simp add: canon_since_def grows_refl extends_def find_participant_def)

lemma store_ok_same:
  assumes "store_ok v s" "canon_since s t" "cn_events t = cn_events s" "cn_exchanges t = cn_exchanges s"
    "cn_edges t = cn_edges s" "cn_bindings t = cn_bindings s"
  shows "store_ok v t"
proof -
  have s: "events_ok (ce_hash v) s" "packets_ok v s" "links_but v None s" "edges_but v None s"
    using assms(1) by (auto simp: store_ok_def)
  have ok: "packets_ok v t" using assms(2) by (intro packets_ok_extends [OF s(2) _ assms(4)]) (simp add: canon_since_def)
  have "events_ok (ce_hash v) t" using s(1) by (simp add: events_ok_def assms(3))
  then show ?thesis
    using ok links_same_rows [OF s(3) assms(2,4)] edges_same [OF s(4) assms(2,5,6)] by (simp add: store_ok_def)
qed

text \<open>A continuation keeps them too: none of the checks of packets, links and edges asks for the owner.\<close>

lemma frame_packets:
  assumes "packets_ok v s" "ownership_frame (ce_hash v) s t"
  shows "packets_ok v t"
proof -
  note same = frame_tables [OF assms(2)]
  have "known_participant v p t = Inr ()" if "known_participant v p s = Inr ()" for p
    using that assms(2) unfolding known_participant_iff ownership_frame_def by blast
  then have "check_row v r t = Inr r" if "check_row v r s = Inr r" for r
    using that unfolding check_row_iff same by blast
  then show ?thesis using assms(1) by (simp add: packets_ok_def same)
qed

lemma frame_store_ok:
  assumes "store_ok v s" "ownership_frame (ce_hash v) s t"
  shows "store_ok v t"
proof -
  note same = frame_tables [OF assms(2)]
  have finds: "find_canon_event rid t = find_canon_event rid s" "find_edge i t = find_edge i s" "edge_binding i t = edge_binding i s" for rid i
    by (simp_all add: find_canon_event_def find_edge_def edge_binding_def same split: option.split)
  have "read_edge v i t = read_edge v i s" for i unfolding read_edge_def finds same by (rule refl)
  then have "edges_but v None t = edges_but v None s" unfolding edges_but_def edge_readable_def same finds by simp
  moreover have "links_but v None t = links_but v None s"
    unfolding links_but_def recorded_link_def link_between_def same finds by (rule refl)
  moreover have "events_ok (ce_hash v) t = events_ok (ce_hash v) s" by (simp add: events_ok_def same)
  ultimately show ?thesis using assms(1) frame_packets [OF _ assms(2)] by (auto simp: store_ok_def)
qed

lemma sealed_since: "sealed_at f e \<Longrightarrow> federation_since f f' \<Longrightarrow> sealed_at f' e"
proof -
  assume e: "sealed_at f e" and since: "federation_since f f'"
  from e obtain q where q: "q \<in> set (cn_exchanges (fd_stores f (xv_project e)))" "xc_body q = e" "xc_role q = Outbox"
    by (auto simp: sealed_at_def)
  have "canon_later (fd_stores f (xv_project e)) (fd_stores f' (xv_project e))" using since by (simp add: federation_since_def)
  from later_row [OF this q(1)] obtain q' where "q' \<in> set (cn_exchanges (fd_stores f' (xv_project e)))" "exchange_since q q'" .
  then show "sealed_at f' e"
    using q sealed_part_fields [OF exchange_since_sealed, of q q'] by (auto simp: sealed_at_def)
qed

text \<open>A step that changes one store.\<close>

lemma federation_set_store:
  assumes ok: "federation_ok v f" and s': "store_ok v s'" "canon_later (fd_stores f pid) s'" "inbox_bodies {e. sealed_at f e} s'"
  shows "federation_ok v (set_store pid s' f) \<and> federation_since f (set_store pid s' f)"
proof -
  let ?f = "set_store pid s' f"
  have since: "federation_since f ?f" using s'(2) by (simp add: federation_since_def set_store_def)
  have pid: "cn_project s' = pid" using ok s'(2) by (auto simp: federation_ok_def canon_later_def)
  have "inbox_bodies {e. sealed_at ?f e} (fd_stores ?f p)" for p
    using ok s'(3) sealed_since [OF _ since] by (auto simp: federation_ok_def set_store_def inbox_bodies_def)
  moreover have "store_ok v (fd_stores ?f p)" "cn_project (fd_stores ?f p) = p" for p
    using ok s'(1) pid by (simp_all add: federation_ok_def set_store_def)
  moreover have "canon_later t (fd_stores ?f (cn_project t))" if "t \<in> set (fd_seen ?f)" for t
    using that ok since canon_later_trans by (fastforce simp: federation_ok_def federation_since_def set_store_def)
  ultimately show ?thesis using since unfolding federation_ok_def by blast
qed

lemma looked_up_seen: "looked_up f ks pid = Some t \<Longrightarrow> t \<in> set (fd_seen f) \<and> cn_project t = pid"
  by (auto simp: looked_up_def dest!: find_SomeD)

lemma seen_sealed:
  assumes "federation_ok v f" "remote_read v' (looked_up f ks) pid (source_snapshot_of v' preview i d) = Inr n"
  shows "sealed_at f (ss_envelope n)"
proof -
  obtain t q where t: "looked_up f ks pid = Some t" "q \<in> set (cn_exchanges t)" "xc_body q = ss_envelope n" "xc_role q = Outbox"
      "xv_project (ss_envelope n) = cn_project t"
    using assms(2) by (rule snapshot_of_row)
  have "t \<in> set (fd_seen f)" using looked_up_seen [OF t(1)] by blast
  then have "canon_later t (fd_stores f (cn_project t))" using assms(1) unfolding federation_ok_def by blast
  from later_row [OF this t(2)] obtain q' where "q' \<in> set (cn_exchanges (fd_stores f (cn_project t)))" "exchange_since q q'" .
  then show ?thesis using t(3-5) sealed_part_fields [OF exchange_since_sealed, of q q'] by (auto simp: sealed_at_def)
qed

lemma federation_step_ok:
  assumes ok: "federation_ok v f"
  shows "federation_ok v (federation_step v q f) \<and> federation_since f (federation_step v q f)"
proof (cases q)
  case (Act pid w rf l actor ks c)
  let ?v = "at_call v w rf" and ?s = "fd_stores f pid"
  have s: "store_ok v ?s" "inbox_bodies {e. sealed_at f e} ?s" using ok by (simp_all add: federation_ok_def)
  show ?thesis
  proof (cases "canon_exec ?v (looked_up f ks) l actor c ?s")
    case (Inl e)
    then have "federation_step v q f = f" by (simp add: Act commit_def set_store_def)
    with ok show ?thesis by (simp add: federation_since_def)
  next
    case (Inr y)
    then obtain x s' where run: "canon_exec ?v (looked_up f ks) l actor c ?s = Inr (x, s')" by (cases y) simp
    have "inbox_bodies {e. sealed_at f e} s'"
      by (rule validD [OF inbox_exec s(2) run]) (use seen_sealed [OF ok] in blast)
    with run s show ?thesis
      using federation_set_store [OF ok validD [OF store_exec s(1) run] since_later [OF since_exec [OF _ s(1) run]]] by (simp add: Act commit_def)
  qed
next
  case (Continue pid w g l actor c)
  let ?v = "at_call v w (ce_reference v)" and ?s = "fd_stores f pid"
  show ?thesis
  proof (cases "continuation_exec ?v g l actor c ?s")
    case (Inl e)
    then have "federation_step v q f = f" by (simp add: Continue commit_def set_store_def)
    with ok show ?thesis by (simp add: federation_since_def)
  next
    case (Inr y)
    then obtain x s' where run: "continuation_exec ?v g l actor c ?s = Inr (x, s')" by (cases y) simp
    then have frame: "ownership_frame (ce_hash v) ?s s'" using continuation_frame [OF run] by (simp add: at_call_def)
    have "store_ok v ?s" "inbox_bodies {e. sealed_at f e} s'"
      using ok frame_tables(3) [OF frame] by (simp_all add: federation_ok_def inbox_bodies_def)
    with run frame show ?thesis
      using federation_set_store [OF ok frame_store_ok frame_later] by (simp add: Continue commit_def)
  qed
next
  case (Look pid)
  then show ?thesis using ok by (auto simp: federation_ok_def federation_since_def sealed_at_def)
next
  case (Other_Work pid b)
  let ?s = "fd_stores f pid"
  show ?thesis
  proof (cases "project_id b = cn_project ?s")
    case True
    have "federation_ok v (set_store pid (?s\<lparr>cn_base := b\<rparr>) f) \<and> federation_since f (set_store pid (?s\<lparr>cn_base := b\<rparr>) f)"
      using ok by (intro federation_set_store [OF ok] store_ok_same [OF _ canon_since_base [OF True]] since_later [OF canon_since_base [OF True]])
        (simp_all add: federation_ok_def inbox_bodies_def)
    with True show ?thesis by (simp add: Other_Work Let_def)
  next
    case False
    with ok show ?thesis by (simp add: Other_Work Let_def federation_since_def)
  qed
next
  case (Left_File pid path body)
  let ?s = "fd_stores f pid"
  let ?t = "?s\<lparr>cn_files := (cn_files ?s)(path \<mapsto> body)\<rparr>"
  show ?thesis
  proof (cases "cn_files ?s path = None")
    case True
    have "federation_ok v (set_store pid ?t f) \<and> federation_since f (set_store pid ?t f)"
      using ok by (intro federation_set_store [OF ok] store_ok_same [OF _ canon_since_file [OF True]] since_later [OF canon_since_file [OF True]])
        (simp_all add: federation_ok_def inbox_bodies_def)
    with True show ?thesis by (simp add: Left_File Let_def)
  next
    case False
    with ok show ?thesis by (auto simp: Left_File Let_def federation_since_def)
  qed
qed

lemma federation_run:
  "federation_ok v f \<Longrightarrow> federation_ok v (run_federation v qs f) \<and> federation_since f (run_federation v qs f)"
proof (induction qs arbitrary: f)
  case Nil
  then show ?case by (simp add: federation_since_def)
next
  case (Cons q qs)
  with federation_step_ok [OF Cons.prems, of q] show ?case
    by (auto simp: federation_since_def intro: canon_later_trans)
qed

lemma federation_start: "federation_ok v (new_federation roots)"
  by (simp add: federation_ok_def new_federation_def empty_canon_def store_ok_def events_ok_def packets_ok_def links_but_def
      edges_but_def inbox_bodies_def acyclic_def empty_project_def)

lemma store_after_ok: "store_ok v (store_after v roots qs pid)" "federation_ok v (federation_after v roots qs)"
  using federation_run [OF federation_start] by (simp_all add: store_after_def federation_after_def federation_ok_def)

lemma store_after_since: "canon_later (store_after v roots qs pid) (store_after v roots (qs @ rs) pid)"
  using federation_run [OF store_after_ok(2) [of v roots qs], of rs]
  by (simp add: store_after_def federation_after_def run_federation_append federation_since_def)

section \<open>Properties\<close>

text \<open>
  C19. The search for a cycle (\<open>_would_cycle\<close>) ends on every graph and finds exactly this: an edge from \<open>source\<close> to
  \<open>destination\<close> closes a cycle when, and only when, the recorded edges lead from \<open>destination\<close> to \<open>source\<close>.
\<close>

theorem cycle_search_is_reachability:
  "would_cycle es source destination \<longleftrightarrow> (destination, source) \<in> (set es)\<^sup>*"
  by (rule would_cycle_iff)

text \<open>
  C16. In every state that the federation reaches, with any interleaving of actions, remote reads, work of other
  components and left-over files, the walk over the recorded task edges of a project (\<open>_graph_edges\<close>, with every
  integrity check of digests, files and bindings) succeeds, and the graph it returns has no cycle.
\<close>

theorem task_graph_stays_acyclic:
  "let s = store_after v roots qs pid in
     (case graph_walk v [] (cn_edges s) s of Inl e \<Rightarrow> False
      | Inr es \<Rightarrow> length es = length (cn_edges s) \<and> acyclic (set (map (\<lambda>e. edge_pair (et_edge e)) es)))"
proof -
  let ?s = "store_after v roots qs pid"
  have inv: "edges_but v None ?s" using store_after_ok(1) [of v roots qs pid] by (simp add: store_ok_def)
  then have graph: "acyclic (set (map row_pair (cn_edges ?s)))" "distinct (map er_id (cn_edges ?s))" unfolding edges_but_def by blast+
  obtain es where es: "graph_walk v [] (cn_edges ?s) ?s = Inr es"
    using graph_walk_runs [OF inv subset_refl, of "[]"] graph(1) by auto
  have pairs: "map (\<lambda>e. edge_pair (et_edge e)) es = map (\<lambda>r. edge_pair (er_body r)) (cn_edges ?s)"
    by (rule graph_walk_pairs [OF graph(2) subset_refl es])
  also have "... = map row_pair (cn_edges ?s)" using inv by (simp add: edges_but_def)
  finally show ?thesis using es graph(1) map_eq_imp_length_eq [OF pairs] by simp
qed

text \<open>
  C17. In every reachable state the chain of exchange events verifies: \<open>verify_history\<close> returns the number of events
  and the last digest, and refuses only a history that is longer than its budget.
\<close>

theorem exchange_history_always_verifies:
  "let s = store_after v roots qs pid; n = length (cn_events s) in
     verify_canon_history (ce_hash v) 50000 s = (if 50000 < n then Inl (LaneError ''CANON_HISTORY_BUDGET'')
       else Inr (n, if n = 0 then None else Some (cv_digest (last (cn_events s)))))"
proof -
  let ?s = "store_after v roots qs pid"
  obtain h where h: "canon_walk (ce_hash v) 1 None (cn_events ?s) = Some h"
    using store_after_ok(1) [of v roots qs pid] by (auto simp: store_ok_def events_ok_def)
  have "sorted (map cv_sequence (cn_events ?s))" unfolding walk_numbers [OF h] by (rule sorted_upt)
  then have rows: "sort_key cv_sequence (cn_events ?s) = cn_events ?s" by (rule sort_key_id_if_sorted)
  have "h = (if length (cn_events ?s) = 0 then None else Some (cv_digest (last (cn_events ?s))))"
    using canon_chain.verify_head [OF h] h by auto
  then show ?thesis unfolding Let_def verify_canon_history_def rows using h by simp
qed

text \<open>
  C18. In every reachable state every recorded packet reads back: \<open>exchange\<close> finds the digest of the envelope, the state
  digest, the route and role, the participants, the message and the packet file as they were recorded.
\<close>

theorem packets_read_back:
  "let s = store_after v roots qs pid in list_all (\<lambda>r. read_exchange v (xc_id r) s = Inr r) (cn_exchanges s)"
  using store_after_ok(1) [of v roots qs pid] read_exchange_iff
  by (auto simp: Let_def store_ok_def list_all_iff)

text \<open>
  C15. Whatever the projects do next, no packet is lost or rewritten: every packet keeps its envelope and its place,
  and its state only moves along the life cycle (decided while pending, superseded once decided).
\<close>

theorem packets_follow_their_life_cycle:
  "let s = store_after v roots qs pid; t = store_after v roots (qs @ rs) pid in
     grows exchange_since (cn_exchanges s) (cn_exchanges t)
     \<and> map sealed_part (take (length (cn_exchanges s)) (cn_exchanges t)) = map sealed_part (cn_exchanges s)"
proof -
  let ?s = "store_after v roots qs pid" and ?t = "store_after v roots (qs @ rs) pid"
  have grown: "grows exchange_since (cn_exchanges ?s) (cn_exchanges ?t)"
    using store_after_since [of v roots qs pid rs] by (simp add: canon_later_def)
  have "map sealed_part (take (length (cn_exchanges ?s)) (cn_exchanges ?t)) = map sealed_part (cn_exchanges ?s)"
    using grown by (intro nth_equalityI) (auto simp: grows_def exchange_since_sealed)
  with grown show ?thesis by (simp add: Let_def)
qed

text \<open>
  C14. In every reachable state a superseded packet leads, along recorded links that read back, to an admitted packet
  of the same sender, receiver and projects; the chain ends within the number of packets.
\<close>

theorem superseded_leads_to_admitted:
  "let s = store_after v roots qs pid in
     list_all (\<lambda>r. if xc_state r = Was_Superseded then
         (case input_in_force v (Suc (length (cn_exchanges s))) r s of
            None \<Rightarrow> False | Some n \<Rightarrow> xc_state n = Admitted \<and> same_route n r)
       else True) (cn_exchanges s)"
proof -
  let ?s = "store_after v roots qs pid"
  have inv: "trail_ok v ?s" using store_after_ok(1) [of v roots qs pid] by (simp add: store_ok_def)
  have "case input_in_force v (Suc (length (cn_exchanges ?s))) r ?s of None \<Rightarrow> False | Some n \<Rightarrow> xc_state n = Admitted \<and> same_route n r"
    if r: "r \<in> set (cn_exchanges ?s)" "xc_state r = Was_Superseded" for r
  proof -
    have "length (cn_exchanges ?s) - xc_sequence r < Suc (length (cn_exchanges ?s))" by simp
    then obtain n where "input_in_force v (Suc (length (cn_exchanges ?s))) r ?s = Some n" "xc_state n = Admitted" "same_route n r"
      using in_force_found [OF inv r(1)] r(2) by blast
    then show ?thesis by (simp del: input_in_force.simps)
  qed
  then show ?thesis by (simp add: Let_def list_all_iff del: input_in_force.simps)
qed

section \<open>Who acted, and when\<close>

text \<open>
  \<open>at_some_step P\<close>: one step of the run led from a state to another that \<open>P\<close> relates. Ownership changes in steps of its
  own, so what a step recorded and who owned the participant belong together.
\<close>

definition at_some_step ::
  "(canon \<Rightarrow> canon \<Rightarrow> bool) \<Rightarrow> canon_env \<Rightarrow> (string \<Rightarrow> string) \<Rightarrow> federation_op list \<Rightarrow> string \<Rightarrow> bool" where
  "at_some_step P v roots qs pid \<longleftrightarrow>
     list_ex (\<lambda>n. P (store_after v roots (take n qs) pid) (store_after v roots (take (Suc n) qs) pid)) [0 ..< length qs]"

lemma at_some_step_Nil [simp]: "\<not> at_some_step P v roots [] pid"
  by (simp add: at_some_step_def)

lemma at_some_step_snoc:
  "at_some_step P v roots (qs @ [q]) pid \<longleftrightarrow>
     at_some_step P v roots qs pid \<or> P (store_after v roots qs pid) (store_after v roots (qs @ [q]) pid)"
  by (auto simp: at_some_step_def list_ex_iff less_Suc_eq)

text \<open>The rows of a state rest on \<open>V\<close>, \<open>K\<close> and \<open>A\<close> alone, or on what was written since \<open>s0\<close>.\<close>

definition rightful ::
  "canon_env \<Rightarrow> (string \<Rightarrow> canon_event \<Rightarrow> bool) \<Rightarrow> (contract_row \<Rightarrow> bool) \<Rightarrow> (envelope \<Rightarrow> bool) \<Rightarrow> canon \<Rightarrow> canon \<Rightarrow> bool" where
  "rightful v V K A s0 s \<longleftrightarrow> consent_ok v V K s0 None s \<and> authored A s0 s"

lemma nothing_new [simp]: "\<not> event_by_owner s s p e" "\<not> contract_by_owner s s c" "\<not> sealed_by_owner s s b"
  by (auto simp: event_by_owner_def contract_by_owner_def sealed_by_owner_def)

text \<open>What a call added becomes part of the past.\<close>

lemma rightful_past:
  assumes "rightful v V K A s t"
  shows "rightful v (\<lambda>p e. V p e \<or> event_by_owner s t p e) (\<lambda>c. K c \<or> contract_by_owner s t c) (\<lambda>e. A e \<or> sealed_by_owner s t e) t t"
  using assms
  by (simp add: rightful_def contracts_owned_def consent_but_def consented_def list_ex_iff decided_rightly_def authored_def)

lemma rightful_exec:
  assumes "same_engine v v'"
  shows "keeps (rightful v V K A s0) (canon_exec v' look l actor c)"
  unfolding rightful_def
  by (rule keeps_conj [OF consent_exec [of v', unfolded same_engine_invariants [OF assms]] authored_exec])

lemma rightful_same_rows:
  assumes "rightful v V K A s s" "canon_since s t" "packets_ok v t" "cn_exchanges t = cn_exchanges s" "cn_contracts t = cn_contracts s"
  shows "rightful v V K A s t"
proof -
  have "consent_ok v V K s None t" using assms by (intro consent_same_rows [OF _ assms(2)]) (simp_all add: rightful_def)
  moreover have "authored A s t" using assms(1,4) by (simp add: rightful_def authored_def)
  ultimately show ?thesis by (simp add: rightful_def)
qed

lemma rightful_frame:
  assumes "rightful v V K A s s" "ownership_frame (ce_hash v) s t"
  shows "rightful v V K A t t"
proof -
  note same = frame_tables [OF assms(2)]
  have s: "packets_ok v s" "contracts_owned K s s" "consent_but V s None s" "authored A s s" using assms(1) by (simp_all add: rightful_def)
  have "contracts_owned K t t" "consent_but V t None t" "authored A t t"
    using s(2-4) by (simp_all add: contracts_owned_def consent_but_def consented_def decided_rightly_def list_ex_iff authored_def same)
  with frame_packets [OF s(1) assms(2)] show ?thesis by (simp add: rightful_def)
qed

lemma rightful_weaken:
  assumes "rightful v V K A s s" "\<And>p e. V p e \<Longrightarrow> V' p e" "\<And>c. K c \<Longrightarrow> K' c" "\<And>e. A e \<Longrightarrow> A' e"
  shows "rightful v V' K' A' s s"
proof -
  have "consented V' s s r" if "consented V s s r" for r
    using that assms(2) by (auto simp: consented_def decided_rightly_def list_ex_iff)
  then show ?thesis
    using assms(1,3,4) by (auto simp: rightful_def contracts_owned_def consent_but_def authored_def)
qed

lemma rightful_step:
  fixes q :: federation_op
  assumes s: "rightful v V K A (fd_stores f pid) (fd_stores f pid)"
  defines "s \<equiv> fd_stores f pid" and "t \<equiv> fd_stores (federation_step v q f) pid"
  shows "rightful v (\<lambda>p e. V p e \<or> event_by_owner s t p e) (\<lambda>c. K c \<or> contract_by_owner s t c) (\<lambda>e. A e \<or> sealed_by_owner s t e) t t"
proof -
  have past: ?thesis if "rightful v V K A s t" using that by (rule rightful_past)
  have same: ?thesis if "t = s" using s by (intro past) (simp add: that s_def)
  have packets: "packets_ok v s" using s by (simp add: rightful_def s_def)
  have quiet: ?thesis if "canon_since s t" "packets_ok v t" "cn_exchanges t = cn_exchanges s" "cn_contracts t = cn_contracts s"
    using rightful_same_rows [OF s [folded s_def] that] by (rule past)
  show ?thesis
  proof (cases q)
    case (Act p w rf l actor ks c)
    show ?thesis
    proof (cases "p = pid")
      case True
      show ?thesis
      proof (cases "canon_exec (at_call v w rf) (looked_up f ks) l actor c s")
        case (Inl e)
        then show ?thesis using True by (intro same) (simp add: t_def s_def Act commit_def set_store_def)
      next
        case (Inr y)
        then obtain x where run: "canon_exec (at_call v w rf) (looked_up f ks) l actor c s = Inr (x, t)"
          using True by (cases y) (simp add: t_def s_def Act commit_def set_store_def)
        show ?thesis by (rule past, rule validD [OF rightful_exec s [folded s_def] run]) simp
      qed
    qed (intro same, simp add: t_def s_def Act set_store_def)
  next
    case (Continue p w g l actor c)
    show ?thesis
    proof (cases "p = pid")
      case True
      show ?thesis
      proof (cases "continuation_exec (at_call v w (ce_reference v)) g l actor c s")
        case (Inl e)
        then show ?thesis using True by (intro same) (simp add: t_def s_def Continue commit_def set_store_def)
      next
        case (Inr y)
        then obtain x where run: "continuation_exec (at_call v w (ce_reference v)) g l actor c s = Inr (x, t)"
          using True by (cases y) (simp add: t_def s_def Continue commit_def set_store_def)
        have "ownership_frame (ce_hash v) s t" using continuation_frame [OF run] by (simp add: at_call_def)
        then show ?thesis by (intro rightful_weaken [OF rightful_frame [OF s [folded s_def]]]) simp_all
      qed
    qed (intro same, simp add: t_def s_def Continue set_store_def)
  next
    case (Look p)
    then show ?thesis by (intro same) (simp add: t_def s_def)
  next
    case (Other_Work p b)
    show ?thesis
    proof (cases "p = pid \<and> project_id b = cn_project s")
      case True
      then have t: "t = s\<lparr>cn_base := b\<rparr>" by (simp add: t_def s_def Other_Work Let_def set_store_def)
      have since: "canon_since s t" unfolding t by (rule canon_since_base) (simp add: True)
      have "packets_ok v t" using since by (intro packets_ok_extends [OF packets]) (simp_all add: canon_since_def t)
      with since show ?thesis by (intro quiet) (simp_all add: t)
    qed (intro same, auto simp: t_def s_def Other_Work Let_def set_store_def)
  next
    case (Left_File p path body)
    show ?thesis
    proof (cases "p = pid \<and> cn_files s path = None")
      case True
      then have t: "t = s\<lparr>cn_files := (cn_files s)(path \<mapsto> body)\<rparr>" by (simp add: t_def s_def Left_File Let_def set_store_def)
      have since: "canon_since s t" unfolding t by (rule canon_since_file) (simp add: True)
      have "packets_ok v t" unfolding t by (rule packets_ok_file [OF packets]) (simp add: True)
      with since show ?thesis by (intro quiet) (simp_all add: t)
    qed (intro same, auto simp: t_def s_def Left_File Let_def set_store_def)
  qed
qed

lemma rightful_after:
  "rightful v (\<lambda>p e. at_some_step (\<lambda>s t. event_by_owner s t p e) v roots qs pid) (\<lambda>c. at_some_step (\<lambda>s t. contract_by_owner s t c) v roots qs pid)
     (\<lambda>e. at_some_step (\<lambda>s t. sealed_by_owner s t e) v roots qs pid) (store_after v roots qs pid) (store_after v roots qs pid)"
proof (induction qs rule: rev_induct)
  case Nil
  have "packets_ok v (store_after v roots [] pid)" using store_after_ok(1) [of v roots "[]" pid] by (simp add: store_ok_def)
  then show ?case
    by (simp add: rightful_def contracts_owned_def consent_but_def authored_def store_after_def federation_after_def new_federation_def empty_canon_def)
next
  case (snoc q qs)
  have "store_after v roots (qs @ [q]) pid = fd_stores (federation_step v q (federation_after v roots qs)) pid"
    by (simp add: store_after_def federation_after_def run_federation_append)
  then show ?case
    using rightful_step [of v _ _ _ "federation_after v roots qs" pid q] snoc by (simp add: at_some_step_snoc store_after_def)
qed

section \<open>Consent and authorship\<close>

text \<open>
  C13. Nothing takes effect without the receiver: in every reachable state a packet is sealed, or received and pending,
  or some step of the run recorded a decision of it (with the state and version it has now, or before its
  supersession) by the client that owned the receiving participant at that step, or it was admitted by an
  active contract with automatic admission that lists its sender and kind, and that some step recorded for the
  client that owned the receiving participant at that step. The participant may belong to another client since, by
  an accepted continuation.
\<close>

theorem admissions_have_consent:
  "let s = store_after v roots qs pid in
     list_all (\<lambda>r. xc_state r \<in> {Sealed, Received}
       \<or> list_ex (\<lambda>e. decision_event r e \<and> at_some_step (\<lambda>s0 s1. event_by_owner s0 s1 (xc_receiver r) e) v roots qs pid) (cn_events s)
       \<or> xc_state r \<in> {Admitted, Was_Superseded} \<and> list_ex (\<lambda>c. admitting_contract pid r c
            \<and> at_some_step (\<lambda>s0 s1. contract_by_owner s0 s1 c) v roots qs pid) (cn_contracts s)) (cn_exchanges s)"
proof -
  let ?s = "store_after v roots qs pid"
  have "cn_project ?s = pid" using store_after_ok(2) [of v roots qs] by (simp add: federation_ok_def store_after_def)
  then show ?thesis
    using rightful_after [of v roots qs pid]
    by (auto simp: Let_def list_all_iff rightful_def consent_but_def consented_def decided_rightly_def contracts_owned_def list_ex_iff)
qed

text \<open>
  C12. What a project received, another one sealed: in every reachable state of the federation the envelope of every
  inbox packet is that of a sealed outbox packet in the project it names, with the same digest, and it was the client
  that the envelope names who owned the sending participant there, at the step of the run that recorded the packet.
\<close>

theorem received_packets_were_sealed:
  "let s = store_after v roots qs pid in
     list_all (\<lambda>r. if xc_role r = Inbox then
         list_ex (\<lambda>q. xc_body q = xc_body r \<and> xc_digest q = xc_digest r \<and> xc_role q = Outbox \<and> xc_state q = Sealed)
           (cn_exchanges (store_after v roots qs (xc_source r)))
         \<and> at_some_step (\<lambda>s0 s1. sealed_by_owner s0 s1 (xc_body r)) v roots qs (xc_source r)
       else True) (cn_exchanges s)"
proof -
  let ?S = "store_after v roots qs"
  have "(\<exists>q \<in> set (cn_exchanges (?S (xc_source r))). xc_body q = xc_body r \<and> xc_digest q = xc_digest r \<and> xc_role q = Outbox
      \<and> xc_state q = Sealed) \<and> at_some_step (\<lambda>s0 s1. sealed_by_owner s0 s1 (xc_body r)) v roots qs (xc_source r)"
    if r: "r \<in> set (cn_exchanges (?S pid))" "xc_role r = Inbox" for r
  proof -
    have row: "check_row v p (?S k) = Inr p" if "p \<in> set (cn_exchanges (?S k))" for p k
      using store_after_ok(1) [of v roots qs k] that by (simp add: store_ok_def packets_ok_def)
    have names: "row_names_envelope (ce_hash v) p (xc_role p)" if "p \<in> set (cn_exchanges (?S k))" for p k
      using row [OF that] by (auto simp: check_row_iff row_names_envelope_def Let_def)
    have "sealed_at (federation_after v roots qs) (xc_body r)"
      using store_after_ok(2) [of v roots qs] r by (auto simp: federation_ok_def inbox_bodies_def store_after_def)
    then obtain q where q: "q \<in> set (cn_exchanges (?S (xv_project (xc_body r))))" "xc_body q = xc_body r" "xc_role q = Outbox"
      by (auto simp: sealed_at_def store_after_def)
    have facts: "xc_source r = xv_project (xc_body r)" "xc_digest q = xc_digest r"
      using names [OF r(1)] names [OF q(1)] q(2) by (auto simp: row_names_envelope_def Let_def envelope_route_def)
    have "xc_state q = Sealed" using row [OF q(1)] q(3) by (auto simp: check_row_iff row_names_envelope_def Let_def)
    moreover have "at_some_step (\<lambda>s0 s1. sealed_by_owner s0 s1 (xc_body q)) v roots qs (xc_source r)"
      using rightful_after [of v roots qs "xc_source r"] q facts(1) by (auto simp: rightful_def authored_def)
    ultimately show ?thesis using q facts by auto
  qed
  then show ?thesis by (simp add: Let_def list_all_iff list_ex_iff)
qed

end
