(* ===== verification/Spec2Isabelle.thy ===== *)
theory Spec2Isabelle
  imports Project_Machine Plan_Progress Lane_Recovery Canon_Machine
begin

text \<open>
  Evidence Lane keeps the plan of a project, its durable jobs, the captured conversation, its grants and
  its receipts in one SQLite database per lane, and lets one engine process at a time write them. The
  program is under src/plugins/evidence-lane-plugin/src/evidence_lane_plugin; the names below are files
  and functions there.

  \<^bold>\<open>How the parts interact.\<close> A Plan (plan_runtime.py) is a revision of task contracts. Delta entry
  (adaptive_delta_entry.py) activates one ready task, admits its operation to the job queue (jobs.py) and
  records a run. The coordinator (coordination.py) claims the job for an execution, which works under a
  guard with the budget and the paths of the task, checkpoints, and prepares and confirms external
  effects. A verified exit (adaptive_delta_exit.py) writes a receipt, completes the job and the task and
  selects the next ready task, in one transaction. Host events are captured into a hash-chained history
  (lineage.py, capture_routing.py); captured input steers the Plan (steering.py), an interrupt pauses the
  project. A lost process is recovered by reconciling jobs and effects (jobs.py, job_recovery.py) and
  blocking its run. Every write runs in a transaction of the project's writer (writers.py, locking.py),
  whose lease carries a fence. A write to several lanes is a coordinated commit (lane_transactions.py): it
  copies the lane databases, journals the copies as prepared, commits the lanes one by one and publishes
  their new heads with the journal in one commit of the root database; an interrupted commit is restored
  from the copies by the next recovery. Projects exchange work through the canon lane (canon_task_graph.py):
  participants owned by engine clients, receiver-owned contracts, task edges, and packets that one project
  seals in its outbox and another receives into its inbox after it has read the sealed row; the receiver
  decides them, and a revision may supersede a decided one. A participant keeps its client until that client
  offers its participants to another one, which accepts (task_binding_registry.py): the participants move to
  the new owner with a record each, and the old client is retired. Restoring a Git commit of the sources into a
  fresh workspace (store.py) or recovering the databases from a backup (database_recovery.py) revokes the
  clients, supersedes the checkpointed jobs, closes the session and waits for a new Plan revision.

  \<^bold>\<open>State.\<close> \<open>Schema\<close> has one record per table and the record \<open>project\<close> of all tables of a project;
  rows keep the order of insertion. An operation is an \<open>action\<close>: it returns an error or a value and the
  new project (\<open>Prelude\<close>), and \<open>commit\<close> keeps the old project on an error, as a transaction does. A
  \<open>process\<close> is a sequence of transactions and file operations, whose earlier parts stay when a later one
  fails. Errors are \<open>LaneError\<close> with the code of the source or \<open>Raised\<close> with the Python exception.
  A \<open>world\<close> gives an operation its clock, its random identifiers and SHA-256; \<open>sha256\<close> is any function,
  and a property that needs it to be collision free says so.

  \<^bold>\<open>Theories.\<close>
  \<^item> \<open>Prelude\<close>: actions, their rules (\<open>run_simps\<close>, \<open>keeps_rules\<close>), tables, and the locales of state
    machines: \<open>invariant_machine\<close> and \<open>monotone_machine\<close>, interpreted on the operations of the writer,
    the queue, the grants and the history.
  \<^item> \<open>Json_Text\<close>: JSON values, \<open>json_text\<close> (storage.py) and \<open>content_digest\<close> with its parser-free
    round trip; \<open>Hash_Chain\<close>: the locale of hash-chained tables, interpreted on Plan events and on the
    visible history; \<open>Python_Values\<close>: the Python operations on decoded values.
  \<^item> \<open>Contracts\<close>: the request models of plan_runtime.py; \<open>Schema\<close>, \<open>Storage\<close> (storage.py),
    \<open>State_Law\<close> (state_law.py), \<open>Writers\<close> (writers.py, locking.py), \<open>Samples\<close>: a concrete project.
  \<^item> \<open>Jobs\<close> (jobs.py), \<open>Lineage\<close> (lineage.py), \<open>Capture\<close> (capture_routing.py, redaction.py),
    \<open>Steering\<close> (steering.py), \<open>Sessions\<close> (session.py, session_authority.py), \<open>Access\<close> (projects.py).
  \<^item> \<open>Plan_Rows\<close>, \<open>Plan_Gates\<close>, \<open>Plan_Projection\<close>, \<open>Plan_Store\<close>: the rows and events of a Plan, the
    gates of restoration and recovery, the host projection, and creation, transition and replacement.
    \<open>Restoration\<close> (store.py, database_recovery.py): preview, restoration, abandonment and reindexing of the
    sources, and the recovery of the databases.
  \<^item> \<open>Delta_Guard\<close>, \<open>Coordination\<close>, \<open>Delta\<close>: the execution guard, the coordinator's executions, and
    the entry, recovery and exit of a run; \<open>Job_Recovery\<close> (job_recovery.py).
  \<^item> \<open>Plan_Laws\<close>, \<open>Plan_Growth\<close>: the invariant \<open>plan_inv\<close> (verified event chain, one active task with
    complete dependencies in the current revision, a passed receipt for every completed task, every task
    after the tasks it depends on, every contract intact) and the relation \<open>plan_since\<close> (tables only
    grow, tasks follow \<open>plan_step\<close>), for every operation of the Plan.
  \<^item> \<open>Plan_Board\<close>, \<open>Delta_Laws\<close>: the abstract board of a revision; transitions and verified exits are
    moves on it; an ordered board never gets stuck. \<open>Plan_Progress\<close>: what a committed verified exit does to
    the rows of its revision, and how many of them a run of the machine can commit.
  \<^item> \<open>Project_Laws\<close>, \<open>Project_Steps\<close>, \<open>Project_Machine\<close>: the invariant \<open>sound\<close> of the whole database
    (Plan, history and queue), every modelled operation keeps it, and the machine of all of
    them over one project, with the execution in the coordinator's slot, process deaths and edits
    of the host file from outside.
  \<^item> \<open>Durable\<close>: processes that write a disk one durable step at a time and may lose power between two
    steps, with triples that carry a crash condition (\<open>dspec\<close>) and a count of writes (\<open>within\<close>).
    \<open>Lane_Registry\<close> (lanes.py): the lanes, their aliases and files. \<open>Lane_Disk\<close>: the root database, the
    lane databases with their rollback journals, backups, scratch and object files (storage.py).
    \<open>Lane_Commit\<close> (lane_transactions.py): preparation, commit, publication, undo and recovery.
    \<open>Lane_Laws\<close>, \<open>Lane_Prepare\<close>, \<open>Lane_Atomic\<close>: a sound disk, what it publishes, and a triple for each
    stage. \<open>Lane_Recovery\<close>: the locale \<open>crash_safe_store\<close>, interpreted on commits and recoveries that
    are each cut off anywhere, and the recovery that is left alone.
  \<^item> \<open>Canon_Rows\<close>, \<open>Canon_Graph\<close>, \<open>Canon_Exchange\<close>, \<open>Canon_Delivery\<close> (canon_task_graph.py): the rows and
    events of the exchange lane, participants and task edges, contracts and the reading of packets, and
    sending, receiving, deciding, superseding and the typed operations. \<open>Canon_Federation\<close>
    (\<open>register_canon_actions\<close>): the actions with their reads of other projects, and the federation of
    projects whose actions, reads, other work, continuations and left-over files interleave; a remote read ends before
    the local transaction begins, so it may have found any earlier state of the other project.
    \<open>Continuity\<close> (task_binding_registry.py): the offers, acceptances and cancellations by which a participant
    changes its client, with the checkpoint of the exchange lane that an offer seals. Consent and authorship
    are therefore stated of the owner at the step that recorded them, not of the present one.
  \<^item> \<open>Canon_Laws\<close>: one walk through each operation, for any invariant that its writes keep; \<open>Canon_State\<close>,
    \<open>Canon_Links\<close>, \<open>Canon_Succession\<close>, \<open>Canon_Consent\<close>, \<open>Canon_Edges\<close>, \<open>Canon_Agreement\<close>: the events and rows that
    verify, the life cycle of a packet, the chain of supersessions, the consent of the receiver, the graph
    of tasks and the projects' agreement; \<open>Canon_Machine\<close>: the properties of every federation.
  \<^item> This theory: the properties of every reachable state of that machine.

  \<^bold>\<open>Bounds.\<close> The recursions are structural or have a measure, and no code is given fuel; the trail of supersessions
  (\<open>input_in_force\<close>) is followed for as many steps as there are packets, which is proved to be enough. A run commits
  at most as many verified exits of a revision as the revision has completed tasks; a recovery of lanes needs power
  for at most four writes per lane and one for the journal, 109 for the 27 lanes the code allows. The limits of the code (50000 events of a
  history, 128 paths, 2000 tasks, 65536 bytes of an input) are written as they are. Integers are Python's
  unbounded ones; positions and sequence numbers are natural numbers, as the code only counts up from 1.

  \<^bold>\<open>Parameters.\<close> Code outside the files above enters as an argument: the file system (resolution and
  links of paths), the results of registered operations and verifiers, the tool router, the mode
  binding, for the exchange lane the instants of time stamps, \<open>uuid5\<close>, the schema of the payload and the
  owners' checks of references, \<open>redact_text\<close> (regular expressions of Python), and the checks on lanes of their own; for a
  restoration what Git shows of the source and the workspace and what the source intake publishes, for a recovery the
  manifest of the backup and what it revokes in lanes that are not modelled; for a continuation the Memory checkpoints. The
  properties hold for every value of these arguments.

  \<^bold>\<open>Not modelled.\<close> The learning, memory and extension lanes and the Universe federation, of which the first two are
  written by a verified exit too and the last two by a recovery; the rows that source intake and graph extraction
  write beside the snapshot of a graph; the directory entries of registered projects and the locator check on them; the asynchronous
  driver of Delta and of capture, whose database steps are modelled one by one and may interleave in any
  order; SQL itself and the artifacts of a lane other than its schema history; symbolic links and
  nested commits of one process; the files of a backup; the pages, the inbox, the inspection and the
  previews of the exchange lane, its envelopes from before version 4 and fields that are floats; parsers and renderers of
  documents, network clients, transports and user interfaces, whose core is code outside the repository.
\<close>

section \<open>The Plan of every reachable project\<close>

text \<open>
  C1. One active task: whatever operations ran, in whatever order, with whatever leases, deaths of the
  process and edits of the host file in between, at most one task row of the project is active.
\<close>

theorem one_active_task:
  "length (filter (\<lambda>t. pt_state t = Active) (tasks (project_after H pid rt qs))) \<le> 1"
proof -
  let ?s = "project_after H pid rt qs"
  have "rows_ok ?s" using sound_after [of H pid rt qs] by (simp add: sound_def plan_good_def plan_inv_def)
  then show ?thesis by (rule rows_ok_one_active)
qed

text \<open>
  C3. An active task is a task of the current revision whose dependencies are all completed, in every
  reachable state.
\<close>

theorem active_task_is_ready:
  "filter (\<lambda>t. pt_state t = Active
      \<and> \<not> (dependencies_done (pt_revision t) (pt_task_id t) (project_after H pid rt qs)
           \<and> map_option cur_revision (plan_head (project_after H pid rt qs)) = Some (pt_revision t)))
     (tasks (project_after H pid rt qs)) = []"
  using sound_after [of H pid rt qs]
  by (auto simp: sound_def plan_good_def plan_inv_def rows_ok_def row_ok_def done_iff filter_empty_conv)

text \<open>
  C2. Completion is verified: every completed task row of a reachable project has a \<open>delta_exit_verified\<close>
  receipt that passed, for its own task and contract, in this project.
\<close>

theorem completed_tasks_were_verified:
  "filter (\<lambda>t. pt_state t = Completed
      \<and> \<not> exit_recorded (project_after H pid rt qs) (pt_task_id t) (pt_contract_digest t))
     (tasks (project_after H pid rt qs)) = []"
  using sound_after [of H pid rt qs]
  by (auto simp: sound_def plan_good_def plan_inv_def rows_ok_def row_ok_def filter_empty_conv)

text \<open>
  C20. The Plan history always verifies: in every reachable state the verification of the event chain
  fails only for a bad budget, a missing Plan or a history longer than its budget, and otherwise counts
  every event and returns the recorded head.
\<close>

theorem plan_history_always_verifies:
  "let s = project_after H pid rt qs in
   verify_history H limit s =
    (if limit < 1 \<or> 50000 < limit then Inl (LaneError ''INVALID_HISTORY_BUDGET'')
     else case plan_head s of
         None \<Rightarrow> Inl (LaneError ''PLAN_NOT_CREATED'')
       | Some h \<Rightarrow> if limit < int (length (events s)) then Inl (LaneError ''PLAN_HISTORY_BUDGET'')
           else Inr (\<lparr>hr_revision = cur_revision h, hr_events = length (events s), hr_head = cur_event_head h\<rparr>, s))"
  unfolding Let_def
  using sound_after [of H pid rt qs] by (intro history_ok_verifies) (simp add: sound_def plan_good_def plan_inv_def)

text \<open>
  C22. The Plan tables only grow: whatever runs after a reachable state, every task row stays where it
  was with its key, position, contract and digest, and no event, revision or receipt changes or is lost.
\<close>

theorem plan_tables_only_grow:
  "let s = project_after H pid rt qs; t = project_after H pid rt (qs @ rs) in
   map (\<lambda>r. (task_key r, pt_position r, pt_definition r, pt_contract_digest r)) (take (length (tasks s)) (tasks t))
     = map (\<lambda>r. (task_key r, pt_position r, pt_definition r, pt_contract_digest r)) (tasks s)
   \<and> take (length (events s)) (events t) = events s
   \<and> take (length (revisions s)) (revisions t) = revisions s
   \<and> take (length (receipts s)) (receipts t) = receipts s"
  unfolding Let_def
  using sound_later [of H pid rt qs rs] by (intro plan_since_tables) (simp add: sound_def plan_good_def)

text \<open>
  C23. A finished task stays finished: a task row that is completed, cancelled, failed or superseded in
  a reachable state has the same state after any further operations.
\<close>

theorem finished_tasks_stay_finished:
  "let s = project_after H pid rt qs; t = project_after H pid rt (qs @ rs) in
   filter (\<lambda>(a, b). terminal (pt_state a) \<and> pt_state b \<noteq> pt_state a) (zip (tasks s) (tasks t)) = []"
  unfolding Let_def
  using sound_later [of H pid rt qs rs] by (intro plan_since_final) (simp add: sound_def plan_good_def)

text \<open>
  C21. Every stored contract reads back: in every reachable state the integrity checks of a task row
  succeed for every row of every revision: its definition is valid, has the row's identifier and
  digest, and lists exactly the dependencies of the index.
\<close>

theorem every_contract_reads_back:
  "map (view H (project_after H pid rt qs)) (tasks (project_after H pid rt qs)) = map Inr (tasks (project_after H pid rt qs))"
  using sound_after [of H pid rt qs] by (simp add: sound_def plan_good_def plan_inv_def sealed_def)

lemma reachable_ordered: "\<exists>n. ordered_upto n (project_after H pid rt qs)"
  using sound_after [of H pid rt qs]
  by (cases "plan_head (project_after H pid rt qs)") (auto simp: sound_def plan_good_def plan_inv_def order_ok_def ordered_upto_def)

text \<open>
  C5. No deadlock: in every reachable state and for every revision, the next task is selected, or all
  tasks are completed, or some task of the revision is active, blocked, failed, cancelled or superseded.
\<close>

theorem plan_never_deadlocks:
  "let s = project_after H pid rt qs in
   list_ex (\<lambda>t. next_ready rv s = Some (pt_task_id t)) (tasks_of rv s)
   \<or> list_all (\<lambda>t. pt_state t = Completed) (tasks_of rv s)
   \<or> list_ex (\<lambda>t. pt_state t \<in> {Active, Blocked, Failed, Cancelled, Superseded}) (tasks_of rv s)"
  unfolding Let_def using reachable_ordered [of H pid rt qs] by (elim exE) (rule ordered_selects)

text \<open>
  C4. The chain of verified exits makes progress and ends. In a run, with anything in between, at most as many verified
  exits of a revision commit as it has completed tasks at the end, so their number is bounded by the plan. And a
  verified exit that commits in a reachable state completes exactly one more task of its revision; it leaves the
  selected next task as the only active one, and if it selects none, no task is active and either all tasks of the
  revision are completed or some task is blocked, failed, cancelled or superseded.
\<close>

theorem verified_exits_complete_the_plan:
  "let s = project_after H pid rt qs in
     committed_exits H rv qs (empty_project pid rt, None) \<le> length (filter (\<lambda>t. pt_state t = Completed) (tasks_of rv s))
     \<and> (case verified_exit_rows (hashed H w) slot x r actor bnds ro checks v g extra s of
          Inl e \<Rightarrow> True
        | Inr ((receipt, vo, n), s') \<Rightarrow> (let ts = tasks_of (de_revision r) s' in
            length (filter (\<lambda>t. pt_state t = Completed) ts)
              = length (filter (\<lambda>t. pt_state t = Completed) (tasks_of (de_revision r) s)) + 1
            \<and> map pt_task_id (filter (\<lambda>t. pt_state t = Active) ts) = (case n of None \<Rightarrow> [] | Some tid \<Rightarrow> [tid])
            \<and> (case n of
                 None \<Rightarrow> list_all (\<lambda>t. pt_state t = Completed) ts
                   \<or> list_ex (\<lambda>t. pt_state t \<in> {Blocked, Failed, Cancelled, Superseded}) ts
               | Some tid \<Rightarrow> True)))"
proof -
  let ?s = "project_after H pid rt qs"
  note sound = sound_after [of H pid rt qs]
  have "committed_exits H rv qs (empty_project pid rt, None) \<le> length (filter (\<lambda>t. pt_state t = Completed) (tasks_of rv ?s))"
    using exits_of_run [of H "empty_project pid rt" "(empty_project pid rt, None)" rv qs] sound_empty
    by (simp add: tasks_in_def project_after_def)
  then show ?thesis
    unfolding Let_def using exit_counts [OF sound] exit_ends [OF sound hashed_simps(3)]
    by (auto simp: tasks_in_def split: sum.split prod.split option.split)
qed

section \<open>Capture and the queue beside it\<close>

text \<open>
  C29. The visible history verifies in every state of the whole program, under any digest function:
  every operation leaves the chain of captured events and their stored payloads intact.
\<close>

theorem visible_history_always_verifies:
  "let t = project_after H pid rt qs in
   verify_lineage H limit t =
    (if limit < 1 \<or> 50000 < limit then Inl (LaneError ''INVALID_HISTORY_BUDGET'')
     else if limit < int (length (lineage t)) then Inl (LaneError ''LINEAGE_HISTORY_BUDGET'')
     else Inr (length (lineage t), if lineage t = [] then None else Some (le_cursor (last (lineage t)))))"
  unfolding Let_def using sound_after [of H pid rt qs] by (intro lineage_inv_verifies) (simp add: sound_def)

text \<open>
  C24. No operation of the program, the Plan, steering, Delta and recovery included, finishes a job while
  an external effect of it has an unknown outcome.
\<close>

theorem no_job_finishes_with_open_effect:
  "filter (\<lambda>j. job_final (jb_state j) \<and> pending_effect (jb_job_id j) (project_after H pid rt qs))
     (jobs (project_after H pid rt qs)) = []"
  using sound_after [of H pid rt qs] by (intro job_inv_no_open_final) (simp add: sound_def)

end
